(* ===== verification/Prelude.thy ===== *)
theory Prelude
  imports Main "HOL-Library.Word" "HOL-Library.List_Lexorder"
begin

section \<open>Shared types, standard-library functions and lemmas\<close>

text \<open>
  What every component of the exporter uses:
  \<^item> Rust text: a \<open>String\<close> or \<open>&str\<close> is the list of its Unicode scalar values
    (\<open>rstring\<close>); \<open>lit\<close> writes an ASCII literal. Lists of numbers compare
    lexicographically, as UTF-8 text compares bytewise (the order SQLite's
    \<open>TEXT\<close> columns and Rust's \<open>Ord for str\<close> use).
  \<^item> The parts of the Rust standard library the source calls: \<open>char::is_control\<close>,
    \<open>str::split\<close>, \<open>str::trim\<close>, \<open>str::parse\<close> for integers, \<open>String::len\<close> in
    bytes, UTF-8 validation, decimal formatting.
  \<^item> Fallible code: \<open>('e, 'a) result\<close> is \<open>'e + 'a\<close>, with \<open>Err\<close> and \<open>Ok\<close> as
    abbreviations of \<open>Inl\<close> and \<open>Inr\<close>.
  \<^item> Generic facts on filters, prefixes and bounded insertion loops.
\<close>

named_theorems vocab \<open>definitions of closed vocabularies, unfolded to evaluate them\<close>
named_theorems lib_simps \<open>rewrite rules shared by the component proofs\<close>

subsection \<open>Results\<close>

type_synonym ('e, 'a) result = "'e + 'a"

abbreviation Err :: "'e \<Rightarrow> ('e, 'a) result" where "Err \<equiv> Inl"
abbreviation Ok :: "'a \<Rightarrow> ('e, 'a) result" where "Ok \<equiv> Inr"

text \<open>The question-mark operator, \<open>Result::map_err\<close>, \<open>Option::ok_or\<close> and \<open>Result::ok\<close>.\<close>

definition and_then :: "('e, 'a) result \<Rightarrow> ('a \<Rightarrow> ('e, 'b) result) \<Rightarrow> ('e, 'b) result" where
  "and_then r f = (case r of Inl e \<Rightarrow> Err e | Inr x \<Rightarrow> f x)"

definition map_err :: "('e \<Rightarrow> 'f) \<Rightarrow> ('e, 'a) result \<Rightarrow> ('f, 'a) result" where
  "map_err g r = (case r of Inl e \<Rightarrow> Err (g e) | Inr x \<Rightarrow> Ok x)"

definition ok_or :: "'e \<Rightarrow> 'a option \<Rightarrow> ('e, 'a) result" where
  "ok_or e x = (case x of None \<Rightarrow> Err e | Some v \<Rightarrow> Ok v)"

definition result_ok :: "('e, 'a) result \<Rightarrow> 'a option" where
  "result_ok r = (case r of Inl _ \<Rightarrow> None | Inr x \<Rightarrow> Some x)"

lemma and_then_simps [simp]:
  "and_then (Err e) f = Err e"
  "and_then (Ok x) f = f x"
  by (simp_all add: and_then_def)

lemma map_err_simps [simp]:
  "map_err g (Err e) = Err (g e)"
  "map_err g (Ok x) = Ok x"
  by (simp_all add: map_err_def)

lemma ok_or_simps [simp]:
  "ok_or e None = Err e"
  "ok_or e (Some x) = Ok x"
  by (simp_all add: ok_or_def)

lemma result_ok_simps [simp]:
  "result_ok (Err e) = None"
  "result_ok (Ok x) = Some x"
  by (simp_all add: result_ok_def)

lemma and_then_Ok_iff: "and_then r f = Ok y \<longleftrightarrow> (\<exists>x. r = Ok x \<and> f x = Ok y)"
  by (cases r) auto

lemma map_err_Ok_iff [simp]: "map_err g r = Ok y \<longleftrightarrow> r = Ok y"
  by (cases r) auto

lemma ok_or_Ok_iff [simp]: "ok_or e x = Ok y \<longleftrightarrow> x = Some y"
  by (cases x) auto

lemma result_ok_Some_iff [simp]: "result_ok r = Some x \<longleftrightarrow> r = Ok x"
  by (cases r) auto

text \<open>\<open>Iterator::collect\<close> into a \<open>Result\<close>: the first error wins.\<close>

fun collect_results :: "('e, 'a) result list \<Rightarrow> ('e, 'a list) result" where
  "collect_results [] = Ok []"
| "collect_results (r # rs) =
     (case r of Inl e \<Rightarrow> Err e | Inr x \<Rightarrow> and_then (collect_results rs) (\<lambda>xs. Ok (x # xs)))"

lemma collect_results_Ok_iff:
  "collect_results rs = Ok xs \<longleftrightarrow> rs = map Ok xs"
proof (induction rs arbitrary: xs)
  case Nil
  show ?case by auto
next
  case (Cons r rs)
  show ?case
    by (cases r; cases xs) (auto simp: and_then_Ok_iff Cons.IH)
qed

subsection \<open>Text\<close>

type_synonym rstring = "nat list"
type_synonym byte = "8 word"

definition lit :: "string \<Rightarrow> rstring" where
  "lit s = map of_char s"

lemma inj_lit: "inj lit"
  by (auto intro!: injI simp: lit_def inj_map_eq_map [OF inj_of_char])

lemma lit_eq_iff [simp]: "lit a = lit b \<longleftrightarrow> a = b"
  using inj_lit by (auto dest: injD)

lemma length_lit [simp]: "length (lit s) = length s"
  by (simp add: lit_def)

lemma lit_append: "lit (s @ t) = lit s @ lit t"
  by (simp add: lit_def)

lemma lit_Nil [simp]: "lit [] = []"
  by (simp add: lit_def)

lemma lit_eq_Nil_iff [simp]: "lit s = [] \<longleftrightarrow> s = []"
  by (simp add: lit_def)

text \<open>\<open>char::is_control\<close>: the Unicode general category \<open>Cc\<close>.\<close>

definition is_control :: "nat \<Rightarrow> bool" where
  "is_control c \<longleftrightarrow> c < 32 \<or> (127 \<le> c \<and> c < 160)"

text \<open>\<open>str::split\<close> by one character: always at least one segment.\<close>

fun split_on :: "'a \<Rightarrow> 'a list \<Rightarrow> 'a list list" where
  "split_on d [] = [[]]"
| "split_on d (c # cs) =
     (if c = d then [] # split_on d cs
      else (case split_on d cs of [] \<Rightarrow> [[c]] | s # ss \<Rightarrow> (c # s) # ss))"

text \<open>\<open>[T]::join\<close> with a separator of one element.\<close>

fun join_with :: "'a \<Rightarrow> 'a list list \<Rightarrow> 'a list" where
  "join_with d [] = []"
| "join_with d [s] = s"
| "join_with d (s # t # ss) = s @ d # join_with d (t # ss)"

lemma split_on_not_Nil [simp]: "split_on d cs \<noteq> []"
  by (induction cs) (auto split: list.splits)

lemma split_on_no_sep: "d \<notin> set cs \<Longrightarrow> split_on d cs = [cs]"
  by (induction cs) auto

lemma split_on_append_sep:
  "d \<notin> set s \<Longrightarrow> split_on d (s @ d # cs) = s # split_on d cs"
  by (induction s) auto

lemma split_on_join_with:
  "ss \<noteq> [] \<Longrightarrow> (\<And>s. s \<in> set ss \<Longrightarrow> d \<notin> set s) \<Longrightarrow> split_on d (join_with d ss) = ss"
proof (induction d ss rule: join_with.induct)
  case (1 d)
  then show ?case by simp
next
  case (2 d s)
  then show ?case by (simp add: split_on_no_sep)
next
  case (3 d s t ss)
  have s: "d \<notin> set s" using "3.prems" by simp
  have "split_on d (join_with d (t # ss)) = t # ss"
    using "3.prems" by (intro "3.IH") auto
  then show ?case by (simp add: split_on_append_sep [OF s])
qed

lemma join_with_split_on: "join_with d (split_on d cs) = cs"
proof (induction cs)
  case Nil
  show ?case by simp
next
  case (Cons c cs)
  obtain s ss where s: "split_on d cs = s # ss"
    by (cases "split_on d cs") auto
  show ?case
    using Cons.IH by (cases ss) (auto simp: s)
qed

lemma length_join_with_le:
  assumes "\<And>s. s \<in> set ss \<Longrightarrow> length s \<le> b"
  shows "length (join_with d ss) \<le> length ss * (b + 1)"
  using assms
proof (induction d ss rule: join_with.induct)
  case (1 d)
  show ?case by simp
next
  case (2 d s)
  have "length s \<le> b" using "2.prems" by simp
  then show ?case by simp
next
  case (3 d s t ss)
  have "length s \<le> b" using "3.prems" by simp
  moreover have "length (join_with d (t # ss)) \<le> length (t # ss) * (b + 1)"
    using "3.prems" by (intro "3.IH") auto
  ultimately show ?case by simp
qed

text \<open>
  \<open>str::trim\<close> removes characters with the Unicode property \<open>White_Space\<close> from both ends;
  \<open>str::to_ascii_lowercase\<close> moves \<open>A\<close> to \<open>Z\<close>; \<open>u8::is_ascii_alphanumeric\<close>.
\<close>

definition is_whitespace :: "nat \<Rightarrow> bool" where
  "is_whitespace c \<longleftrightarrow>
     (9 \<le> c \<and> c \<le> 13) \<or> c = 32 \<or> c = 133 \<or> c = 160 \<or> c = 5760 \<or> (8192 \<le> c \<and> c \<le> 8202)
     \<or> c = 8232 \<or> c = 8233 \<or> c = 8239 \<or> c = 8287 \<or> c = 12288"

definition trim :: "rstring \<Rightarrow> rstring" where
  "trim s = rev (dropWhile is_whitespace (rev (dropWhile is_whitespace s)))"

definition ascii_lowercase_char :: "nat \<Rightarrow> nat" where
  "ascii_lowercase_char c = (if 65 \<le> c \<and> c \<le> 90 then c + 32 else c)"

definition to_ascii_lowercase :: "rstring \<Rightarrow> rstring" where
  "to_ascii_lowercase s = map ascii_lowercase_char s"

definition is_ascii_alphanumeric :: "nat \<Rightarrow> bool" where
  "is_ascii_alphanumeric c \<longleftrightarrow>
     (48 \<le> c \<and> c \<le> 57) \<or> (65 \<le> c \<and> c \<le> 90) \<or> (97 \<le> c \<and> c \<le> 122)"

lemma ascii_lowercase_idem [simp]:
  "ascii_lowercase_char (ascii_lowercase_char c) = ascii_lowercase_char c"
  by (simp add: ascii_lowercase_char_def)

lemma to_ascii_lowercase_idem [simp]:
  "to_ascii_lowercase (to_ascii_lowercase s) = to_ascii_lowercase s"
  by (simp add: to_ascii_lowercase_def)

lemma trim_no_whitespace: "(\<forall>c \<in> set s. \<not> is_whitespace c) \<Longrightarrow> trim s = s"
proof -
  assume s: "\<forall>c \<in> set s. \<not> is_whitespace c"
  have *: "dropWhile is_whitespace t = t" if "\<forall>c \<in> set t. \<not> is_whitespace c" for t
    using that by (cases t) auto
  show "trim s = s" using s by (simp add: trim_def *)
qed

subsection \<open>UTF-8\<close>

text \<open>\<open>char::len_utf8\<close>, \<open>String::len\<close> and \<open>str::as_bytes\<close>.\<close>

definition utf8_char :: "nat \<Rightarrow> nat list" where
  "utf8_char c =
     (if c < 128 then [c]
      else if c < 2048 then [192 + c div 64, 128 + c mod 64]
      else if c < 65536 then [224 + c div 4096, 128 + (c div 64) mod 64, 128 + c mod 64]
      else [240 + c div 262144, 128 + (c div 4096) mod 64, 128 + (c div 64) mod 64,
            128 + c mod 64])"

definition utf8_numbers :: "rstring \<Rightarrow> nat list" where
  "utf8_numbers s = concat (map utf8_char s)"

definition as_bytes :: "rstring \<Rightarrow> byte list" where
  "as_bytes s = map of_nat (utf8_numbers s)"

definition byte_len :: "rstring \<Rightarrow> nat" where
  "byte_len s = length (as_bytes s)"

text \<open>A Unicode scalar value: what a Rust \<open>char\<close> can hold.\<close>

definition scalar_value :: "nat \<Rightarrow> bool" where
  "scalar_value c \<longleftrightarrow> c < 55296 \<or> (57344 \<le> c \<and> c < 1114112)"

text \<open>\<open>str::from_utf8\<close> as a test: the well-formed byte sequences of the Unicode standard.\<close>

fun utf8_valid :: "nat list \<Rightarrow> bool" where
  "utf8_valid [] = True"
| "utf8_valid (a # bs) =
     (if a < 128 then utf8_valid bs
      else if 194 \<le> a \<and> a \<le> 223 then
        (case bs of b # r \<Rightarrow> 128 \<le> b \<and> b \<le> 191 \<and> utf8_valid r | _ \<Rightarrow> False)
      else if 224 \<le> a \<and> a \<le> 239 then
        (case bs of b # c # r \<Rightarrow>
           (if a = 224 then 160 else 128) \<le> b \<and> b \<le> (if a = 237 then 159 else 191)
           \<and> 128 \<le> c \<and> c \<le> 191 \<and> utf8_valid r | _ \<Rightarrow> False)
      else if 240 \<le> a \<and> a \<le> 244 then
        (case bs of b # c # d # r \<Rightarrow>
           (if a = 240 then 144 else 128) \<le> b \<and> b \<le> (if a = 244 then 143 else 191)
           \<and> 128 \<le> c \<and> c \<le> 191 \<and> 128 \<le> d \<and> d \<le> 191 \<and> utf8_valid r | _ \<Rightarrow> False)
      else False)"

lemma mod_64_of_quotient:
  fixes c :: nat
  assumes "c div 64 = k"
  shows "c mod 64 = c - 64 * k"
  using assms by (auto simp: modulo_nat_def)

lemma utf8_valid_char_append:
  assumes "scalar_value c"
  shows "utf8_valid (utf8_char c @ bs) = utf8_valid bs"
proof -
  consider "c < 128" | "128 \<le> c \<and> c < 2048" | "2048 \<le> c \<and> c < 65536" | "65536 \<le> c" by linarith
  then show ?thesis
  proof cases
    case 1
    then show ?thesis by (simp add: utf8_char_def)
  next
    case 2
    then have "2 \<le> c div 64" "c div 64 \<le> 31" by auto
    then show ?thesis using 2 by (auto simp: utf8_char_def)
  next
    case 3
    then have q: "c div 4096 \<le> 15" by auto
    have b1: "32 \<le> (c div 64) mod 64" if z: "c div 4096 = 0"
    proof -
      from z have "c < 4096" by (simp add: div_eq_0_iff)
      then have "c div 64 < 64" "32 \<le> c div 64" using 3 by auto
      then show ?thesis by simp
    qed
    have b2: "(c div 64) mod 64 \<le> 31" if z: "c div 4096 = 13"
    proof -
      have "c < 57344" using z by linarith
      then have "c < 55296" using assms by (simp add: scalar_value_def)
      then have "c div 64 < 864" by (simp add: div_less_iff_less_mult)
      moreover have "(c div 64) div 64 = 13" using z by (simp flip: div_mult2_eq)
      ultimately show ?thesis by (simp add: mod_64_of_quotient)
    qed
    have m: "(c div 64) mod 64 < 64" "c mod 64 < 64" by auto
    show ?thesis using 3 q b1 b2 m by (auto simp: utf8_char_def)
  next
    case 4
    then have q: "c div 262144 \<le> 4" using assms by (auto simp: scalar_value_def)
    have b1: "16 \<le> (c div 4096) mod 64" if z: "c div 262144 = 0"
    proof -
      from z have "c < 262144" by (simp add: div_eq_0_iff)
      then have "c div 4096 < 64" "16 \<le> c div 4096" using 4 by auto
      then show ?thesis by simp
    qed
    have b2: "(c div 4096) mod 64 \<le> 15" if z: "c div 262144 = 4"
    proof -
      have "c < 1114112" using assms 4 by (simp add: scalar_value_def)
      then have "c div 4096 < 272" by (simp add: div_less_iff_less_mult)
      moreover have "(c div 4096) div 64 = 4" using z by (simp flip: div_mult2_eq)
      ultimately show ?thesis by (simp add: mod_64_of_quotient)
    qed
    have m: "(c div 4096) mod 64 < 64" "(c div 64) mod 64 < 64" "c mod 64 < 64" by auto
    show ?thesis using 4 q b1 b2 m by (auto simp: utf8_char_def)
  qed
qed

lemma utf8_valid_numbers: "(\<forall>c \<in> set s. scalar_value c) \<Longrightarrow> utf8_valid (utf8_numbers s)"
  by (induction s) (auto simp: utf8_numbers_def utf8_valid_char_append)

lemma utf8_char_lt_256: "scalar_value c \<Longrightarrow> b \<in> set (utf8_char c) \<Longrightarrow> b < 256"
  by (auto simp: utf8_char_def scalar_value_def split: if_splits)

lemma unat_as_bytes:
  assumes "\<forall>c \<in> set s. scalar_value c"
  shows "map unat (as_bytes s) = utf8_numbers s"
proof -
  have "b < 256" if "b \<in> set (utf8_numbers s)" for b
    using that assms utf8_char_lt_256 by (fastforce simp: utf8_numbers_def)
  then show ?thesis
    unfolding as_bytes_def map_map
    by (intro map_idI) (simp add: unat_of_nat)
qed

subsection \<open>Decimal text and \<open>str::parse\<close>\<close>

fun decimal :: "nat \<Rightarrow> rstring" where
  "decimal n = (if n < 10 then [48 + n] else decimal (n div 10) @ [48 + n mod 10])"

declare decimal.simps [simp del]

definition show_i64 :: "int \<Rightarrow> rstring" where
  "show_i64 z = (if z < 0 then 45 # decimal (nat (- z)) else decimal (nat z))"

definition is_digit :: "nat \<Rightarrow> bool" where
  "is_digit c \<longleftrightarrow> 48 \<le> c \<and> c \<le> 57"

definition digits_value :: "rstring \<Rightarrow> nat" where
  "digits_value ds = foldl (\<lambda>v c. 10 * v + (c - 48)) 0 ds"

text \<open>
  \<open>FromStr\<close> of the integer types: an optional sign (only \<open>+\<close> for the unsigned types), then
  one or more ASCII digits, and an error on overflow.
\<close>

definition parse_digits :: "rstring \<Rightarrow> nat option" where
  "parse_digits ds = (if ds \<noteq> [] \<and> list_all is_digit ds then Some (digits_value ds) else None)"

definition strip_plus :: "rstring \<Rightarrow> rstring" where
  "strip_plus s = (case s of c # cs \<Rightarrow> if c = 43 then cs else s | [] \<Rightarrow> [])"

definition u64_max :: nat where "u64_max = 18446744073709551615"
definition i64_max :: nat where "i64_max = 9223372036854775807"
definition i32_max :: nat where "i32_max = 2147483647"

definition parse_u64 :: "rstring \<Rightarrow> nat option" where
  "parse_u64 s = (case parse_digits (strip_plus s) of
     None \<Rightarrow> None | Some n \<Rightarrow> if n \<le> u64_max then Some n else None)"

definition parse_signed :: "nat \<Rightarrow> rstring \<Rightarrow> int option" where
  "parse_signed maximum s =
     (case s of
        c # cs \<Rightarrow>
          if c = 45 then
            (case parse_digits cs of
               None \<Rightarrow> None | Some n \<Rightarrow> if n \<le> maximum + 1 then Some (- int n) else None)
          else
            (case parse_digits (strip_plus s) of
               None \<Rightarrow> None | Some n \<Rightarrow> if n \<le> maximum then Some (int n) else None)
      | [] \<Rightarrow> None)"

definition parse_i64 :: "rstring \<Rightarrow> int option" where "parse_i64 = parse_signed i64_max"
definition parse_i32 :: "rstring \<Rightarrow> int option" where "parse_i32 = parse_signed i32_max"

lemma decimal_digits: "list_all is_digit (decimal n)"
proof (induction n rule: decimal.induct)
  case (1 n)
  have "n mod 10 < 10" by simp
  then show ?case
    by (subst decimal.simps) (auto simp: is_digit_def intro!: "1.IH" simp del: mod_less_divisor)
qed

lemma decimal_not_Nil [simp]: "decimal n \<noteq> []"
  by (subst decimal.simps) auto

lemma digits_value_decimal: "digits_value (decimal n) = n"
proof (induction n rule: decimal.induct)
  case (1 n)
  show ?case
  proof (cases "n < 10")
    case True
    then show ?thesis by (subst decimal.simps) (simp add: digits_value_def)
  next
    case False
    then have "digits_value (decimal n) = 10 * digits_value (decimal (n div 10)) + n mod 10"
      by (subst decimal.simps) (simp add: digits_value_def)
    with False show ?thesis by (simp add: "1.IH")
  qed
qed

lemma decimal_inj: "decimal m = decimal n \<Longrightarrow> m = n"
  by (metis digits_value_decimal)

lemma show_i64_inj:
  assumes "0 \<le> a" "0 \<le> b" "show_i64 a = show_i64 b"
  shows "a = b"
  using assms decimal_inj [of "nat a" "nat b"] by (simp add: show_i64_def)

lemma strip_plus_decimal [simp]: "strip_plus (decimal n) = decimal n"
  using decimal_digits [of n]
  by (cases "decimal n") (auto simp: strip_plus_def is_digit_def)

lemma parse_u64_decimal: "n \<le> u64_max \<Longrightarrow> parse_u64 (decimal n) = Some n"
  by (simp add: parse_u64_def parse_digits_def decimal_digits digits_value_decimal)

lemma parse_u64_le: "parse_u64 s = Some n \<Longrightarrow> n \<le> u64_max"
  by (auto simp: parse_u64_def split: option.splits if_splits)

subsection \<open>Text ranges\<close>

lemma decimal_no_char: "c < 48 \<or> 57 < c \<Longrightarrow> c \<notin> set (decimal n)"
  using decimal_digits [of n] by (auto simp: list_all_iff is_digit_def)

end
