(* ===== verification/Json.thy ===== *)
theory Json
  imports Prelude
begin

section \<open>JSON bodies and derived deserializers\<close>

text \<open>
  What the request projections use of \<open>serde\<close> and \<open>serde_json\<close>. The parser itself is a parameter
  (\<open>serde_json::from_slice\<close> read as a tree); this theory holds the documented behaviour of the
  deserializers the projections derive, over that tree:
  \<^item> an object lists its members in the order of the text, repetitions included; an integer is one
    in the range of \<open>i64\<close> or \<open>u64\<close>, every other number is \<open>JFloat\<close>; \<open>JUnreadable\<close> is a value
    that can be skipped and not read (a number out of range, a lone surrogate, too deep a nesting),
    and an object with such a key;
  \<^item> a derived struct reads an object, ignoring unknown members and refusing a repeated field, or an
    array of its fields in order;
  \<^item> an \<open>Option\<close> field may be absent or \<open>null\<close>, a \<open>#[serde(default)]\<close> field may be absent.
\<close>

datatype json =
    JNull
  | JBool bool
  | JInt int
  | JFloat
  | JString rstring
  | JArray "json list"
  | JObject "(rstring \<times> json) list"
  | JUnreadable

type_synonym 'a reader = "json \<Rightarrow> 'a option"

subsection \<open>Values\<close>

fun readable :: "json \<Rightarrow> bool" where
  "readable (JArray vs) \<longleftrightarrow> list_all readable vs"
| "readable (JObject ms) \<longleftrightarrow> list_all (\<lambda>m. readable (snd m)) ms"
| "readable JUnreadable \<longleftrightarrow> False"
| "readable v \<longleftrightarrow> True"

definition read_value :: "json reader" where
  "read_value v = (if readable v then Some v else None)"

definition read_i64 :: "int reader" where
  "read_i64 v = (case v of
     JInt i \<Rightarrow> if - 9223372036854775808 \<le> i \<and> i \<le> 9223372036854775807 then Some i else None
   | _ \<Rightarrow> None)"

definition read_string :: "rstring reader" where
  "read_string v = (case v of JString s \<Rightarrow> Some s | _ \<Rightarrow> None)"

definition read_bool :: "bool reader" where
  "read_bool v = (case v of JBool b \<Rightarrow> Some b | _ \<Rightarrow> None)"

definition read_option :: "'a reader \<Rightarrow> 'a option reader" where
  "read_option r v = (case v of JNull \<Rightarrow> Some None | _ \<Rightarrow> map_option Some (r v))"

fun read_all :: "'a reader \<Rightarrow> json list \<Rightarrow> 'a list option" where
  "read_all r [] = Some []"
| "read_all r (v # vs) =
     (case r v of None \<Rightarrow> None | Some x \<Rightarrow> map_option ((#) x) (read_all r vs))"

definition read_vec :: "'a reader \<Rightarrow> 'a list reader" where
  "read_vec r v = (case v of JArray vs \<Rightarrow> read_all r vs | _ \<Rightarrow> None)"

text \<open>\<open>serde_json::Value::as_str\<close>.\<close>

definition value_as_str :: "json \<Rightarrow> rstring option" where
  "value_as_str v = (case v of JString s \<Rightarrow> Some s | _ \<Rightarrow> None)"

definition optional_str :: "json option \<Rightarrow> rstring option" where
  "optional_str v = Option.bind v value_as_str"

subsection \<open>Derived structs\<close>

text \<open>
  The fields of a struct by name, with whether they have a default. The result lists the member of
  each field, \<open>None\<close> where it is absent.
\<close>

definition object_member :: "(rstring \<times> json) list \<Rightarrow> rstring \<Rightarrow> json option option" where
  "object_member ms name =
     (case filter (\<lambda>m. fst m = name) ms of
        [] \<Rightarrow> Some None | [m] \<Rightarrow> Some (Some (snd m)) | _ \<Rightarrow> None)"

fun object_members :: "(rstring \<times> json) list \<Rightarrow> (rstring \<times> bool) list \<Rightarrow> json option list option" where
  "object_members ms [] = Some []"
| "object_members ms (f # fs) =
     (case object_member ms (fst f) of
        None \<Rightarrow> None
      | Some v \<Rightarrow> map_option ((#) v) (object_members ms fs))"

fun array_members :: "json list \<Rightarrow> (rstring \<times> bool) list \<Rightarrow> json option list option" where
  "array_members [] [] = Some []"
| "array_members (v # vs) [] = None"
| "array_members [] (f # fs) = (if snd f then map_option ((#) None) (array_members [] fs) else None)"
| "array_members (v # vs) (f # fs) = map_option ((#) (Some v)) (array_members vs fs)"

definition struct_members :: "(rstring \<times> bool) list \<Rightarrow> json \<Rightarrow> json option list option" where
  "struct_members fields v = (case v of
     JObject ms \<Rightarrow> object_members ms fields
   | JArray vs \<Rightarrow> array_members vs fields
   | _ \<Rightarrow> None)"

definition required :: "'a reader \<Rightarrow> json option \<Rightarrow> 'a option" where
  "required r m = Option.bind m r"

definition optional :: "'a reader \<Rightarrow> json option \<Rightarrow> 'a option option" where
  "optional r m = (case m of None \<Rightarrow> Some None | Some v \<Rightarrow> read_option r v)"

definition defaulted :: "'a \<Rightarrow> 'a reader \<Rightarrow> json option \<Rightarrow> 'a option" where
  "defaulted d r m = (case m of None \<Rightarrow> Some d | Some v \<Rightarrow> r v)"

text \<open>\<open>#[serde(deny_unknown_fields)]\<close>.\<close>

definition no_unknown_members :: "(rstring \<times> bool) list \<Rightarrow> json \<Rightarrow> bool" where
  "no_unknown_members fields v = (case v of
     JObject ms \<Rightarrow> list_all (\<lambda>m. fst m \<in> set (map fst fields)) ms | _ \<Rightarrow> True)"

lemmas reader_defs =
  read_value_def read_i64_def read_string_def read_bool_def read_option_def read_vec_def
  struct_members_def required_def optional_def defaulted_def object_member_def

lemma length_object_members: "object_members ms fs = Some xs \<Longrightarrow> length xs = length fs"
  by (induction ms fs arbitrary: xs rule: object_members.induct) (auto split: option.splits)

lemma length_array_members: "array_members vs fs = Some xs \<Longrightarrow> length xs = length fs"
  by (induction vs fs arbitrary: xs rule: array_members.induct) (auto split: if_splits)

lemma length_struct_members: "struct_members fs v = Some xs \<Longrightarrow> length xs = length fs"
  by (auto simp: struct_members_def length_object_members length_array_members split: json.splits)

lemma read_all_map:
  "read_all r vs = Some xs \<longleftrightarrow> map r vs = map Some xs"
proof (induction vs arbitrary: xs)
  case (Cons v vs)
  show ?case
  proof (cases "r v")
    case (Some x)
    then show ?thesis by (cases xs) (auto simp: Cons.IH)
  qed (cases xs, auto)
qed auto

lemma length_read_all: "read_all r vs = Some xs \<Longrightarrow> length xs = length vs"
  unfolding read_all_map by (metis length_map)

text \<open>
  A struct that reads a subset of the fields of another, from the same object, reads the same
  members.
\<close>

lemma object_members_nth:
  assumes "object_members ms fs = Some xs" and "i < length fs"
  shows "object_member ms (fst (fs ! i)) = Some (xs ! i)"
  using assms
proof (induction ms fs arbitrary: xs i rule: object_members.induct)
  case (2 ms f fs)
  then show ?case by (cases i) (auto split: option.splits)
qed simp

end
