(* ===== verification/Domain.thy ===== *)
theory Domain
  imports Prelude
begin

section \<open>Domain values: identifiers, queue vocabulary, completions\<close>

text \<open>
  \<open>src/domain/delivery.rs\<close>, \<open>src/domain/repository.rs\<close> and
  \<open>src/domain/merge_queue.rs\<close>. Instants (\<open>OffsetDateTime\<close>) are nanoseconds since the Unix
  epoch; the offset they were written with is irrelevant after \<open>to_offset(UTC)\<close>. The parsing and
  formatting functions of the \<open>time\<close> and \<open>uuid\<close> crates are not part of the repository: they
  are the fields of \<open>time_lib\<close> and an argument \<open>parse_str\<close>. Identifiers are \<open>i64\<close>
  values on which the code computes nothing, so they are integers.
\<close>

type_synonym instant = int

record time_lib =
  parse_rfc3339 :: "rstring \<Rightarrow> instant option"
  format_millis :: "instant \<Rightarrow> rstring option"
  datetime_checked_sub :: "instant \<Rightarrow> int \<Rightarrow> instant option"

subsection \<open>Delivery identifiers\<close>

datatype 'u delivery_id = DeliveryId 'u

datatype delivery_id_error = DeliveryIdError

definition delivery_id_parse ::
  "(rstring \<Rightarrow> 'u option) \<Rightarrow> rstring \<Rightarrow> (delivery_id_error, 'u delivery_id) result" where
  "delivery_id_parse parse_str v =
     (case parse_str v of None \<Rightarrow> Err DeliveryIdError | Some u \<Rightarrow> Ok (DeliveryId u))"

definition delivery_id_encode_lower :: "('u \<Rightarrow> rstring) \<Rightarrow> 'u delivery_id \<Rightarrow> rstring" where
  "delivery_id_encode_lower hyphenated d = (case d of DeliveryId u \<Rightarrow> hyphenated u)"

subsection \<open>Repository identifiers and pull-request numbers\<close>

datatype repository_id = RepositoryId (repository_id_get: int)

definition repository_id_new :: "int \<Rightarrow> repository_id option" where
  "repository_id_new v = (if v > 0 then Some (RepositoryId v) else None)"

definition repository_id_from_database :: "int \<Rightarrow> repository_id option" where
  "repository_id_from_database v = repository_id_new v"

datatype pull_request_number = PullRequestNumber (pull_request_number_get: int)

datatype pull_request_number_error = PullRequestNumberError

definition pull_request_number_new ::
  "int \<Rightarrow> (pull_request_number_error, pull_request_number) result" where
  "pull_request_number_new v =
     (if v > 0 then Ok (PullRequestNumber v) else Err PullRequestNumberError)"

lemma repository_id_new_Some_iff:
  "repository_id_new v = Some r \<longleftrightarrow> 0 < v \<and> r = RepositoryId v"
  by (auto simp: repository_id_new_def)

lemma pull_request_number_new_Ok_iff:
  "pull_request_number_new v = Ok n \<longleftrightarrow> 0 < v \<and> n = PullRequestNumber v"
  by (auto simp: pull_request_number_new_def)

subsection \<open>Queue timestamps\<close>

record queue_timestamp =
  canonical :: rstring
  instant_of :: instant

datatype queue_timestamp_error = QueueTimestampError

definition queue_timestamp_from_datetime ::
  "time_lib \<Rightarrow> instant \<Rightarrow> (queue_timestamp_error, queue_timestamp) result" where
  "queue_timestamp_from_datetime clk t =
     (case format_millis clk t of
        None \<Rightarrow> Err QueueTimestampError
      | Some c \<Rightarrow> Ok \<lparr>canonical = c, instant_of = t\<rparr>)"

definition queue_timestamp_parse ::
  "time_lib \<Rightarrow> rstring \<Rightarrow> (queue_timestamp_error, queue_timestamp) result" where
  "queue_timestamp_parse clk v =
     (case parse_rfc3339 clk v of
        None \<Rightarrow> Err QueueTimestampError
      | Some t \<Rightarrow> queue_timestamp_from_datetime clk t)"

definition duration_since :: "queue_timestamp \<Rightarrow> queue_timestamp \<Rightarrow> int" where
  "duration_since later earlier = instant_of later - instant_of earlier"

lemma queue_timestamp_from_datetime_Ok_iff:
  "queue_timestamp_from_datetime clk t = Ok q \<longleftrightarrow>
     format_millis clk t = Some (canonical q) \<and> instant_of q = t"
  by (cases q) (auto simp: queue_timestamp_from_datetime_def split: option.splits)

subsection \<open>Outcome and reason vocabularies\<close>

datatype queue_outcome = Pending | Succeeded | Failed | Cancelled | Unknown

datatype queue_value_error = QueueValueError

definition queue_outcome_as_str :: "queue_outcome \<Rightarrow> rstring" where
  "queue_outcome_as_str x = (case x of
     queue_outcome.Pending \<Rightarrow> lit ''pending''
   | queue_outcome.Succeeded \<Rightarrow> lit ''succeeded''
   | queue_outcome.Failed \<Rightarrow> lit ''failed''
   | queue_outcome.Cancelled \<Rightarrow> lit ''cancelled''
   | queue_outcome.Unknown \<Rightarrow> lit ''unknown'')"

definition queue_outcome_parse :: "rstring \<Rightarrow> (queue_value_error, queue_outcome) result" where
  "queue_outcome_parse v =
     (if v = lit ''pending'' then Ok queue_outcome.Pending
      else if v = lit ''succeeded'' then Ok queue_outcome.Succeeded
      else if v = lit ''failed'' then Ok queue_outcome.Failed
      else if v = lit ''cancelled'' then Ok queue_outcome.Cancelled
      else if v = lit ''unknown'' then Ok queue_outcome.Unknown
      else Err QueueValueError)"

datatype queue_reason_code = None' | PullRequestMerged | UnclassifiedDequeue

definition queue_reason_code_as_str :: "queue_reason_code \<Rightarrow> rstring" where
  "queue_reason_code_as_str x = (case x of
     queue_reason_code.None' \<Rightarrow> lit ''none''
   | queue_reason_code.PullRequestMerged \<Rightarrow> lit ''pull_request_merged''
   | queue_reason_code.UnclassifiedDequeue \<Rightarrow> lit ''unclassified_dequeue'')"

definition queue_reason_code_parse :: "rstring \<Rightarrow> (queue_value_error, queue_reason_code) result" where
  "queue_reason_code_parse v =
     (if v = lit ''none'' then Ok queue_reason_code.None'
      else if v = lit ''pull_request_merged'' then Ok queue_reason_code.PullRequestMerged
      else if v = lit ''unclassified_dequeue'' then Ok queue_reason_code.UnclassifiedDequeue
      else Err QueueValueError)"

lemmas queue_vocabulary_defs [vocab] =
  queue_outcome_as_str_def queue_outcome_parse_def
  queue_reason_code_as_str_def queue_reason_code_parse_def

lemma queue_outcome_parse_iff:
  "queue_outcome_parse v = Ok x \<longleftrightarrow> v = queue_outcome_as_str x"
  by (cases x) (auto simp: vocab)

lemma queue_reason_code_parse_iff:
  "queue_reason_code_parse v = Ok x \<longleftrightarrow> v = queue_reason_code_as_str x"
  by (cases x) (auto simp: vocab)

lemma queue_outcome_as_str_inj [simp]:
  "queue_outcome_as_str x = queue_outcome_as_str y \<longleftrightarrow> x = y"
  by (cases x; cases y) (simp_all add: vocab)

subsection \<open>Terminal completions\<close>

text \<open>
  The fields of \<open>QueueCompletion\<close> are private: its only values are those of its two
  constructors, which \<open>supported_completion\<close> states.
\<close>

record queue_completion =
  completed_at :: queue_timestamp
  outcome :: queue_outcome
  reason_code :: queue_reason_code

definition completion_pull_request_merged :: "queue_timestamp \<Rightarrow> queue_completion" where
  "completion_pull_request_merged t =
     \<lparr>completed_at = t, outcome = queue_outcome.Succeeded,
      reason_code = queue_reason_code.PullRequestMerged\<rparr>"

definition completion_unclassified_dequeue :: "queue_timestamp \<Rightarrow> queue_completion" where
  "completion_unclassified_dequeue t =
     \<lparr>completed_at = t, outcome = queue_outcome.Unknown,
      reason_code = queue_reason_code.UnclassifiedDequeue\<rparr>"

definition supported_completion :: "queue_completion \<Rightarrow> bool" where
  "supported_completion c \<longleftrightarrow>
     c = completion_pull_request_merged (completed_at c)
     \<or> c = completion_unclassified_dequeue (completed_at c)"

lemma supported_completions [simp]:
  "supported_completion (completion_pull_request_merged t)"
  "supported_completion (completion_unclassified_dequeue t)"
  by (simp_all add: supported_completion_def completion_pull_request_merged_def
      completion_unclassified_dequeue_def)

lemma supported_completion_terminal:
  "supported_completion c \<Longrightarrow> outcome c \<noteq> queue_outcome.Pending"
  by (cases c) (auto simp: supported_completion_def completion_pull_request_merged_def
      completion_unclassified_dequeue_def)

text \<open>A clock whose texts are single characters, for the witnesses.\<close>

definition sample_clock :: time_lib where
  "sample_clock =
     \<lparr>parse_rfc3339 = (\<lambda>s. case s of [c] \<Rightarrow> Some (int c) | _ \<Rightarrow> None),
      format_millis = (\<lambda>t. if 0 \<le> t then Some [nat t] else None),
      datetime_checked_sub = (\<lambda>t d. Some (t - d))\<rparr>"

end
