(* ===== verification/Security.thy ===== *)
theory Security
  imports Prelude
begin

section \<open>Security primitives: names, secrets, the cipher, bearer and signature checks\<close>

text \<open>
  \<open>src/security/mod.rs\<close>, \<open>secret_cipher.rs\<close>, \<open>admin_auth.rs\<close> and the parser of
  \<open>webhook_auth.rs\<close>. HKDF, AES-256-GCM, SHA-256, HMAC and the \<open>hex\<close> crate are not part of
  the repository: they are the fields of \<open>crypto_lib\<close>, and what is proved of the code that
  relies on them names their documented laws as hypotheses. A nonce the operating system's generator
  returns is an argument. Zeroizing containers hold their contents.
\<close>

record crypto_lib =
  hkdf_sha256_expand :: "byte list \<Rightarrow> byte list \<Rightarrow> nat \<Rightarrow> byte list option"
  aes_key_accepted :: "byte list \<Rightarrow> bool"
  aes_gcm_encrypt :: "byte list \<Rightarrow> byte list \<Rightarrow> byte list \<Rightarrow> byte list \<Rightarrow> byte list option"
  aes_gcm_decrypt :: "byte list \<Rightarrow> byte list \<Rightarrow> byte list \<Rightarrow> byte list \<Rightarrow> byte list option"
  sha256 :: "byte list \<Rightarrow> byte list"
  hmac_sha256 :: "byte list \<Rightarrow> byte list \<Rightarrow> byte list option"
  hex_decode :: "byte list \<Rightarrow> byte list option"

datatype security_error =
    InvalidMasterKeyLength | InvalidAdminToken | InvalidRepositorySecretLength
  | InvalidRepositoryName | InvalidEncryptedSecret | UnsupportedEncryptionVersion nat
  | KeyDerivationFailed | EncryptionFailed | DecryptionFailed

definition MASTER_KEY_LENGTH :: nat where "MASTER_KEY_LENGTH = 32"
definition MIN_ADMIN_TOKEN_LENGTH :: nat where "MIN_ADMIN_TOKEN_LENGTH = 32"
definition NONCE_LENGTH :: nat where "NONCE_LENGTH = 12"
definition GCM_TAG_LENGTH :: nat where "GCM_TAG_LENGTH = 16"
definition MAX_REPOSITORY_SECRET_LENGTH :: nat where "MAX_REPOSITORY_SECRET_LENGTH = 65536"
definition MAX_REPOSITORY_NAME_SEGMENT_LENGTH :: nat where
  "MAX_REPOSITORY_NAME_SEGMENT_LENGTH = 100"
definition REPOSITORY_SECRET_ENCRYPTION_VERSION :: nat where
  "REPOSITORY_SECRET_ENCRYPTION_VERSION = 1"
definition DERIVED_KEY_LENGTH :: nat where "DERIVED_KEY_LENGTH = 32"
definition KEY_DERIVATION_CONTEXT :: rstring where
  "KEY_DERIVATION_CONTEXT = lit ''github-webhook-exporter/repository-secret/v1''"

lemmas security_constants [vocab] =
  MASTER_KEY_LENGTH_def MIN_ADMIN_TOKEN_LENGTH_def NONCE_LENGTH_def GCM_TAG_LENGTH_def
  MAX_REPOSITORY_SECRET_LENGTH_def MAX_REPOSITORY_NAME_SEGMENT_LENGTH_def
  REPOSITORY_SECRET_ENCRYPTION_VERSION_def DERIVED_KEY_LENGTH_def KEY_DERIVATION_CONTEXT_def

subsection \<open>Validated secrets\<close>

datatype master_key = MasterKey "byte list"

definition master_key_from_slice :: "byte list \<Rightarrow> (security_error, master_key) result" where
  "master_key_from_slice bytes =
     (if length bytes \<noteq> MASTER_KEY_LENGTH then Err InvalidMasterKeyLength
      else Ok (MasterKey bytes))"

datatype admin_token = AdminToken (admin_token_expose: rstring)

definition admin_token_new :: "rstring \<Rightarrow> (security_error, admin_token) result" where
  "admin_token_new token =
     (if byte_len token < MIN_ADMIN_TOKEN_LENGTH then Err InvalidAdminToken
      else Ok (AdminToken token))"

definition valid_repository_secret_bytes :: "byte list \<Rightarrow> bool" where
  "valid_repository_secret_bytes secret \<longleftrightarrow>
     secret \<noteq> [] \<and> length secret \<le> MAX_REPOSITORY_SECRET_LENGTH"

datatype repository_secret = RepositorySecret (secret_bytes: "byte list")

definition repository_secret_new :: "rstring \<Rightarrow> (security_error, repository_secret) result" where
  "repository_secret_new secret =
     (if \<not> valid_repository_secret_bytes (as_bytes secret) then Err InvalidRepositorySecretLength
      else Ok (RepositorySecret (as_bytes secret)))"

definition from_decrypted_bytes :: "byte list \<Rightarrow> (security_error, repository_secret) result" where
  "from_decrypted_bytes secret =
     (if \<not> valid_repository_secret_bytes secret \<or> \<not> utf8_valid (map unat secret)
      then Err DecryptionFailed else Ok (RepositorySecret secret))"

lemma from_decrypted_bytes_new:
  assumes "repository_secret_new s = Ok secret" and "\<forall>c \<in> set s. scalar_value c"
  shows "from_decrypted_bytes (secret_bytes secret) = Ok secret"
  using assms
  by (auto simp: repository_secret_new_def from_decrypted_bytes_def unat_as_bytes utf8_valid_numbers
      split: if_splits)

subsection \<open>Canonical repository names\<close>

definition valid_repository_segment :: "rstring \<Rightarrow> bool" where
  "valid_repository_segment segment \<longleftrightarrow>
     segment \<noteq> [] \<and> byte_len segment \<le> MAX_REPOSITORY_NAME_SEGMENT_LENGTH
     \<and> list_all (\<lambda>b. is_ascii_alphanumeric b \<or> b = 45 \<or> b = 95 \<or> b = 46) (utf8_numbers segment)"

datatype canonical_repository_name = CanonicalRepositoryName (name_as_str: rstring)

definition canonical_repository_name_new ::
  "rstring \<Rightarrow> (security_error, canonical_repository_name) result" where
  "canonical_repository_name_new full_name =
     (let canonical = to_ascii_lowercase (trim full_name)
      in case split_on 47 canonical of
           owner # repository # rest \<Rightarrow>
             if rest \<noteq> [] \<or> \<not> valid_repository_segment owner
                \<or> \<not> valid_repository_segment repository
             then Err InvalidRepositoryName
             else Ok (CanonicalRepositoryName canonical)
         | _ \<Rightarrow> Err InvalidRepositoryName)"

lemma utf8_char_ascii: "(\<forall>b \<in> set (utf8_char c). b < 128) \<Longrightarrow> utf8_char c = [c]"
proof -
  assume ascii: "\<forall>b \<in> set (utf8_char c). b < 128"
  have "hd (utf8_char c) \<in> set (utf8_char c)" by (simp add: utf8_char_def)
  with ascii have "hd (utf8_char c) < 128" by blast
  then have "c < 128" by (simp add: utf8_char_def split: if_splits)
  then show ?thesis by (simp add: utf8_char_def)
qed

lemma utf8_numbers_ascii: "(\<forall>b \<in> set (utf8_numbers s). b < 128) \<Longrightarrow> utf8_numbers s = s"
proof (induction s)
  case Nil
  show ?case by (simp add: utf8_numbers_def)
next
  case (Cons c s)
  have "utf8_char c = [c]"
    using Cons.prems by (intro utf8_char_ascii) (auto simp: utf8_numbers_def)
  moreover have "utf8_numbers s = s"
    using Cons.prems by (intro Cons.IH) (auto simp: utf8_numbers_def)
  ultimately show ?case by (simp add: utf8_numbers_def)
qed

definition name_char :: "nat \<Rightarrow> bool" where
  "name_char c \<longleftrightarrow> is_ascii_alphanumeric c \<or> c = 45 \<or> c = 95 \<or> c = 46"

lemma valid_repository_segment_iff:
  "valid_repository_segment s \<longleftrightarrow> s \<noteq> [] \<and> length s \<le> 100 \<and> list_all name_char s"
proof (cases "\<forall>b \<in> set (utf8_numbers s). name_char b")
  case True
  then have "utf8_numbers s = s"
    by (intro utf8_numbers_ascii) (auto simp: name_char_def is_ascii_alphanumeric_def)
  then show ?thesis
    by (simp add: valid_repository_segment_def name_char_def [abs_def] byte_len_def as_bytes_def
        vocab)
next
  case False
  have "\<not> list_all name_char s"
  proof
    assume s: "list_all name_char s"
    have "utf8_char c = [c]" if "c \<in> set s" for c
      using s that
      by (auto simp: list_all_iff name_char_def is_ascii_alphanumeric_def utf8_char_def)
    then have "utf8_numbers s = concat (map (\<lambda>c. [c]) s)"
      unfolding utf8_numbers_def by (metis (no_types, lifting) map_eq_conv)
    with False s show False by (simp add: list_all_iff)
  qed
  with False show ?thesis
    by (auto simp: valid_repository_segment_def list_all_iff name_char_def)
qed

text \<open>What a constructed name looks like.\<close>

definition well_formed_name :: "canonical_repository_name \<Rightarrow> bool" where
  "well_formed_name n \<longleftrightarrow>
     (\<exists>owner repository. split_on 47 (name_as_str n) = [owner, repository]
        \<and> valid_repository_segment owner \<and> valid_repository_segment repository)
     \<and> to_ascii_lowercase (name_as_str n) = name_as_str n"

lemma split_on_two:
  assumes "split_on d cs = [a, b]"
  shows "cs = a @ d # b"
  using join_with_split_on [of d cs] assms by simp

lemma name_new_well_formed:
  assumes "canonical_repository_name_new s = Ok n"
  shows "well_formed_name n" and "name_as_str n = to_ascii_lowercase (trim s)"
  using assms
  by (auto simp: canonical_repository_name_new_def Let_def well_formed_name_def
      split: list.splits if_splits)

lemma well_formed_name_fixpoint:
  assumes "well_formed_name n"
  shows "canonical_repository_name_new (name_as_str n) = Ok n"
proof -
  obtain a b where ab: "split_on 47 (name_as_str n) = [a, b]"
      "valid_repository_segment a" "valid_repository_segment b"
    and low: "to_ascii_lowercase (name_as_str n) = name_as_str n"
    using assms by (auto simp: well_formed_name_def)
  have "name_as_str n = a @ 47 # b" using ab(1) by (rule split_on_two)
  moreover have "\<not> is_whitespace c" if "c \<in> set a \<union> set b" for c
    using ab(2,3) that
    by (auto simp: valid_repository_segment_iff list_all_iff name_char_def is_whitespace_def
        is_ascii_alphanumeric_def)
  ultimately have "trim (name_as_str n) = name_as_str n"
    by (intro trim_no_whitespace) (auto simp: is_whitespace_def)
  with ab low show ?thesis
    by (cases n) (simp add: canonical_repository_name_new_def)
qed

lemma well_formed_name_length: "well_formed_name n \<Longrightarrow> length (name_as_str n) \<le> 201"
  by (auto simp: well_formed_name_def valid_repository_segment_iff dest!: split_on_two)

subsection \<open>Encrypted secrets and the cipher\<close>

record encrypted_repository_secret =
  enc_version :: nat
  enc_nonce :: "byte list"
  enc_ciphertext :: "byte list"

definition encrypted_from_parts ::
  "nat \<Rightarrow> byte list \<Rightarrow> byte list \<Rightarrow> (security_error, encrypted_repository_secret) result" where
  "encrypted_from_parts version nonce ciphertext =
     (if version \<noteq> REPOSITORY_SECRET_ENCRYPTION_VERSION
      then Err (UnsupportedEncryptionVersion version)
      else if length nonce \<noteq> NONCE_LENGTH then Err InvalidEncryptedSecret
      else if length ciphertext < GCM_TAG_LENGTH then Err InvalidEncryptedSecret
      else Ok \<lparr>enc_version = version, enc_nonce = nonce, enc_ciphertext = ciphertext\<rparr>)"

datatype repository_secret_cipher = RepositorySecretCipher (cipher_key: "byte list")

definition derive_key :: "crypto_lib \<Rightarrow> master_key \<Rightarrow> (security_error, byte list) result" where
  "derive_key cl mk = (case mk of MasterKey key \<Rightarrow>
     ok_or KeyDerivationFailed
       (hkdf_sha256_expand cl key (as_bytes KEY_DERIVATION_CONTEXT) DERIVED_KEY_LENGTH))"

definition cipher_new ::
  "crypto_lib \<Rightarrow> master_key \<Rightarrow> (security_error, repository_secret_cipher) result" where
  "cipher_new cl mk =
     and_then (derive_key cl mk)
       (\<lambda>key. if aes_key_accepted cl key then Ok (RepositorySecretCipher key)
              else Err KeyDerivationFailed)"

definition cipher_encrypt ::
  "crypto_lib \<Rightarrow> repository_secret_cipher \<Rightarrow> byte list \<Rightarrow> canonical_repository_name
   \<Rightarrow> repository_secret \<Rightarrow> (security_error, encrypted_repository_secret) result" where
  "cipher_encrypt cl c nonce name secret =
     (case aes_gcm_encrypt cl (cipher_key c) nonce (secret_bytes secret)
             (as_bytes (name_as_str name)) of
        None \<Rightarrow> Err EncryptionFailed
      | Some ct \<Rightarrow> Ok \<lparr>enc_version = REPOSITORY_SECRET_ENCRYPTION_VERSION, enc_nonce = nonce,
                        enc_ciphertext = ct\<rparr>)"

definition cipher_decrypt ::
  "crypto_lib \<Rightarrow> repository_secret_cipher \<Rightarrow> canonical_repository_name
   \<Rightarrow> encrypted_repository_secret \<Rightarrow> (security_error, repository_secret) result" where
  "cipher_decrypt cl c name enc =
     (if enc_version enc \<noteq> REPOSITORY_SECRET_ENCRYPTION_VERSION
      then Err (UnsupportedEncryptionVersion (enc_version enc))
      else case aes_gcm_decrypt cl (cipher_key c) (enc_nonce enc) (enc_ciphertext enc)
                  (as_bytes (name_as_str name)) of
             None \<Rightarrow> Err DecryptionFailed
           | Some plaintext \<Rightarrow> from_decrypted_bytes plaintext)"

text \<open>The documented laws of AES-256-GCM the storage layer relies on.\<close>

definition aead_correct :: "crypto_lib \<Rightarrow> bool" where
  "aead_correct cl \<longleftrightarrow>
     (\<forall>k n m a c. aes_gcm_encrypt cl k n m a = Some c \<longrightarrow> aes_gcm_decrypt cl k n c a = Some m
        \<and> length c = length m + 16)"

lemma cipher_roundtrip:
  assumes "aead_correct cl"
    and "from_decrypted_bytes (secret_bytes secret) = Ok secret"
    and "cipher_encrypt cl c nonce name secret = Ok enc"
  shows "cipher_decrypt cl c name enc = Ok secret"
  using assms
  by (auto simp: cipher_encrypt_def cipher_decrypt_def aead_correct_def split: option.splits)

lemma cipher_encrypt_from_parts:
  assumes "aead_correct cl" and "length nonce = NONCE_LENGTH"
    and "cipher_encrypt cl c nonce name secret = Ok enc"
  shows "encrypted_from_parts (enc_version enc) (enc_nonce enc) (enc_ciphertext enc) = Ok enc"
  using assms
  by (cases enc)
    (auto simp: cipher_encrypt_def encrypted_from_parts_def aead_correct_def vocab
      split: option.splits)

subsection \<open>The administrator bearer check\<close>

datatype admin_authenticator = AdminAuthenticator (expected_digest: "byte list")

datatype authentication_error = AuthenticationError

definition AUTHORIZATION_SCHEME :: rstring where "AUTHORIZATION_SCHEME = lit ''Bearer ''"

definition token_digest :: "crypto_lib \<Rightarrow> rstring \<Rightarrow> byte list" where
  "token_digest cl token = sha256 cl (as_bytes token)"

definition admin_authenticator_new :: "crypto_lib \<Rightarrow> admin_token \<Rightarrow> admin_authenticator" where
  "admin_authenticator_new cl token =
     AdminAuthenticator (token_digest cl (admin_token_expose token))"

definition strip_prefix :: "'a list \<Rightarrow> 'a list \<Rightarrow> 'a list option" where
  "strip_prefix p s = (if take (length p) s = p then Some (drop (length p) s) else None)"

lemma strip_prefix_Some_iff: "strip_prefix p s = Some r \<longleftrightarrow> s = p @ r"
  by (auto simp: strip_prefix_def) (metis append_take_drop_id)

definition authenticate_admin ::
  "crypto_lib \<Rightarrow> admin_authenticator \<Rightarrow> rstring option \<Rightarrow> (authentication_error, unit) result" where
  "authenticate_admin cl auth authorization =
     (case Option.bind authorization (strip_prefix AUTHORIZATION_SCHEME) of
        None \<Rightarrow> Err AuthenticationError
      | Some token \<Rightarrow>
          if token = [] then Err AuthenticationError
          else if expected_digest auth = token_digest cl token then Ok ()
          else Err AuthenticationError)"

subsection \<open>The webhook signature header\<close>

datatype webhook_authentication_error = Unauthorized | Unavailable

datatype webhook_signature = WebhookSignature (signature_digest: "byte list")

definition SIGNATURE_PREFIX :: rstring where "SIGNATURE_PREFIX = lit ''sha256=''"
definition ENCODED_SHA256_DIGEST_LENGTH :: nat where "ENCODED_SHA256_DIGEST_LENGTH = 64"

definition webhook_signature_parse ::
  "crypto_lib \<Rightarrow> rstring \<Rightarrow> (webhook_authentication_error, webhook_signature) result" where
  "webhook_signature_parse cl v =
     (case strip_prefix (as_bytes SIGNATURE_PREFIX) (as_bytes v) of
        None \<Rightarrow> Err webhook_authentication_error.Unauthorized
      | Some encoded \<Rightarrow>
          if length encoded \<noteq> ENCODED_SHA256_DIGEST_LENGTH
          then Err webhook_authentication_error.Unauthorized
          else case hex_decode cl encoded of
                 None \<Rightarrow> Err webhook_authentication_error.Unauthorized
               | Some digest \<Rightarrow> Ok (WebhookSignature digest))"

end
