(* ===== verification/Workflow_Values.thy ===== *)
theory Workflow_Values
  imports Domain Security
begin

section \<open>Bounded workflow telemetry values\<close>

text \<open>
  The value types of \<open>src/telemetry/workflow.rs\<close>: positive identifiers, sanitized display names and
  branches, the required-check set of a branch, conclusions, historical intervals, and the job and
  step traces built of them; \<open>CommitSha\<close> is from \<open>src/telemetry/trace.rs\<close>. A
  \<open>SystemTime\<close> is the number of nanoseconds since the Unix epoch, negative before it. A
  \<open>BTreeSet\<close> is its ascending list of elements, in the order \<open>DisplayName\<close> derives from
  its text.
\<close>

subsection \<open>Positive identifiers\<close>

datatype workflow_value_error = WorkflowValueError
datatype workflow_timing_error = WorkflowTimingError

datatype workflow_run_id = WorkflowRunId (run_id_get: int)
datatype workflow_run_attempt = WorkflowRunAttempt (run_attempt_get: int)
datatype workflow_job_id = WorkflowJobId (job_id_get: int)

definition workflow_run_id_new :: "int \<Rightarrow> (workflow_value_error, workflow_run_id) result" where
  "workflow_run_id_new v = (if v > 0 then Ok (WorkflowRunId v) else Err WorkflowValueError)"

definition workflow_run_attempt_new ::
  "int \<Rightarrow> (workflow_value_error, workflow_run_attempt) result" where
  "workflow_run_attempt_new v =
     (if v > 0 then Ok (WorkflowRunAttempt v) else Err WorkflowValueError)"

definition workflow_job_id_new :: "int \<Rightarrow> (workflow_value_error, workflow_job_id) result" where
  "workflow_job_id_new v = (if v > 0 then Ok (WorkflowJobId v) else Err WorkflowValueError)"

lemma workflow_id_new_Ok_iff:
  "workflow_run_id_new v = Ok r \<longleftrightarrow> 0 < v \<and> r = WorkflowRunId v"
  "workflow_run_attempt_new v = Ok a \<longleftrightarrow> 0 < v \<and> a = WorkflowRunAttempt v"
  "workflow_job_id_new v = Ok j \<longleftrightarrow> 0 < v \<and> j = WorkflowJobId v"
  by (auto simp: workflow_run_id_new_def workflow_run_attempt_new_def workflow_job_id_new_def)

subsection \<open>Display names\<close>

datatype display_name = DisplayName (display_name_as_str: rstring)

text \<open>\<open>#[derive(PartialOrd, Ord)]\<close>: the order of the wrapped text.\<close>

instantiation display_name :: linorder
begin

definition less_eq_display_name :: "display_name \<Rightarrow> display_name \<Rightarrow> bool" where
  "less_eq_display_name a b \<longleftrightarrow> display_name_as_str a \<le> display_name_as_str b"

definition less_display_name :: "display_name \<Rightarrow> display_name \<Rightarrow> bool" where
  "less_display_name a b \<longleftrightarrow> display_name_as_str a < display_name_as_str b"

instance
  by standard
    (auto simp: less_eq_display_name_def less_display_name_def intro: display_name.expand)

end

definition MAX_DISPLAY_NAME_LENGTH :: nat where "MAX_DISPLAY_NAME_LENGTH = 128"
definition MAX_BRANCH_NAME_LENGTH :: nat where "MAX_BRANCH_NAME_LENGTH = 255"
definition MAX_PULL_REQUEST_COUNT :: nat where "MAX_PULL_REQUEST_COUNT = 20"
definition MAX_REQUIRED_CHECK_COUNT :: nat where "MAX_REQUIRED_CHECK_COUNT = 100"

fun sanitize_display_chars :: "rstring \<Rightarrow> nat \<Rightarrow> rstring \<Rightarrow> rstring" where
  "sanitize_display_chars sanitized retained [] = sanitized"
| "sanitize_display_chars sanitized retained (character # rest) =
     (if is_control character then sanitize_display_chars sanitized retained rest
      else if retained = MAX_DISPLAY_NAME_LENGTH then sanitized
      else sanitize_display_chars (sanitized @ [character]) (retained + 1) rest)"

definition display_name_sanitize :: "rstring \<Rightarrow> display_name option" where
  "display_name_sanitize v =
     (let sanitized = sanitize_display_chars [] 0 v
      in if sanitized = [] then None else Some (DisplayName sanitized))"

lemma sanitize_display_chars_eq:
  "retained \<le> MAX_DISPLAY_NAME_LENGTH \<Longrightarrow>
     sanitize_display_chars sanitized retained cs =
       sanitized @ take (MAX_DISPLAY_NAME_LENGTH - retained) (filter (\<lambda>c. \<not> is_control c) cs)"
proof (induction sanitized retained cs rule: sanitize_display_chars.induct)
  case (1 sanitized retained)
  show ?case by simp
next
  case (2 sanitized retained c cs)
  then show ?case
    by (cases "is_control c"; cases "retained = MAX_DISPLAY_NAME_LENGTH")
      (auto simp: Suc_diff_le take_Cons' Suc_le_eq)
qed

lemma display_name_sanitize_eq:
  "display_name_sanitize v =
     (let s = take 128 (filter (\<lambda>c. \<not> is_control c) v)
      in if s = [] then None else Some (DisplayName s))"
  by (simp add: display_name_sanitize_def sanitize_display_chars_eq MAX_DISPLAY_NAME_LENGTH_def)

definition sanitized_name :: "display_name \<Rightarrow> bool" where
  "sanitized_name d \<longleftrightarrow>
     display_name_as_str d \<noteq> [] \<and> length (display_name_as_str d) \<le> 128
     \<and> (\<forall>c \<in> set (display_name_as_str d). \<not> is_control c)"

lemma in_take_filterD: "c \<in> set (take n (filter P xs)) \<Longrightarrow> P c"
  by (auto dest: in_set_takeD)

lemma display_name_sanitize_sanitized:
  "display_name_sanitize v = Some d \<Longrightarrow> sanitized_name d"
  by (auto simp: display_name_sanitize_eq Let_def sanitized_name_def dest: in_take_filterD
      split: if_splits)

lemma sanitized_name_fixpoint:
  "sanitized_name d \<Longrightarrow> display_name_sanitize (display_name_as_str d) = Some d"
  by (cases d) (simp add: sanitized_name_def display_name_sanitize_eq)

subsection \<open>Branches\<close>

datatype workflow_branch = WorkflowBranch (branch_as_str: rstring)

definition unsafe_segment :: "rstring \<Rightarrow> bool" where
  "unsafe_segment segment \<longleftrightarrow> segment = [] \<or> segment = lit ''.'' \<or> segment = lit ''..''"

definition workflow_branch_sanitize :: "rstring \<Rightarrow> workflow_branch option" where
  "workflow_branch_sanitize v =
     (let sanitized = take MAX_BRANCH_NAME_LENGTH (filter (\<lambda>character. \<not> is_control character) v)
      in if list_ex unsafe_segment (split_on 47 sanitized) then None
         else Some (WorkflowBranch sanitized))"

definition sanitized_branch :: "workflow_branch \<Rightarrow> bool" where
  "sanitized_branch b \<longleftrightarrow>
     length (branch_as_str b) \<le> 255 \<and> (\<forall>c \<in> set (branch_as_str b). \<not> is_control c)
     \<and> (\<forall>s \<in> set (split_on 47 (branch_as_str b)). \<not> unsafe_segment s)"

lemma workflow_branch_sanitize_sanitized:
  "workflow_branch_sanitize v = Some b \<Longrightarrow> sanitized_branch b"
  by (auto simp: workflow_branch_sanitize_def Let_def sanitized_branch_def list_ex_iff
      MAX_BRANCH_NAME_LENGTH_def dest: in_take_filterD split: if_splits)

lemma sanitized_branch_fixpoint:
  "sanitized_branch b \<Longrightarrow> workflow_branch_sanitize (branch_as_str b) = Some b"
  by (cases b)
    (auto simp: sanitized_branch_def workflow_branch_sanitize_def list_ex_iff
      MAX_BRANCH_NAME_LENGTH_def)

lemma sanitized_branch_not_Nil: "sanitized_branch b \<Longrightarrow> branch_as_str b \<noteq> []"
  by (auto simp: sanitized_branch_def unsafe_segment_def)

subsection \<open>Required checks\<close>

datatype required_checks = RequiredChecks (check_names: "display_name list")

fun retain_names :: "display_name list \<Rightarrow> display_name list \<Rightarrow> display_name list" where
  "retain_names retained [] = retained"
| "retain_names retained (name # names) =
     (if length retained = MAX_REQUIRED_CHECK_COUNT then retained
      else retain_names (insort_insert name retained) names)"

definition required_checks_new :: "display_name list \<Rightarrow> required_checks" where
  "required_checks_new names = RequiredChecks (retain_names [] names)"

definition required_checks_contains :: "required_checks \<Rightarrow> rstring \<Rightarrow> bool" where
  "required_checks_contains checks name \<longleftrightarrow>
     list_ex (\<lambda>d. display_name_as_str d = name) (check_names checks)"

definition required_checks_names :: "required_checks \<Rightarrow> rstring list" where
  "required_checks_names checks = map display_name_as_str (check_names checks)"

definition required_checks_len :: "required_checks \<Rightarrow> nat" where
  "required_checks_len checks = length (check_names checks)"

text \<open>A \<open>BTreeSet\<close> within the cap; the first distinct names of a list.\<close>

definition name_set :: "display_name list \<Rightarrow> bool" where
  "name_set ds \<longleftrightarrow> sorted ds \<and> distinct ds \<and> length ds \<le> MAX_REQUIRED_CHECK_COUNT"

definition first_distinct :: "'a list \<Rightarrow> 'a list" where
  "first_distinct xs = rev (remdups (rev xs))"

lemma set_first_distinct [simp]: "set (first_distinct xs) = set xs"
  by (simp add: first_distinct_def)

lemma distinct_first_distinct [simp]: "distinct (first_distinct xs)"
  by (simp add: first_distinct_def)

lemma remdups_snoc: "remdups (xs @ [x]) = remdups (removeAll x xs) @ [x]"
  by (induction xs) auto

lemma first_distinct_Cons: "first_distinct (x # xs) = x # first_distinct (removeAll x xs)"
  by (simp add: first_distinct_def remdups_snoc removeAll_filter_not_eq rev_filter)

lemma first_distinct_filter: "first_distinct (filter P xs) = filter P (first_distinct xs)"
  by (simp add: first_distinct_def remdups_filter rev_filter)

lemma length_insort_insert:
  "length (insort_insert x xs) = (if x \<in> set xs then length xs else length xs + 1)"
  by (simp add: insort_insert_key_def)

lemma distinct_insort_insert: "distinct xs \<Longrightarrow> distinct (insort_insert x xs)"
  by (simp add: insort_insert_key_def distinct_insort)

lemma retain_names_name_set: "name_set ds \<Longrightarrow> name_set (retain_names ds ns)"
proof (induction ds ns rule: retain_names.induct)
  case (1 ds)
  then show ?case by simp
next
  case (2 ds n ns)
  then show ?case
    by (auto simp: name_set_def length_insort_insert sorted_insort_insert distinct_insort_insert)
qed

text \<open>What the loop keeps: the first distinct names that are not there yet, up to the cap.\<close>

lemma set_retain_names:
  assumes "length ds \<le> MAX_REQUIRED_CHECK_COUNT"
  shows "set (retain_names ds ns) =
     set ds \<union> set (take (MAX_REQUIRED_CHECK_COUNT - length ds)
                     (filter (\<lambda>n. n \<notin> set ds) (first_distinct ns)))"
  using assms
proof (induction ds ns rule: retain_names.induct)
  case (1 ds)
  show ?case by (simp add: first_distinct_def)
next
  case (2 ds n ns)
  show ?case
  proof (cases "length ds = MAX_REQUIRED_CHECK_COUNT")
    case True
    then show ?thesis by simp
  next
    case False
    have IH: "set (retain_names (insort_insert n ds) ns) =
       insert n (set ds) \<union> set (take (MAX_REQUIRED_CHECK_COUNT - length (insort_insert n ds))
                     (filter (\<lambda>x. x \<notin> insert n (set ds)) (first_distinct ns)))"
      using "2.IH" [OF False] "2.prems" False
      by (simp add: length_insort_insert set_insort_insert)
    have f: "filter (\<lambda>x. x \<notin> set ds) (first_distinct (removeAll n ns)) =
        filter (\<lambda>x. x \<notin> insert n (set ds)) (first_distinct ns)"
      by (auto simp: removeAll_filter_not_eq first_distinct_filter intro: filter_cong)
    show ?thesis
    proof (cases "n \<in> set ds")
      case True
      with IH False f show ?thesis
        by (simp add: first_distinct_Cons length_insort_insert insert_absorb)
    next
      case out: False
      have "MAX_REQUIRED_CHECK_COUNT - length ds =
          Suc (MAX_REQUIRED_CHECK_COUNT - length (insort_insert n ds))"
        using False "2.prems" out by (simp add: length_insort_insert)
      with IH False f out show ?thesis by (simp add: first_distinct_Cons)
    qed
  qed
qed

lemma required_checks_new_set:
  "set (check_names (required_checks_new ns)) = set (take 100 (first_distinct ns))"
  using set_retain_names [of "[]" ns]
  by (simp add: required_checks_new_def MAX_REQUIRED_CHECK_COUNT_def)

lemma required_checks_new_name_set: "name_set (check_names (required_checks_new ns))"
  using retain_names_name_set [of "[]" ns] by (simp add: required_checks_new_def name_set_def)

text \<open>Rebuilding from a value's own names gives the value back.\<close>

lemma name_set_fixpoint:
  assumes "name_set ds"
  shows "required_checks_new ds = RequiredChecks ds"
proof -
  have "first_distinct ds = ds"
    using assms by (simp add: first_distinct_def name_set_def distinct_remdups_id)
  then have "set (check_names (required_checks_new ds)) = set ds"
    using assms by (simp add: required_checks_new_set name_set_def MAX_REQUIRED_CHECK_COUNT_def)
  then have "check_names (required_checks_new ds) = ds"
    using assms required_checks_new_name_set [of ds]
    by (intro sorted_distinct_set_unique) (auto simp: name_set_def)
  then show ?thesis by (simp add: required_checks.expand)
qed

subsection \<open>Trigger events, conclusions and span statuses\<close>

datatype workflow_event = PullRequest | MergeGroup | Push | Other

definition workflow_event_normalize :: "rstring option \<Rightarrow> workflow_event" where
  "workflow_event_normalize v =
     (if v = Some (lit ''pull_request'') then workflow_event.PullRequest
      else if v = Some (lit ''merge_group'') then workflow_event.MergeGroup
      else if v = Some (lit ''push'') then workflow_event.Push
      else workflow_event.Other)"

definition workflow_event_as_str :: "workflow_event \<Rightarrow> rstring" where
  "workflow_event_as_str e = (case e of
     workflow_event.PullRequest \<Rightarrow> lit ''pull_request''
   | workflow_event.MergeGroup \<Rightarrow> lit ''merge_group''
   | workflow_event.Push \<Rightarrow> lit ''push''
   | workflow_event.Other \<Rightarrow> lit ''other'')"

datatype workflow_conclusion =
    Success | Failure | Cancelled | Skipped | TimedOut | Neutral | Other

definition workflow_conclusion_normalize :: "rstring option \<Rightarrow> workflow_conclusion" where
  "workflow_conclusion_normalize v =
     (if v = Some (lit ''success'') then workflow_conclusion.Success
      else if v = Some (lit ''failure'') then workflow_conclusion.Failure
      else if v = Some (lit ''cancelled'') then workflow_conclusion.Cancelled
      else if v = Some (lit ''skipped'') then workflow_conclusion.Skipped
      else if v = Some (lit ''timed_out'') then workflow_conclusion.TimedOut
      else if v = Some (lit ''neutral'') then workflow_conclusion.Neutral
      else workflow_conclusion.Other)"

definition workflow_conclusion_as_str :: "workflow_conclusion \<Rightarrow> rstring" where
  "workflow_conclusion_as_str c = (case c of
     workflow_conclusion.Success \<Rightarrow> lit ''success''
   | workflow_conclusion.Failure \<Rightarrow> lit ''failure''
   | workflow_conclusion.Cancelled \<Rightarrow> lit ''cancelled''
   | workflow_conclusion.Skipped \<Rightarrow> lit ''skipped''
   | workflow_conclusion.TimedOut \<Rightarrow> lit ''timed_out''
   | workflow_conclusion.Neutral \<Rightarrow> lit ''neutral''
   | workflow_conclusion.Other \<Rightarrow> lit ''other'')"

definition semantic_result :: "workflow_conclusion \<Rightarrow> rstring" where
  "semantic_result c = (case c of
     workflow_conclusion.Success \<Rightarrow> lit ''success''
   | workflow_conclusion.Failure \<Rightarrow> lit ''failure''
   | workflow_conclusion.Cancelled \<Rightarrow> lit ''cancellation''
   | workflow_conclusion.Skipped \<Rightarrow> lit ''skip''
   | workflow_conclusion.TimedOut \<Rightarrow> lit ''timeout''
   | workflow_conclusion.Neutral \<Rightarrow> lit ''neutral''
   | workflow_conclusion.Other \<Rightarrow> lit ''other'')"

definition error_type :: "workflow_conclusion \<Rightarrow> rstring option" where
  "error_type c = (case c of
     workflow_conclusion.Failure \<Rightarrow> Some (lit ''GitHubActionsTaskFailure'')
   | workflow_conclusion.TimedOut \<Rightarrow> Some (lit ''GitHubActionsTaskTimeout'')
   | _ \<Rightarrow> None)"

definition emits_synthetic_error :: "workflow_conclusion \<Rightarrow> bool" where
  "emits_synthetic_error c \<longleftrightarrow> c = workflow_conclusion.Failure \<or> c = workflow_conclusion.TimedOut"

text \<open>\<open>opentelemetry::trace::Status\<close>, an interface type of the tracer.\<close>

datatype span_status = StatusUnset | StatusOk | StatusError rstring

definition conclusion_status :: "workflow_conclusion \<Rightarrow> span_status" where
  "conclusion_status c = (case c of
     workflow_conclusion.Success \<Rightarrow> StatusOk
   | workflow_conclusion.Failure \<Rightarrow> StatusError (lit ''workflow_failed'')
   | workflow_conclusion.TimedOut \<Rightarrow> StatusError (lit ''workflow_failed'')
   | _ \<Rightarrow> StatusUnset)"

lemmas workflow_vocabulary_defs [vocab] =
  workflow_event_normalize_def workflow_event_as_str_def workflow_conclusion_normalize_def
  workflow_conclusion_as_str_def semantic_result_def error_type_def emits_synthetic_error_def
  conclusion_status_def

lemma workflow_event_normalize_as_str:
  "workflow_event_normalize (Some (workflow_event_as_str e)) = e"
  by (cases e) (simp_all add: vocab)

lemma workflow_conclusion_normalize_as_str:
  "workflow_conclusion_normalize (Some (workflow_conclusion_as_str c)) = c"
  by (cases c) (simp_all add: vocab)

lemma error_type_iff: "error_type c \<noteq> None \<longleftrightarrow> emits_synthetic_error c"
  by (cases c) (simp_all add: vocab)

lemma conclusion_status_error_iff:
  "conclusion_status c = StatusError m \<longleftrightarrow> emits_synthetic_error c \<and> m = lit ''workflow_failed''"
  by (cases c) (auto simp: vocab)

subsection \<open>Historical intervals\<close>

datatype timing_source = Reported | Fallback

definition timing_source_as_str :: "timing_source \<Rightarrow> rstring" where
  "timing_source_as_str s = (case s of
     timing_source.Reported \<Rightarrow> lit ''reported'' | timing_source.Fallback \<Rightarrow> lit ''fallback'')"

record historical_timing =
  timing_start :: instant
  timing_end :: instant
  timing_source :: timing_source

definition timing_reported ::
  "instant \<Rightarrow> instant \<Rightarrow> (workflow_timing_error, historical_timing) result" where
  "timing_reported s e =
     (if s \<le> e
      then Ok \<lparr>timing_start = s, timing_end = e, timing_source = timing_source.Reported\<rparr>
      else Err WorkflowTimingError)"

definition timing_derived ::
  "instant \<Rightarrow> instant \<Rightarrow> timing_source \<Rightarrow> (workflow_timing_error, historical_timing) result" where
  "timing_derived s e source =
     (if s \<le> e then Ok \<lparr>timing_start = s, timing_end = e, timing_source = source\<rparr>
      else Err WorkflowTimingError)"

definition timing_fallback :: "instant \<Rightarrow> historical_timing" where
  "timing_fallback t =
     \<lparr>timing_start = t, timing_end = t, timing_source = timing_source.Fallback\<rparr>"

definition timing_reported_within_parent ::
  "instant \<Rightarrow> instant \<Rightarrow> historical_timing \<Rightarrow> (workflow_timing_error, historical_timing) result"
where
  "timing_reported_within_parent s e parent =
     (if s \<le> e \<and> s \<ge> timing_start parent \<and> e \<le> timing_end parent
      then Ok \<lparr>timing_start = s, timing_end = e, timing_source = timing_source.Reported\<rparr>
      else Err WorkflowTimingError)"

definition ordered_timing :: "historical_timing \<Rightarrow> bool" where
  "ordered_timing t \<longleftrightarrow> timing_start t \<le> timing_end t"

definition within_timing :: "historical_timing \<Rightarrow> historical_timing \<Rightarrow> bool" where
  "within_timing parent t \<longleftrightarrow>
     timing_start parent \<le> timing_start t \<and> timing_end t \<le> timing_end parent"

lemma timing_constructors_ordered:
  "timing_reported s e = Ok t \<Longrightarrow> ordered_timing t"
  "timing_derived s e src = Ok t \<Longrightarrow> ordered_timing t"
  "ordered_timing (timing_fallback x)"
  "timing_reported_within_parent s e p = Ok t \<Longrightarrow> ordered_timing t \<and> within_timing p t"
  by (auto simp: timing_reported_def timing_derived_def timing_fallback_def
      timing_reported_within_parent_def ordered_timing_def within_timing_def split: if_splits)

subsection \<open>Commit identifiers, pull requests and run context\<close>

datatype commit_sha = CommitSha (commit_sha_as_str: rstring)

datatype commit_sha_error = CommitShaError

definition SHA_1_HEX_LENGTH :: nat where "SHA_1_HEX_LENGTH = 40"
definition SHA_256_HEX_LENGTH :: nat where "SHA_256_HEX_LENGTH = 64"

text \<open>\<open>u8::is_ascii_hexdigit\<close>.\<close>

definition is_ascii_hexdigit :: "nat \<Rightarrow> bool" where
  "is_ascii_hexdigit b \<longleftrightarrow> (48 \<le> b \<and> b \<le> 57) \<or> (65 \<le> b \<and> b \<le> 70) \<or> (97 \<le> b \<and> b \<le> 102)"

fun normalize_hex :: "rstring \<Rightarrow> nat list \<Rightarrow> (commit_sha_error, rstring) result" where
  "normalize_hex normalized [] = Ok normalized"
| "normalize_hex normalized (b # bs) =
     (if \<not> is_ascii_hexdigit b then Err CommitShaError
      else normalize_hex (normalized @ [ascii_lowercase_char b]) bs)"

definition commit_sha_parse :: "rstring \<Rightarrow> (commit_sha_error, commit_sha) result" where
  "commit_sha_parse v =
     (if \<not> (byte_len v = SHA_1_HEX_LENGTH \<or> byte_len v = SHA_256_HEX_LENGTH) then Err CommitShaError
      else and_then (normalize_hex [] (utf8_numbers v)) (\<lambda>normalized. Ok (CommitSha normalized)))"

lemma normalize_hex_eq:
  "normalize_hex acc bs =
     (if list_all is_ascii_hexdigit bs then Ok (acc @ map ascii_lowercase_char bs)
      else Err CommitShaError)"
  by (induction acc bs rule: normalize_hex.induct) auto

definition canonical_sha :: "commit_sha \<Rightarrow> bool" where
  "canonical_sha s \<longleftrightarrow>
     (length (commit_sha_as_str s) = 40 \<or> length (commit_sha_as_str s) = 64)
     \<and> list_all is_ascii_hexdigit (commit_sha_as_str s)
     \<and> to_ascii_lowercase (commit_sha_as_str s) = commit_sha_as_str s"

lemma lowercase_hexdigit: "is_ascii_hexdigit b \<Longrightarrow> is_ascii_hexdigit (ascii_lowercase_char b)"
  by (auto simp: is_ascii_hexdigit_def ascii_lowercase_char_def)

lemma commit_sha_parse_canonical: "commit_sha_parse v = Ok s \<Longrightarrow> canonical_sha s"
  by (auto simp: commit_sha_parse_def normalize_hex_eq canonical_sha_def byte_len_def as_bytes_def
      SHA_1_HEX_LENGTH_def SHA_256_HEX_LENGTH_def list_all_iff to_ascii_lowercase_def
      lowercase_hexdigit split: if_splits)

datatype workflow_pull_requests = WorkflowPullRequests (pull_requests_as_slice: "pull_request_number list")

definition workflow_pull_requests_new :: "pull_request_number list \<Rightarrow> workflow_pull_requests" where
  "workflow_pull_requests_new values = WorkflowPullRequests (take MAX_PULL_REQUEST_COUNT values)"

record workflow_run_context =
  ctx_run_id :: workflow_run_id
  ctx_run_attempt :: workflow_run_attempt
  ctx_event :: workflow_event
  ctx_source_branch :: "workflow_branch option"
  ctx_target_branch :: "workflow_branch option"

definition workflow_run_context_new ::
  "workflow_run_id \<Rightarrow> workflow_run_attempt \<Rightarrow> workflow_event \<Rightarrow> workflow_branch option
   \<Rightarrow> workflow_branch option \<Rightarrow> workflow_run_context" where
  "workflow_run_context_new run_id run_attempt event source_branch target_branch =
     \<lparr>ctx_run_id = run_id, ctx_run_attempt = run_attempt, ctx_event = event,
      ctx_source_branch = source_branch, ctx_target_branch = target_branch\<rparr>"

subsection \<open>Step and job traces\<close>

record workflow_step_trace =
  step_number :: int
  step_display_name :: "display_name option"
  step_conclusion :: workflow_conclusion
  step_timing :: historical_timing

definition workflow_step_trace_new ::
  "int \<Rightarrow> display_name option \<Rightarrow> workflow_conclusion \<Rightarrow> historical_timing
   \<Rightarrow> (workflow_value_error, workflow_step_trace) result" where
  "workflow_step_trace_new number nm conclusion timing =
     (if number > 0
      then Ok \<lparr>step_number = number, step_display_name = nm, step_conclusion = conclusion,
               step_timing = timing\<rparr>
      else Err WorkflowValueError)"

record 'u workflow_job_trace =
  job_repository_name :: canonical_repository_name
  job_delivery_id :: "'u delivery_id"
  job_workflow_name :: "display_name option"
  job_run_id :: workflow_run_id
  job_run_attempt :: workflow_run_attempt
  job_job_id :: workflow_job_id
  job_display_name :: "display_name option"
  job_conclusion :: workflow_conclusion
  job_head_sha :: "commit_sha option"
  job_pull_requests :: workflow_pull_requests
  job_run_context :: "workflow_run_context option"
  job_required :: "bool option"
  job_timing :: historical_timing
  job_steps :: "workflow_step_trace list"

definition suppresses_failure :: "'u workflow_job_trace \<Rightarrow> bool" where
  "suppresses_failure job \<longleftrightarrow> job_required job = Some False"

definition root_status :: "'u workflow_job_trace \<Rightarrow> span_status" where
  "root_status job =
     (if suppresses_failure job then StatusUnset else conclusion_status (job_conclusion job))"

definition emits_root_synthetic_error :: "'u workflow_job_trace \<Rightarrow> bool" where
  "emits_root_synthetic_error job \<longleftrightarrow>
     \<not> suppresses_failure job \<and> emits_synthetic_error (job_conclusion job)"

text \<open>What the webhook projection establishes of a job: ordered intervals, steps inside it.\<close>

definition well_timed_job :: "'u workflow_job_trace \<Rightarrow> bool" where
  "well_timed_job job \<longleftrightarrow>
     ordered_timing (job_timing job)
     \<and> (\<forall>s \<in> set (job_steps job). ordered_timing (step_timing s)
          \<and> within_timing (job_timing job) (step_timing s) \<and> 0 < step_number s)"

lemma workflow_step_trace_new_Ok_iff:
  "workflow_step_trace_new n nm c t = Ok s \<longleftrightarrow>
     0 < n \<and> s = \<lparr>step_number = n, step_display_name = nm, step_conclusion = c, step_timing = t\<rparr>"
  by (auto simp: workflow_step_trace_new_def)

subsection \<open>Properties\<close>

text \<open>
  A display name exists exactly when the text has a character that is not a control
  character; it then has 1 to 128 characters, none of them a control character, and sanitizing it
  again changes nothing.
\<close>

theorem display_name_sanitize_bounded:
  "(display_name_sanitize v = None \<longleftrightarrow> (\<forall>c \<in> set v. is_control c))
   \<and> (display_name_sanitize v = Some d \<longrightarrow>
        sanitized_name d \<and> display_name_sanitize (display_name_as_str d) = Some d)"
proof (intro conjI impI)
  show "display_name_sanitize v = None \<longleftrightarrow> (\<forall>c \<in> set v. is_control c)"
    by (auto simp: display_name_sanitize_eq Let_def filter_empty_conv)
qed (auto dest: display_name_sanitize_sanitized sanitized_name_fixpoint)

lemma display_name_sanitize_bounded_witness:
  "display_name_sanitize (lit ''a'' @ [10]) = Some (DisplayName (lit ''a''))
   \<and> sanitized_name (DisplayName (lit ''a''))"
  using display_name_sanitize_bounded [of "lit ''a'' @ [10]" "DisplayName (lit ''a'')"]
  by (simp add: display_name_sanitize_eq lit_def is_control_def)

text \<open>
  A sanitized branch, the exact text later placed unencoded into a token-bearing request
  path, is at most 255 characters long, has no control character and no empty, single-dot or
  double-dot path segment, so URL normalization cannot rewrite the request target; sanitizing it
  again changes nothing.
\<close>

theorem workflow_branch_path_safe:
  assumes "workflow_branch_sanitize v = Some b"
  shows "length (branch_as_str b) \<le> 255
    \<and> (\<forall>c \<in> set (branch_as_str b). \<not> is_control c)
    \<and> (\<forall>s \<in> set (split_on 47 (branch_as_str b)). s \<notin> {[], lit ''.'', lit ''..''})
    \<and> workflow_branch_sanitize (branch_as_str b) = Some b"
  using workflow_branch_sanitize_sanitized [OF assms] sanitized_branch_fixpoint [of b]
  by (auto simp: sanitized_branch_def unsafe_segment_def)

lemma workflow_branch_path_safe_witness:
  "workflow_branch_sanitize (lit ''a/b'') = Some (WorkflowBranch (lit ''a/b''))
   \<and> length (lit ''a/b'') \<le> 255"
proof -
  have "workflow_branch_sanitize (lit ''a/b'') = Some (WorkflowBranch (lit ''a/b''))"
    by (simp add: workflow_branch_sanitize_def lit_def is_control_def MAX_BRANCH_NAME_LENGTH_def
        unsafe_segment_def)
  with workflow_branch_path_safe [OF this] show ?thesis by simp
qed

text \<open>
  The required-check set keeps exactly the first hundred distinct names it is given, in
  ascending order without repetition, and rebuilding it from its own names gives it back.
\<close>

theorem required_checks_first_hundred:
  "set (check_names (required_checks_new names)) = set (take 100 (first_distinct names))
   \<and> sorted (check_names (required_checks_new names))
   \<and> distinct (check_names (required_checks_new names))
   \<and> required_checks_len (required_checks_new names) \<le> 100
   \<and> required_checks_new (check_names (required_checks_new names)) = required_checks_new names"
  using required_checks_new_set [of names] required_checks_new_name_set [of names]
    name_set_fixpoint [OF required_checks_new_name_set [of names]]
  by (simp add: name_set_def required_checks_len_def MAX_REQUIRED_CHECK_COUNT_def)

end
