(* ===== verification/Metrics.thy ===== *)
theory Metrics
  imports Domain Security
begin

section \<open>Metrics: closed vocabularies, label sets and recording operations\<close>

text \<open>
  \<open>src/metrics.rs\<close>. The vocabularies are datatypes with their text; the normalizers map untrusted
  text into them. \<open>prometheus_client\<close> is not part of the repository: a recording operation
  yields the calls it makes on the instruments, in order, and \<open>Metrics\<close> is the list of all
  calls made so far. \<open>counter_total\<close> and \<open>gauge_value\<close> read the totals those calls request.
  An \<open>f64\<close> observation is kept as the exact duration or count it is converted from.
\<close>

subsection \<open>Vocabularies\<close>

datatype event_type =
    BranchProtectionRule | CheckRun | CheckSuite | Create | Delete | Deployment
  | DeploymentStatus | Discussion | DiscussionComment | Issues | IssueComment
  | MergeGroup | PullRequest | PullRequestReview | PullRequestReviewComment | Push
  | Release | Repository | Status | WorkflowJob | WorkflowRun | Other

definition event_type_as_str :: "event_type \<Rightarrow> rstring" where
  "event_type_as_str x = (case x of
     event_type.BranchProtectionRule \<Rightarrow> lit ''branch_protection_rule''
   | event_type.CheckRun \<Rightarrow> lit ''check_run''
   | event_type.CheckSuite \<Rightarrow> lit ''check_suite''
   | event_type.Create \<Rightarrow> lit ''create''
   | event_type.Delete \<Rightarrow> lit ''delete''
   | event_type.Deployment \<Rightarrow> lit ''deployment''
   | event_type.DeploymentStatus \<Rightarrow> lit ''deployment_status''
   | event_type.Discussion \<Rightarrow> lit ''discussion''
   | event_type.DiscussionComment \<Rightarrow> lit ''discussion_comment''
   | event_type.Issues \<Rightarrow> lit ''issues''
   | event_type.IssueComment \<Rightarrow> lit ''issue_comment''
   | event_type.MergeGroup \<Rightarrow> lit ''merge_group''
   | event_type.PullRequest \<Rightarrow> lit ''pull_request''
   | event_type.PullRequestReview \<Rightarrow> lit ''pull_request_review''
   | event_type.PullRequestReviewComment \<Rightarrow> lit ''pull_request_review_comment''
   | event_type.Push \<Rightarrow> lit ''push''
   | event_type.Release \<Rightarrow> lit ''release''
   | event_type.Repository \<Rightarrow> lit ''repository''
   | event_type.Status \<Rightarrow> lit ''status''
   | event_type.WorkflowJob \<Rightarrow> lit ''workflow_job''
   | event_type.WorkflowRun \<Rightarrow> lit ''workflow_run''
   | event_type.Other \<Rightarrow> lit ''other'')"

datatype action =
    Assigned | ChecksRequested | Closed | Completed | Created | Deleted | Dequeued
  | Destroyed | Edited | Enqueued | InProgress | Labeled | Opened | Published
  | Queued | Reopened | Requested | RequestedAction | Rerequested | Submitted
  | Synchronize | Unassigned | Unlabeled | Unpublished | Updated | Waiting | None'
  | Other

definition action_as_str :: "action \<Rightarrow> rstring" where
  "action_as_str x = (case x of
     action.Assigned \<Rightarrow> lit ''assigned''
   | action.ChecksRequested \<Rightarrow> lit ''checks_requested''
   | action.Closed \<Rightarrow> lit ''closed''
   | action.Completed \<Rightarrow> lit ''completed''
   | action.Created \<Rightarrow> lit ''created''
   | action.Deleted \<Rightarrow> lit ''deleted''
   | action.Dequeued \<Rightarrow> lit ''dequeued''
   | action.Destroyed \<Rightarrow> lit ''destroyed''
   | action.Edited \<Rightarrow> lit ''edited''
   | action.Enqueued \<Rightarrow> lit ''enqueued''
   | action.InProgress \<Rightarrow> lit ''in_progress''
   | action.Labeled \<Rightarrow> lit ''labeled''
   | action.Opened \<Rightarrow> lit ''opened''
   | action.Published \<Rightarrow> lit ''published''
   | action.Queued \<Rightarrow> lit ''queued''
   | action.Reopened \<Rightarrow> lit ''reopened''
   | action.Requested \<Rightarrow> lit ''requested''
   | action.RequestedAction \<Rightarrow> lit ''requested_action''
   | action.Rerequested \<Rightarrow> lit ''rerequested''
   | action.Submitted \<Rightarrow> lit ''submitted''
   | action.Synchronize \<Rightarrow> lit ''synchronize''
   | action.Unassigned \<Rightarrow> lit ''unassigned''
   | action.Unlabeled \<Rightarrow> lit ''unlabeled''
   | action.Unpublished \<Rightarrow> lit ''unpublished''
   | action.Updated \<Rightarrow> lit ''updated''
   | action.Waiting \<Rightarrow> lit ''waiting''
   | action.None' \<Rightarrow> lit ''none''
   | action.Other \<Rightarrow> lit ''other'')"

datatype webhook_result =
    Accepted | Malformed | Unauthorized | TooLarge | Unsupported | Unavailable

definition webhook_result_as_str :: "webhook_result \<Rightarrow> rstring" where
  "webhook_result_as_str x = (case x of
     webhook_result.Accepted \<Rightarrow> lit ''accepted''
   | webhook_result.Malformed \<Rightarrow> lit ''malformed''
   | webhook_result.Unauthorized \<Rightarrow> lit ''unauthorized''
   | webhook_result.TooLarge \<Rightarrow> lit ''too_large''
   | webhook_result.Unsupported \<Rightarrow> lit ''unsupported''
   | webhook_result.Unavailable \<Rightarrow> lit ''unavailable'')"

datatype failure_stage =
    Authentication | DeliveryClaim | Metrics | Database | QueueState | WorkflowLink

definition failure_stage_as_str :: "failure_stage \<Rightarrow> rstring" where
  "failure_stage_as_str x = (case x of
     failure_stage.Authentication \<Rightarrow> lit ''authentication''
   | failure_stage.DeliveryClaim \<Rightarrow> lit ''delivery_claim''
   | failure_stage.Metrics \<Rightarrow> lit ''metrics''
   | failure_stage.Database \<Rightarrow> lit ''database''
   | failure_stage.QueueState \<Rightarrow> lit ''queue_state''
   | failure_stage.WorkflowLink \<Rightarrow> lit ''workflow_link'')"

datatype merge_group_action =
    ChecksRequested | Destroyed

definition merge_group_action_as_str :: "merge_group_action \<Rightarrow> rstring" where
  "merge_group_action_as_str x = (case x of
     merge_group_action.ChecksRequested \<Rightarrow> lit ''checks_requested''
   | merge_group_action.Destroyed \<Rightarrow> lit ''destroyed'')"

datatype merge_group_reason =
    None' | Merged | Dequeued | Invalidated | Other

definition merge_group_reason_as_str :: "merge_group_reason \<Rightarrow> rstring" where
  "merge_group_reason_as_str x = (case x of
     merge_group_reason.None' \<Rightarrow> lit ''none''
   | merge_group_reason.Merged \<Rightarrow> lit ''merged''
   | merge_group_reason.Dequeued \<Rightarrow> lit ''dequeued''
   | merge_group_reason.Invalidated \<Rightarrow> lit ''invalidated''
   | merge_group_reason.Other \<Rightarrow> lit ''other'')"

datatype merge_queue_outcome =
    Succeeded | Failed | Cancelled | Unknown

definition merge_queue_outcome_as_str :: "merge_queue_outcome \<Rightarrow> rstring" where
  "merge_queue_outcome_as_str x = (case x of
     merge_queue_outcome.Succeeded \<Rightarrow> lit ''succeeded''
   | merge_queue_outcome.Failed \<Rightarrow> lit ''failed''
   | merge_queue_outcome.Cancelled \<Rightarrow> lit ''cancelled''
   | merge_queue_outcome.Unknown \<Rightarrow> lit ''unknown'')"

datatype merge_queue_reason =
    PullRequestMerged | UnclassifiedDequeue

definition merge_queue_reason_as_str :: "merge_queue_reason \<Rightarrow> rstring" where
  "merge_queue_reason_as_str x = (case x of
     merge_queue_reason.PullRequestMerged \<Rightarrow> lit ''pull_request_merged''
   | merge_queue_reason.UnclassifiedDequeue \<Rightarrow> lit ''unclassified_dequeue'')"

datatype queue_transition_failure_reason =
    MissingActiveAttempt | InvalidDuration

definition queue_transition_failure_reason_as_str :: "queue_transition_failure_reason \<Rightarrow> rstring" where
  "queue_transition_failure_reason_as_str x = (case x of
     queue_transition_failure_reason.MissingActiveAttempt \<Rightarrow> lit ''missing_active_attempt''
   | queue_transition_failure_reason.InvalidDuration \<Rightarrow> lit ''invalid_duration'')"

datatype workflow_trace_rejection_reason =
    TooManySteps | TooManyJobs

definition workflow_trace_rejection_reason_as_str :: "workflow_trace_rejection_reason \<Rightarrow> rstring" where
  "workflow_trace_rejection_reason_as_str x = (case x of
     workflow_trace_rejection_reason.TooManySteps \<Rightarrow> lit ''too_many_steps''
   | workflow_trace_rejection_reason.TooManyJobs \<Rightarrow> lit ''too_many_jobs'')"

datatype telemetry_signal =
    Trace | Log

definition telemetry_signal_as_str :: "telemetry_signal \<Rightarrow> rstring" where
  "telemetry_signal_as_str x = (case x of
     telemetry_signal.Trace \<Rightarrow> lit ''trace''
   | telemetry_signal.Log \<Rightarrow> lit ''log'')"

datatype telemetry_export_failure_reason =
    Transport | Timeout | HttpResponse | Encoding | Shutdown | Internal | Other

definition telemetry_export_failure_reason_as_str :: "telemetry_export_failure_reason \<Rightarrow> rstring" where
  "telemetry_export_failure_reason_as_str x = (case x of
     telemetry_export_failure_reason.Transport \<Rightarrow> lit ''transport''
   | telemetry_export_failure_reason.Timeout \<Rightarrow> lit ''timeout''
   | telemetry_export_failure_reason.HttpResponse \<Rightarrow> lit ''http_response''
   | telemetry_export_failure_reason.Encoding \<Rightarrow> lit ''encoding''
   | telemetry_export_failure_reason.Shutdown \<Rightarrow> lit ''shutdown''
   | telemetry_export_failure_reason.Internal \<Rightarrow> lit ''internal''
   | telemetry_export_failure_reason.Other \<Rightarrow> lit ''other'')"

datatype telemetry_drop_reason =
    QueueFull | PipelineClosed

definition telemetry_drop_reason_as_str :: "telemetry_drop_reason \<Rightarrow> rstring" where
  "telemetry_drop_reason_as_str x = (case x of
     telemetry_drop_reason.QueueFull \<Rightarrow> lit ''queue_full''
   | telemetry_drop_reason.PipelineClosed \<Rightarrow> lit ''pipeline_closed'')"

subsection \<open>Normalizers\<close>

definition normalize_event_type :: "rstring \<Rightarrow> event_type" where
  "normalize_event_type raw_event_type =
     (if raw_event_type = lit ''branch_protection_rule'' then event_type.BranchProtectionRule
      else if raw_event_type = lit ''check_run'' then event_type.CheckRun
      else if raw_event_type = lit ''check_suite'' then event_type.CheckSuite
      else if raw_event_type = lit ''create'' then event_type.Create
      else if raw_event_type = lit ''delete'' then event_type.Delete
      else if raw_event_type = lit ''deployment'' then event_type.Deployment
      else if raw_event_type = lit ''deployment_status'' then event_type.DeploymentStatus
      else if raw_event_type = lit ''discussion'' then event_type.Discussion
      else if raw_event_type = lit ''discussion_comment'' then event_type.DiscussionComment
      else if raw_event_type = lit ''issues'' then event_type.Issues
      else if raw_event_type = lit ''issue_comment'' then event_type.IssueComment
      else if raw_event_type = lit ''merge_group'' then event_type.MergeGroup
      else if raw_event_type = lit ''pull_request'' then event_type.PullRequest
      else if raw_event_type = lit ''pull_request_review'' then event_type.PullRequestReview
      else if raw_event_type = lit ''pull_request_review_comment'' then event_type.PullRequestReviewComment
      else if raw_event_type = lit ''push'' then event_type.Push
      else if raw_event_type = lit ''release'' then event_type.Release
      else if raw_event_type = lit ''repository'' then event_type.Repository
      else if raw_event_type = lit ''status'' then event_type.Status
      else if raw_event_type = lit ''workflow_job'' then event_type.WorkflowJob
      else if raw_event_type = lit ''workflow_run'' then event_type.WorkflowRun
      else event_type.Other)"

definition normalize_merge_group_destroyed_reason :: "rstring \<Rightarrow> merge_group_reason" where
  "normalize_merge_group_destroyed_reason raw_reason =
     (if raw_reason = lit ''merged'' then merge_group_reason.Merged
      else if raw_reason = lit ''dequeued'' then merge_group_reason.Dequeued
      else if raw_reason = lit ''invalidated'' then merge_group_reason.Invalidated
      else merge_group_reason.Other)"

definition normalize_action :: "rstring option \<Rightarrow> action" where
  "normalize_action raw_action = (case raw_action of
     None \<Rightarrow> action.None'
   | Some a \<Rightarrow>
      (if a = lit ''assigned'' then action.Assigned
       else if a = lit ''checks_requested'' then action.ChecksRequested
       else if a = lit ''closed'' then action.Closed
       else if a = lit ''completed'' then action.Completed
       else if a = lit ''created'' then action.Created
       else if a = lit ''deleted'' then action.Deleted
       else if a = lit ''dequeued'' then action.Dequeued
       else if a = lit ''destroyed'' then action.Destroyed
       else if a = lit ''edited'' then action.Edited
       else if a = lit ''enqueued'' then action.Enqueued
       else if a = lit ''in_progress'' then action.InProgress
       else if a = lit ''labeled'' then action.Labeled
       else if a = lit ''opened'' then action.Opened
       else if a = lit ''published'' then action.Published
       else if a = lit ''queued'' then action.Queued
       else if a = lit ''reopened'' then action.Reopened
       else if a = lit ''requested'' then action.Requested
       else if a = lit ''requested_action'' then action.RequestedAction
       else if a = lit ''rerequested'' then action.Rerequested
       else if a = lit ''submitted'' then action.Submitted
       else if a = lit ''synchronize'' then action.Synchronize
       else if a = lit ''unassigned'' then action.Unassigned
       else if a = lit ''unlabeled'' then action.Unlabeled
       else if a = lit ''unpublished'' then action.Unpublished
       else if a = lit ''updated'' then action.Updated
       else if a = lit ''waiting'' then action.Waiting
       else action.Other))"

lemmas metrics_vocabulary_defs [vocab] =
  event_type_as_str_def
  action_as_str_def
  webhook_result_as_str_def
  failure_stage_as_str_def
  merge_group_action_as_str_def
  merge_group_reason_as_str_def
  merge_queue_outcome_as_str_def
  merge_queue_reason_as_str_def
  queue_transition_failure_reason_as_str_def
  workflow_trace_rejection_reason_as_str_def
  telemetry_signal_as_str_def
  telemetry_export_failure_reason_as_str_def
  telemetry_drop_reason_as_str_def
  normalize_event_type_def normalize_merge_group_destroyed_reason_def normalize_action_def

text \<open>The normalizers are left inverses of the text, but for the two values GitHub never sends.\<close>

lemma normalize_event_type_as_str: "normalize_event_type (event_type_as_str e) = e"
  by (cases e) (simp_all add: vocab)

lemma normalize_action_as_str:
  "a \<noteq> action.None' \<Longrightarrow> normalize_action (Some (action_as_str a)) = a"
  by (cases a) (simp_all add: vocab)

lemma normalize_merge_group_reason_as_str:
  "r \<noteq> merge_group_reason.None' \<Longrightarrow>
     normalize_merge_group_destroyed_reason (merge_group_reason_as_str r) = r"
  by (cases r) (simp_all add: vocab)

lemma normalize_action_Some_not_None [simp]: "normalize_action (Some v) \<noteq> action.None'"
  by (simp add: normalize_action_def)

subsection \<open>Label sets and series\<close>

datatype repository_label = Authenticated canonical_repository_name | Unknown

definition repository_label_optional :: "canonical_repository_name option \<Rightarrow> repository_label" where
  "repository_label_optional r = (case r of
     None \<Rightarrow> repository_label.Unknown | Some n \<Rightarrow> Authenticated n)"

definition repository_label_text :: "repository_label \<Rightarrow> rstring" where
  "repository_label_text l = (case l of
     Authenticated n \<Rightarrow> name_as_str n | repository_label.Unknown \<Rightarrow> lit ''unknown'')"

text \<open>One constructor for each instrument of \<open>MetricsInner\<close>, with its label set.\<close>

datatype series =
    WebhookRequests repository_label webhook_result
  | WebhookEvents repository_label event_type action
  | ProcessingDuration repository_label webhook_result
  | RequestBodyBytes repository_label
  | Duplicates repository_label
  | ProcessingFailures repository_label failure_stage
  | RepositoryConfigurations
  | MergeGroupEvents repository_label merge_group_action merge_group_reason
  | MergeQueuePrOutcomes repository_label merge_queue_outcome merge_queue_reason
  | MergeQueueAttemptDuration repository_label merge_queue_outcome
  | MergeQueueTransitionFailures repository_label queue_transition_failure_reason
  | WorkflowJobSteps repository_label
  | WorkflowTraceRejections repository_label workflow_trace_rejection_reason
  | TelemetryExportFailures telemetry_signal telemetry_export_failure_reason
  | TelemetryDroppedRecords telemetry_signal telemetry_drop_reason

datatype observation = Nanoseconds int | Count nat

datatype metric_call =
    GetOrCreate series
  | Inc series
  | IncBy series nat
  | Observe series observation
  | GaugeSet nat
  | GaugeInc
  | GaugeDec

type_synonym metrics = "metric_call list"

subsection \<open>Completion labels\<close>

datatype merge_queue_completion = PullRequestMerged | UnclassifiedDequeue

definition completion_labels ::
  "merge_queue_completion \<Rightarrow> repository_label
   \<Rightarrow> repository_label \<times> merge_queue_outcome \<times> merge_queue_reason" where
  "completion_labels c repository = (case c of
     merge_queue_completion.PullRequestMerged \<Rightarrow>
       (repository, merge_queue_outcome.Succeeded, merge_queue_reason.PullRequestMerged)
   | merge_queue_completion.UnclassifiedDequeue \<Rightarrow>
       (repository, merge_queue_outcome.Unknown, merge_queue_reason.UnclassifiedDequeue))"

definition MAX_MERGE_QUEUE_ATTEMPT_DURATION :: int where
  "MAX_MERGE_QUEUE_ATTEMPT_DURATION = 365 * 86400 * 1000000000"

subsection \<open>Recording operations\<close>

definition metrics_new :: metrics where
  "metrics_new =
     concat (map (\<lambda>result.
         [GetOrCreate (WebhookRequests repository_label.Unknown result),
          GetOrCreate (ProcessingDuration repository_label.Unknown result)])
       [webhook_result.Accepted, webhook_result.Malformed, webhook_result.Unauthorized,
        webhook_result.TooLarge, webhook_result.Unsupported, webhook_result.Unavailable])
     @ [GetOrCreate (RequestBodyBytes repository_label.Unknown),
        GetOrCreate (Duplicates repository_label.Unknown),
        GetOrCreate (WorkflowJobSteps repository_label.Unknown),
        GetOrCreate (WebhookEvents repository_label.Unknown event_type.Other action.Other)]
     @ map (\<lambda>stage. GetOrCreate (ProcessingFailures repository_label.Unknown stage))
         [failure_stage.Authentication, failure_stage.DeliveryClaim, failure_stage.Metrics,
          failure_stage.Database, failure_stage.QueueState, failure_stage.WorkflowLink]
     @ [GetOrCreate (MergeGroupEvents repository_label.Unknown merge_group_action.ChecksRequested
          merge_group_reason.None')]
     @ map (\<lambda>reason. GetOrCreate (MergeGroupEvents repository_label.Unknown
           merge_group_action.Destroyed reason))
         [merge_group_reason.Merged, merge_group_reason.Dequeued, merge_group_reason.Invalidated,
          merge_group_reason.Other]
     @ concat (map (\<lambda>(final_outcome, reason).
         [GetOrCreate (MergeQueuePrOutcomes repository_label.Unknown final_outcome reason),
          GetOrCreate (MergeQueueAttemptDuration repository_label.Unknown final_outcome)])
       [(merge_queue_outcome.Succeeded, merge_queue_reason.PullRequestMerged),
        (merge_queue_outcome.Unknown, merge_queue_reason.UnclassifiedDequeue)])
     @ map (\<lambda>reason. GetOrCreate (MergeQueueTransitionFailures repository_label.Unknown reason))
         [queue_transition_failure_reason.MissingActiveAttempt,
          queue_transition_failure_reason.InvalidDuration]
     @ map (\<lambda>reason. GetOrCreate (WorkflowTraceRejections repository_label.Unknown reason))
         [workflow_trace_rejection_reason.TooManySteps, workflow_trace_rejection_reason.TooManyJobs]
     @ concat (map (\<lambda>signal.
         map (\<lambda>reason. GetOrCreate (TelemetryExportFailures signal reason))
           [telemetry_export_failure_reason.Transport, telemetry_export_failure_reason.Timeout,
            telemetry_export_failure_reason.HttpResponse, telemetry_export_failure_reason.Encoding,
            telemetry_export_failure_reason.Shutdown, telemetry_export_failure_reason.Internal,
            telemetry_export_failure_reason.Other]
         @ map (\<lambda>reason. GetOrCreate (TelemetryDroppedRecords signal reason))
           [telemetry_drop_reason.QueueFull, telemetry_drop_reason.PipelineClosed])
       [telemetry_signal.Trace, telemetry_signal.Log])"

definition observe_request ::
  "canonical_repository_name option \<Rightarrow> webhook_result \<Rightarrow> int \<Rightarrow> metrics \<Rightarrow> metrics" where
  "observe_request repository result duration m =
     (let l = repository_label_optional repository
      in m @ [Inc (WebhookRequests l result),
              Observe (ProcessingDuration l result) (Nanoseconds duration)])"

definition observe_event ::
  "canonical_repository_name \<Rightarrow> event_type \<Rightarrow> action \<Rightarrow> nat \<Rightarrow> metrics \<Rightarrow> metrics" where
  "observe_event repository event_type action body_bytes m =
     m @ [Inc (WebhookEvents (Authenticated repository) event_type action),
          Observe (RequestBodyBytes (Authenticated repository)) (Count body_bytes)]"

definition record_duplicate :: "canonical_repository_name \<Rightarrow> metrics \<Rightarrow> metrics" where
  "record_duplicate repository m = m @ [Inc (Duplicates (Authenticated repository))]"

definition record_failure ::
  "canonical_repository_name option \<Rightarrow> failure_stage \<Rightarrow> metrics \<Rightarrow> metrics" where
  "record_failure repository stage m =
     m @ [Inc (ProcessingFailures (repository_label_optional repository) stage)]"

definition record_merge_group_event ::
  "canonical_repository_name \<Rightarrow> merge_group_action \<Rightarrow> merge_group_reason \<Rightarrow> metrics \<Rightarrow> metrics"
where
  "record_merge_group_event repository act reason m =
     (let reason = (case act of merge_group_action.ChecksRequested \<Rightarrow> merge_group_reason.None'
                    | merge_group_action.Destroyed \<Rightarrow> reason)
      in m @ [Inc (MergeGroupEvents (Authenticated repository) act reason)])"

definition record_merge_queue_transition_failure ::
  "canonical_repository_name \<Rightarrow> queue_transition_failure_reason \<Rightarrow> metrics \<Rightarrow> metrics" where
  "record_merge_queue_transition_failure repository reason m =
     m @ [Inc (MergeQueueTransitionFailures (Authenticated repository) reason)]"

definition record_merge_queue_completion ::
  "canonical_repository_name \<Rightarrow> merge_queue_completion \<Rightarrow> int \<Rightarrow> metrics \<Rightarrow> metrics" where
  "record_merge_queue_completion repository completion duration m =
     (if \<not> (0 \<le> duration \<and> duration \<le> MAX_MERGE_QUEUE_ATTEMPT_DURATION)
      then record_merge_queue_transition_failure repository
             queue_transition_failure_reason.InvalidDuration m
      else case completion_labels completion (Authenticated repository) of
             (l, final_outcome, reason) \<Rightarrow>
               m @ [Inc (MergeQueuePrOutcomes l final_outcome reason),
                    Observe (MergeQueueAttemptDuration l final_outcome) (Nanoseconds duration)])"

definition observe_workflow_job_steps ::
  "canonical_repository_name \<Rightarrow> nat \<Rightarrow> metrics \<Rightarrow> metrics" where
  "observe_workflow_job_steps repository step_count m =
     m @ [Observe (WorkflowJobSteps (Authenticated repository)) (Count step_count)]"

definition record_workflow_trace_rejection ::
  "canonical_repository_name \<Rightarrow> workflow_trace_rejection_reason \<Rightarrow> metrics \<Rightarrow> metrics" where
  "record_workflow_trace_rejection repository reason m =
     m @ [Inc (WorkflowTraceRejections (Authenticated repository) reason)]"

definition record_telemetry_export_failure ::
  "telemetry_signal \<Rightarrow> telemetry_export_failure_reason \<Rightarrow> metrics \<Rightarrow> metrics" where
  "record_telemetry_export_failure signal reason m =
     m @ [Inc (TelemetryExportFailures signal reason)]"

definition record_telemetry_drops ::
  "telemetry_signal \<Rightarrow> telemetry_drop_reason \<Rightarrow> nat \<Rightarrow> metrics \<Rightarrow> metrics" where
  "record_telemetry_drops signal reason count m =
     m @ [IncBy (TelemetryDroppedRecords signal reason) count]"

definition set_repository_configurations :: "nat \<Rightarrow> metrics \<Rightarrow> metrics" where
  "set_repository_configurations count m = m @ [GaugeSet count]"

definition increment_repository_configurations :: "metrics \<Rightarrow> metrics" where
  "increment_repository_configurations m = m @ [GaugeInc]"

definition decrement_repository_configurations :: "metrics \<Rightarrow> metrics" where
  "decrement_repository_configurations m = m @ [GaugeDec]"

lemmas metric_operation_defs =
  observe_request_def observe_event_def record_duplicate_def record_failure_def
  record_merge_group_event_def record_merge_queue_transition_failure_def
  record_merge_queue_completion_def observe_workflow_job_steps_def
  record_workflow_trace_rejection_def record_telemetry_export_failure_def
  record_telemetry_drops_def set_repository_configurations_def
  increment_repository_configurations_def decrement_repository_configurations_def
  Let_def completion_labels_def repository_label_optional_def

subsection \<open>Totals\<close>

text \<open>The increments requested on one series, and the gauge as its \<open>AtomicU64\<close> holds it.\<close>

fun counter_total :: "metrics \<Rightarrow> series \<Rightarrow> nat" where
  "counter_total [] s = 0"
| "counter_total (Inc t # m) s = (if t = s then 1 else 0) + counter_total m s"
| "counter_total (IncBy t n # m) s = (if t = s then n else 0) + counter_total m s"
| "counter_total (_ # m) s = counter_total m s"

fun gauge_step :: "64 word \<Rightarrow> metric_call \<Rightarrow> 64 word" where
  "gauge_step g (GaugeSet n) = of_nat n"
| "gauge_step g GaugeInc = g + 1"
| "gauge_step g GaugeDec = g - 1"
| "gauge_step g _ = g"

definition gauge_value :: "metrics \<Rightarrow> 64 word" where
  "gauge_value m = foldl gauge_step 0 m"

lemma counter_total_append [simp]:
  "counter_total (m @ m') s = counter_total m s + counter_total m' s"
  by (induction m s rule: counter_total.induct) auto

lemma gauge_value_append [simp]: "gauge_value (m @ m') = foldl gauge_step (gauge_value m) m'"
  by (simp add: gauge_value_def)

end
