(* ===== verification/Trace.thy ===== *)
theory Trace
  imports Workflow_Values Metrics
begin

section \<open>Trace policy: bounded span names, attributes and statuses\<close>

text \<open>
  \<open>src/telemetry/trace.rs\<close>. An attribute is a key with a value (\<open>KeyValue\<close>); the functions that
  build attributes take validated values only. What the code does to a \<open>tracing\<close> span is the list
  of calls it makes on it, in order (\<open>span_call\<close>). The text of a delivery UUID is made by the
  \<open>uuid\<close> crate, the argument \<open>hyphenated\<close>.
\<close>

subsection \<open>Attribute keys and fixed names\<close>

definition TELEMETRY_TARGET :: rstring where "TELEMETRY_TARGET = lit ''github_webhook_exporter''"
definition SQLITE_SYSTEM_NAME :: rstring where "SQLITE_SYSTEM_NAME = lit ''sqlite''"
definition OPERATION_FAILURE_EVENT :: rstring where "OPERATION_FAILURE_EVENT = lit ''operation.failure''"
definition OPERATION_OUTCOME_KEY :: rstring where "OPERATION_OUTCOME_KEY = lit ''ghe.operation.outcome''"
definition FAILURE_REASON_KEY :: rstring where "FAILURE_REASON_KEY = lit ''ghe.failure.reason''"
definition HTTP_REQUEST_METHOD_KEY :: rstring where "HTTP_REQUEST_METHOD_KEY = lit ''http.request.method''"
definition HTTP_ROUTE_KEY :: rstring where "HTTP_ROUTE_KEY = lit ''http.route''"
definition HTTP_RESPONSE_STATUS_CODE_KEY :: rstring where "HTTP_RESPONSE_STATUS_CODE_KEY = lit ''http.response.status_code''"
definition HTTP_RESULT_KEY :: rstring where "HTTP_RESULT_KEY = lit ''ghe.http.result''"
definition CONFIG_OPERATION_KEY :: rstring where "CONFIG_OPERATION_KEY = lit ''ghe.config.operation''"
definition WEBHOOK_EVENT_TYPE_KEY :: rstring where "WEBHOOK_EVENT_TYPE_KEY = lit ''ghe.webhook.event_type''"
definition WEBHOOK_ACTION_KEY :: rstring where "WEBHOOK_ACTION_KEY = lit ''ghe.webhook.action''"
definition QUEUE_ENTITY_KEY :: rstring where "QUEUE_ENTITY_KEY = lit ''ghe.queue.entity''"
definition MERGE_GROUP_ACTION_KEY :: rstring where "MERGE_GROUP_ACTION_KEY = lit ''ghe.merge_group.action''"
definition MERGE_GROUP_REASON_KEY :: rstring where "MERGE_GROUP_REASON_KEY = lit ''ghe.merge_group.reason''"
definition QUEUE_OUTCOME_KEY :: rstring where "QUEUE_OUTCOME_KEY = lit ''ghe.queue.outcome''"
definition QUEUE_REASON_KEY :: rstring where "QUEUE_REASON_KEY = lit ''ghe.queue.reason''"
definition REPOSITORY_NAME_KEY :: rstring where "REPOSITORY_NAME_KEY = lit ''github.repository.name''"
definition REPOSITORY_ID_KEY :: rstring where "REPOSITORY_ID_KEY = lit ''github.repository.id''"
definition DELIVERY_ID_KEY :: rstring where "DELIVERY_ID_KEY = lit ''github.delivery.id''"
definition PULL_REQUEST_NUMBER_KEY :: rstring where "PULL_REQUEST_NUMBER_KEY = lit ''github.pull_request.number''"
definition COMMIT_SHA_KEY :: rstring where "COMMIT_SHA_KEY = lit ''github.commit.sha''"
definition DB_SYSTEM_NAME_KEY :: rstring where "DB_SYSTEM_NAME_KEY = lit ''db.system.name''"
definition DB_OPERATION_NAME_KEY :: rstring where "DB_OPERATION_NAME_KEY = lit ''db.operation.name''"
definition CICD_PIPELINE_NAME_KEY :: rstring where "CICD_PIPELINE_NAME_KEY = lit ''cicd.pipeline.name''"
definition CICD_PIPELINE_RUN_ID_KEY :: rstring where "CICD_PIPELINE_RUN_ID_KEY = lit ''cicd.pipeline.run.id''"
definition CICD_PIPELINE_RUN_URL_KEY :: rstring where "CICD_PIPELINE_RUN_URL_KEY = lit ''cicd.pipeline.run.url.full''"
definition CICD_PIPELINE_TASK_NAME_KEY :: rstring where "CICD_PIPELINE_TASK_NAME_KEY = lit ''cicd.pipeline.task.name''"
definition CICD_PIPELINE_TASK_RUN_ID_KEY :: rstring where "CICD_PIPELINE_TASK_RUN_ID_KEY = lit ''cicd.pipeline.task.run.id''"
definition CICD_PIPELINE_TASK_RUN_RESULT_KEY :: rstring where "CICD_PIPELINE_TASK_RUN_RESULT_KEY = lit ''cicd.pipeline.task.run.result''"
definition CICD_PIPELINE_TASK_RUN_URL_KEY :: rstring where "CICD_PIPELINE_TASK_RUN_URL_KEY = lit ''cicd.pipeline.task.run.url.full''"
definition ERROR_TYPE_KEY :: rstring where "ERROR_TYPE_KEY = lit ''error.type''"
definition SENTRY_DESCRIPTION_KEY :: rstring where "SENTRY_DESCRIPTION_KEY = lit ''sentry.description''"
definition SENTRY_OPERATION_KEY :: rstring where "SENTRY_OPERATION_KEY = lit ''sentry.op''"
definition VCS_HEAD_REVISION_KEY :: rstring where "VCS_HEAD_REVISION_KEY = lit ''vcs.ref.head.revision''"
definition VCS_REPOSITORY_NAME_KEY :: rstring where "VCS_REPOSITORY_NAME_KEY = lit ''vcs.repository.name''"
definition VCS_REPOSITORY_URL_KEY :: rstring where "VCS_REPOSITORY_URL_KEY = lit ''vcs.repository.url.full''"
definition GITHUB_WORKFLOW_CONCLUSION_KEY :: rstring where "GITHUB_WORKFLOW_CONCLUSION_KEY = lit ''github.workflow.conclusion''"
definition GITHUB_WORKFLOW_RUN_ATTEMPT_KEY :: rstring where "GITHUB_WORKFLOW_RUN_ATTEMPT_KEY = lit ''github.workflow.run.attempt''"
definition GITHUB_WORKFLOW_EVENT_KEY :: rstring where "GITHUB_WORKFLOW_EVENT_KEY = lit ''github.workflow.event''"
definition GITHUB_WORKFLOW_SOURCE_BRANCH_KEY :: rstring where "GITHUB_WORKFLOW_SOURCE_BRANCH_KEY = lit ''github.workflow.source_branch''"
definition GITHUB_WORKFLOW_TARGET_BRANCH_KEY :: rstring where "GITHUB_WORKFLOW_TARGET_BRANCH_KEY = lit ''github.workflow.target_branch''"
definition GITHUB_WORKFLOW_REQUIRED_KEY :: rstring where "GITHUB_WORKFLOW_REQUIRED_KEY = lit ''github.workflow.required''"
definition TIMING_SOURCE_KEY :: rstring where "TIMING_SOURCE_KEY = lit ''timing_source''"
definition GITHUB_ACTIONS_PIPELINE_OPERATION :: rstring where "GITHUB_ACTIONS_PIPELINE_OPERATION = lit ''github.actions.pipeline''"
definition GITHUB_ACTIONS_PIPELINE_TASK_OPERATION :: rstring where "GITHUB_ACTIONS_PIPELINE_TASK_OPERATION = lit ''github.actions.pipeline.task''"
definition GITHUB_ACTIONS_JOB_OPERATION :: rstring where "GITHUB_ACTIONS_JOB_OPERATION = lit ''github.actions.job''"
definition GITHUB_ACTIONS_STEP_OPERATION :: rstring where "GITHUB_ACTIONS_STEP_OPERATION = lit ''github.actions.step''"

lemmas trace_constants [vocab] =
  TELEMETRY_TARGET_def SQLITE_SYSTEM_NAME_def OPERATION_FAILURE_EVENT_def
   OPERATION_OUTCOME_KEY_def FAILURE_REASON_KEY_def HTTP_REQUEST_METHOD_KEY_def HTTP_ROUTE_KEY_def
   HTTP_RESPONSE_STATUS_CODE_KEY_def HTTP_RESULT_KEY_def CONFIG_OPERATION_KEY_def
   WEBHOOK_EVENT_TYPE_KEY_def WEBHOOK_ACTION_KEY_def QUEUE_ENTITY_KEY_def
   MERGE_GROUP_ACTION_KEY_def MERGE_GROUP_REASON_KEY_def QUEUE_OUTCOME_KEY_def
   QUEUE_REASON_KEY_def REPOSITORY_NAME_KEY_def REPOSITORY_ID_KEY_def DELIVERY_ID_KEY_def
   PULL_REQUEST_NUMBER_KEY_def COMMIT_SHA_KEY_def DB_SYSTEM_NAME_KEY_def DB_OPERATION_NAME_KEY_def
   CICD_PIPELINE_NAME_KEY_def CICD_PIPELINE_RUN_ID_KEY_def CICD_PIPELINE_RUN_URL_KEY_def
   CICD_PIPELINE_TASK_NAME_KEY_def CICD_PIPELINE_TASK_RUN_ID_KEY_def
   CICD_PIPELINE_TASK_RUN_RESULT_KEY_def CICD_PIPELINE_TASK_RUN_URL_KEY_def ERROR_TYPE_KEY_def
   SENTRY_DESCRIPTION_KEY_def SENTRY_OPERATION_KEY_def VCS_HEAD_REVISION_KEY_def
   VCS_REPOSITORY_NAME_KEY_def VCS_REPOSITORY_URL_KEY_def GITHUB_WORKFLOW_CONCLUSION_KEY_def
   GITHUB_WORKFLOW_RUN_ATTEMPT_KEY_def GITHUB_WORKFLOW_EVENT_KEY_def
   GITHUB_WORKFLOW_SOURCE_BRANCH_KEY_def GITHUB_WORKFLOW_TARGET_BRANCH_KEY_def
   GITHUB_WORKFLOW_REQUIRED_KEY_def TIMING_SOURCE_KEY_def GITHUB_ACTIONS_PIPELINE_OPERATION_def
   GITHUB_ACTIONS_PIPELINE_TASK_OPERATION_def GITHUB_ACTIONS_JOB_OPERATION_def
   GITHUB_ACTIONS_STEP_OPERATION_def

datatype attr_value = StringValue rstring | I64Value int | BoolValue bool | I64Array "int list"

type_synonym key_value = "rstring \<times> attr_value"

definition string_key_value :: "rstring \<Rightarrow> rstring \<Rightarrow> key_value" where
  "string_key_value key v = (key, StringValue v)"

definition decimal_string_key_value :: "rstring \<Rightarrow> int \<Rightarrow> key_value" where
  "decimal_string_key_value key v = (key, StringValue (show_i64 v))"

subsection \<open>Closed vocabularies of the trace policy\<close>

datatype operation =
    HttpRequest | WebhookAuthenticate | WebhookProcess | RepositoryWrite | SqliteQuery
  | MergeQueueUpdate | RetentionRun

datatype operation_outcome = Success | Duplicate | NoOp | Cancelled | Failure

datatype http_method = Get | Post | Patch | Delete | Head | Options | Put | Other

datatype http_result = Success | ClientError | ServerError | Other

datatype config_operation = Create | Update | Delete

datatype queue_entity = MergeGroup | PullRequest

datatype operation_failure_reason = QueueState

datatype database_operation =
    RepositoryCount | RepositoryCreate | RepositoryList | RepositoryAuthenticate | RepositoryGet
  | RepositoryUpdate | RepositoryDelete | DeliveryClaim | DeliveryPrune | MergeQueueEnqueue
  | MergeQueueComplete | MergeQueuePrune | WorkflowRunUpsert | WorkflowRunGet | WorkflowRunPrune
  | WorkflowJobLinkRecord | WorkflowJobLinkList | WorkflowJobLinkPrune | RequiredCheckUpsert
  | RequiredCheckGet | RequiredCheckPrune

definition operation_outcome_as_str :: "operation_outcome \<Rightarrow> rstring" where
  "operation_outcome_as_str x = (case x of
     operation_outcome.Success \<Rightarrow> lit ''success''
   | operation_outcome.Duplicate \<Rightarrow> lit ''duplicate''
   | operation_outcome.NoOp \<Rightarrow> lit ''no_op''
   | operation_outcome.Cancelled \<Rightarrow> lit ''cancelled''
   | operation_outcome.Failure \<Rightarrow> lit ''failure'')"

definition http_method_as_str :: "http_method \<Rightarrow> rstring" where
  "http_method_as_str x = (case x of
     http_method.Get \<Rightarrow> lit ''GET''
   | http_method.Post \<Rightarrow> lit ''POST''
   | http_method.Patch \<Rightarrow> lit ''PATCH''
   | http_method.Delete \<Rightarrow> lit ''DELETE''
   | http_method.Head \<Rightarrow> lit ''HEAD''
   | http_method.Options \<Rightarrow> lit ''OPTIONS''
   | http_method.Put \<Rightarrow> lit ''PUT''
   | http_method.Other \<Rightarrow> lit ''other'')"

definition http_result_as_str :: "http_result \<Rightarrow> rstring" where
  "http_result_as_str x = (case x of
     http_result.Success \<Rightarrow> lit ''success''
   | http_result.ClientError \<Rightarrow> lit ''client_error''
   | http_result.ServerError \<Rightarrow> lit ''server_error''
   | http_result.Other \<Rightarrow> lit ''other'')"

definition config_operation_as_str :: "config_operation \<Rightarrow> rstring" where
  "config_operation_as_str x = (case x of
     config_operation.Create \<Rightarrow> lit ''create''
   | config_operation.Update \<Rightarrow> lit ''update''
   | config_operation.Delete \<Rightarrow> lit ''delete'')"

definition queue_entity_as_str :: "queue_entity \<Rightarrow> rstring" where
  "queue_entity_as_str x = (case x of
     queue_entity.MergeGroup \<Rightarrow> lit ''merge_group''
   | queue_entity.PullRequest \<Rightarrow> lit ''pull_request'')"

definition operation_failure_reason_as_str :: "operation_failure_reason \<Rightarrow> rstring" where
  "operation_failure_reason_as_str x = (case x of
     operation_failure_reason.QueueState \<Rightarrow> lit ''queue_state'')"

definition database_operation_as_str :: "database_operation \<Rightarrow> rstring" where
  "database_operation_as_str x = (case x of
     database_operation.RepositoryCount \<Rightarrow> lit ''repository.count''
   | database_operation.RepositoryCreate \<Rightarrow> lit ''repository.create''
   | database_operation.RepositoryList \<Rightarrow> lit ''repository.list''
   | database_operation.RepositoryAuthenticate \<Rightarrow> lit ''repository.authenticate''
   | database_operation.RepositoryGet \<Rightarrow> lit ''repository.get''
   | database_operation.RepositoryUpdate \<Rightarrow> lit ''repository.update''
   | database_operation.RepositoryDelete \<Rightarrow> lit ''repository.delete''
   | database_operation.DeliveryClaim \<Rightarrow> lit ''delivery.claim''
   | database_operation.DeliveryPrune \<Rightarrow> lit ''delivery.prune''
   | database_operation.MergeQueueEnqueue \<Rightarrow> lit ''merge_queue.enqueue''
   | database_operation.MergeQueueComplete \<Rightarrow> lit ''merge_queue.complete''
   | database_operation.MergeQueuePrune \<Rightarrow> lit ''merge_queue.prune''
   | database_operation.WorkflowRunUpsert \<Rightarrow> lit ''workflow_run.upsert''
   | database_operation.WorkflowRunGet \<Rightarrow> lit ''workflow_run.get''
   | database_operation.WorkflowRunPrune \<Rightarrow> lit ''workflow_run.prune''
   | database_operation.WorkflowJobLinkRecord \<Rightarrow> lit ''workflow_job_link.record''
   | database_operation.WorkflowJobLinkList \<Rightarrow> lit ''workflow_job_link.list''
   | database_operation.WorkflowJobLinkPrune \<Rightarrow> lit ''workflow_job_link.prune''
   | database_operation.RequiredCheckUpsert \<Rightarrow> lit ''required_check.upsert''
   | database_operation.RequiredCheckGet \<Rightarrow> lit ''required_check.get''
   | database_operation.RequiredCheckPrune \<Rightarrow> lit ''required_check.prune'')"

text \<open>The span names the \<open>info_span!\<close> calls of \<open>operation_span\<close> fix.\<close>

definition operation_span :: "operation \<Rightarrow> rstring" where
  "operation_span op = (case op of
     operation.HttpRequest \<Rightarrow> lit ''http.request''
   | operation.WebhookAuthenticate \<Rightarrow> lit ''github.webhook.authenticate''
   | operation.WebhookProcess \<Rightarrow> lit ''github.webhook.process''
   | operation.RepositoryWrite \<Rightarrow> lit ''config.repository.write''
   | operation.SqliteQuery \<Rightarrow> lit ''sqlite.query''
   | operation.MergeQueueUpdate \<Rightarrow> lit ''merge_queue.update''
   | operation.RetentionRun \<Rightarrow> lit ''retention.run'')"

definition http_method_from_method :: "rstring \<Rightarrow> http_method" where
  "http_method_from_method m =
     (if m = lit ''GET'' then http_method.Get
      else if m = lit ''POST'' then http_method.Post
      else if m = lit ''PATCH'' then http_method.Patch
      else if m = lit ''DELETE'' then http_method.Delete
      else if m = lit ''HEAD'' then http_method.Head
      else if m = lit ''OPTIONS'' then http_method.Options
      else if m = lit ''PUT'' then http_method.Put
      else http_method.Other)"

definition http_result_from_status :: "nat \<Rightarrow> http_result" where
  "http_result_from_status status =
     (if 100 \<le> status \<and> status \<le> 399 then http_result.Success
      else if 400 \<le> status \<and> status \<le> 499 then http_result.ClientError
      else if 500 \<le> status \<and> status \<le> 599 then http_result.ServerError
      else http_result.Other)"

definition http_operation_outcome :: "nat \<Rightarrow> operation_outcome" where
  "http_operation_outcome status =
     (if 100 \<le> status \<and> status \<le> 399 then operation_outcome.Success
      else operation_outcome.Failure)"

lemmas trace_vocabulary_defs [vocab] =
  operation_outcome_as_str_def http_method_as_str_def http_result_as_str_def
  config_operation_as_str_def queue_entity_as_str_def operation_failure_reason_as_str_def
  database_operation_as_str_def operation_span_def http_method_from_method_def
  http_result_from_status_def http_operation_outcome_def

lemma http_method_from_as_str:
  "m \<noteq> http_method.Other \<Longrightarrow> http_method_from_method (http_method_as_str m) = m"
  by (cases m) (simp_all add: vocab)

lemma database_operation_as_str_inj:
  "database_operation_as_str a = database_operation_as_str b \<Longrightarrow> a = b"
  by (cases a; cases b) (simp_all add: vocab)

subsection \<open>Attributes\<close>

definition repository_name_attribute :: "canonical_repository_name \<Rightarrow> key_value" where
  "repository_name_attribute nm = string_key_value REPOSITORY_NAME_KEY (name_as_str nm)"

definition delivery_id_attribute :: "('u \<Rightarrow> rstring) \<Rightarrow> 'u delivery_id \<Rightarrow> key_value" where
  "delivery_id_attribute hyphenated ident =
     string_key_value DELIVERY_ID_KEY (delivery_id_encode_lower hyphenated ident)"

definition pull_request_number_attribute :: "pull_request_number \<Rightarrow> key_value" where
  "pull_request_number_attribute number =
     (PULL_REQUEST_NUMBER_KEY, I64Value (pull_request_number_get number))"

definition pull_request_numbers_attribute :: "pull_request_number list \<Rightarrow> key_value option" where
  "pull_request_numbers_attribute numbers =
     (if numbers = [] then None
      else Some (PULL_REQUEST_NUMBER_KEY, I64Array (map pull_request_number_get numbers)))"

definition commit_sha_attribute :: "commit_sha \<Rightarrow> key_value" where
  "commit_sha_attribute sha = string_key_value COMMIT_SHA_KEY (commit_sha_as_str sha)"

definition operation_outcome_attribute :: "operation_outcome \<Rightarrow> key_value" where
  "operation_outcome_attribute oc =
     string_key_value OPERATION_OUTCOME_KEY (operation_outcome_as_str oc)"

definition workflow_name_attribute :: "rstring \<Rightarrow> key_value" where
  "workflow_name_attribute nm = string_key_value CICD_PIPELINE_NAME_KEY nm"

definition workflow_pipeline_run_id_attribute :: "workflow_run_id \<Rightarrow> key_value" where
  "workflow_pipeline_run_id_attribute run_id =
     decimal_string_key_value CICD_PIPELINE_RUN_ID_KEY (run_id_get run_id)"

definition workflow_run_attempt_attribute :: "workflow_run_attempt \<Rightarrow> key_value" where
  "workflow_run_attempt_attribute run_attempt =
     decimal_string_key_value GITHUB_WORKFLOW_RUN_ATTEMPT_KEY (run_attempt_get run_attempt)"

definition workflow_event_attribute :: "workflow_event \<Rightarrow> key_value" where
  "workflow_event_attribute event =
     string_key_value GITHUB_WORKFLOW_EVENT_KEY (workflow_event_as_str event)"

definition workflow_source_branch_attribute :: "workflow_branch \<Rightarrow> key_value" where
  "workflow_source_branch_attribute branch =
     string_key_value GITHUB_WORKFLOW_SOURCE_BRANCH_KEY (branch_as_str branch)"

definition workflow_target_branch_attribute :: "workflow_branch \<Rightarrow> key_value" where
  "workflow_target_branch_attribute branch =
     string_key_value GITHUB_WORKFLOW_TARGET_BRANCH_KEY (branch_as_str branch)"

definition workflow_pipeline_run_url_attribute ::
  "canonical_repository_name \<Rightarrow> workflow_run_id \<Rightarrow> key_value" where
  "workflow_pipeline_run_url_attribute repository run_id =
     string_key_value CICD_PIPELINE_RUN_URL_KEY
       (lit ''https://github.com/'' @ name_as_str repository @ lit ''/actions/runs/''
        @ show_i64 (run_id_get run_id))"

definition workflow_task_run_url_attribute ::
  "canonical_repository_name \<Rightarrow> workflow_run_id \<Rightarrow> workflow_job_id \<Rightarrow> key_value" where
  "workflow_task_run_url_attribute repository run_id job_id =
     string_key_value CICD_PIPELINE_TASK_RUN_URL_KEY
       (lit ''https://github.com/'' @ name_as_str repository @ lit ''/actions/runs/''
        @ show_i64 (run_id_get run_id) @ lit ''/job/'' @ show_i64 (job_id_get job_id))"

definition workflow_step_task_run_url_attribute ::
  "canonical_repository_name \<Rightarrow> workflow_run_id \<Rightarrow> workflow_job_id \<Rightarrow> workflow_step_trace
   \<Rightarrow> key_value" where
  "workflow_step_task_run_url_attribute repository run_id job_id step =
     string_key_value CICD_PIPELINE_TASK_RUN_URL_KEY
       (lit ''https://github.com/'' @ name_as_str repository @ lit ''/actions/runs/''
        @ show_i64 (run_id_get run_id) @ lit ''/job/'' @ show_i64 (job_id_get job_id)
        @ lit ''#step:'' @ show_i64 (step_number step) @ lit '':1'')"

definition workflow_repository_url_attribute :: "canonical_repository_name \<Rightarrow> key_value" where
  "workflow_repository_url_attribute repository =
     string_key_value VCS_REPOSITORY_URL_KEY
       (lit ''https://github.com/'' @ name_as_str repository)"

text \<open>\<open>str::rsplit_once\<close> by one character.\<close>

fun rsplit_once :: "'a \<Rightarrow> 'a list \<Rightarrow> ('a list \<times> 'a list) option" where
  "rsplit_once d [] = None"
| "rsplit_once d (c # cs) =
     (case rsplit_once d cs of
        Some (a, b) \<Rightarrow> Some (c # a, b)
      | None \<Rightarrow> if c = d then Some ([], cs) else None)"

definition workflow_repository_name_attribute :: "canonical_repository_name \<Rightarrow> key_value" where
  "workflow_repository_name_attribute repository =
     string_key_value VCS_REPOSITORY_NAME_KEY
       (case rsplit_once 47 (name_as_str repository) of
          None \<Rightarrow> name_as_str repository
        | Some (_, nm) \<Rightarrow> nm)"

definition workflow_head_revision_attribute :: "commit_sha \<Rightarrow> key_value" where
  "workflow_head_revision_attribute sha =
     string_key_value VCS_HEAD_REVISION_KEY (commit_sha_as_str sha)"

definition workflow_pipeline_task_run_id_attribute :: "workflow_job_id \<Rightarrow> key_value" where
  "workflow_pipeline_task_run_id_attribute job_id =
     decimal_string_key_value CICD_PIPELINE_TASK_RUN_ID_KEY (job_id_get job_id)"

definition workflow_pipeline_step_task_run_id_attribute ::
  "workflow_job_id \<Rightarrow> workflow_step_trace \<Rightarrow> key_value" where
  "workflow_pipeline_step_task_run_id_attribute job_id step =
     string_key_value CICD_PIPELINE_TASK_RUN_ID_KEY
       (show_i64 (job_id_get job_id) @ lit '':'' @ show_i64 (step_number step))"

definition workflow_task_name_attribute :: "rstring \<Rightarrow> key_value" where
  "workflow_task_name_attribute nm = string_key_value CICD_PIPELINE_TASK_NAME_KEY nm"

definition workflow_conclusion_attribute :: "workflow_conclusion \<Rightarrow> key_value" where
  "workflow_conclusion_attribute conclusion =
     string_key_value GITHUB_WORKFLOW_CONCLUSION_KEY (workflow_conclusion_as_str conclusion)"

definition workflow_required_attribute :: "bool option \<Rightarrow> key_value option" where
  "workflow_required_attribute required =
     map_option (\<lambda>r. (GITHUB_WORKFLOW_REQUIRED_KEY, BoolValue r)) required"

definition workflow_pipeline_task_run_result_attribute :: "workflow_conclusion \<Rightarrow> key_value" where
  "workflow_pipeline_task_run_result_attribute conclusion =
     string_key_value CICD_PIPELINE_TASK_RUN_RESULT_KEY (semantic_result conclusion)"

definition workflow_error_type_attribute :: "workflow_conclusion \<Rightarrow> key_value option" where
  "workflow_error_type_attribute conclusion =
     map_option (string_key_value ERROR_TYPE_KEY) (error_type conclusion)"

definition sentry_operation_attribute :: "rstring \<Rightarrow> key_value" where
  "sentry_operation_attribute op = string_key_value SENTRY_OPERATION_KEY op"

definition sentry_description_attribute :: "rstring \<Rightarrow> key_value" where
  "sentry_description_attribute description =
     string_key_value SENTRY_DESCRIPTION_KEY description"

definition timing_source_attribute :: "timing_source \<Rightarrow> key_value" where
  "timing_source_attribute source =
     string_key_value TIMING_SOURCE_KEY (timing_source_as_str source)"

lemmas attribute_defs =
  string_key_value_def decimal_string_key_value_def delivery_id_attribute_def
  pull_request_numbers_attribute_def workflow_name_attribute_def
  workflow_pipeline_run_id_attribute_def workflow_run_attempt_attribute_def
  workflow_event_attribute_def workflow_source_branch_attribute_def
  workflow_target_branch_attribute_def workflow_pipeline_run_url_attribute_def
  workflow_task_run_url_attribute_def workflow_step_task_run_url_attribute_def
  workflow_repository_url_attribute_def workflow_repository_name_attribute_def
  workflow_head_revision_attribute_def workflow_pipeline_task_run_id_attribute_def
  workflow_pipeline_step_task_run_id_attribute_def workflow_task_name_attribute_def
  workflow_conclusion_attribute_def workflow_required_attribute_def
  workflow_pipeline_task_run_result_attribute_def workflow_error_type_attribute_def
  sentry_operation_attribute_def sentry_description_attribute_def timing_source_attribute_def

lemma rsplit_once_no_sep: "d \<notin> set cs \<Longrightarrow> rsplit_once d cs = None"
  by (induction cs) auto

lemma rsplit_once_last: "d \<notin> set b \<Longrightarrow> rsplit_once d (a @ d # b) = Some (a, b)"
  by (induction a) (auto simp: rsplit_once_no_sep)

text \<open>On a canonical name the attribute is the segment after the slash.\<close>

lemma workflow_repository_name_attribute_segment:
  assumes "split_on 47 (name_as_str n) = [owner, repository]" and "47 \<notin> set repository"
  shows "workflow_repository_name_attribute n = (VCS_REPOSITORY_NAME_KEY, StringValue repository)"
  using split_on_two [OF assms(1)] assms(2)
  by (simp add: workflow_repository_name_attribute_def rsplit_once_last string_key_value_def)

subsection \<open>Calls on a span\<close>

datatype span_call =
    SetAttribute key_value
  | SetStatus span_status
  | AddEvent rstring "key_value list"

type_synonym span_calls = "span_call list"

definition database_span :: "database_operation \<Rightarrow> span_calls" where
  "database_span op =
     [SetAttribute (DB_SYSTEM_NAME_KEY, StringValue SQLITE_SYSTEM_NAME),
      SetAttribute (DB_OPERATION_NAME_KEY, StringValue (database_operation_as_str op))]"

definition set_http_method :: "rstring \<Rightarrow> span_calls" where
  "set_http_method m =
     [SetAttribute (HTTP_REQUEST_METHOD_KEY,
        StringValue (http_method_as_str (http_method_from_method m)))]"

definition set_http_route :: "rstring option \<Rightarrow> span_calls" where
  "set_http_route matched_path =
     [SetAttribute (HTTP_ROUTE_KEY, StringValue (case matched_path of
        None \<Rightarrow> lit ''unmatched'' | Some route \<Rightarrow> route))]"

definition set_status :: "operation_outcome \<Rightarrow> span_calls" where
  "set_status oc =
     [SetAttribute (operation_outcome_attribute oc),
      SetStatus (case oc of operation_outcome.Failure \<Rightarrow> StatusError (lit ''operation_failed'')
                 | _ \<Rightarrow> StatusOk)]"

definition set_http_response :: "nat \<Rightarrow> span_calls" where
  "set_http_response status =
     [SetAttribute (HTTP_RESPONSE_STATUS_CODE_KEY, I64Value (int status)),
      SetAttribute (HTTP_RESULT_KEY,
        StringValue (http_result_as_str (http_result_from_status status)))]
     @ set_status (http_operation_outcome status)"

definition set_config_operation :: "config_operation \<Rightarrow> span_calls" where
  "set_config_operation op =
     [SetAttribute (CONFIG_OPERATION_KEY, StringValue (config_operation_as_str op))]"

definition set_webhook_event :: "event_type \<Rightarrow> action \<Rightarrow> span_calls" where
  "set_webhook_event event_type act =
     [SetAttribute (WEBHOOK_EVENT_TYPE_KEY, StringValue (event_type_as_str event_type)),
      SetAttribute (WEBHOOK_ACTION_KEY, StringValue (action_as_str act))]"

definition set_queue_entity :: "queue_entity \<Rightarrow> span_calls" where
  "set_queue_entity entity =
     [SetAttribute (QUEUE_ENTITY_KEY, StringValue (queue_entity_as_str entity))]"

definition set_merge_group_transition ::
  "merge_group_action \<Rightarrow> merge_group_reason \<Rightarrow> span_calls" where
  "set_merge_group_transition act reason =
     [SetAttribute (MERGE_GROUP_ACTION_KEY, StringValue (merge_group_action_as_str act)),
      SetAttribute (MERGE_GROUP_REASON_KEY, StringValue (merge_group_reason_as_str reason))]"

definition set_merge_queue_completion :: "merge_queue_completion \<Rightarrow> span_calls" where
  "set_merge_queue_completion completion =
     (case (case completion of
        merge_queue_completion.PullRequestMerged \<Rightarrow>
          (merge_queue_outcome.Succeeded, merge_queue_reason.PullRequestMerged)
      | merge_queue_completion.UnclassifiedDequeue \<Rightarrow>
          (merge_queue_outcome.Unknown, merge_queue_reason.UnclassifiedDequeue)) of
        (oc, reason) \<Rightarrow>
          [SetAttribute (QUEUE_OUTCOME_KEY, StringValue (merge_queue_outcome_as_str oc)),
           SetAttribute (QUEUE_REASON_KEY, StringValue (merge_queue_reason_as_str reason))])"

definition set_repository_name :: "canonical_repository_name \<Rightarrow> span_calls" where
  "set_repository_name nm = [SetAttribute (repository_name_attribute nm)]"

definition set_repository_id :: "repository_id \<Rightarrow> span_calls" where
  "set_repository_id ident = [SetAttribute (REPOSITORY_ID_KEY, I64Value (repository_id_get ident))]"

definition set_delivery_id :: "('u \<Rightarrow> rstring) \<Rightarrow> 'u delivery_id \<Rightarrow> span_calls" where
  "set_delivery_id hyphenated ident = [SetAttribute (delivery_id_attribute hyphenated ident)]"

definition set_pull_request_number :: "pull_request_number \<Rightarrow> span_calls" where
  "set_pull_request_number number = [SetAttribute (pull_request_number_attribute number)]"

definition set_commit_sha :: "commit_sha \<Rightarrow> span_calls" where
  "set_commit_sha sha = [SetAttribute (commit_sha_attribute sha)]"

definition set_result_status :: "('e, 'a) result \<Rightarrow> span_calls" where
  "set_result_status r =
     set_status (case r of Inr _ \<Rightarrow> operation_outcome.Success | Inl _ \<Rightarrow> operation_outcome.Failure)"

definition add_failure_event :: "operation_failure_reason \<Rightarrow> span_calls" where
  "add_failure_event reason =
     [AddEvent OPERATION_FAILURE_EVENT
        [(FAILURE_REASON_KEY, StringValue (operation_failure_reason_as_str reason))]]"

text \<open>
  The span names the metric label values and the span attributes of a completion the same way
  (\<open>MergeQueueCompletion::labels\<close> and \<open>set_merge_queue_completion\<close> repeat the pairing).
\<close>

lemma set_merge_queue_completion_agrees:
  "set_merge_queue_completion c =
     (case completion_labels c l of (_, oc, reason) \<Rightarrow>
        [SetAttribute (QUEUE_OUTCOME_KEY, StringValue (merge_queue_outcome_as_str oc)),
         SetAttribute (QUEUE_REASON_KEY, StringValue (merge_queue_reason_as_str reason))])"
  by (cases c) (simp_all add: set_merge_queue_completion_def completion_labels_def)

end
