(* ===== verification/Table.thy ===== *)
theory Table
  imports Prelude "HOL-Library.Product_Lexorder"
begin

section \<open>Tables and the SQL statements on them\<close>

text \<open>
  A SQLite table is the list of its rows. The statements the stores send are built of a few
  patterns, defined once: lookup by a key, \<open>INSERT .. ON CONFLICT DO UPDATE\<close>, and the bounded
  deletion of the oldest rows. SQLite itself is not part of the repository; what its errors carry is
  \<open>sqlx_error\<close>, and the classification of an error is \<open>sqlite_is_busy_or_locked\<close> of
  \<open>src/storage/mod.rs\<close>.
\<close>

unbundle bit_operations_syntax

subsection \<open>Errors\<close>

datatype sqlx_error = DatabaseError "rstring option" bool | OtherError

text \<open>The extended result codes of violated constraints.\<close>

definition foreign_key_violation :: sqlx_error where
  "foreign_key_violation = DatabaseError (Some (lit ''787'')) False"
definition check_violation :: sqlx_error where
  "check_violation = DatabaseError (Some (lit ''275'')) False"
definition unique_violation :: sqlx_error where
  "unique_violation = DatabaseError (Some (lit ''2067'')) True"

definition sqlite_is_busy_or_locked :: "sqlx_error \<Rightarrow> bool" where
  "sqlite_is_busy_or_locked e =
     (case e of
        OtherError \<Rightarrow> False
      | DatabaseError code _ \<Rightarrow>
          (case Option.bind code parse_i32 of
             None \<Rightarrow> False
           | Some c \<Rightarrow> c AND 255 = 5 \<or> c AND 255 = 6))"

definition is_unique_violation :: "sqlx_error \<Rightarrow> bool" where
  "is_unique_violation e = (case e of DatabaseError _ u \<Rightarrow> u | OtherError \<Rightarrow> False)"

text \<open>
  The failures of the environment: \<open>faults n\<close> is the error the \<open>n\<close>-th call on the pool or
  transaction of one operation returns, if any. A transaction that is dropped is rolled back.
\<close>

type_synonym faults = "nat \<Rightarrow> sqlx_error option"

definition no_faults :: faults where "no_faults n = None"

subsection \<open>Lookup and upsert\<close>

definition lookup_row :: "('r \<Rightarrow> 'k) \<Rightarrow> 'k \<Rightarrow> 'r list \<Rightarrow> 'r option" where
  "lookup_row key k tbl = find (\<lambda>r. key r = k) tbl"

definition upsert_row :: "('r \<Rightarrow> 'k) \<Rightarrow> ('r \<Rightarrow> 'r \<Rightarrow> 'r) \<Rightarrow> 'r \<Rightarrow> 'r list \<Rightarrow> 'r list" where
  "upsert_row key merge new tbl =
     (if list_ex (\<lambda>r. key r = key new) tbl
      then map (\<lambda>r. if key r = key new then merge r new else r) tbl
      else tbl @ [new])"

text \<open>The identifier SQLite gives a new row: one more than the greatest.\<close>

definition next_rowid :: "int list \<Rightarrow> int" where
  "next_rowid ids = (if ids = [] then 1 else Max (set ids) + 1)"

lemma next_rowid_fresh: "i \<in> set ids \<Longrightarrow> i < next_rowid ids"
  using Max_ge [of "set ids" i] by (auto simp: next_rowid_def)

lemma next_rowid_not_in: "next_rowid ids \<notin> set ids"
  using next_rowid_fresh [of "next_rowid ids" ids] by blast

lemma next_rowid_positive:
  assumes "\<forall>i \<in> set ids. 0 < i"
  shows "0 < next_rowid ids"
proof (cases ids)
  case Nil
  then show ?thesis by (simp add: next_rowid_def)
next
  case (Cons i rest)
  then have "0 < i" "i < next_rowid ids" using assms next_rowid_fresh [of i ids] by auto
  then show ?thesis by (rule order_less_trans)
qed

lemma find_append:
  "find P (xs @ ys) = (case find P xs of None \<Rightarrow> find P ys | Some x \<Rightarrow> Some x)"
  by (induction xs) auto

lemma lookup_row_Some: "lookup_row key k tbl = Some r \<Longrightarrow> r \<in> set tbl \<and> key r = k"
  by (auto simp: lookup_row_def find_Some_iff)

lemma lookup_row_None_iff: "lookup_row key k tbl = None \<longleftrightarrow> k \<notin> key ` set tbl"
  by (auto simp: lookup_row_def find_None_iff)

lemma lookup_row_unique:
  assumes "distinct (map key tbl)" and "r \<in> set tbl"
  shows "lookup_row key (key r) tbl = Some r"
  using assms
proof (induction tbl)
  case (Cons x xs)
  then show ?case by (cases "x = r") (auto simp: lookup_row_def rev_image_eqI)
qed simp

text \<open>
  The contract of an upsert whose update keeps the key: the stores of workflow-run contexts, job
  links and required checks provide it.
\<close>

locale keyed_upsert =
  fixes key :: "'r \<Rightarrow> 'k" and merge :: "'r \<Rightarrow> 'r \<Rightarrow> 'r"
  assumes key_merge: "key (merge old new) = key old"
begin

lemma keys_upsert:
  "map key (upsert_row key merge new tbl) =
     (if key new \<in> set (map key tbl) then map key tbl else map key tbl @ [key new])"
  by (auto simp: upsert_row_def list_ex_iff key_merge rev_image_eqI)

lemma distinct_upsert:
  "distinct (map key tbl) \<Longrightarrow> distinct (map key (upsert_row key merge new tbl))"
  by (simp add: keys_upsert)

lemma lookup_upsert_other:
  "k \<noteq> key new \<Longrightarrow> lookup_row key k (upsert_row key merge new tbl) = lookup_row key k tbl"
proof -
  assume k: "k \<noteq> key new"
  have "find (\<lambda>r. key r = k) (map (\<lambda>r. if key r = key new then merge r new else r) xs)
      = find (\<lambda>r. key r = k) xs" for xs
    using k by (induction xs) (auto simp: key_merge)
  with k show ?thesis
    by (auto simp: lookup_row_def upsert_row_def find_append split: option.splits)
qed

lemma lookup_upsert_fresh:
  "lookup_row key (key new) tbl = None \<Longrightarrow>
     lookup_row key (key new) (upsert_row key merge new tbl) = Some new"
  unfolding lookup_row_def upsert_row_def
  by (induction tbl) (auto simp: find_append find_None_iff list_ex_iff split: option.splits)

lemma lookup_upsert_existing:
  "lookup_row key (key new) tbl = Some old \<Longrightarrow>
     lookup_row key (key new) (upsert_row key merge new tbl) = Some (merge old new)"
proof -
  assume l: "lookup_row key (key new) tbl = Some old"
  then have "list_ex (\<lambda>r. key r = key new) tbl"
    using lookup_row_Some [OF l] by (auto simp: list_ex_iff)
  moreover have "find (\<lambda>r. key r = key new) (map (\<lambda>r. if key r = key new then merge r new else r) xs)
      = Some (merge old new)" if "find (\<lambda>r. key r = key new) xs = Some old" for xs
    using that by (induction xs) (auto simp: key_merge split: if_splits)
  ultimately show ?thesis using l by (simp add: lookup_row_def upsert_row_def)
qed

text \<open>Whatever was there, the row found afterwards is the new one or an update by it.\<close>

lemma lookup_upsert:
  "\<exists>row. lookup_row key (key new) (upsert_row key merge new tbl) = Some row
     \<and> (row = new \<or> (\<exists>old \<in> set tbl. row = merge old new))"
proof (cases "lookup_row key (key new) tbl")
  case None
  then show ?thesis using lookup_upsert_fresh by blast
next
  case (Some old)
  with lookup_upsert_existing lookup_row_Some show ?thesis by metis
qed

lemma set_upsert:
  "row \<in> set (upsert_row key merge new tbl) \<Longrightarrow>
     row \<in> set tbl \<or> row = new \<or> (\<exists>old \<in> set tbl. row = merge old new)"
  by (auto simp: upsert_row_def split: if_splits)

end

subsection \<open>Bounded deletion of the oldest rows\<close>

text \<open>
  \<open>DELETE FROM t WHERE id IN (SELECT id FROM t WHERE ts < ? ORDER BY ts, id LIMIT ?)\<close>, with the
  number of rows it deletes; \<open>ts\<close> is \<open>None\<close> for a null.
\<close>

definition expired_row :: "('r \<Rightarrow> rstring option) \<Rightarrow> rstring \<Rightarrow> 'r \<Rightarrow> bool" where
  "expired_row ts cutoff r = (case ts r of None \<Rightarrow> False | Some t \<Rightarrow> t < cutoff)"

definition age_key :: "('r \<Rightarrow> rstring option) \<Rightarrow> ('r \<Rightarrow> 'i) \<Rightarrow> 'r \<Rightarrow> rstring \<times> 'i" where
  "age_key ts rid r = (case ts r of None \<Rightarrow> [] | Some t \<Rightarrow> t, rid r)"

definition oldest_expired ::
  "('r \<Rightarrow> rstring option) \<Rightarrow> ('r \<Rightarrow> 'i::linorder) \<Rightarrow> rstring \<Rightarrow> nat \<Rightarrow> 'r list \<Rightarrow> 'r list" where
  "oldest_expired ts rid cutoff limit tbl =
     take limit (sort_key (age_key ts rid) (filter (expired_row ts cutoff) tbl))"

definition prune_rows ::
  "('r \<Rightarrow> rstring option) \<Rightarrow> ('r \<Rightarrow> 'i::linorder) \<Rightarrow> rstring \<Rightarrow> nat \<Rightarrow> 'r list \<Rightarrow> 'r list \<times> nat" where
  "prune_rows ts rid cutoff limit tbl =
     (let ids = map rid (oldest_expired ts rid cutoff limit tbl);
          kept = filter (\<lambda>r. rid r \<notin> set ids) tbl
      in (kept, length tbl - length kept))"

lemma set_oldest_expired:
  "r \<in> set (oldest_expired ts rid cutoff limit tbl) \<Longrightarrow> r \<in> set tbl \<and> expired_row ts cutoff r"
  by (auto simp: oldest_expired_def dest: in_set_takeD)

lemma rid_unique:
  "distinct (map rid tbl) \<Longrightarrow> r \<in> set tbl \<Longrightarrow> s \<in> set tbl \<Longrightarrow> rid r = rid s \<Longrightarrow> r = s"
  by (auto simp: distinct_map inj_on_def)

text \<open>With distinct identifiers exactly the chosen rows go.\<close>

lemma prune_rows_eq:
  assumes "distinct (map rid tbl)"
  shows "prune_rows ts rid cutoff limit tbl =
     (filter (\<lambda>r. r \<notin> set (oldest_expired ts rid cutoff limit tbl)) tbl,
      length (oldest_expired ts rid cutoff limit tbl))"
proof -
  let ?old = "oldest_expired ts rid cutoff limit tbl"
  let ?kept = "filter (\<lambda>r. r \<notin> set ?old) tbl"
  have "rid r \<in> set (map rid ?old) \<longleftrightarrow> r \<in> set ?old" if r: "r \<in> set tbl" for r
  proof
    assume "rid r \<in> set (map rid ?old)"
    then obtain s where "s \<in> set ?old" "rid r = rid s" by auto
    then show "r \<in> set ?old" using rid_unique [OF assms r] set_oldest_expired [of s] by blast
  qed simp
  then have kept: "filter (\<lambda>r. rid r \<notin> set (map rid ?old)) tbl = ?kept"
    by (intro filter_cong) auto
  have "distinct tbl" using assms by (simp add: distinct_map)
  then have "distinct ?old" by (simp add: oldest_expired_def)
  have "length (filter (\<lambda>r. r \<in> set ?old) tbl) = card (set ?old)"
  proof -
    have "set (filter (\<lambda>r. r \<in> set ?old) tbl) = set ?old"
      using set_oldest_expired [of _ ts rid cutoff limit tbl] by auto
    with \<open>distinct tbl\<close> show ?thesis by (metis distinct_card distinct_filter)
  qed
  also have "\<dots> = length ?old" using \<open>distinct ?old\<close> by (rule distinct_card)
  finally have "length tbl = length ?kept + length ?old"
    using sum_length_filter_compl [of "\<lambda>r. r \<in> set ?old" tbl] by simp
  with kept show ?thesis by (simp add: prune_rows_def Let_def)
qed

lemma length_oldest_expired:
  "length (oldest_expired ts rid cutoff limit tbl) =
     min limit (length (filter (expired_row ts cutoff) tbl))"
  by (simp add: oldest_expired_def min.commute)

lemma oldest_expired_all:
  assumes "length (oldest_expired ts rid cutoff limit tbl) < limit"
  shows "set (oldest_expired ts rid cutoff limit tbl) = set (filter (expired_row ts cutoff) tbl)"
  using assms by (simp add: oldest_expired_def)

lemma oldest_expired_oldest:
  assumes "r \<in> set (oldest_expired ts rid cutoff limit tbl)"
    and "s \<in> set tbl" "expired_row ts cutoff s" "s \<notin> set (oldest_expired ts rid cutoff limit tbl)"
  shows "age_key ts rid r \<le> age_key ts rid s"
proof -
  let ?xs = "sort_key (age_key ts rid) (filter (expired_row ts cutoff) tbl)"
  have "s \<in> set (take limit ?xs @ drop limit ?xs)" using assms(2,3) by simp
  then have "s \<in> set (drop limit ?xs)"
    using assms(4) unfolding oldest_expired_def set_append by blast
  moreover have "sorted (map (age_key ts rid) (take limit ?xs @ drop limit ?xs))" by simp
  ultimately show ?thesis
    using assms(1) unfolding oldest_expired_def map_append sorted_append by auto
qed

text \<open>One batch, as retention sees it.\<close>

lemma prune_rows_batch:
  assumes "distinct (map rid tbl)" and "prune_rows ts rid cutoff limit tbl = (tbl', n)"
  shows "n \<le> limit" and "length tbl' + n = length tbl"
    and "set tbl' \<subseteq> set tbl"
    and "r \<in> set tbl \<Longrightarrow> \<not> expired_row ts cutoff r \<Longrightarrow> r \<in> set tbl'"
    and "n < limit \<Longrightarrow> r \<in> set tbl' \<Longrightarrow> \<not> expired_row ts cutoff r"
    and "distinct (map f tbl) \<Longrightarrow> distinct (map f tbl')"
proof -
  let ?old = "oldest_expired ts rid cutoff limit tbl"
  have tbl': "tbl' = filter (\<lambda>r. r \<notin> set ?old) tbl" and n: "n = length ?old"
    using assms prune_rows_eq [OF assms(1)] by auto
  show "n \<le> limit" by (simp add: n length_oldest_expired)
  have "n = length tbl - length tbl'" using assms(2) by (auto simp: prune_rows_def Let_def)
  moreover have "length tbl' \<le> length tbl" by (simp add: tbl')
  ultimately show "length tbl' + n = length tbl" by simp
  show "set tbl' \<subseteq> set tbl" by (auto simp: tbl')
  show "r \<in> set tbl'" if "r \<in> set tbl" "\<not> expired_row ts cutoff r"
    using that set_oldest_expired [of r ts rid cutoff limit tbl] by (auto simp: tbl')
  show "\<not> expired_row ts cutoff r" if "n < limit" "r \<in> set tbl'"
    using that oldest_expired_all [of ts rid cutoff limit tbl] by (auto simp: tbl' n)
  show "distinct (map f tbl) \<Longrightarrow> distinct (map f tbl')"
    by (simp add: tbl' distinct_map_filter)
qed

end
