(* ===== verification/Database.thy ===== *)
theory Database
  imports Table Domain Security
begin

section \<open>The database: rows, tables and constraints\<close>

text \<open>
  The tables the migrations create, one record per row, in one \<open>database\<close> record. The three
  tables without an \<open>INTEGER PRIMARY KEY\<close> have SQLite's implicit \<open>rowid\<close>. The constraints of
  the migrations (keys, unique indexes, checks, references) are the invariant \<open>db_ok\<close>; deleting a
  repository cascades. \<open>open_database\<close>, the pool and the migration runner are I/O and not modelled.
\<close>

record repository_row =
  rr_id :: int
  rr_full_name :: rstring
  rr_ciphertext :: "byte list"
  rr_nonce :: "byte list"
  rr_encryption_version :: int
  rr_enabled :: int
  rr_created_at :: rstring
  rr_updated_at :: rstring

record delivery_row =
  dr_delivery_id :: rstring
  dr_received_at :: rstring

record attempt_row =
  at_id :: int
  at_repository_id :: int
  at_pull_request_number :: int
  at_enqueued_at :: rstring
  at_completed_at :: "rstring option"
  at_outcome :: rstring
  at_reason_code :: rstring

record run_row =
  wr_rowid :: int
  wr_repository_id :: int
  wr_run_id :: int
  wr_run_attempt :: int
  wr_event :: rstring
  wr_source_branch :: "rstring option"
  wr_target_branch :: "rstring option"
  wr_updated_at :: rstring

record job_link_row =
  jl_rowid :: int
  jl_repository_id :: int
  jl_run_id :: int
  jl_run_attempt :: int
  jl_job_id :: int
  jl_job_name :: "rstring option"
  jl_conclusion :: rstring
  jl_trace_id :: rstring
  jl_span_id :: rstring
  jl_started_at_nanos :: int
  jl_completed_at_nanos :: int
  jl_timing_source :: rstring
  jl_updated_at :: rstring

record required_check_row =
  rc_rowid :: int
  rc_repository_id :: int
  rc_target_branch :: rstring
  rc_check_names :: rstring
  rc_updated_at :: rstring

record database =
  repositories :: "repository_row list"
  deliveries :: "delivery_row list"
  attempts :: "attempt_row list"
  run_contexts :: "run_row list"
  job_links :: "job_link_row list"
  check_contexts :: "required_check_row list"

definition empty_database :: database where
  "empty_database =
     \<lparr>repositories = [], deliveries = [], attempts = [], run_contexts = [], job_links = [],
      check_contexts = []\<rparr>"

subsection \<open>Keys\<close>

definition repository_ids :: "database \<Rightarrow> int set" where
  "repository_ids db = rr_id ` set (repositories db)"

definition run_key :: "run_row \<Rightarrow> int \<times> int \<times> int" where
  "run_key r = (wr_repository_id r, wr_run_id r, wr_run_attempt r)"

definition link_key :: "job_link_row \<Rightarrow> int \<times> int \<times> int \<times> int" where
  "link_key r = (jl_repository_id r, jl_run_id r, jl_run_attempt r, jl_job_id r)"

definition check_key :: "required_check_row \<Rightarrow> int \<times> rstring" where
  "check_key r = (rc_repository_id r, rc_target_branch r)"

definition attempt_key :: "attempt_row \<Rightarrow> int \<times> int" where
  "attempt_key r = (at_repository_id r, at_pull_request_number r)"

definition active_attempt :: "attempt_row \<Rightarrow> bool" where
  "active_attempt r \<longleftrightarrow> at_completed_at r = None"

subsection \<open>The constraints of the migrations\<close>

definition repositories_ok :: "repository_row list \<Rightarrow> bool" where
  "repositories_ok rs \<longleftrightarrow>
     distinct (map rr_id rs) \<and> distinct (map rr_full_name rs)
     \<and> (\<forall>r \<in> set rs. 0 < rr_id r \<and> rr_enabled r \<in> {0, 1})"

definition attempt_outcomes :: "rstring list" where
  "attempt_outcomes =
     [lit ''pending'', lit ''succeeded'', lit ''failed'', lit ''cancelled'', lit ''unknown'']"

definition attempt_check :: "attempt_row \<Rightarrow> bool" where
  "attempt_check r \<longleftrightarrow>
     0 < at_pull_request_number r \<and> at_outcome r \<in> set attempt_outcomes
     \<and> (at_outcome r = lit ''pending'' \<longleftrightarrow> at_completed_at r = None)"

definition attempts_ok :: "int set \<Rightarrow> attempt_row list \<Rightarrow> bool" where
  "attempts_ok ids rs \<longleftrightarrow>
     distinct (map at_id rs) \<and> distinct (map attempt_key (filter active_attempt rs))
     \<and> (\<forall>r \<in> set rs. attempt_check r \<and> at_repository_id r \<in> ids)"

definition branch_check :: "rstring option \<Rightarrow> bool" where
  "branch_check b = (case b of None \<Rightarrow> True | Some s \<Rightarrow> 1 \<le> length s \<and> length s \<le> 255)"

definition run_check :: "run_row \<Rightarrow> bool" where
  "run_check r \<longleftrightarrow>
     0 < wr_run_id r \<and> 0 < wr_run_attempt r
     \<and> wr_event r \<in> {lit ''pull_request'', lit ''merge_group'', lit ''push'', lit ''other''}
     \<and> branch_check (wr_source_branch r) \<and> branch_check (wr_target_branch r)"

definition link_check :: "job_link_row \<Rightarrow> bool" where
  "link_check r \<longleftrightarrow>
     0 < jl_run_id r \<and> 0 < jl_run_attempt r \<and> 0 < jl_job_id r
     \<and> (case jl_job_name r of None \<Rightarrow> True | Some s \<Rightarrow> 1 \<le> length s \<and> length s \<le> 128)
     \<and> jl_conclusion r \<in> {lit ''success'', lit ''failure'', lit ''cancelled'', lit ''skipped'',
          lit ''timed_out'', lit ''neutral'', lit ''other''}
     \<and> length (jl_trace_id r) = 32 \<and> length (jl_span_id r) = 16
     \<and> jl_started_at_nanos r \<le> jl_completed_at_nanos r
     \<and> jl_timing_source r \<in> {lit ''reported'', lit ''fallback''}"

definition check_row_check :: "required_check_row \<Rightarrow> bool" where
  "check_row_check r \<longleftrightarrow>
     1 \<le> length (rc_target_branch r) \<and> length (rc_target_branch r) \<le> 255
     \<and> length (rc_check_names r) \<le> 16384"

text \<open>A table with a primary key, an implicit rowid, row checks and a reference to repositories.\<close>

definition keyed_table_ok ::
  "('r \<Rightarrow> int) \<Rightarrow> ('r \<Rightarrow> 'k) \<Rightarrow> ('r \<Rightarrow> int) \<Rightarrow> ('r \<Rightarrow> bool) \<Rightarrow> int set \<Rightarrow> 'r list \<Rightarrow> bool" where
  "keyed_table_ok rowid key owner chk ids rs \<longleftrightarrow>
     distinct (map rowid rs) \<and> distinct (map key rs)
     \<and> (\<forall>r \<in> set rs. chk r \<and> owner r \<in> ids)"

abbreviation runs_ok :: "int set \<Rightarrow> run_row list \<Rightarrow> bool" where
  "runs_ok \<equiv> keyed_table_ok wr_rowid run_key wr_repository_id run_check"

abbreviation links_ok :: "int set \<Rightarrow> job_link_row list \<Rightarrow> bool" where
  "links_ok \<equiv> keyed_table_ok jl_rowid link_key jl_repository_id link_check"

abbreviation checks_ok :: "int set \<Rightarrow> required_check_row list \<Rightarrow> bool" where
  "checks_ok \<equiv> keyed_table_ok rc_rowid check_key rc_repository_id check_row_check"

definition db_ok :: "database \<Rightarrow> bool" where
  "db_ok db \<longleftrightarrow>
     repositories_ok (repositories db) \<and> distinct (map dr_delivery_id (deliveries db))
     \<and> attempts_ok (repository_ids db) (attempts db)
     \<and> runs_ok (repository_ids db) (run_contexts db)
     \<and> links_ok (repository_ids db) (job_links db)
     \<and> checks_ok (repository_ids db) (check_contexts db)"

lemma db_ok_empty: "db_ok empty_database"
  by (simp add: db_ok_def empty_database_def repositories_ok_def attempts_ok_def
      keyed_table_ok_def)

subsection \<open>What the stores share\<close>

lemma distinct_map_filter_conj:
  assumes "distinct (map f (filter P xs))"
  shows "distinct (map f (filter (\<lambda>x. P x \<and> Q x) xs))"
    and "distinct (map f (filter (\<lambda>x. Q x \<and> P x) xs))"
  using distinct_map_filter [OF assms, of Q] by (simp_all add: conj_commute)

lemma keyed_table_ok_subset:
  assumes "keyed_table_ok rowid key owner chk ids rs" and "set rs' \<subseteq> set rs"
    and "distinct (map rowid rs')" "distinct (map key rs')"
  shows "keyed_table_ok rowid key owner chk ids rs'"
  using assms by (auto simp: keyed_table_ok_def)

lemma keyed_table_ok_prune:
  assumes "keyed_table_ok rowid key owner chk ids rs"
    and "prune_rows ts rowid cutoff limit rs = (rs', n)"
  shows "keyed_table_ok rowid key owner chk ids rs'"
proof -
  have d: "distinct (map rowid rs)" "distinct (map key rs)"
    using assms(1) by (simp_all add: keyed_table_ok_def)
  note p = prune_rows_batch [OF d(1) assms(2)]
  show ?thesis
    using assms(1) p(3) p(6) [OF d(1)] p(6) [OF d(2)] by (rule keyed_table_ok_subset)
qed

lemma keyed_table_ok_filter:
  assumes "keyed_table_ok rowid key owner chk ids rs"
    and "\<And>r. r \<in> set rs \<Longrightarrow> P r \<Longrightarrow> owner r \<in> ids'"
  shows "keyed_table_ok rowid key owner chk ids' (filter P rs)"
  using assms by (auto simp: keyed_table_ok_def distinct_map_filter)

lemma keyed_table_ok_upsert:
  assumes "keyed_table_ok rowid key owner chk ids rs"
    and "keyed_upsert key merge"
    and "\<And>old. old \<in> set rs \<Longrightarrow> key old = key new \<Longrightarrow>
           rowid (merge old new) = rowid old \<and> chk (merge old new) \<and> owner (merge old new) \<in> ids"
    and "rowid new = next_rowid (map rowid rs)" and "chk new" and "owner new \<in> ids"
  shows "keyed_table_ok rowid key owner chk ids (upsert_row key merge new rs)"
proof -
  have ok: "distinct (map rowid rs)" "distinct (map key rs)"
    using assms(1) by (simp_all add: keyed_table_ok_def)
  have keys: "distinct (map key (upsert_row key merge new rs))"
    using keyed_upsert.distinct_upsert [OF assms(2) ok(2)] .
  have "rowid new \<notin> rowid ` set rs"
    using next_rowid_not_in [of "map rowid rs"] assms(4) by simp
  moreover have same:
    "map rowid (map (\<lambda>r. if key r = key new then merge r new else r) rs) = map rowid rs"
    using assms(3) by simp
  ultimately have "distinct (map rowid (upsert_row key merge new rs))"
    using ok(1) unfolding upsert_row_def by (simp only: same split: if_split) simp
  with keys assms show ?thesis
    by (auto simp: keyed_table_ok_def upsert_row_def split: if_splits)
qed

text \<open>
  \<open>INSERT .. ON CONFLICT .. DO UPDATE\<close> on a table of the last kind: the violated constraint, or the
  rows afterwards.
\<close>

definition upsert_statement ::
  "('r \<Rightarrow> 'k) \<Rightarrow> ('r \<Rightarrow> 'r \<Rightarrow> 'r) \<Rightarrow> ('r \<Rightarrow> bool) \<Rightarrow> ('r \<Rightarrow> int) \<Rightarrow> database \<Rightarrow> 'r \<Rightarrow> 'r list
   \<Rightarrow> (sqlx_error, 'r list) result" where
  "upsert_statement key merge chk owner db row rows =
     (if \<not> chk row then Err check_violation
      else if \<not> list_ex (\<lambda>r. rr_id r = owner row) (repositories db) then Err foreign_key_violation
      else Ok (upsert_row key merge row rows))"

lemma upsert_statement_Ok_iff:
  "upsert_statement key merge chk owner db row rows = Ok rows' \<longleftrightarrow>
     chk row \<and> owner row \<in> repository_ids db \<and> rows' = upsert_row key merge row rows"
  by (auto simp: upsert_statement_def list_ex_iff repository_ids_def intro: rev_image_eqI)

text \<open>A database holding one repository, for the witnesses.\<close>

definition one_repository :: database where
  "one_repository = empty_database\<lparr>repositories :=
     [\<lparr>rr_id = 1, rr_full_name = lit ''o/r'', rr_ciphertext = [], rr_nonce = [],
       rr_encryption_version = 1, rr_enabled = 1, rr_created_at = [], rr_updated_at = []\<rparr>]\<rparr>"

lemma one_repository_ok: "db_ok one_repository"
  by (simp add: one_repository_def db_ok_def empty_database_def repositories_ok_def
      attempts_ok_def keyed_table_ok_def)

lemma one_repository_ids: "repository_ids one_repository = {1}"
  by (simp add: one_repository_def repository_ids_def)

end
