(* ===== verification/Repository_Store.thy ===== *)
theory Repository_Store
  imports Database
begin

section \<open>Encrypted repository configurations\<close>

text \<open>
  \<open>src/storage/repository_store.rs\<close> and the metadata and mutation types of
  \<open>src/domain/repository.rs\<close>. A store is its cipher; the nonce the cipher draws is an argument.
  Reading a column of a decoded row does not fail in the model: the columns have the types of the
  migration.
\<close>

record repository_metadata =
  md_id :: repository_id
  md_full_name :: canonical_repository_name
  md_enabled :: bool
  md_created_at :: rstring
  md_updated_at :: rstring

record repository_mutation =
  mut_full_name :: "canonical_repository_name option"
  mut_webhook_secret :: "repository_secret option"
  mut_enabled :: "bool option"

definition mutation_new :: repository_mutation where
  "mutation_new = \<lparr>mut_full_name = None, mut_webhook_secret = None, mut_enabled = None\<rparr>"

definition with_full_name :: "canonical_repository_name \<Rightarrow> repository_mutation \<Rightarrow> repository_mutation"
where
  "with_full_name n m = m\<lparr>mut_full_name := Some n\<rparr>"

definition with_webhook_secret :: "repository_secret \<Rightarrow> repository_mutation \<Rightarrow> repository_mutation" where
  "with_webhook_secret s m = m\<lparr>mut_webhook_secret := Some s\<rparr>"

definition with_enabled :: "bool \<Rightarrow> repository_mutation \<Rightarrow> repository_mutation" where
  "with_enabled b m = m\<lparr>mut_enabled := Some b\<rparr>"

definition mutation_is_empty :: "repository_mutation \<Rightarrow> bool" where
  "mutation_is_empty m \<longleftrightarrow>
     mut_full_name m = None \<and> mut_webhook_secret m = None \<and> mut_enabled m = None"

datatype repository_store_error =
    AuthenticationFailed | NotFound | Conflict | EmptyMutation | Cryptographic security_error
  | Unavailable | InternalData | Internal sqlx_error

definition repository_map_sqlx_error :: "sqlx_error \<Rightarrow> repository_store_error" where
  "repository_map_sqlx_error e =
     (if is_unique_violation e then repository_store_error.Conflict
      else if sqlite_is_busy_or_locked e then repository_store_error.Unavailable
      else repository_store_error.Internal e)"

record repository_store =
  store_crypto :: crypto_lib
  store_cipher :: repository_secret_cipher

record stored_repository =
  sr_id :: repository_id
  sr_full_name :: canonical_repository_name
  sr_encrypted :: encrypted_repository_secret
  sr_enabled :: bool
  sr_created_at :: rstring
  sr_updated_at :: rstring

definition into_metadata :: "stored_repository \<Rightarrow> repository_metadata" where
  "into_metadata s =
     \<lparr>md_id = sr_id s, md_full_name = sr_full_name s, md_enabled = sr_enabled s,
      md_created_at = sr_created_at s, md_updated_at = sr_updated_at s\<rparr>"

subsection \<open>Decoding rows\<close>

definition decode_encrypted_secret ::
  "repository_row \<Rightarrow> (repository_store_error, encrypted_repository_secret) result" where
  "decode_encrypted_secret row =
     (if rr_encryption_version row < 0 \<or> 255 < rr_encryption_version row
      then Err (Cryptographic InvalidEncryptedSecret)
      else map_err Cryptographic
        (encrypted_from_parts (nat (rr_encryption_version row)) (rr_nonce row)
           (rr_ciphertext row)))"

definition decode_row :: "repository_row \<Rightarrow> (repository_store_error, stored_repository) result" where
  "decode_row row =
     and_then (ok_or repository_store_error.InternalData (repository_id_from_database (rr_id row)))
       (\<lambda>id. and_then (map_err Cryptographic (canonical_repository_name_new (rr_full_name row)))
         (\<lambda>full_name. and_then (decode_encrypted_secret row)
           (\<lambda>encrypted. and_then
              (if rr_enabled row = 0 then Ok False
               else if rr_enabled row = 1 then Ok True
               else Err repository_store_error.InternalData)
             (\<lambda>enabled. Ok \<lparr>sr_id = id, sr_full_name = full_name, sr_encrypted = encrypted,
                sr_enabled = enabled, sr_created_at = rr_created_at row,
                sr_updated_at = rr_updated_at row\<rparr>))))"

definition store_decrypt ::
  "repository_store \<Rightarrow> canonical_repository_name \<Rightarrow> encrypted_repository_secret
   \<Rightarrow> (repository_store_error, repository_secret) result" where
  "store_decrypt st n enc =
     map_err Cryptographic (cipher_decrypt (store_crypto st) (store_cipher st) n enc)"

definition authenticate_row ::
  "repository_store \<Rightarrow> repository_row \<Rightarrow> (repository_store_error, repository_metadata) result" where
  "authenticate_row st row =
     and_then (decode_row row)
       (\<lambda>stored. and_then (store_decrypt st (sr_full_name stored) (sr_encrypted stored))
         (\<lambda>_. Ok (into_metadata stored)))"

subsection \<open>Statements\<close>

definition insert_repository ::
  "rstring \<Rightarrow> encrypted_repository_secret \<Rightarrow> bool \<Rightarrow> rstring \<Rightarrow> database
   \<Rightarrow> (sqlx_error, repository_row \<times> database) result" where
  "insert_repository full_name encrypted enabled now db =
     (let row = \<lparr>rr_id = next_rowid (map rr_id (repositories db)), rr_full_name = full_name,
                rr_ciphertext = enc_ciphertext encrypted, rr_nonce = enc_nonce encrypted,
                rr_encryption_version = int (enc_version encrypted),
                rr_enabled = (if enabled then 1 else 0), rr_created_at = now,
                rr_updated_at = now\<rparr>
      in if list_ex (\<lambda>r. rr_full_name r = full_name) (repositories db) then Err unique_violation
         else Ok (row, db\<lparr>repositories := repositories db @ [row]\<rparr>))"

definition update_repository_row ::
  "int \<Rightarrow> rstring \<Rightarrow> encrypted_repository_secret \<Rightarrow> bool \<Rightarrow> rstring \<Rightarrow> database
   \<Rightarrow> (sqlx_error, repository_row \<times> database) result" where
  "update_repository_row ident full_name encrypted enabled now db =
     (let change = (\<lambda>r. r\<lparr>rr_full_name := full_name, rr_ciphertext := enc_ciphertext encrypted,
            rr_nonce := enc_nonce encrypted,
            rr_encryption_version := int (enc_version encrypted),
            rr_enabled := (if enabled then 1 else 0), rr_updated_at := now\<rparr>)
      in case lookup_row rr_id ident (repositories db) of
           None \<Rightarrow> Err OtherError
         | Some row \<Rightarrow>
             if list_ex (\<lambda>r. rr_full_name r = full_name \<and> rr_id r \<noteq> ident) (repositories db)
             then Err unique_violation
             else Ok (change row, db\<lparr>repositories :=
                    map (\<lambda>r. if rr_id r = ident then change r else r) (repositories db)\<rparr>))"

text \<open>\<open>DELETE FROM repositories WHERE id = ?\<close> with the cascades of the migrations.\<close>

definition delete_repository_row :: "int \<Rightarrow> database \<Rightarrow> database" where
  "delete_repository_row ident db =
     db\<lparr>repositories := filter (\<lambda>r. rr_id r \<noteq> ident) (repositories db),
        attempts := filter (\<lambda>r. at_repository_id r \<noteq> ident) (attempts db),
        run_contexts := filter (\<lambda>r. wr_repository_id r \<noteq> ident) (run_contexts db),
        job_links := filter (\<lambda>r. jl_repository_id r \<noteq> ident) (job_links db),
        check_contexts := filter (\<lambda>r. rc_repository_id r \<noteq> ident) (check_contexts db)\<rparr>"

subsection \<open>Operations\<close>

definition count_repositories :: "faults \<Rightarrow> database \<Rightarrow> (repository_store_error, nat) result" where
  "count_repositories faults db =
     (case faults 0 of
        Some e \<Rightarrow> Err (repository_map_sqlx_error e)
      | None \<Rightarrow> Ok (length (repositories db)))"

definition create_repository ::
  "repository_store \<Rightarrow> faults \<Rightarrow> rstring \<Rightarrow> byte list \<Rightarrow> canonical_repository_name
   \<Rightarrow> repository_secret \<Rightarrow> bool \<Rightarrow> database
   \<Rightarrow> (repository_store_error, repository_metadata) result \<times> database" where
  "create_repository st faults now nonce full_name webhook_secret enabled db =
     (case faults 0 of
        Some e \<Rightarrow> (Err (repository_map_sqlx_error e), db)
      | None \<Rightarrow>
     (case cipher_encrypt (store_crypto st) (store_cipher st) nonce full_name webhook_secret of
        Inl e \<Rightarrow> (Err (Cryptographic e), db)
      | Inr encrypted \<Rightarrow>
     (case (case faults 1 of Some e \<Rightarrow> Err e
            | None \<Rightarrow> insert_repository (name_as_str full_name) encrypted enabled now db) of
        Inl e \<Rightarrow> (Err (repository_map_sqlx_error e), db)
      | Inr (row, db') \<Rightarrow>
     (case authenticate_row st row of
        Inl e \<Rightarrow> (Err e, db)
      | Inr metadata \<Rightarrow>
     (case faults 2 of
        Some e \<Rightarrow> (Err (repository_map_sqlx_error e), db)
      | None \<Rightarrow> (Ok metadata, db'))))))"

definition list_repositories ::
  "repository_store \<Rightarrow> faults \<Rightarrow> database
   \<Rightarrow> (repository_store_error, repository_metadata list) result" where
  "list_repositories st faults db =
     (case faults 0 of
        Some e \<Rightarrow> Err (repository_map_sqlx_error e)
      | None \<Rightarrow> collect_results (map (authenticate_row st) (sort_key rr_id (repositories db))))"

definition authentication_material ::
  "repository_store \<Rightarrow> faults \<Rightarrow> canonical_repository_name \<Rightarrow> database
   \<Rightarrow> (repository_store_error, repository_id \<times> repository_secret) result" where
  "authentication_material st faults full_name db =
     (case faults 0 of
        Some e \<Rightarrow> Err (repository_map_sqlx_error e)
      | None \<Rightarrow>
          and_then (ok_or repository_store_error.AuthenticationFailed
             (find (\<lambda>r. rr_full_name r = name_as_str full_name \<and> rr_enabled r = 1)
                (repositories db)))
            (\<lambda>row. and_then (ok_or repository_store_error.InternalData
                              (repository_id_from_database (rr_id row)))
              (\<lambda>repository_id. and_then (decode_encrypted_secret row)
                (\<lambda>encrypted. and_then (store_decrypt st full_name encrypted)
                  (\<lambda>webhook_secret. Ok (repository_id, webhook_secret))))))"

definition get_repository ::
  "repository_store \<Rightarrow> faults \<Rightarrow> repository_id \<Rightarrow> database
   \<Rightarrow> (repository_store_error, repository_metadata) result" where
  "get_repository st faults ident db =
     (case faults 0 of
        Some e \<Rightarrow> Err (repository_map_sqlx_error e)
      | None \<Rightarrow>
          and_then (ok_or repository_store_error.NotFound
             (lookup_row rr_id (repository_id_get ident) (repositories db)))
            (authenticate_row st))"

definition update_repository ::
  "repository_store \<Rightarrow> faults \<Rightarrow> rstring \<Rightarrow> byte list \<Rightarrow> repository_id \<Rightarrow> repository_mutation
   \<Rightarrow> database \<Rightarrow> (repository_store_error, repository_metadata) result \<times> database" where
  "update_repository st faults now nonce ident mutation db =
     (if mutation_is_empty mutation then (Err repository_store_error.EmptyMutation, db)
      else case faults 0 of
        Some e \<Rightarrow> (Err (repository_map_sqlx_error e), db)
      | None \<Rightarrow>
     (case (case faults 1 of Some e \<Rightarrow> Err (repository_map_sqlx_error e)
            | None \<Rightarrow> and_then (ok_or repository_store_error.NotFound
                 (lookup_row rr_id (repository_id_get ident) (repositories db))) decode_row) of
        Inl e \<Rightarrow> (Err e, db)
      | Inr current \<Rightarrow>
     (case store_decrypt st (sr_full_name current) (sr_encrypted current) of
        Inl e \<Rightarrow> (Err e, db)
      | Inr current_secret \<Rightarrow>
     (let final_name = (case mut_full_name mutation of
            None \<Rightarrow> sr_full_name current | Some n \<Rightarrow> n);
          enabled = (case mut_enabled mutation of None \<Rightarrow> sr_enabled current | Some b \<Rightarrow> b)
      in case (if final_name \<noteq> sr_full_name current \<or> mut_webhook_secret mutation \<noteq> None
               then map_err Cryptographic
                 (cipher_encrypt (store_crypto st) (store_cipher st) nonce final_name
                   (case mut_webhook_secret mutation of None \<Rightarrow> current_secret | Some s \<Rightarrow> s))
               else Ok (sr_encrypted current)) of
        Inl e \<Rightarrow> (Err e, db)
      | Inr encrypted \<Rightarrow>
     (case (case faults 2 of Some e \<Rightarrow> Err e
            | None \<Rightarrow> update_repository_row (repository_id_get ident) (name_as_str final_name)
                        encrypted enabled now db) of
        Inl e \<Rightarrow> (Err (repository_map_sqlx_error e), db)
      | Inr (row, db') \<Rightarrow>
     (case authenticate_row st row of
        Inl e \<Rightarrow> (Err e, db)
      | Inr metadata \<Rightarrow>
     (case faults 3 of
        Some e \<Rightarrow> (Err (repository_map_sqlx_error e), db)
      | None \<Rightarrow> (Ok metadata, db'))))))))"

definition delete_repository ::
  "repository_store \<Rightarrow> faults \<Rightarrow> repository_id \<Rightarrow> database
   \<Rightarrow> (repository_store_error, unit) result \<times> database" where
  "delete_repository st faults ident db =
     (case faults 0 of
        Some e \<Rightarrow> (Err (repository_map_sqlx_error e), db)
      | None \<Rightarrow>
     (case (case faults 1 of Some e \<Rightarrow> Err (repository_map_sqlx_error e)
            | None \<Rightarrow> and_then (ok_or repository_store_error.NotFound
                 (lookup_row rr_id (repository_id_get ident) (repositories db)))
                 (authenticate_row st)) of
        Inl e \<Rightarrow> (Err e, db)
      | Inr _ \<Rightarrow>
     (case faults 2 of
        Some e \<Rightarrow> (Err (repository_map_sqlx_error e), db)
      | None \<Rightarrow>
     (case faults 3 of
        Some e \<Rightarrow> (Err (repository_map_sqlx_error e), db)
      | None \<Rightarrow> (Ok (), delete_repository_row (repository_id_get ident) db)))))"

subsection \<open>The constraints hold after every operation\<close>

lemma insert_repository_Ok:
  assumes "insert_repository n enc enabled now db = Ok (row, db')"
  shows "db' = db\<lparr>repositories := repositories db @ [row]\<rparr>"
    and "rr_id row = next_rowid (map rr_id (repositories db))" and "rr_full_name row = n"
    and "n \<notin> rr_full_name ` set (repositories db)" and "rr_enabled row = (if enabled then 1 else 0)"
    and "rr_nonce row = enc_nonce enc" "rr_ciphertext row = enc_ciphertext enc"
    and "rr_encryption_version row = int (enc_version enc)"
  using assms by (auto simp: insert_repository_def Let_def list_ex_iff split: if_splits)

lemma insert_repository_db_ok:
  assumes "db_ok db" and "insert_repository n enc enabled now db = Ok (row, db')"
  shows "db_ok db'"
proof -
  note i = insert_repository_Ok [OF assms(2)]
  have pos: "0 < rr_id row"
    unfolding i(2) using assms(1)
    by (intro next_rowid_positive) (auto simp: db_ok_def repositories_ok_def)
  have fresh: "rr_id row \<notin> rr_id ` set (repositories db)"
    using next_rowid_not_in [of "map rr_id (repositories db)"] i(2) by simp
  have mono: "repository_ids db \<subseteq> repository_ids db'"
    by (auto simp: i(1) repository_ids_def)
  show ?thesis
    using assms(1) i(3,4,5) pos fresh mono
    by (auto simp: i(1) db_ok_def repositories_ok_def attempts_ok_def keyed_table_ok_def)
qed

lemma update_repository_row_Ok:
  assumes "update_repository_row ident n enc enabled now db = Ok (row, db')"
  shows "\<exists>old. lookup_row rr_id ident (repositories db) = Some old
     \<and> (let change = (\<lambda>r. r\<lparr>rr_full_name := n, rr_ciphertext := enc_ciphertext enc,
            rr_nonce := enc_nonce enc, rr_encryption_version := int (enc_version enc),
            rr_enabled := (if enabled then 1 else 0), rr_updated_at := now\<rparr>)
        in row = change old
          \<and> db' = db\<lparr>repositories :=
                map (\<lambda>r. if rr_id r = ident then change r else r) (repositories db)\<rparr>)"
    and "\<forall>r \<in> set (repositories db). rr_full_name r = n \<longrightarrow> rr_id r = ident"
  using assms
  by (auto simp: update_repository_row_def Let_def list_ex_iff split: option.splits if_splits)

lemma update_repository_row_db_ok:
  assumes "db_ok db" and "update_repository_row ident n enc enabled now db = Ok (row, db')"
  shows "db_ok db'"
proof -
  define change :: "repository_row \<Rightarrow> repository_row" where "change = (\<lambda>r. r\<lparr>rr_full_name := n, rr_ciphertext := enc_ciphertext enc,
            rr_nonce := enc_nonce enc, rr_encryption_version := int (enc_version enc),
            rr_enabled := (if enabled then 1 else 0), rr_updated_at := now\<rparr>)"
  have db': "db' = db\<lparr>repositories :=
      map (\<lambda>r. if rr_id r = ident then change r else r) (repositories db)\<rparr>"
    using update_repository_row_Ok(1) [OF assms(2)] by (auto simp: change_def Let_def)
  have ids: "map rr_id (repositories db') = map rr_id (repositories db)"
    by (auto simp: db' change_def)
  have rok: "repositories_ok (repositories db)" using assms(1) by (simp add: db_ok_def)
  then have d: "distinct (map rr_id (repositories db))" "distinct (repositories db)"
    by (simp_all add: repositories_ok_def distinct_map)
  have "inj_on (\<lambda>r. rr_full_name (if rr_id r = ident then change r else r))
      (set (repositories db))"
  proof (rule inj_onI)
    fix r s assume rs: "r \<in> set (repositories db)" "s \<in> set (repositories db)"
      and eq: "rr_full_name (if rr_id r = ident then change r else r) =
               rr_full_name (if rr_id s = ident then change s else s)"
    have name: "rr_full_name (change x) = n" for x by (simp add: change_def)
    have "rr_id r = rr_id s \<or> rr_full_name r = rr_full_name s"
      using eq rs update_repository_row_Ok(2) [OF assms(2)] name by (auto split: if_splits)
    then show "r = s"
      using rs rok by (auto simp: repositories_ok_def distinct_map inj_on_def)
  qed
  then have "distinct (map rr_full_name (repositories db'))"
    using d(2) by (simp add: db' distinct_map comp_def)
  moreover have "0 < rr_id r \<and> rr_enabled r \<in> {0, 1}" if "r \<in> set (repositories db')" for r
    using that rok by (auto simp: db' repositories_ok_def change_def)
  ultimately have "repositories_ok (repositories db')"
    using d(1) ids by (simp add: repositories_ok_def)
  moreover have "repository_ids db' = repository_ids db"
    using ids unfolding repository_ids_def by (metis list.set_map)
  ultimately show ?thesis using assms(1) by (simp add: db_ok_def db')
qed

lemma delete_repository_row_db_ok: "db_ok db \<Longrightarrow> db_ok (delete_repository_row ident db)"
  by (auto simp: delete_repository_row_def db_ok_def repositories_ok_def attempts_ok_def
      keyed_table_ok_def repository_ids_def distinct_map_filter distinct_map_filter_conj)

lemma create_repository_Ok:
  assumes "create_repository st f now nonce n s enabled db = (Ok md, db')"
  shows "\<exists>enc row. cipher_encrypt (store_crypto st) (store_cipher st) nonce n s = Ok enc
     \<and> insert_repository (name_as_str n) enc enabled now db = Ok (row, db')
     \<and> authenticate_row st row = Ok md"
  using assms by (auto simp: create_repository_def split: option.splits sum.splits)

lemma create_repository_Err:
  "create_repository st f now nonce n s enabled db = (Err e, db') \<Longrightarrow> db' = db"
  by (auto simp: create_repository_def split: option.splits sum.splits)

lemma update_repository_Ok:
  assumes "update_repository st f now nonce ident m db = (Ok md, db')"
  shows "\<exists>n enc enabled row. update_repository_row (repository_id_get ident) n enc enabled now db
       = Ok (row, db') \<and> authenticate_row st row = Ok md"
  using assms
  by (auto simp: update_repository_def Let_def split: option.splits sum.splits if_splits)
    blast+

lemma update_repository_Err:
  "update_repository st f now nonce ident m db = (Err e, db') \<Longrightarrow> db' = db"
  by (auto simp: update_repository_def Let_def split: option.splits sum.splits if_splits)

lemma delete_repository_cases:
  "delete_repository st f ident db = (r, db') \<Longrightarrow>
     (r = Ok () \<and> db' = delete_repository_row (repository_id_get ident) db
        \<and> lookup_row rr_id (repository_id_get ident) (repositories db) \<noteq> None)
     \<or> ((\<exists>e. r = Err e) \<and> db' = db)"
  by (auto simp: delete_repository_def and_then_Ok_iff split: option.splits sum.splits)

lemma create_repository_db_ok:
  assumes "db_ok db"
  shows "db_ok (snd (create_repository st f now nonce n s enabled db))"
proof (cases "create_repository st f now nonce n s enabled db")
  case (Pair r db')
  with assms show ?thesis
    by (cases r)
      (auto dest: create_repository_Err create_repository_Ok intro: insert_repository_db_ok)
qed

lemma update_repository_db_ok:
  assumes "db_ok db"
  shows "db_ok (snd (update_repository st f now nonce ident m db))"
proof (cases "update_repository st f now nonce ident m db")
  case (Pair r db')
  with assms show ?thesis
    by (cases r)
      (auto dest: update_repository_Err update_repository_Ok intro: update_repository_row_db_ok)
qed

lemma delete_repository_db_ok:
  assumes "db_ok db"
  shows "db_ok (snd (delete_repository st f ident db))"
proof (cases "delete_repository st f ident db")
  case (Pair r db')
  with assms delete_repository_cases [OF Pair] show ?thesis
    by (auto intro: delete_repository_row_db_ok)
qed

subsection \<open>Secrets survive storage\<close>

definition secret_material_ok ::
  "repository_store \<Rightarrow> byte list \<Rightarrow> repository_secret \<Rightarrow> bool" where
  "secret_material_ok st nonce secret \<longleftrightarrow>
     aead_correct (store_crypto st) \<and> length nonce = NONCE_LENGTH
     \<and> from_decrypted_bytes (secret_bytes secret) = Ok secret"

lemma decode_encrypted_of_encrypt:
  assumes "secret_material_ok st nonce secret"
    and "cipher_encrypt (store_crypto st) (store_cipher st) nonce n secret = Ok enc"
    and "rr_nonce row = enc_nonce enc" "rr_ciphertext row = enc_ciphertext enc"
    and "rr_encryption_version row = int (enc_version enc)"
  shows "decode_encrypted_secret row = Ok enc" and "store_decrypt st n enc = Ok secret"
proof -
  have v: "enc_version enc = 1"
    using assms(2) by (auto simp: cipher_encrypt_def vocab split: option.splits)
  have "encrypted_from_parts (enc_version enc) (enc_nonce enc) (enc_ciphertext enc) = Ok enc"
    using assms(1,2) cipher_encrypt_from_parts unfolding secret_material_ok_def by blast
  then show "decode_encrypted_secret row = Ok enc"
    using assms(3-5) v by (simp add: decode_encrypted_secret_def)
  show "store_decrypt st n enc = Ok secret"
    using cipher_roundtrip [OF _ _ assms(2)] assms(1)
    by (simp add: store_decrypt_def secret_material_ok_def)
qed

lemma authenticate_row_id:
  "authenticate_row st row = Ok md \<Longrightarrow>
     repository_id_from_database (rr_id row) = Some (md_id md)
     \<and> canonical_repository_name_new (rr_full_name row) = Ok (md_full_name md)
     \<and> rr_enabled row = (if md_enabled md then 1 else 0)"
  by (auto simp: authenticate_row_def decode_row_def into_metadata_def and_then_Ok_iff
      split: if_splits)

lemma created_row_found:
  assumes "insert_repository n enc enabled now db = Ok (row, db')"
  shows "find (\<lambda>r. rr_full_name r = n \<and> rr_enabled r = 1) (repositories db')
     = (if enabled then Some row else None)"
proof -
  note i = insert_repository_Ok [OF assms]
  have "find (\<lambda>r. rr_full_name r = n \<and> rr_enabled r = 1) (repositories db) = None"
    using i(4) by (auto simp: find_None_iff)
  then show ?thesis using i(3,5) by (simp add: i(1) find_append)
qed

lemma created_then_authenticated:
  assumes "secret_material_ok st nonce secret"
    and "create_repository st f now nonce n secret enabled db = (Ok md, db')"
  shows "authentication_material st no_faults n db' =
     (if enabled then Ok (md_id md, secret) else Err repository_store_error.AuthenticationFailed)"
proof -
  obtain enc row where c: "cipher_encrypt (store_crypto st) (store_cipher st) nonce n secret = Ok enc"
    "insert_repository (name_as_str n) enc enabled now db = Ok (row, db')"
    "authenticate_row st row = Ok md"
    using create_repository_Ok [OF assms(2)] by blast
  note i = insert_repository_Ok [OF c(2)]
  show ?thesis
    using created_row_found [OF c(2)] authenticate_row_id [OF c(3)]
      decode_encrypted_of_encrypt [OF assms(1) c(1) i(6,7,8)]
    by (simp add: authentication_material_def no_faults_def)
qed

subsection \<open>Properties\<close>

definition sample_crypto :: crypto_lib where
  "sample_crypto =
     \<lparr>hkdf_sha256_expand = (\<lambda>k info n. Some (replicate n 0)), aes_key_accepted = (\<lambda>_. True),
      aes_gcm_encrypt = (\<lambda>k n m a. Some (m @ replicate 16 0)),
      aes_gcm_decrypt = (\<lambda>k n c a. if length c < 16 then None else Some (take (length c - 16) c)),
      sha256 = (\<lambda>_. replicate 32 0), hmac_sha256 = (\<lambda>k m. Some (replicate 32 0)),
      hex_decode = (\<lambda>_. Some (replicate 32 0))\<rparr>"

definition sample_store :: repository_store where
  "sample_store =
     \<lparr>store_crypto = sample_crypto, store_cipher = RepositorySecretCipher (replicate 32 0)\<rparr>"

definition sample_name :: canonical_repository_name where
  "sample_name = CanonicalRepositoryName (lit ''o/r'')"

definition sample_secret :: repository_secret where
  "sample_secret = RepositorySecret (as_bytes (lit ''k''))"

lemma sample_aead: "aead_correct sample_crypto"
  by (auto simp: aead_correct_def sample_crypto_def)

lemma sample_name_new: "canonical_repository_name_new (lit ''o/r'') = Ok sample_name"
  by (simp add: canonical_repository_name_new_def lit_def trim_def is_whitespace_def
      to_ascii_lowercase_def ascii_lowercase_char_def valid_repository_segment_iff name_char_def
      is_ascii_alphanumeric_def sample_name_def)

lemma sample_secret_new: "repository_secret_new (lit ''k'') = Ok sample_secret"
  by (simp add: repository_secret_new_def valid_repository_secret_bytes_def lit_def as_bytes_def
      utf8_numbers_def utf8_char_def vocab sample_secret_def)

lemma sample_secret_decrypted: "from_decrypted_bytes (secret_bytes sample_secret) = Ok sample_secret"
  using sample_secret_new
  by (rule from_decrypted_bytes_new) (simp add: lit_def scalar_value_def)

lemma sample_create_with:
  assumes "from_decrypted_bytes (secret_bytes s) = Ok s"
  shows "\<exists>md db. create_repository sample_store no_faults [] (replicate 12 0) sample_name s
     True empty_database = (Ok md, db) \<and> md_id md = RepositoryId 1"
proof -
  have material: "secret_material_ok sample_store (replicate 12 0) s"
    using assms by (simp add: secret_material_ok_def sample_store_def sample_aead NONCE_LENGTH_def)
  obtain enc where enc: "cipher_encrypt (store_crypto sample_store) (store_cipher sample_store)
      (replicate 12 0) sample_name s = Ok enc"
    by (simp add: cipher_encrypt_def sample_store_def sample_crypto_def)
  obtain row db where row: "insert_repository (name_as_str sample_name) enc True [] empty_database
      = Ok (row, db)"
    by (simp add: insert_repository_def empty_database_def Let_def)
  note i = insert_repository_Ok [OF row]
  have n: "canonical_repository_name_new (name_as_str sample_name) = Ok sample_name"
    using sample_name_new by (simp add: sample_name_def)
  have "\<exists>md. authenticate_row sample_store row = Ok md \<and> md_id md = RepositoryId 1"
    using decode_encrypted_of_encrypt [OF material enc i(6,7,8)] i n
    by (simp add: authenticate_row_def decode_row_def repository_id_from_database_def
        repository_id_new_def empty_database_def next_rowid_def into_metadata_def)
  with enc row show ?thesis by (auto simp: create_repository_def no_faults_def)
qed

lemmas sample_create = sample_create_with [OF sample_secret_decrypted]

text \<open>
  A repository created under a canonical name authenticates webhooks for that name afterwards:
  the store returns the identifier it assigned and the secret it was given, decrypted; a
  configuration created disabled fails authentication like an unknown one. The constraints of the
  tables hold afterwards.
\<close>

theorem created_repository_authenticates:
  assumes "aead_correct (store_crypto st)" and "length nonce = 12"
    and "repository_secret_new s = Ok secret" and "\<forall>c \<in> set s. scalar_value c"
    and "create_repository st f now nonce n secret enabled db = (Ok md, db')" and "db_ok db"
  shows "authentication_material st no_faults n db' =
      (if enabled then Ok (md_id md, secret) else Err repository_store_error.AuthenticationFailed)
    \<and> db_ok db'"
proof -
  have "secret_material_ok st nonce secret"
    using assms(1,2) from_decrypted_bytes_new [OF assms(3,4)]
    by (simp add: secret_material_ok_def NONCE_LENGTH_def)
  from created_then_authenticated [OF this assms(5)]
    create_repository_db_ok [OF assms(6), of st f now nonce n secret enabled] assms(5)
  show ?thesis by simp
qed

lemma created_repository_authenticates_witness:
  "\<exists>db. authentication_material sample_store no_faults sample_name db
     = Ok (RepositoryId 1, sample_secret)"
proof -
  obtain md db where c: "create_repository sample_store no_faults [] (replicate 12 0) sample_name
      sample_secret True empty_database = (Ok md, db)" "md_id md = RepositoryId 1"
    using sample_create by blast
  have "\<forall>c \<in> set (lit ''k''). scalar_value c" by (simp add: lit_def scalar_value_def)
  from created_repository_authenticates [OF _ _ sample_secret_new this c(1) db_ok_empty] c(2)
  show ?thesis by (auto simp: sample_store_def sample_aead)
qed

text \<open>
  C35: No write legitimizes a tampered row: when the stored secret of a repository does not
  decrypt under its name, updating it (even with a replacement secret) and deleting it fail and
  leave the database unchanged.
\<close>

theorem tampered_repository_is_frozen:
  assumes "lookup_row rr_id (repository_id_get ident) (repositories db) = Some row"
    and "\<forall>md. authenticate_row st row \<noteq> Ok md"
  shows "(\<exists>e. update_repository st f now nonce ident mutation db = (Err e, db))
    \<and> (\<exists>e. delete_repository st f ident db = (Err e, db))
    \<and> (\<exists>e. get_repository st f ident db = Err e)"
proof -
  have bad: "(\<exists>e. decode_row row = Err e)
      \<or> (\<exists>stored e. decode_row row = Ok stored
           \<and> store_decrypt st (sr_full_name stored) (sr_encrypted stored) = Err e)"
    using assms(2) by (cases "decode_row row")
      (auto simp: authenticate_row_def and_then_def split: sum.splits)
  then obtain e where a: "authenticate_row st row = Err e"
    by (auto simp: authenticate_row_def)
  have "\<exists>e. update_repository st f now nonce ident mutation db = (Err e, db)"
    using bad assms(1) by (auto simp: update_repository_def split: option.splits)
  moreover have "\<exists>e. delete_repository st f ident db = (Err e, db)"
    using a assms(1) by (auto simp: delete_repository_def split: option.splits)
  moreover have "\<exists>e. get_repository st f ident db = Err e"
    using a assms(1) by (auto simp: get_repository_def split: option.splits)
  ultimately show ?thesis by blast
qed

definition tampered_row :: repository_row where
  "tampered_row =
     \<lparr>rr_id = 1, rr_full_name = lit ''o/r'', rr_ciphertext = [1], rr_nonce = [],
      rr_encryption_version = 1, rr_enabled = 1, rr_created_at = [], rr_updated_at = []\<rparr>"

lemma tampered_repository_is_frozen_witness:
  "\<exists>e. delete_repository sample_store no_faults (RepositoryId 1)
     (empty_database\<lparr>repositories := [tampered_row]\<rparr>)
     = (Err e, empty_database\<lparr>repositories := [tampered_row]\<rparr>)"
proof -
  have "lookup_row rr_id (repository_id_get (RepositoryId 1))
      (repositories (empty_database\<lparr>repositories := [tampered_row]\<rparr>)) = Some tampered_row"
    by (simp add: lookup_row_def tampered_row_def)
  moreover have "\<forall>md. authenticate_row sample_store tampered_row \<noteq> Ok md"
    by (simp add: authenticate_row_def decode_row_def decode_encrypted_secret_def tampered_row_def
        encrypted_from_parts_def vocab and_then_def split: sum.splits)
  ultimately show ?thesis
    using tampered_repository_is_frozen
      [of "RepositoryId 1" "empty_database\<lparr>repositories := [tampered_row]\<rparr>" tampered_row
        sample_store no_faults "[]" "[]" mutation_new] by blast
qed

end
