(* ===== verification/App_Error.thy ===== *)
theory App_Error
  imports Json Trace Repository_Store
begin

section \<open>Error responses\<close>

text \<open>
  \<open>src/error.rs\<close>. A correlation identifier is a version-4 UUID; the \<open>n\<close>-th one drawn is
  \<open>ErrorCorrelationId n\<close> and \<open>uuid_text\<close> renders it. A response is its status, the headers the
  conversion sets beside the content type, and its JSON body, if any. Logging is the list of lines
  an operation writes; \<open>log_local\<close> marks the target that is never exported.
\<close>

datatype error_correlation_id = ErrorCorrelationId nat

datatype log_level = LevelDebug | LevelInfo | LevelWarn | LevelError

record log_line =
  log_level :: log_level
  log_local :: bool
  log_message :: rstring
  log_fields :: "(rstring \<times> attr_value) list"

record response =
  rsp_status :: nat
  rsp_headers :: "(rstring \<times> rstring) list"
  rsp_body :: "json option"

datatype app_error =
    InvalidRequest
  | Authentication authentication_error
  | RepositoryStore repository_store_error "error_correlation_id option"
  | InvalidWebhook
  | UnauthorizedWebhook
  | WebhookPayloadTooLarge
  | UnsupportedWebhookMediaType
  | WebhookUnavailable error_correlation_id
  | Internal rstring error_correlation_id

definition app_error_repository_store :: "error_correlation_id \<Rightarrow> repository_store_error \<Rightarrow> app_error"
where
  "app_error_repository_store fresh e =
     app_error.RepositoryStore e
       (case e of
          repository_store_error.NotFound \<Rightarrow> None
        | repository_store_error.Conflict \<Rightarrow> None
        | repository_store_error.EmptyMutation \<Rightarrow> None
        | repository_store_error.AuthenticationFailed \<Rightarrow> Some fresh
        | repository_store_error.Cryptographic _ \<Rightarrow> Some fresh
        | repository_store_error.Unavailable \<Rightarrow> Some fresh
        | repository_store_error.InternalData \<Rightarrow> Some fresh
        | repository_store_error.Internal _ \<Rightarrow> Some fresh)"

definition app_error_correlation_id :: "app_error \<Rightarrow> error_correlation_id option" where
  "app_error_correlation_id e = (case e of
     app_error.RepositoryStore _ correlation_id \<Rightarrow> correlation_id
   | app_error.WebhookUnavailable correlation_id \<Rightarrow> Some correlation_id
   | app_error.Internal _ correlation_id \<Rightarrow> Some correlation_id
   | _ \<Rightarrow> None)"

definition error_response :: "nat \<Rightarrow> rstring \<Rightarrow> rstring \<Rightarrow> response" where
  "error_response status code message =
     \<lparr>rsp_status = status, rsp_headers = [],
      rsp_body = Some (JObject [(lit ''code'', JString code), (lit ''message'', JString message)])\<rparr>"

definition correlated_error_response ::
  "(nat \<Rightarrow> rstring) \<Rightarrow> nat \<Rightarrow> rstring \<Rightarrow> rstring \<Rightarrow> error_correlation_id \<Rightarrow> response" where
  "correlated_error_response uuid_text status code message correlation_id =
     \<lparr>rsp_status = status, rsp_headers = [],
      rsp_body = Some (JObject [(lit ''code'', JString code), (lit ''message'', JString message),
        (lit ''error_id'', JString (case correlation_id of ErrorCorrelationId n \<Rightarrow> uuid_text n))])\<rparr>"

definition internal_response ::
  "(nat \<Rightarrow> rstring) \<Rightarrow> error_correlation_id \<Rightarrow> response \<times> log_line list" where
  "internal_response uuid_text correlation_id =
     (correlated_error_response uuid_text 500 (lit ''internal_error'')
        (lit ''internal server error'') correlation_id,
      [\<lparr>log_level = LevelError, log_local = False, log_message = lit ''request failed'',
        log_fields = [(lit ''outcome'', StringValue (lit ''internal_error'')),
          (lit ''correlation_id'',
           StringValue (case correlation_id of ErrorCorrelationId n \<Rightarrow> uuid_text n))]\<rparr>])"

text \<open>\<open>None\<close> is the panic of \<open>expect\<close> for an internal repository error without an identifier.\<close>

definition app_error_into_response ::
  "(nat \<Rightarrow> rstring) \<Rightarrow> app_error \<Rightarrow> (response \<times> log_line list) option" where
  "app_error_into_response uuid_text e = (case e of
     app_error.InvalidRequest \<Rightarrow>
       Some (error_response 400 (lit ''invalid_request'') (lit ''request is invalid''), [])
   | app_error.Authentication _ \<Rightarrow>
       Some ((error_response 401 (lit ''unauthorized'') (lit ''authentication required''))
         \<lparr>rsp_headers := [(lit ''www-authenticate'', lit ''Bearer'')]\<rparr>, [])
   | app_error.RepositoryStore e' correlation_id \<Rightarrow> (case e' of
        repository_store_error.NotFound \<Rightarrow>
          Some (error_response 404 (lit ''not_found'') (lit ''repository not found''), [])
      | repository_store_error.Conflict \<Rightarrow>
          Some (error_response 409 (lit ''conflict'') (lit ''repository name already exists''), [])
      | repository_store_error.EmptyMutation \<Rightarrow>
          Some (error_response 400 (lit ''invalid_request'')
            (lit ''repository update must not be empty''), [])
      | _ \<Rightarrow> map_option (internal_response uuid_text) correlation_id)
   | app_error.InvalidWebhook \<Rightarrow>
       Some (error_response 400 (lit ''invalid_webhook'') (lit ''webhook request is invalid''), [])
   | app_error.UnauthorizedWebhook \<Rightarrow>
       Some (error_response 401 (lit ''unauthorized'') (lit ''webhook authentication failed''), [])
   | app_error.WebhookPayloadTooLarge \<Rightarrow>
       Some (error_response 413 (lit ''payload_too_large'')
         (lit ''webhook payload is too large''), [])
   | app_error.UnsupportedWebhookMediaType \<Rightarrow>
       Some (error_response 415 (lit ''unsupported_media_type'')
         (lit ''content type must be application/json''), [])
   | app_error.WebhookUnavailable correlation_id \<Rightarrow>
       Some (correlated_error_response uuid_text 503 (lit ''service_unavailable'')
         (lit ''webhook processing is unavailable'') correlation_id, [])
   | app_error.Internal _ correlation_id \<Rightarrow> Some (internal_response uuid_text correlation_id))"

subsection \<open>Lemmas\<close>

text \<open>An error a response can be made of: an internal repository error carries its identifier.\<close>

definition correlated :: "app_error \<Rightarrow> bool" where
  "correlated e \<longleftrightarrow> (case e of
     app_error.RepositoryStore e' c \<Rightarrow>
       e' \<in> {repository_store_error.NotFound, repository_store_error.Conflict,
              repository_store_error.EmptyMutation} \<or> c \<noteq> None
   | _ \<Rightarrow> True)"

lemma repository_store_correlated [simp]: "correlated (app_error_repository_store fresh e)"
  by (cases e) (simp_all add: correlated_def app_error_repository_store_def)

lemma into_response_Some:
  "correlated e \<Longrightarrow> \<exists>r logs. app_error_into_response uuid_text e = Some (r, logs)"
  by (auto simp: correlated_def app_error_into_response_def internal_response_def
      split: app_error.splits repository_store_error.split)

text \<open>
  Every private cause of a failure, a tampered secret or a storage fault, gives one response and one
  log line, which differ in the identifier only.
\<close>

definition private_cause :: "repository_store_error \<Rightarrow> bool" where
  "private_cause e \<longleftrightarrow> e \<notin> {repository_store_error.NotFound, repository_store_error.Conflict,
     repository_store_error.EmptyMutation}"

lemma private_cause_response:
  "private_cause e \<Longrightarrow> app_error_into_response uuid_text (app_error_repository_store c e) =
     Some (internal_response uuid_text c)"
  by (cases e) (simp_all add: private_cause_def app_error_repository_store_def
      app_error_into_response_def)

end
