(* ===== verification/Delivery_Store.thy ===== *)
theory Delivery_Store
  imports Database
begin

section \<open>Delivery claims\<close>

text \<open>
  \<open>src/storage/delivery_store.rs\<close>. \<open>now\<close> is the text SQLite's clock gives, \<open>hyphenated\<close> the
  lower-case text of a UUID. Each operation returns its result and the database after it.
\<close>

definition DELIVERY_PRUNE_BATCH_SIZE :: nat where "DELIVERY_PRUNE_BATCH_SIZE = 1000"

datatype delivery_claim = New | Duplicate

datatype delivery_store_error = Unavailable | Internal

definition delivery_map_sqlx_error :: "sqlx_error \<Rightarrow> delivery_store_error" where
  "delivery_map_sqlx_error e =
     (if sqlite_is_busy_or_locked e then delivery_store_error.Unavailable
      else delivery_store_error.Internal)"

definition claim_delivery ::
  "('u \<Rightarrow> rstring) \<Rightarrow> faults \<Rightarrow> rstring \<Rightarrow> 'u delivery_id \<Rightarrow> database
   \<Rightarrow> (delivery_store_error, delivery_claim) result \<times> database" where
  "claim_delivery hyphenated faults now delivery db =
     (case faults 0 of
        Some e \<Rightarrow> (Err (delivery_map_sqlx_error e), db)
      | None \<Rightarrow>
          (let text = delivery_id_encode_lower hyphenated delivery
           in if list_ex (\<lambda>r. dr_delivery_id r = text) (deliveries db)
              then (Ok delivery_claim.Duplicate, db)
              else (Ok delivery_claim.New,
                    db\<lparr>deliveries := deliveries db
                         @ [\<lparr>dr_delivery_id = text, dr_received_at = now\<rparr>]\<rparr>)))"

definition prune_deliveries ::
  "time_lib \<Rightarrow> faults \<Rightarrow> instant \<Rightarrow> database
   \<Rightarrow> (delivery_store_error, nat) result \<times> database" where
  "prune_deliveries clk faults cutoff db =
     (case format_millis clk cutoff of
        None \<Rightarrow> (Err delivery_store_error.Internal, db)
      | Some text \<Rightarrow>
          (case faults 0 of
             Some e \<Rightarrow> (Err (delivery_map_sqlx_error e), db)
           | None \<Rightarrow>
               (case prune_rows (\<lambda>r. Some (dr_received_at r)) dr_delivery_id text
                       DELIVERY_PRUNE_BATCH_SIZE (deliveries db) of
                  (rows, n) \<Rightarrow> (Ok n, db\<lparr>deliveries := rows\<rparr>))))"

subsection \<open>Claims\<close>

definition claimed :: "('u \<Rightarrow> rstring) \<Rightarrow> database \<Rightarrow> 'u delivery_id \<Rightarrow> bool" where
  "claimed hyphenated db delivery \<longleftrightarrow>
     delivery_id_encode_lower hyphenated delivery \<in> dr_delivery_id ` set (deliveries db)"

lemma claim_delivery_db_ok:
  "db_ok db \<Longrightarrow> db_ok (snd (claim_delivery hyphenated faults now delivery db))"
  by (auto simp: claim_delivery_def Let_def db_ok_def repository_ids_def list_ex_iff
      split: option.splits)

lemma claim_delivery_result:
  "faults 0 = None \<Longrightarrow> claim_delivery h faults now d db = (r, db') \<Longrightarrow>
     r = Ok (if claimed h db d then delivery_claim.Duplicate else delivery_claim.New)
     \<and> claimed h db' d"
  by (force simp: claim_delivery_def Let_def claimed_def list_ex_iff split: if_splits)

lemma claim_delivery_other:
  "snd (claim_delivery h faults now d db) = db
   \<or> (\<exists>row. snd (claim_delivery h faults now d db) = db\<lparr>deliveries := deliveries db @ [row]\<rparr>)"
  by (auto simp: claim_delivery_def Let_def split: option.splits)

lemma prune_deliveries_db_ok:
  assumes "db_ok db"
  shows "db_ok (snd (prune_deliveries clk faults cutoff db))"
proof -
  have d: "distinct (map dr_delivery_id (deliveries db))"
    using assms by (simp add: db_ok_def)
  show ?thesis
    using assms prune_rows_batch(6) [OF d _ d]
    by (auto simp: prune_deliveries_def db_ok_def repository_ids_def
        split: option.splits prod.splits)
qed

text \<open>
  A delivery is new at most once between prunings: in any sequence of claims exactly the first of
  each identifier is new, whatever faults occur in between.
\<close>

fun claim_all ::
  "('u \<Rightarrow> rstring) \<Rightarrow> (faults \<times> rstring \<times> 'u delivery_id) list \<Rightarrow> database
   \<Rightarrow> (delivery_store_error, delivery_claim) result list \<times> database" where
  "claim_all h [] db = ([], db)"
| "claim_all h ((f, now, d) # cs) db =
     (let (r, db1) = claim_delivery h f now d db; (rs, db2) = claim_all h cs db1
      in (r # rs, db2))"

lemma claim_delivery_mono:
  "claimed h db d' \<Longrightarrow> claimed h (snd (claim_delivery h f now d db)) d'"
  using claim_delivery_other [of h f now d db] by (auto simp: claimed_def)

lemma claim_delivery_New:
  assumes "claim_delivery h f now d db = (Ok delivery_claim.New, db')"
  shows "\<not> claimed h db d" and "claimed h db' d"
  using assms
  by (force simp: claim_delivery_def Let_def claimed_def list_ex_iff
      split: if_splits option.splits)+

lemma claimed_never_new:
  "claimed h db d \<Longrightarrow> i < length cs \<Longrightarrow> snd (snd (cs ! i)) = d \<Longrightarrow>
     fst (claim_all h cs db) ! i \<noteq> Ok delivery_claim.New"
proof (induction cs arbitrary: db i)
  case (Cons c cs)
  obtain f now d' where c: "c = (f, now, d')" by (cases c) auto
  obtain r db1 where r: "claim_delivery h f now d' db = (r, db1)" by fastforce
  have "claimed h db1 d" using claim_delivery_mono [OF Cons.prems(1), of f now d'] r by simp
  then show ?case
    using Cons.prems Cons.IH [of db1 "i - 1"] claim_delivery_New(1) [of h f now d db db1] r c
    by (cases i) (auto simp: Let_def split: prod.splits)
qed simp

lemma claim_all_New_once:
  assumes "i < j" and "j < length cs" and "snd (snd (cs ! i)) = snd (snd (cs ! j))"
    and "fst (claim_all h cs db) ! i = Ok delivery_claim.New"
  shows "fst (claim_all h cs db) ! j \<noteq> Ok delivery_claim.New"
  using assms
proof (induction cs arbitrary: db i j)
  case (Cons c cs)
  obtain f now d where c: "c = (f, now, d)" by (cases c) auto
  obtain r db1 where r: "claim_delivery h f now d db = (r, db1)" by fastforce
  have step: "claim_all h (c # cs) db =
      (r # fst (claim_all h cs db1), snd (claim_all h cs db1))"
    by (simp add: c r Let_def case_prod_beta)
  obtain j' where j: "j = Suc j'" using Cons.prems(1) by (cases j) auto
  show ?case
  proof (cases i)
    case 0
    with Cons.prems step have "claim_delivery h f now d db = (Ok delivery_claim.New, db1)"
      by (simp add: r)
    then have "claimed h db1 d" by (rule claim_delivery_New)
    moreover have "j' < length cs" "snd (snd (cs ! j')) = d"
      using Cons.prems(2,3) 0 j c by simp_all
    ultimately have "fst (claim_all h cs db1) ! j' \<noteq> Ok delivery_claim.New"
      by (rule claimed_never_new)
    then show ?thesis by (simp only: step j fst_conv nth_Cons_Suc not_False_eq_True)
  next
    case (Suc i')
    with Cons.prems j have "fst (claim_all h cs db1) ! j' \<noteq> Ok delivery_claim.New"
      by (intro Cons.IH [of i' j']) (simp_all add: step)
    with j show ?thesis by (simp add: step)
  qed
qed simp

subsection \<open>Properties\<close>

text \<open>
  Between prunings a delivery identifier is claimed as new at most once: in any sequence of
  claims, with any failures in between, a second claim of an identifier that was new is never new
  again, so nothing downstream of a new claim runs twice for it.
\<close>

theorem delivery_new_at_most_once:
  assumes "i < j" and "j < length cs" and "snd (snd (cs ! i)) = snd (snd (cs ! j))"
    and "fst (claim_all h cs db) ! i = Ok delivery_claim.New"
  shows "fst (claim_all h cs db) ! j \<noteq> Ok delivery_claim.New"
  using assms by (rule claim_all_New_once)

lemma delivery_new_at_most_once_witness:
  "fst (claim_all (\<lambda>n. [n]) [(no_faults, [], DeliveryId 7), (no_faults, [], DeliveryId 7)]
     empty_database) ! 1 \<noteq> Ok delivery_claim.New"
  by (rule delivery_new_at_most_once [of 0])
    (simp_all add: claim_delivery_def no_faults_def empty_database_def Let_def)

end
