(* ===== verification/Merge_Queue_Store.thy ===== *)
theory Merge_Queue_Store
  imports Database
begin

section \<open>Durable merge-queue attempts\<close>

text \<open>
  \<open>src/storage/merge_queue_store.rs\<close>. The calls of \<open>enqueue\<close> are begin (0), insert (1) and
  commit (2); those of \<open>complete\<close> are begin (0), update (1), the existence query (2) and commit (3).
\<close>

definition ATTEMPT_PRUNE_BATCH_SIZE :: nat where "ATTEMPT_PRUNE_BATCH_SIZE = 1000"

datatype enqueue_transition = Created | AlreadyActive

datatype completion_transition =
  Completed queue_timestamp | AlreadyCompleted | MissingActiveAttempt

datatype merge_queue_store_error = Unavailable | Internal

definition merge_queue_map_sqlx_error :: "sqlx_error \<Rightarrow> merge_queue_store_error" where
  "merge_queue_map_sqlx_error e =
     (if sqlite_is_busy_or_locked e then merge_queue_store_error.Unavailable
      else merge_queue_store_error.Internal)"

subsection \<open>Statements\<close>

text \<open>
  \<open>INSERT .. ON CONFLICT(repository_id, pull_request_number) WHERE completed_at IS NULL DO NOTHING\<close>
  with the number of rows it inserts, or the violated constraint.
\<close>

definition insert_attempt ::
  "int \<Rightarrow> int \<Rightarrow> rstring \<Rightarrow> rstring \<Rightarrow> rstring \<Rightarrow> database \<Rightarrow> (sqlx_error, nat \<times> database) result"
where
  "insert_attempt repository_id number enqueued_at oc reason db =
     (let row = \<lparr>at_id = next_rowid (map at_id (attempts db)), at_repository_id = repository_id,
                at_pull_request_number = number, at_enqueued_at = enqueued_at,
                at_completed_at = None, at_outcome = oc, at_reason_code = reason\<rparr>
      in if \<not> attempt_check row then Err check_violation
         else if list_ex (\<lambda>r. active_attempt r \<and> attempt_key r = attempt_key row) (attempts db)
         then Ok (0, db)
         else if \<not> list_ex (\<lambda>r. rr_id r = repository_id) (repositories db)
         then Err foreign_key_violation
         else Ok (1, db\<lparr>attempts := attempts db @ [row]\<rparr>))"

text \<open>
  \<open>UPDATE .. WHERE completed_at IS NULL RETURNING enqueued_at\<close>, read by \<open>fetch_optional\<close>: the first
  updated row.
\<close>

definition complete_rows ::
  "int \<Rightarrow> int \<Rightarrow> rstring \<Rightarrow> rstring \<Rightarrow> rstring \<Rightarrow> database \<Rightarrow> (sqlx_error, rstring option \<times> database) result"
where
  "complete_rows repository_id number finished_at oc reason db =
     (let hit = (\<lambda>r. attempt_key r = (repository_id, number) \<and> active_attempt r);
          done = (\<lambda>r. r\<lparr>at_completed_at := Some finished_at, at_outcome := oc,
                        at_reason_code := reason\<rparr>)
      in if list_ex (\<lambda>r. hit r \<and> \<not> attempt_check (done r)) (attempts db) then Err check_violation
         else Ok (map_option at_enqueued_at (find hit (attempts db)),
                  db\<lparr>attempts := map (\<lambda>r. if hit r then done r else r) (attempts db)\<rparr>))"

definition completed_exists :: "int \<Rightarrow> int \<Rightarrow> database \<Rightarrow> bool" where
  "completed_exists repository_id number db \<longleftrightarrow>
     list_ex (\<lambda>r. attempt_key r = (repository_id, number) \<and> \<not> active_attempt r) (attempts db)"

subsection \<open>Operations\<close>

definition enqueue ::
  "faults \<Rightarrow> repository_id \<Rightarrow> pull_request_number \<Rightarrow> queue_timestamp \<Rightarrow> database
   \<Rightarrow> (merge_queue_store_error, enqueue_transition) result \<times> database" where
  "enqueue faults repository_id number enqueued_at db =
     (case faults 0 of
        Some e \<Rightarrow> (Err (merge_queue_map_sqlx_error e), db)
      | None \<Rightarrow>
     (case (case faults 1 of Some e \<Rightarrow> Err e
            | None \<Rightarrow> insert_attempt (repository_id_get repository_id) (pull_request_number_get number)
                        (canonical enqueued_at) (queue_outcome_as_str queue_outcome.Pending)
                        (queue_reason_code_as_str queue_reason_code.None') db) of
        Inl e \<Rightarrow> (Err (merge_queue_map_sqlx_error e), db)
      | Inr (rows_affected, db') \<Rightarrow>
     (case faults 2 of
        Some e \<Rightarrow> (Err (merge_queue_map_sqlx_error e), db)
      | None \<Rightarrow>
          (Ok (if rows_affected = 1 then enqueue_transition.Created
               else enqueue_transition.AlreadyActive), db'))))"

definition complete ::
  "time_lib \<Rightarrow> faults \<Rightarrow> repository_id \<Rightarrow> pull_request_number \<Rightarrow> queue_completion \<Rightarrow> database
   \<Rightarrow> (merge_queue_store_error, completion_transition) result \<times> database" where
  "complete clk faults repository_id number completion db =
     (case faults 0 of
        Some e \<Rightarrow> (Err (merge_queue_map_sqlx_error e), db)
      | None \<Rightarrow>
     (case (case faults 1 of Some e \<Rightarrow> Err e
            | None \<Rightarrow> complete_rows (repository_id_get repository_id)
                        (pull_request_number_get number)
                        (canonical (completed_at completion))
                        (queue_outcome_as_str (outcome completion))
                        (queue_reason_code_as_str (reason_code completion)) db) of
        Inl e \<Rightarrow> (Err (merge_queue_map_sqlx_error e), db)
      | Inr (enqueued_at, db') \<Rightarrow>
     (case (case enqueued_at of
              Some text \<Rightarrow>
                (case queue_timestamp_parse clk text of
                   Inl _ \<Rightarrow> Err merge_queue_store_error.Internal
                 | Inr t \<Rightarrow> Ok (completion_transition.Completed t))
            | None \<Rightarrow>
                (case faults 2 of
                   Some e \<Rightarrow> Err (merge_queue_map_sqlx_error e)
                 | None \<Rightarrow>
                     Ok (if completed_exists (repository_id_get repository_id)
                              (pull_request_number_get number) db'
                         then completion_transition.AlreadyCompleted
                         else completion_transition.MissingActiveAttempt))) of
        Inl e \<Rightarrow> (Err e, db)
      | Inr transition \<Rightarrow>
     (case faults 3 of
        Some e \<Rightarrow> (Err (merge_queue_map_sqlx_error e), db)
      | None \<Rightarrow> (Ok transition, db')))))"

definition prune_completed ::
  "time_lib \<Rightarrow> faults \<Rightarrow> instant \<Rightarrow> database
   \<Rightarrow> (merge_queue_store_error, nat) result \<times> database" where
  "prune_completed clk faults cutoff db =
     (case queue_timestamp_from_datetime clk cutoff of
        Inl _ \<Rightarrow> (Err merge_queue_store_error.Internal, db)
      | Inr t \<Rightarrow>
          (case faults 0 of
             Some e \<Rightarrow> (Err (merge_queue_map_sqlx_error e), db)
           | None \<Rightarrow>
               (case prune_rows at_completed_at at_id (canonical t) ATTEMPT_PRUNE_BATCH_SIZE
                       (attempts db) of
                  (rows, n) \<Rightarrow> (Ok n, db\<lparr>attempts := rows\<rparr>))))"

subsection \<open>The active attempt\<close>

definition attempt_is_active :: "database \<Rightarrow> repository_id \<Rightarrow> pull_request_number \<Rightarrow> bool" where
  "attempt_is_active db repository_id number \<longleftrightarrow>
     (\<exists>r \<in> set (attempts db). active_attempt r
        \<and> attempt_key r = (repository_id_get repository_id, pull_request_number_get number))"

lemma insert_attempt_Ok:
  assumes "insert_attempt rid n t (queue_outcome_as_str queue_outcome.Pending) reason db
     = Ok (k, db')"
  shows "(k = 0 \<and> db' = db \<and> (\<exists>r \<in> set (attempts db). active_attempt r \<and> attempt_key r = (rid, n)))
    \<or> (k = 1 \<and> \<not> (\<exists>r \<in> set (attempts db). active_attempt r \<and> attempt_key r = (rid, n))
        \<and> rid \<in> repository_ids db \<and> 0 < n
        \<and> db' = db\<lparr>attempts := attempts db
             @ [\<lparr>at_id = next_rowid (map at_id (attempts db)), at_repository_id = rid,
                 at_pull_request_number = n, at_enqueued_at = t, at_completed_at = None,
                 at_outcome = lit ''pending'', at_reason_code = reason\<rparr>]\<rparr>)"
  using assms
  by (auto simp: insert_attempt_def Let_def attempt_key_def list_ex_iff repository_ids_def
      attempt_check_def queue_outcome_as_str_def split: if_splits)

lemma db_ok_append_attempt:
  assumes "db_ok db" and "at_id row = next_rowid (map at_id (attempts db))"
    and "attempt_check row" "at_repository_id row \<in> repository_ids db"
    and "\<not> (\<exists>r \<in> set (attempts db). active_attempt r \<and> attempt_key r = attempt_key row)"
  shows "db_ok (db\<lparr>attempts := attempts db @ [row]\<rparr>)"
  using assms next_rowid_not_in [of "map at_id (attempts db)"]
  by (auto simp: db_ok_def attempts_ok_def repository_ids_def)

lemma enqueue_db_ok:
  assumes "db_ok db"
  shows "db_ok (snd (enqueue faults rid n t db))"
proof (cases "snd (enqueue faults rid n t db) = db")
  case False
  then obtain k db' where i: "insert_attempt (repository_id_get rid) (pull_request_number_get n)
      (canonical t) (queue_outcome_as_str queue_outcome.Pending)
      (queue_reason_code_as_str queue_reason_code.None') db = Ok (k, db')"
    and s: "snd (enqueue faults rid n t db) = db'"
    by (auto simp: enqueue_def split: option.splits sum.splits)
  show ?thesis
    using insert_attempt_Ok [OF i] assms s
    by (auto intro!: db_ok_append_attempt simp: attempt_check_def attempt_outcomes_def
        attempt_key_def)
qed (use assms in simp)

lemma complete_rows_Ok:
  assumes "complete_rows rid n t oc reason db = Ok (stored, db')"
  shows "db' = db\<lparr>attempts := attempts db'\<rparr>"
    and "attempts db' = map (\<lambda>r. if attempt_key r = (rid, n) \<and> active_attempt r
           then r\<lparr>at_completed_at := Some t, at_outcome := oc, at_reason_code := reason\<rparr> else r)
         (attempts db)"
    and "stored = map_option at_enqueued_at
           (find (\<lambda>r. attempt_key r = (rid, n) \<and> active_attempt r) (attempts db))"
    and "\<forall>r \<in> set (attempts db). attempt_key r = (rid, n) \<and> active_attempt r \<longrightarrow>
           attempt_check (r\<lparr>at_completed_at := Some t, at_outcome := oc, at_reason_code := reason\<rparr>)"
  using assms by (auto simp: complete_rows_def Let_def list_ex_iff split: if_splits)

lemma complete_rows_db_ok:
  assumes "db_ok db" and "complete_rows rid n t oc reason db = Ok (stored, db')"
  shows "db_ok db'"
proof -
  note c = complete_rows_Ok [OF assms(2)]
  let ?f = "\<lambda>r. if attempt_key r = (rid, n) \<and> active_attempt r
     then r\<lparr>at_completed_at := Some t, at_outcome := oc, at_reason_code := reason\<rparr> else r"
  have ids: "map at_id (map ?f rs) = map at_id rs" for rs by simp
  have act: "filter active_attempt (map ?f rs) =
      filter (\<lambda>r. attempt_key r \<noteq> (rid, n)) (filter active_attempt rs)" for rs
    by (induction rs) (auto simp: active_attempt_def)
  have ok: "attempts_ok (repository_ids db) (attempts db)"
    using assms(1) by (simp add: db_ok_def)
  have "attempts_ok (repository_ids db) (attempts db')"
    using ok c(4) unfolding attempts_ok_def c(2) ids act
    by (auto simp: distinct_map_filter_conj)
  with assms(1) show ?thesis by (subst c(1)) (simp add: db_ok_def repository_ids_def)
qed

lemma complete_db_ok:
  assumes "db_ok db"
  shows "db_ok (snd (complete clk faults rid n c db))"
proof (cases "snd (complete clk faults rid n c db) = db")
  case False
  then obtain stored db' where "complete_rows (repository_id_get rid) (pull_request_number_get n)
      (canonical (completed_at c)) (queue_outcome_as_str (outcome c))
      (queue_reason_code_as_str (reason_code c)) db = Ok (stored, db')"
    and "snd (complete clk faults rid n c db) = db'"
    by (auto simp: complete_def split: option.splits sum.splits)
  with complete_rows_db_ok [OF assms] show ?thesis by simp
qed (use assms in simp)

lemma prune_completed_db_ok:
  assumes "db_ok db"
  shows "db_ok (snd (prune_completed clk faults cutoff db))"
proof -
  have ok: "attempts_ok (repository_ids db) (attempts db)"
    using assms by (simp add: db_ok_def)
  then have d: "distinct (map at_id (attempts db))" by (simp add: attempts_ok_def)
  have "attempts_ok (repository_ids db) rows"
    if p: "prune_rows at_completed_at at_id stored k (attempts db) = (rows, m)" for stored k rows m
  proof -
    note b = prune_rows_batch [OF d p]
    have "rows = filter (\<lambda>r. r \<notin> set (oldest_expired at_completed_at at_id stored k (attempts db)))
        (attempts db)"
      using p prune_rows_eq [OF d] by auto
    then have "distinct (map attempt_key (filter active_attempt rows))"
      using ok by (simp add: attempts_ok_def distinct_map_filter_conj)
    with b(3) b(6) [OF d] ok show ?thesis by (auto simp: attempts_ok_def)
  qed
  with assms show ?thesis
    by (auto simp: prune_completed_def db_ok_def repository_ids_def
        split: option.splits sum.splits prod.splits)
qed

subsection \<open>The life of an attempt\<close>

text \<open>
  The canonical format writes the year of an instant of the years 0 to 9999 in four digits, and
  RFC 3339 reads every such text back, to its millisecond (documented for the \<open>time\<close> crate). A year
  before 0, which an offset east of UTC on the first day of the year 0 gives, gets a minus sign that
  RFC 3339 refuses: of such an instant the hypothesis says nothing.
\<close>

definition YEAR_0 :: instant where "YEAR_0 = - 62167219200 * 1000000000"
definition YEAR_10000 :: instant where "YEAR_10000 = 253402300800 * 1000000000"

definition four_digit_year :: "instant \<Rightarrow> bool" where
  "four_digit_year t \<longleftrightarrow> YEAR_0 \<le> t \<and> t < YEAR_10000"

definition years_read_back :: "time_lib \<Rightarrow> bool" where
  "years_read_back clk \<longleftrightarrow>
     (\<forall>t s. four_digit_year t \<and> format_millis clk t = Some s \<longrightarrow>
        (\<exists>t'. parse_rfc3339 clk s = Some t' \<and> format_millis clk t' = Some s))"

lemma queue_timestamp_read_back:
  assumes "years_read_back clk" and "four_digit_year x"
    and "queue_timestamp_from_datetime clk x = Ok t"
  shows "\<exists>q. queue_timestamp_parse clk (canonical t) = Ok q \<and> canonical q = canonical t"
proof -
  have "format_millis clk x = Some (canonical t)"
    using assms(3) by (auto simp: queue_timestamp_from_datetime_def split: option.splits)
  then obtain t' where "parse_rfc3339 clk (canonical t) = Some t'"
      "format_millis clk t' = Some (canonical t)"
    using assms(1,2) unfolding years_read_back_def by blast
  then show ?thesis by (simp add: queue_timestamp_parse_def queue_timestamp_from_datetime_def)
qed

lemma enqueue_active:
  assumes "attempt_is_active db rid n" and "0 < pull_request_number_get n"
  shows "enqueue no_faults rid n t db = (Ok enqueue_transition.AlreadyActive, db)"
  using assms
  by (auto simp: enqueue_def no_faults_def insert_attempt_def Let_def attempt_is_active_def
      attempt_key_def list_ex_iff attempt_check_def attempt_outcomes_def queue_outcome_as_str_def)

lemma enqueue_inactive:
  assumes "\<not> attempt_is_active db rid n" and "0 < pull_request_number_get n"
    and "repository_id_get rid \<in> repository_ids db"
  shows "\<exists>row. enqueue no_faults rid n t db =
       (Ok enqueue_transition.Created, db\<lparr>attempts := attempts db @ [row]\<rparr>)
     \<and> attempt_key row = (repository_id_get rid, pull_request_number_get n)
     \<and> active_attempt row \<and> at_enqueued_at row = canonical t
     \<and> at_pull_request_number row = pull_request_number_get n"
  using assms
  by (auto simp: enqueue_def no_faults_def insert_attempt_def Let_def attempt_is_active_def
      attempt_key_def list_ex_iff attempt_check_def attempt_outcomes_def queue_outcome_as_str_def
      repository_ids_def active_attempt_def)

lemma supported_completion_check:
  assumes "supported_completion c" and "0 < at_pull_request_number r"
  shows "attempt_check (r\<lparr>at_completed_at := Some t,
           at_outcome := queue_outcome_as_str (outcome c), at_reason_code := x\<rparr>)"
  using assms supported_completion_terminal [OF assms(1)]
  by (cases "outcome c") (simp_all add: attempt_check_def attempt_outcomes_def vocab)

lemma complete_active:
  assumes "supported_completion c"
    and "attempts db = rs @ [row]" and "\<forall>r \<in> set rs. \<not> (attempt_key r =
        (repository_id_get rid, pull_request_number_get n) \<and> active_attempt r)"
    and "attempt_key row = (repository_id_get rid, pull_request_number_get n)"
    and "active_attempt row" and "at_enqueued_at row = s" and "0 < at_pull_request_number row"
  shows "case queue_timestamp_parse clk s of
       Inl _ \<Rightarrow> complete clk no_faults rid n c db = (Err merge_queue_store_error.Internal, db)
     | Inr t' \<Rightarrow> (\<exists>db'. complete clk no_faults rid n c db
           = (Ok (completion_transition.Completed t'), db')
         \<and> \<not> attempt_is_active db' rid n
         \<and> completed_exists (repository_id_get rid) (pull_request_number_get n) db')"
proof -
  let ?k = "(repository_id_get rid, pull_request_number_get n)"
  have f: "find (\<lambda>r. attempt_key r = ?k \<and> active_attempt r) (attempts db) = Some row"
    using assms(2-5) by (auto simp: find_append find_None_iff split: option.splits
        dest: find_Some_iff [THEN iffD1])
  let ?done = "\<lambda>r. r\<lparr>at_completed_at := Some (canonical (completed_at c)),
     at_outcome := queue_outcome_as_str (outcome c),
     at_reason_code := queue_reason_code_as_str (reason_code c)\<rparr>"
  let ?db = "db\<lparr>attempts := map (\<lambda>r. if attempt_key r = ?k \<and> active_attempt r then ?done r else r)
     (attempts db)\<rparr>"
  have "\<not> list_ex (\<lambda>r. (attempt_key r = ?k \<and> active_attempt r) \<and> \<not> attempt_check (?done r))
      (attempts db)"
    using assms(2,3,7) supported_completion_check [OF assms(1)]
    by (auto simp: list_ex_iff)
  then have "complete_rows (repository_id_get rid) (pull_request_number_get n)
      (canonical (completed_at c)) (queue_outcome_as_str (outcome c))
      (queue_reason_code_as_str (reason_code c)) db = Ok (Some s, ?db)"
    using f assms(6) by (simp add: complete_rows_def Let_def)
  then have "complete clk no_faults rid n c db = (case queue_timestamp_parse clk s of
       Inl _ \<Rightarrow> (Err merge_queue_store_error.Internal, db)
     | Inr q \<Rightarrow> (Ok (completion_transition.Completed q), ?db))"
    by (simp add: complete_def no_faults_def split: sum.split)
  moreover have "\<not> attempt_is_active ?db rid n"
    by (auto simp: attempt_is_active_def active_attempt_def)
  moreover have "completed_exists (repository_id_get rid) (pull_request_number_get n) ?db"
    using assms(2,4,5) by (auto simp: completed_exists_def list_ex_iff active_attempt_def
        attempt_key_def)
  ultimately show ?thesis by (cases "queue_timestamp_parse clk s") auto
qed

lemma complete_inactive:
  assumes "\<not> attempt_is_active db rid n"
  shows "complete clk no_faults rid n c db =
     (Ok (if completed_exists (repository_id_get rid) (pull_request_number_get n) db
          then completion_transition.AlreadyCompleted
          else completion_transition.MissingActiveAttempt), db)"
proof -
  let ?hit = "\<lambda>r. attempt_key r = (repository_id_get rid, pull_request_number_get n)
     \<and> active_attempt r"
  have no: "\<forall>r \<in> set (attempts db). \<not> ?hit r"
    using assms by (auto simp: attempt_is_active_def)
  then have "find ?hit (attempts db) = None" by (simp add: find_None_iff)
  moreover have "map (\<lambda>r. if ?hit r then f r else r) (attempts db) = attempts db" for f
    using no by (intro map_idI) auto
  ultimately have "complete_rows (repository_id_get rid) (pull_request_number_get n)
      (canonical (completed_at c)) (queue_outcome_as_str (outcome c))
      (queue_reason_code_as_str (reason_code c)) db = Ok (None, db)"
    using no by (auto simp: complete_rows_def Let_def list_ex_iff)
  then show ?thesis by (simp add: complete_def no_faults_def)
qed

subsection \<open>Properties\<close>

text \<open>
  C36: For a configured repository and a pull request without an active attempt, enqueueing creates
  the attempt and enqueueing again changes nothing. The first completion finds the attempt: it
  answers with the enqueue time read from the row, after which the attempt is no longer active and a
  second completion reports that and changes nothing; or, when the stored text cannot be read, it
  fails and leaves the attempt active. A time of the years 0 to 9999 is read back as the text that was
  stored. Completing a pull request that never had an attempt is reported as missing.
\<close>

theorem merge_queue_attempt_lifecycle:
  assumes "repository_id_get rid \<in> repository_ids db" and "0 < pull_request_number_get n"
    and "supported_completion c" and "\<not> attempt_is_active db rid n"
  shows "(\<exists>db1. enqueue no_faults rid n t db = (Ok enqueue_transition.Created, db1)
       \<and> enqueue no_faults rid n u db1 = (Ok enqueue_transition.AlreadyActive, db1)
       \<and> (case queue_timestamp_parse clk (canonical t) of
            Inl _ \<Rightarrow> complete clk no_faults rid n c db1
                = (Err merge_queue_store_error.Internal, db1) \<and> attempt_is_active db1 rid n
          | Inr t' \<Rightarrow> (\<exists>db2. complete clk no_faults rid n c db1
                = (Ok (completion_transition.Completed t'), db2) \<and> \<not> attempt_is_active db2 rid n
              \<and> complete clk no_faults rid n c' db2
                = (Ok completion_transition.AlreadyCompleted, db2))))
     \<and> (years_read_back clk \<and> four_digit_year x \<and> queue_timestamp_from_datetime clk x = Ok t \<longrightarrow>
          (\<exists>t'. queue_timestamp_parse clk (canonical t) = Ok t' \<and> canonical t' = canonical t))
     \<and> (\<not> completed_exists (repository_id_get rid) (pull_request_number_get n) db \<longrightarrow>
          complete clk no_faults rid n c db = (Ok completion_transition.MissingActiveAttempt, db))"
proof -
  from enqueue_inactive [OF assms(4,2,1), of t] obtain row where e:
    "enqueue no_faults rid n t db =
       (Ok enqueue_transition.Created, db\<lparr>attempts := attempts db @ [row]\<rparr>)"
    "attempt_key row = (repository_id_get rid, pull_request_number_get n)"
    "active_attempt row" "at_enqueued_at row = canonical t"
    "at_pull_request_number row = pull_request_number_get n" by blast
  let ?db1 = "db\<lparr>attempts := attempts db @ [row]\<rparr>"
  have active: "attempt_is_active ?db1 rid n" using e(2,3) by (auto simp: attempt_is_active_def)
  have others: "\<forall>r \<in> set (attempts db). \<not> (attempt_key r =
        (repository_id_get rid, pull_request_number_get n) \<and> active_attempt r)"
    using assms(4) by (auto simp: attempt_is_active_def)
  have "0 < at_pull_request_number row" using e(5) assms(2) by simp
  from complete_active [OF assms(3) _ others e(2,3,4) this, of ?db1 clk]
  have first: "case queue_timestamp_parse clk (canonical t) of
       Inl _ \<Rightarrow> complete clk no_faults rid n c ?db1 = (Err merge_queue_store_error.Internal, ?db1)
     | Inr t' \<Rightarrow> (\<exists>db2. complete clk no_faults rid n c ?db1
           = (Ok (completion_transition.Completed t'), db2) \<and> \<not> attempt_is_active db2 rid n
         \<and> completed_exists (repository_id_get rid) (pull_request_number_get n) db2)" by simp
  have "case queue_timestamp_parse clk (canonical t) of
       Inl _ \<Rightarrow> complete clk no_faults rid n c ?db1 = (Err merge_queue_store_error.Internal, ?db1)
           \<and> attempt_is_active ?db1 rid n
     | Inr t' \<Rightarrow> (\<exists>db2. complete clk no_faults rid n c ?db1
           = (Ok (completion_transition.Completed t'), db2) \<and> \<not> attempt_is_active db2 rid n
         \<and> complete clk no_faults rid n c' db2 = (Ok completion_transition.AlreadyCompleted, db2))"
    using first active complete_inactive [where c = c'] by (auto split: sum.splits)
  then show ?thesis
    using e(1) enqueue_active [OF active assms(2)] complete_inactive [OF assms(4)]
      queue_timestamp_read_back by auto
qed

lemma merge_queue_attempt_lifecycle_witness:
  "\<exists>db1 t' db2. enqueue no_faults (RepositoryId 1) (PullRequestNumber 5)
       \<lparr>canonical = [3], instant_of = 3\<rparr> one_repository = (Ok enqueue_transition.Created, db1)
     \<and> complete sample_clock no_faults (RepositoryId 1) (PullRequestNumber 5)
         (completion_pull_request_merged \<lparr>canonical = [4], instant_of = 4\<rparr>) db1
       = (Ok (completion_transition.Completed t'), db2) \<and> canonical t' = [3]"
proof -
  have clk: "years_read_back sample_clock" "four_digit_year 3"
    by (auto simp: years_read_back_def sample_clock_def four_digit_year_def YEAR_0_def
        YEAR_10000_def split: if_splits)
  have enq: "queue_timestamp_from_datetime sample_clock 3 = Ok \<lparr>canonical = [3], instant_of = 3\<rparr>"
    by (simp add: sample_clock_def queue_timestamp_from_datetime_def)
  have rid: "repository_id_get (RepositoryId 1) \<in> repository_ids one_repository"
    by (simp add: one_repository_ids)
  have n: "0 < pull_request_number_get (PullRequestNumber 5)" by simp
  have sup: "supported_completion
      (completion_pull_request_merged \<lparr>canonical = [4], instant_of = 4\<rparr>)"
    by (simp add: supported_completion_def completion_pull_request_merged_def)
  have inactive: "\<not> attempt_is_active one_repository (RepositoryId 1) (PullRequestNumber 5)"
    by (simp add: attempt_is_active_def one_repository_def empty_database_def)
  from merge_queue_attempt_lifecycle [where u = "\<lparr>canonical = [5], instant_of = 5\<rparr>" and x = 3
      and t = "\<lparr>canonical = [3], instant_of = 3\<rparr>" and clk = sample_clock
      and c' = "completion_pull_request_merged \<lparr>canonical = [6], instant_of = 6\<rparr>",
      OF rid n sup inactive] clk enq
  show ?thesis by (auto split: sum.splits)
qed

end
