(* ===== verification/Workflow_Run_Store.thy ===== *)
theory Workflow_Run_Store
  imports Database Workflow_Values
begin

section \<open>Workflow-run contexts\<close>

text \<open>\<open>src/storage/workflow_run_store.rs\<close>: the context of a run attempt, upserted by key.\<close>

definition WORKFLOW_RUN_PRUNE_BATCH_SIZE :: nat where "WORKFLOW_RUN_PRUNE_BATCH_SIZE = 1000"

datatype workflow_run_store_error = Unavailable | Internal

definition workflow_run_map_sqlx_error :: "sqlx_error \<Rightarrow> workflow_run_store_error" where
  "workflow_run_map_sqlx_error e =
     (if sqlite_is_busy_or_locked e then workflow_run_store_error.Unavailable
      else workflow_run_store_error.Internal)"

definition merge_run :: "run_row \<Rightarrow> run_row \<Rightarrow> run_row" where
  "merge_run old excluded =
     old\<lparr>wr_event := wr_event excluded, wr_source_branch := wr_source_branch excluded,
         wr_target_branch := wr_target_branch excluded, wr_updated_at := wr_updated_at excluded\<rparr>"

interpretation run_upsert: keyed_upsert run_key merge_run
  by unfold_locales (simp add: run_key_def merge_run_def)

definition context_row :: "repository_id \<Rightarrow> workflow_run_context \<Rightarrow> rstring \<Rightarrow> database \<Rightarrow> run_row" where
  "context_row repository_id context now db =
     \<lparr>wr_rowid = next_rowid (map wr_rowid (run_contexts db)),
      wr_repository_id = repository_id_get repository_id,
      wr_run_id = run_id_get (ctx_run_id context),
      wr_run_attempt = run_attempt_get (ctx_run_attempt context),
      wr_event = workflow_event_as_str (ctx_event context),
      wr_source_branch = map_option branch_as_str (ctx_source_branch context),
      wr_target_branch = map_option branch_as_str (ctx_target_branch context),
      wr_updated_at = now\<rparr>"

definition upsert_run ::
  "faults \<Rightarrow> rstring \<Rightarrow> repository_id \<Rightarrow> workflow_run_context \<Rightarrow> database
   \<Rightarrow> (workflow_run_store_error, unit) result \<times> database" where
  "upsert_run faults now repository_id context db =
     (case (case faults 0 of Some e \<Rightarrow> Err e
            | None \<Rightarrow> upsert_statement run_key merge_run run_check wr_repository_id db
                        (context_row repository_id context now db) (run_contexts db)) of
        Inl e \<Rightarrow> (Err (workflow_run_map_sqlx_error e), db)
      | Inr rows \<Rightarrow> (Ok (), db\<lparr>run_contexts := rows\<rparr>))"

definition validated_stored_branch ::
  "rstring option \<Rightarrow> (workflow_run_store_error, workflow_branch option) result" where
  "validated_stored_branch v = (case v of
     None \<Rightarrow> Ok None
   | Some s \<Rightarrow> and_then (ok_or workflow_run_store_error.Internal (workflow_branch_sanitize s))
       (\<lambda>b. Ok (Some b)))"

definition into_context ::
  "run_row \<Rightarrow> workflow_run_id \<Rightarrow> workflow_run_attempt
   \<Rightarrow> (workflow_run_store_error, workflow_run_context) result" where
  "into_context row run_id run_attempt =
     and_then
       (if wr_event row = lit ''pull_request'' then Ok workflow_event.PullRequest
        else if wr_event row = lit ''merge_group'' then Ok workflow_event.MergeGroup
        else if wr_event row = lit ''push'' then Ok workflow_event.Push
        else if wr_event row = lit ''other'' then Ok workflow_event.Other
        else Err workflow_run_store_error.Internal)
       (\<lambda>event. and_then (validated_stored_branch (wr_source_branch row))
         (\<lambda>source_branch. and_then (validated_stored_branch (wr_target_branch row))
           (\<lambda>target_branch.
              Ok (workflow_run_context_new run_id run_attempt event source_branch
                    target_branch))))"

definition get_run ::
  "faults \<Rightarrow> repository_id \<Rightarrow> workflow_run_id \<Rightarrow> workflow_run_attempt \<Rightarrow> database
   \<Rightarrow> (workflow_run_store_error, workflow_run_context option) result" where
  "get_run faults repository_id run_id run_attempt db =
     (case faults 0 of
        Some e \<Rightarrow> Err (workflow_run_map_sqlx_error e)
      | None \<Rightarrow>
          (case lookup_row run_key
                  (repository_id_get repository_id, run_id_get run_id, run_attempt_get run_attempt)
                  (run_contexts db) of
             None \<Rightarrow> Ok None
           | Some row \<Rightarrow> and_then (into_context row run_id run_attempt) (\<lambda>c. Ok (Some c))))"

definition prune_runs ::
  "time_lib \<Rightarrow> faults \<Rightarrow> instant \<Rightarrow> database
   \<Rightarrow> (workflow_run_store_error, nat) result \<times> database" where
  "prune_runs clk faults cutoff db =
     (case format_millis clk cutoff of
        None \<Rightarrow> (Err workflow_run_store_error.Internal, db)
      | Some before \<Rightarrow>
          (case faults 0 of
             Some e \<Rightarrow> (Err (workflow_run_map_sqlx_error e), db)
           | None \<Rightarrow>
               (case prune_rows (\<lambda>r. Some (wr_updated_at r)) wr_rowid before
                       WORKFLOW_RUN_PRUNE_BATCH_SIZE (run_contexts db) of
                  (rows, n) \<Rightarrow> (Ok n, db\<lparr>run_contexts := rows\<rparr>))))"

subsection \<open>Round trip\<close>

definition valid_context :: "workflow_run_context \<Rightarrow> bool" where
  "valid_context c \<longleftrightarrow>
     0 < run_id_get (ctx_run_id c) \<and> 0 < run_attempt_get (ctx_run_attempt c)
     \<and> pred_option sanitized_branch (ctx_source_branch c)
     \<and> pred_option sanitized_branch (ctx_target_branch c)"

lemma context_row_key:
  "run_key (context_row rid c now db) =
     (repository_id_get rid, run_id_get (ctx_run_id c), run_attempt_get (ctx_run_attempt c))"
  by (simp add: run_key_def context_row_def)

lemma sanitized_branch_check:
  "pred_option sanitized_branch b \<Longrightarrow> branch_check (map_option branch_as_str b)"
  by (cases b)
    (auto simp: branch_check_def sanitized_branch_not_Nil Suc_le_eq sanitized_branch_def)

lemma context_row_check: "valid_context c \<Longrightarrow> run_check (context_row rid c now db)"
  by (cases "ctx_event c")
    (simp_all add: valid_context_def run_check_def context_row_def sanitized_branch_check
      workflow_event_as_str_def)

lemma validated_stored_branch_sanitized:
  "pred_option sanitized_branch b \<Longrightarrow>
     validated_stored_branch (map_option branch_as_str b) = Ok b"
  by (cases b) (simp_all add: validated_stored_branch_def sanitized_branch_fixpoint)

lemma into_context_of_row:
  assumes "valid_context c"
    and "wr_event row = workflow_event_as_str (ctx_event c)"
    and "wr_source_branch row = map_option branch_as_str (ctx_source_branch c)"
    and "wr_target_branch row = map_option branch_as_str (ctx_target_branch c)"
  shows "into_context row (ctx_run_id c) (ctx_run_attempt c) = Ok c"
  using assms
  by (cases c; cases "ctx_event c")
    (simp_all add: into_context_def valid_context_def validated_stored_branch_sanitized
      workflow_event_as_str_def workflow_run_context_new_def)

lemma upsert_run_Ok:
  assumes "upsert_run f now rid c db = (Ok (), db')"
  shows "run_contexts db' = upsert_row run_key merge_run (context_row rid c now db) (run_contexts db)"
    and "db' = db\<lparr>run_contexts := run_contexts db'\<rparr>"
    and "run_check (context_row rid c now db)"
    and "wr_repository_id (context_row rid c now db) \<in> repository_ids db"
  using assms
  by (auto simp: upsert_run_def upsert_statement_Ok_iff split: sum.splits option.splits)

lemma upsert_run_db_ok:
  assumes "db_ok db"
  shows "db_ok (snd (upsert_run f now rid c db))"
proof (cases "upsert_run f now rid c db")
  case (Pair r db')
  show ?thesis
  proof (cases r)
    case (Inl e)
    with Pair assms show ?thesis by (auto simp: upsert_run_def split: sum.splits)
  next
    case (Inr u)
    note o = upsert_run_Ok [OF Pair [unfolded Inr, simplified]]
    have "runs_ok (repository_ids db) (run_contexts db)" using assms by (simp add: db_ok_def)
    then have "runs_ok (repository_ids db) (run_contexts db')"
      unfolding o(1)
    proof (rule keyed_table_ok_upsert [OF _ run_upsert.keyed_upsert_axioms])
      fix old assume "old \<in> set (run_contexts db)" "run_key old = run_key (context_row rid c now db)"
      then show "wr_rowid (merge_run old (context_row rid c now db)) = wr_rowid old
          \<and> run_check (merge_run old (context_row rid c now db))
          \<and> wr_repository_id (merge_run old (context_row rid c now db)) \<in> repository_ids db"
        using o(3,4) by (auto simp: merge_run_def run_check_def run_key_def)
    qed (use o(3,4) in \<open>auto simp: context_row_def\<close>)
    then show ?thesis
      using assms by (simp add: Pair, subst o(2)) (simp add: db_ok_def repository_ids_def)
  qed
qed

lemma prune_runs_db_ok:
  assumes "db_ok db"
  shows "db_ok (snd (prune_runs clk f cutoff db))"
proof -
  have "runs_ok (repository_ids db) (run_contexts db)" using assms by (simp add: db_ok_def)
  note keyed_table_ok_prune [OF this]
  with assms show ?thesis
    by (auto simp: prune_runs_def db_ok_def repository_ids_def split: option.splits prod.splits)
qed

lemma stored_context_found:
  assumes "valid_context c" and "upsert_run f now rid c db = (Ok (), db')"
  shows "get_run no_faults rid (ctx_run_id c) (ctx_run_attempt c) db' = Ok (Some c)"
proof -
  note o = upsert_run_Ok [OF assms(2)]
  let ?row = "context_row rid c now db"
  obtain row where row: "lookup_row run_key (run_key ?row) (run_contexts db') = Some row"
      and "row = ?row \<or> (\<exists>old \<in> set (run_contexts db). row = merge_run old ?row)"
    using run_upsert.lookup_upsert [of ?row "run_contexts db"] o(1) by auto
  then have "wr_event row = workflow_event_as_str (ctx_event c)"
    "wr_source_branch row = map_option branch_as_str (ctx_source_branch c)"
    "wr_target_branch row = map_option branch_as_str (ctx_target_branch c)"
    by (auto simp: merge_run_def context_row_def)
  from into_context_of_row [OF assms(1) this] row show ?thesis
    by (simp add: get_run_def no_faults_def context_row_key)
qed

lemma other_context_unchanged:
  assumes "upsert_run f now rid c db = (Ok (), db')"
    and "(repository_id_get rid', run_id_get r, run_attempt_get a) \<noteq>
         (repository_id_get rid, run_id_get (ctx_run_id c), run_attempt_get (ctx_run_attempt c))"
  shows "get_run g rid' r a db' = get_run g rid' r a db"
proof -
  let ?k = "(repository_id_get rid', run_id_get r, run_attempt_get a)"
  have "?k \<noteq> run_key (context_row rid c now db)" unfolding context_row_key by (rule assms(2))
  from run_upsert.lookup_upsert_other [OF this, of "run_contexts db"]
  show ?thesis unfolding get_run_def upsert_run_Ok(1) [OF assms(1)] by (cases "g 0") simp_all
qed

subsection \<open>Properties\<close>

text \<open>
  A stored run context is found again exactly as it was given, under its run attempt and
  repository, whether it was new or replaced an earlier one, and no other run attempt's context
  changes.
\<close>

theorem run_context_roundtrip:
  assumes "valid_context c" and "upsert_run f now rid c db = (Ok (), db')"
  shows "get_run no_faults rid (ctx_run_id c) (ctx_run_attempt c) db' = Ok (Some c)
    \<and> ((repository_id_get rid', run_id_get r, run_attempt_get a) \<noteq>
         (repository_id_get rid, run_id_get (ctx_run_id c), run_attempt_get (ctx_run_attempt c)) \<longrightarrow>
       get_run g rid' r a db' = get_run g rid' r a db)"
  using stored_context_found [OF assms] other_context_unchanged [OF assms(2)] by blast

definition sample_context :: workflow_run_context where
  "sample_context =
     \<lparr>ctx_run_id = WorkflowRunId 4, ctx_run_attempt = WorkflowRunAttempt 1,
      ctx_event = workflow_event.Push, ctx_source_branch = None, ctx_target_branch = None\<rparr>"

lemma run_context_roundtrip_witness:
  "\<exists>db'. upsert_run no_faults [] (RepositoryId 1) sample_context one_repository = (Ok (), db')
     \<and> get_run no_faults (RepositoryId 1) (WorkflowRunId 4) (WorkflowRunAttempt 1) db'
         = Ok (Some sample_context)"
proof -
  have v: "valid_context sample_context" by (simp add: valid_context_def sample_context_def)
  have "\<exists>db'. upsert_run no_faults [] (RepositoryId 1) sample_context one_repository = (Ok (), db')"
    using context_row_check [OF v, of "RepositoryId 1" "[]" one_repository]
    by (simp add: upsert_run_def no_faults_def upsert_statement_def one_repository_def
        context_row_def)
  then obtain db' where u: "upsert_run no_faults [] (RepositoryId 1) sample_context one_repository
      = (Ok (), db')" by blast
  from run_context_roundtrip [OF v u] u show ?thesis by (simp add: sample_context_def)
qed

end
