(* ===== verification/Required_Check_Store.thy ===== *)
theory Required_Check_Store
  imports Database Workflow_Values
begin

section \<open>The required-check cache\<close>

text \<open>
  \<open>src/storage/required_check_store.rs\<close>: the required checks of a repository branch, encoded as
  newline-joined names, with a time-to-live. The time-to-live is in nanoseconds.
\<close>

definition REQUIRED_CHECK_PRUNE_BATCH_SIZE :: nat where "REQUIRED_CHECK_PRUNE_BATCH_SIZE = 1000"
definition CHECK_NAME_SEPARATOR :: nat where "CHECK_NAME_SEPARATOR = 10"

datatype required_check_store_error = Unavailable | Internal

definition required_check_map_sqlx_error :: "sqlx_error \<Rightarrow> required_check_store_error" where
  "required_check_map_sqlx_error e =
     (if sqlite_is_busy_or_locked e then required_check_store_error.Unavailable
      else required_check_store_error.Internal)"

datatype required_check_store = RequiredCheckStore (time_to_live: nat)

definition format_timestamp ::
  "time_lib \<Rightarrow> instant \<Rightarrow> (required_check_store_error, rstring) result" where
  "format_timestamp clk v = ok_or required_check_store_error.Internal (format_millis clk v)"

subsection \<open>The encoding\<close>

definition encode_check_names :: "required_checks \<Rightarrow> rstring" where
  "encode_check_names checks = join_with CHECK_NAME_SEPARATOR (required_checks_names checks)"

definition into_checks :: "rstring \<Rightarrow> required_checks" where
  "into_checks stored =
     required_checks_new
       (take MAX_REQUIRED_CHECK_COUNT
          (List.map_filter display_name_sanitize (split_on CHECK_NAME_SEPARATOR stored)))"

definition valid_checks :: "required_checks \<Rightarrow> bool" where
  "valid_checks checks \<longleftrightarrow>
     name_set (check_names checks) \<and> (\<forall>d \<in> set (check_names checks). sanitized_name d)"

lemma map_filter_sanitized:
  "(\<forall>d \<in> set ds. sanitized_name d) \<Longrightarrow>
     List.map_filter display_name_sanitize (map display_name_as_str ds) = ds"
  by (induction ds) (simp_all add: List.map_filter_simps sanitized_name_fixpoint)

lemma encode_into_checks:
  assumes "valid_checks checks"
  shows "into_checks (encode_check_names checks) = checks"
proof (cases "check_names checks")
  case Nil
  have "checks = RequiredChecks []" using Nil by (cases checks) simp
  moreover have "display_name_sanitize [] = None" by (simp add: display_name_sanitize_eq)
  ultimately show ?thesis
    by (simp add: into_checks_def encode_check_names_def required_checks_names_def
        List.map_filter_simps required_checks_new_def)
next
  case (Cons d ds)
  have ok: "\<forall>d \<in> set (check_names checks). sanitized_name d" "name_set (check_names checks)"
    using assms by (simp_all add: valid_checks_def)
  have "split_on CHECK_NAME_SEPARATOR (encode_check_names checks) = required_checks_names checks"
    unfolding encode_check_names_def
  proof (rule split_on_join_with)
    show "required_checks_names checks \<noteq> []" by (simp add: required_checks_names_def Cons)
    show "CHECK_NAME_SEPARATOR \<notin> set s" if s: "s \<in> set (required_checks_names checks)" for s
    proof -
      obtain x where "x \<in> set (check_names checks)" "s = display_name_as_str x"
        using s by (auto simp: required_checks_names_def)
      then have "\<forall>c \<in> set s. \<not> is_control c" using ok(1) by (simp add: sanitized_name_def)
      moreover have "is_control CHECK_NAME_SEPARATOR"
        by (simp add: is_control_def CHECK_NAME_SEPARATOR_def)
      ultimately show ?thesis by blast
    qed
  qed
  then show ?thesis
    using map_filter_sanitized [OF ok(1)] ok(2) name_set_fixpoint [OF ok(2)]
    by (simp add: into_checks_def required_checks_names_def name_set_def required_checks.expand)
qed

lemma encode_check_names_length:
  assumes "valid_checks checks"
  shows "length (encode_check_names checks) \<le> 12900"
proof -
  have "length (encode_check_names checks) \<le> length (required_checks_names checks) * (128 + 1)"
    unfolding encode_check_names_def
    using assms by (intro length_join_with_le)
      (auto simp: required_checks_names_def valid_checks_def sanitized_name_def)
  moreover have "length (required_checks_names checks) \<le> 100"
    using assms
    by (simp add: valid_checks_def name_set_def MAX_REQUIRED_CHECK_COUNT_def
        required_checks_names_def)
  then have "length (required_checks_names checks) * (128 + 1) \<le> 100 * (128 + 1)"
    by (rule mult_le_mono1)
  ultimately show ?thesis by simp
qed

subsection \<open>Operations\<close>

definition merge_checks :: "required_check_row \<Rightarrow> required_check_row \<Rightarrow> required_check_row" where
  "merge_checks old excluded =
     old\<lparr>rc_check_names := rc_check_names excluded, rc_updated_at := rc_updated_at excluded\<rparr>"

interpretation check_upsert: keyed_upsert check_key merge_checks
  by unfold_locales (simp add: check_key_def merge_checks_def)

definition checks_row ::
  "repository_id \<Rightarrow> workflow_branch \<Rightarrow> required_checks \<Rightarrow> rstring \<Rightarrow> database \<Rightarrow> required_check_row"
where
  "checks_row repository_id branch checks now db =
     \<lparr>rc_rowid = next_rowid (map rc_rowid (check_contexts db)),
      rc_repository_id = repository_id_get repository_id,
      rc_target_branch = branch_as_str branch,
      rc_check_names = encode_check_names checks, rc_updated_at = now\<rparr>"

definition upsert_checks ::
  "faults \<Rightarrow> rstring \<Rightarrow> repository_id \<Rightarrow> workflow_branch \<Rightarrow> required_checks \<Rightarrow> database
   \<Rightarrow> (required_check_store_error, unit) result \<times> database" where
  "upsert_checks faults now repository_id branch checks db =
     (case (case faults 0 of Some e \<Rightarrow> Err e
            | None \<Rightarrow> upsert_statement check_key merge_checks check_row_check rc_repository_id db
                        (checks_row repository_id branch checks now db) (check_contexts db)) of
        Inl e \<Rightarrow> (Err (required_check_map_sqlx_error e), db)
      | Inr rows \<Rightarrow> (Ok (), db\<lparr>check_contexts := rows\<rparr>))"

definition freshness_cutoff ::
  "time_lib \<Rightarrow> required_check_store \<Rightarrow> instant \<Rightarrow> (required_check_store_error, rstring) result" where
  "freshness_cutoff clk st now =
     (if time_to_live st div 1000000000 > i64_max then Err required_check_store_error.Internal
      else and_then
        (ok_or required_check_store_error.Internal
           (datetime_checked_sub clk now (int (time_to_live st))))
        (format_timestamp clk))"

definition get_fresh ::
  "time_lib \<Rightarrow> required_check_store \<Rightarrow> faults \<Rightarrow> repository_id \<Rightarrow> workflow_branch \<Rightarrow> instant \<Rightarrow> database
   \<Rightarrow> (required_check_store_error, required_checks option) result" where
  "get_fresh clk st faults repository_id branch now db =
     and_then (freshness_cutoff clk st now)
       (\<lambda>cutoff.
          case faults 0 of
            Some e \<Rightarrow> Err (required_check_map_sqlx_error e)
          | None \<Rightarrow>
              Ok (map_option (\<lambda>r. into_checks (rc_check_names r))
                (find (\<lambda>r. check_key r = (repository_id_get repository_id, branch_as_str branch)
                         \<and> cutoff \<le> rc_updated_at r) (check_contexts db))))"

definition prune_checks ::
  "time_lib \<Rightarrow> faults \<Rightarrow> instant \<Rightarrow> database
   \<Rightarrow> (required_check_store_error, nat) result \<times> database" where
  "prune_checks clk faults cutoff db =
     (case format_timestamp clk cutoff of
        Inl e \<Rightarrow> (Err e, db)
      | Inr before \<Rightarrow>
          (case faults 0 of
             Some e \<Rightarrow> (Err (required_check_map_sqlx_error e), db)
           | None \<Rightarrow>
               (case prune_rows (\<lambda>r. Some (rc_updated_at r)) rc_rowid before
                       REQUIRED_CHECK_PRUNE_BATCH_SIZE (check_contexts db) of
                  (rows, n) \<Rightarrow> (Ok n, db\<lparr>check_contexts := rows\<rparr>))))"

subsection \<open>Round trip and freshness\<close>

lemma find_conj_unique:
  assumes "distinct (map key tbl)"
  shows "find (\<lambda>r. key r = k \<and> P r) tbl =
     (case lookup_row key k tbl of None \<Rightarrow> None | Some r \<Rightarrow> if P r then Some r else None)"
  using assms
proof (induction tbl)
  case (Cons x xs)
  show ?case
  proof (cases "key x = k")
    case True
    with Cons.prems have "find (\<lambda>r. key r = k \<and> P r) xs = None"
      unfolding find_None_iff by (metis distinct.simps(2) image_eqI list.set_map list.simps(9))
    with True show ?thesis by (simp add: lookup_row_def)
  next
    case False
    with Cons show ?thesis by (simp add: lookup_row_def)
  qed
qed (simp add: lookup_row_def)

lemma upsert_checks_Ok:
  assumes "upsert_checks f now rid b cs db = (Ok (), db')"
  shows "check_contexts db' =
      upsert_row check_key merge_checks (checks_row rid b cs now db) (check_contexts db)"
    and "db' = db\<lparr>check_contexts := check_contexts db'\<rparr>"
    and "check_row_check (checks_row rid b cs now db)"
    and "rc_repository_id (checks_row rid b cs now db) \<in> repository_ids db"
  using assms
  by (auto simp: upsert_checks_def upsert_statement_Ok_iff split: sum.splits option.splits)

lemma upsert_checks_accepted:
  assumes "valid_checks cs" "sanitized_branch b" "f 0 = None"
    and "repository_id_get rid \<in> repository_ids db"
  shows "\<exists>db'. upsert_checks f now rid b cs db = (Ok (), db')"
proof -
  have "1 \<le> length (branch_as_str b)"
    using sanitized_branch_not_Nil [OF assms(2)] by (simp add: Suc_le_eq)
  then have "check_row_check (checks_row rid b cs now db)"
    using encode_check_names_length [OF assms(1)] assms(2)
    by (simp add: check_row_check_def checks_row_def sanitized_branch_def)
  then have "upsert_statement check_key merge_checks check_row_check rc_repository_id db
      (checks_row rid b cs now db) (check_contexts db)
      = Ok (upsert_row check_key merge_checks (checks_row rid b cs now db) (check_contexts db))"
    using assms(4) by (simp add: upsert_statement_Ok_iff checks_row_def)
  then show ?thesis using assms(3) by (simp add: upsert_checks_def)
qed

lemma upsert_checks_db_ok:
  assumes "db_ok db"
  shows "db_ok (snd (upsert_checks f now rid b cs db))"
proof (cases "upsert_checks f now rid b cs db")
  case (Pair r db')
  show ?thesis
  proof (cases r)
    case (Inl e)
    with Pair assms show ?thesis by (auto simp: upsert_checks_def split: sum.splits)
  next
    case (Inr u)
    note o = upsert_checks_Ok [OF Pair [unfolded Inr, simplified]]
    have "checks_ok (repository_ids db) (check_contexts db)" using assms by (simp add: db_ok_def)
    then have "checks_ok (repository_ids db) (check_contexts db')"
      unfolding o(1)
    proof (rule keyed_table_ok_upsert [OF _ check_upsert.keyed_upsert_axioms])
      fix old assume "old \<in> set (check_contexts db)"
        "check_key old = check_key (checks_row rid b cs now db)"
      then show "rc_rowid (merge_checks old (checks_row rid b cs now db)) = rc_rowid old
          \<and> check_row_check (merge_checks old (checks_row rid b cs now db))
          \<and> rc_repository_id (merge_checks old (checks_row rid b cs now db)) \<in> repository_ids db"
        using o(3,4) by (auto simp: merge_checks_def check_row_check_def check_key_def)
    qed (use o(3,4) in \<open>auto simp: checks_row_def\<close>)
    then show ?thesis
      using assms by (simp add: Pair, subst o(2)) (simp add: db_ok_def repository_ids_def)
  qed
qed

lemma prune_checks_db_ok:
  assumes "db_ok db"
  shows "db_ok (snd (prune_checks clk f cutoff db))"
proof -
  have "checks_ok (repository_ids db) (check_contexts db)" using assms by (simp add: db_ok_def)
  note keyed_table_ok_prune [OF this]
  with assms show ?thesis
    by (auto simp: prune_checks_def db_ok_def repository_ids_def
        split: option.splits sum.splits prod.splits)
qed

lemma stored_checks_found:
  assumes "db_ok db" and "valid_checks cs" and "upsert_checks f now rid b cs db = (Ok (), db')"
    and "freshness_cutoff clk st t = Ok cutoff"
  shows "get_fresh clk st no_faults rid b t db' = Ok (if cutoff \<le> now then Some cs else None)"
proof -
  note o = upsert_checks_Ok [OF assms(3)]
  let ?row = "checks_row rid b cs now db"
  have "db_ok db'" using upsert_checks_db_ok [OF assms(1), of f now rid b cs] assms(3) by simp
  then have d: "distinct (map check_key (check_contexts db'))"
    by (simp add: db_ok_def keyed_table_ok_def)
  obtain row where row: "lookup_row check_key (check_key ?row) (check_contexts db') = Some row"
      and "row = ?row \<or> (\<exists>old \<in> set (check_contexts db). row = merge_checks old ?row)"
    using check_upsert.lookup_upsert [of ?row "check_contexts db"] o(1) by auto
  then have "rc_check_names row = encode_check_names cs" "rc_updated_at row = now"
    by (auto simp: merge_checks_def checks_row_def)
  moreover have "check_key ?row = (repository_id_get rid, branch_as_str b)"
    by (simp add: check_key_def checks_row_def)
  ultimately show ?thesis
    using row assms(4) encode_into_checks [OF assms(2)]
    by (simp add: get_fresh_def find_conj_unique [OF d] no_faults_def)
qed

subsection \<open>Properties\<close>

text \<open>
  C40: A required-check set built by the program always fits its column, is stored without loss,
  the empty set included, and is read back exactly while its entry is fresh; a stale entry is
  reported as absent, never as an answer.
\<close>

theorem required_checks_roundtrip:
  assumes "db_ok db" and "\<forall>d \<in> set names. sanitized_name d" and "sanitized_branch b"
    and "repository_id_get rid \<in> repository_ids db" and "f 0 = None"
    and "freshness_cutoff clk st t = Ok cutoff"
  shows "\<exists>db'. upsert_checks f now rid b (required_checks_new names) db = (Ok (), db')
    \<and> get_fresh clk st no_faults rid b t db' =
        Ok (if cutoff \<le> now then Some (required_checks_new names) else None)
    \<and> length (encode_check_names (required_checks_new names)) \<le> 12900"
proof -
  have "set (check_names (required_checks_new names)) \<subseteq> set names"
    unfolding required_checks_new_set using set_take_subset [of 100 "first_distinct names"] by simp
  then have v: "valid_checks (required_checks_new names)"
    using assms(2) required_checks_new_name_set by (auto simp: valid_checks_def)
  obtain db' where u: "upsert_checks f now rid b (required_checks_new names) db = (Ok (), db')"
    using upsert_checks_accepted [where f = f, OF v assms(3,5,4)] by blast
  show ?thesis
    using u stored_checks_found [OF assms(1) v u assms(6)] encode_check_names_length [OF v] by blast
qed

lemma required_checks_roundtrip_witness:
  "\<exists>db'. upsert_checks no_faults [9] (RepositoryId 1) (WorkflowBranch (lit ''m''))
       (required_checks_new [DisplayName (lit ''a'')]) one_repository = (Ok (), db')
     \<and> get_fresh sample_clock (RequiredCheckStore 3) no_faults (RepositoryId 1)
         (WorkflowBranch (lit ''m'')) 10 db'
       = Ok (Some (required_checks_new [DisplayName (lit ''a'')]))"
proof -
  have d: "\<forall>d \<in> set [DisplayName (lit ''a'')]. sanitized_name d"
    by (simp add: sanitized_name_def lit_def is_control_def)
  have b: "sanitized_branch (WorkflowBranch (lit ''m''))"
    by (simp add: sanitized_branch_def lit_def is_control_def unsafe_segment_def)
  have r: "repository_id_get (RepositoryId 1) \<in> repository_ids one_repository"
    by (simp add: one_repository_ids)
  have f: "no_faults 0 = None" by (simp add: no_faults_def)
  have c: "freshness_cutoff sample_clock (RequiredCheckStore 3) 10 = Ok [7]"
    by (simp add: freshness_cutoff_def sample_clock_def format_timestamp_def i64_max_def)
  from required_checks_roundtrip [where now = "[9]" and f = no_faults,
      OF one_repository_ok d b r f c]
  show ?thesis by auto
qed

end
