(* ===== verification/Workflow_Error.thy ===== *)
theory Workflow_Error
  imports Trace
begin

section \<open>Synthetic workflow errors\<close>

text \<open>
  \<open>src/telemetry/workflow_error.rs\<close>: the error raised for one failing step, job or pipeline task,
  its grouping fingerprint, and the event handed to the Sentry client. \<open>new\<close> ends in
  \<open>unreachable!\<close> for a conclusion that is not failing: it is a partial function, \<open>None\<close> for the
  panic, and the callers are shown never to reach it. Trace and span identifiers are bytes.
\<close>

type_synonym trace_id = "byte list"
type_synonym span_id = "byte list"

definition UNNAMED_JOB_GROUPING_NAME :: rstring where
  "UNNAMED_JOB_GROUPING_NAME = lit ''unnamed-job''"
definition UNKNOWN_WORKFLOW_NAME :: rstring where "UNKNOWN_WORKFLOW_NAME = lit ''workflow''"
definition UNNAMED_JOB_NAME :: rstring where "UNNAMED_JOB_NAME = lit ''job''"
definition UNNAMED_STEP_NAME :: rstring where "UNNAMED_STEP_NAME = lit ''step''"

subsection \<open>Names of jobs and steps (\<open>src/telemetry/workflow.rs\<close>)\<close>

definition workflow_name :: "'u workflow_job_trace \<Rightarrow> rstring" where
  "workflow_name job = (case job_workflow_name job of
     None \<Rightarrow> UNKNOWN_WORKFLOW_NAME | Some n \<Rightarrow> display_name_as_str n)"

definition job_name :: "'u workflow_job_trace \<Rightarrow> rstring" where
  "job_name job = (case job_display_name job of
     None \<Rightarrow> UNNAMED_JOB_NAME | Some n \<Rightarrow> display_name_as_str n)"

definition step_name :: "workflow_step_trace \<Rightarrow> rstring" where
  "step_name step = (case step_display_name step of
     None \<Rightarrow> UNNAMED_STEP_NAME | Some n \<Rightarrow> display_name_as_str n)"

definition job_span_name :: "'u workflow_job_trace \<Rightarrow> rstring" where
  "job_span_name job = workflow_name job @ lit '' / '' @ job_name job"

definition step_span_name :: "'u workflow_job_trace \<Rightarrow> workflow_step_trace \<Rightarrow> rstring" where
  "step_span_name job step =
     workflow_name job @ lit '' / '' @ job_name job @ lit '' / '' @ step_name step"

definition job_description :: "'u workflow_job_trace \<Rightarrow> rstring" where
  "job_description job = job_name job"

definition step_description :: "workflow_step_trace \<Rightarrow> rstring" where
  "step_description step = step_name step"

subsection \<open>Errors\<close>

datatype workflow_task_kind = Job | Step | PipelineTask

definition task_kind_as_str :: "workflow_task_kind \<Rightarrow> rstring" where
  "task_kind_as_str k = (case k of
     workflow_task_kind.Job \<Rightarrow> lit ''job''
   | workflow_task_kind.Step \<Rightarrow> lit ''step''
   | workflow_task_kind.PipelineTask \<Rightarrow> lit ''pipeline-task'')"

definition span_operation :: "workflow_task_kind \<Rightarrow> rstring" where
  "span_operation k = (case k of
     workflow_task_kind.Job \<Rightarrow> GITHUB_ACTIONS_JOB_OPERATION
   | workflow_task_kind.Step \<Rightarrow> GITHUB_ACTIONS_STEP_OPERATION
   | workflow_task_kind.PipelineTask \<Rightarrow> GITHUB_ACTIONS_PIPELINE_TASK_OPERATION)"

record workflow_error_origin =
  origin_repository_name :: rstring
  origin_workflow_name :: rstring
  origin_grouping_job_name :: rstring

record workflow_error_parts =
  part_kind :: workflow_task_kind
  part_conclusion :: workflow_conclusion
  part_task_name :: rstring
  part_grouping_task_name :: rstring
  part_task_run_id :: rstring
  part_trace_description :: rstring
  part_timestamp :: instant
  part_trace_id :: trace_id
  part_span_id :: span_id

record synthetic_workflow_error =
  err_kind :: workflow_task_kind
  err_exception_type :: rstring
  err_description :: rstring
  err_repository_name :: rstring
  err_workflow_name :: rstring
  err_task_name :: rstring
  err_grouping_job_name :: rstring
  err_grouping_task_name :: rstring
  err_task_run_id :: rstring
  err_trace_description :: rstring
  err_conclusion :: rstring
  err_timestamp :: instant
  err_trace_id :: trace_id
  err_span_id :: span_id

record pipeline_task_error_parts =
  task_repository_name :: rstring
  task_workflow_name :: rstring
  task_job_name :: "rstring option"
  task_job_id :: workflow_job_id
  task_conclusion :: workflow_conclusion
  task_span_description :: rstring
  task_timestamp :: instant
  task_trace_id :: trace_id
  task_span_id :: span_id

definition synthetic_error_new ::
  "workflow_error_origin \<Rightarrow> workflow_error_parts \<Rightarrow> synthetic_workflow_error option" where
  "synthetic_error_new origin parts =
     (case (case (part_kind parts, part_conclusion parts) of
         (workflow_task_kind.PipelineTask, workflow_conclusion.Failure) \<Rightarrow>
           Some (lit ''GitHubActionsTaskFailure'', lit ''CI run job failed: '')
       | (workflow_task_kind.PipelineTask, workflow_conclusion.TimedOut) \<Rightarrow>
           Some (lit ''GitHubActionsTaskTimeout'', lit ''CI run job timed out: '')
       | (_, workflow_conclusion.Failure) \<Rightarrow>
           Some (lit ''GitHubActionsTaskFailure'', lit ''CI task failed: '')
       | (_, workflow_conclusion.TimedOut) \<Rightarrow>
           Some (lit ''GitHubActionsTaskTimeout'', lit ''CI task timed out: '')
       | _ \<Rightarrow> None) of
        None \<Rightarrow> None
      | Some (exception_type, description_prefix) \<Rightarrow>
          Some \<lparr>err_kind = part_kind parts, err_exception_type = exception_type,
                err_description = description_prefix @ part_task_name parts,
                err_repository_name = origin_repository_name origin,
                err_workflow_name = origin_workflow_name origin,
                err_task_name = part_task_name parts,
                err_grouping_job_name = origin_grouping_job_name origin,
                err_grouping_task_name = part_grouping_task_name parts,
                err_task_run_id = part_task_run_id parts,
                err_trace_description = part_trace_description parts,
                err_conclusion = workflow_conclusion_as_str (part_conclusion parts),
                err_timestamp = part_timestamp parts,
                err_trace_id = part_trace_id parts, err_span_id = part_span_id parts\<rparr>)"

definition job_origin :: "'u workflow_job_trace \<Rightarrow> workflow_error_origin" where
  "job_origin job =
     \<lparr>origin_repository_name = name_as_str (job_repository_name job),
      origin_workflow_name = workflow_name job,
      origin_grouping_job_name = (case job_display_name job of
        None \<Rightarrow> UNNAMED_JOB_GROUPING_NAME | Some n \<Rightarrow> display_name_as_str n)\<rparr>"

definition error_for_step ::
  "'u workflow_job_trace \<Rightarrow> workflow_step_trace \<Rightarrow> trace_id \<Rightarrow> span_id
   \<Rightarrow> synthetic_workflow_error option" where
  "error_for_step job step trace_id span_id =
     (let task_run_id = show_i64 (job_id_get (job_job_id job)) @ lit '':''
                        @ show_i64 (step_number step)
      in synthetic_error_new (job_origin job)
           \<lparr>part_kind = workflow_task_kind.Step, part_conclusion = step_conclusion step,
            part_task_name = (case step_display_name step of
              None \<Rightarrow> lit ''task '' @ task_run_id | Some n \<Rightarrow> display_name_as_str n),
            part_grouping_task_name = (case step_display_name step of
              None \<Rightarrow> lit ''unnamed-step:'' @ show_i64 (step_number step)
            | Some n \<Rightarrow> display_name_as_str n),
            part_task_run_id = task_run_id, part_trace_description = step_description step,
            part_timestamp = timing_end (step_timing step), part_trace_id = trace_id,
            part_span_id = span_id\<rparr>)"

definition error_for_job ::
  "'u workflow_job_trace \<Rightarrow> trace_id \<Rightarrow> span_id \<Rightarrow> synthetic_workflow_error option" where
  "error_for_job job trace_id span_id =
     (let task_run_id = show_i64 (job_id_get (job_job_id job))
      in synthetic_error_new (job_origin job)
           \<lparr>part_kind = workflow_task_kind.Job, part_conclusion = job_conclusion job,
            part_task_name = (case job_display_name job of
              None \<Rightarrow> lit ''task '' @ task_run_id | Some n \<Rightarrow> display_name_as_str n),
            part_grouping_task_name = (case job_display_name job of
              None \<Rightarrow> UNNAMED_JOB_GROUPING_NAME | Some n \<Rightarrow> display_name_as_str n),
            part_task_run_id = task_run_id, part_trace_description = job_span_name job,
            part_timestamp = timing_end (job_timing job), part_trace_id = trace_id,
            part_span_id = span_id\<rparr>)"

definition error_for_pipeline_task ::
  "pipeline_task_error_parts \<Rightarrow> synthetic_workflow_error option" where
  "error_for_pipeline_task task =
     (let task_run_id = show_i64 (job_id_get (task_job_id task));
          grouping_task_name = (case task_job_name task of
            None \<Rightarrow> UNNAMED_JOB_GROUPING_NAME | Some n \<Rightarrow> n)
      in synthetic_error_new
           \<lparr>origin_repository_name = task_repository_name task,
            origin_workflow_name = task_workflow_name task,
            origin_grouping_job_name = grouping_task_name\<rparr>
           \<lparr>part_kind = workflow_task_kind.PipelineTask, part_conclusion = task_conclusion task,
            part_task_name = (case task_job_name task of
              None \<Rightarrow> lit ''task '' @ task_run_id | Some n \<Rightarrow> n),
            part_grouping_task_name = grouping_task_name,
            part_task_run_id = task_run_id, part_trace_description = task_span_description task,
            part_timestamp = task_timestamp task, part_trace_id = task_trace_id task,
            part_span_id = task_span_id task\<rparr>)"

definition span_event_attributes :: "synthetic_workflow_error \<Rightarrow> key_value list" where
  "span_event_attributes e =
     [(lit ''exception.type'', StringValue (err_exception_type e)),
      (lit ''exception.message'', StringValue (err_description e))]"

definition fingerprint :: "synthetic_workflow_error \<Rightarrow> rstring list" where
  "fingerprint e =
     [lit ''github-actions-task'', task_kind_as_str (err_kind e), err_repository_name e,
      err_workflow_name e, err_grouping_job_name e, err_grouping_task_name e, err_conclusion e]"

text \<open>The fields of the Sentry event that \<open>report\<close> sets; the rest are the client's defaults.\<close>

record sentry_event =
  ev_span_id :: span_id
  ev_trace_id :: trace_id
  ev_op :: rstring
  ev_trace_description :: rstring
  ev_fingerprint :: "rstring list"
  ev_timestamp :: instant
  ev_exception_type :: rstring
  ev_exception_value :: rstring
  ev_tags :: "(rstring \<times> rstring) list"

definition sentry_report :: "synthetic_workflow_error \<Rightarrow> sentry_event" where
  "sentry_report e =
     \<lparr>ev_span_id = err_span_id e, ev_trace_id = err_trace_id e,
      ev_op = span_operation (err_kind e), ev_trace_description = err_trace_description e,
      ev_fingerprint = fingerprint e, ev_timestamp = err_timestamp e,
      ev_exception_type = err_exception_type e, ev_exception_value = err_description e,
      ev_tags = [(lit ''github.repository.name'', err_repository_name e),
                 (lit ''cicd.pipeline.name'', err_workflow_name e),
                 (lit ''cicd.pipeline.task.name'', err_task_name e),
                 (lit ''cicd.pipeline.task.run.id'', err_task_run_id e),
                 (lit ''github.workflow.conclusion'', err_conclusion e)]\<rparr>"

subsection \<open>When the constructors are defined, and what they say\<close>

lemma synthetic_error_new_defined_iff:
  "synthetic_error_new origin parts \<noteq> None \<longleftrightarrow> emits_synthetic_error (part_conclusion parts)"
  by (cases "part_kind parts"; cases "part_conclusion parts")
    (simp_all add: synthetic_error_new_def emits_synthetic_error_def)

lemma synthetic_error_new_SomeE:
  assumes "synthetic_error_new origin parts = Some e"
  shows "error_type (part_conclusion parts) = Some (err_exception_type e)"
    and "err_kind e = part_kind parts"
    and "err_timestamp e = part_timestamp parts"
    and "err_span_id e = part_span_id parts"
    and "err_trace_id e = part_trace_id parts"
    and "fingerprint e =
       [lit ''github-actions-task'', task_kind_as_str (part_kind parts),
        origin_repository_name origin, origin_workflow_name origin,
        origin_grouping_job_name origin, part_grouping_task_name parts,
        workflow_conclusion_as_str (part_conclusion parts)]"
  using assms
  by (auto simp: synthetic_error_new_def error_type_def fingerprint_def
      split: workflow_task_kind.splits workflow_conclusion.splits)

lemma error_for_defined:
  "emits_synthetic_error (step_conclusion step) \<Longrightarrow> error_for_step job step t s \<noteq> None"
  "emits_synthetic_error (job_conclusion job) \<Longrightarrow> error_for_job job t s \<noteq> None"
  "emits_synthetic_error (task_conclusion task) \<Longrightarrow> error_for_pipeline_task task \<noteq> None"
  by (simp_all add: error_for_step_def error_for_job_def error_for_pipeline_task_def Let_def
      synthetic_error_new_defined_iff del: not_None_eq)

lemma task_kind_as_str_inj [simp]: "task_kind_as_str a = task_kind_as_str b \<longleftrightarrow> a = b"
  by (cases a; cases b) (simp_all add: task_kind_as_str_def)

end
