(* ===== verification/Workflow_Emit.thy ===== *)
theory Workflow_Emit
  imports Workflow_Error
begin

section \<open>The workflow trace emitter\<close>

text \<open>
  \<open>WorkflowTraceEmitter\<close> of \<open>src/telemetry/workflow.rs\<close> and the span attributes of jobs and
  steps. The SDK tracer is a parameter: \<open>tracer n parent\<close> is the context of the \<open>n\<close>-th span it
  builds, with the parent context it is given (\<open>None\<close> for an empty one). An emission yields the
  spans in the order they end and the errors handed to the reporter; \<open>None\<close> is a panic in
  \<open>SyntheticWorkflowError::new\<close>, shown never to occur.
\<close>

record span_context =
  sc_trace_id :: trace_id
  sc_span_id :: span_id
  sc_sampled :: bool
  sc_remote :: bool

type_synonym tracer = "nat \<Rightarrow> span_context option \<Rightarrow> span_context"

record exported_span =
  xs_name :: rstring
  xs_context :: span_context
  xs_parent :: "span_context option"
  xs_start :: instant
  xs_end :: instant
  xs_attributes :: "key_value list"
  xs_links :: "span_context list"
  xs_status :: span_status
  xs_events :: "(rstring \<times> instant \<times> key_value list) list"

record trace_identity =
  id_trace_id :: trace_id
  id_span_id :: span_id

record emission =
  em_identity :: "trace_identity option"
  em_spans :: "exported_span list"
  em_reports :: "synthetic_workflow_error list"

record workflow_trace_emitter =
  emitter_tracer :: "tracer option"
  emitter_reports :: bool

definition emitter_disabled :: workflow_trace_emitter where
  "emitter_disabled = \<lparr>emitter_tracer = None, emitter_reports = False\<rparr>"

definition emitter_new :: "tracer \<Rightarrow> workflow_trace_emitter" where
  "emitter_new tracer = \<lparr>emitter_tracer = Some tracer, emitter_reports = False\<rparr>"

definition emitter_new_with_error_reporter :: "tracer \<Rightarrow> workflow_trace_emitter" where
  "emitter_new_with_error_reporter tracer =
     \<lparr>emitter_tracer = Some tracer, emitter_reports = True\<rparr>"

definition emitter_is_enabled :: "workflow_trace_emitter \<Rightarrow> bool" where
  "emitter_is_enabled em \<longleftrightarrow> emitter_tracer em \<noteq> None"

subsection \<open>Attributes of workflow spans\<close>

definition JOB_REQUIRED_ATTRIBUTE_COUNT :: nat where "JOB_REQUIRED_ATTRIBUTE_COUNT = 15"
definition STEP_REQUIRED_ATTRIBUTE_COUNT :: nat where "STEP_REQUIRED_ATTRIBUTE_COUNT = 13"

definition append_pipeline_and_repository_context ::
  "key_value list \<Rightarrow> rstring \<Rightarrow> canonical_repository_name \<Rightarrow> workflow_run_id
   \<Rightarrow> commit_sha option \<Rightarrow> key_value list" where
  "append_pipeline_and_repository_context attributes wf_name repository_name run_id head_sha =
     attributes
     @ [workflow_name_attribute wf_name,
        workflow_pipeline_run_id_attribute run_id,
        workflow_pipeline_run_url_attribute repository_name run_id,
        workflow_repository_url_attribute repository_name,
        workflow_repository_name_attribute repository_name]
     @ (case head_sha of None \<Rightarrow> [] | Some sha \<Rightarrow> [workflow_head_revision_attribute sha])"

definition append_job_pipeline_and_repository_context ::
  "key_value list \<Rightarrow> 'u workflow_job_trace \<Rightarrow> key_value list" where
  "append_job_pipeline_and_repository_context attributes job =
     append_pipeline_and_repository_context attributes (workflow_name job)
       (job_repository_name job) (job_run_id job) (job_head_sha job)"

definition append_workflow_run_context ::
  "key_value list \<Rightarrow> workflow_run_context option \<Rightarrow> key_value list" where
  "append_workflow_run_context attributes context = (case context of
     None \<Rightarrow> attributes
   | Some c \<Rightarrow>
       attributes
       @ [workflow_event_attribute (ctx_event c)]
       @ (case ctx_source_branch c of
            None \<Rightarrow> [] | Some b \<Rightarrow> [workflow_source_branch_attribute b])
       @ (case ctx_target_branch c of
            None \<Rightarrow> [] | Some b \<Rightarrow> [workflow_target_branch_attribute b]))"

definition push_option :: "'a list \<Rightarrow> 'a option \<Rightarrow> 'a list" where
  "push_option xs x = (case x of None \<Rightarrow> xs | Some a \<Rightarrow> xs @ [a])"

definition job_attributes ::
  "('u \<Rightarrow> rstring) \<Rightarrow> 'u workflow_job_trace \<Rightarrow> key_value list" where
  "job_attributes hyphenated job =
     (let as1 = append_job_pipeline_and_repository_context [] job
            @ [delivery_id_attribute hyphenated (job_delivery_id job),
               workflow_run_attempt_attribute (job_run_attempt job),
               workflow_task_name_attribute (job_name job),
               workflow_pipeline_task_run_id_attribute (job_job_id job),
               workflow_conclusion_attribute (job_conclusion job),
               workflow_pipeline_task_run_result_attribute (job_conclusion job)];
          as2 = push_option as1 (workflow_error_type_attribute (job_conclusion job));
          as3 = push_option as2 (workflow_required_attribute (job_required job));
          as4 = push_option as3
            (pull_request_numbers_attribute (pull_requests_as_slice (job_pull_requests job)));
          as5 = append_workflow_run_context as4 (job_run_context job)
      in as5
         @ [workflow_task_run_url_attribute (job_repository_name job) (job_run_id job)
              (job_job_id job),
            sentry_operation_attribute GITHUB_ACTIONS_JOB_OPERATION,
            sentry_description_attribute (job_description job),
            timing_source_attribute (timing_source (job_timing job))])"

definition step_attributes ::
  "'u workflow_job_trace \<Rightarrow> workflow_step_trace \<Rightarrow> key_value list" where
  "step_attributes job step =
     (let as1 = append_job_pipeline_and_repository_context [] job
            @ [workflow_task_name_attribute (step_name step),
               workflow_pipeline_step_task_run_id_attribute (job_job_id job) step,
               workflow_conclusion_attribute (step_conclusion step),
               workflow_pipeline_task_run_result_attribute (step_conclusion step)];
          as2 = push_option as1 (workflow_error_type_attribute (step_conclusion step));
          as3 = push_option as2 (workflow_required_attribute (job_required job));
          as4 = append_workflow_run_context as3 (job_run_context job)
      in as4
         @ [workflow_step_task_run_url_attribute (job_repository_name job) (job_run_id job)
              (job_job_id job) step,
            sentry_operation_attribute GITHUB_ACTIONS_STEP_OPERATION,
            sentry_description_attribute (step_description step),
            timing_source_attribute (timing_source (step_timing step))])"

text \<open>The capacities the two functions reserve.\<close>

definition option_count :: "'a option \<Rightarrow> nat" where
  "option_count x = (case x of None \<Rightarrow> 0 | Some _ \<Rightarrow> 1)"

definition context_capacity :: "workflow_run_context option \<Rightarrow> nat" where
  "context_capacity context = (case context of
     None \<Rightarrow> 0
   | Some c \<Rightarrow> 1 + option_count (ctx_source_branch c) + option_count (ctx_target_branch c))"

definition job_attribute_capacity :: "'u workflow_job_trace \<Rightarrow> nat" where
  "job_attribute_capacity job =
     JOB_REQUIRED_ATTRIBUTE_COUNT + option_count (job_head_sha job)
     + (if pull_requests_as_slice (job_pull_requests job) = [] then 0 else 1)
     + option_count (error_type (job_conclusion job)) + option_count (job_required job)
     + context_capacity (job_run_context job)"

definition step_attribute_capacity :: "'u workflow_job_trace \<Rightarrow> workflow_step_trace \<Rightarrow> nat" where
  "step_attribute_capacity job step =
     STEP_REQUIRED_ATTRIBUTE_COUNT + option_count (job_head_sha job)
     + option_count (error_type (step_conclusion step)) + option_count (job_required job)
     + context_capacity (job_run_context job)"

lemmas emit_attribute_defs =
  append_pipeline_and_repository_context_def append_job_pipeline_and_repository_context_def
  append_workflow_run_context_def push_option_def option_count_def context_capacity_def

lemma length_append_workflow_run_context:
  "length (append_workflow_run_context as c) = length as + context_capacity c"
  by (simp add: emit_attribute_defs split: option.splits)

lemma length_push_option: "length (push_option as x) = length as + option_count x"
  by (simp add: emit_attribute_defs split: option.splits)

lemma length_append_job_context:
  "length (append_job_pipeline_and_repository_context as job) =
     length as + 5 + option_count (job_head_sha job)"
  by (simp add: emit_attribute_defs split: option.splits)

lemma option_count_attributes:
  "option_count (workflow_error_type_attribute c) = option_count (error_type c)"
  "option_count (workflow_required_attribute r) = option_count r"
  "option_count (pull_request_numbers_attribute ns) = (if ns = [] then 0 else 1)"
  by (simp_all add: option_count_def workflow_error_type_attribute_def
      workflow_required_attribute_def pull_request_numbers_attribute_def split: option.splits)

lemmas attribute_lengths = length_append_workflow_run_context length_push_option
  length_append_job_context option_count_attributes

lemma job_attributes_length: "length (job_attributes h job) = job_attribute_capacity job"
  by (simp add: job_attributes_def job_attribute_capacity_def Let_def attribute_lengths
      JOB_REQUIRED_ATTRIBUTE_COUNT_def)

lemma step_attributes_length: "length (step_attributes job step) = step_attribute_capacity job step"
  by (simp add: step_attributes_def step_attribute_capacity_def Let_def attribute_lengths
      STEP_REQUIRED_ATTRIBUTE_COUNT_def)

subsection \<open>Emission of one job\<close>

definition exception_event :: "synthetic_workflow_error \<Rightarrow> rstring \<times> instant \<times> key_value list" where
  "exception_event e = (lit ''exception'', err_timestamp e, span_event_attributes e)"

definition reported :: "workflow_trace_emitter \<Rightarrow> synthetic_workflow_error \<Rightarrow> synthetic_workflow_error list"
where
  "reported em e = (if emitter_reports em then [e] else [])"

definition step_span ::
  "'u workflow_job_trace \<Rightarrow> workflow_step_trace \<Rightarrow> span_context \<Rightarrow> span_context
   \<Rightarrow> (rstring \<times> instant \<times> key_value list) list \<Rightarrow> exported_span" where
  "step_span job step parent ctx events =
     \<lparr>xs_name = step_span_name job step, xs_context = ctx, xs_parent = Some parent,
      xs_start = timing_start (step_timing step), xs_end = timing_end (step_timing step),
      xs_attributes = step_attributes job step, xs_links = [],
      xs_status = conclusion_status (step_conclusion step), xs_events = events\<rparr>"

fun emit_steps ::
  "workflow_trace_emitter \<Rightarrow> tracer \<Rightarrow> 'u workflow_job_trace \<Rightarrow> span_context \<Rightarrow> nat
   \<Rightarrow> workflow_step_trace list \<Rightarrow> bool
   \<Rightarrow> (exported_span list \<times> synthetic_workflow_error list \<times> bool) option" where
  "emit_steps em tracer job parent n [] child_error_emitted = Some ([], [], child_error_emitted)"
| "emit_steps em tracer job parent n (step # rest) child_error_emitted =
     (let ctx = tracer n (Some parent)
      in if emits_synthetic_error (step_conclusion step) then
           (case error_for_step job step (sc_trace_id ctx) (sc_span_id ctx) of
              None \<Rightarrow> None
            | Some e \<Rightarrow>
                (case emit_steps em tracer job parent (n + 1) rest True of
                   None \<Rightarrow> None
                 | Some (spans, reports, flag) \<Rightarrow>
                     Some (step_span job step parent ctx [exception_event e] # spans,
                           reported em e @ reports, flag)))
         else
           (case emit_steps em tracer job parent (n + 1) rest child_error_emitted of
              None \<Rightarrow> None
            | Some (spans, reports, flag) \<Rightarrow>
                Some (step_span job step parent ctx [] # spans, reports, flag)))"

definition root_span ::
  "('u \<Rightarrow> rstring) \<Rightarrow> 'u workflow_job_trace \<Rightarrow> span_context
   \<Rightarrow> (rstring \<times> instant \<times> key_value list) list \<Rightarrow> exported_span" where
  "root_span hyphenated job ctx events =
     \<lparr>xs_name = job_span_name job, xs_context = ctx, xs_parent = None,
      xs_start = timing_start (job_timing job), xs_end = timing_end (job_timing job),
      xs_attributes = job_attributes hyphenated job, xs_links = [],
      xs_status = root_status job, xs_events = events\<rparr>"

definition emit ::
  "('u \<Rightarrow> rstring) \<Rightarrow> workflow_trace_emitter \<Rightarrow> nat \<Rightarrow> 'u workflow_job_trace \<Rightarrow> emission option" where
  "emit hyphenated em n job = (case emitter_tracer em of
     None \<Rightarrow> Some \<lparr>em_identity = None, em_spans = [], em_reports = []\<rparr>
   | Some tracer \<Rightarrow>
       (let root = tracer n None;
            identity = Some \<lparr>id_trace_id = sc_trace_id root, id_span_id = sc_span_id root\<rparr>
        in case emit_steps em tracer job root (n + 1) (job_steps job) False of
             None \<Rightarrow> None
           | Some (spans, reports, child_error_emitted) \<Rightarrow>
               if \<not> child_error_emitted \<and> emits_root_synthetic_error job then
                 (case error_for_job job (sc_trace_id root) (sc_span_id root) of
                    None \<Rightarrow> None
                  | Some e \<Rightarrow>
                      Some \<lparr>em_identity = identity,
                            em_spans = spans @ [root_span hyphenated job root [exception_event e]],
                            em_reports = reports @ reported em e\<rparr>)
               else
                 Some \<lparr>em_identity = identity,
                       em_spans = spans @ [root_span hyphenated job root []],
                       em_reports = reports\<rparr>))"

subsection \<open>What an emission contains\<close>

definition failing_step :: "workflow_step_trace \<Rightarrow> bool" where
  "failing_step s \<longleftrightarrow> emits_synthetic_error (step_conclusion s)"

definition step_matches :: "'u workflow_job_trace \<Rightarrow> span_context \<Rightarrow> workflow_step_trace \<Rightarrow> exported_span \<Rightarrow> bool"
where
  "step_matches job root s x \<longleftrightarrow>
     xs_name x = step_span_name job s \<and> xs_parent x = Some root
     \<and> xs_start x = timing_start (step_timing s) \<and> xs_end x = timing_end (step_timing s)
     \<and> xs_attributes x = step_attributes job s \<and> xs_status x = conclusion_status (step_conclusion s)
     \<and> (xs_events x \<noteq> [] \<longleftrightarrow> failing_step s)"

lemma emit_steps_spec:
  "\<exists>spans reports.
     emit_steps em tracer job root n steps flag
       = Some (spans, reports, flag \<or> list_ex failing_step steps)
     \<and> list_all2 (step_matches job root) steps spans
     \<and> length reports = (if emitter_reports em then length (filter failing_step steps) else 0)
     \<and> (\<forall>e \<in> set reports. err_kind e = workflow_task_kind.Step)"
proof (induction steps arbitrary: n flag)
  case Nil
  show ?case by simp
next
  case (Cons s steps)
  let ?ctx = "tracer n (Some root)"
  show ?case
  proof (cases "emits_synthetic_error (step_conclusion s)")
    case True
    then obtain e where e: "error_for_step job s (sc_trace_id ?ctx) (sc_span_id ?ctx) = Some e"
      using error_for_defined(1) by blast
    then have "err_kind e = workflow_task_kind.Step"
      by (auto simp: error_for_step_def Let_def dest: synthetic_error_new_SomeE(2))
    with True e Cons.IH [of "n + 1" True] show ?thesis
      by (fastforce simp: Let_def failing_step_def step_matches_def step_span_def reported_def)
  next
    case False
    with Cons.IH [of "n + 1" flag] show ?thesis
      by (fastforce simp: Let_def failing_step_def step_matches_def step_span_def)
  qed
qed

text \<open>
  The shape of every emission of an enabled emitter, of which the properties below are parts: it
  exists, has one span for each step and then the root, and raises a job error exactly when no step
  explains the failure.
\<close>

lemma emit_spec:
  assumes "emitter_tracer em = Some tracer"
  shows "\<exists>x spans ev.
     emit h em n job = Some x
     \<and> em_identity x = Some \<lparr>id_trace_id = sc_trace_id (tracer n None),
                             id_span_id = sc_span_id (tracer n None)\<rparr>
     \<and> em_spans x = spans @ [root_span h job (tracer n None) ev]
     \<and> list_all2 (step_matches job (tracer n None)) (job_steps job) spans
     \<and> (ev \<noteq> [] \<longleftrightarrow>
          \<not> list_ex failing_step (job_steps job) \<and> emits_root_synthetic_error job)
     \<and> length (em_reports x) =
         (if emitter_reports em
          then length (filter failing_step (job_steps job)) + (if ev = [] then 0 else 1)
          else 0)"
proof -
  let ?root = "tracer n None"
  obtain spans reports where s:
    "emit_steps em tracer job ?root (n + 1) (job_steps job) False
       = Some (spans, reports, list_ex failing_step (job_steps job))"
    "list_all2 (step_matches job ?root) (job_steps job) spans"
    "length reports =
       (if emitter_reports em then length (filter failing_step (job_steps job)) else 0)"
    using emit_steps_spec [of em tracer job ?root "n + 1" "job_steps job" False] by auto
  show ?thesis
  proof (cases "\<not> list_ex failing_step (job_steps job) \<and> emits_root_synthetic_error job")
    case True
    then have "emits_synthetic_error (job_conclusion job)"
      by (simp add: emits_root_synthetic_error_def)
    then obtain e where "error_for_job job (sc_trace_id ?root) (sc_span_id ?root) = Some e"
      using error_for_defined(2) by blast
    with True assms s show ?thesis
      by (auto simp: emit_def Let_def root_span_def reported_def)
  next
    case False
    with assms s show ?thesis by (auto simp: emit_def Let_def root_span_def)
  qed
qed

lemma emit_total: "\<exists>x. emit h em n job = Some x"
proof (cases "emitter_tracer em")
  case None
  then show ?thesis by (simp add: emit_def)
next
  case (Some tracer)
  then show ?thesis using emit_spec by blast
qed

subsection \<open>Properties\<close>

definition sample_job :: "nat workflow_job_trace" where
  "sample_job =
     \<lparr>job_repository_name = CanonicalRepositoryName (lit ''o/r''), job_delivery_id = DeliveryId 0,
      job_workflow_name = None, job_run_id = WorkflowRunId 1,
      job_run_attempt = WorkflowRunAttempt 1, job_job_id = WorkflowJobId 2,
      job_display_name = None, job_conclusion = workflow_conclusion.Failure, job_head_sha = None,
      job_pull_requests = WorkflowPullRequests [], job_run_context = None, job_required = None,
      job_timing = \<lparr>timing_start = 0, timing_end = 9, timing_source = timing_source.Reported\<rparr>,
      job_steps = [\<lparr>step_number = 1, step_display_name = None,
                    step_conclusion = workflow_conclusion.Failure,
                    step_timing = \<lparr>timing_start = 1, timing_end = 2,
                                   timing_source = timing_source.Reported\<rparr>\<rparr>]\<rparr>"

definition sample_tracer :: tracer where
  "sample_tracer n parent =
     \<lparr>sc_trace_id = [1], sc_span_id = [of_nat n], sc_sampled = True, sc_remote = False\<rparr>"

text \<open>
  C38: An enabled emitter exports one span for each step, in order, and then one root without a
  parent; every step span is a child of that root and its interval lies inside the root's.
\<close>

theorem job_emission_tree:
  assumes "emitter_tracer em = Some tracer" and "well_timed_job job"
  shows "\<exists>x steps root. emit h em n job = Some x \<and> em_spans x = steps @ [root]
     \<and> length steps = length (job_steps job) \<and> xs_parent root = None
     \<and> em_identity x = Some \<lparr>id_trace_id = sc_trace_id (xs_context root),
                             id_span_id = sc_span_id (xs_context root)\<rparr>
     \<and> (\<forall>s \<in> set steps. xs_parent s = Some (xs_context root) \<and> xs_start s \<le> xs_end s
          \<and> xs_start root \<le> xs_start s \<and> xs_end s \<le> xs_end root)"
proof -
  let ?root = "tracer n None"
  from emit_spec [OF assms(1), of h n job] obtain x spans ev where x: "emit h em n job = Some x"
    "em_identity x = Some \<lparr>id_trace_id = sc_trace_id ?root, id_span_id = sc_span_id ?root\<rparr>"
    "em_spans x = spans @ [root_span h job ?root ev]"
    "list_all2 (step_matches job ?root) (job_steps job) spans"
    by blast
  let ?rs = "root_span h job ?root ev"
  have rs: "xs_context ?rs = ?root" "xs_parent ?rs = None"
      "xs_start ?rs = timing_start (job_timing job)" "xs_end ?rs = timing_end (job_timing job)"
    by (simp_all add: root_span_def)
  have "xs_parent s = Some ?root \<and> xs_start s \<le> xs_end s \<and> xs_start ?rs \<le> xs_start s
        \<and> xs_end s \<le> xs_end ?rs" if "s \<in> set spans" for s
  proof -
    obtain t where "t \<in> set (job_steps job)" "step_matches job ?root t s"
      using x(4) \<open>s \<in> set spans\<close> by (metis in_set_conv_nth list_all2_conv_all_nth)
    with assms(2) show ?thesis
      unfolding rs
      by (auto simp: step_matches_def well_timed_job_def ordered_timing_def within_timing_def)
  qed
  moreover have "length spans = length (job_steps job)"
    using x(4) by (simp add: list_all2_lengthD)
  ultimately show ?thesis using x(1-3) rs by metis
qed

lemma job_emission_tree_witness:
  "\<exists>x. emit (\<lambda>_. []) (emitter_new sample_tracer) 0 sample_job = Some x \<and> length (em_spans x) = 2"
proof -
  have "well_timed_job sample_job"
    by (simp add: well_timed_job_def sample_job_def ordered_timing_def within_timing_def)
  then obtain x steps root where
    "emit (\<lambda>_. []) (emitter_new sample_tracer) 0 sample_job = Some x"
    "em_spans x = steps @ [root]" "length steps = length (job_steps sample_job)"
    using job_emission_tree [of "emitter_new sample_tracer" sample_tracer sample_job "\<lambda>_. []" 0]
    by (auto simp: emitter_new_def)
  then show ?thesis by (auto simp: sample_job_def)
qed

text \<open>
  A failure is reported at exactly one level: one error for each failing step; the job's own
  error only when no step failed; and none for a job that is confidently not required and has no
  failing step. The panic for a conclusion that is not failing is never reached.
\<close>

theorem failure_reported_at_one_level:
  assumes "emitter_tracer em = Some tracer" and "emitter_reports em"
  shows "\<exists>x. emit h em n job = Some x \<and> length (em_reports x) =
     (if list_ex failing_step (job_steps job) then length (filter failing_step (job_steps job))
      else if job_required job \<noteq> Some False \<and> emits_synthetic_error (job_conclusion job) then 1
      else 0)"
proof -
  from emit_spec [OF assms(1), of h n job] obtain x
    and ev :: "(rstring \<times> instant \<times> key_value list) list" where x: "emit h em n job = Some x"
    "ev \<noteq> [] \<longleftrightarrow> \<not> list_ex failing_step (job_steps job) \<and> emits_root_synthetic_error job"
    "length (em_reports x) = (if emitter_reports em
        then length (filter failing_step (job_steps job)) + (if ev = [] then 0 else 1)
        else 0)"
    by blast
  have "filter failing_step (job_steps job) = []" if "\<not> list_ex failing_step (job_steps job)"
    using that by (simp add: filter_empty_conv list_ex_iff)
  moreover have "ev = [] \<longleftrightarrow> list_ex failing_step (job_steps job) \<or> \<not> emits_root_synthetic_error job"
    using x(2) by blast
  ultimately have "length (em_reports x) =
     (if list_ex failing_step (job_steps job) then length (filter failing_step (job_steps job))
      else if job_required job \<noteq> Some False \<and> emits_synthetic_error (job_conclusion job) then 1
      else 0)"
    unfolding x(3) using assms(2)
    by (simp add: emits_root_synthetic_error_def suppresses_failure_def)
  with x(1) show ?thesis by blast
qed

lemma failure_reported_at_one_level_witness:
  "\<exists>x. emit (\<lambda>_. []) (emitter_new_with_error_reporter sample_tracer) 0 sample_job = Some x
     \<and> length (em_reports x) = 1"
  using failure_reported_at_one_level
    [of "emitter_new_with_error_reporter sample_tracer" sample_tracer "\<lambda>_. []" 0 sample_job]
  by (simp add: emitter_new_with_error_reporter_def sample_job_def failing_step_def
      emits_synthetic_error_def)

end
