(* ===== verification/Pipeline.thy ===== *)
theory Pipeline
  imports Workflow_Emit
begin

section \<open>Pipeline-run summary traces\<close>

text \<open>
  \<open>src/telemetry/pipeline.rs\<close>: the summary of one run attempt, its derived interval, conclusion and
  trace identifier, and the emission of one span per job linked to the job's own trace. SHA-256 is a
  field of \<open>crypto_lib\<close>.
\<close>

subsection \<open>Identities\<close>

definition MAX_PIPELINE_JOB_SPANS :: nat where "MAX_PIPELINE_JOB_SPANS = 256"
definition PIPELINE_ROOT_REQUIRED_ATTRIBUTE_COUNT :: nat where
  "PIPELINE_ROOT_REQUIRED_ATTRIBUTE_COUNT = 12"
definition PIPELINE_TASK_REQUIRED_ATTRIBUTE_COUNT :: nat where
  "PIPELINE_TASK_REQUIRED_ATTRIBUTE_COUNT = 13"
definition PIPELINE_TRACE_ID_DOMAIN :: rstring where
  "PIPELINE_TRACE_ID_DOMAIN = lit ''gha-pipeline''"
definition TRACE_ID_BYTES :: nat where "TRACE_ID_BYTES = 16"

definition invalid_trace_id :: trace_id where "invalid_trace_id = replicate 16 0"
definition invalid_span_id :: span_id where "invalid_span_id = replicate 8 0"

definition identity_is_valid :: "trace_identity \<Rightarrow> bool" where
  "identity_is_valid i \<longleftrightarrow>
     id_trace_id i \<noteq> invalid_trace_id \<and> id_span_id i \<noteq> invalid_span_id"

definition link_span_context :: "trace_identity \<Rightarrow> span_context" where
  "link_span_context i =
     \<lparr>sc_trace_id = id_trace_id i, sc_span_id = id_span_id i, sc_sampled = True,
      sc_remote = True\<rparr>"

record pipeline_job_summary =
  sum_job_id :: workflow_job_id
  sum_job_name :: "display_name option"
  sum_conclusion :: workflow_conclusion
  sum_timing :: historical_timing
  sum_identity :: trace_identity

definition summary_name :: "pipeline_job_summary \<Rightarrow> rstring" where
  "summary_name j = (case sum_job_name j of
     None \<Rightarrow> UNNAMED_JOB_NAME | Some n \<Rightarrow> display_name_as_str n)"

record 'u pipeline_run_trace_parts =
  prp_repository_name :: canonical_repository_name
  prp_delivery_id :: "'u delivery_id"
  prp_workflow_name :: "display_name option"
  prp_head_sha :: "commit_sha option"
  prp_pull_requests :: workflow_pull_requests
  prp_run_context :: workflow_run_context
  prp_jobs :: "pipeline_job_summary list"

record 'u pipeline_run_trace =
  prt_repository_name :: canonical_repository_name
  prt_delivery_id :: "'u delivery_id"
  prt_workflow_name :: "display_name option"
  prt_head_sha :: "commit_sha option"
  prt_pull_requests :: workflow_pull_requests
  prt_run_context :: workflow_run_context
  prt_conclusion :: workflow_conclusion
  prt_timing :: historical_timing
  prt_jobs :: "pipeline_job_summary list"

subsection \<open>Derived interval and conclusion\<close>

text \<open>\<open>Iterator::min\<close>, \<open>max\<close> and \<open>max_by_key\<close> (the last greatest element).\<close>

fun iter_min :: "int list \<Rightarrow> int option" where
  "iter_min [] = None"
| "iter_min (x # xs) = Some (foldl min x xs)"

fun iter_max :: "int list \<Rightarrow> int option" where
  "iter_max [] = None"
| "iter_max (x # xs) = Some (foldl max x xs)"

fun max_by_key :: "('a \<Rightarrow> nat) \<Rightarrow> 'a list \<Rightarrow> 'a option" where
  "max_by_key key [] = None"
| "max_by_key key (x # xs) = Some (foldl (\<lambda>best y. if key best \<le> key y then y else best) x xs)"

definition aggregate_timing :: "pipeline_job_summary list \<Rightarrow> historical_timing option" where
  "aggregate_timing jobs =
     (case iter_min (map (\<lambda>j. timing_start (sum_timing j)) jobs) of
        None \<Rightarrow> None
      | Some s \<Rightarrow>
          (case iter_max (map (\<lambda>j. timing_end (sum_timing j)) jobs) of
             None \<Rightarrow> None
           | Some e \<Rightarrow>
               (let source = (if list_all (\<lambda>j. timing_source (sum_timing j) = timing_source.Reported) jobs
                              then timing_source.Reported else timing_source.Fallback)
                in Some (case timing_derived s e source of
                      Inr t \<Rightarrow> t | Inl _ \<Rightarrow> timing_fallback e))))"

definition run_severity :: "workflow_conclusion \<Rightarrow> nat" where
  "run_severity c = (case c of
     workflow_conclusion.Skipped \<Rightarrow> 0
   | workflow_conclusion.Success \<Rightarrow> 1
   | workflow_conclusion.Neutral \<Rightarrow> 2
   | workflow_conclusion.Other \<Rightarrow> 3
   | workflow_conclusion.Cancelled \<Rightarrow> 4
   | workflow_conclusion.TimedOut \<Rightarrow> 5
   | workflow_conclusion.Failure \<Rightarrow> 6)"

definition aggregate_conclusion :: "pipeline_job_summary list \<Rightarrow> workflow_conclusion" where
  "aggregate_conclusion jobs =
     (case max_by_key run_severity (map sum_conclusion jobs) of
        None \<Rightarrow> workflow_conclusion.Other | Some c \<Rightarrow> c)"

definition pipeline_run_trace_new ::
  "'u pipeline_run_trace_parts \<Rightarrow> 'u pipeline_run_trace option" where
  "pipeline_run_trace_new parts =
     (if prp_jobs parts = [] \<or> length (prp_jobs parts) > MAX_PIPELINE_JOB_SPANS then None
      else case aggregate_timing (prp_jobs parts) of
        None \<Rightarrow> None
      | Some timing \<Rightarrow>
          Some \<lparr>prt_repository_name = prp_repository_name parts,
                prt_delivery_id = prp_delivery_id parts,
                prt_workflow_name = prp_workflow_name parts,
                prt_head_sha = prp_head_sha parts, prt_pull_requests = prp_pull_requests parts,
                prt_run_context = prp_run_context parts,
                prt_conclusion = aggregate_conclusion (prp_jobs parts),
                prt_timing = timing, prt_jobs = prp_jobs parts\<rparr>)"

lemma foldl_min: "foldl min (x::int) xs = Min (insert x (set xs))"
proof (induction xs arbitrary: x)
  case (Cons y ys)
  show ?case
    by (cases "ys = []")
      (simp_all add: Cons.IH min.assoc)
qed simp

lemma foldl_max: "foldl max (x::int) xs = Max (insert x (set xs))"
proof (induction xs arbitrary: x)
  case (Cons y ys)
  show ?case
    by (cases "ys = []")
      (simp_all add: Cons.IH max.assoc)
qed simp

lemma iter_min_eq: "iter_min xs = (if xs = [] then None else Some (Min (set xs)))"
  by (cases xs) (simp_all add: foldl_min)

lemma iter_max_eq: "iter_max xs = (if xs = [] then None else Some (Max (set xs)))"
  by (cases xs) (simp_all add: foldl_max)

lemma max_by_key_fold:
  "let m = foldl (\<lambda>best y. if (key best :: nat) \<le> key y then y else best) x xs
   in m \<in> insert x (set xs) \<and> (\<forall>y \<in> insert x (set xs). key y \<le> key m)"
proof (induction xs arbitrary: x)
  case (Cons y ys)
  show ?case
    using Cons.IH [of "if key x \<le> key y then y else x"] by (auto simp: Let_def split: if_splits)
qed simp

lemma max_by_key_greatest:
  "max_by_key key xs = Some m \<Longrightarrow> m \<in> set xs \<and> (\<forall>y \<in> set xs. key y \<le> key m)"
  using max_by_key_fold [where key = key] by (cases xs) (auto simp: Let_def)

lemma run_severity_inj: "run_severity a = run_severity b \<longleftrightarrow> a = b"
  by (cases a; cases b) (simp_all add: run_severity_def)

lemma aggregate_conclusion_greatest:
  assumes "jobs \<noteq> []"
  shows "aggregate_conclusion jobs \<in> set (map sum_conclusion jobs)"
    and "j \<in> set jobs \<Longrightarrow>
      run_severity (sum_conclusion j) \<le> run_severity (aggregate_conclusion jobs)"
proof -
  obtain m where m: "max_by_key run_severity (map sum_conclusion jobs) = Some m"
    using assms by (cases jobs) auto
  note g = max_by_key_greatest [OF m]
  show "aggregate_conclusion jobs \<in> set (map sum_conclusion jobs)"
    using g m by (simp add: aggregate_conclusion_def)
  show "j \<in> set jobs \<Longrightarrow>
      run_severity (sum_conclusion j) \<le> run_severity (aggregate_conclusion jobs)"
    using g m by (simp add: aggregate_conclusion_def)
qed

text \<open>On ordered job intervals the derived interval is the hull of the jobs' intervals.\<close>

lemma aggregate_timing_hull:
  assumes "jobs \<noteq> []" and "\<forall>j \<in> set jobs. ordered_timing (sum_timing j)"
  shows "aggregate_timing jobs = Some
     \<lparr>timing_start = Min (timing_start ` sum_timing ` set jobs),
      timing_end = Max (timing_end ` sum_timing ` set jobs),
      timing_source = (if \<forall>j \<in> set jobs. timing_source (sum_timing j) = timing_source.Reported
                       then timing_source.Reported else timing_source.Fallback)\<rparr>"
proof -
  obtain j where j: "j \<in> set jobs" using assms(1) by (cases jobs) auto
  have "Min (timing_start ` sum_timing ` set jobs) \<le> timing_start (sum_timing j)"
    using j by (intro Min_le) auto
  also have "\<dots> \<le> timing_end (sum_timing j)"
    using assms(2) j by (simp add: ordered_timing_def)
  also have "\<dots> \<le> Max (timing_end ` sum_timing ` set jobs)"
    using j by (intro Max_ge) auto
  finally show ?thesis
    using assms(1)
    by (simp add: aggregate_timing_def iter_min_eq iter_max_eq timing_derived_def list_all_iff
        image_image Let_def)
qed

subsection \<open>The derived trace identifier\<close>

definition pipeline_preimage ::
  "canonical_repository_name \<Rightarrow> workflow_run_id \<Rightarrow> workflow_run_attempt \<Rightarrow> rstring" where
  "pipeline_preimage repository_name run_id run_attempt =
     PIPELINE_TRACE_ID_DOMAIN @ lit '':'' @ name_as_str repository_name @ lit '':''
     @ show_i64 (run_id_get run_id) @ lit '':'' @ show_i64 (run_attempt_get run_attempt)"

definition addressable_trace_id :: "byte list \<Rightarrow> trace_id option" where
  "addressable_trace_id trace_bytes =
     (if trace_bytes \<noteq> invalid_trace_id then Some trace_bytes else None)"

definition derive_pipeline_trace_id ::
  "crypto_lib \<Rightarrow> canonical_repository_name \<Rightarrow> workflow_run_id \<Rightarrow> workflow_run_attempt
   \<Rightarrow> trace_id option" where
  "derive_pipeline_trace_id cl repository_name run_id run_attempt =
     addressable_trace_id (take TRACE_ID_BYTES
       (sha256 cl (as_bytes (pipeline_preimage repository_name run_id run_attempt))))"

definition pipeline_root_context ::
  "crypto_lib \<Rightarrow> 'u pipeline_run_trace \<Rightarrow> span_context option" where
  "pipeline_root_context cl pipeline =
     (case derive_pipeline_trace_id cl (prt_repository_name pipeline)
             (ctx_run_id (prt_run_context pipeline))
             (ctx_run_attempt (prt_run_context pipeline)) of
        None \<Rightarrow> None
      | Some trace_id \<Rightarrow> Some \<lparr>sc_trace_id = trace_id, sc_span_id = invalid_span_id,
                              sc_sampled = True, sc_remote = False\<rparr>)"

lemma lit_colon: "lit '':'' = [58]"
  by (simp add: lit_def)

lemma name_no_colon: "well_formed_name n \<Longrightarrow> 58 \<notin> set (name_as_str n)"
proof -
  assume "well_formed_name n"
  then obtain a b where ab: "split_on 47 (name_as_str n) = [a, b]"
      "valid_repository_segment a" "valid_repository_segment b"
    by (auto simp: well_formed_name_def)
  have "name_as_str n = a @ 47 # b" using ab(1) by (rule split_on_two)
  moreover have "\<not> name_char 58" by (simp add: name_char_def is_ascii_alphanumeric_def)
  then have "58 \<notin> set a" "58 \<notin> set b"
    using ab(2,3) unfolding valid_repository_segment_iff list_all_iff by blast+
  ultimately show ?thesis by simp
qed

lemma show_i64_no_colon: "58 \<notin> set (show_i64 z)"
  using decimal_no_char [of 58] by (simp add: show_i64_def)

lemma append_sep_inj:
  assumes "s @ d # r = s' @ d # r'" and "d \<notin> set s" and "d \<notin> set s'"
  shows "s = s' \<and> r = r'"
  using assms
proof (induction s arbitrary: s')
  case Nil
  then show ?case by (cases s') auto
next
  case (Cons c s)
  then show ?case by (cases s') auto
qed

lemma pipeline_preimage_inj:
  assumes "well_formed_name n" and "well_formed_name n'"
    and "0 < run_id_get r" "0 < run_id_get r'" "0 < run_attempt_get a" "0 < run_attempt_get a'"
    and eq: "pipeline_preimage n r a = pipeline_preimage n' r' a'"
  shows "n = n' \<and> r = r' \<and> a = a'"
proof -
  have full: "name_as_str n @ 58 # show_i64 (run_id_get r) @ 58 # show_i64 (run_attempt_get a) =
      name_as_str n' @ 58 # show_i64 (run_id_get r') @ 58 # show_i64 (run_attempt_get a')"
    using eq by (simp add: pipeline_preimage_def lit_colon)
  note name = append_sep_inj [OF full name_no_colon [OF assms(1)] name_no_colon [OF assms(2)]]
  note numbers = append_sep_inj [OF name [THEN conjunct2] show_i64_no_colon show_i64_no_colon]
  have "run_id_get r = run_id_get r'" "run_attempt_get a = run_attempt_get a'"
    using numbers assms(3-6) by (auto intro: show_i64_inj)
  with name show ?thesis
    by (auto intro: canonical_repository_name.expand workflow_run_attempt.expand
        workflow_run_id.expand)
qed

subsection \<open>Emission\<close>

definition run_workflow_name :: "'u pipeline_run_trace \<Rightarrow> rstring" where
  "run_workflow_name pipeline = (case prt_workflow_name pipeline of
     None \<Rightarrow> UNKNOWN_WORKFLOW_NAME | Some n \<Rightarrow> display_name_as_str n)"

definition append_pipeline_context ::
  "key_value list \<Rightarrow> 'u pipeline_run_trace \<Rightarrow> key_value list" where
  "append_pipeline_context attributes pipeline =
     append_pipeline_and_repository_context attributes (run_workflow_name pipeline)
       (prt_repository_name pipeline) (ctx_run_id (prt_run_context pipeline))
       (prt_head_sha pipeline)"

definition pipeline_task_span_name ::
  "'u pipeline_run_trace \<Rightarrow> pipeline_job_summary \<Rightarrow> rstring" where
  "pipeline_task_span_name pipeline job =
     run_workflow_name pipeline @ lit '' / '' @ summary_name job"

definition pipeline_root_attributes ::
  "('u \<Rightarrow> rstring) \<Rightarrow> 'u pipeline_run_trace \<Rightarrow> key_value list" where
  "pipeline_root_attributes hyphenated pipeline =
     (let as1 = append_pipeline_context [] pipeline
            @ [delivery_id_attribute hyphenated (prt_delivery_id pipeline),
               workflow_run_attempt_attribute (ctx_run_attempt (prt_run_context pipeline)),
               workflow_conclusion_attribute (prt_conclusion pipeline)];
          as2 = push_option as1 (workflow_error_type_attribute (prt_conclusion pipeline));
          as3 = push_option as2 (pull_request_numbers_attribute
                  (pull_requests_as_slice (prt_pull_requests pipeline)));
          as4 = append_workflow_run_context as3 (Some (prt_run_context pipeline))
      in as4
         @ [sentry_operation_attribute GITHUB_ACTIONS_PIPELINE_OPERATION,
            sentry_description_attribute (run_workflow_name pipeline),
            timing_source_attribute (timing_source (prt_timing pipeline))])"

definition pipeline_task_attributes ::
  "'u pipeline_run_trace \<Rightarrow> pipeline_job_summary \<Rightarrow> key_value list" where
  "pipeline_task_attributes pipeline job =
     (let as1 = append_pipeline_context [] pipeline
            @ [workflow_task_name_attribute (summary_name job),
               workflow_pipeline_task_run_id_attribute (sum_job_id job),
               workflow_conclusion_attribute (sum_conclusion job),
               workflow_pipeline_task_run_result_attribute (sum_conclusion job)];
          as2 = push_option as1 (workflow_error_type_attribute (sum_conclusion job));
          as3 = append_workflow_run_context as2 (Some (prt_run_context pipeline))
      in as3
         @ [workflow_task_run_url_attribute (prt_repository_name pipeline)
              (ctx_run_id (prt_run_context pipeline)) (sum_job_id job),
            sentry_operation_attribute GITHUB_ACTIONS_PIPELINE_TASK_OPERATION,
            sentry_description_attribute (pipeline_task_span_name pipeline job),
            timing_source_attribute (timing_source (sum_timing job))])"

text \<open>The capacities the two functions reserve.\<close>

definition pipeline_root_attribute_capacity :: "'u pipeline_run_trace \<Rightarrow> nat" where
  "pipeline_root_attribute_capacity pipeline =
     PIPELINE_ROOT_REQUIRED_ATTRIBUTE_COUNT + option_count (prt_head_sha pipeline)
     + option_count (error_type (prt_conclusion pipeline))
     + (if pull_requests_as_slice (prt_pull_requests pipeline) = [] then 0 else 1)
     + option_count (ctx_source_branch (prt_run_context pipeline))
     + option_count (ctx_target_branch (prt_run_context pipeline))"

definition pipeline_task_attribute_capacity ::
  "'u pipeline_run_trace \<Rightarrow> pipeline_job_summary \<Rightarrow> nat" where
  "pipeline_task_attribute_capacity pipeline job =
     PIPELINE_TASK_REQUIRED_ATTRIBUTE_COUNT + option_count (prt_head_sha pipeline)
     + option_count (error_type (sum_conclusion job))
     + option_count (ctx_source_branch (prt_run_context pipeline))
     + option_count (ctx_target_branch (prt_run_context pipeline))"

lemma length_append_pipeline_context:
  "length (append_pipeline_context as p) = length as + 5 + option_count (prt_head_sha p)"
  by (simp add: append_pipeline_context_def append_pipeline_and_repository_context_def
      option_count_def split: option.splits)

lemma pipeline_root_attributes_length:
  "length (pipeline_root_attributes h p) = pipeline_root_attribute_capacity p"
  by (simp add: pipeline_root_attributes_def pipeline_root_attribute_capacity_def Let_def
      attribute_lengths length_append_pipeline_context context_capacity_def
      PIPELINE_ROOT_REQUIRED_ATTRIBUTE_COUNT_def)

text \<open>The reserve for a task span is one short of what is pushed.\<close>

lemma pipeline_task_attributes_length:
  "length (pipeline_task_attributes p j) = pipeline_task_attribute_capacity p j + 1"
  by (simp add: pipeline_task_attributes_def pipeline_task_attribute_capacity_def Let_def
      attribute_lengths length_append_pipeline_context context_capacity_def
      PIPELINE_TASK_REQUIRED_ATTRIBUTE_COUNT_def)

definition task_error_parts ::
  "'u pipeline_run_trace \<Rightarrow> pipeline_job_summary \<Rightarrow> span_context \<Rightarrow> pipeline_task_error_parts" where
  "task_error_parts pipeline job ctx =
     \<lparr>task_repository_name = name_as_str (prt_repository_name pipeline),
      task_workflow_name = run_workflow_name pipeline,
      task_job_name = map_option display_name_as_str (sum_job_name job),
      task_job_id = sum_job_id job, task_conclusion = sum_conclusion job,
      task_span_description = pipeline_task_span_name pipeline job,
      task_timestamp = timing_end (sum_timing job),
      task_trace_id = sc_trace_id ctx, task_span_id = sc_span_id ctx\<rparr>"

definition task_span ::
  "'u pipeline_run_trace \<Rightarrow> pipeline_job_summary \<Rightarrow> span_context \<Rightarrow> span_context
   \<Rightarrow> (rstring \<times> instant \<times> key_value list) list \<Rightarrow> exported_span" where
  "task_span pipeline job parent ctx events =
     \<lparr>xs_name = pipeline_task_span_name pipeline job, xs_context = ctx, xs_parent = Some parent,
      xs_start = timing_start (sum_timing job), xs_end = timing_end (sum_timing job),
      xs_attributes = pipeline_task_attributes pipeline job,
      xs_links = [link_span_context (sum_identity job)],
      xs_status = conclusion_status (sum_conclusion job), xs_events = events\<rparr>"

fun emit_tasks ::
  "workflow_trace_emitter \<Rightarrow> tracer \<Rightarrow> 'u pipeline_run_trace \<Rightarrow> span_context \<Rightarrow> nat
   \<Rightarrow> pipeline_job_summary list
   \<Rightarrow> (exported_span list \<times> synthetic_workflow_error list) option" where
  "emit_tasks em tracer pipeline parent n [] = Some ([], [])"
| "emit_tasks em tracer pipeline parent n (job # rest) =
     (let ctx = tracer n (Some parent)
      in if emits_synthetic_error (sum_conclusion job) then
           (case error_for_pipeline_task (task_error_parts pipeline job ctx) of
              None \<Rightarrow> None
            | Some e \<Rightarrow>
                (case emit_tasks em tracer pipeline parent (n + 1) rest of
                   None \<Rightarrow> None
                 | Some (spans, reports) \<Rightarrow>
                     Some (task_span pipeline job parent ctx [exception_event e] # spans,
                           reported em e @ reports)))
         else
           (case emit_tasks em tracer pipeline parent (n + 1) rest of
              None \<Rightarrow> None
            | Some (spans, reports) \<Rightarrow>
                Some (task_span pipeline job parent ctx [] # spans, reports)))"

definition emit_pipeline ::
  "crypto_lib \<Rightarrow> ('u \<Rightarrow> rstring) \<Rightarrow> workflow_trace_emitter \<Rightarrow> nat \<Rightarrow> 'u pipeline_run_trace
   \<Rightarrow> (exported_span list \<times> synthetic_workflow_error list) option" where
  "emit_pipeline cl hyphenated em n pipeline = (case emitter_tracer em of
     None \<Rightarrow> Some ([], [])
   | Some tracer \<Rightarrow>
       (let parent = pipeline_root_context cl pipeline;
            root = tracer n parent
        in case emit_tasks em tracer pipeline root (n + 1) (prt_jobs pipeline) of
             None \<Rightarrow> None
           | Some (spans, reports) \<Rightarrow>
               Some (spans @
                 [\<lparr>xs_name = run_workflow_name pipeline, xs_context = root, xs_parent = parent,
                   xs_start = timing_start (prt_timing pipeline),
                   xs_end = timing_end (prt_timing pipeline),
                   xs_attributes = pipeline_root_attributes hyphenated pipeline, xs_links = [],
                   xs_status = conclusion_status (prt_conclusion pipeline), xs_events = []\<rparr>],
                 reports)))"

definition failing_job :: "pipeline_job_summary \<Rightarrow> bool" where
  "failing_job j \<longleftrightarrow> emits_synthetic_error (sum_conclusion j)"

definition task_matches ::
  "'u pipeline_run_trace \<Rightarrow> span_context \<Rightarrow> pipeline_job_summary \<Rightarrow> exported_span \<Rightarrow> bool" where
  "task_matches pipeline root j x \<longleftrightarrow>
     xs_parent x = Some root \<and> xs_links x = [link_span_context (sum_identity j)]
     \<and> xs_start x = timing_start (sum_timing j) \<and> xs_end x = timing_end (sum_timing j)
     \<and> xs_status x = conclusion_status (sum_conclusion j)
     \<and> xs_attributes x = pipeline_task_attributes pipeline j
     \<and> (xs_events x \<noteq> [] \<longleftrightarrow> failing_job j)"

lemma emit_tasks_spec:
  "\<exists>spans reports.
     emit_tasks em tracer p root n jobs = Some (spans, reports)
     \<and> list_all2 (task_matches p root) jobs spans
     \<and> length reports = (if emitter_reports em then length (filter failing_job jobs) else 0)
     \<and> (\<forall>e \<in> set reports. err_kind e = workflow_task_kind.PipelineTask)"
proof (induction jobs arbitrary: n)
  case Nil
  show ?case by simp
next
  case (Cons j jobs)
  let ?ctx = "tracer n (Some root)"
  show ?case
  proof (cases "emits_synthetic_error (sum_conclusion j)")
    case True
    then have "emits_synthetic_error (task_conclusion (task_error_parts p j ?ctx))"
      by (simp add: task_error_parts_def)
    then obtain e where e: "error_for_pipeline_task (task_error_parts p j ?ctx) = Some e"
      using error_for_defined(3) by blast
    then have "err_kind e = workflow_task_kind.PipelineTask"
      by (auto simp: error_for_pipeline_task_def Let_def dest: synthetic_error_new_SomeE(2))
    with True e Cons.IH [of "n + 1"] show ?thesis
      by (fastforce simp: Let_def failing_job_def task_matches_def task_span_def reported_def)
  next
    case False
    with Cons.IH [of "n + 1"] show ?thesis
      by (fastforce simp: Let_def failing_job_def task_matches_def task_span_def)
  qed
qed

lemma pipeline_run_trace_new_SomeD:
  assumes "pipeline_run_trace_new parts = Some p"
  shows "prp_jobs parts \<noteq> []" and "length (prp_jobs parts) \<le> 256"
    and "prt_jobs p = prp_jobs parts"
    and "aggregate_timing (prp_jobs parts) = Some (prt_timing p)"
    and "prt_conclusion p = aggregate_conclusion (prp_jobs parts)"
    and "prt_repository_name p = prp_repository_name parts"
    and "prt_run_context p = prp_run_context parts"
  using assms
  by (auto simp: pipeline_run_trace_new_def MAX_PIPELINE_JOB_SPANS_def split: if_splits option.splits)

lemma emits_synthetic_error_severity:
  "emits_synthetic_error c \<longleftrightarrow> 5 \<le> run_severity c"
  by (cases c) (simp_all add: emits_synthetic_error_def run_severity_def)

text \<open>A failing run has a failing job, and the other way round.\<close>

lemma aggregate_failing_iff:
  assumes "jobs \<noteq> []"
  shows "emits_synthetic_error (aggregate_conclusion jobs) \<longleftrightarrow> (\<exists>j \<in> set jobs. failing_job j)"
proof
  assume "emits_synthetic_error (aggregate_conclusion jobs)"
  with aggregate_conclusion_greatest(1) [OF assms] show "\<exists>j \<in> set jobs. failing_job j"
    by (auto simp: failing_job_def)
next
  assume "\<exists>j \<in> set jobs. failing_job j"
  then obtain j where "j \<in> set jobs" "failing_job j" by blast
  with aggregate_conclusion_greatest(2) [OF assms]
  show "emits_synthetic_error (aggregate_conclusion jobs)"
    by (auto simp: failing_job_def emits_synthetic_error_severity intro: order_trans)
qed

subsection \<open>Properties\<close>

definition sample_summary :: pipeline_job_summary where
  "sample_summary =
     \<lparr>sum_job_id = WorkflowJobId 3, sum_job_name = None,
      sum_conclusion = workflow_conclusion.Failure,
      sum_timing = \<lparr>timing_start = 4, timing_end = 6, timing_source = timing_source.Reported\<rparr>,
      sum_identity = \<lparr>id_trace_id = [1], id_span_id = [2]\<rparr>\<rparr>"

definition sample_parts :: "nat pipeline_run_trace_parts" where
  "sample_parts =
     \<lparr>prp_repository_name = CanonicalRepositoryName (lit ''o/r''),
      prp_delivery_id = DeliveryId 0, prp_workflow_name = None, prp_head_sha = None,
      prp_pull_requests = WorkflowPullRequests [],
      prp_run_context = \<lparr>ctx_run_id = WorkflowRunId 1, ctx_run_attempt = WorkflowRunAttempt 1,
        ctx_event = workflow_event.Push, ctx_source_branch = None, ctx_target_branch = None\<rparr>,
      prp_jobs = [sample_summary]\<rparr>"

text \<open>
  The trace of a run whose jobs have ordered intervals spans exactly the hull of those
  intervals, is reported only if every job's timing was, and has the most severe conclusion among
  its jobs: it fails if and only if some job failed or timed out.
\<close>

theorem pipeline_run_derived:
  assumes "pipeline_run_trace_new parts = Some p"
    and "\<forall>j \<in> set (prp_jobs parts). ordered_timing (sum_timing j)"
  shows "ordered_timing (prt_timing p)
    \<and> timing_start (prt_timing p) = Min (timing_start ` sum_timing ` set (prt_jobs p))
    \<and> timing_end (prt_timing p) = Max (timing_end ` sum_timing ` set (prt_jobs p))
    \<and> (timing_source (prt_timing p) = timing_source.Reported \<longleftrightarrow>
         (\<forall>j \<in> set (prt_jobs p). timing_source (sum_timing j) = timing_source.Reported))
    \<and> (\<exists>j \<in> set (prt_jobs p). sum_conclusion j = prt_conclusion p)
    \<and> (\<forall>j \<in> set (prt_jobs p). run_severity (sum_conclusion j) \<le> run_severity (prt_conclusion p))
    \<and> (emits_synthetic_error (prt_conclusion p) \<longleftrightarrow> (\<exists>j \<in> set (prt_jobs p). failing_job j))"
proof -
  note p = pipeline_run_trace_new_SomeD [OF assms(1)]
  have hull: "prt_timing p =
     \<lparr>timing_start = Min (timing_start ` sum_timing ` set (prp_jobs parts)),
      timing_end = Max (timing_end ` sum_timing ` set (prp_jobs parts)),
      timing_source = (if \<forall>j \<in> set (prp_jobs parts).
                            timing_source (sum_timing j) = timing_source.Reported
                       then timing_source.Reported else timing_source.Fallback)\<rparr>"
    using aggregate_timing_hull [OF p(1) assms(2)] p(4) by simp
  obtain j where "j \<in> set (prp_jobs parts)" using p(1) by (cases "prp_jobs parts") auto
  then have "Min (timing_start ` sum_timing ` set (prp_jobs parts)) \<le> timing_start (sum_timing j)"
    "timing_end (sum_timing j) \<le> Max (timing_end ` sum_timing ` set (prp_jobs parts))"
    "timing_start (sum_timing j) \<le> timing_end (sum_timing j)"
    using assms(2) by (auto simp: ordered_timing_def)
  then have "ordered_timing (prt_timing p)" by (simp add: hull ordered_timing_def)
  with hull p(3,5) aggregate_conclusion_greatest [OF p(1)] aggregate_failing_iff [OF p(1)]
  show ?thesis by auto
qed

lemma pipeline_run_derived_witness:
  "\<exists>p. pipeline_run_trace_new sample_parts = Some p \<and> timing_end (prt_timing p) = 6
     \<and> emits_synthetic_error (prt_conclusion p)"
proof -
  have "\<exists>p. pipeline_run_trace_new sample_parts = Some p \<and> prt_jobs p = [sample_summary]"
    by (simp add: pipeline_run_trace_new_def sample_parts_def aggregate_timing_def
        MAX_PIPELINE_JOB_SPANS_def Let_def)
  then obtain p where p: "pipeline_run_trace_new sample_parts = Some p"
      "prt_jobs p = [sample_summary]" by blast
  have "\<forall>j \<in> set (prp_jobs sample_parts). ordered_timing (sum_timing j)"
    by (simp add: sample_parts_def sample_summary_def ordered_timing_def)
  from pipeline_run_derived [OF p(1) this] p show ?thesis
    by (simp add: sample_summary_def failing_job_def emits_synthetic_error_def)
qed



text \<open>
  The text hashed into the identifier of a pipeline trace determines the repository, the run
  and the attempt: two different run attempts never share a preimage.
\<close>

theorem pipeline_preimage_unambiguous:
  assumes "canonical_repository_name_new s = Ok n" and "canonical_repository_name_new s' = Ok n'"
    and "workflow_run_id_new i = Ok r" and "workflow_run_id_new i' = Ok r'"
    and "workflow_run_attempt_new k = Ok a" and "workflow_run_attempt_new k' = Ok a'"
    and "pipeline_preimage n r a = pipeline_preimage n' r' a'"
  shows "n = n' \<and> r = r' \<and> a = a'"
proof -
  have "0 < run_id_get r" "0 < run_id_get r'" "0 < run_attempt_get a" "0 < run_attempt_get a'"
    using assms(3-6) by (auto simp: workflow_id_new_Ok_iff)
  with name_new_well_formed(1) [OF assms(1)] name_new_well_formed(1) [OF assms(2)] assms(7)
  show ?thesis using pipeline_preimage_inj by blast
qed

lemma pipeline_preimage_unambiguous_witness:
  "canonical_repository_name_new (lit ''O/r'') = Ok (CanonicalRepositoryName (lit ''o/r''))
   \<and> canonical_repository_name_new (lit ''o/R'') = Ok (CanonicalRepositoryName (lit ''o/r''))
   \<and> (CanonicalRepositoryName (lit ''o/r''), WorkflowRunId 7) =
     (CanonicalRepositoryName (lit ''o/r''), WorkflowRunId 7)"
proof -
  have names: "canonical_repository_name_new (lit ''O/r'') = Ok (CanonicalRepositoryName (lit ''o/r''))"
      "canonical_repository_name_new (lit ''o/R'') = Ok (CanonicalRepositoryName (lit ''o/r''))"
    by (simp_all add: canonical_repository_name_new_def lit_def trim_def is_whitespace_def
        to_ascii_lowercase_def ascii_lowercase_char_def valid_repository_segment_iff name_char_def
        is_ascii_alphanumeric_def)
  with pipeline_preimage_unambiguous [OF names, of 7 "WorkflowRunId 7" 7 "WorkflowRunId 7" 1
      "WorkflowRunAttempt 1" 1 "WorkflowRunAttempt 1"]
  show ?thesis by (simp add: workflow_id_new_Ok_iff)
qed

end
