(* ===== verification/Workflow_Job_Link_Store.thy ===== *)
theory Workflow_Job_Link_Store
  imports Database Pipeline
begin

section \<open>Identities of emitted job traces\<close>

text \<open>
  \<open>src/storage/workflow_job_link_store.rs\<close>. The hexadecimal text of trace and span identifiers is
  made and read by the \<open>opentelemetry\<close> crate: the fields of \<open>otel_lib\<close>, with the documented round
  trip as \<open>otel_hex_ok\<close>.
\<close>

record otel_lib =
  trace_hex :: "trace_id \<Rightarrow> rstring"
  span_hex :: "span_id \<Rightarrow> rstring"
  trace_from_hex :: "rstring \<Rightarrow> trace_id option"
  span_from_hex :: "rstring \<Rightarrow> span_id option"

definition otel_hex_ok :: "otel_lib \<Rightarrow> bool" where
  "otel_hex_ok ol \<longleftrightarrow>
     (\<forall>t. length t = 16 \<longrightarrow> length (trace_hex ol t) = 32 \<and> trace_from_hex ol (trace_hex ol t) = Some t)
     \<and> (\<forall>s. length s = 8 \<longrightarrow> length (span_hex ol s) = 16 \<and> span_from_hex ol (span_hex ol s) = Some s)"

definition WORKFLOW_JOB_LINK_PRUNE_BATCH_SIZE :: nat where
  "WORKFLOW_JOB_LINK_PRUNE_BATCH_SIZE = 1000"

datatype workflow_job_link_store_error = Unavailable | Internal

definition job_link_map_sqlx_error :: "sqlx_error \<Rightarrow> workflow_job_link_store_error" where
  "job_link_map_sqlx_error e =
     (if sqlite_is_busy_or_locked e then workflow_job_link_store_error.Unavailable
      else workflow_job_link_store_error.Internal)"

definition system_time_to_nanos :: "instant \<Rightarrow> int option" where
  "system_time_to_nanos t = (if 0 \<le> t \<and> t \<le> int i64_max then Some t else None)"

definition nanos_to_system_time :: "int \<Rightarrow> instant option" where
  "nanos_to_system_time nanos = (if 0 \<le> nanos then Some nanos else None)"

definition merge_link :: "job_link_row \<Rightarrow> job_link_row \<Rightarrow> job_link_row" where
  "merge_link old excluded =
     old\<lparr>jl_job_name := jl_job_name excluded, jl_conclusion := jl_conclusion excluded,
         jl_trace_id := jl_trace_id excluded, jl_span_id := jl_span_id excluded,
         jl_started_at_nanos := jl_started_at_nanos excluded,
         jl_completed_at_nanos := jl_completed_at_nanos excluded,
         jl_timing_source := jl_timing_source excluded, jl_updated_at := jl_updated_at excluded\<rparr>"

interpretation link_upsert: keyed_upsert link_key merge_link
  by unfold_locales (simp add: link_key_def merge_link_def)

definition link_row ::
  "otel_lib \<Rightarrow> repository_id \<Rightarrow> 'u workflow_job_trace \<Rightarrow> trace_identity \<Rightarrow> int \<Rightarrow> int \<Rightarrow> rstring
   \<Rightarrow> database \<Rightarrow> job_link_row" where
  "link_row ol repository_id job identity started_at_nanos completed_at_nanos now db =
     \<lparr>jl_rowid = next_rowid (map jl_rowid (job_links db)),
      jl_repository_id = repository_id_get repository_id,
      jl_run_id = run_id_get (job_run_id job),
      jl_run_attempt = run_attempt_get (job_run_attempt job),
      jl_job_id = job_id_get (job_job_id job),
      jl_job_name = map_option display_name_as_str (job_display_name job),
      jl_conclusion = workflow_conclusion_as_str (job_conclusion job),
      jl_trace_id = trace_hex ol (id_trace_id identity),
      jl_span_id = span_hex ol (id_span_id identity),
      jl_started_at_nanos = started_at_nanos, jl_completed_at_nanos = completed_at_nanos,
      jl_timing_source = timing_source_as_str (timing_source (job_timing job)),
      jl_updated_at = now\<rparr>"

definition record_link ::
  "otel_lib \<Rightarrow> faults \<Rightarrow> rstring \<Rightarrow> repository_id \<Rightarrow> 'u workflow_job_trace \<Rightarrow> trace_identity
   \<Rightarrow> database \<Rightarrow> (workflow_job_link_store_error, unit) result \<times> database" where
  "record_link ol faults now repository_id job identity db =
     (if \<not> identity_is_valid identity then (Err workflow_job_link_store_error.Internal, db)
      else case system_time_to_nanos (timing_start (job_timing job)) of
        None \<Rightarrow> (Err workflow_job_link_store_error.Internal, db)
      | Some started_at_nanos \<Rightarrow>
     (case system_time_to_nanos (timing_end (job_timing job)) of
        None \<Rightarrow> (Err workflow_job_link_store_error.Internal, db)
      | Some completed_at_nanos \<Rightarrow>
     (case (case faults 0 of Some e \<Rightarrow> Err e
            | None \<Rightarrow> upsert_statement link_key merge_link link_check jl_repository_id db
                (link_row ol repository_id job identity started_at_nanos completed_at_nanos now db)
                (job_links db)) of
        Inl e \<Rightarrow> (Err (job_link_map_sqlx_error e), db)
      | Inr rows \<Rightarrow> (Ok (), db\<lparr>job_links := rows\<rparr>))))"

definition normalize_stored_conclusion :: "rstring \<Rightarrow> workflow_conclusion option" where
  "normalize_stored_conclusion v =
     (let conclusion = workflow_conclusion_normalize (Some v)
      in if workflow_conclusion_as_str conclusion = v then Some conclusion else None)"

definition into_summary :: "otel_lib \<Rightarrow> job_link_row \<Rightarrow> pipeline_job_summary option" where
  "into_summary ol row =
     (case workflow_job_id_new (jl_job_id row) of Inl _ \<Rightarrow> None | Inr job_id \<Rightarrow>
     (case normalize_stored_conclusion (jl_conclusion row) of None \<Rightarrow> None | Some conclusion \<Rightarrow>
     (case trace_from_hex ol (jl_trace_id row) of None \<Rightarrow> None | Some trace_id \<Rightarrow>
     (case span_from_hex ol (jl_span_id row) of None \<Rightarrow> None | Some span_id \<Rightarrow>
     (let identity = \<lparr>id_trace_id = trace_id, id_span_id = span_id\<rparr>
      in if \<not> identity_is_valid identity then None else
     (case nanos_to_system_time (jl_started_at_nanos row) of None \<Rightarrow> None | Some s \<Rightarrow>
     (case nanos_to_system_time (jl_completed_at_nanos row) of None \<Rightarrow> None | Some e \<Rightarrow>
     (case (if jl_timing_source row = lit ''reported'' then Some timing_source.Reported
            else if jl_timing_source row = lit ''fallback'' then Some timing_source.Fallback
            else None) of None \<Rightarrow> None | Some source \<Rightarrow>
     (case timing_derived s e source of Inl _ \<Rightarrow> None | Inr timing \<Rightarrow>
        Some \<lparr>sum_job_id = job_id,
              sum_job_name = Option.bind (jl_job_name row) display_name_sanitize,
              sum_conclusion = conclusion, sum_timing = timing,
              sum_identity = identity\<rparr>)))))))))"

definition list_links ::
  "otel_lib \<Rightarrow> faults \<Rightarrow> repository_id \<Rightarrow> workflow_run_id \<Rightarrow> workflow_run_attempt \<Rightarrow> nat \<Rightarrow> database
   \<Rightarrow> (workflow_job_link_store_error, pipeline_job_summary list) result" where
  "list_links ol faults repository_id run_id run_attempt limit db =
     (if limit > i64_max then Err workflow_job_link_store_error.Internal
      else case faults 0 of
        Some e \<Rightarrow> Err (job_link_map_sqlx_error e)
      | None \<Rightarrow>
          Ok (List.map_filter (into_summary ol)
            (take limit
              (sort_key (\<lambda>r. (jl_started_at_nanos r, jl_job_id r))
                (filter (\<lambda>r. jl_repository_id r = repository_id_get repository_id
                           \<and> jl_run_id r = run_id_get run_id
                           \<and> jl_run_attempt r = run_attempt_get run_attempt) (job_links db))))))"

definition prune_links ::
  "time_lib \<Rightarrow> faults \<Rightarrow> instant \<Rightarrow> database
   \<Rightarrow> (workflow_job_link_store_error, nat) result \<times> database" where
  "prune_links clk faults cutoff db =
     (case format_millis clk cutoff of
        None \<Rightarrow> (Err workflow_job_link_store_error.Internal, db)
      | Some before \<Rightarrow>
          (case faults 0 of
             Some e \<Rightarrow> (Err (job_link_map_sqlx_error e), db)
           | None \<Rightarrow>
               (case prune_rows (\<lambda>r. Some (jl_updated_at r)) jl_rowid before
                       WORKFLOW_JOB_LINK_PRUNE_BATCH_SIZE (job_links db) of
                  (rows, n) \<Rightarrow> (Ok n, db\<lparr>job_links := rows\<rparr>))))"

subsection \<open>Constraints and round trip\<close>

lemma record_link_Ok:
  assumes "record_link ol f now rid job i db = (Ok (), db')"
  shows "identity_is_valid i"
    and "0 \<le> timing_start (job_timing job)" "0 \<le> timing_end (job_timing job)"
    and "job_links db' = upsert_row link_key merge_link
          (link_row ol rid job i (timing_start (job_timing job)) (timing_end (job_timing job)) now db)
          (job_links db)"
    and "db' = db\<lparr>job_links := job_links db'\<rparr>"
    and "link_check
          (link_row ol rid job i (timing_start (job_timing job)) (timing_end (job_timing job)) now db)"
    and "repository_id_get rid \<in> repository_ids db"
  using assms
  by (auto simp: record_link_def upsert_statement_Ok_iff system_time_to_nanos_def link_row_def
      split: sum.splits option.splits if_splits)

lemma record_link_Err: "record_link ol f now rid job i db = (Err e, db') \<Longrightarrow> db' = db"
  by (auto simp: record_link_def split: sum.splits option.splits if_splits)

lemma record_link_db_ok:
  assumes "db_ok db"
  shows "db_ok (snd (record_link ol f now rid job i db))"
proof (cases "record_link ol f now rid job i db")
  case (Pair r db')
  show ?thesis
  proof (cases r)
    case (Inl e)
    with Pair assms record_link_Err show ?thesis by fastforce
  next
    case (Inr u)
    note o = record_link_Ok [OF Pair [unfolded Inr, simplified]]
    let ?row = "link_row ol rid job i (timing_start (job_timing job)) (timing_end (job_timing job))
       now db"
    have "links_ok (repository_ids db) (job_links db)" using assms by (simp add: db_ok_def)
    then have "links_ok (repository_ids db) (job_links db')"
      unfolding o(4)
    proof (rule keyed_table_ok_upsert [OF _ link_upsert.keyed_upsert_axioms])
      fix old assume "old \<in> set (job_links db)" "link_key old = link_key ?row"
      then show "jl_rowid (merge_link old ?row) = jl_rowid old
          \<and> link_check (merge_link old ?row)
          \<and> jl_repository_id (merge_link old ?row) \<in> repository_ids db"
        using o(6,7) by (auto simp: merge_link_def link_check_def link_key_def link_row_def)
    qed (use o(6,7) in \<open>auto simp: link_row_def\<close>)
    then show ?thesis
      using assms by (simp add: Pair, subst o(5)) (simp add: db_ok_def repository_ids_def)
  qed
qed

lemma prune_links_db_ok:
  assumes "db_ok db"
  shows "db_ok (snd (prune_links clk f cutoff db))"
proof -
  have "links_ok (repository_ids db) (job_links db)" using assms by (simp add: db_ok_def)
  note keyed_table_ok_prune [OF this]
  with assms show ?thesis
    by (auto simp: prune_links_def db_ok_def repository_ids_def split: option.splits prod.splits)
qed

definition job_summary :: "'u workflow_job_trace \<Rightarrow> trace_identity \<Rightarrow> pipeline_job_summary" where
  "job_summary job i =
     \<lparr>sum_job_id = job_job_id job, sum_job_name = job_display_name job,
      sum_conclusion = job_conclusion job, sum_timing = job_timing job, sum_identity = i\<rparr>"

lemma normalize_stored_conclusion_as_str:
  "normalize_stored_conclusion (workflow_conclusion_as_str c) = Some c"
  by (simp add: normalize_stored_conclusion_def workflow_conclusion_normalize_as_str)

lemma into_summary_of_row:
  assumes "otel_hex_ok ol" and "length (id_trace_id i) = 16" "length (id_span_id i) = 8"
    and "identity_is_valid i" and "ordered_timing (job_timing job)"
    and "0 \<le> timing_start (job_timing job)" and "0 < job_id_get (job_job_id job)"
    and "pred_option sanitized_name (job_display_name job)"
    and "jl_job_id row = job_id_get (job_job_id job)"
    and "jl_job_name row = map_option display_name_as_str (job_display_name job)"
    and "jl_conclusion row = workflow_conclusion_as_str (job_conclusion job)"
    and "jl_trace_id row = trace_hex ol (id_trace_id i)"
    and "jl_span_id row = span_hex ol (id_span_id i)"
    and "jl_started_at_nanos row = timing_start (job_timing job)"
    and "jl_completed_at_nanos row = timing_end (job_timing job)"
    and "jl_timing_source row = timing_source_as_str (timing_source (job_timing job))"
  shows "into_summary ol row = Some (job_summary job i)"
proof -
  have "workflow_job_id_new (jl_job_id row) = Ok (job_job_id job)"
    using assms(7,9) by (cases "job_job_id job") (simp add: workflow_job_id_new_def)
  moreover have "normalize_stored_conclusion (jl_conclusion row) = Some (job_conclusion job)"
    by (simp add: assms(11) normalize_stored_conclusion_as_str)
  moreover have "trace_from_hex ol (jl_trace_id row) = Some (id_trace_id i)"
      "span_from_hex ol (jl_span_id row) = Some (id_span_id i)"
    using assms(1-3,12,13) by (simp_all add: otel_hex_ok_def)
  moreover have "nanos_to_system_time (jl_started_at_nanos row) = Some (timing_start (job_timing job))"
      "nanos_to_system_time (jl_completed_at_nanos row) = Some (timing_end (job_timing job))"
    using assms(5,6,14,15) by (simp_all add: nanos_to_system_time_def ordered_timing_def)
  moreover have "(if jl_timing_source row = lit ''reported'' then Some timing_source.Reported
            else if jl_timing_source row = lit ''fallback'' then Some timing_source.Fallback
            else None) = Some (timing_source (job_timing job))"
    by (cases "timing_source (job_timing job)") (simp_all add: assms(16) timing_source_as_str_def)
  moreover have "timing_derived (timing_start (job_timing job)) (timing_end (job_timing job))
      (timing_source (job_timing job)) = Ok (job_timing job)"
    using assms(5) by (cases "job_timing job") (simp add: timing_derived_def ordered_timing_def)
  moreover have "Option.bind (jl_job_name row) display_name_sanitize = job_display_name job"
    using assms(8,10) by (cases "job_display_name job") (simp_all add: sanitized_name_fixpoint)
  ultimately show ?thesis
    using assms(4) by (cases i) (simp add: into_summary_def job_summary_def)
qed

lemma recorded_row:
  assumes "record_link ol f now rid job i db = (Ok (), db')"
    and "otel_hex_ok ol" and "length (id_trace_id i) = 16" "length (id_span_id i) = 8"
    and "ordered_timing (job_timing job)" and "pred_option sanitized_name (job_display_name job)"
  shows "\<exists>row \<in> set (job_links db'). link_key row =
       (repository_id_get rid, run_id_get (job_run_id job), run_attempt_get (job_run_attempt job),
        job_id_get (job_job_id job))
     \<and> into_summary ol row = Some (job_summary job i)"
proof -
  note o = record_link_Ok [OF assms(1)]
  let ?row = "link_row ol rid job i (timing_start (job_timing job)) (timing_end (job_timing job))
     now db"
  obtain row where row: "lookup_row link_key (link_key ?row) (job_links db') = Some row"
      and r: "row = ?row \<or> (\<exists>old \<in> set (job_links db). row = merge_link old ?row)"
    using link_upsert.lookup_upsert [of ?row "job_links db"] o(4) by auto
  have k: "link_key row = (repository_id_get rid, run_id_get (job_run_id job),
      run_attempt_get (job_run_attempt job), job_id_get (job_job_id job))"
    using lookup_row_Some [OF row] by (simp add: link_key_def link_row_def)
  have "0 < job_id_get (job_job_id job)" using o(6) by (simp add: link_check_def link_row_def)
  moreover have "jl_job_id row = job_id_get (job_job_id job)" using k by (simp add: link_key_def)
  ultimately have "into_summary ol row = Some (job_summary job i)"
    using r assms o(1,2)
    by (intro into_summary_of_row) (auto simp: merge_link_def link_row_def)
  with lookup_row_Some [OF row] k show ?thesis by blast
qed

lemma in_map_filter: "x \<in> set xs \<Longrightarrow> f x = Some y \<Longrightarrow> y \<in> set (List.map_filter f xs)"
  by (force simp: List.map_filter_def)

text \<open>A recorded job is listed for its run attempt as long as the limit covers the attempt's rows.\<close>

lemma recorded_link_listed:
  assumes "record_link ol f now rid job i db = (Ok (), db')"
    and "otel_hex_ok ol" and "length (id_trace_id i) = 16" "length (id_span_id i) = 8"
    and "ordered_timing (job_timing job)" and "pred_option sanitized_name (job_display_name job)"
    and "length (job_links db') \<le> limit" and "limit \<le> i64_max"
  shows "\<exists>js. list_links ol no_faults rid (job_run_id job) (job_run_attempt job) limit db' = Ok js
     \<and> job_summary job i \<in> set js"
proof -
  obtain row where row: "row \<in> set (job_links db')" "link_key row =
       (repository_id_get rid, run_id_get (job_run_id job), run_attempt_get (job_run_attempt job),
        job_id_get (job_job_id job))" "into_summary ol row = Some (job_summary job i)"
    using recorded_row [OF assms(1-6)] by blast
  let ?rows = "sort_key (\<lambda>r. (jl_started_at_nanos r, jl_job_id r))
    (filter (\<lambda>r. jl_repository_id r = repository_id_get rid \<and> jl_run_id r = run_id_get (job_run_id job)
       \<and> jl_run_attempt r = run_attempt_get (job_run_attempt job)) (job_links db'))"
  have "length ?rows \<le> limit" using assms(7) by (auto intro: order_trans [OF length_filter_le])
  then have "row \<in> set (take limit ?rows)" using row(1,2) by (simp add: link_key_def)
  from in_map_filter [of _ _ "into_summary ol", OF this row(3)] assms(8) show ?thesis
    by (simp add: list_links_def no_faults_def)
qed

lemma length_map_filter_take: "length (List.map_filter f (take n xs)) \<le> n"
proof -
  have "length (List.map_filter f (take n xs)) \<le> length (take n xs)"
    by (simp add: List.map_filter_def del: length_take)
  then show ?thesis by simp
qed

lemma list_links_limit: "list_links ol f rid r a limit db = Ok js \<Longrightarrow> length js \<le> limit"
  by (auto simp: list_links_def length_map_filter_take split: if_splits option.splits)

lemma into_summary_ordered: "into_summary ol row = Some j \<Longrightarrow> ordered_timing (sum_timing j)"
  by (auto simp: into_summary_def Let_def timing_derived_def ordered_timing_def
      split: option.splits sum.splits if_splits)

lemma list_links_ordered:
  "list_links ol f rid r a limit db = Ok js \<Longrightarrow> j \<in> set js \<Longrightarrow> ordered_timing (sum_timing j)"
  by (auto simp: list_links_def List.map_filter_def into_summary_ordered
      split: if_splits option.splits dest!: in_set_takeD)

subsection \<open>Properties\<close>

text \<open>
  The identity of an emitted job trace, once recorded, is listed for its run attempt with the
  job's name, conclusion, interval and identity unchanged, so the pipeline summary links to the
  trace that was exported; the listing never exceeds its limit and never lists a job whose interval
  is out of order.
\<close>

theorem job_link_roundtrip:
  assumes "record_link ol f now rid job i db = (Ok (), db')"
    and "otel_hex_ok ol" and "length (id_trace_id i) = 16" and "length (id_span_id i) = 8"
    and "well_timed_job job" and "pred_option sanitized_name (job_display_name job)"
    and "length (job_links db') \<le> limit" and "limit \<le> i64_max"
  shows "\<exists>js. list_links ol no_faults rid (job_run_id job) (job_run_attempt job) limit db' = Ok js
     \<and> job_summary job i \<in> set js \<and> length js \<le> limit
     \<and> (\<forall>j \<in> set js. ordered_timing (sum_timing j))"
proof -
  have "ordered_timing (job_timing job)" using assms(5) by (simp add: well_timed_job_def)
  from recorded_link_listed [OF assms(1-4) this assms(6-8)] show ?thesis
    using list_links_limit list_links_ordered by blast
qed

definition sample_otel :: otel_lib where
  "sample_otel =
     \<lparr>trace_hex = (\<lambda>t. concat (map (\<lambda>b. [unat b, 0]) t)),
      span_hex = (\<lambda>s. concat (map (\<lambda>b. [unat b, 0]) s)),
      trace_from_hex = (\<lambda>r. Some (map (\<lambda>i. of_nat (r ! (2 * i))) [0..<length r div 2])),
      span_from_hex = (\<lambda>r. Some (map (\<lambda>i. of_nat (r ! (2 * i))) [0..<length r div 2]))\<rparr>"

lemma nth_pairs: "i < length t \<Longrightarrow> concat (map (\<lambda>b. [f b, 0]) t) ! (2 * i) = f (t ! i)"
  by (induction t arbitrary: i) (auto simp: nth_Cons split: nat.splits)

lemma length_pairs: "length (concat (map (\<lambda>b. [f b, 0]) t)) = 2 * length t"
  by (induction t) auto

lemma length_replicate_pairs: "length (concat (replicate n [x, y])) = 2 * n"
  by (induction n) auto

lemma sample_otel_ok: "otel_hex_ok sample_otel"
proof -
  have "map (\<lambda>i. of_nat (concat (map (\<lambda>b. [unat b, 0]) t) ! (2 * i))) [0..<length t] = t"
    for t :: "byte list"
    by (rule nth_equalityI) (simp_all add: nth_pairs)
  from this [of "t :: byte list" for t] show ?thesis
    by (auto simp: otel_hex_ok_def sample_otel_def length_pairs) metis+
qed

definition sample_identity :: trace_identity where
  "sample_identity = \<lparr>id_trace_id = replicate 16 1, id_span_id = replicate 8 1\<rparr>"

lemma job_link_roundtrip_witness:
  "\<exists>db' js. record_link sample_otel no_faults [] (RepositoryId 1) sample_job sample_identity
       one_repository = (Ok (), db')
     \<and> list_links sample_otel no_faults (RepositoryId 1) (WorkflowRunId 1) (WorkflowRunAttempt 1)
         257 db' = Ok js \<and> job_summary sample_job sample_identity \<in> set js"
proof -
  have valid: "identity_is_valid sample_identity"
    by (simp add: identity_is_valid_def sample_identity_def invalid_trace_id_def
        invalid_span_id_def)
  have "\<exists>db'. record_link sample_otel no_faults [] (RepositoryId 1) sample_job sample_identity
       one_repository = (Ok (), db') \<and> length (job_links db') = 1"
    using valid
    by (simp add: record_link_def sample_job_def system_time_to_nanos_def no_faults_def i64_max_def
        upsert_statement_def link_check_def link_row_def one_repository_def sample_otel_def
        sample_identity_def length_replicate_pairs workflow_conclusion_as_str_def timing_source_as_str_def
        upsert_row_def empty_database_def)
  then obtain db' where r: "record_link sample_otel no_faults [] (RepositoryId 1) sample_job
      sample_identity one_repository = (Ok (), db')" "length (job_links db') = 1" by blast
  have w: "well_timed_job sample_job"
    by (simp add: well_timed_job_def sample_job_def ordered_timing_def within_timing_def)
  have "length (id_trace_id sample_identity) = 16" "length (id_span_id sample_identity) = 8"
    by (simp_all add: sample_identity_def)
  from job_link_roundtrip [OF r(1) sample_otel_ok this w, of 257] r show ?thesis
    by (auto simp: sample_job_def i64_max_def)
qed

end
