(* ===== verification/Config.thy ===== *)
theory Config
  imports Security Domain
begin

section \<open>Runtime configuration\<close>

text \<open>
  \<open>src/config.rs\<close>. The environment is a function from variable names to \<open>OsString\<close>s, which need not
  be Unicode; reading a variable twice gives the same value. \<open>config_lib\<close> are the decoders and
  parsers of other crates and the file system. A \<open>u64\<close> and a \<open>usize\<close> are numbers up to \<open>u64_max\<close>, a
  \<open>Duration\<close> is its nanoseconds.
\<close>

datatype os_string = Unicode rstring | NotUnicode

datatype config_error = Missing string | Invalid string

type_synonym environment = "string \<Rightarrow> os_string option"

record 'a config_lib =
  base64_decode :: "byte list \<Rightarrow> byte list option"
  parse_socket_address :: "rstring \<Rightarrow> 'a option"
  url_scheme :: "rstring \<Rightarrow> rstring option"
  percent_decode_utf8 :: "rstring \<Rightarrow> rstring option"
  header_name_accepted :: "rstring \<Rightarrow> bool"
  header_value_accepted :: "rstring \<Rightarrow> bool"
  env_filter_accepted :: "rstring \<Rightarrow> bool"
  sentry_dsn_accepted :: "rstring \<Rightarrow> bool"
  read_file :: "rstring \<Rightarrow> byte list option"

definition DEFAULT_BIND_ADDRESS :: rstring where "DEFAULT_BIND_ADDRESS = lit ''[::]:8080''"
definition DEFAULT_RUST_LOG :: rstring where "DEFAULT_RUST_LOG = lit ''info''"
definition DEFAULT_SHUTDOWN_TIMEOUT_SECONDS :: nat where "DEFAULT_SHUTDOWN_TIMEOUT_SECONDS = 30"
definition DEFAULT_WEBHOOK_BODY_LIMIT_BYTES :: nat where
  "DEFAULT_WEBHOOK_BODY_LIMIT_BYTES = 2097152"
definition MAX_WEBHOOK_BODY_LIMIT_BYTES :: nat where "MAX_WEBHOOK_BODY_LIMIT_BYTES = 2097152"
definition DEFAULT_WORKFLOW_JOB_MAX_STEPS :: nat where "DEFAULT_WORKFLOW_JOB_MAX_STEPS = 256"
definition MAX_WORKFLOW_JOB_MAX_STEPS :: nat where "MAX_WORKFLOW_JOB_MAX_STEPS = 1024"
definition DEFAULT_DELIVERY_RETENTION_DAYS :: nat where "DEFAULT_DELIVERY_RETENTION_DAYS = 7"
definition DEFAULT_MERGE_QUEUE_RETENTION_DAYS :: nat where
  "DEFAULT_MERGE_QUEUE_RETENTION_DAYS = 90"
definition DEFAULT_DELIVERY_PRUNE_INTERVAL_SECONDS :: nat where
  "DEFAULT_DELIVERY_PRUNE_INTERVAL_SECONDS = 3600"
definition SECONDS_PER_DAY :: nat where "SECONDS_PER_DAY = 86400"
definition CONFIG_MASTER_KEY_LENGTH :: nat where "CONFIG_MASTER_KEY_LENGTH = 32"
definition DEFAULT_OTEL_SERVICE_NAME :: rstring where
  "DEFAULT_OTEL_SERVICE_NAME = lit ''github-webhook-exporter''"
definition DEFAULT_OTEL_EXPORT_TIMEOUT_MILLISECONDS :: nat where
  "DEFAULT_OTEL_EXPORT_TIMEOUT_MILLISECONDS = 10000"
definition DEFAULT_OTEL_QUEUE_CAPACITY :: nat where "DEFAULT_OTEL_QUEUE_CAPACITY = 2048"
definition DEFAULT_OTEL_BATCH_SIZE :: nat where "DEFAULT_OTEL_BATCH_SIZE = 512"
definition DEFAULT_OTEL_SHUTDOWN_TIMEOUT_SECONDS :: nat where
  "DEFAULT_OTEL_SHUTDOWN_TIMEOUT_SECONDS = 5"
definition DEFAULT_GITHUB_API_BASE_URL :: rstring where
  "DEFAULT_GITHUB_API_BASE_URL = lit ''https://api.github.com''"
definition DEFAULT_REQUIRED_CHECK_TTL_SECONDS :: nat where
  "DEFAULT_REQUIRED_CHECK_TTL_SECONDS = 300"
definition MAX_REQUIRED_CHECK_TTL_SECONDS :: nat where "MAX_REQUIRED_CHECK_TTL_SECONDS = 86400"

lemmas config_constants =
  DEFAULT_SHUTDOWN_TIMEOUT_SECONDS_def DEFAULT_WEBHOOK_BODY_LIMIT_BYTES_def
  MAX_WEBHOOK_BODY_LIMIT_BYTES_def DEFAULT_WORKFLOW_JOB_MAX_STEPS_def
  MAX_WORKFLOW_JOB_MAX_STEPS_def DEFAULT_DELIVERY_RETENTION_DAYS_def
  DEFAULT_MERGE_QUEUE_RETENTION_DAYS_def DEFAULT_DELIVERY_PRUNE_INTERVAL_SECONDS_def
  SECONDS_PER_DAY_def CONFIG_MASTER_KEY_LENGTH_def DEFAULT_OTEL_EXPORT_TIMEOUT_MILLISECONDS_def
  DEFAULT_OTEL_QUEUE_CAPACITY_def DEFAULT_OTEL_BATCH_SIZE_def
  DEFAULT_OTEL_SHUTDOWN_TIMEOUT_SECONDS_def DEFAULT_REQUIRED_CHECK_TTL_SECONDS_def
  MAX_REQUIRED_CHECK_TTL_SECONDS_def

definition from_secs :: "nat \<Rightarrow> nat" where "from_secs n = n * 1000000000"
definition from_millis :: "nat \<Rightarrow> nat" where "from_millis n = n * 1000000"

subsection \<open>Reading variables\<close>

definition into_string :: "string \<Rightarrow> os_string \<Rightarrow> (config_error, rstring) result" where
  "into_string variable v = (case v of Unicode s \<Rightarrow> Ok s | NotUnicode \<Rightarrow> Err (Invalid variable))"

definition required_os_string :: "environment \<Rightarrow> string \<Rightarrow> (config_error, os_string) result" where
  "required_os_string lookup variable = ok_or (Missing variable) (lookup variable)"

definition required_string :: "environment \<Rightarrow> string \<Rightarrow> (config_error, rstring) result" where
  "required_string lookup variable =
     and_then (required_os_string lookup variable) (into_string variable)"

definition optional_string :: "environment \<Rightarrow> string \<Rightarrow> (config_error, rstring option) result" where
  "optional_string lookup variable =
     (case lookup variable of
        None \<Rightarrow> Ok None | Some v \<Rightarrow> and_then (into_string variable v) (\<lambda>s. Ok (Some s)))"

text \<open>\<open>Option::map(f).transpose()\<close>.\<close>

definition map_transpose ::
  "('a \<Rightarrow> ('e, 'b) result) \<Rightarrow> 'a option \<Rightarrow> ('e, 'b option) result" where
  "map_transpose f x =
     (case x of None \<Rightarrow> Ok None | Some v \<Rightarrow> and_then (f v) (\<lambda>y. Ok (Some y)))"

definition parse_positive :: "string \<Rightarrow> rstring \<Rightarrow> (config_error, nat) result" where
  "parse_positive variable s =
     and_then (ok_or (Invalid variable) (parse_u64 s))
       (\<lambda>n. if n = 0 then Err (Invalid variable) else Ok n)"

definition optional_positive_u64 ::
  "environment \<Rightarrow> string \<Rightarrow> nat \<Rightarrow> (config_error, nat) result" where
  "optional_positive_u64 lookup variable def_value =
     and_then (optional_string lookup variable)
       (\<lambda>s. and_then
          (case s of None \<Rightarrow> Ok def_value | Some v \<Rightarrow> ok_or (Invalid variable) (parse_u64 v))
          (\<lambda>n. if n = 0 then Err (Invalid variable) else Ok n))"

definition optional_positive_usize ::
  "environment \<Rightarrow> string \<Rightarrow> nat \<Rightarrow> (config_error, nat) result" where
  "optional_positive_usize lookup variable def_value =
     and_then (optional_string lookup variable)
       (\<lambda>s. and_then
          (case s of None \<Rightarrow> Ok def_value | Some v \<Rightarrow> ok_or (Invalid variable) (parse_u64 v))
          (\<lambda>n. if n = 0 then Err (Invalid variable) else Ok n))"

definition optional_positive_u64_variable ::
  "environment \<Rightarrow> string \<Rightarrow> (config_error, nat option) result" where
  "optional_positive_u64_variable lookup variable =
     and_then (optional_string lookup variable) (map_transpose (parse_positive variable))"

definition optional_private_key ::
  "'a config_lib \<Rightarrow> environment \<Rightarrow> (config_error, byte list option) result" where
  "optional_private_key lib lookup =
     (let path_variable = ''GHE_GITHUB_APP_PRIVATE_KEY_PATH'';
          key_variable = ''GHE_GITHUB_APP_PRIVATE_KEY''
      in and_then (optional_string lookup path_variable) (\<lambda>path.
        case path of
          Some path \<Rightarrow>
            if path = [] then Err (Invalid path_variable)
            else and_then (ok_or (Invalid path_variable) (read_file lib path))
              (\<lambda>contents. if contents = [] then Err (Invalid path_variable) else Ok (Some contents))
        | None \<Rightarrow>
            and_then (optional_string lookup key_variable) (\<lambda>encoded.
              case encoded of
                None \<Rightarrow> Ok None
              | Some encoded \<Rightarrow>
                  and_then (ok_or (Invalid key_variable) (base64_decode lib (as_bytes encoded)))
                    (\<lambda>decoded. if decoded = [] then Err (Invalid key_variable)
                        else Ok (Some decoded)))))"

definition validated_endpoint ::
  "'a config_lib \<Rightarrow> environment \<Rightarrow> string \<Rightarrow> (config_error, rstring option) result" where
  "validated_endpoint lib lookup variable =
     and_then (optional_string lookup variable) (map_transpose (\<lambda>endpoint.
       and_then (ok_or (Invalid variable) (url_scheme lib endpoint))
         (\<lambda>scheme. if scheme \<noteq> lit ''http'' \<and> scheme \<noteq> lit ''https'' then Err (Invalid variable)
             else Ok endpoint)))"

definition trim_end_slashes :: "rstring \<Rightarrow> rstring" where
  "trim_end_slashes s = rev (dropWhile (\<lambda>c. c = 47) (rev s))"

definition append_signal_path :: "rstring option \<Rightarrow> rstring \<Rightarrow> rstring option" where
  "append_signal_path endpoint signal_path =
     map_option (\<lambda>e. trim_end_slashes e @ lit ''/'' @ signal_path) endpoint"

text \<open>\<open>str::split_once('=')\<close>.\<close>

definition split_once_equals :: "rstring \<Rightarrow> (rstring \<times> rstring) option" where
  "split_once_equals s =
     (let k = takeWhile (\<lambda>c. c \<noteq> 61) s
      in if length k = length s then None else Some (k, drop (length k + 1) s))"

type_synonym sensitive_headers = "(rstring \<times> rstring) list"

definition validated_header ::
  "'a config_lib \<Rightarrow> string \<Rightarrow> rstring \<Rightarrow> (config_error, rstring \<times> rstring) result" where
  "validated_header lib variable header =
     and_then (ok_or (Invalid variable) (split_once_equals header)) (\<lambda>(name, encoded_value).
       and_then (ok_or (Invalid variable) (percent_decode_utf8 lib (trim encoded_value))) (\<lambda>value.
         if trim name = [] \<or> value = [] then Err (Invalid variable)
         else if \<not> header_name_accepted lib (trim name) then Err (Invalid variable)
         else if \<not> header_value_accepted lib value then Err (Invalid variable)
         else Ok (trim name, value)))"

definition validated_headers ::
  "'a config_lib \<Rightarrow> environment \<Rightarrow> string \<Rightarrow> (config_error, sensitive_headers option) result" where
  "validated_headers lib lookup variable =
     and_then (optional_string lookup variable) (map_transpose (\<lambda>headers.
       if headers = [] then Ok []
       else collect_results
         (map (\<lambda>header. validated_header lib variable (trim header)) (split_on 44 headers))))"

definition clone_headers :: "sensitive_headers option \<Rightarrow> sensitive_headers" where
  "clone_headers headers = (case headers of None \<Rightarrow> [] | Some hs \<Rightarrow> hs)"

text \<open>\<open>None\<close> for an attribute the service does not report.\<close>

definition resource_attribute_of ::
  "'a config_lib \<Rightarrow> rstring \<Rightarrow> (config_error, rstring \<times> rstring) result option" where
  "resource_attribute_of lib attribute =
     (let bad = Some (Err (Invalid ''OTEL_RESOURCE_ATTRIBUTES''))
      in case split_once_equals attribute of
           None \<Rightarrow> bad
         | Some (encoded_key, encoded_value) \<Rightarrow>
             (case percent_decode_utf8 lib encoded_key of
                None \<Rightarrow> bad
              | Some key \<Rightarrow>
                  if key \<noteq> lit ''k8s.pod.name'' \<and> key \<noteq> lit ''k8s.namespace.name'' then None
                  else (case percent_decode_utf8 lib encoded_value of
                      None \<Rightarrow> bad
                    | Some value \<Rightarrow> if value = [] then bad else Some (Ok (key, value)))))"

definition validated_resource_attributes ::
  "'a config_lib \<Rightarrow> environment \<Rightarrow> (config_error, (rstring \<times> rstring) list) result" where
  "validated_resource_attributes lib lookup =
     and_then (optional_string lookup ''OTEL_RESOURCE_ATTRIBUTES'') (\<lambda>attributes.
       case attributes of
         None \<Rightarrow> Ok []
       | Some attributes \<Rightarrow>
           if attributes = [] then Ok []
           else collect_results
             (List.map_filter (resource_attribute_of lib) (split_on 44 attributes)))"

subsection \<open>The GitHub App\<close>

record github_app_config =
  ga_app_id :: nat
  ga_installation_id :: nat
  ga_private_key_pem :: "byte list"
  ga_api_base_url :: rstring

definition github_app_from_lookup ::
  "'a config_lib \<Rightarrow> environment \<Rightarrow> (config_error, github_app_config option) result" where
  "github_app_from_lookup lib lookup =
     and_then (optional_positive_u64_variable lookup ''GHE_GITHUB_APP_ID'') (\<lambda>app_id.
     and_then (optional_positive_u64_variable lookup ''GHE_GITHUB_APP_INSTALLATION_ID'')
       (\<lambda>installation_id.
     and_then (optional_private_key lib lookup) (\<lambda>private_key_pem.
       case (app_id, installation_id, private_key_pem) of
         (None, None, None) \<Rightarrow> Ok None
       | (Some app_id, Some installation_id, Some private_key_pem) \<Rightarrow>
           and_then (validated_endpoint lib lookup ''GHE_GITHUB_API_BASE_URL'') (\<lambda>api_base_url.
             Ok (Some \<lparr>ga_app_id = app_id, ga_installation_id = installation_id,
               ga_private_key_pem = private_key_pem,
               ga_api_base_url = trim_end_slashes
                 (case api_base_url of None \<Rightarrow> DEFAULT_GITHUB_API_BASE_URL | Some url \<Rightarrow> url)\<rparr>))
       | (None, _, _) \<Rightarrow> Err (Missing ''GHE_GITHUB_APP_ID'')
       | (Some _, None, _) \<Rightarrow> Err (Missing ''GHE_GITHUB_APP_INSTALLATION_ID'')
       | (Some _, Some _, None) \<Rightarrow> Err (Missing ''GHE_GITHUB_APP_PRIVATE_KEY_PATH''))))"

subsection \<open>Telemetry\<close>

record exporter_settings =
  es_endpoint :: rstring
  es_headers :: sensitive_headers
  es_timeout :: nat

record telemetry_config =
  tc_trace_exporter :: "exporter_settings option"
  tc_log_exporter :: "exporter_settings option"
  tc_queue_capacity :: nat
  tc_batch_size :: nat
  tc_shutdown_timeout :: nat
  tc_service_name :: rstring
  tc_sentry_dsn :: "rstring option"
  tc_resource_attributes :: "(rstring \<times> rstring) list"

definition telemetry_is_enabled :: "telemetry_config \<Rightarrow> bool" where
  "telemetry_is_enabled c \<longleftrightarrow> tc_trace_exporter c \<noteq> None \<or> tc_log_exporter c \<noteq> None"

definition resource_attribute :: "telemetry_config \<Rightarrow> rstring \<Rightarrow> rstring option" where
  "resource_attribute c key = map_of (tc_resource_attributes c) key"

definition pod_name :: "telemetry_config \<Rightarrow> rstring option" where
  "pod_name c = resource_attribute c (lit ''k8s.pod.name'')"

definition kubernetes_namespace :: "telemetry_config \<Rightarrow> rstring option" where
  "kubernetes_namespace c = resource_attribute c (lit ''k8s.namespace.name'')"

text \<open>The queue limits, the exporters of the two signals, and the service identity, in turn.\<close>

definition telemetry_queue ::
  "environment \<Rightarrow> (config_error, nat \<times> nat \<times> nat) result" where
  "telemetry_queue lookup =
     and_then (optional_positive_usize lookup ''GHE_OTEL_QUEUE_CAPACITY''
         DEFAULT_OTEL_QUEUE_CAPACITY) (\<lambda>queue_capacity.
     and_then (optional_positive_usize lookup ''GHE_OTEL_BATCH_SIZE'' DEFAULT_OTEL_BATCH_SIZE)
       (\<lambda>batch_size.
     if batch_size > queue_capacity then Err (Invalid ''GHE_OTEL_BATCH_SIZE'')
     else and_then (optional_positive_u64 lookup ''GHE_OTEL_SHUTDOWN_TIMEOUT_SECONDS''
         DEFAULT_OTEL_SHUTDOWN_TIMEOUT_SECONDS) (\<lambda>shutdown_timeout_seconds.
       Ok (queue_capacity, batch_size, from_secs shutdown_timeout_seconds))))"

definition telemetry_exporters ::
  "'a config_lib \<Rightarrow> environment
   \<Rightarrow> (config_error, exporter_settings option \<times> exporter_settings option) result" where
  "telemetry_exporters lib lookup =
     and_then (validated_endpoint lib lookup ''OTEL_EXPORTER_OTLP_ENDPOINT'') (\<lambda>generic_endpoint.
     and_then (validated_endpoint lib lookup ''OTEL_EXPORTER_OTLP_TRACES_ENDPOINT'') (\<lambda>traces.
     and_then (validated_endpoint lib lookup ''OTEL_EXPORTER_OTLP_LOGS_ENDPOINT'') (\<lambda>logs.
     and_then (validated_headers lib lookup ''OTEL_EXPORTER_OTLP_HEADERS'') (\<lambda>generic_headers.
     and_then (validated_headers lib lookup ''OTEL_EXPORTER_OTLP_TRACES_HEADERS'')
       (\<lambda>trace_headers.
     and_then (validated_headers lib lookup ''OTEL_EXPORTER_OTLP_LOGS_HEADERS'') (\<lambda>log_headers.
     and_then (optional_positive_u64 lookup ''OTEL_EXPORTER_OTLP_TIMEOUT''
         DEFAULT_OTEL_EXPORT_TIMEOUT_MILLISECONDS) (\<lambda>generic_timeout.
     and_then (optional_positive_u64 lookup ''OTEL_EXPORTER_OTLP_TRACES_TIMEOUT''
         generic_timeout) (\<lambda>trace_timeout.
     and_then (optional_positive_u64 lookup ''OTEL_EXPORTER_OTLP_LOGS_TIMEOUT''
         generic_timeout) (\<lambda>log_timeout.
       let or_else = (\<lambda>own fallback. case own of None \<Rightarrow> fallback | Some x \<Rightarrow> Some x);
           settings = (\<lambda>headers timeout endpoint. \<lparr>es_endpoint = endpoint,
             es_headers = (case headers of None \<Rightarrow> clone_headers generic_headers | Some hs \<Rightarrow> hs),
             es_timeout = from_millis timeout\<rparr>)
       in Ok (map_option (settings trace_headers trace_timeout)
                (or_else traces (append_signal_path generic_endpoint (lit ''v1/traces''))),
              map_option (settings log_headers log_timeout)
                (or_else logs (append_signal_path generic_endpoint (lit ''v1/logs'')))))))))))))"

definition telemetry_service_name :: "environment \<Rightarrow> (config_error, rstring) result" where
  "telemetry_service_name lookup =
     and_then (optional_string lookup ''OTEL_SERVICE_NAME'') (\<lambda>service_name.
       let name = (case service_name of None \<Rightarrow> DEFAULT_OTEL_SERVICE_NAME | Some n \<Rightarrow> n)
       in if name = [] then Err (Invalid ''OTEL_SERVICE_NAME'') else Ok name)"

definition telemetry_sentry_dsn ::
  "'a config_lib \<Rightarrow> environment \<Rightarrow> bool \<Rightarrow> (config_error, rstring option) result" where
  "telemetry_sentry_dsn lib lookup trace_enabled =
     and_then (optional_string lookup ''SENTRY_DSN'') (\<lambda>dsn.
     and_then (map_transpose
         (\<lambda>dsn. if sentry_dsn_accepted lib dsn then Ok dsn else Err (Invalid ''SENTRY_DSN'')) dsn)
       (\<lambda>sentry_dsn.
       if sentry_dsn \<noteq> None \<and> \<not> trace_enabled then Err (Invalid ''SENTRY_DSN'')
       else Ok sentry_dsn))"

definition telemetry_from_lookup ::
  "'a config_lib \<Rightarrow> environment \<Rightarrow> (config_error, telemetry_config) result" where
  "telemetry_from_lookup lib lookup =
     and_then (telemetry_queue lookup) (\<lambda>(queue_capacity, batch_size, shutdown_timeout).
     and_then (telemetry_exporters lib lookup) (\<lambda>(trace_exporter, log_exporter).
     and_then (telemetry_service_name lookup) (\<lambda>service_name.
     and_then (telemetry_sentry_dsn lib lookup (trace_exporter \<noteq> None)) (\<lambda>sentry_dsn.
     and_then (validated_resource_attributes lib lookup) (\<lambda>resource_attributes.
       Ok \<lparr>tc_trace_exporter = trace_exporter, tc_log_exporter = log_exporter,
         tc_queue_capacity = queue_capacity, tc_batch_size = batch_size,
         tc_shutdown_timeout = shutdown_timeout, tc_service_name = service_name,
         tc_sentry_dsn = sentry_dsn, tc_resource_attributes = resource_attributes\<rparr>)))))"

subsection \<open>The process\<close>

record 'a runtime_config =
  cfg_database_path :: os_string
  cfg_master_key :: master_key
  cfg_admin_token :: admin_token
  cfg_bind_address :: 'a
  cfg_shutdown_timeout :: nat
  cfg_webhook_body_limit_bytes :: nat
  cfg_workflow_job_max_steps :: nat
  cfg_delivery_retention :: nat
  cfg_merge_queue_retention :: nat
  cfg_delivery_prune_interval :: nat
  cfg_required_check_ttl :: nat
  cfg_github_app :: "github_app_config option"
  cfg_rust_log :: rstring
  cfg_telemetry :: telemetry_config

text \<open>The credentials: the master key, and an administration token that is not the key's text.\<close>

definition credentials ::
  "'a config_lib \<Rightarrow> environment \<Rightarrow> (config_error, master_key \<times> admin_token) result" where
  "credentials lib lookup =
     and_then (required_string lookup ''GHE_MASTER_KEY'') (\<lambda>encoded_master_key.
     and_then (ok_or (Invalid ''GHE_MASTER_KEY'')
         (base64_decode lib (as_bytes encoded_master_key))) (\<lambda>decoded_master_key.
     if length decoded_master_key \<noteq> CONFIG_MASTER_KEY_LENGTH then Err (Invalid ''GHE_MASTER_KEY'')
     else
     and_then (map_err (\<lambda>_. Invalid ''GHE_MASTER_KEY'') (master_key_from_slice decoded_master_key))
       (\<lambda>master_key.
     and_then (required_string lookup ''GHE_ADMIN_TOKEN'') (\<lambda>admin_token_text.
     if admin_token_text = encoded_master_key then Err (Invalid ''GHE_ADMIN_TOKEN'')
     else
     and_then (map_err (\<lambda>_. Invalid ''GHE_ADMIN_TOKEN'') (admin_token_new admin_token_text))
       (\<lambda>admin_token. Ok (master_key, admin_token))))))"

definition bind_address_from_lookup ::
  "'a config_lib \<Rightarrow> environment \<Rightarrow> (config_error, 'a) result" where
  "bind_address_from_lookup lib lookup =
     and_then (optional_string lookup ''GHE_BIND_ADDRESS'') (\<lambda>bind_address.
       ok_or (Invalid ''GHE_BIND_ADDRESS'') (parse_socket_address lib
         (case bind_address of None \<Rightarrow> DEFAULT_BIND_ADDRESS | Some a \<Rightarrow> a)))"

definition shutdown_timeout_from_lookup :: "environment \<Rightarrow> (config_error, nat) result" where
  "shutdown_timeout_from_lookup lookup =
     and_then (optional_string lookup ''GHE_SHUTDOWN_TIMEOUT_SECONDS'') (\<lambda>s.
     and_then (case s of None \<Rightarrow> Ok DEFAULT_SHUTDOWN_TIMEOUT_SECONDS
         | Some v \<Rightarrow> ok_or (Invalid ''GHE_SHUTDOWN_TIMEOUT_SECONDS'') (parse_u64 v))
       (\<lambda>n. if n = 0 then Err (Invalid ''GHE_SHUTDOWN_TIMEOUT_SECONDS'') else Ok n))"

definition bounded :: "string \<Rightarrow> nat \<Rightarrow> nat \<Rightarrow> (config_error, nat) result" where
  "bounded variable maximum n = (if n > maximum then Err (Invalid variable) else Ok n)"

definition webhook_limits :: "environment \<Rightarrow> (config_error, nat \<times> nat) result" where
  "webhook_limits lookup =
     and_then (optional_positive_u64 lookup ''GHE_WEBHOOK_BODY_LIMIT_BYTES''
         DEFAULT_WEBHOOK_BODY_LIMIT_BYTES) (\<lambda>n.
     and_then (bounded ''GHE_WEBHOOK_BODY_LIMIT_BYTES'' MAX_WEBHOOK_BODY_LIMIT_BYTES n)
       (\<lambda>webhook_body_limit_bytes.
     and_then (optional_positive_usize lookup ''GHE_WORKFLOW_JOB_MAX_STEPS''
         DEFAULT_WORKFLOW_JOB_MAX_STEPS) (\<lambda>n.
     and_then (bounded ''GHE_WORKFLOW_JOB_MAX_STEPS'' MAX_WORKFLOW_JOB_MAX_STEPS n)
       (\<lambda>workflow_job_max_steps. Ok (webhook_body_limit_bytes, workflow_job_max_steps)))))"

text \<open>\<open>checked_mul(SECONDS_PER_DAY)\<close>, in seconds.\<close>

definition days_in_seconds :: "string \<Rightarrow> nat \<Rightarrow> (config_error, nat) result" where
  "days_in_seconds variable days =
     (if days * SECONDS_PER_DAY \<le> u64_max then Ok (days * SECONDS_PER_DAY)
      else Err (Invalid variable))"

definition retention_from_lookup :: "environment \<Rightarrow> (config_error, nat \<times> nat \<times> nat) result" where
  "retention_from_lookup lookup =
     and_then (optional_positive_u64 lookup ''GHE_DELIVERY_RETENTION_DAYS''
         DEFAULT_DELIVERY_RETENTION_DAYS) (\<lambda>delivery_days.
     and_then (days_in_seconds ''GHE_DELIVERY_RETENTION_DAYS'' delivery_days) (\<lambda>delivery_seconds.
     and_then (optional_positive_u64 lookup ''GHE_MERGE_QUEUE_RETENTION_DAYS''
         DEFAULT_MERGE_QUEUE_RETENTION_DAYS) (\<lambda>merge_queue_days.
     and_then (days_in_seconds ''GHE_MERGE_QUEUE_RETENTION_DAYS'' merge_queue_days)
       (\<lambda>merge_queue_seconds.
     and_then (optional_positive_u64 lookup ''GHE_DELIVERY_PRUNE_INTERVAL_SECONDS''
         DEFAULT_DELIVERY_PRUNE_INTERVAL_SECONDS) (\<lambda>delivery_prune_interval_seconds.
       Ok (delivery_seconds, merge_queue_seconds, delivery_prune_interval_seconds))))))"

definition required_check_ttl_from_lookup :: "environment \<Rightarrow> (config_error, nat) result" where
  "required_check_ttl_from_lookup lookup =
     and_then (optional_positive_u64 lookup ''GHE_REQUIRED_CHECK_TTL_SECONDS''
         DEFAULT_REQUIRED_CHECK_TTL_SECONDS)
       (bounded ''GHE_REQUIRED_CHECK_TTL_SECONDS'' MAX_REQUIRED_CHECK_TTL_SECONDS)"

definition rust_log_from_lookup ::
  "'a config_lib \<Rightarrow> environment \<Rightarrow> (config_error, rstring) result" where
  "rust_log_from_lookup lib lookup =
     and_then (optional_string lookup ''RUST_LOG'') (\<lambda>rust_log.
       let directive = (case rust_log of None \<Rightarrow> DEFAULT_RUST_LOG | Some s \<Rightarrow> s)
       in if env_filter_accepted lib directive then Ok directive else Err (Invalid ''RUST_LOG''))"

definition database_path_from_lookup :: "environment \<Rightarrow> (config_error, os_string) result" where
  "database_path_from_lookup lookup =
     and_then (required_os_string lookup ''GHE_DATABASE_PATH'')
       (\<lambda>path. if path = Unicode [] then Err (Invalid ''GHE_DATABASE_PATH'') else Ok path)"

definition runtime_from_lookup ::
  "'a config_lib \<Rightarrow> environment \<Rightarrow> (config_error, 'a runtime_config) result" where
  "runtime_from_lookup lib lookup =
     and_then (database_path_from_lookup lookup) (\<lambda>database_path.
     and_then (credentials lib lookup) (\<lambda>(master_key, admin_token).
     and_then (bind_address_from_lookup lib lookup) (\<lambda>bind_address.
     and_then (shutdown_timeout_from_lookup lookup) (\<lambda>shutdown_timeout_seconds.
     and_then (webhook_limits lookup) (\<lambda>(webhook_body_limit_bytes, workflow_job_max_steps).
     and_then (retention_from_lookup lookup) (\<lambda>(delivery_retention_seconds,
         merge_queue_retention_seconds, delivery_prune_interval_seconds).
     and_then (required_check_ttl_from_lookup lookup) (\<lambda>required_check_ttl_seconds.
     and_then (github_app_from_lookup lib lookup) (\<lambda>github_app.
     and_then (rust_log_from_lookup lib lookup) (\<lambda>rust_log.
     and_then (telemetry_from_lookup lib lookup) (\<lambda>telemetry.
       Ok \<lparr>cfg_database_path = database_path, cfg_master_key = master_key,
         cfg_admin_token = admin_token, cfg_bind_address = bind_address,
         cfg_shutdown_timeout = from_secs shutdown_timeout_seconds,
         cfg_webhook_body_limit_bytes = webhook_body_limit_bytes,
         cfg_workflow_job_max_steps = workflow_job_max_steps,
         cfg_delivery_retention = from_secs delivery_retention_seconds,
         cfg_merge_queue_retention = from_secs merge_queue_retention_seconds,
         cfg_delivery_prune_interval = from_secs delivery_prune_interval_seconds,
         cfg_required_check_ttl = from_secs required_check_ttl_seconds,
         cfg_github_app = github_app, cfg_rust_log = rust_log,
         cfg_telemetry = telemetry\<rparr>))))))))))"

end
