(* ===== verification/Service.thy ===== *)
theory Service
  imports App_Error Delivery_Store Merge_Queue_Store Workflow_Run_Store Required_Check_Store
    Workflow_Job_Link_Store Config "HOL-Library.State_Monad"
begin

section \<open>The application state\<close>

text \<open>
  \<open>src/app.rs\<close>. The immutable part of \<open>AppState\<close> is the record \<open>app_state\<close>, with the libraries
  it is built on; what its services change is the record \<open>world\<close>: the database, the metrics, the
  operation spans in the order they end, the exported workflow spans and error reports, the refresh
  channel, the log, and the repository context of the request being served. A handler is a
  computation over \<open>world\<close>. \<open>ambient\<close> holds what one request gets from outside: the statements of
  each database operation that fail, the text of SQLite's clock at it, and the clock readings.
\<close>

record 'u libraries =
  lib_clock :: time_lib
  lib_otel :: otel_lib
  lib_hyphenated :: "'u \<Rightarrow> rstring"
  lib_parse_uuid :: "rstring \<Rightarrow> 'u option"
  lib_from_slice :: "byte list \<Rightarrow> json option"
  lib_to_str :: "byte list \<Rightarrow> rstring option"
  lib_uuid_text :: "nat \<Rightarrow> rstring"

record 'u app_state =
  app_libraries :: "'u libraries"
  app_repository_store :: repository_store
  app_admin_authenticator :: admin_authenticator
  app_required_check_store :: required_check_store
  app_required_check_refresher :: bool
  app_workflow_trace_emitter :: workflow_trace_emitter
  app_webhook_body_limit_bytes :: nat
  app_workflow_job_max_steps :: nat

record ambient =
  amb_faults :: "database_operation \<Rightarrow> faults"
  amb_sql_now :: "database_operation \<Rightarrow> rstring"
  amb_received_at :: instant
  amb_checks_at :: instant
  amb_nonce :: "byte list"
  amb_elapsed :: int

record refresh_request =
  rr_repository_id :: repository_id
  rr_repository_name :: canonical_repository_name
  rr_branch :: workflow_branch

record world =
  w_database :: database
  w_metrics :: metrics
  w_spans :: "(rstring \<times> span_calls) list"
  w_exported :: "exported_span list"
  w_reports :: "synthetic_workflow_error list"
  w_refreshes :: "refresh_request list"
  w_refresher_stopped :: bool
  w_logs :: "log_line list"
  w_correlations :: nat
  w_repository :: "canonical_repository_name option"
  w_panicked :: bool

type_synonym 'a handler = "(world, 'a) state"

subsection \<open>Construction\<close>

definition app_state_new ::
  "'u libraries \<Rightarrow> repository_store \<Rightarrow> admin_authenticator \<Rightarrow> nat \<Rightarrow> nat \<Rightarrow> 'u app_state" where
  "app_state_new libs store authenticator webhook_body_limit_bytes workflow_job_max_steps =
     \<lparr>app_libraries = libs, app_repository_store = store, app_admin_authenticator = authenticator,
      app_required_check_store =
        RequiredCheckStore (from_secs DEFAULT_REQUIRED_CHECK_TTL_SECONDS),
      app_required_check_refresher = False, app_workflow_trace_emitter = emitter_disabled,
      app_webhook_body_limit_bytes = webhook_body_limit_bytes,
      app_workflow_job_max_steps = workflow_job_max_steps\<rparr>"

definition with_required_check_ttl :: "nat \<Rightarrow> 'u app_state \<Rightarrow> 'u app_state" where
  "with_required_check_ttl ttl st =
     st\<lparr>app_required_check_store := RequiredCheckStore ttl\<rparr>"

definition with_workflow_trace_emitter ::
  "workflow_trace_emitter \<Rightarrow> 'u app_state \<Rightarrow> 'u app_state" where
  "with_workflow_trace_emitter em st = st\<lparr>app_workflow_trace_emitter := em\<rparr>"

subsection \<open>Effects\<close>

definition record_metric :: "(metrics \<Rightarrow> metrics) \<Rightarrow> unit handler" where
  "record_metric f = State_Monad.update (w_metrics_update f)"

definition record_span :: "operation \<Rightarrow> span_calls \<Rightarrow> unit handler" where
  "record_span op calls = State_Monad.update (w_spans_update (\<lambda>s. s @ [(operation_span op, calls)]))"

definition write_log :: "log_line \<Rightarrow> unit handler" where
  "write_log line = State_Monad.update (w_logs_update (\<lambda>l. l @ [line]))"

definition new_correlation_id :: "error_correlation_id handler" where
  "new_correlation_id = do {
     w \<leftarrow> State_Monad.get;
     State_Monad.update (w_correlations_update Suc);
     State_Monad.return (ErrorCorrelationId (w_correlations w)) }"

definition panicking :: "unit handler" where
  "panicking = State_Monad.update (w_panicked_update (\<lambda>_. True))"

text \<open>\<open>trace::instrument_database_operation\<close> around one operation of a store.\<close>

definition instrument_database_operation ::
  "database_operation \<Rightarrow> (database \<Rightarrow> ('e, 'a) result \<times> database) \<Rightarrow> ('e, 'a) result handler" where
  "instrument_database_operation op f = do {
     w \<leftarrow> State_Monad.get;
     case f (w_database w) of (r, db) \<Rightarrow> do {
       State_Monad.update (w_database_update (\<lambda>_. db));
       record_span operation.SqliteQuery (database_span op @ set_result_status r);
       State_Monad.return r } }"

definition reading :: "(database \<Rightarrow> ('e, 'a) result) \<Rightarrow> database \<Rightarrow> ('e, 'a) result \<times> database" where
  "reading f db = (f db, db)"

text \<open>\<open>RequestRepositoryContext\<close>: a \<open>OnceLock\<close>, set once.\<close>

definition context_authenticate :: "canonical_repository_name \<Rightarrow> unit handler" where
  "context_authenticate repository =
     State_Monad.update (w_repository_update (\<lambda>r. case r of None \<Rightarrow> Some repository | Some _ \<Rightarrow> r))"

definition initialize_repository_metrics ::
  "ambient \<Rightarrow> (repository_store_error, unit) result handler" where
  "initialize_repository_metrics amb = do {
     r \<leftarrow> instrument_database_operation database_operation.RepositoryCount
            (reading (count_repositories (amb_faults amb database_operation.RepositoryCount)));
     case r of
       Inl e \<Rightarrow> State_Monad.return (Err e)
     | Inr count \<Rightarrow> do {
         record_metric (set_repository_configurations count);
         State_Monad.return (Ok ()) } }"

end
