(* ===== verification/Event_Projections.thy ===== *)
theory Event_Projections
  imports Json Metrics Workflow_Values "HOL-Library.Monad_Syntax"
begin

section \<open>What the webhook handler reads of a body\<close>

text \<open>
  \<open>src/api/merge_group.rs\<close>, the projection of \<open>src/api/pull_request.rs\<close>,
  \<open>src/api/workflow_run.rs\<close> and \<open>src/api/workflow_job.rs\<close>. \<open>from_slice\<close> is the parser; each
  \<open>read_\<close> definition is the deserializer derived for the struct it is named after.
\<close>

subsection \<open>Generic and merge-group fields\<close>

record queue_pull_request =
  pr_number :: int
  pr_updated_at :: "rstring option"
  pr_merged :: "bool option"
  pr_head :: "json option option"

definition read_head :: "json option reader" where
  "read_head v = do {
     ms \<leftarrow> struct_members [(lit ''sha'', False)] v;
     optional read_value (ms ! 0) }"

definition read_queue_pull_request :: "queue_pull_request reader" where
  "read_queue_pull_request v = do {
     ms \<leftarrow> struct_members [(lit ''number'', False), (lit ''updated_at'', False),
             (lit ''merged'', False), (lit ''head'', False)] v;
     number \<leftarrow> required read_i64 (ms ! 0);
     updated_at \<leftarrow> optional read_string (ms ! 1);
     merged \<leftarrow> optional read_bool (ms ! 2);
     head \<leftarrow> optional read_head (ms ! 3);
     Some \<lparr>pr_number = number, pr_updated_at = updated_at, pr_merged = merged, pr_head = head\<rparr> }"

definition pull_request_head_sha :: "queue_pull_request \<Rightarrow> commit_sha option" where
  "pull_request_head_sha p =
     Option.bind (optional_str (Option.bind (pr_head p) (\<lambda>sha. sha)))
       (\<lambda>sha. result_ok (commit_sha_parse sha))"

record event_projection =
  ep_action :: "rstring option"
  ep_reason :: "json option"
  ep_merge_group :: "json option option"
  ep_pull_request :: "queue_pull_request option"

definition read_merge_group :: "json option reader" where
  "read_merge_group v = do {
     ms \<leftarrow> struct_members [(lit ''head_sha'', False)] v;
     optional read_value (ms ! 0) }"

definition read_event_projection :: "event_projection reader" where
  "read_event_projection v = do {
     ms \<leftarrow> struct_members [(lit ''action'', False), (lit ''reason'', False),
             (lit ''merge_group'', False), (lit ''pull_request'', False)] v;
     act \<leftarrow> optional read_string (ms ! 0);
     reason \<leftarrow> optional read_value (ms ! 1);
     merge_group \<leftarrow> optional read_merge_group (ms ! 2);
     pull_request \<leftarrow> optional read_queue_pull_request (ms ! 3);
     Some \<lparr>ep_action = act, ep_reason = reason, ep_merge_group = merge_group,
           ep_pull_request = pull_request\<rparr> }"

record merge_group_transition =
  mg_action :: merge_group_action
  mg_reason :: merge_group_reason
  mg_head_sha :: "commit_sha option"

definition merge_group_transition_of ::
  "event_projection \<Rightarrow> event_type \<Rightarrow> action \<Rightarrow> merge_group_transition option" where
  "merge_group_transition_of p event_type act =
     (if event_type \<noteq> event_type.MergeGroup then None
      else do {
        (act, reason) \<leftarrow> (case act of
            action.ChecksRequested \<Rightarrow>
              Some (merge_group_action.ChecksRequested, merge_group_reason.None')
          | action.Destroyed \<Rightarrow>
              Some (merge_group_action.Destroyed,
                case optional_str (ep_reason p) of
                  None \<Rightarrow> merge_group_reason.Other
                | Some reason \<Rightarrow> normalize_merge_group_destroyed_reason reason)
          | _ \<Rightarrow> None);
        Some \<lparr>mg_action = act, mg_reason = reason,
              mg_head_sha = Option.bind (optional_str (Option.bind (ep_merge_group p) (\<lambda>sha. sha)))
                (\<lambda>sha. result_ok (commit_sha_parse sha))\<rparr> })"

subsection \<open>Workflow runs\<close>

record run_pull_request =
  rp_number :: "int option"
  rp_head :: "json option option"
  rp_base :: "json option option"

record workflow_run_projection =
  wp_id :: int
  wp_run_attempt :: int
  wp_name :: "json option"
  wp_event :: "json option"
  wp_head_branch :: "json option"
  wp_head_sha :: "json option"
  wp_pull_requests :: "run_pull_request list"

definition read_branch :: "json option reader" where
  "read_branch v = do {
     ms \<leftarrow> struct_members [(lit ''ref'', False)] v;
     optional read_value (ms ! 0) }"

definition read_run_pull_request :: "run_pull_request reader" where
  "read_run_pull_request v = do {
     ms \<leftarrow> struct_members [(lit ''number'', False), (lit ''head'', False), (lit ''base'', False)] v;
     number \<leftarrow> optional read_i64 (ms ! 0);
     head \<leftarrow> optional read_branch (ms ! 1);
     base \<leftarrow> optional read_branch (ms ! 2);
     Some \<lparr>rp_number = number, rp_head = head, rp_base = base\<rparr> }"

definition read_workflow_run :: "workflow_run_projection reader" where
  "read_workflow_run v = do {
     ms \<leftarrow> struct_members [(lit ''id'', False), (lit ''run_attempt'', False), (lit ''name'', False),
             (lit ''event'', False), (lit ''head_branch'', False), (lit ''head_sha'', False),
             (lit ''pull_requests'', True)] v;
     ident \<leftarrow> required read_i64 (ms ! 0);
     run_attempt \<leftarrow> required read_i64 (ms ! 1);
     name \<leftarrow> optional read_value (ms ! 2);
     event \<leftarrow> optional read_value (ms ! 3);
     head_branch \<leftarrow> optional read_value (ms ! 4);
     head_sha \<leftarrow> optional read_value (ms ! 5);
     pull_requests \<leftarrow> defaulted [] (read_vec read_run_pull_request) (ms ! 6);
     Some \<lparr>wp_id = ident, wp_run_attempt = run_attempt, wp_name = name, wp_event = event,
           wp_head_branch = head_branch, wp_head_sha = head_sha,
           wp_pull_requests = pull_requests\<rparr> }"

definition read_workflow_run_envelope :: "workflow_run_projection reader" where
  "read_workflow_run_envelope v = do {
     ms \<leftarrow> struct_members [(lit ''workflow_run'', False)] v;
     required read_workflow_run (ms ! 0) }"

fun unique_branch_loop :: "workflow_branch option \<Rightarrow> workflow_branch list \<Rightarrow> workflow_branch option"
where
  "unique_branch_loop unique [] = unique"
| "unique_branch_loop unique (branch # branches) =
     (case unique of
        None \<Rightarrow> unique_branch_loop (Some branch) branches
      | Some current \<Rightarrow> if current = branch then unique_branch_loop unique branches else None)"

definition unique_branch ::
  "run_pull_request list \<Rightarrow> (run_pull_request \<Rightarrow> json option option) \<Rightarrow> workflow_branch option" where
  "unique_branch pull_requests select =
     unique_branch_loop None
       (List.map_filter (\<lambda>p. Option.bind (optional_str (Option.bind (select p) (\<lambda>r. r)))
          workflow_branch_sanitize) pull_requests)"

definition project_context ::
  "(byte list \<Rightarrow> json option) \<Rightarrow> byte list \<Rightarrow> workflow_run_context option" where
  "project_context from_slice body = do {
     v \<leftarrow> from_slice body;
     workflow_run \<leftarrow> read_workflow_run_envelope v;
     run_id \<leftarrow> result_ok (workflow_run_id_new (wp_id workflow_run));
     run_attempt \<leftarrow> result_ok (workflow_run_attempt_new (wp_run_attempt workflow_run));
     let event = workflow_event_normalize (optional_str (wp_event workflow_run));
         source_branch =
           (case Option.bind (optional_str (wp_head_branch workflow_run)) workflow_branch_sanitize of
              Some branch \<Rightarrow> Some branch
            | None \<Rightarrow> unique_branch (wp_pull_requests workflow_run) rp_head);
         target_branch = unique_branch (wp_pull_requests workflow_run) rp_base
     in Some (workflow_run_context_new run_id run_attempt event source_branch target_branch) }"

record workflow_run_summary =
  rs_workflow_name :: "display_name option"
  rs_head_sha :: "commit_sha option"
  rs_pull_requests :: workflow_pull_requests

definition project_run_summary ::
  "(byte list \<Rightarrow> json option) \<Rightarrow> byte list \<Rightarrow> workflow_run_summary option" where
  "project_run_summary from_slice body = do {
     v \<leftarrow> from_slice body;
     workflow_run \<leftarrow> read_workflow_run_envelope v;
     Some \<lparr>rs_workflow_name =
             Option.bind (optional_str (wp_name workflow_run)) display_name_sanitize,
           rs_head_sha =
             Option.bind (optional_str (wp_head_sha workflow_run))
               (\<lambda>sha. result_ok (commit_sha_parse sha)),
           rs_pull_requests =
             workflow_pull_requests_new
               (List.map_filter (\<lambda>number. result_ok (pull_request_number_new number))
                 (List.map_filter rp_number (wp_pull_requests workflow_run)))\<rparr> }"

end
