(* ===== verification/Queue_Processor.thy ===== *)
theory Queue_Processor
  imports Service Event_Projections
begin

section \<open>Merge-queue transitions of a pull-request event\<close>

text \<open>\<open>QueueProcessor\<close> of \<open>src/api/pull_request.rs\<close>. Store and metrics are the service's.\<close>

record 'u queue_processor =
  qp_repository_id :: repository_id
  qp_repository_name :: canonical_repository_name
  qp_delivery_id :: "'u delivery_id"
  qp_event_type :: event_type
  qp_action :: action
  qp_received_at :: instant

datatype pull_request_transition = Enqueue | Complete merge_queue_completion

definition transition :: "'u queue_processor \<Rightarrow> queue_pull_request \<Rightarrow> pull_request_transition option"
where
  "transition q projection = (case qp_action q of
     action.Enqueued \<Rightarrow> Some Enqueue
   | action.Dequeued \<Rightarrow> Some (Complete merge_queue_completion.UnclassifiedDequeue)
   | action.Closed \<Rightarrow>
       if pr_merged projection = Some True
       then Some (Complete merge_queue_completion.PullRequestMerged) else None
   | _ \<Rightarrow> None)"

definition complete_attempt ::
  "'u app_state \<Rightarrow> ambient \<Rightarrow> 'u queue_processor \<Rightarrow> pull_request_number \<Rightarrow> queue_completion
   \<Rightarrow> merge_queue_completion \<Rightarrow> (merge_queue_store_error, operation_outcome) result handler" where
  "complete_attempt st amb q number completion metric_completion = do {
     r \<leftarrow> instrument_database_operation database_operation.MergeQueueComplete
            (complete (lib_clock (app_libraries st))
               (amb_faults amb database_operation.MergeQueueComplete)
               (qp_repository_id q) number completion);
     case r of
       Inl e \<Rightarrow> State_Monad.return (Err e)
     | Inr (completion_transition.Completed enqueued_at) \<Rightarrow> do {
         record_metric (record_merge_queue_completion (qp_repository_name q) metric_completion
           (duration_since (completed_at completion) enqueued_at));
         State_Monad.return (Ok operation_outcome.Success) }
     | Inr completion_transition.AlreadyCompleted \<Rightarrow>
         State_Monad.return (Ok operation_outcome.NoOp)
     | Inr completion_transition.MissingActiveAttempt \<Rightarrow> do {
         record_metric (record_merge_queue_transition_failure (qp_repository_name q)
           queue_transition_failure_reason.MissingActiveAttempt);
         State_Monad.return (Ok operation_outcome.NoOp) } }"

definition apply_transition ::
  "'u app_state \<Rightarrow> ambient \<Rightarrow> 'u queue_processor \<Rightarrow> pull_request_transition \<Rightarrow> pull_request_number
   \<Rightarrow> queue_timestamp \<Rightarrow> (merge_queue_store_error, operation_outcome) result handler" where
  "apply_transition st amb q tr number event_timestamp = (case tr of
     Enqueue \<Rightarrow> do {
       r \<leftarrow> instrument_database_operation database_operation.MergeQueueEnqueue
              (enqueue (amb_faults amb database_operation.MergeQueueEnqueue)
                 (qp_repository_id q) number event_timestamp);
       State_Monad.return (case r of
         Inl e \<Rightarrow> Err e
       | Inr enqueue_transition.Created \<Rightarrow> Ok operation_outcome.Success
       | Inr enqueue_transition.AlreadyActive \<Rightarrow> Ok operation_outcome.NoOp) }
   | Complete completion \<Rightarrow>
       complete_attempt st amb q number
         (case completion of
            merge_queue_completion.PullRequestMerged \<Rightarrow>
              completion_pull_request_merged event_timestamp
          | merge_queue_completion.UnclassifiedDequeue \<Rightarrow>
              completion_unclassified_dequeue event_timestamp)
         completion)"

definition event_timestamp_of ::
  "time_lib \<Rightarrow> instant \<Rightarrow> queue_pull_request \<Rightarrow> queue_timestamp option" where
  "event_timestamp_of clk received_at projection =
     (case Option.bind (pr_updated_at projection) (\<lambda>v. result_ok (queue_timestamp_parse clk v)) of
        Some t \<Rightarrow> Some t
      | None \<Rightarrow> result_ok (queue_timestamp_from_datetime clk received_at))"

definition update_span_calls ::
  "'u app_state \<Rightarrow> 'u queue_processor \<Rightarrow> queue_pull_request \<Rightarrow> pull_request_number
   \<Rightarrow> pull_request_transition \<Rightarrow> span_calls" where
  "update_span_calls st q projection number tr =
     set_queue_entity queue_entity.PullRequest
     @ set_webhook_event (qp_event_type q) (qp_action q)
     @ set_repository_name (qp_repository_name q)
     @ set_repository_id (qp_repository_id q)
     @ set_delivery_id (lib_hyphenated (app_libraries st)) (qp_delivery_id q)
     @ set_pull_request_number number
     @ (case pull_request_head_sha projection of None \<Rightarrow> [] | Some sha \<Rightarrow> set_commit_sha sha)
     @ (case tr of Enqueue \<Rightarrow> []
        | Complete completion \<Rightarrow> set_merge_queue_completion completion)"

definition process ::
  "'u app_state \<Rightarrow> ambient \<Rightarrow> 'u queue_processor \<Rightarrow> queue_pull_request
   \<Rightarrow> (merge_queue_store_error, unit) result handler" where
  "process st amb q projection =
     (if qp_event_type q \<noteq> event_type.PullRequest then State_Monad.return (Ok ())
      else case pull_request_number_new (pr_number projection) of
        Inl _ \<Rightarrow> State_Monad.return (Ok ())
      | Inr number \<Rightarrow>
     (case transition q projection of
        None \<Rightarrow> State_Monad.return (Ok ())
      | Some tr \<Rightarrow>
     (case event_timestamp_of (lib_clock (app_libraries st)) (qp_received_at q) projection of
        None \<Rightarrow> State_Monad.return (Ok ())
      | Some event_timestamp \<Rightarrow> do {
          result \<leftarrow> apply_transition st amb q tr number event_timestamp;
          case result of
            Inr oc \<Rightarrow> do {
              record_span operation.MergeQueueUpdate
                (update_span_calls st q projection number tr @ set_status oc);
              State_Monad.return (Ok ()) }
          | Inl e \<Rightarrow> do {
              record_span operation.MergeQueueUpdate
                (update_span_calls st q projection number tr
                 @ add_failure_event operation_failure_reason.QueueState
                 @ set_status operation_outcome.Failure);
              State_Monad.return (Err e) } })))"

end
