(* ===== verification/Workflow_Job_Projection.thy ===== *)
theory Workflow_Job_Projection
  imports Event_Projections Domain
begin

section \<open>Completed workflow jobs\<close>

text \<open>
  \<open>src/api/workflow_job.rs\<close>: the admission view of a body, which only counts the steps, and the
  full projection into the job trace that \<open>Workflow_Emit\<close> emits.
\<close>

subsection \<open>Admission\<close>

text \<open>\<open>StepCountVisitor::visit_seq\<close>: a \<open>usize\<close> counter over ignored elements.\<close>

fun count_elements :: "nat \<Rightarrow> json list \<Rightarrow> nat option" where
  "count_elements count [] = Some count"
| "count_elements count (_ # vs) =
     (if count + 1 \<le> u64_max then count_elements (count + 1) vs else None)"

definition read_step_count :: "nat reader" where
  "read_step_count v = (case v of JArray vs \<Rightarrow> count_elements 0 vs | _ \<Rightarrow> None)"

record admission_projection =
  ap_id :: int
  ap_run_id :: int
  ap_run_attempt :: int
  ap_steps :: nat

definition read_admission :: "admission_projection reader" where
  "read_admission v = do {
     ms \<leftarrow> struct_members [(lit ''id'', False), (lit ''run_id'', False),
             (lit ''run_attempt'', False), (lit ''steps'', True)] v;
     ident \<leftarrow> required read_i64 (ms ! 0);
     run_id \<leftarrow> required read_i64 (ms ! 1);
     run_attempt \<leftarrow> required read_i64 (ms ! 2);
     steps \<leftarrow> defaulted 0 read_step_count (ms ! 3);
     Some \<lparr>ap_id = ident, ap_run_id = run_id, ap_run_attempt = run_attempt, ap_steps = steps\<rparr> }"

definition read_admission_envelope :: "admission_projection reader" where
  "read_admission_envelope v = do {
     ms \<leftarrow> struct_members [(lit ''workflow_job'', False)] v;
     required read_admission (ms ! 0) }"

record workflow_job_admission =
  adm_run_id :: workflow_run_id
  adm_run_attempt :: workflow_run_attempt
  adm_job_id :: workflow_job_id
  adm_step_count :: nat

definition inspect_completed_job ::
  "(byte list \<Rightarrow> json option) \<Rightarrow> byte list \<Rightarrow> workflow_job_admission option" where
  "inspect_completed_job from_slice body = do {
     v \<leftarrow> from_slice body;
     envelope \<leftarrow> read_admission_envelope v;
     run_id \<leftarrow> result_ok (workflow_run_id_new (ap_run_id envelope));
     run_attempt \<leftarrow> result_ok (workflow_run_attempt_new (ap_run_attempt envelope));
     job_id \<leftarrow> result_ok (workflow_job_id_new (ap_id envelope));
     Some \<lparr>adm_run_id = run_id, adm_run_attempt = run_attempt, adm_job_id = job_id,
           adm_step_count = ap_steps envelope\<rparr> }"

subsection \<open>The full projection\<close>

record workflow_step_projection =
  sp_number :: int
  sp_name :: "json option"
  sp_conclusion :: "json option"
  sp_started_at :: "json option"
  sp_completed_at :: "json option"

record workflow_job_projection =
  jp_id :: int
  jp_run_id :: int
  jp_run_attempt :: int
  jp_workflow_name :: "json option"
  jp_name :: "json option"
  jp_conclusion :: "json option"
  jp_head_sha :: "json option"
  jp_started_at :: "json option"
  jp_completed_at :: "json option"
  jp_pull_requests :: "int list"
  jp_steps :: "workflow_step_projection list"

definition read_job_pull_request :: "int reader" where
  "read_job_pull_request v = do {
     ms \<leftarrow> struct_members [(lit ''number'', False)] v;
     required read_i64 (ms ! 0) }"

definition read_workflow_step :: "workflow_step_projection reader" where
  "read_workflow_step v = do {
     ms \<leftarrow> struct_members [(lit ''number'', False), (lit ''name'', False),
             (lit ''conclusion'', False), (lit ''started_at'', False),
             (lit ''completed_at'', False)] v;
     number \<leftarrow> required read_i64 (ms ! 0);
     name \<leftarrow> optional read_value (ms ! 1);
     conclusion \<leftarrow> optional read_value (ms ! 2);
     started_at \<leftarrow> optional read_value (ms ! 3);
     completed_at \<leftarrow> optional read_value (ms ! 4);
     Some \<lparr>sp_number = number, sp_name = name, sp_conclusion = conclusion,
           sp_started_at = started_at, sp_completed_at = completed_at\<rparr> }"

definition read_workflow_job :: "workflow_job_projection reader" where
  "read_workflow_job v = do {
     ms \<leftarrow> struct_members [(lit ''id'', False), (lit ''run_id'', False),
             (lit ''run_attempt'', False), (lit ''workflow_name'', False), (lit ''name'', False),
             (lit ''conclusion'', False), (lit ''head_sha'', False), (lit ''started_at'', False),
             (lit ''completed_at'', False), (lit ''pull_requests'', True),
             (lit ''steps'', True)] v;
     ident \<leftarrow> required read_i64 (ms ! 0);
     run_id \<leftarrow> required read_i64 (ms ! 1);
     run_attempt \<leftarrow> required read_i64 (ms ! 2);
     workflow_name \<leftarrow> optional read_value (ms ! 3);
     name \<leftarrow> optional read_value (ms ! 4);
     conclusion \<leftarrow> optional read_value (ms ! 5);
     head_sha \<leftarrow> optional read_value (ms ! 6);
     started_at \<leftarrow> optional read_value (ms ! 7);
     completed_at \<leftarrow> optional read_value (ms ! 8);
     pull_requests \<leftarrow> defaulted [] (read_vec read_job_pull_request) (ms ! 9);
     steps \<leftarrow> defaulted [] (read_vec read_workflow_step) (ms ! 10);
     Some \<lparr>jp_id = ident, jp_run_id = run_id, jp_run_attempt = run_attempt,
           jp_workflow_name = workflow_name, jp_name = name, jp_conclusion = conclusion,
           jp_head_sha = head_sha, jp_started_at = started_at, jp_completed_at = completed_at,
           jp_pull_requests = pull_requests, jp_steps = steps\<rparr> }"

definition read_workflow_job_envelope :: "workflow_job_projection reader" where
  "read_workflow_job_envelope v = do {
     ms \<leftarrow> struct_members [(lit ''workflow_job'', False)] v;
     required read_workflow_job (ms ! 0) }"

text \<open>
  \<open>SystemTime\<close> holds whole seconds in an \<open>i64\<close>. An instant counts nanoseconds since the epoch;
  \<open>unix_timestamp\<close> and \<open>nanosecond\<close> are its floored quotient and remainder.
\<close>

definition epoch_checked_add :: "int \<Rightarrow> int \<Rightarrow> instant option" where
  "epoch_checked_add secs nanos =
     (if secs \<le> 9223372036854775807 then Some (secs * 1000000000 + nanos) else None)"

definition epoch_checked_sub :: "int \<Rightarrow> int \<Rightarrow> instant option" where
  "epoch_checked_sub secs nanos =
     (let t = - (secs * 1000000000 + nanos)
      in if - 9223372036854775808 \<le> t div 1000000000 then Some t else None)"

definition offset_datetime_to_system_time :: "instant \<Rightarrow> instant option" where
  "offset_datetime_to_system_time value =
     (let seconds = value div 1000000000; nanoseconds = value mod 1000000000
      in if 0 \<le> seconds then epoch_checked_add seconds nanoseconds
         else if nanoseconds = 0 then epoch_checked_sub \<bar>seconds\<bar> 0
         else epoch_checked_sub (\<bar>seconds\<bar> - 1) (1000000000 - nanoseconds))"

definition parse_timestamp :: "time_lib \<Rightarrow> json option \<Rightarrow> instant option" where
  "parse_timestamp clk v = do {
     text \<leftarrow> optional_str v;
     t \<leftarrow> parse_rfc3339 clk text;
     offset_datetime_to_system_time t }"

definition result_or_else :: "('e, 'a) result \<Rightarrow> 'a \<Rightarrow> 'a" where
  "result_or_else r d = (case r of Inl _ \<Rightarrow> d | Inr x \<Rightarrow> x)"

definition select_job_timing ::
  "instant option \<Rightarrow> instant option \<Rightarrow> instant \<Rightarrow> historical_timing" where
  "select_job_timing s e received_at =
     (case (s, e) of
        (Some s, Some e) \<Rightarrow> result_or_else (timing_reported s e) (timing_fallback e)
      | (None, Some e) \<Rightarrow> timing_fallback e
      | (_, None) \<Rightarrow> timing_fallback received_at)"

definition select_step_timing ::
  "instant option \<Rightarrow> instant option \<Rightarrow> historical_timing \<Rightarrow> historical_timing" where
  "select_step_timing s e parent =
     (case (s, e) of
        (Some s, Some e) \<Rightarrow>
          result_or_else (timing_reported_within_parent s e parent)
            (timing_fallback (timing_end parent))
      | _ \<Rightarrow> timing_fallback (timing_end parent))"

definition sanitize_display_name :: "json option \<Rightarrow> display_name option" where
  "sanitize_display_name v = Option.bind (optional_str v) display_name_sanitize"

definition normalize_conclusion :: "json option \<Rightarrow> workflow_conclusion" where
  "normalize_conclusion v = workflow_conclusion_normalize (optional_str v)"

definition parse_commit_sha :: "json option \<Rightarrow> commit_sha option" where
  "parse_commit_sha v = Option.bind (optional_str v) (\<lambda>sha. result_ok (commit_sha_parse sha))"

fun project_steps ::
  "time_lib \<Rightarrow> historical_timing \<Rightarrow> workflow_step_projection list \<Rightarrow> workflow_step_trace list option"
where
  "project_steps clk timing [] = Some []"
| "project_steps clk timing (step # steps) = do {
     s \<leftarrow> result_ok (workflow_step_trace_new (sp_number step)
            (sanitize_display_name (sp_name step))
            (normalize_conclusion (sp_conclusion step))
            (select_step_timing (parse_timestamp clk (sp_started_at step))
               (parse_timestamp clk (sp_completed_at step)) timing));
     rest \<leftarrow> project_steps clk timing steps;
     Some (s # rest) }"

definition matching_run_context ::
  "workflow_run_id \<Rightarrow> workflow_run_attempt \<Rightarrow> workflow_run_context option
   \<Rightarrow> workflow_run_context option" where
  "matching_run_context run_id run_attempt context =
     (case context of
        Some c \<Rightarrow> if ctx_run_id c = run_id \<and> ctx_run_attempt c = run_attempt then Some c else None
      | None \<Rightarrow> None)"

definition required_of_name :: "required_checks option \<Rightarrow> display_name option \<Rightarrow> bool option" where
  "required_of_name checks job_name =
     (case (checks, job_name) of
        (Some checks, Some name) \<Rightarrow>
          Some (required_checks_contains checks (display_name_as_str name))
      | _ \<Rightarrow> None)"

definition project_completed_job ::
  "time_lib \<Rightarrow> (byte list \<Rightarrow> json option) \<Rightarrow> byte list \<Rightarrow> canonical_repository_name \<Rightarrow> 'u delivery_id
   \<Rightarrow> instant \<Rightarrow> workflow_run_context option \<Rightarrow> required_checks option
   \<Rightarrow> 'u workflow_job_trace option" where
  "project_completed_job clk from_slice body repository_name delivery_id received_at
     workflow_run_context required_checks = do {
     received_at \<leftarrow> offset_datetime_to_system_time received_at;
     v \<leftarrow> from_slice body;
     p \<leftarrow> read_workflow_job_envelope v;
     run_id \<leftarrow> result_ok (workflow_run_id_new (jp_run_id p));
     run_attempt \<leftarrow> result_ok (workflow_run_attempt_new (jp_run_attempt p));
     job_id \<leftarrow> result_ok (workflow_job_id_new (jp_id p));
     let context = matching_run_context run_id run_attempt workflow_run_context;
         timing = select_job_timing (parse_timestamp clk (jp_started_at p))
           (parse_timestamp clk (jp_completed_at p)) received_at
     in do {
       steps \<leftarrow> project_steps clk timing (jp_steps p);
       let job_name = sanitize_display_name (jp_name p);
           required_flag = required_of_name required_checks job_name
       in Some \<lparr>job_repository_name = repository_name, job_delivery_id = delivery_id,
            job_workflow_name = sanitize_display_name (jp_workflow_name p), job_run_id = run_id,
            job_run_attempt = run_attempt, job_job_id = job_id, job_display_name = job_name,
            job_conclusion = normalize_conclusion (jp_conclusion p),
            job_head_sha = parse_commit_sha (jp_head_sha p),
            job_pull_requests = workflow_pull_requests_new
              (take 20 (List.map_filter (\<lambda>n. result_ok (pull_request_number_new n))
                 (jp_pull_requests p))),
            job_run_context = context, job_required = required_flag, job_timing = timing,
            job_steps = steps\<rparr> } }"

subsection \<open>Times\<close>

text \<open>Each of the three branches gives the instant itself, before and after the epoch.\<close>

lemma offset_datetime_to_system_time_value:
  "offset_datetime_to_system_time t = Some t' \<Longrightarrow> t' = t"
  using div_mult_mod_eq [of t 1000000000]
  by (auto simp: offset_datetime_to_system_time_def Let_def epoch_checked_add_def
      epoch_checked_sub_def split: if_splits)

lemma offset_datetime_to_system_time_total:
  assumes "- 9223372036854775808 \<le> t div 1000000000" and "t div 1000000000 \<le> 9223372036854775807"
  shows "offset_datetime_to_system_time t = Some t"
proof -
  let ?s = "t div 1000000000" and ?n = "t mod 1000000000"
  have "?s * 1000000000 + ?n = t" by simp
  then have a: "- (\<bar>?s\<bar> * 1000000000 + 0) = t" if "?s < 0" "?n = 0" using that by simp
  have b: "- ((\<bar>?s\<bar> - 1) * 1000000000 + (1000000000 - ?n)) = t" if "?s < 0"
    using that \<open>?s * 1000000000 + ?n = t\<close> by simp
  show ?thesis
    using assms a b
    by (simp add: offset_datetime_to_system_time_def Let_def epoch_checked_add_def
        epoch_checked_sub_def)
qed

lemma select_job_timing_ordered: "ordered_timing (select_job_timing s e r)"
  by (auto simp: select_job_timing_def result_or_else_def timing_reported_def timing_fallback_def
      ordered_timing_def split: option.split)

lemma select_step_timing_within:
  assumes "ordered_timing parent"
  shows "ordered_timing (select_step_timing s e parent)
    \<and> within_timing parent (select_step_timing s e parent)"
  using assms
  by (auto simp: select_step_timing_def result_or_else_def timing_reported_within_parent_def
      timing_fallback_def ordered_timing_def within_timing_def split: option.split)

subsection \<open>Steps\<close>

lemma count_elements_Some:
  "count_elements n vs = Some k \<Longrightarrow> k = n + length vs"
  by (induction n vs rule: count_elements.induct) (auto split: if_splits)

lemma project_steps_length:
  "project_steps clk timing ps = Some ss \<Longrightarrow> length ss = length ps"
  by (induction clk timing ps arbitrary: ss rule: project_steps.induct)
    (auto simp: Option.bind_eq_Some_conv)

lemma sanitize_display_name_sanitized: "pred_option sanitized_name (sanitize_display_name v)"
  using display_name_sanitize_sanitized
  by (cases "sanitize_display_name v") (auto simp: sanitize_display_name_def bind_eq_Some_conv)

lemma project_steps_timed:
  assumes "project_steps clk timing ps = Some ss" and "ordered_timing timing"
  shows "\<forall>s \<in> set ss. ordered_timing (step_timing s) \<and> within_timing timing (step_timing s)
    \<and> 0 < step_number s \<and> pred_option sanitized_name (step_display_name s)"
  using assms
proof (induction clk timing ps arbitrary: ss rule: project_steps.induct)
  case (2 clk timing p ps)
  then show ?case
    by (auto simp: Option.bind_eq_Some_conv result_ok_Some_iff workflow_step_trace_new_def
        select_step_timing_within sanitize_display_name_sanitized split: if_splits)
qed simp

subsection \<open>The projected job\<close>

lemma projected_job_parts:
  assumes "project_completed_job clk fs body rn d now ctx checks = Some job"
  obtains v p where "fs body = Some v" "read_workflow_job_envelope v = Some p"
    and "0 < jp_run_id p" "0 < jp_run_attempt p" "0 < jp_id p"
    and "job_run_id job = WorkflowRunId (jp_run_id p)"
      "job_run_attempt job = WorkflowRunAttempt (jp_run_attempt p)"
      "job_job_id job = WorkflowJobId (jp_id p)"
    and "job_timing job = select_job_timing (parse_timestamp clk (jp_started_at p))
           (parse_timestamp clk (jp_completed_at p)) now"
    and "project_steps clk (job_timing job) (jp_steps p) = Some (job_steps job)"
    and "job_display_name job = sanitize_display_name (jp_name p)"
    and "job_repository_name job = rn" "job_delivery_id job = d"
    and "job_run_context job = matching_run_context (job_run_id job) (job_run_attempt job) ctx"
    and "job_required job = required_of_name checks (job_display_name job)"
proof -
  obtain v p where v: "fs body = Some v" and p: "read_workflow_job_envelope v = Some p"
    using assms by (auto simp: project_completed_job_def bind_eq_Some_conv)
  show thesis
    by (rule that [OF v p])
      (use assms v p in \<open>auto simp: project_completed_job_def bind_eq_Some_conv Let_def
        workflow_id_new_Ok_iff dest!: offset_datetime_to_system_time_value\<close>)
qed

lemma projected_job_well_timed:
  assumes "project_completed_job clk fs body rn d now ctx checks = Some job"
  shows "well_timed_job job" and "pred_option sanitized_name (job_display_name job)"
    and "\<forall>s \<in> set (job_steps job). pred_option sanitized_name (step_display_name s)"
proof -
  obtain p :: workflow_job_projection where p: "job_timing job = select_job_timing
      (parse_timestamp clk (jp_started_at p)) (parse_timestamp clk (jp_completed_at p)) now"
    "project_steps clk (job_timing job) (jp_steps p) = Some (job_steps job)"
    "job_display_name job = sanitize_display_name (jp_name p)"
    by (rule projected_job_parts [OF assms]) blast
  have o: "ordered_timing (job_timing job)" by (simp add: p(1) select_job_timing_ordered)
  from project_steps_timed [OF p(2) o] o show "well_timed_job job"
    and "\<forall>s \<in> set (job_steps job). pred_option sanitized_name (step_display_name s)"
    by (auto simp: well_timed_job_def)
  show "pred_option sanitized_name (job_display_name job)"
    by (simp add: p(3) sanitize_display_name_sanitized)
qed

subsection \<open>Admission and projection read the same job\<close>

lemma admission_fields:
  assumes "read_admission v = Some a"
  shows "\<exists>ms. v = JObject ms \<or> (\<exists>vs. v = JArray vs \<and> length vs \<le> 4)"
proof (cases v)
  case (JArray vs)
  have "length vs \<le> length fs" if "array_members vs fs = Some xs" for vs fs xs
    using that by (induction vs fs arbitrary: xs rule: array_members.induct) (auto split: if_splits)
  with assms JArray show ?thesis
    by (fastforce simp: read_admission_def bind_eq_Some_conv struct_members_def)
qed (use assms in \<open>auto simp: read_admission_def struct_members_def\<close>)

lemma job_array_long:
  assumes "read_workflow_job (JArray vs) = Some p"
  shows "9 \<le> length vs"
proof -
  have "length (takeWhile (\<lambda>f. \<not> snd f) fs) \<le> length vs"
    if "array_members vs fs = Some xs" for vs :: "json list" and fs xs
    using that by (induction vs fs arbitrary: xs rule: array_members.induct) (auto split: if_splits)
  with assms show ?thesis
    by (fastforce simp: read_workflow_job_def bind_eq_Some_conv struct_members_def)
qed

lemma steps_counted:
  assumes "defaulted 0 read_step_count m = Some n"
    and "defaulted [] (read_vec read_workflow_step) m = Some ss"
  shows "length ss = n"
  using assms
  by (auto simp: defaulted_def read_step_count_def read_vec_def dest!: count_elements_Some
      length_read_all split: option.splits json.splits)

lemma admission_agrees:
  assumes a: "read_admission v = Some a" and p: "read_workflow_job v = Some p"
  shows "jp_id p = ap_id a" "jp_run_id p = ap_run_id a" "jp_run_attempt p = ap_run_attempt a"
    and "length (jp_steps p) = ap_steps a"
proof -
  obtain ms where v: "v = JObject ms"
    using admission_fields [OF a] job_array_long p by fastforce
  show "jp_id p = ap_id a" "jp_run_id p = ap_run_id a" "jp_run_attempt p = ap_run_attempt a"
    and "length (jp_steps p) = ap_steps a"
    using a p
    by (auto simp: v read_admission_def read_workflow_job_def struct_members_def bind_eq_Some_conv
        intro: steps_counted split: option.splits)
qed

lemma inspected_parts:
  assumes "inspect_completed_job fs body = Some a"
  obtains v p where "fs body = Some v" "read_admission_envelope v = Some p"
    and "a = \<lparr>adm_run_id = WorkflowRunId (ap_run_id p),
           adm_run_attempt = WorkflowRunAttempt (ap_run_attempt p),
           adm_job_id = WorkflowJobId (ap_id p), adm_step_count = ap_steps p\<rparr>"
  using assms
  by (auto simp: inspect_completed_job_def bind_eq_Some_conv workflow_id_new_Ok_iff)

lemma envelope_agrees:
  assumes "read_admission_envelope v = Some a" and "read_workflow_job_envelope v = Some p"
  obtains w where "read_admission w = Some a" and "read_workflow_job w = Some p"
  using assms
  by (auto simp: read_admission_envelope_def read_workflow_job_envelope_def bind_eq_Some_conv
      required_def)

text \<open>
  C25: When a body is both inspected and projected, the trace built from it has exactly as many steps
  as the inspection counted, and the same run, attempt and job; the step limit the handler enforces
  on the count therefore bounds the emitted spans. Every step's interval is ordered and lies inside
  the job's, step numbers are positive, and names are bounded text without control characters.
\<close>

theorem projected_job_matches_admission:
  assumes "inspect_completed_job fs body = Some a"
    and "project_completed_job clk fs body rn d now ctx checks = Some job"
  shows "length (job_steps job) = adm_step_count a
    \<and> job_run_id job = adm_run_id a \<and> job_run_attempt job = adm_run_attempt a
    \<and> job_job_id job = adm_job_id a
    \<and> ordered_timing (job_timing job)
    \<and> (\<forall>s \<in> set (job_steps job). ordered_timing (step_timing s)
          \<and> within_timing (job_timing job) (step_timing s) \<and> 0 < step_number s
          \<and> pred_option sanitized_name (step_display_name s))"
proof -
  obtain v and pa :: admission_projection where a: "fs body = Some v"
    "read_admission_envelope v = Some pa" and eq:
    "a = \<lparr>adm_run_id = WorkflowRunId (ap_run_id pa),
         adm_run_attempt = WorkflowRunAttempt (ap_run_attempt pa),
         adm_job_id = WorkflowJobId (ap_id pa), adm_step_count = ap_steps pa\<rparr>"
    by (rule inspected_parts [OF assms(1)]) blast
  obtain w and pj :: workflow_job_projection where j: "fs body = Some w"
    "read_workflow_job_envelope w = Some pj" and ids: "job_run_id job = WorkflowRunId (jp_run_id pj)"
    "job_run_attempt job = WorkflowRunAttempt (jp_run_attempt pj)"
    "job_job_id job = WorkflowJobId (jp_id pj)"
    and steps: "project_steps clk (job_timing job) (jp_steps pj) = Some (job_steps job)"
    by (rule projected_job_parts [OF assms(2)]) blast
  from a(1) j(1) have "w = v" by simp
  with envelope_agrees [OF a(2)] j(2) obtain u where
    "read_admission u = Some pa" "read_workflow_job u = Some pj" by metis
  note agrees = admission_agrees [OF this]
  show ?thesis
    using agrees ids eq project_steps_length [OF steps] projected_job_well_timed [OF assms(2)]
    by (auto simp: well_timed_job_def)
qed

definition sample_job_body :: json where
  "sample_job_body =
     JObject [(lit ''action'', JString (lit ''completed'')), (lit ''workflow_job'', JObject
       [(lit ''id'', JInt 3), (lit ''run_id'', JInt 1), (lit ''run_attempt'', JInt 1),
        (lit ''name'', JString (lit ''build'')), (lit ''conclusion'', JString (lit ''failure'')),
        (lit ''steps'', JArray [JObject [(lit ''number'', JInt 1), (lit ''name'', JNull)]])])]"

lemma projected_job_matches_admission_witness:
  "\<exists>a job. inspect_completed_job (\<lambda>_. Some sample_job_body) [] = Some a
     \<and> adm_step_count a = 1
     \<and> project_completed_job sample_clock (\<lambda>_. Some sample_job_body) []
         (CanonicalRepositoryName (lit ''o/r'')) (DeliveryId (0::nat)) 0 None None = Some job
     \<and> length (job_steps job) = 1"
proof -
  have i: "inspect_completed_job (\<lambda>_. Some sample_job_body) [] =
      Some \<lparr>adm_run_id = WorkflowRunId 1, adm_run_attempt = WorkflowRunAttempt 1,
        adm_job_id = WorkflowJobId 3, adm_step_count = 1\<rparr>"
    by (simp add: inspect_completed_job_def read_admission_envelope_def sample_job_body_def
        read_admission_def reader_defs read_step_count_def lit_def u64_max_def
        workflow_run_id_new_def workflow_run_attempt_new_def workflow_job_id_new_def)
  have "\<exists>job. project_completed_job sample_clock (\<lambda>_. Some sample_job_body) []
      (CanonicalRepositoryName (lit ''o/r'')) (DeliveryId (0::nat)) 0 None None = Some job"
    by (simp add: project_completed_job_def read_workflow_job_envelope_def sample_job_body_def
        read_workflow_job_def reader_defs read_workflow_step_def lit_def Let_def
        offset_datetime_to_system_time_def epoch_checked_add_def workflow_step_trace_new_def
        workflow_run_id_new_def workflow_run_attempt_new_def workflow_job_id_new_def)
  then obtain job where j: "project_completed_job sample_clock (\<lambda>_. Some sample_job_body) []
      (CanonicalRepositoryName (lit ''o/r'')) (DeliveryId (0::nat)) 0 None None = Some job" by blast
  from projected_job_matches_admission [OF i j] i j show ?thesis by simp
qed

end
