(* ===== verification/Required_Check_Refresh.thy ===== *)
theory Required_Check_Refresh
  imports Service
begin

section \<open>Out-of-band refresh of required checks\<close>

text \<open>
  \<open>src/github/refresh.rs\<close>. The channel of the refresher is the list \<open>w_refreshes\<close> of pending
  requests, closed once the refresher has stopped. \<open>source\<close> is the \<open>RequiredCheckSource\<close>, a
  GitHub client; \<open>now\<close> is the clock reading of one refresh.
\<close>

definition REFRESH_QUEUE_CAPACITY :: nat where "REFRESH_QUEUE_CAPACITY = 64"

text \<open>\<open>RequiredCheckRefreshHandle::request\<close>, over \<open>try_send\<close>: a full or closed channel drops it.\<close>

definition request_refresh :: "refresh_request \<Rightarrow> unit handler" where
  "request_refresh rq = do {
     w \<leftarrow> State_Monad.get;
     if w_refresher_stopped w \<or> REFRESH_QUEUE_CAPACITY \<le> length (w_refreshes w) then
       write_log \<lparr>log_level = LevelDebug, log_local = True,
         log_message = lit ''required-check refresh request dropped'',
         log_fields = [(lit ''outcome'', StringValue (lit ''queue_full''))]\<rparr>
     else State_Monad.update (w_refreshes_update (\<lambda>q. q @ [rq])) }"

definition refresh_log :: "log_level \<Rightarrow> string \<Rightarrow> string \<Rightarrow> key_value list \<Rightarrow> unit handler" where
  "refresh_log level oc message extra =
     write_log \<lparr>log_level = level, log_local = False, log_message = lit message,
       log_fields = (lit ''outcome'', StringValue (lit oc)) # extra\<rparr>"

type_synonym 'e required_check_source =
  "canonical_repository_name \<Rightarrow> workflow_branch \<Rightarrow> instant \<Rightarrow> ('e, required_checks) result"

definition refresh ::
  "'u app_state \<Rightarrow> 'e required_check_source \<Rightarrow> ambient \<Rightarrow> refresh_request \<Rightarrow> unit handler" where
  "refresh st source amb rq = do {
     cached \<leftarrow> instrument_database_operation database_operation.RequiredCheckGet
       (reading (get_fresh (lib_clock (app_libraries st)) (app_required_check_store st)
         (amb_faults amb database_operation.RequiredCheckGet) (rr_repository_id rq) (rr_branch rq)
         (amb_checks_at amb)));
     case cached of
       Inr (Some _) \<Rightarrow> State_Monad.return ()
     | Inl _ \<Rightarrow> refresh_log LevelWarn ''cache_read_failed'' ''required-check refresh skipped'' []
     | Inr None \<Rightarrow>
         (case source (rr_repository_name rq) (rr_branch rq) (amb_checks_at amb) of
            Inl _ \<Rightarrow> refresh_log LevelWarn ''fetch_failed'' ''required-check refresh failed'' []
          | Inr checks \<Rightarrow> do {
              r \<leftarrow> instrument_database_operation database_operation.RequiredCheckUpsert
                (upsert_checks (amb_faults amb database_operation.RequiredCheckUpsert)
                  (amb_sql_now amb database_operation.RequiredCheckUpsert)
                  (rr_repository_id rq) (rr_branch rq) checks);
              case r of
                Inl _ \<Rightarrow>
                  refresh_log LevelWarn ''cache_write_failed'' ''required-check refresh failed'' []
              | Inr _ \<Rightarrow>
                  refresh_log LevelDebug ''refreshed'' ''required-check cache updated''
                    [(lit ''check_count'', I64Value (int (required_checks_len checks)))] }) }"

text \<open>
  One turn of \<open>run\<close>: cancellation is tested first, then the oldest pending request is taken. The
  answer is whether the loop goes on; an empty channel waits.
\<close>

definition run_turn ::
  "'u app_state \<Rightarrow> 'e required_check_source \<Rightarrow> ambient \<Rightarrow> bool \<Rightarrow> bool handler" where
  "run_turn st source amb cancelled =
     (if cancelled then do {
        State_Monad.update (w_refresher_stopped_update (\<lambda>_. True));
        State_Monad.return False }
      else do {
        w \<leftarrow> State_Monad.get;
        case w_refreshes w of
          [] \<Rightarrow> State_Monad.return True
        | rq # rest \<Rightarrow> do {
            State_Monad.update (w_refreshes_update (\<lambda>_. rest));
            refresh st source amb rq;
            State_Monad.return True } })"

end
