(* ===== verification/Webhook.thy ===== *)
theory Webhook
  imports Queue_Processor Workflow_Job_Projection Required_Check_Refresh
begin

section \<open>The webhook endpoint\<close>

text \<open>
  \<open>src/api/webhook.rs\<close>, with the authenticator of \<open>src/security/webhook_auth.rs\<close> and the request
  middleware of \<open>src/app.rs\<close>. A request lists its headers under lower-case names; \<open>rq_body\<close> is what
  \<open>Bytes::from_request\<close> gives under the configured body limit, the body or the status of the
  rejection.
\<close>

record http_request =
  rq_method :: rstring
  rq_matched_path :: "rstring option"
  rq_headers :: "(rstring \<times> byte list) list"
  rq_body :: "(nat, byte list) result"

subsection \<open>Extraction\<close>

definition JSON_CONTENT_TYPE :: "byte list" where
  "JSON_CONTENT_TYPE = as_bytes (lit ''application/json'')"

definition validate_content_type :: "http_request \<Rightarrow> (app_error, unit) result" where
  "validate_content_type rq = (case map_of (rq_headers rq) (lit ''content-type'') of
     None \<Rightarrow> Err InvalidWebhook
   | Some v \<Rightarrow> if v = JSON_CONTENT_TYPE then Ok () else Err UnsupportedWebhookMediaType)"

definition required_header ::
  "'u libraries \<Rightarrow> http_request \<Rightarrow> rstring \<Rightarrow> (app_error, rstring) result" where
  "required_header libs rq name =
     (case Option.bind (map_of (rq_headers rq) name) (lib_to_str libs) of
        None \<Rightarrow> Err InvalidWebhook
      | Some v \<Rightarrow> if v = [] then Err InvalidWebhook else Ok v)"

definition map_body_rejection :: "nat \<Rightarrow> app_error" where
  "map_body_rejection status =
     (if status = 413 then WebhookPayloadTooLarge else InvalidWebhook)"

definition read_repository :: "rstring reader" where
  "read_repository v = Option.bind (struct_members [(lit ''full_name'', False)] v)
     (\<lambda>ms. required read_string (ms ! 0))"

definition read_webhook_repository :: "rstring reader" where
  "read_webhook_repository v = Option.bind (struct_members [(lit ''repository'', False)] v)
     (\<lambda>ms. required read_repository (ms ! 0))"

record 'u webhook_request =
  wq_body :: "byte list"
  wq_repository_name :: canonical_repository_name
  wq_event_type :: rstring
  wq_delivery_id :: "'u delivery_id"
  wq_signature :: webhook_signature

definition webhook_request_from_request ::
  "'u app_state \<Rightarrow> http_request \<Rightarrow> (app_error, 'u webhook_request) result" where
  "webhook_request_from_request st rq =
     (let libs = app_libraries st
      in and_then (validate_content_type rq) (\<lambda>_.
         and_then (required_header libs rq (lit ''x-github-event'')) (\<lambda>event_type.
         and_then (required_header libs rq (lit ''x-github-delivery'')) (\<lambda>delivery.
         and_then (map_err (\<lambda>_. InvalidWebhook) (delivery_id_parse (lib_parse_uuid libs) delivery))
           (\<lambda>delivery_id.
         and_then (required_header libs rq (lit ''x-hub-signature-256'')) (\<lambda>sig.
         and_then (map_err (\<lambda>_. InvalidWebhook)
             (webhook_signature_parse (store_crypto (app_repository_store st)) sig)) (\<lambda>signature.
         and_then (map_err map_body_rejection (rq_body rq)) (\<lambda>body.
         and_then (ok_or InvalidWebhook
             (Option.bind (lib_from_slice libs body) read_webhook_repository)) (\<lambda>full_name.
         and_then (map_err (\<lambda>_. InvalidWebhook) (canonical_repository_name_new full_name))
           (\<lambda>repository_name.
           Ok \<lparr>wq_body = body, wq_repository_name = repository_name, wq_event_type = event_type,
               wq_delivery_id = delivery_id, wq_signature = signature\<rparr>))))))))))"

subsection \<open>Authentication\<close>

definition authentication_error_from_store :: "repository_store_error \<Rightarrow> webhook_authentication_error"
where
  "authentication_error_from_store e = (case e of
     repository_store_error.AuthenticationFailed \<Rightarrow> webhook_authentication_error.Unauthorized
   | _ \<Rightarrow> webhook_authentication_error.Unavailable)"

definition verify_signature ::
  "crypto_lib \<Rightarrow> repository_secret \<Rightarrow> webhook_signature \<Rightarrow> byte list
   \<Rightarrow> (webhook_authentication_error, unit) result" where
  "verify_signature cl secret signature request_body =
     (case hmac_sha256 cl (secret_bytes secret) request_body of
        None \<Rightarrow> Err webhook_authentication_error.Unavailable
      | Some tag \<Rightarrow>
          if tag = signature_digest signature then Ok ()
          else Err webhook_authentication_error.Unauthorized)"

definition authenticate_webhook ::
  "'u app_state \<Rightarrow> ambient \<Rightarrow> canonical_repository_name \<Rightarrow> webhook_signature \<Rightarrow> byte list
   \<Rightarrow> (webhook_authentication_error, repository_id) result handler" where
  "authenticate_webhook st amb repository_name signature request_body = do {
     r \<leftarrow> instrument_database_operation database_operation.RepositoryAuthenticate
       (reading (authentication_material (app_repository_store st)
         (amb_faults amb database_operation.RepositoryAuthenticate) repository_name));
     State_Monad.return (case r of
       Inl e \<Rightarrow> Err (authentication_error_from_store e)
     | Inr (repository_id, secret) \<Rightarrow>
         and_then (verify_signature (store_crypto (app_repository_store st)) secret signature
           request_body) (\<lambda>_. Ok repository_id)) }"

end
