(* ===== verification/Webhook_Handler.thy ===== *)
theory Webhook_Handler
  imports Webhook
begin

section \<open>Processing an authenticated delivery\<close>

text \<open>
  \<open>webhook_handler\<close> of \<open>src/api/webhook.rs\<close>: authentication, the delivery claim, and the
  specialised processing of workflow runs, workflow jobs, merge groups and pull requests. Each
  definition is one block of the handler or one of its helper functions, in its order of effects.
\<close>

subsection \<open>Failures\<close>

definition failure_log :: "failure_stage \<Rightarrow> rstring \<Rightarrow> string \<Rightarrow> log_line" where
  "failure_log stage correlation_id message =
     \<lparr>log_level = LevelError, log_local = False, log_message = lit message,
      log_fields = [(lit ''stage'', StringValue (failure_stage_as_str stage)),
        (lit ''result'', StringValue (webhook_result_as_str webhook_result.Unavailable)),
        (lit ''error_correlation_id'', StringValue correlation_id)]\<rparr>"

definition record_failure_logged ::
  "'u app_state \<Rightarrow> canonical_repository_name option \<Rightarrow> failure_stage \<Rightarrow> string \<Rightarrow> app_error handler"
where
  "record_failure_logged st repository_name stage message = do {
     record_metric (record_failure repository_name stage);
     correlation_id \<leftarrow> new_correlation_id;
     write_log (failure_log stage
       (case correlation_id of ErrorCorrelationId n \<Rightarrow> lib_uuid_text (app_libraries st) n) message);
     State_Monad.return (WebhookUnavailable correlation_id) }"

definition unavailable_error ::
  "'u app_state \<Rightarrow> canonical_repository_name option \<Rightarrow> failure_stage \<Rightarrow> app_error handler" where
  "unavailable_error st repository_name stage =
     record_failure_logged st repository_name stage ''GitHub webhook processing failed''"

definition record_queue_state_failure :: "'u app_state \<Rightarrow> canonical_repository_name \<Rightarrow> unit handler"
where
  "record_queue_state_failure st repository_name = do {
     _ \<leftarrow> record_failure_logged st (Some repository_name) failure_stage.QueueState
       ''GitHub webhook processing failed'';
     State_Monad.return () }"

definition record_workflow_link_failure ::
  "'u app_state \<Rightarrow> canonical_repository_name \<Rightarrow> unit handler" where
  "record_workflow_link_failure st repository_name = do {
     _ \<leftarrow> record_failure_logged st (Some repository_name) failure_stage.WorkflowLink
       ''workflow-job link persistence failed'';
     State_Monad.return () }"

definition trace_rejection_log ::
  "workflow_trace_rejection_reason \<Rightarrow> key_value list \<Rightarrow> string \<Rightarrow> log_line" where
  "trace_rejection_log reason extra message =
     \<lparr>log_level = LevelWarn, log_local = False, log_message = lit message,
      log_fields = (lit ''reason'', StringValue (workflow_trace_rejection_reason_as_str reason))
        # extra\<rparr>"

subsection \<open>Workflow runs\<close>

definition record_pipeline_trace_rejection ::
  "'u app_state \<Rightarrow> 'u webhook_request \<Rightarrow> workflow_run_context \<Rightarrow> nat \<Rightarrow> unit handler" where
  "record_pipeline_trace_rejection st request context job_count = do {
     record_metric (record_workflow_trace_rejection (wq_repository_name request)
       workflow_trace_rejection_reason.TooManyJobs);
     write_log (trace_rejection_log workflow_trace_rejection_reason.TooManyJobs
       [(lit ''repository_name'', StringValue (name_as_str (wq_repository_name request))),
        (lit ''workflow_run_id'', I64Value (run_id_get (ctx_run_id context))),
        (lit ''workflow_run_attempt'', I64Value (run_attempt_get (ctx_run_attempt context))),
        (lit ''delivery_id'', StringValue (delivery_id_encode_lower
           (lib_hyphenated (app_libraries st)) (wq_delivery_id request))),
        (lit ''job_count'', I64Value (int job_count)),
        (lit ''job_limit'', I64Value (int MAX_PIPELINE_JOB_SPANS))]
       ''pipeline-run summary trace rejected'') }"

text \<open>What the emitter exports; \<open>None\<close> is its panic.\<close>

definition exporting :: "(exported_span list \<times> synthetic_workflow_error list) option \<Rightarrow> unit handler"
where
  "exporting out = (case out of
     None \<Rightarrow> panicking
   | Some (spans, reports) \<Rightarrow> do {
       State_Monad.update (w_exported_update (\<lambda>s. s @ spans));
       State_Monad.update (w_reports_update (\<lambda>r. r @ reports)) })"

definition emit_pipeline_trace ::
  "'u app_state \<Rightarrow> ambient \<Rightarrow> repository_id \<Rightarrow> 'u webhook_request \<Rightarrow> workflow_run_context
   \<Rightarrow> unit handler" where
  "emit_pipeline_trace st amb repository_id request context =
     (if \<not> emitter_is_enabled (app_workflow_trace_emitter st) then State_Monad.return ()
      else do {
        listed \<leftarrow> instrument_database_operation database_operation.WorkflowJobLinkList
          (reading (list_links (lib_otel (app_libraries st))
            (amb_faults amb database_operation.WorkflowJobLinkList) repository_id
            (ctx_run_id context) (ctx_run_attempt context) (MAX_PIPELINE_JOB_SPANS + 1)));
        case listed of
          Inl _ \<Rightarrow> record_workflow_link_failure st (wq_repository_name request)
        | Inr jobs \<Rightarrow>
            if jobs = [] then State_Monad.return ()
            else if MAX_PIPELINE_JOB_SPANS < length jobs
            then record_pipeline_trace_rejection st request context (length jobs)
            else (case project_run_summary (lib_from_slice (app_libraries st)) (wq_body request) of
                None \<Rightarrow> State_Monad.return ()
              | Some summary \<Rightarrow>
                  (case pipeline_run_trace_new
                      \<lparr>prp_repository_name = wq_repository_name request,
                       prp_delivery_id = wq_delivery_id request,
                       prp_workflow_name = rs_workflow_name summary,
                       prp_head_sha = rs_head_sha summary,
                       prp_pull_requests = rs_pull_requests summary,
                       prp_run_context = context, prp_jobs = jobs\<rparr> of
                     None \<Rightarrow> State_Monad.return ()
                   | Some pipeline \<Rightarrow> do {
                       w \<leftarrow> State_Monad.get;
                       exporting (emit_pipeline (store_crypto (app_repository_store st))
                         (lib_hyphenated (app_libraries st)) (app_workflow_trace_emitter st)
                         (length (w_exported w)) pipeline) })) })"

definition process_workflow_run ::
  "'u app_state \<Rightarrow> ambient \<Rightarrow> repository_id \<Rightarrow> 'u webhook_request \<Rightarrow> event_type \<Rightarrow> action
   \<Rightarrow> (app_error, unit) result handler" where
  "process_workflow_run st amb repository_id request event_type act =
     (if event_type \<noteq> event_type.WorkflowRun then State_Monad.return (Ok ())
      else case project_context (lib_from_slice (app_libraries st)) (wq_body request) of
        None \<Rightarrow> State_Monad.return (Ok ())
      | Some context \<Rightarrow> do {
          r \<leftarrow> instrument_database_operation database_operation.WorkflowRunUpsert
            (upsert_run (amb_faults amb database_operation.WorkflowRunUpsert)
              (amb_sql_now amb database_operation.WorkflowRunUpsert) repository_id context);
          case r of
            Inl _ \<Rightarrow> do {
              e \<leftarrow> unavailable_error st (Some (wq_repository_name request)) failure_stage.Database;
              State_Monad.return (Err e) }
          | Inr _ \<Rightarrow> do {
              (if act = action.Completed
               then emit_pipeline_trace st amb repository_id request context
               else State_Monad.return ());
              State_Monad.return (Ok ()) } })"

subsection \<open>Workflow jobs\<close>

definition record_step_rejection ::
  "'u app_state \<Rightarrow> canonical_repository_name \<Rightarrow> 'u delivery_id \<Rightarrow> workflow_job_admission \<Rightarrow> nat
   \<Rightarrow> unit handler" where
  "record_step_rejection st repository_name delivery_id admission step_limit = do {
     record_metric (record_workflow_trace_rejection repository_name
       workflow_trace_rejection_reason.TooManySteps);
     write_log (trace_rejection_log workflow_trace_rejection_reason.TooManySteps
       [(lit ''repository_name'', StringValue (name_as_str repository_name)),
        (lit ''workflow_run_id'', I64Value (run_id_get (adm_run_id admission))),
        (lit ''workflow_run_attempt'', I64Value (run_attempt_get (adm_run_attempt admission))),
        (lit ''workflow_job_id'', I64Value (job_id_get (adm_job_id admission))),
        (lit ''delivery_id'', StringValue (delivery_id_encode_lower
           (lib_hyphenated (app_libraries st)) delivery_id)),
        (lit ''step_count'', I64Value (int (adm_step_count admission))),
        (lit ''step_limit'', I64Value (int step_limit))]
       ''completed workflow-job trace rejected'') }"

definition resolve_required_checks ::
  "'u app_state \<Rightarrow> ambient \<Rightarrow> repository_id \<Rightarrow> canonical_repository_name
   \<Rightarrow> workflow_run_context option \<Rightarrow> required_checks option handler" where
  "resolve_required_checks st amb repository_id repository_name context =
     (case Option.bind context ctx_target_branch of
        None \<Rightarrow> State_Monad.return None
      | Some branch \<Rightarrow> do {
          r \<leftarrow> instrument_database_operation database_operation.RequiredCheckGet
            (reading (get_fresh (lib_clock (app_libraries st)) (app_required_check_store st)
              (amb_faults amb database_operation.RequiredCheckGet) repository_id branch
              (amb_checks_at amb)));
          case r of
            Inr (Some checks) \<Rightarrow> State_Monad.return (Some checks)
          | Inl _ \<Rightarrow> do {
              write_log \<lparr>log_level = LevelDebug, log_local = True,
                log_message = lit ''workflow job required status is unknown'',
                log_fields = [(lit ''outcome'',
                  StringValue (lit ''required_check_cache_unavailable''))]\<rparr>;
              State_Monad.return None }
          | Inr None \<Rightarrow> do {
              (if app_required_check_refresher st
               then request_refresh \<lparr>rr_repository_id = repository_id,
                      rr_repository_name = repository_name, rr_branch = branch\<rparr>
               else State_Monad.return ());
              State_Monad.return None } })"

text \<open>Emission of one projected job, and the link that the run's own trace later needs.\<close>

definition emit_and_link ::
  "'u app_state \<Rightarrow> ambient \<Rightarrow> repository_id \<Rightarrow> canonical_repository_name \<Rightarrow> 'u workflow_job_trace
   \<Rightarrow> unit handler" where
  "emit_and_link st amb repository_id repository_name job = do {
     w \<leftarrow> State_Monad.get;
     let out = emit (lib_hyphenated (app_libraries st)) (app_workflow_trace_emitter st)
           (length (w_exported w)) job
     in do {
       exporting (map_option (\<lambda>x. (em_spans x, em_reports x)) out);
       case Option.bind out em_identity of
         None \<Rightarrow> State_Monad.return ()
       | Some identity \<Rightarrow> do {
           r \<leftarrow> instrument_database_operation database_operation.WorkflowJobLinkRecord
             (record_link (lib_otel (app_libraries st))
               (amb_faults amb database_operation.WorkflowJobLinkRecord)
               (amb_sql_now amb database_operation.WorkflowJobLinkRecord) repository_id job identity);
           case r of
             Inl _ \<Rightarrow> record_workflow_link_failure st repository_name
           | Inr _ \<Rightarrow> State_Monad.return () } } }"

definition process_workflow_job ::
  "'u app_state \<Rightarrow> ambient \<Rightarrow> repository_id \<Rightarrow> 'u webhook_request \<Rightarrow> event_type \<Rightarrow> action
   \<Rightarrow> (app_error, unit) result handler" where
  "process_workflow_job st amb repository_id request event_type act =
     (if \<not> (event_type = event_type.WorkflowJob \<and> act = action.Completed)
      then State_Monad.return (Ok ())
      else case inspect_completed_job (lib_from_slice (app_libraries st)) (wq_body request) of
        None \<Rightarrow> State_Monad.return (Ok ())
      | Some admission \<Rightarrow> do {
          record_metric (observe_workflow_job_steps (wq_repository_name request)
            (adm_step_count admission));
          if app_workflow_job_max_steps st < adm_step_count admission then do {
            record_step_rejection st (wq_repository_name request) (wq_delivery_id request) admission
              (app_workflow_job_max_steps st);
            State_Monad.return (Ok ()) }
          else do {
            r \<leftarrow> instrument_database_operation database_operation.WorkflowRunGet
              (reading (get_run (amb_faults amb database_operation.WorkflowRunGet) repository_id
                (adm_run_id admission) (adm_run_attempt admission)));
            case r of
              Inl _ \<Rightarrow> do {
                e \<leftarrow> unavailable_error st (Some (wq_repository_name request))
                  failure_stage.Database;
                State_Monad.return (Err e) }
            | Inr context \<Rightarrow> do {
                checks \<leftarrow> resolve_required_checks st amb repository_id
                  (wq_repository_name request) context;
                case project_completed_job (lib_clock (app_libraries st))
                    (lib_from_slice (app_libraries st)) (wq_body request)
                    (wq_repository_name request) (wq_delivery_id request) (amb_received_at amb)
                    context checks of
                  None \<Rightarrow> State_Monad.return (Ok ())
                | Some job \<Rightarrow> do {
                    emit_and_link st amb repository_id (wq_repository_name request) job;
                    State_Monad.return (Ok ()) } } } })"

subsection \<open>Merge groups and pull requests\<close>

definition process_merge_group ::
  "'u app_state \<Rightarrow> repository_id \<Rightarrow> 'u webhook_request \<Rightarrow> event_projection \<Rightarrow> event_type \<Rightarrow> action
   \<Rightarrow> unit handler" where
  "process_merge_group st repository_id request projection event_type act =
     (case merge_group_transition_of projection event_type act of
        None \<Rightarrow> State_Monad.return ()
      | Some tr \<Rightarrow> do {
          record_metric (record_merge_group_event (wq_repository_name request) (mg_action tr)
            (mg_reason tr));
          record_span operation.MergeQueueUpdate
            (set_queue_entity queue_entity.MergeGroup
             @ set_webhook_event event_type act
             @ set_merge_group_transition (mg_action tr) (mg_reason tr)
             @ set_repository_name (wq_repository_name request)
             @ set_repository_id repository_id
             @ set_delivery_id (lib_hyphenated (app_libraries st)) (wq_delivery_id request)
             @ (case mg_head_sha tr of None \<Rightarrow> [] | Some sha \<Rightarrow> set_commit_sha sha)
             @ set_status operation_outcome.Success) })"

definition process_pull_request ::
  "'u app_state \<Rightarrow> ambient \<Rightarrow> repository_id \<Rightarrow> 'u webhook_request \<Rightarrow> event_projection \<Rightarrow> event_type
   \<Rightarrow> action \<Rightarrow> unit handler" where
  "process_pull_request st amb repository_id request projection event_type act =
     (case ep_pull_request projection of
        None \<Rightarrow> State_Monad.return ()
      | Some pull_request \<Rightarrow> do {
          r \<leftarrow> process st amb
            \<lparr>qp_repository_id = repository_id, qp_repository_name = wq_repository_name request,
             qp_delivery_id = wq_delivery_id request, qp_event_type = event_type,
             qp_action = act, qp_received_at = amb_received_at amb\<rparr> pull_request;
          case r of
            Inl _ \<Rightarrow> record_queue_state_failure st (wq_repository_name request)
          | Inr _ \<Rightarrow> State_Monad.return () })"

subsection \<open>One delivery\<close>

text \<open>The branch of a new claim.\<close>

definition process_new_delivery ::
  "'u app_state \<Rightarrow> ambient \<Rightarrow> repository_id \<Rightarrow> 'u webhook_request \<Rightarrow> event_projection \<Rightarrow> event_type
   \<Rightarrow> action \<Rightarrow> (app_error, operation_outcome) result handler" where
  "process_new_delivery st amb repository_id request projection event_type act = do {
     record_metric (observe_event (wq_repository_name request) event_type act
       (length (wq_body request)));
     r \<leftarrow> process_workflow_run st amb repository_id request event_type act;
     case r of
       Inl e \<Rightarrow> State_Monad.return (Err e)
     | Inr _ \<Rightarrow> do {
         r \<leftarrow> process_workflow_job st amb repository_id request event_type act;
         case r of
           Inl e \<Rightarrow> State_Monad.return (Err e)
         | Inr _ \<Rightarrow> do {
             process_merge_group st repository_id request projection event_type act;
             process_pull_request st amb repository_id request projection event_type act;
             State_Monad.return (Ok operation_outcome.Success) } } }"

text \<open>
  The processing block: its answer, with the attributes it sets on the processing span.
\<close>

definition process_delivery ::
  "'u app_state \<Rightarrow> ambient \<Rightarrow> repository_id \<Rightarrow> 'u webhook_request
   \<Rightarrow> (span_calls \<times> (app_error, operation_outcome) result) handler" where
  "process_delivery st amb repository_id request =
     (case Option.bind (lib_from_slice (app_libraries st) (wq_body request)) read_event_projection of
        None \<Rightarrow> State_Monad.return ([], Err InvalidWebhook)
      | Some projection \<Rightarrow>
          (let event_type = normalize_event_type (wq_event_type request);
               act = normalize_action (ep_action projection)
           in do {
             claim \<leftarrow> instrument_database_operation database_operation.DeliveryClaim
               (claim_delivery (lib_hyphenated (app_libraries st))
                 (amb_faults amb database_operation.DeliveryClaim)
                 (amb_sql_now amb database_operation.DeliveryClaim) (wq_delivery_id request));
             r \<leftarrow> (case claim of
                 Inr delivery_claim.Duplicate \<Rightarrow> do {
                   record_metric (record_duplicate (wq_repository_name request));
                   State_Monad.return (Ok operation_outcome.Duplicate) }
               | Inr delivery_claim.New \<Rightarrow>
                   process_new_delivery st amb repository_id request projection event_type act
               | Inl _ \<Rightarrow> do {
                   e \<leftarrow> unavailable_error st (Some (wq_repository_name request))
                     failure_stage.DeliveryClaim;
                   State_Monad.return (Err e) });
             State_Monad.return (set_webhook_event event_type act, r) }))"

definition webhook_handler ::
  "'u app_state \<Rightarrow> ambient \<Rightarrow> 'u webhook_request \<Rightarrow> (app_error, nat) result handler" where
  "webhook_handler st amb request =
     (let hyphenated = lib_hyphenated (app_libraries st);
          authenticating = set_repository_name (wq_repository_name request)
            @ set_delivery_id hyphenated (wq_delivery_id request)
      in do {
        authentication \<leftarrow> authenticate_webhook st amb (wq_repository_name request)
          (wq_signature request) (wq_body request);
        case authentication of
          Inl webhook_authentication_error.Unauthorized \<Rightarrow> do {
            record_span operation.WebhookAuthenticate
              (authenticating @ set_status operation_outcome.Failure);
            State_Monad.return (Err UnauthorizedWebhook) }
        | Inl webhook_authentication_error.Unavailable \<Rightarrow> do {
            e \<leftarrow> unavailable_error st None failure_stage.Authentication;
            record_span operation.WebhookAuthenticate
              (authenticating @ set_status operation_outcome.Failure);
            State_Monad.return (Err e) }
        | Inr repository_id \<Rightarrow> do {
            context_authenticate (wq_repository_name request);
            record_span operation.WebhookAuthenticate
              (authenticating @ set_repository_id repository_id
               @ set_status operation_outcome.Success);
            processed \<leftarrow> process_delivery st amb repository_id request;
            case processed of (calls, processing) \<Rightarrow> do {
              record_span operation.WebhookProcess
                (set_repository_name (wq_repository_name request)
                 @ set_repository_id repository_id
                 @ set_delivery_id hyphenated (wq_delivery_id request)
                 @ calls
                 @ set_status (case processing of Inr oc \<Rightarrow> oc
                               | Inl _ \<Rightarrow> operation_outcome.Failure));
              State_Monad.return (and_then processing (\<lambda>_. Ok 204)) } } })"

subsection \<open>The request pipeline\<close>

text \<open>\<open>result_for_status\<close> and the line it logs for a status the endpoint does not produce.\<close>

definition result_for_status :: "nat \<Rightarrow> webhook_result \<times> log_line list" where
  "result_for_status status =
     (if status = 204 then (webhook_result.Accepted, [])
      else if status = 400 then (webhook_result.Malformed, [])
      else if status = 401 then (webhook_result.Unauthorized, [])
      else if status = 413 then (webhook_result.TooLarge, [])
      else if status = 415 then (webhook_result.Unsupported, [])
      else if status = 503 then (webhook_result.Unavailable, [])
      else (webhook_result.Unavailable,
        [\<lparr>log_level = LevelError, log_local = False,
          log_message = lit ''unexpected GitHub webhook response status'',
          log_fields = [(lit ''status'', I64Value (int status)),
            (lit ''result'',
              StringValue (webhook_result_as_str webhook_result.Unavailable))]\<rparr>]))"

text \<open>The extractor and the handler; \<open>None\<close> is a panic while the error is converted.\<close>

definition webhook_endpoint ::
  "'u app_state \<Rightarrow> ambient \<Rightarrow> http_request \<Rightarrow> response option handler" where
  "webhook_endpoint st amb rq = do {
     r \<leftarrow> (case webhook_request_from_request st rq of
         Inl e \<Rightarrow> State_Monad.return (Err e)
       | Inr request \<Rightarrow> webhook_handler st amb request);
     case r of
       Inr status \<Rightarrow>
         State_Monad.return (Some \<lparr>rsp_status = status, rsp_headers = [], rsp_body = None\<rparr>)
     | Inl e \<Rightarrow>
         (case app_error_into_response (lib_uuid_text (app_libraries st)) e of
            None \<Rightarrow> do { panicking; State_Monad.return None }
          | Some (response, logs) \<Rightarrow> do {
              State_Monad.update (w_logs_update (\<lambda>l. l @ logs));
              State_Monad.return (Some response) }) }"

definition observe_webhook_request ::
  "ambient \<Rightarrow> response option handler \<Rightarrow> response option handler" where
  "observe_webhook_request amb inner = do {
     answer \<leftarrow> inner;
     case answer of
       None \<Rightarrow> State_Monad.return None
     | Some response \<Rightarrow>
         (case result_for_status (rsp_status response) of (result, logs) \<Rightarrow> do {
            State_Monad.update (w_logs_update (\<lambda>l. l @ logs));
            w \<leftarrow> State_Monad.get;
            record_metric (observe_request (w_repository w) result (amb_elapsed amb));
            write_log \<lparr>log_level = LevelDebug, log_local = True,
              log_message = lit ''GitHub webhook request processed'',
              log_fields = [(lit ''result'', StringValue (webhook_result_as_str result))]\<rparr>;
            State_Monad.return (Some response) }) }"

text \<open>\<open>observe_http_request\<close> of \<open>src/app.rs\<close> around every route.\<close>

definition observe_http_request ::
  "http_request \<Rightarrow> response option handler \<Rightarrow> response option handler" where
  "observe_http_request rq inner = do {
     State_Monad.update (w_repository_update (\<lambda>_. None));
     answer \<leftarrow> inner;
     case answer of
       None \<Rightarrow> State_Monad.return None
     | Some response \<Rightarrow> do {
         w \<leftarrow> State_Monad.get;
         record_span operation.HttpRequest
           (set_http_method (rq_method rq) @ set_http_route (rq_matched_path rq)
            @ (case w_repository w of None \<Rightarrow> [] | Some n \<Rightarrow> set_repository_name n)
            @ set_http_response (rsp_status response));
         State_Monad.return (Some response) } }"

definition serve_webhook ::
  "'u app_state \<Rightarrow> ambient \<Rightarrow> http_request \<Rightarrow> response option handler" where
  "serve_webhook st amb rq =
     observe_http_request rq (observe_webhook_request amb (webhook_endpoint st amb rq))"

end
