(* ===== verification/Repositories_Api.thy ===== *)
theory Repositories_Api
  imports Webhook_Handler
begin

section \<open>The repository administration API\<close>

text \<open>
  \<open>src/api/repositories.rs\<close>. A routed request is an \<open>api_call\<close>: the router and the extraction of the
  path segment are axum's. \<open>payload\<close> is the JSON value of the body, \<open>None\<close> where the \<open>Json\<close>
  extractor rejects the request; the reading of the value into the request struct follows here. The
  extractor \<open>AdminAuthorized\<close> is the first argument of every handler, so it runs first.
\<close>

datatype api_call =
    CreateRepository "json option"
  | ListRepositories
  | GetRepository rstring
  | UpdateRepository rstring "json option"
  | DeleteRepository rstring

definition admin_authorized :: "'u app_state \<Rightarrow> http_request \<Rightarrow> (app_error, unit) result" where
  "admin_authorized st rq =
     map_err app_error.Authentication
       (authenticate_admin (store_crypto (app_repository_store st)) (app_admin_authenticator st)
         (Option.bind (map_of (rq_headers rq) (lit ''authorization''))
            (lib_to_str (app_libraries st))))"

subsection \<open>Requests and responses\<close>

record create_repository_request =
  cr_full_name :: rstring
  cr_webhook_secret :: rstring
  cr_enabled :: bool

definition enabled_by_default :: bool where "enabled_by_default = True"

definition read_create_request :: "create_repository_request reader" where
  "read_create_request v =
     (let members = [(lit ''full_name'', False), (lit ''webhook_secret'', False),
            (lit ''enabled'', True)]
      in if no_unknown_members members v then do {
           ms \<leftarrow> struct_members members v;
           full_name \<leftarrow> required read_string (ms ! 0);
           webhook_secret \<leftarrow> required read_string (ms ! 1);
           enabled \<leftarrow> defaulted enabled_by_default read_bool (ms ! 2);
           Some \<lparr>cr_full_name = full_name, cr_webhook_secret = webhook_secret,
                 cr_enabled = enabled\<rparr> }
         else None)"

record patch_repository_request =
  pt_full_name :: "rstring option"
  pt_webhook_secret :: "rstring option"
  pt_enabled :: "bool option"

definition read_patch_request :: "patch_repository_request reader" where
  "read_patch_request v =
     (let members = [(lit ''full_name'', False), (lit ''webhook_secret'', False),
            (lit ''enabled'', False)]
      in if no_unknown_members members v then do {
           ms \<leftarrow> struct_members members v;
           full_name \<leftarrow> optional read_string (ms ! 0);
           webhook_secret \<leftarrow> optional read_string (ms ! 1);
           enabled \<leftarrow> optional read_bool (ms ! 2);
           Some \<lparr>pt_full_name = full_name, pt_webhook_secret = webhook_secret,
                 pt_enabled = enabled\<rparr> }
         else None)"

definition repository_response :: "repository_metadata \<Rightarrow> json" where
  "repository_response md =
     JObject [(lit ''id'', JInt (repository_id_get (md_id md))),
       (lit ''full_name'', JString (name_as_str (md_full_name md))),
       (lit ''enabled'', JBool (md_enabled md)),
       (lit ''created_at'', JString (md_created_at md)),
       (lit ''updated_at'', JString (md_updated_at md))]"

definition json_response :: "nat \<Rightarrow> json \<Rightarrow> response" where
  "json_response status body = \<lparr>rsp_status = status, rsp_headers = [], rsp_body = Some body\<rparr>"

definition parse_repository_id :: "rstring \<Rightarrow> (app_error, repository_id) result" where
  "parse_repository_id raw_id =
     ok_or app_error.InvalidRequest (Option.bind (parse_i64 raw_id) repository_id_new)"

definition create_parameters ::
  "json option \<Rightarrow> (app_error, canonical_repository_name \<times> repository_secret \<times> bool) result" where
  "create_parameters payload =
     (case Option.bind payload read_create_request of
        None \<Rightarrow> Err app_error.InvalidRequest
      | Some request \<Rightarrow>
          and_then (map_err (\<lambda>_. app_error.InvalidRequest)
              (canonical_repository_name_new (cr_full_name request)))
            (\<lambda>full_name. and_then (map_err (\<lambda>_. app_error.InvalidRequest)
                (repository_secret_new (cr_webhook_secret request)))
              (\<lambda>webhook_secret. Ok (full_name, webhook_secret, cr_enabled request))))"

definition update_mutation :: "json option \<Rightarrow> (app_error, repository_mutation) result" where
  "update_mutation payload =
     (case Option.bind payload read_patch_request of
        None \<Rightarrow> Err app_error.InvalidRequest
      | Some request \<Rightarrow>
          if pt_full_name request = None \<and> pt_webhook_secret request = None
             \<and> pt_enabled request = None
          then Err app_error.InvalidRequest
          else and_then
            (case pt_full_name request of
               None \<Rightarrow> Ok mutation_new
             | Some full_name \<Rightarrow>
                 and_then (map_err (\<lambda>_. app_error.InvalidRequest)
                     (canonical_repository_name_new full_name))
                   (\<lambda>name. Ok (with_full_name name mutation_new)))
            (\<lambda>mutation. and_then
               (case pt_webhook_secret request of
                  None \<Rightarrow> Ok mutation
                | Some webhook_secret \<Rightarrow>
                    and_then (map_err (\<lambda>_. app_error.InvalidRequest)
                        (repository_secret_new webhook_secret))
                      (\<lambda>secret. Ok (with_webhook_secret secret mutation)))
               (\<lambda>mutation. Ok
                  (case pt_enabled request of
                     None \<Rightarrow> mutation | Some enabled \<Rightarrow> with_enabled enabled mutation))))"

subsection \<open>Handlers\<close>

text \<open>\<open>AppError::repository_store\<close>: an identifier is drawn for the errors that carry one.\<close>

definition store_failure :: "repository_store_error \<Rightarrow> app_error handler" where
  "store_failure e = do {
     w \<leftarrow> State_Monad.get;
     let err = app_error_repository_store (ErrorCorrelationId (w_correlations w)) e
     in do {
       (if app_error_correlation_id err = None then State_Monad.return ()
        else State_Monad.update (w_correlations_update Suc));
       State_Monad.return err } }"

definition api_create ::
  "'u app_state \<Rightarrow> ambient \<Rightarrow> json option \<Rightarrow> (app_error, response) result handler" where
  "api_create st amb payload =
     (case create_parameters payload of
        Inl e \<Rightarrow> State_Monad.return (Err e)
      | Inr (full_name, webhook_secret, enabled) \<Rightarrow> do {
          let calls = set_config_operation config_operation.Create @ set_repository_name full_name
          in do {
            result \<leftarrow> instrument_database_operation database_operation.RepositoryCreate
              (create_repository (app_repository_store st)
                (amb_faults amb database_operation.RepositoryCreate)
                (amb_sql_now amb database_operation.RepositoryCreate) (amb_nonce amb)
                full_name webhook_secret enabled);
            case result of
              Inl e \<Rightarrow> do {
                err \<leftarrow> store_failure e;
                record_span operation.RepositoryWrite (calls @ set_result_status result);
                State_Monad.return (Err err) }
            | Inr metadata \<Rightarrow> do {
                record_metric increment_repository_configurations;
                record_span operation.RepositoryWrite
                  (calls @ set_result_status result @ set_repository_id (md_id metadata));
                State_Monad.return (Ok (json_response 201 (repository_response metadata))) } } })"

definition api_list :: "'u app_state \<Rightarrow> ambient \<Rightarrow> (app_error, response) result handler" where
  "api_list st amb = do {
     r \<leftarrow> instrument_database_operation database_operation.RepositoryList
       (reading (list_repositories (app_repository_store st)
         (amb_faults amb database_operation.RepositoryList)));
     case r of
       Inl e \<Rightarrow> do { err \<leftarrow> store_failure e; State_Monad.return (Err err) }
     | Inr found \<Rightarrow>
         State_Monad.return
           (Ok (json_response 200 (JArray (map repository_response found)))) }"

definition api_get ::
  "'u app_state \<Rightarrow> ambient \<Rightarrow> rstring \<Rightarrow> (app_error, response) result handler" where
  "api_get st amb raw_id =
     (case parse_repository_id raw_id of
        Inl e \<Rightarrow> State_Monad.return (Err e)
      | Inr ident \<Rightarrow> do {
          r \<leftarrow> instrument_database_operation database_operation.RepositoryGet
            (reading (get_repository (app_repository_store st)
              (amb_faults amb database_operation.RepositoryGet) ident));
          case r of
            Inl e \<Rightarrow> do { err \<leftarrow> store_failure e; State_Monad.return (Err err) }
          | Inr metadata \<Rightarrow>
              State_Monad.return (Ok (json_response 200 (repository_response metadata))) })"

definition api_update ::
  "'u app_state \<Rightarrow> ambient \<Rightarrow> rstring \<Rightarrow> json option \<Rightarrow> (app_error, response) result handler" where
  "api_update st amb raw_id payload =
     (case and_then (parse_repository_id raw_id)
             (\<lambda>ident. and_then (update_mutation payload) (\<lambda>mutation. Ok (ident, mutation))) of
        Inl e \<Rightarrow> State_Monad.return (Err e)
      | Inr (ident, mutation) \<Rightarrow>
          (let calls = set_config_operation config_operation.Update @ set_repository_id ident
           in do {
             result \<leftarrow> instrument_database_operation database_operation.RepositoryUpdate
               (update_repository (app_repository_store st)
                 (amb_faults amb database_operation.RepositoryUpdate)
                 (amb_sql_now amb database_operation.RepositoryUpdate) (amb_nonce amb)
                 ident mutation);
             case result of
               Inl e \<Rightarrow> do {
                 err \<leftarrow> store_failure e;
                 record_span operation.RepositoryWrite (calls @ set_result_status result);
                 State_Monad.return (Err err) }
             | Inr metadata \<Rightarrow> do {
                 record_span operation.RepositoryWrite
                   (calls @ set_result_status result @ set_repository_id (md_id metadata)
                    @ set_repository_name (md_full_name metadata));
                 State_Monad.return
                   (Ok (json_response 200 (repository_response metadata))) } }))"

definition api_delete ::
  "'u app_state \<Rightarrow> ambient \<Rightarrow> rstring \<Rightarrow> (app_error, response) result handler" where
  "api_delete st amb raw_id =
     (case parse_repository_id raw_id of
        Inl e \<Rightarrow> State_Monad.return (Err e)
      | Inr ident \<Rightarrow>
          (let calls = set_config_operation config_operation.Delete @ set_repository_id ident
           in do {
             result \<leftarrow> instrument_database_operation database_operation.RepositoryDelete
               (delete_repository (app_repository_store st)
                 (amb_faults amb database_operation.RepositoryDelete) ident);
             case result of
               Inl e \<Rightarrow> do {
                 err \<leftarrow> store_failure e;
                 record_span operation.RepositoryWrite (calls @ set_result_status result);
                 State_Monad.return (Err err) }
             | Inr _ \<Rightarrow> do {
                 record_metric decrement_repository_configurations;
                 record_span operation.RepositoryWrite (calls @ set_result_status result);
                 State_Monad.return
                   (Ok \<lparr>rsp_status = 204, rsp_headers = [], rsp_body = None\<rparr>) } }))"

subsection \<open>The routes\<close>

definition api_handler ::
  "'u app_state \<Rightarrow> ambient \<Rightarrow> api_call \<Rightarrow> (app_error, response) result handler" where
  "api_handler st amb call = (case call of
     CreateRepository payload \<Rightarrow> api_create st amb payload
   | ListRepositories \<Rightarrow> api_list st amb
   | GetRepository raw_id \<Rightarrow> api_get st amb raw_id
   | UpdateRepository raw_id payload \<Rightarrow> api_update st amb raw_id payload
   | DeleteRepository raw_id \<Rightarrow> api_delete st amb raw_id)"

definition api_endpoint ::
  "'u app_state \<Rightarrow> ambient \<Rightarrow> http_request \<Rightarrow> api_call \<Rightarrow> response option handler" where
  "api_endpoint st amb rq call = do {
     r \<leftarrow> (case admin_authorized st rq of
         Inl e \<Rightarrow> State_Monad.return (Err e)
       | Inr _ \<Rightarrow> api_handler st amb call);
     case r of
       Inr response \<Rightarrow> State_Monad.return (Some response)
     | Inl e \<Rightarrow>
         (case app_error_into_response (lib_uuid_text (app_libraries st)) e of
            None \<Rightarrow> do { panicking; State_Monad.return None }
          | Some (response, logs) \<Rightarrow> do {
              State_Monad.update (w_logs_update (\<lambda>l. l @ logs));
              State_Monad.return (Some response) }) }"

definition serve_api ::
  "'u app_state \<Rightarrow> ambient \<Rightarrow> http_request \<Rightarrow> api_call \<Rightarrow> response option handler" where
  "serve_api st amb rq call = observe_http_request rq (api_endpoint st amb rq call)"

end
