(* ===== verification/Metric_Cardinality.thy ===== *)
theory Metric_Cardinality
  imports Metrics
begin

section \<open>Bounded cardinality of the exported series\<close>

text \<open>
  The README's promise that cardinality stays fixed however busy the organisation is: every series a
  recording operation touches lies in a finite universe given by the closed vocabularies and the
  authenticated repositories, and the size of that universe is a constant per repository plus a
  constant.
\<close>

fun call_series :: "metric_call \<Rightarrow> series" where
  "call_series (GetOrCreate s) = s"
| "call_series (Inc s) = s"
| "call_series (IncBy s n) = s"
| "call_series (Observe s x) = s"
| "call_series (GaugeSet n) = RepositoryConfigurations"
| "call_series GaugeInc = RepositoryConfigurations"
| "call_series GaugeDec = RepositoryConfigurations"

definition exposed_series :: "metrics \<Rightarrow> series set" where
  "exposed_series m = call_series ` set m"

text \<open>
  The methods of \<open>Metrics\<close> are its only writers. A request is one of them with its arguments.
\<close>

datatype metric_request =
    ObserveRequest "canonical_repository_name option" webhook_result int
  | ObserveEvent canonical_repository_name event_type action nat
  | RecordDuplicate canonical_repository_name
  | RecordFailure "canonical_repository_name option" failure_stage
  | RecordMergeGroupEvent canonical_repository_name merge_group_action merge_group_reason
  | RecordMergeQueueCompletion canonical_repository_name merge_queue_completion int
  | RecordMergeQueueTransitionFailure canonical_repository_name queue_transition_failure_reason
  | ObserveWorkflowJobSteps canonical_repository_name nat
  | RecordWorkflowTraceRejection canonical_repository_name workflow_trace_rejection_reason
  | RecordTelemetryExportFailure telemetry_signal telemetry_export_failure_reason
  | RecordTelemetryDrops telemetry_signal telemetry_drop_reason nat
  | SetRepositoryConfigurations nat
  | IncrementRepositoryConfigurations
  | DecrementRepositoryConfigurations

fun perform :: "metric_request \<Rightarrow> metrics \<Rightarrow> metrics" where
  "perform (ObserveRequest r res d) = observe_request r res d"
| "perform (ObserveEvent r e a n) = observe_event r e a n"
| "perform (RecordDuplicate r) = record_duplicate r"
| "perform (RecordFailure r s) = record_failure r s"
| "perform (RecordMergeGroupEvent r a x) = record_merge_group_event r a x"
| "perform (RecordMergeQueueCompletion r c d) = record_merge_queue_completion r c d"
| "perform (RecordMergeQueueTransitionFailure r x) = record_merge_queue_transition_failure r x"
| "perform (ObserveWorkflowJobSteps r n) = observe_workflow_job_steps r n"
| "perform (RecordWorkflowTraceRejection r x) = record_workflow_trace_rejection r x"
| "perform (RecordTelemetryExportFailure s x) = record_telemetry_export_failure s x"
| "perform (RecordTelemetryDrops s x n) = record_telemetry_drops s x n"
| "perform (SetRepositoryConfigurations n) = set_repository_configurations n"
| "perform IncrementRepositoryConfigurations = increment_repository_configurations"
| "perform DecrementRepositoryConfigurations = decrement_repository_configurations"

fun request_repositories :: "metric_request \<Rightarrow> canonical_repository_name set" where
  "request_repositories (ObserveRequest r _ _) = set_option r"
| "request_repositories (ObserveEvent r _ _ _) = {r}"
| "request_repositories (RecordDuplicate r) = {r}"
| "request_repositories (RecordFailure r _) = set_option r"
| "request_repositories (RecordMergeGroupEvent r _ _) = {r}"
| "request_repositories (RecordMergeQueueCompletion r _ _) = {r}"
| "request_repositories (RecordMergeQueueTransitionFailure r _) = {r}"
| "request_repositories (ObserveWorkflowJobSteps r _) = {r}"
| "request_repositories (RecordWorkflowTraceRejection r _) = {r}"
| "request_repositories _ = {}"

definition run_requests :: "metric_request list \<Rightarrow> metrics \<Rightarrow> metrics" where
  "run_requests qs m = fold perform qs m"

subsection \<open>Finite vocabularies\<close>

definition all_event_type :: "event_type list" where
  "all_event_type =
    [event_type.BranchProtectionRule, event_type.CheckRun, event_type.CheckSuite,
     event_type.Create, event_type.Delete, event_type.Deployment,
     event_type.DeploymentStatus, event_type.Discussion, event_type.DiscussionComment,
     event_type.Issues, event_type.IssueComment, event_type.MergeGroup,
     event_type.PullRequest, event_type.PullRequestReview,
     event_type.PullRequestReviewComment, event_type.Push, event_type.Release,
     event_type.Repository, event_type.Status, event_type.WorkflowJob,
     event_type.WorkflowRun, event_type.Other]"

lemma all_event_type: "UNIV = set all_event_type" "length all_event_type = 22"
  by (auto simp: all_event_type_def intro: event_type.exhaust)

definition all_action :: "action list" where
  "all_action =
    [action.Assigned, action.ChecksRequested, action.Closed, action.Completed,
     action.Created, action.Deleted, action.Dequeued, action.Destroyed, action.Edited,
     action.Enqueued, action.InProgress, action.Labeled, action.Opened, action.Published,
     action.Queued, action.Reopened, action.Requested, action.RequestedAction,
     action.Rerequested, action.Submitted, action.Synchronize, action.Unassigned,
     action.Unlabeled, action.Unpublished, action.Updated, action.Waiting, action.None',
     action.Other]"

lemma all_action: "UNIV = set all_action" "length all_action = 28"
  by (auto simp: all_action_def intro: action.exhaust)

definition all_webhook_result :: "webhook_result list" where
  "all_webhook_result =
    [webhook_result.Accepted, webhook_result.Malformed, webhook_result.Unauthorized,
     webhook_result.TooLarge, webhook_result.Unsupported, webhook_result.Unavailable]"

lemma all_webhook_result: "UNIV = set all_webhook_result" "length all_webhook_result = 6"
  by (auto simp: all_webhook_result_def intro: webhook_result.exhaust)

definition all_failure_stage :: "failure_stage list" where
  "all_failure_stage =
    [failure_stage.Authentication, failure_stage.DeliveryClaim, failure_stage.Metrics,
     failure_stage.Database, failure_stage.QueueState, failure_stage.WorkflowLink]"

lemma all_failure_stage: "UNIV = set all_failure_stage" "length all_failure_stage = 6"
  by (auto simp: all_failure_stage_def intro: failure_stage.exhaust)

definition all_merge_group_action :: "merge_group_action list" where
  "all_merge_group_action =
    [merge_group_action.ChecksRequested, merge_group_action.Destroyed]"

lemma all_merge_group_action: "UNIV = set all_merge_group_action" "length all_merge_group_action = 2"
  by (auto simp: all_merge_group_action_def intro: merge_group_action.exhaust)

definition all_merge_group_reason :: "merge_group_reason list" where
  "all_merge_group_reason =
    [merge_group_reason.None', merge_group_reason.Merged, merge_group_reason.Dequeued,
     merge_group_reason.Invalidated, merge_group_reason.Other]"

lemma all_merge_group_reason: "UNIV = set all_merge_group_reason" "length all_merge_group_reason = 5"
  by (auto simp: all_merge_group_reason_def intro: merge_group_reason.exhaust)

definition all_merge_queue_outcome :: "merge_queue_outcome list" where
  "all_merge_queue_outcome =
    [merge_queue_outcome.Succeeded, merge_queue_outcome.Failed,
     merge_queue_outcome.Cancelled, merge_queue_outcome.Unknown]"

lemma all_merge_queue_outcome: "UNIV = set all_merge_queue_outcome" "length all_merge_queue_outcome = 4"
  by (auto simp: all_merge_queue_outcome_def intro: merge_queue_outcome.exhaust)

definition all_merge_queue_reason :: "merge_queue_reason list" where
  "all_merge_queue_reason =
    [merge_queue_reason.PullRequestMerged, merge_queue_reason.UnclassifiedDequeue]"

lemma all_merge_queue_reason: "UNIV = set all_merge_queue_reason" "length all_merge_queue_reason = 2"
  by (auto simp: all_merge_queue_reason_def intro: merge_queue_reason.exhaust)

definition all_queue_transition_failure_reason :: "queue_transition_failure_reason list" where
  "all_queue_transition_failure_reason =
    [queue_transition_failure_reason.MissingActiveAttempt,
     queue_transition_failure_reason.InvalidDuration]"

lemma all_queue_transition_failure_reason: "UNIV = set all_queue_transition_failure_reason" "length all_queue_transition_failure_reason = 2"
  by (auto simp: all_queue_transition_failure_reason_def intro: queue_transition_failure_reason.exhaust)

definition all_workflow_trace_rejection_reason :: "workflow_trace_rejection_reason list" where
  "all_workflow_trace_rejection_reason =
    [workflow_trace_rejection_reason.TooManySteps,
     workflow_trace_rejection_reason.TooManyJobs]"

lemma all_workflow_trace_rejection_reason: "UNIV = set all_workflow_trace_rejection_reason" "length all_workflow_trace_rejection_reason = 2"
  by (auto simp: all_workflow_trace_rejection_reason_def intro: workflow_trace_rejection_reason.exhaust)

definition all_telemetry_signal :: "telemetry_signal list" where
  "all_telemetry_signal =
    [telemetry_signal.Trace, telemetry_signal.Log]"

lemma all_telemetry_signal: "UNIV = set all_telemetry_signal" "length all_telemetry_signal = 2"
  by (auto simp: all_telemetry_signal_def intro: telemetry_signal.exhaust)

definition all_telemetry_export_failure_reason :: "telemetry_export_failure_reason list" where
  "all_telemetry_export_failure_reason =
    [telemetry_export_failure_reason.Transport, telemetry_export_failure_reason.Timeout,
     telemetry_export_failure_reason.HttpResponse,
     telemetry_export_failure_reason.Encoding, telemetry_export_failure_reason.Shutdown,
     telemetry_export_failure_reason.Internal, telemetry_export_failure_reason.Other]"

lemma all_telemetry_export_failure_reason: "UNIV = set all_telemetry_export_failure_reason" "length all_telemetry_export_failure_reason = 7"
  by (auto simp: all_telemetry_export_failure_reason_def intro: telemetry_export_failure_reason.exhaust)

definition all_telemetry_drop_reason :: "telemetry_drop_reason list" where
  "all_telemetry_drop_reason =
    [telemetry_drop_reason.QueueFull, telemetry_drop_reason.PipelineClosed]"

lemma all_telemetry_drop_reason: "UNIV = set all_telemetry_drop_reason" "length all_telemetry_drop_reason = 2"
  by (auto simp: all_telemetry_drop_reason_def intro: telemetry_drop_reason.exhaust)

subsection \<open>The universe of series\<close>

text \<open>The series one label can appear in, and the series without a repository label.\<close>

definition label_series :: "repository_label \<Rightarrow> series list" where
  "label_series l =
     map (WebhookRequests l) all_webhook_result
     @ map (\<lambda>(e, a). WebhookEvents l e a) (List.product all_event_type all_action)
     @ map (ProcessingDuration l) all_webhook_result
     @ [RequestBodyBytes l, Duplicates l]
     @ map (ProcessingFailures l) all_failure_stage
     @ map (\<lambda>(a, r). MergeGroupEvents l a r)
         (List.product all_merge_group_action all_merge_group_reason)
     @ map (\<lambda>(c, r). MergeQueuePrOutcomes l c r)
         (List.product all_merge_queue_outcome all_merge_queue_reason)
     @ map (MergeQueueAttemptDuration l) all_merge_queue_outcome
     @ map (MergeQueueTransitionFailures l) all_queue_transition_failure_reason
     @ [WorkflowJobSteps l]
     @ map (WorkflowTraceRejections l) all_workflow_trace_rejection_reason"

definition global_series :: "series list" where
  "global_series =
     RepositoryConfigurations
     # map (\<lambda>(s, r). TelemetryExportFailures s r)
         (List.product all_telemetry_signal all_telemetry_export_failure_reason)
     @ map (\<lambda>(s, r). TelemetryDroppedRecords s r)
         (List.product all_telemetry_signal all_telemetry_drop_reason)"

definition series_universe :: "canonical_repository_name set \<Rightarrow> series set" where
  "series_universe R =
     set global_series
     \<union> (\<Union>l \<in> insert repository_label.Unknown (Authenticated ` R). set (label_series l))"

lemmas vocabulary_lengths = all_event_type(2) all_action(2) all_webhook_result(2)
  all_failure_stage(2) all_merge_group_action(2) all_merge_group_reason(2)
  all_merge_queue_outcome(2) all_merge_queue_reason(2) all_queue_transition_failure_reason(2)
  all_workflow_trace_rejection_reason(2) all_telemetry_signal(2)
  all_telemetry_export_failure_reason(2) all_telemetry_drop_reason(2)

lemmas vocabulary_univ = all_event_type(1) all_action(1) all_webhook_result(1)
  all_failure_stage(1) all_merge_group_action(1) all_merge_group_reason(1)
  all_merge_queue_outcome(1) all_merge_queue_reason(1) all_queue_transition_failure_reason(1)
  all_workflow_trace_rejection_reason(1) all_telemetry_signal(1)
  all_telemetry_export_failure_reason(1) all_telemetry_drop_reason(1)

lemma length_label_series: "length (label_series l) = 663"
  by (simp add: label_series_def length_product vocabulary_lengths)

lemma length_global_series: "length global_series = 19"
  by (simp add: global_series_def length_product vocabulary_lengths)

text \<open>Membership in the universe is decided by the label alone.\<close>

fun series_label :: "series \<Rightarrow> repository_label option" where
  "series_label (WebhookRequests l _) = Some l"
| "series_label (WebhookEvents l _ _) = Some l"
| "series_label (ProcessingDuration l _) = Some l"
| "series_label (RequestBodyBytes l) = Some l"
| "series_label (Duplicates l) = Some l"
| "series_label (ProcessingFailures l _) = Some l"
| "series_label RepositoryConfigurations = None"
| "series_label (MergeGroupEvents l _ _) = Some l"
| "series_label (MergeQueuePrOutcomes l _ _) = Some l"
| "series_label (MergeQueueAttemptDuration l _) = Some l"
| "series_label (MergeQueueTransitionFailures l _) = Some l"
| "series_label (WorkflowJobSteps l) = Some l"
| "series_label (WorkflowTraceRejections l _) = Some l"
| "series_label (TelemetryExportFailures _ _) = None"
| "series_label (TelemetryDroppedRecords _ _) = None"

lemma series_label_Some: "series_label s = Some l \<Longrightarrow> s \<in> set (label_series l)"
  by (cases s) (auto simp: label_series_def simp flip: vocabulary_univ)

lemma series_label_None: "series_label s = None \<Longrightarrow> s \<in> set global_series"
  by (cases s) (auto simp: global_series_def simp flip: vocabulary_univ)

lemma series_universe_iff:
  assumes "\<And>l. series_label s = Some l \<Longrightarrow>
             l \<in> insert repository_label.Unknown (Authenticated ` R)"
  shows "s \<in> series_universe R"
proof (cases "series_label s")
  case None
  then show ?thesis by (simp add: series_universe_def series_label_None)
next
  case (Some l)
  with assms have "l \<in> insert repository_label.Unknown (Authenticated ` R)" by simp
  with series_label_Some [OF Some] show ?thesis unfolding series_universe_def by blast
qed

lemma series_universe_mono: "A \<subseteq> B \<Longrightarrow> series_universe A \<subseteq> series_universe B"
  by (auto simp: series_universe_def)

lemma finite_series_universe: "finite R \<Longrightarrow> finite (series_universe R)"
  by (simp add: series_universe_def)

lemma card_series_universe:
  assumes "finite R"
  shows "card (series_universe R) \<le> 663 * (card R + 1) + 19"
proof -
  let ?L = "insert repository_label.Unknown (Authenticated ` R)"
  have "card (\<Union>l \<in> ?L. set (label_series l)) \<le> (\<Sum>l \<in> ?L. card (set (label_series l)))"
    using assms by (intro card_UN_le) simp
  also have "\<dots> \<le> (\<Sum>l \<in> ?L. 663)"
    by (intro sum_mono) (metis card_length length_label_series)
  also have "\<dots> = 663 * card ?L" by simp
  also have "\<dots> \<le> 663 * (card R + 1)"
    using assms card_image_le [of R Authenticated]
    by (intro mult_le_mono2) (auto intro: order_trans [OF card_insert_le_m1])
  finally have "card (\<Union>l \<in> ?L. set (label_series l)) \<le> 663 * (card R + 1)" .
  moreover have "card (set global_series) \<le> 19"
    by (metis card_length length_global_series)
  ultimately show ?thesis
    unfolding series_universe_def by (intro order_trans [OF card_Un_le]) linarith
qed

subsection \<open>Every recording operation stays inside it\<close>

lemma label_optional_in:
  "repository_label_optional r \<in> insert repository_label.Unknown (Authenticated ` set_option r)"
  by (cases r) (auto simp: repository_label_optional_def)

lemma metrics_new_universe: "exposed_series metrics_new \<subseteq> series_universe {}"
  by (auto simp: exposed_series_def metrics_new_def intro!: series_universe_iff)

lemma perform_appends:
  "\<exists>cs. perform q m = m @ cs \<and>
     (\<forall>c \<in> set cs. \<forall>l. series_label (call_series c) = Some l \<longrightarrow>
        l \<in> insert repository_label.Unknown (Authenticated ` request_repositories q))"
proof (cases q)
  case (RecordMergeQueueCompletion r c d)
  show ?thesis
  proof (cases "0 \<le> d \<and> d \<le> MAX_MERGE_QUEUE_ATTEMPT_DURATION")
    case True
    with RecordMergeQueueCompletion show ?thesis
      by (cases c) (auto simp: metric_operation_defs)
  next
    case False
    with RecordMergeQueueCompletion show ?thesis
      by (auto simp: record_merge_queue_completion_def record_merge_queue_transition_failure_def)
  qed
qed (auto simp: metric_operation_defs split: option.splits)

lemma perform_universe:
  "exposed_series (perform q m) \<subseteq> exposed_series m \<union> series_universe (request_repositories q)"
proof -
  obtain cs where cs: "perform q m = m @ cs"
    and l: "\<And>c l. c \<in> set cs \<Longrightarrow> series_label (call_series c) = Some l \<Longrightarrow>
           l \<in> insert repository_label.Unknown (Authenticated ` request_repositories q)"
    using perform_appends [of q m] by blast
  have "call_series c \<in> series_universe (request_repositories q)" if "c \<in> set cs" for c
    using l [OF that] by (rule series_universe_iff)
  with cs show ?thesis by (auto simp: exposed_series_def)
qed

lemma run_requests_universe:
  assumes "exposed_series m \<subseteq> series_universe R"
    and "\<And>q. q \<in> set qs \<Longrightarrow> request_repositories q \<subseteq> R"
  shows "exposed_series (run_requests qs m) \<subseteq> series_universe R"
  using assms
proof (induction qs arbitrary: m)
  case Nil
  then show ?case by (simp add: run_requests_def)
next
  case (Cons q qs)
  have "series_universe (request_repositories q) \<subseteq> series_universe R"
    using Cons.prems(2) by (intro series_universe_mono) simp
  with Cons.prems(1) perform_universe [of q m]
  have "exposed_series (perform q m) \<subseteq> series_universe R" by blast
  then have "exposed_series (run_requests qs (perform q m)) \<subseteq> series_universe R"
    using Cons.prems(2) by (intro Cons.IH) auto
  then show ?case by (simp add: run_requests_def)
qed

text \<open>
  However many requests arrive, the series the registry exposes are those of the closed vocabularies
  for the unknown label and the repositories of the requests: at most 663 for each, and 19 besides.
\<close>

lemma exposed_series_bounded:
  assumes "finite R" and "\<forall>q \<in> set qs. request_repositories q \<subseteq> R"
  shows "exposed_series (run_requests qs metrics_new) \<subseteq> series_universe R
         \<and> card (exposed_series (run_requests qs metrics_new)) \<le> 663 * (card R + 1) + 19"
proof -
  have "exposed_series metrics_new \<subseteq> series_universe R"
    using metrics_new_universe series_universe_mono [of "{}" R] by auto
  then have sub: "exposed_series (run_requests qs metrics_new) \<subseteq> series_universe R"
    using assms(2) by (intro run_requests_universe) auto
  then have "card (exposed_series (run_requests qs metrics_new)) \<le> card (series_universe R)"
    using assms(1) by (intro card_mono finite_series_universe)
  with card_series_universe [OF assms(1)] sub show ?thesis by simp
qed

end
