(* ===== verification/Handler_Relation.thy ===== *)
theory Handler_Relation
  imports Webhook_Handler Metric_Cardinality
begin

section \<open>What every request leaves in place\<close>

text \<open>
  \<open>state_io_rel R h\<close> says that a run of the handler \<open>h\<close> leads from a state to an \<open>R\<close>-related one. The
  locale collects what the services promise about \<open>R\<close>, one law per effect a handler has; \<open>N\<close> are
  the repositories metrics may be labelled with. Within it, every part of the webhook endpoint is
  shown to respect \<open>R\<close> once, and each interpretation gives one guarantee of the whole endpoint.
\<close>

named_theorems handler_rel

lemma state_io_rel_handler:
  "state_io_rel R (State_Monad.update f) \<longleftrightarrow> (\<forall>w. R w (f w))"
  "state_io_rel R (State_Monad.return x) \<longleftrightarrow> (\<forall>w. R w w)"
  "state_io_rel R State_Monad.get \<longleftrightarrow> (\<forall>w. R w w)"
  by (simp_all add: state_io_rel_def State_Monad.update_def)

lemma run_state_update [simp]: "run_state (State_Monad.update f) w = ((), f w)"
  by (simp add: State_Monad.update_def)

lemma emit_pipeline_total: "\<exists>spans reports. emit_pipeline cl h em n p = Some (spans, reports)"
proof (cases "emitter_tracer em")
  case (Some tracer)
  have "emit_tasks em tracer p root k jobs \<noteq> None" for root k jobs
    using emit_tasks_spec by (metis option.distinct(1))
  with Some show ?thesis by (auto simp: emit_pipeline_def Let_def split: option.split)
qed (simp add: emit_pipeline_def)

text \<open>The requests that move the gauge of repository configurations; a webhook makes none.\<close>

fun gauge_request :: "metric_request \<Rightarrow> bool" where
  "gauge_request (SetRepositoryConfigurations n) = True"
| "gauge_request IncrementRepositoryConfigurations = True"
| "gauge_request DecrementRepositoryConfigurations = True"
| "gauge_request _ = False"

lemma perform_gauge: "\<not> gauge_request q \<Longrightarrow> gauge_value (perform q m) = gauge_value m"
  by (cases q) (simp_all add: metric_operation_defs split: option.split merge_queue_completion.split)

locale request_relation =
  fixes R :: "world \<Rightarrow> world \<Rightarrow> bool" and N :: "canonical_repository_name set"
  assumes R_refl: "R w w"
    and R_trans: "R u v \<Longrightarrow> R v w \<Longrightarrow> R u w"
    and R_metric: "request_repositories q \<subseteq> N \<Longrightarrow> \<not> gauge_request q \<Longrightarrow>
           R w (w_metrics_update (perform q) w)"
    and R_span: "R w (w_spans_update f1 w)"
    and R_log: "R w (w_logs_update f2 w)"
    and R_correlation: "R w (w_correlations_update f3 w)"
    and R_exported: "R w (w_exported_update f4 w)"
    and R_reports: "R w (w_reports_update f5 w)"
    and R_refresh: "length (w_refreshes w) < REFRESH_QUEUE_CAPACITY \<Longrightarrow>
           R w (w_refreshes_update (\<lambda>p. p @ [rq]) w)"
    and R_claim: "R w (w_database_update (\<lambda>_. snd (claim_delivery hyphenated faults now
           (d :: 'u delivery_id) (w_database w))) w)"
    and R_upsert_run: "R w (w_database_update (\<lambda>_. snd (upsert_run faults now rid c
           (w_database w))) w)"
    and R_record_link: "R w (w_database_update (\<lambda>_. snd (record_link ol faults now rid
           (job :: 'u workflow_job_trace) identity (w_database w))) w)"
    and R_enqueue: "R w (w_database_update (\<lambda>_. snd (enqueue faults rid n t (w_database w))) w)"
    and R_complete: "R w (w_database_update (\<lambda>_. snd (complete clk faults rid n qc
           (w_database w))) w)"
begin

lemma rel_return [handler_rel]: "state_io_rel R (State_Monad.return x)"
  by (simp add: state_io_rel_handler R_refl)

lemma rel_bind [handler_rel]:
  assumes "state_io_rel R h" and "\<And>x. state_io_rel R (f x)"
  shows "state_io_rel R (State_Monad.bind h f)"
proof (rule state_io_relI)
  fix a s s'
  assume r: "run_state (State_Monad.bind h f) s = (a, s')"
  obtain x u where u: "run_state h s = (x, u)" by (cases "run_state h s")
  with r have "run_state (f x) u = (a, s')" by simp
  with u assms show "R s s'" using R_trans by (meson state_io_relD)
qed

lemma rel_bind_at:
  assumes "run_state h w = (x, u)" and "R w u" and "state_io_rel R (f x)"
  shows "R w (snd (run_state (State_Monad.bind h f) w))"
  using assms R_trans by (auto simp: state_io_rel_def)

lemma rel_get [handler_rel]: "state_io_rel R State_Monad.get"
  by (simp add: state_io_rel_handler R_refl)

lemma rel_update [handler_rel]: "(\<And>w. R w (f w)) \<Longrightarrow> state_io_rel R (State_Monad.update f)"
  by (simp add: state_io_rel_handler)

lemma rel_option [handler_rel]:
  "(x = None \<Longrightarrow> state_io_rel R a) \<Longrightarrow> (\<And>y. x = Some y \<Longrightarrow> state_io_rel R (b y)) \<Longrightarrow>
     state_io_rel R (case x of None \<Rightarrow> a | Some y \<Rightarrow> b y)"
  by (cases x) auto

lemma rel_sum [handler_rel]:
  "(\<And>e. x = Inl e \<Longrightarrow> state_io_rel R (a e)) \<Longrightarrow> (\<And>y. x = Inr y \<Longrightarrow> state_io_rel R (b y)) \<Longrightarrow>
     state_io_rel R (case x of Inl e \<Rightarrow> a e | Inr y \<Rightarrow> b y)"
  by (cases x) auto

lemma rel_prod [handler_rel]:
  "(\<And>y z. x = (y, z) \<Longrightarrow> state_io_rel R (b y z)) \<Longrightarrow> state_io_rel R (case x of (y, z) \<Rightarrow> b y z)"
  by (cases x) auto

lemma rel_if [handler_rel]:
  "(c \<Longrightarrow> state_io_rel R a) \<Longrightarrow> (\<not> c \<Longrightarrow> state_io_rel R b) \<Longrightarrow> state_io_rel R (if c then a else b)"
  by auto

lemma rel_metrics [handler_rel]:
  "set_option r \<subseteq> N \<Longrightarrow> state_io_rel R (record_metric (record_failure r stage))"
  "set_option r \<subseteq> N \<Longrightarrow> state_io_rel R (record_metric (observe_request r result d))"
  "n \<in> N \<Longrightarrow> state_io_rel R (record_metric (observe_event n et act body_size))"
  "n \<in> N \<Longrightarrow> state_io_rel R (record_metric (record_duplicate n))"
  "n \<in> N \<Longrightarrow> state_io_rel R (record_metric (record_merge_group_event n mga mgr))"
  "n \<in> N \<Longrightarrow> state_io_rel R (record_metric (record_merge_queue_completion n mc d))"
  "n \<in> N \<Longrightarrow> state_io_rel R (record_metric (record_merge_queue_transition_failure n fr))"
  "n \<in> N \<Longrightarrow> state_io_rel R (record_metric (observe_workflow_job_steps n count))"
  "n \<in> N \<Longrightarrow> state_io_rel R (record_metric (record_workflow_trace_rejection n rr))"
  using R_metric [of "RecordFailure r stage"] R_metric [of "ObserveRequest r result d"]
    R_metric [of "ObserveEvent n et act body_size"] R_metric [of "RecordDuplicate n"]
    R_metric [of "RecordMergeGroupEvent n mga mgr"]
    R_metric [of "RecordMergeQueueCompletion n mc d"]
    R_metric [of "RecordMergeQueueTransitionFailure n fr"]
    R_metric [of "ObserveWorkflowJobSteps n count"]
    R_metric [of "RecordWorkflowTraceRejection n rr"]
  by (simp_all add: record_metric_def state_io_rel_handler)

lemma rel_effects [handler_rel]:
  "state_io_rel R (record_span op calls)" "state_io_rel R (write_log line)"
  "state_io_rel R new_correlation_id" "out \<noteq> None \<Longrightarrow> state_io_rel R (exporting out)"
  unfolding record_span_def write_log_def new_correlation_id_def exporting_def
  by (auto intro!: handler_rel R_span R_log R_correlation R_exported R_reports)

lemma rel_request_refresh [handler_rel]: "state_io_rel R (request_refresh rq)"
  by (auto simp: request_refresh_def state_io_rel_def write_log_def R_log R_refresh
      split: if_splits)

lemma rel_database:
  "(\<And>w. R w (w_database_update (\<lambda>_. snd (f (w_database w))) w)) \<Longrightarrow>
     state_io_rel R (instrument_database_operation op f)"
proof (rule state_io_relI)
  fix a s s'
  assume db: "\<And>w. R w (w_database_update (\<lambda>_. snd (f (w_database w))) w)"
    and "run_state (instrument_database_operation op f) s = (a, s')"
  then have "s' = w_spans_update (\<lambda>ss. ss @ [(operation_span operation.SqliteQuery,
        database_span op @ set_result_status a)]) (w_database_update (\<lambda>_. snd (f (w_database s))) s)"
    by (auto simp: instrument_database_operation_def record_span_def split: prod.splits)
  with R_trans [OF db R_span] show "R s s'" by metis
qed

lemma rel_reading [handler_rel]:
  "state_io_rel R (instrument_database_operation op (reading f))"
  by (rule rel_database) (simp add: reading_def R_refl)

lemma rel_operations [handler_rel]:
  "state_io_rel R (instrument_database_operation op
     (claim_delivery hyphenated faults now (d :: 'u delivery_id)))"
  "state_io_rel R (instrument_database_operation op (upsert_run faults now rid c))"
  "state_io_rel R (instrument_database_operation op
     (record_link ol faults now rid (job :: 'u workflow_job_trace) identity))"
  "state_io_rel R (instrument_database_operation op (enqueue faults rid n t))"
  "state_io_rel R (instrument_database_operation op (complete clk faults rid n qc))"
  by (rule rel_database, rule R_claim R_upsert_run R_record_link R_enqueue R_complete)+

subsection \<open>The endpoint\<close>

lemma rel_failures [handler_rel]:
  "set_option r \<subseteq> N \<Longrightarrow> state_io_rel R (record_failure_logged st r stage message)"
  "set_option r \<subseteq> N \<Longrightarrow> state_io_rel R (unavailable_error st r stage)"
  "n \<in> N \<Longrightarrow> state_io_rel R (record_queue_state_failure st n)"
  "n \<in> N \<Longrightarrow> state_io_rel R (record_workflow_link_failure st n)"
  unfolding record_queue_state_failure_def record_workflow_link_failure_def unavailable_error_def
    record_failure_logged_def
  by (auto intro!: handler_rel)

lemma rel_rejections [handler_rel]:
  "wq_repository_name request \<in> N \<Longrightarrow>
     state_io_rel R (record_pipeline_trace_rejection st request context count)"
  "n \<in> N \<Longrightarrow> state_io_rel R (record_step_rejection st n delivery admission limit)"
  unfolding record_pipeline_trace_rejection_def record_step_rejection_def
  by (auto intro!: handler_rel)

lemma rel_workflow_run [handler_rel]:
  assumes "wq_repository_name request \<in> N"
  shows "state_io_rel R (emit_pipeline_trace st amb rid request ctx)"
    and "state_io_rel R (process_workflow_run st amb rid request et act)"
proof -
  show e: "state_io_rel R (emit_pipeline_trace st amb rid request ctx)" for ctx
    unfolding emit_pipeline_trace_def
    by (intro handler_rel assms) (simp_all add: emit_pipeline_total)
  show "state_io_rel R (process_workflow_run st amb rid request et act)"
    unfolding process_workflow_run_def by (auto intro!: handler_rel e simp: assms)
qed

lemma rel_workflow_job [handler_rel]:
  assumes "wq_repository_name request \<in> N"
  shows "state_io_rel R (process_workflow_job st amb rid (request :: 'u webhook_request) et act)"
proof -
  have checks: "state_io_rel R (resolve_required_checks st amb rid n ctx)" for n ctx
    unfolding resolve_required_checks_def by (auto intro!: handler_rel)
  have link: "state_io_rel R (emit_and_link st amb rid n (job :: 'u workflow_job_trace))"
    if "n \<in> N" for n job
    unfolding emit_and_link_def Let_def
    by (intro handler_rel that) (metis emit_total option.map_disc_iff option.distinct(1))
  show ?thesis
    unfolding process_workflow_job_def by (auto intro!: handler_rel checks link simp: assms)
qed

lemma rel_queue [handler_rel]:
  assumes "qp_repository_name q \<in> N"
  shows "state_io_rel R (process st amb q projection)"
proof -
  have c: "state_io_rel R (complete_attempt st amb q number completion mc)" for number completion mc
    unfolding complete_attempt_def
    by (intro handler_rel) (auto intro!: handler_rel split: completion_transition.split simp: assms)
  have a: "state_io_rel R (apply_transition st amb q tr number t)" for tr number t
    unfolding apply_transition_def
    by (auto intro!: handler_rel c split: pull_request_transition.split)
  show ?thesis unfolding process_def by (auto intro!: handler_rel a)
qed

lemma rel_merge_group_and_pull_request [handler_rel]:
  assumes "wq_repository_name request \<in> N"
  shows "state_io_rel R (process_merge_group st rid request projection et act)"
    and "state_io_rel R (process_pull_request st amb rid request projection et act)"
  unfolding process_merge_group_def process_pull_request_def
  by (auto intro!: handler_rel simp: assms)

lemma rel_new_delivery [handler_rel]:
  assumes "wq_repository_name (request :: 'u webhook_request) \<in> N"
  shows "state_io_rel R (process_new_delivery st amb rid request projection et act)"
  unfolding process_new_delivery_def by (auto intro!: handler_rel simp: assms)

lemma rel_delivery [handler_rel]:
  assumes "wq_repository_name (request :: 'u webhook_request) \<in> N"
  shows "state_io_rel R (process_delivery st amb rid request)"
  unfolding process_delivery_def Let_def
  by (auto intro!: handler_rel simp: assms split: delivery_claim.split)

end

text \<open>The whole endpoint also records whom it authenticated.\<close>

locale endpoint_relation = request_relation +
  assumes R_context: "R w (w_repository_update f7 w)"
begin

lemma rel_context [handler_rel]: "state_io_rel R (context_authenticate n)"
  by (simp add: context_authenticate_def state_io_rel_handler R_context)

lemma rel_authenticate [handler_rel]: "state_io_rel R (authenticate_webhook st amb n signature body)"
  unfolding authenticate_webhook_def by (auto intro!: handler_rel)

text \<open>A name labels a metric only where the request authenticated as that repository.\<close>

lemma rel_webhook_handler:
  assumes "fst (run_state (authenticate_webhook st amb (wq_repository_name request)
      (wq_signature request) (wq_body request)) w) \<in> range Inr \<Longrightarrow> wq_repository_name request \<in> N"
  shows "R w (snd (run_state (webhook_handler st amb (request :: 'u webhook_request)) w))"
proof -
  obtain a u where a: "run_state (authenticate_webhook st amb (wq_repository_name request)
      (wq_signature request) (wq_body request)) w = (a, u)" by fastforce
  have u: "R w u" using a rel_authenticate by (meson state_io_relD)
  have n: "wq_repository_name request \<in> N" if "a = Ok rid" for rid
    using assms a that by simp
  show ?thesis
    unfolding webhook_handler_def Let_def
    by (rule rel_bind_at [OF a u], cases a)
      (auto intro!: handler_rel n split: webhook_authentication_error.split)
qed

end

end
