(* ===== verification/Webhook_Guarantees.thy ===== *)
theory Webhook_Guarantees
  imports Handler_Relation
begin

section \<open>Guarantees of the webhook endpoint\<close>

text \<open>
  The interpretations of \<open>request_relation\<close> and \<open>endpoint_relation\<close> on the model, and the
  properties of a served request that rest on them.
\<close>

subsection \<open>Whom a request authenticates\<close>

definition authentication_answer ::
  "'u app_state \<Rightarrow> ambient \<Rightarrow> 'u webhook_request \<Rightarrow> database
   \<Rightarrow> (webhook_authentication_error, repository_id) result" where
  "authentication_answer st amb request db =
     (case authentication_material (app_repository_store st)
             (amb_faults amb database_operation.RepositoryAuthenticate)
             (wq_repository_name request) db of
        Inl e \<Rightarrow> Err (authentication_error_from_store e)
      | Inr (repository_id, secret) \<Rightarrow>
          and_then (verify_signature (store_crypto (app_repository_store st)) secret
            (wq_signature request) (wq_body request)) (\<lambda>_. Ok repository_id))"

definition authenticated_repository ::
  "'u app_state \<Rightarrow> ambient \<Rightarrow> http_request \<Rightarrow> database \<Rightarrow> canonical_repository_name option" where
  "authenticated_repository st amb rq db =
     (case webhook_request_from_request st rq of
        Inl _ \<Rightarrow> None
      | Inr request \<Rightarrow>
          (case authentication_answer st amb request db of
             Inl _ \<Rightarrow> None | Inr _ \<Rightarrow> Some (wq_repository_name request)))"

lemma authenticate_webhook_run:
  "\<exists>f. run_state (authenticate_webhook st amb (wq_repository_name request) (wq_signature request)
     (wq_body request)) w
     = (authentication_answer st amb request (w_database w), w_spans_update f w)"
  by (auto simp: authenticate_webhook_def instrument_database_operation_def reading_def
      authentication_answer_def record_span_def split: sum.split)

text \<open>Authentication means an enabled row whose secret is the key of a matching MAC.\<close>

lemma authenticated_repository_verified:
  assumes "authenticated_repository st amb rq db = Some n"
  shows "\<exists>request row secret. webhook_request_from_request st rq = Ok request
    \<and> wq_repository_name request = n \<and> row \<in> set (repositories db)
    \<and> rr_full_name row = name_as_str n \<and> rr_enabled row = 1
    \<and> (\<exists>enc. decode_encrypted_secret row = Ok enc
         \<and> store_decrypt (app_repository_store st) n enc = Ok secret)
    \<and> hmac_sha256 (store_crypto (app_repository_store st)) (secret_bytes secret) (wq_body request)
        = Some (signature_digest (wq_signature request))"
proof -
  obtain request where q: "webhook_request_from_request st rq = Ok request"
    "wq_repository_name request = n" and a: "authentication_answer st amb request db \<in> range Inr"
    using assms by (auto simp: authenticated_repository_def split: sum.splits)
  then obtain rid secret where m: "authentication_material (app_repository_store st)
       (amb_faults amb database_operation.RepositoryAuthenticate) n db = Ok (rid, secret)"
    and v: "verify_signature (store_crypto (app_repository_store st)) secret (wq_signature request)
        (wq_body request) = Ok ()"
    by (auto simp: authentication_answer_def and_then_def split: sum.splits)
  from m obtain row enc where "find (\<lambda>r. rr_full_name r = name_as_str n \<and> rr_enabled r = 1)
       (repositories db) = Some row" "decode_encrypted_secret row = Ok enc"
    "store_decrypt (app_repository_store st) n enc = Ok secret"
    by (auto simp: authentication_material_def ok_or_def and_then_def
        split: option.splits sum.splits)
  moreover have "hmac_sha256 (store_crypto (app_repository_store st)) (secret_bytes secret)
       (wq_body request) = Some (signature_digest (wq_signature request))"
    using v by (auto simp: verify_signature_def split: option.splits if_splits)
  ultimately show ?thesis using q by (auto simp: find_Some_iff in_set_conv_nth)
qed

subsection \<open>The repository context\<close>

interpretation context_kept: request_relation "\<lambda>w w'. w_repository w' = w_repository w" UNIV
  by unfold_locales auto

lemma webhook_handler_context:
  "w_repository (snd (run_state (webhook_handler st amb request) w)) =
     (case w_repository w of
        Some r \<Rightarrow> Some r
      | None \<Rightarrow> (case authentication_answer st amb request (w_database w) of
          Inl _ \<Rightarrow> None | Inr _ \<Rightarrow> Some (wq_repository_name request)))"
proof -
  have p: "w_repository (snd (run_state (process_delivery st amb rid request) u)) = w_repository u"
    for rid u
    using context_kept.rel_delivery [of request st amb rid] by (simp add: state_io_rel_def)
  have e: "w_repository (snd (run_state (unavailable_error st None stage) u)) = w_repository u"
    for stage u
    using context_kept.rel_failures(2) [of None st stage] by (simp add: state_io_rel_def)
  obtain f where a: "run_state (authenticate_webhook st amb (wq_repository_name request)
      (wq_signature request) (wq_body request)) w
      = (authentication_answer st amb request (w_database w), w_spans_update f w)"
    using authenticate_webhook_run by blast
  show ?thesis
  proof (cases "authentication_answer st amb request (w_database w)")
    case (Inl x)
    then show ?thesis
      by (cases x) (simp_all add: webhook_handler_def Let_def a record_span_def case_prod_beta e
          split: option.split)
  next
    case (Inr rid)
    then show ?thesis
      by (simp add: webhook_handler_def Let_def a record_span_def case_prod_beta p
          context_authenticate_def split: option.split)
  qed
qed

lemma webhook_endpoint_context:
  "w_repository w = None \<Longrightarrow>
     w_repository (snd (run_state (webhook_endpoint st amb rq) w))
       = authenticated_repository st amb rq (w_database w)"
  using webhook_handler_context [of st amb _ w]
  by (auto simp: webhook_endpoint_def authenticated_repository_def panicking_def case_prod_beta
      split: sum.split option.split)

subsection \<open>Answers\<close>

text \<open>The errors a webhook request can end in, and that a response can be made of each.\<close>

definition webhook_error :: "app_error \<Rightarrow> bool" where
  "webhook_error e \<longleftrightarrow> (case e of
     InvalidWebhook \<Rightarrow> True | UnauthorizedWebhook \<Rightarrow> True | WebhookPayloadTooLarge \<Rightarrow> True
   | UnsupportedWebhookMediaType \<Rightarrow> True | WebhookUnavailable _ \<Rightarrow> True | _ \<Rightarrow> False)"

definition webhook_statuses :: "nat set" where "webhook_statuses = {204, 400, 401, 413, 415, 503}"

lemma webhook_error_response:
  "webhook_error e \<Longrightarrow> \<exists>r. app_error_into_response ut e = Some (r, [])
     \<and> rsp_status r \<in> webhook_statuses - {204}"
  by (cases e) (auto simp: webhook_error_def app_error_into_response_def error_response_def
      correlated_error_response_def webhook_statuses_def)

definition errors_in :: "('e \<Rightarrow> bool) \<Rightarrow> ('e, 'a) result \<Rightarrow> bool" where
  "errors_in P r \<longleftrightarrow> (\<forall>e. r = Err e \<longrightarrow> P e)"

lemma errors_in_intros:
  "errors_in P r \<Longrightarrow> (\<And>x. errors_in P (f x)) \<Longrightarrow> errors_in P (and_then r f)"
  "errors_in P (Ok x)"
  "(\<And>e. P (g e)) \<Longrightarrow> errors_in P (map_err g s)"
  "P e \<Longrightarrow> errors_in P (ok_or e m)"
  by (auto simp: errors_in_def and_then_def map_err_def ok_or_def split: sum.splits option.splits)

lemma extraction_error:
  assumes "webhook_request_from_request st rq = Err e"
  shows "webhook_error e"
proof -
  have v: "errors_in webhook_error (validate_content_type rq)"
    by (simp add: errors_in_def validate_content_type_def webhook_error_def split: option.split)
  have h: "errors_in webhook_error (required_header libs rq name)" for libs :: "'a libraries" and name
    by (simp add: errors_in_def required_header_def webhook_error_def split: option.split)
  have "errors_in webhook_error (webhook_request_from_request st rq)"
    unfolding webhook_request_from_request_def Let_def
    by (intro errors_in_intros v h) (simp_all add: webhook_error_def map_body_rejection_def)
  with assms show ?thesis by (simp add: errors_in_def)
qed

named_theorems answers

lemma pred_state_iff: "pred_state P m \<longleftrightarrow> (\<forall>s. P (fst (run_state m s)))"
  by (auto intro!: pred_stateI dest: pred_state_run_state) (metis fst_conv)

lemma pred_state_bind [answers]:
  "(\<And>x. pred_state P (f x)) \<Longrightarrow> pred_state P (State_Monad.bind h f)"
  by (simp add: pred_state_iff case_prod_beta)

lemma pred_state_cases [answers]:
  "P x \<Longrightarrow> pred_state P (State_Monad.return x)"
  "pred_state P a \<Longrightarrow> (\<And>y. pred_state P (b y)) \<Longrightarrow>
     pred_state P (case m of None \<Rightarrow> a | Some y \<Rightarrow> b y)"
  "(\<And>e. pred_state P (c e)) \<Longrightarrow> (\<And>y. pred_state P (b y)) \<Longrightarrow>
     pred_state P (case s of Inl e \<Rightarrow> c e | Inr y \<Rightarrow> b y)"
  "pred_state P a \<Longrightarrow> pred_state P a' \<Longrightarrow> pred_state P (if t then a else a')"
  "(\<And>x y. pred_state P (g x y)) \<Longrightarrow> pred_state P (case p of (x, y) \<Rightarrow> g x y)"
  by (auto split: option.split sum.split prod.split)

text \<open>What a failed processing step answers.\<close>

definition unavailable_or_ok :: "(app_error, 'a) result \<Rightarrow> bool" where
  "unavailable_or_ok r \<longleftrightarrow> (\<forall>e. r = Err e \<longrightarrow> (\<exists>c. e = WebhookUnavailable c))"

lemma unavailable_bind [answers]:
  "pred_state unavailable_or_ok
     (State_Monad.bind (unavailable_error st n stage) (\<lambda>e. State_Monad.return (Err e)))"
  unfolding unavailable_error_def record_failure_logged_def
  by (simp add: unavailable_or_ok_def answers)

lemma unavailable_or_ok_simps [simp]:
  "unavailable_or_ok (Ok x)" "unavailable_or_ok (Err e) \<longleftrightarrow> (\<exists>c. e = WebhookUnavailable c)"
  by (simp_all add: unavailable_or_ok_def)

lemma pred_state_bind_via:
  "pred_state Q h \<Longrightarrow> (\<And>x. Q x \<Longrightarrow> pred_state P (f x)) \<Longrightarrow> pred_state P (State_Monad.bind h f)"
  by (simp add: pred_state_iff case_prod_beta)

lemma workflow_answers:
  "pred_state unavailable_or_ok (process_workflow_run st amb rid request et act)"
  "pred_state unavailable_or_ok (process_workflow_job st amb rid request et act)"
  unfolding process_workflow_run_def process_workflow_job_def by (intro answers; simp)+

lemma new_delivery_answers:
  "pred_state unavailable_or_ok (process_new_delivery st amb rid request projection et act)"
  unfolding process_new_delivery_def
  by (rule pred_state_bind, rule pred_state_bind_via [OF workflow_answers(1)],
      split sum.split, intro conjI allI impI, simp add: answers,
      rule pred_state_bind_via [OF workflow_answers(2)])
    (auto intro!: answers split: sum.split)

lemma delivery_answers:
  "pred_state (\<lambda>p. errors_in webhook_error (snd p)) (process_delivery st amb rid request)"
proof -
  have u: "errors_in webhook_error r" if "unavailable_or_ok r" for r
    using that by (auto simp: errors_in_def unavailable_or_ok_def webhook_error_def)
  have c: "pred_state unavailable_or_ok (case claim of
         Inr delivery_claim.Duplicate \<Rightarrow> do {
           record_metric m; State_Monad.return (Ok operation_outcome.Duplicate) }
       | Inr delivery_claim.New \<Rightarrow> process_new_delivery st amb rid request projection et act
       | Inl _ \<Rightarrow> do { e \<leftarrow> unavailable_error st n stage; State_Monad.return (Err e) })"
    for claim m projection et act n stage
    by (auto intro!: answers new_delivery_answers split: sum.split delivery_claim.split)
  show ?thesis
    unfolding process_delivery_def Let_def
    by (rule pred_state_cases(2), simp add: pred_state_iff errors_in_def webhook_error_def,
        rule pred_state_bind, rule pred_state_bind_via [OF c], rule pred_state_cases(1))
      (simp add: u)
qed

lemma webhook_handler_answer:
  "errors_in webhook_error (fst (run_state (webhook_handler st amb request) w))
   \<and> (\<forall>n. fst (run_state (webhook_handler st amb request) w) = Ok n \<longrightarrow> n = 204)"
proof -
  have "pred_state (\<lambda>r. errors_in webhook_error r \<and> (\<forall>n. r = Ok n \<longrightarrow> n = 204))
      (webhook_handler st amb request)"
    unfolding webhook_handler_def Let_def unavailable_error_def record_failure_logged_def
    by (rule pred_state_bind, split sum.split, intro conjI allI impI)
      (auto intro!: pred_state_bind pred_state_bind_via [OF delivery_answers] pred_state_cases(1)
        simp: errors_in_def webhook_error_def and_then_def split: webhook_authentication_error.split
        sum.splits)
  then show ?thesis by (simp add: pred_state_iff)
qed

text \<open>Every request is answered, with one of the statuses the result label knows.\<close>

lemma webhook_endpoint_answer:
  "\<exists>r. fst (run_state (webhook_endpoint st amb rq) w) = Some r \<and> rsp_status r \<in> webhook_statuses"
proof (cases "webhook_request_from_request st rq")
  case (Inl e)
  with webhook_error_response [OF extraction_error [OF Inl],
      of "lib_uuid_text (app_libraries st)"] show ?thesis
    by (auto simp: webhook_endpoint_def)
next
  case (Inr request)
  obtain a u where a: "run_state (webhook_handler st amb request) w = (a, u)" by fastforce
  then have e: "errors_in webhook_error a" and n: "\<And>n. a = Ok n \<Longrightarrow> n = 204"
    using webhook_handler_answer [of st amb request w] by auto
  show ?thesis
  proof (cases a)
    case (Inl x)
    with e have "webhook_error x" by (simp add: errors_in_def)
    from webhook_error_response [OF this, of "lib_uuid_text (app_libraries st)"] Inl Inr a
    show ?thesis by (auto simp: webhook_endpoint_def)
  qed (use n Inr a in \<open>simp add: webhook_endpoint_def webhook_statuses_def\<close>)
qed

subsection \<open>The endpoint respects every relation the services respect\<close>

lemma authenticated_repository_unchanged:
  "authenticated_repository st amb rq (w_database (w_repository_update f w))
     = authenticated_repository st amb rq (w_database w)"
  by simp

context endpoint_relation
begin

lemma rel_webhook_endpoint:
  assumes "set_option (authenticated_repository st amb rq (w_database w)) \<subseteq> N"
  shows "R w (snd (run_state (webhook_endpoint (st :: 'u app_state) amb rq) w))"
proof (cases "webhook_request_from_request st rq")
  case (Inl e)
  with webhook_endpoint_answer [of st amb rq w] show ?thesis
    by (auto simp: webhook_endpoint_def R_refl R_log split: option.splits prod.splits)
next
  case (Inr request)
  have "R w (snd (run_state (webhook_handler st amb request) w))"
    using assms authenticate_webhook_run [of st amb request w] Inr
    by (intro rel_webhook_handler) (auto simp: authenticated_repository_def split: sum.splits)
  moreover obtain a u where a: "run_state (webhook_handler st amb request) w = (a, u)" by fastforce
  moreover have "R u (snd (run_state (webhook_endpoint st amb rq) w))"
    using webhook_endpoint_answer [of st amb rq w] Inr
    by (cases a) (auto simp: webhook_endpoint_def a R_refl R_log split: option.splits prod.splits)
  ultimately show ?thesis using R_trans by (metis snd_conv)
qed

lemma rel_serve_webhook:
  assumes "set_option (authenticated_repository st amb rq (w_database w)) \<subseteq> N"
  shows "R w (snd (run_state (serve_webhook (st :: 'u app_state) amb rq) w))"
proof -
  let ?w1 = "w_repository_update (\<lambda>_. None) w"
  obtain r w2 where e: "run_state (webhook_endpoint st amb rq) ?w1 = (Some r, w2)"
    using webhook_endpoint_answer [of st amb rq ?w1]
    by (cases "run_state (webhook_endpoint st amb rq) ?w1") auto
  have "R w ?w1" by (rule R_context)
  moreover have "R ?w1 w2" using rel_webhook_endpoint [of st amb rq ?w1] assms e by simp
  moreover have "w_repository w2 = authenticated_repository st amb rq (w_database w)"
    using webhook_endpoint_context [of ?w1 st amb rq] e by simp
  then have "R w2 (snd (run_state (serve_webhook st amb rq) w))"
  proof -
    assume c: "w_repository w2 = authenticated_repository st amb rq (w_database w)"
    obtain result logs where rs: "result_for_status (rsp_status r) = (result, logs)" by fastforce
    let ?w3 = "w_logs_update (\<lambda>l. l @ logs) w2"
    let ?w4 = "w_metrics_update (observe_request (w_repository w2) result (amb_elapsed amb)) ?w3"
    have "R ?w3 ?w4"
      using R_metric [of "ObserveRequest (w_repository w2) result (amb_elapsed amb)"] assms c by simp
    then have w4: "R w2 ?w4" using R_log R_trans by blast
    show ?thesis
      using R_trans [OF R_trans [OF w4 R_log] R_span]
      by (simp add: serve_webhook_def observe_http_request_def observe_webhook_request_def e rs
          record_metric_def record_span_def write_log_def)
  qed
  ultimately show ?thesis using R_trans by blast
qed

end

subsection \<open>Interpretations\<close>

interpretation constraints: endpoint_relation
  "\<lambda>w w'. db_ok (w_database w) \<longrightarrow> db_ok (w_database w')" UNIV
  by unfold_locales
    (auto simp: claim_delivery_db_ok upsert_run_db_ok record_link_db_ok enqueue_db_ok complete_db_ok)

interpretation calm: endpoint_relation "\<lambda>w w'. w_panicked w' = w_panicked w" UNIV
  by unfold_locales auto

interpretation queued: endpoint_relation
  "\<lambda>w w'. length (w_refreshes w) \<le> REFRESH_QUEUE_CAPACITY \<longrightarrow>
     length (w_refreshes w') \<le> REFRESH_QUEUE_CAPACITY" UNIV
  by unfold_locales auto

interpretation gauged: endpoint_relation
  "\<lambda>w w'. gauge_value (w_metrics w') = gauge_value (w_metrics w)" UNIV
  by unfold_locales (auto simp: perform_gauge)

end
