(* ===== verification/Webhook_Properties.thy ===== *)
theory Webhook_Properties
  imports Webhook_Guarantees
begin

section \<open>Properties of a served webhook request\<close>

text \<open>
  What a request does to the service as a whole: the answer it gets, what it may change, whom its
  metrics name, and what happens when GitHub delivers it again.
\<close>

subsection \<open>What a request may change\<close>

text \<open>Configuration is never touched, and delivery claims are only added.\<close>

definition db_extends :: "database \<Rightarrow> database \<Rightarrow> bool" where
  "db_extends db db' \<longleftrightarrow>
     repositories db' = repositories db \<and> (\<exists>new. deliveries db' = deliveries db @ new)"

lemma db_extends_refl: "db_extends db db"
  by (simp add: db_extends_def)

lemma db_extends_trans: "db_extends a b \<Longrightarrow> db_extends b c \<Longrightarrow> db_extends a c"
  by (auto simp: db_extends_def)

lemma db_extends_operations:
  "db_extends db (snd (claim_delivery h f now d db))"
  "db_extends db (snd (upsert_run f now rid c db))"
  "db_extends db (snd (record_link ol f now rid job i db))"
  "db_extends db (snd (enqueue f rid n t db))"
  "db_extends db (snd (complete clk f rid n qc db))"
  by (auto simp: db_extends_def claim_delivery_def upsert_run_def record_link_def enqueue_def
      complete_def insert_attempt_def complete_rows_def Let_def split: option.splits sum.splits
      if_splits)

interpretation growing: endpoint_relation
  "\<lambda>w w'. db_extends (w_database w) (w_database w')" UNIV
  by unfold_locales (auto simp: db_extends_refl db_extends_operations intro: db_extends_trans)

interpretation labelled: endpoint_relation
  "\<lambda>w w'. exposed_series (w_metrics w') \<subseteq> exposed_series (w_metrics w) \<union> series_universe N" N
  for N
proof unfold_locales
  fix q and w :: world
  assume "request_repositories q \<subseteq> N"
  then show "exposed_series (w_metrics (w_metrics_update (perform q) w))
      \<subseteq> exposed_series (w_metrics w) \<union> series_universe N"
    using perform_universe [of q "w_metrics w"] series_universe_mono [of "request_repositories q" N]
    by auto
qed auto

subsection \<open>The answer\<close>

lemma serve_webhook_response:
  "fst (run_state (serve_webhook st amb rq) w)
     = fst (run_state (webhook_endpoint st amb rq) (w_repository_update (\<lambda>_. None) w))"
  by (simp add: serve_webhook_def observe_http_request_def observe_webhook_request_def
      case_prod_beta split: option.split)

lemma serve_webhook_answer:
  "\<exists>r. fst (run_state (serve_webhook st amb rq) w) = Some r \<and> rsp_status r \<in> webhook_statuses"
  using webhook_endpoint_answer by (simp add: serve_webhook_response)

subsection \<open>Requests that authenticate as nobody\<close>

text \<open>Everything but the metrics, the log, the operation spans and the request's own context.\<close>

definition unaffected :: "world \<Rightarrow> world \<Rightarrow> bool" where
  "unaffected w w' \<longleftrightarrow>
     w_database w' = w_database w \<and> w_exported w' = w_exported w \<and> w_reports w' = w_reports w
     \<and> w_refreshes w' = w_refreshes w"

lemma serve_webhook_unaffected:
  "unaffected w (snd (run_state (serve_webhook st amb rq) w)) \<longleftrightarrow>
     unaffected w (snd (run_state (webhook_endpoint st amb rq) (w_repository_update (\<lambda>_. None) w)))"
  by (auto simp: serve_webhook_def observe_http_request_def observe_webhook_request_def
      record_metric_def record_span_def write_log_def unaffected_def case_prod_beta
      split: option.split)

lemma unauthenticated_endpoint:
  assumes "authenticated_repository st amb rq (w_database w) = None"
  shows "unaffected w (snd (run_state (webhook_endpoint st amb rq) w))"
    and "\<exists>r. fst (run_state (webhook_endpoint st amb rq) w) = Some r \<and> rsp_status r \<noteq> 204"
proof -
  have "unaffected w (snd (run_state (webhook_endpoint st amb rq) w))
    \<and> (\<exists>r. fst (run_state (webhook_endpoint st amb rq) w) = Some r \<and> rsp_status r \<noteq> 204)"
  proof (cases "webhook_request_from_request st rq")
    case (Inl e)
    with webhook_error_response [OF extraction_error [OF Inl],
        of "lib_uuid_text (app_libraries st)"] show ?thesis
      by (auto simp: webhook_endpoint_def unaffected_def)
  next
    case (Inr request)
    obtain x where x: "authentication_answer st amb request (w_database w) = Err x"
      using assms Inr by (auto simp: authenticated_repository_def split: sum.splits)
    obtain f where a: "run_state (authenticate_webhook st amb (wq_repository_name request)
        (wq_signature request) (wq_body request)) w = (Err x, w_spans_update f w)"
      using authenticate_webhook_run [of st amb request w] x by auto
    obtain e u where h: "run_state (webhook_handler st amb request) w = (Err e, u)"
      and u: "unaffected w u"
      by (cases x) (auto simp: webhook_handler_def Let_def a record_span_def unavailable_error_def
          record_failure_logged_def new_correlation_id_def record_metric_def write_log_def
          unaffected_def)
    have "webhook_error e"
      using webhook_handler_answer [of st amb request w] h by (simp add: errors_in_def)
    from webhook_error_response [OF this, of "lib_uuid_text (app_libraries st)"] h u Inr
    show ?thesis by (auto simp: webhook_endpoint_def unaffected_def)
  qed
  then show "unaffected w (snd (run_state (webhook_endpoint st amb rq) w))"
    and "\<exists>r. fst (run_state (webhook_endpoint st amb rq) w) = Some r \<and> rsp_status r \<noteq> 204" by auto
qed

text \<open>The answer and the metrics of an unauthorized request do not depend on the reason.\<close>

lemma unauthorized_handler:
  assumes "authentication_answer st amb request (w_database w)
      = Err webhook_authentication_error.Unauthorized"
  shows "\<exists>f. run_state (webhook_handler st amb request) w
      = (Err UnauthorizedWebhook, w_spans_update f w)"
  using authenticate_webhook_run [of st amb request w] assms
  by (auto simp: webhook_handler_def Let_def record_span_def)

lemma authentication_unauthorized:
  assumes "amb_faults amb database_operation.RepositoryAuthenticate 0 = None"
    and "\<not> (\<exists>row \<in> set (repositories db).
           rr_full_name row = name_as_str (wq_repository_name request) \<and> rr_enabled row = 1)"
  shows "authentication_answer st amb request db = Err webhook_authentication_error.Unauthorized"
proof -
  have "find (\<lambda>r. rr_full_name r = name_as_str (wq_repository_name request) \<and> rr_enabled r = 1)
      (repositories db) = None"
    using assms(2) by (auto simp: find_None_iff)
  with assms(1) show ?thesis
    by (simp add: authentication_answer_def authentication_material_def ok_or_def
        authentication_error_from_store_def)
qed

subsection \<open>Deliveries that are delivered again\<close>

lemma claim_delivery_claimed:
  "fst (claim_delivery h f now d db) = Ok c \<Longrightarrow> claimed h (snd (claim_delivery h f now d db)) d"
  by (auto simp: claim_delivery_def Let_def claimed_def list_ex_iff intro: rev_image_eqI
      split: option.splits if_splits)

lemma claimed_extends: "claimed h db d \<Longrightarrow> db_extends db db' \<Longrightarrow> claimed h db' d"
  by (auto simp: claimed_def db_extends_def)

lemma new_delivery_extends:
  "w_database w = db \<Longrightarrow>
     db_extends db (w_database (snd (run_state (process_new_delivery st amb rid request p et act) w)))"
  using growing.rel_new_delivery [of request st amb rid p et act] by (auto simp: state_io_rel_def)

lemma processed_delivery_claimed:
  assumes "run_state (process_delivery st amb rid request) w = ((calls, Ok oc), w')"
  shows "claimed (lib_hyphenated (app_libraries st)) (w_database w') (wq_delivery_id request)"
    and "Option.bind (lib_from_slice (app_libraries st) (wq_body request)) read_event_projection
      \<noteq> None"
proof -
  let ?h = "lib_hyphenated (app_libraries st)" and ?d = "wq_delivery_id request"
  obtain p where p: "Option.bind (lib_from_slice (app_libraries st) (wq_body request))
      read_event_projection = Some p"
    using assms by (auto simp: process_delivery_def split: option.splits)
  then show "Option.bind (lib_from_slice (app_libraries st) (wq_body request)) read_event_projection
      \<noteq> None" by simp
  obtain claim db where c: "claim_delivery ?h (amb_faults amb database_operation.DeliveryClaim)
      (amb_sql_now amb database_operation.DeliveryClaim) ?d (w_database w) = (claim, db)" by fastforce
  show "claimed ?h (w_database w') ?d"
  proof (cases claim)
    case (Inl e)
    with assms p c show ?thesis
      by (auto simp: process_delivery_def Let_def instrument_database_operation_def record_span_def
          unavailable_error_def record_failure_logged_def new_correlation_id_def record_metric_def
          write_log_def)
  next
    case (Inr x)
    with claim_delivery_claimed [of ?h _ _ ?d "w_database w"] c have db: "claimed ?h db ?d"
      by (metis fst_conv snd_conv)
    have "db_extends db (w_database w')"
      using assms p c Inr
      by (cases x) (auto simp: process_delivery_def Let_def instrument_database_operation_def
          record_span_def record_metric_def case_prod_beta db_extends_refl new_delivery_extends)
    with db show ?thesis by (rule claimed_extends)
  qed
qed

lemma duplicate_delivery:
  assumes "claimed (lib_hyphenated (app_libraries st)) (w_database w) (wq_delivery_id request)"
    and "amb_faults amb database_operation.DeliveryClaim 0 = None"
    and "Option.bind (lib_from_slice (app_libraries st) (wq_body request)) read_event_projection
      \<noteq> None"
  shows "\<exists>calls f. run_state (process_delivery st amb rid request) w =
    ((calls, Ok operation_outcome.Duplicate),
     w_metrics_update (record_duplicate (wq_repository_name request)) (w_spans_update f w))"
proof -
  have "claim_delivery (lib_hyphenated (app_libraries st))
      (amb_faults amb database_operation.DeliveryClaim)
      (amb_sql_now amb database_operation.DeliveryClaim) (wq_delivery_id request) (w_database w)
      = (Ok delivery_claim.Duplicate, w_database w)"
    using assms(1,2) by (auto simp: claim_delivery_def Let_def claimed_def list_ex_iff)
  with assms(3) show ?thesis
    by (auto simp: process_delivery_def Let_def instrument_database_operation_def record_span_def
        record_metric_def)
qed

subsection \<open>A concrete service\<close>

definition sample_libraries :: "json \<Rightarrow> nat libraries" where
  "sample_libraries v =
     \<lparr>lib_clock = sample_clock, lib_otel = sample_otel, lib_hyphenated = (\<lambda>n. [n]),
      lib_parse_uuid = (\<lambda>s. Some 7), lib_from_slice = (\<lambda>_. Some v),
      lib_to_str = (\<lambda>b. Some (map unat b)), lib_uuid_text = decimal\<rparr>"

definition sample_app :: "json \<Rightarrow> nat app_state" where
  "sample_app v = with_workflow_trace_emitter (emitter_new sample_tracer)
     (app_state_new (sample_libraries v) sample_store (AdminAuthenticator []) 1000 10)"

definition sample_row :: repository_row where
  "sample_row =
     \<lparr>rr_id = 1, rr_full_name = lit ''o/r'', rr_ciphertext = as_bytes (lit ''k'') @ replicate 16 0,
      rr_nonce = replicate 12 0, rr_encryption_version = 1, rr_enabled = 1, rr_created_at = [],
      rr_updated_at = []\<rparr>"

definition sample_world :: world where
  "sample_world =
     \<lparr>w_database = empty_database\<lparr>repositories := [sample_row]\<rparr>, w_metrics = metrics_new,
      w_spans = [], w_exported = [], w_reports = [], w_refreshes = [], w_refresher_stopped = False,
      w_logs = [], w_correlations = 0, w_repository = None, w_panicked = False\<rparr>"

definition sample_ambient :: ambient where
  "sample_ambient =
     \<lparr>amb_faults = (\<lambda>_. no_faults), amb_sql_now = (\<lambda>_. []), amb_received_at = 5,
      amb_checks_at = 5, amb_nonce = replicate 12 0, amb_elapsed = 1\<rparr>"

definition sample_http_request :: "string \<Rightarrow> http_request" where
  "sample_http_request event =
     \<lparr>rq_method = lit ''POST'', rq_matched_path = Some (lit ''/webhooks/github''),
      rq_headers = [(lit ''content-type'', as_bytes (lit ''application/json'')),
        (lit ''x-github-event'', as_bytes (lit event)), (lit ''x-github-delivery'', [100]),
        (lit ''x-hub-signature-256'', as_bytes (lit ''sha256='' @ replicate 64 48))],
      rq_body = Ok [1]\<rparr>"

definition sample_webhook_request :: "string \<Rightarrow> nat webhook_request" where
  "sample_webhook_request event =
     \<lparr>wq_body = [1], wq_repository_name = sample_name, wq_event_type = lit event,
      wq_delivery_id = DeliveryId 7, wq_signature = WebhookSignature (replicate 32 0)\<rparr>"

text \<open>A body naming the repository, with an action and further members.\<close>

definition sample_body :: "(rstring \<times> json) list \<Rightarrow> json" where
  "sample_body ms = JObject ((lit ''repository'', JObject [(lit ''full_name'', JString (lit ''o/r''))])
     # (lit ''action'', JString (lit ''completed'')) # ms)"

lemma ascii_bytes: "\<forall>c \<in> set s. c < 128 \<Longrightarrow> utf8_numbers s = s"
  by (induction s) (auto simp: utf8_numbers_def utf8_char_def)

lemma ascii_to_str: "\<forall>c \<in> set s. c < 128 \<Longrightarrow> map unat (as_bytes s) = s"
proof -
  assume a: "\<forall>c \<in> set s. c < 128"
  then have "map (unat \<circ> (of_nat :: nat \<Rightarrow> byte)) s = s"
    by (intro map_idI) (auto simp: unat_of_nat)
  with ascii_bytes [OF a] show ?thesis by (simp add: as_bytes_def)
qed

lemma sample_signature:
  "webhook_signature_parse sample_crypto (lit ''sha256='' @ replicate 64 48)
     = Ok (WebhookSignature (replicate 32 0))"
proof -
  have "utf8_numbers (lit ''sha256='' @ replicate 64 48) = lit ''sha256='' @ replicate 64 48"
    by (rule ascii_bytes) (auto simp: lit_def)
  moreover have "utf8_numbers SIGNATURE_PREFIX = SIGNATURE_PREFIX"
    by (rule ascii_bytes) (auto simp: lit_def SIGNATURE_PREFIX_def)
  ultimately show ?thesis
    by (simp add: webhook_signature_parse_def strip_prefix_def as_bytes_def SIGNATURE_PREFIX_def
        lit_def ENCODED_SHA256_DIGEST_LENGTH_def sample_crypto_def)
qed

lemma sample_header:
  assumes "map_of (rq_headers rq) name = Some (as_bytes s)" and "\<forall>c \<in> set s. c < 128" and "s \<noteq> []"
  shows "required_header (sample_libraries v) rq name = Ok s"
  using assms(1,3) ascii_to_str [OF assms(2)] by (simp add: required_header_def sample_libraries_def)

lemma sample_extraction:
  assumes "lit ''repository'' \<notin> fst ` set ms" and "event \<in> {''push'', ''workflow_run''}"
  shows "webhook_request_from_request (sample_app (sample_body ms)) (sample_http_request event)
    = Ok (sample_webhook_request event)"
proof -
  let ?v = "sample_body ms" and ?rq = "sample_http_request event"
  have "filter (\<lambda>m. fst m = lit ''repository'') ms = []"
    using assms(1) by (force simp: filter_empty_conv)
  then have r: "read_webhook_repository ?v = Some (lit ''o/r'')"
    by (simp add: read_webhook_repository_def read_repository_def sample_body_def reader_defs lit_def)
  have "validate_content_type ?rq = Ok ()"
    by (simp add: validate_content_type_def sample_http_request_def JSON_CONTENT_TYPE_def)
  moreover have "required_header (sample_libraries ?v) ?rq (lit ''x-github-event'') = Ok (lit event)"
    by (rule sample_header) (use assms(2) in \<open>auto simp: sample_http_request_def lit_def\<close>)
  moreover have "required_header (sample_libraries ?v) ?rq (lit ''x-github-delivery'') = Ok [100]"
    by (rule sample_header) (auto simp: sample_http_request_def lit_def as_bytes_def
        utf8_numbers_def utf8_char_def)
  moreover have "required_header (sample_libraries ?v) ?rq (lit ''x-hub-signature-256'')
      = Ok (lit ''sha256='' @ replicate 64 48)"
    by (rule sample_header) (auto simp: sample_http_request_def lit_def)
  ultimately show ?thesis
    by (simp add: webhook_request_from_request_def Let_def sample_app_def
        with_workflow_trace_emitter_def app_state_new_def delivery_id_parse_def sample_store_def
        sample_signature sample_webhook_request_def sample_name_new r)
      (simp add: sample_libraries_def sample_http_request_def r sample_name_new)
qed

lemma sample_answer:
  "authentication_answer (sample_app v) sample_ambient (sample_webhook_request event)
     (w_database sample_world) = Ok (RepositoryId 1)"
proof -
  have "decode_encrypted_secret sample_row = Ok \<lparr>enc_version = 1, enc_nonce = replicate 12 0,
      enc_ciphertext = as_bytes (lit ''k'') @ replicate 16 0\<rparr>"
    by (simp add: decode_encrypted_secret_def sample_row_def encrypted_from_parts_def vocab)
  moreover have "store_decrypt sample_store sample_name \<lparr>enc_version = 1,
      enc_nonce = replicate 12 0, enc_ciphertext = as_bytes (lit ''k'') @ replicate 16 0\<rparr>
      = Ok sample_secret"
    using sample_secret_decrypted
    by (simp add: store_decrypt_def cipher_decrypt_def sample_store_def sample_crypto_def vocab
        sample_secret_def)
  ultimately have "authentication_material sample_store no_faults sample_name
      (w_database sample_world) = Ok (RepositoryId 1, sample_secret)"
    by (simp add: authentication_material_def no_faults_def sample_world_def sample_row_def
        sample_name_def repository_id_from_database_def repository_id_new_def)
  then show ?thesis
    by (simp add: authentication_answer_def sample_app_def with_workflow_trace_emitter_def
        app_state_new_def sample_ambient_def sample_webhook_request_def verify_signature_def
        sample_store_def sample_crypto_def)
qed

lemma sample_authenticated:
  assumes "lit ''repository'' \<notin> fst ` set ms" and "event \<in> {''push'', ''workflow_run''}"
  shows "authenticated_repository (sample_app (sample_body ms)) sample_ambient
    (sample_http_request event) (w_database sample_world) = Some sample_name"
  by (simp add: authenticated_repository_def sample_extraction [OF assms] sample_answer)
    (simp add: sample_webhook_request_def)

lemma sample_world_ok: "db_ok (w_database sample_world)"
  by (simp add: sample_world_def sample_row_def db_ok_def empty_database_def repositories_ok_def
      attempts_ok_def keyed_table_ok_def)

subsection \<open>Properties\<close>

text \<open>
  C3: Every webhook request, whatever its headers and body and whatever database statements fail, is
  answered with one of the six statuses the result label knows, and without a panic; it keeps the
  constraints of the database and the repository configuration, and only ever adds delivery claims.
\<close>

theorem webhook_request_contained:
  assumes "db_ok (w_database w)"
  shows "\<exists>response w'. run_state (serve_webhook st amb rq) w = (Some response, w')
     \<and> rsp_status response \<in> {204, 400, 401, 413, 415, 503}
     \<and> w_panicked w' = w_panicked w
     \<and> repositories (w_database w') = repositories (w_database w)
     \<and> (\<exists>new. deliveries (w_database w') = deliveries (w_database w) @ new)
     \<and> db_ok (w_database w')"
proof -
  obtain r where r: "fst (run_state (serve_webhook st amb rq) w) = Some r"
    "rsp_status r \<in> {204, 400, 401, 413, 415, 503}"
    using serve_webhook_answer by (metis webhook_statuses_def)
  let ?w' = "snd (run_state (serve_webhook st amb rq) w)"
  have "run_state (serve_webhook st amb rq) w = (Some r, ?w')"
    using r(1) by (metis prod.collapse)
  moreover have "db_extends (w_database w) (w_database ?w')"
    using growing.rel_serve_webhook [of st amb rq w] by simp
  moreover have "db_ok (w_database ?w')"
    using constraints.rel_serve_webhook [of st amb rq w] assms by simp
  moreover have "w_panicked ?w' = w_panicked w"
    using calm.rel_serve_webhook [of st amb rq w] by simp
  ultimately show ?thesis using r(2) unfolding db_extends_def by blast
qed

lemma webhook_request_contained_witness:
  "\<exists>response w'. run_state (serve_webhook (sample_app (sample_body [])) sample_ambient
       (sample_http_request ''push'')) sample_world = (Some response, w')
     \<and> rsp_status response \<in> {204, 400, 401, 413, 415, 503} \<and> db_ok (w_database w')"
  using webhook_request_contained [OF sample_world_ok] by blast

text \<open>
  C8: A request adds metric series for the one repository it authenticated as, or of the unknown
  label only; and authenticating as a repository means that it is configured and enabled and that
  its decrypted secret is the key of the signature sent with the body.
\<close>

theorem webhook_labels_only_authenticated:
  "exposed_series (w_metrics (snd (run_state (serve_webhook st amb rq) w)))
     \<subseteq> exposed_series (w_metrics w)
        \<union> series_universe (set_option (authenticated_repository st amb rq (w_database w)))
   \<and> (authenticated_repository st amb rq (w_database w) = Some n \<longrightarrow>
        (\<exists>request row secret. webhook_request_from_request st rq = Ok request
             \<and> wq_repository_name request = n \<and> row \<in> set (repositories (w_database w))
             \<and> rr_full_name row = name_as_str n \<and> rr_enabled row = 1
             \<and> (\<exists>enc. decode_encrypted_secret row = Ok enc
                  \<and> store_decrypt (app_repository_store st) n enc = Ok secret)
             \<and> hmac_sha256 (store_crypto (app_repository_store st)) (secret_bytes secret)
                 (wq_body request) = Some (signature_digest (wq_signature request))))"
  using labelled.rel_serve_webhook [of st amb rq w
      "set_option (authenticated_repository st amb rq (w_database w))"]
    authenticated_repository_verified [of st amb rq "w_database w" n] by blast

lemma webhook_labels_only_authenticated_witness:
  "\<exists>row secret. row \<in> set (repositories (w_database sample_world)) \<and> rr_enabled row = 1
     \<and> hmac_sha256 sample_crypto (secret_bytes secret) [1] = Some (replicate 32 0)"
proof -
  have a: "authenticated_repository (sample_app (sample_body [])) sample_ambient
      (sample_http_request ''push'') (w_database sample_world) = Some sample_name"
    by (rule sample_authenticated) simp_all
  from webhook_labels_only_authenticated [of "sample_app (sample_body [])" sample_ambient
      "sample_http_request ''push''" sample_world sample_name] a
  obtain row where "row \<in> set (repositories (w_database sample_world))" "rr_enabled row = 1"
    by blast
  then show ?thesis by (auto simp: sample_crypto_def)
qed

text \<open>
  C9: A request that authenticates as nobody is refused and leaves the database, the exported spans
  and error reports and the refresh queue as they were. Whether its repository is unknown, disabled,
  or another secret's signature was sent, the response is the same 401 and the metrics change in the
  same way.
\<close>

theorem unauthenticated_request_inert:
  assumes "authenticated_repository st amb rq (w_database w) = None"
  shows "unaffected w (snd (run_state (serve_webhook st amb rq) w))
    \<and> (\<exists>r. fst (run_state (serve_webhook st amb rq) w) = Some r \<and> rsp_status r \<noteq> 204)
    \<and> (webhook_request_from_request st rq = Ok request
       \<and> authentication_answer st amb request (w_database w)
           = Err webhook_authentication_error.Unauthorized \<longrightarrow>
       fst (run_state (serve_webhook st amb rq) w)
         = Some (error_response 401 (lit ''unauthorized'') (lit ''webhook authentication failed''))
       \<and> w_metrics (snd (run_state (serve_webhook st amb rq) w))
         = observe_request None webhook_result.Unauthorized (amb_elapsed amb) (w_metrics w))"
proof (intro conjI impI)
  let ?w1 = "w_repository_update (\<lambda>_. None) w"
  have n: "authenticated_repository st amb rq (w_database ?w1) = None" using assms by simp
  show "unaffected w (snd (run_state (serve_webhook st amb rq) w))"
    unfolding serve_webhook_unaffected
    using unauthenticated_endpoint(1) [OF n] by (simp add: unaffected_def)
  show "\<exists>r. fst (run_state (serve_webhook st amb rq) w) = Some r \<and> rsp_status r \<noteq> 204"
    using unauthenticated_endpoint(2) [OF n] by (simp add: serve_webhook_response)
  assume a: "webhook_request_from_request st rq = Ok request
       \<and> authentication_answer st amb request (w_database w)
           = Err webhook_authentication_error.Unauthorized"
  then obtain f where h: "run_state (webhook_handler st amb request) ?w1
      = (Err UnauthorizedWebhook, w_spans_update f ?w1)"
    using unauthorized_handler [of st amb request ?w1] by auto
  have e: "run_state (webhook_endpoint st amb rq) ?w1 =
      (Some (error_response 401 (lit ''unauthorized'') (lit ''webhook authentication failed'')),
       w_logs_update (\<lambda>l. l @ []) (w_spans_update f ?w1))"
    using a h by (simp add: webhook_endpoint_def app_error_into_response_def)
  show "fst (run_state (serve_webhook st amb rq) w)
      = Some (error_response 401 (lit ''unauthorized'') (lit ''webhook authentication failed''))"
    by (simp add: serve_webhook_response e)
  show "w_metrics (snd (run_state (serve_webhook st amb rq) w))
      = observe_request None webhook_result.Unauthorized (amb_elapsed amb) (w_metrics w)"
    by (simp add: serve_webhook_def observe_http_request_def observe_webhook_request_def e
        error_response_def result_for_status_def record_metric_def record_span_def write_log_def)
qed

lemma unauthenticated_request_inert_witness:
  "fst (run_state (serve_webhook (sample_app (sample_body [])) sample_ambient
      (sample_http_request ''push'')) (sample_world\<lparr>w_database := empty_database\<rparr>))
    = Some (error_response 401 (lit ''unauthorized'') (lit ''webhook authentication failed''))"
proof -
  let ?app = "sample_app (sample_body [])" and ?w = "sample_world\<lparr>w_database := empty_database\<rparr>"
  have x: "webhook_request_from_request ?app (sample_http_request ''push'')
      = Ok (sample_webhook_request ''push'')"
    by (rule sample_extraction) simp_all
  have a: "authentication_answer ?app sample_ambient (sample_webhook_request ''push'') (w_database ?w)
      = Err webhook_authentication_error.Unauthorized"
    by (rule authentication_unauthorized)
      (simp_all add: sample_ambient_def no_faults_def empty_database_def)
  have "authenticated_repository ?app sample_ambient (sample_http_request ''push'') (w_database ?w)
      = None"
    using x a by (simp add: authenticated_repository_def)
  from unauthenticated_request_inert [OF this, of "sample_webhook_request ''push''"] x a
  show ?thesis by blast
qed

lemma authentication_answer_repositories:
  assumes "authentication_answer st amb request db = Ok rid"
    and "repositories db' = repositories db"
    and "amb_faults amb' database_operation.RepositoryAuthenticate 0 = None"
  shows "authentication_answer st amb' request db' = Ok rid"
  using assms
  by (auto simp: authentication_answer_def authentication_material_def split: option.splits)

text \<open>An authenticated request is its delivery's processing, in the request's context.\<close>

lemma authenticated_handler:
  assumes "authentication_answer st amb request (w_database w) = Ok rid"
  obtains u h where "unaffected w u"
    and "run_state (webhook_handler st amb request) w =
      (case run_state (process_delivery st amb rid request) u of
         ((calls, res), v) \<Rightarrow> (and_then res (\<lambda>_. Ok 204), w_spans_update (h calls res) v))"
proof -
  obtain f where a: "run_state (authenticate_webhook st amb (wq_repository_name request)
      (wq_signature request) (wq_body request)) w = (Ok rid, w_spans_update f w)"
    using authenticate_webhook_run [of st amb request w] assms by auto
  let ?u = "snd (run_state (do { context_authenticate (wq_repository_name request);
      record_span operation.WebhookAuthenticate (set_repository_name (wq_repository_name request)
        @ set_delivery_id (lib_hyphenated (app_libraries st)) (wq_delivery_id request)
        @ set_repository_id rid @ set_status operation_outcome.Success) }) (w_spans_update f w))"
  have "\<exists>h. run_state (webhook_handler st amb request) w =
      (case run_state (process_delivery st amb rid request) ?u of
         ((calls, res), v) \<Rightarrow> (and_then res (\<lambda>_. Ok 204), w_spans_update (h calls res) v))"
    by (intro exI [of _ "\<lambda>calls res s. s @ [_ calls res]"])
      (simp add: webhook_handler_def Let_def a context_authenticate_def record_span_def
        case_prod_beta comp_def)
  moreover have "unaffected w ?u"
    by (simp add: unaffected_def context_authenticate_def record_span_def)
  ultimately show thesis using that by blast
qed

text \<open>What a request that was answered 204 went through.\<close>

lemma accepted_request:
  assumes "run_state (serve_webhook st amb rq) w = (Some r, w')" and "rsp_status r = 204"
  obtains request rid where "webhook_request_from_request st rq = Ok request"
    and "authentication_answer st amb request (w_database w) = Ok rid"
    and "claimed (lib_hyphenated (app_libraries st)) (w_database w') (wq_delivery_id request)"
    and "Option.bind (lib_from_slice (app_libraries st) (wq_body request)) read_event_projection
      \<noteq> None"
proof -
  let ?w1 = "w_repository_update (\<lambda>_. None) w"
  have r: "fst (run_state (webhook_endpoint st amb rq) ?w1) = Some r"
    using assms(1) serve_webhook_response [of st amb rq w] by simp
  have "authenticated_repository st amb rq (w_database ?w1) \<noteq> None"
    using unauthenticated_endpoint(2) [of st amb rq ?w1] r assms(2) by auto
  then obtain request rid where x: "webhook_request_from_request st rq = Ok request"
    and a: "authentication_answer st amb request (w_database w) = Ok rid"
    by (auto simp: authenticated_repository_def split: sum.splits)
  have "authentication_answer st amb request (w_database ?w1) = Ok rid" using a by simp
  then obtain u k where k: "run_state (webhook_handler st amb request) ?w1 =
      (case run_state (process_delivery st amb rid request) u of
         ((calls, res), v) \<Rightarrow> (and_then res (\<lambda>_. Ok 204), w_spans_update (k calls res) v))"
    using authenticated_handler [of st amb request ?w1 rid] by blast
  obtain calls res v where d: "run_state (process_delivery st amb rid request) u
      = ((calls, res), v)"
    using prod.exhaust by metis
  with k have h: "run_state (webhook_handler st amb request) ?w1 =
      (and_then res (\<lambda>_. Ok 204), w_spans_update (k calls res) v)" by simp
  have "\<exists>oc. res = Ok oc"
  proof (cases res)
    case (Inl e)
    have "webhook_error e"
      using webhook_handler_answer [of st amb request ?w1] h Inl by (simp add: errors_in_def)
    from webhook_error_response [OF this, of "lib_uuid_text (app_libraries st)"] h x Inl r assms(2)
    show ?thesis by (auto simp: webhook_endpoint_def)
  qed simp
  then obtain oc where oc: "res = Ok oc" by blast
  have "w_database w' = w_database v"
    using assms(1) h x oc
    by (auto simp: serve_webhook_def observe_http_request_def observe_webhook_request_def
        webhook_endpoint_def record_metric_def record_span_def write_log_def case_prod_beta)
  with processed_delivery_claimed [of st amb rid request u calls oc v] d oc
  show thesis using that [OF x a] by simp
qed

text \<open>A delivery that is already claimed is acknowledged and not processed again.\<close>

lemma claimed_served:
  assumes "webhook_request_from_request st rq = Ok request"
    and a: "authentication_answer st amb request (w_database w) = Ok rid"
    and c: "claimed (lib_hyphenated (app_libraries st)) (w_database w) (wq_delivery_id request)"
    and n: "amb_faults amb database_operation.DeliveryClaim 0 = None"
    and p: "Option.bind (lib_from_slice (app_libraries st) (wq_body request)) read_event_projection
      \<noteq> None"
  shows "\<exists>r. fst (run_state (serve_webhook st amb rq) w) = Some r \<and> rsp_status r = 204"
    and "unaffected w (snd (run_state (serve_webhook st amb rq) w))"
proof -
  let ?w1 = "w_repository_update (\<lambda>_. None) w"
  obtain u h where u: "unaffected ?w1 u" and h: "run_state (webhook_handler st amb request) ?w1 =
    (case run_state (process_delivery st amb rid request) u of
       ((calls, res), v) \<Rightarrow> (and_then res (\<lambda>_. Ok 204), w_spans_update (h calls res) v))"
    using authenticated_handler [of st amb request ?w1 rid] a by auto
  have "w_database u = w_database w" using u by (simp add: unaffected_def)
  then obtain calls k where d: "run_state (process_delivery st amb rid request) u
      = ((calls, Ok operation_outcome.Duplicate),
         w_metrics_update (record_duplicate (wq_repository_name request)) (w_spans_update k u))"
    using duplicate_delivery [of st u request amb rid] c n p by auto
  have e: "\<exists>r v. run_state (webhook_endpoint st amb rq) ?w1 = (Some r, v) \<and> rsp_status r = 204
      \<and> unaffected w v"
    using u by (simp add: webhook_endpoint_def assms(1) h d unaffected_def)
  then show "\<exists>r. fst (run_state (serve_webhook st amb rq) w) = Some r \<and> rsp_status r = 204"
    by (auto simp: serve_webhook_response)
  show "unaffected w (snd (run_state (serve_webhook st amb rq) w))"
    unfolding serve_webhook_unaffected using e by (auto simp: unaffected_def)
qed


lemma sample_push_accepted:
  "\<exists>r w'. run_state (serve_webhook (sample_app (sample_body [])) sample_ambient
      (sample_http_request ''push'')) sample_world = (Some r, w') \<and> rsp_status r = 204"
proof -
  let ?app = "sample_app (sample_body [])" and ?w1 = "w_repository_update (\<lambda>_. None) sample_world"
  let ?rq = "sample_webhook_request ''push''"
  have x: "webhook_request_from_request ?app (sample_http_request ''push'') = Ok ?rq"
    by (rule sample_extraction) simp_all
  have a: "authentication_answer ?app sample_ambient ?rq (w_database ?w1) = Ok (RepositoryId 1)"
    using sample_answer by simp
  obtain u h where u: "unaffected ?w1 u" and h: "run_state (webhook_handler ?app sample_ambient ?rq) ?w1
    = (case run_state (process_delivery ?app sample_ambient (RepositoryId 1) ?rq) u of
         ((calls, res), v) \<Rightarrow> (and_then res (\<lambda>_. Ok 204), w_spans_update (h calls res) v))"
    using authenticated_handler [OF a] by blast
  have "deliveries (w_database u) = []"
    using u by (simp add: unaffected_def sample_world_def empty_database_def)
  moreover have "normalize_event_type (lit ''push'') = event_type.Push"
    by (simp add: normalize_event_type_def lit_def)
  moreover have "Option.bind (lib_from_slice (app_libraries ?app) (wq_body ?rq))
      read_event_projection = Some \<lparr>ep_action = Some (lit ''completed''), ep_reason = None,
        ep_merge_group = None, ep_pull_request = None\<rparr>"
    by (simp add: sample_app_def sample_libraries_def app_state_new_def
        with_workflow_trace_emitter_def read_event_projection_def sample_body_def reader_defs lit_def)
  ultimately have "\<exists>calls oc v. run_state (process_delivery ?app sample_ambient (RepositoryId 1) ?rq) u
      = ((calls, Ok oc), v)"
    by (simp add: process_delivery_def Let_def sample_webhook_request_def sample_ambient_def
        claim_delivery_def no_faults_def instrument_database_operation_def record_span_def
        process_new_delivery_def process_workflow_run_def process_workflow_job_def
        process_merge_group_def process_pull_request_def record_metric_def
        merge_group_transition_of_def case_prod_beta)
  then have "\<exists>r v. run_state (webhook_endpoint ?app sample_ambient (sample_http_request ''push'')) ?w1
      = (Some r, v) \<and> rsp_status r = 204"
    using x h by (auto simp: webhook_endpoint_def)
  then have "\<exists>r. fst (run_state (serve_webhook ?app sample_ambient (sample_http_request ''push''))
      sample_world) = Some r \<and> rsp_status r = 204"
    by (auto simp: serve_webhook_response)
  then show ?thesis by (metis prod.collapse)
qed


subsection \<open>A delivery whose processing fails\<close>

lemma failed_upsert_delivery:
  assumes "amb_faults amb database_operation.DeliveryClaim 0 = None"
    and "\<not> claimed (lib_hyphenated (app_libraries st)) (w_database u) (wq_delivery_id request)"
    and "Option.bind (lib_from_slice (app_libraries st) (wq_body request)) read_event_projection
      \<noteq> None"
    and "normalize_event_type (wq_event_type request) = event_type.WorkflowRun"
    and "project_context (lib_from_slice (app_libraries st)) (wq_body request) \<noteq> None"
    and "amb_faults amb database_operation.WorkflowRunUpsert 0 \<noteq> None"
  shows "\<exists>calls e v. run_state (process_delivery st amb rid request) u
      = ((calls, Err (WebhookUnavailable e)), v)
    \<and> run_contexts (w_database v) = run_contexts (w_database u)
    \<and> claimed (lib_hyphenated (app_libraries st)) (w_database v) (wq_delivery_id request)"
  using assms
  by (auto simp: process_delivery_def Let_def instrument_database_operation_def record_span_def
      claim_delivery_def claimed_def list_ex_iff process_new_delivery_def process_workflow_run_def
      upsert_run_def unavailable_error_def record_failure_logged_def new_correlation_id_def
      record_metric_def write_log_def) (metis imageI)

text \<open>
  C20: When the run context of a workflow_run delivery cannot be stored, the request is answered 503
  although its delivery has been claimed, so the delivery GitHub sends again is acknowledged as a
  duplicate and its run context is never stored.
\<close>

theorem failed_run_upsert_not_retried:
  assumes "webhook_request_from_request st rq = Ok request"
    and a: "authentication_answer st amb request (w_database w) = Ok rid"
    and "amb_faults amb database_operation.DeliveryClaim 0 = None"
    and "\<not> claimed (lib_hyphenated (app_libraries st)) (w_database w) (wq_delivery_id request)"
    and p: "Option.bind (lib_from_slice (app_libraries st) (wq_body request)) read_event_projection
      \<noteq> None"
    and "normalize_event_type (wq_event_type request) = event_type.WorkflowRun"
    and "project_context (lib_from_slice (app_libraries st)) (wq_body request) \<noteq> None"
    and "amb_faults amb database_operation.WorkflowRunUpsert 0 \<noteq> None"
    and "run_state (serve_webhook st amb rq) w = (Some response, w')"
    and "amb_faults again database_operation.RepositoryAuthenticate 0 = None"
    and "amb_faults again database_operation.DeliveryClaim 0 = None"
  shows "rsp_status response = 503
    \<and> (\<exists>r w''. run_state (serve_webhook st again rq) w' = (Some r, w'') \<and> rsp_status r = 204
         \<and> run_contexts (w_database w'') = run_contexts (w_database w))"
proof -
  let ?w1 = "w_repository_update (\<lambda>_. None) w"
  have "authentication_answer st amb request (w_database ?w1) = Ok rid" using a by simp
  then obtain u k where u: "unaffected ?w1 u" and k: "run_state (webhook_handler st amb request) ?w1
      = (case run_state (process_delivery st amb rid request) u of
         ((calls, res), v) \<Rightarrow> (and_then res (\<lambda>_. Ok 204), w_spans_update (k calls res) v))"
    using authenticated_handler [of st amb request ?w1 rid] by blast
  have db: "w_database u = w_database w" using u by (simp add: unaffected_def)
  then obtain calls e v where d: "run_state (process_delivery st amb rid request) u
      = ((calls, Err (WebhookUnavailable e)), v)"
    and v: "run_contexts (w_database v) = run_contexts (w_database w)"
      "claimed (lib_hyphenated (app_libraries st)) (w_database v) (wq_delivery_id request)"
    using failed_upsert_delivery [of amb st u request rid] assms(3-8) by auto
  have w': "rsp_status response = 503 \<and> w_database w' = w_database v"
    using assms(9)
    by (auto simp: serve_webhook_def observe_http_request_def observe_webhook_request_def
        webhook_endpoint_def assms(1) k d app_error_into_response_def correlated_error_response_def
        record_metric_def record_span_def write_log_def case_prod_beta)
  have "repositories (w_database w') = repositories (w_database w)"
    using growing.rel_serve_webhook [of st amb rq w] assms(9) by (simp add: db_extends_def)
  with authentication_answer_repositories [OF a _ assms(10)]
  have "authentication_answer st again request (w_database w') = Ok rid" .
  from claimed_served [OF assms(1) this _ assms(11) p] v w'
  show ?thesis by (auto simp: unaffected_def) (metis prod.collapse)
qed

text \<open>A completed run, and a service whose run-context upsert fails.\<close>

definition sample_run_members :: "(rstring \<times> json) list" where
  "sample_run_members = [(lit ''workflow_run'', JObject [(lit ''id'', JInt 5),
     (lit ''run_attempt'', JInt 1), (lit ''event'', JString (lit ''push''))])]"

definition failing_ambient :: ambient where
  "failing_ambient = sample_ambient\<lparr>amb_faults := (\<lambda>op i.
     if op = database_operation.WorkflowRunUpsert then Some OtherError else None)\<rparr>"

lemma sample_run_context:
  "project_context (lib_from_slice (app_libraries (sample_app (sample_body sample_run_members)))) b
    \<noteq> None"
  by (simp add: sample_app_def sample_libraries_def app_state_new_def
      with_workflow_trace_emitter_def project_context_def sample_body_def sample_run_members_def
      read_workflow_run_envelope_def read_workflow_run_def workflow_run_id_new_def
      workflow_run_attempt_new_def reader_defs lit_def)

lemma failed_run_upsert_not_retried_witness:
  "\<exists>response w' r w''. run_state (serve_webhook (sample_app (sample_body sample_run_members))
       failing_ambient (sample_http_request ''workflow_run'')) sample_world = (Some response, w')
     \<and> rsp_status response = 503
     \<and> run_state (serve_webhook (sample_app (sample_body sample_run_members)) sample_ambient
         (sample_http_request ''workflow_run'')) w' = (Some r, w'') \<and> rsp_status r = 204
     \<and> run_contexts (w_database w'') = []"
proof -
  let ?app = "sample_app (sample_body sample_run_members)"
    and ?rq = "sample_http_request ''workflow_run''"
  have x: "webhook_request_from_request ?app ?rq = Ok (sample_webhook_request ''workflow_run'')"
    by (rule sample_extraction) (simp_all add: sample_run_members_def lit_def)
  have a: "authentication_answer ?app failing_ambient (sample_webhook_request ''workflow_run'')
      (w_database sample_world) = Ok (RepositoryId 1)"
    by (rule authentication_answer_repositories [OF sample_answer])
      (simp_all add: failing_ambient_def)
  have claim: "amb_faults failing_ambient database_operation.DeliveryClaim 0 = None"
    and upsert: "amb_faults failing_ambient database_operation.WorkflowRunUpsert 0 \<noteq> None"
    and good: "amb_faults sample_ambient op 0 = None" for op
    by (simp_all add: failing_ambient_def sample_ambient_def no_faults_def)
  have new: "\<not> claimed (lib_hyphenated (app_libraries ?app)) (w_database sample_world)
      (wq_delivery_id (sample_webhook_request ''workflow_run''))"
    by (simp add: claimed_def sample_world_def empty_database_def)
  have readable: "Option.bind (lib_from_slice (app_libraries ?app)
      (wq_body (sample_webhook_request ''workflow_run''))) read_event_projection \<noteq> None"
    by (simp add: sample_app_def sample_libraries_def app_state_new_def
        with_workflow_trace_emitter_def read_event_projection_def sample_body_def
        sample_run_members_def reader_defs lit_def)
  have event: "normalize_event_type (wq_event_type (sample_webhook_request ''workflow_run''))
      = event_type.WorkflowRun"
    by (simp add: sample_webhook_request_def normalize_event_type_def lit_def)
  obtain response w' where "run_state (serve_webhook ?app failing_ambient ?rq) sample_world
      = (Some response, w')"
    using serve_webhook_answer [of ?app failing_ambient ?rq sample_world] by (metis prod.collapse)
  moreover have "run_contexts (w_database sample_world) = []"
    by (simp add: sample_world_def empty_database_def)
  ultimately show ?thesis
    using failed_run_upsert_not_retried [OF x a claim new readable event sample_run_context upsert
      _ good good] by metis
qed

end
