(* ===== verification/Repositories_Properties.thy ===== *)
theory Repositories_Properties
  imports Repositories_Api Webhook_Properties
begin

section \<open>Properties of the administration API\<close>

text \<open>
  What an administration request may change, that its answers hold no secret, that every request
  without the token is refused alike, and that a configured repository authenticates the webhooks
  signed with its secret.
\<close>

subsection \<open>What a handler changes\<close>

lemmas api_defs = api_create_def api_list_def api_get_def api_update_def api_delete_def
  instrument_database_operation_def record_span_def record_metric_def Let_def reading_def

lemma store_failure_run [simp]:
  "run_state (store_failure e) w =
     (app_error_repository_store (ErrorCorrelationId (w_correlations w)) e,
      w_correlations_update (\<lambda>n. if private_cause e then Suc n else n) w)"
  by (cases e) (simp_all add: store_failure_def Let_def app_error_repository_store_def
      app_error_correlation_id_def private_cause_def)

lemma correlated_invalid [simp]: "correlated app_error.InvalidRequest"
  by (simp add: correlated_def)

lemma request_errors:
  "create_parameters payload = Err e \<Longrightarrow> e = app_error.InvalidRequest"
  "update_mutation payload = Err e \<Longrightarrow> e = app_error.InvalidRequest"
  "parse_repository_id raw_id = Err e \<Longrightarrow> e = app_error.InvalidRequest"
  by (auto simp: create_parameters_def update_mutation_def parse_repository_id_def ok_or_def
      and_then_def map_err_def split: option.splits sum.splits if_splits)

text \<open>The gauge and the repositories table agree.\<close>

definition gauge_accurate :: "world \<Rightarrow> bool" where
  "gauge_accurate w \<longleftrightarrow>
     gauge_value (w_metrics w) = of_nat (length (repositories (w_database w)))"

text \<open>What the administration API never touches.\<close>

definition telemetry_kept :: "world \<Rightarrow> world \<Rightarrow> bool" where
  "telemetry_kept w w' \<longleftrightarrow>
     w_exported w' = w_exported w \<and> w_reports w' = w_reports w \<and> w_refreshes w' = w_refreshes w
     \<and> w_refresher_stopped w' = w_refresher_stopped w \<and> w_panicked w' = w_panicked w"

lemma telemetry_kept_trans: "telemetry_kept u v \<Longrightarrow> telemetry_kept v w \<Longrightarrow> telemetry_kept u w"
  by (simp add: telemetry_kept_def)

lemma length_remove_key:
  assumes "distinct (map f xs)" and "lookup_row f k xs \<noteq> None"
  shows "length xs = Suc (length (filter (\<lambda>r. f r \<noteq> k) xs))"
proof -
  obtain r where r: "lookup_row f k xs = Some r" using assms(2) by blast
  then have "r \<in> set xs" "f r = k" by (auto dest: lookup_row_Some)
  then obtain ys zs where xs: "xs = ys @ r # zs" by (auto dest: split_list)
  with assms(1) \<open>f r = k\<close> have "k \<notin> f ` set ys" "k \<notin> f ` set zs" by auto
  then have "filter (\<lambda>r. f r \<noteq> k) ys = ys" "filter (\<lambda>r. f r \<noteq> k) zs = zs"
    by (metis (mono_tags) filter_True imageI)+
  with xs \<open>f r = k\<close> show ?thesis by simp
qed

lemma delete_repository_row_length:
  assumes "db_ok db" and "lookup_row rr_id ident (repositories db) \<noteq> None"
  shows "length (repositories db) = Suc (length (repositories (delete_repository_row ident db)))"
  using length_remove_key [OF _ assms(2)] assms(1)
  by (simp add: delete_repository_row_def db_ok_def repositories_ok_def)

lemma create_repository_length:
  "create_repository st f now nonce n s enabled db = (Ok md, db') \<Longrightarrow>
     length (repositories db') = Suc (length (repositories db))"
  by (auto dest!: create_repository_Ok dest: insert_repository_Ok(1))

lemma update_repository_length:
  "update_repository st f now nonce ident m db = (Ok md, db') \<Longrightarrow>
     length (repositories db') = length (repositories db)"
  by (auto dest!: update_repository_Ok update_repository_row_Ok(1) simp: Let_def)

lemma api_handler_kept: "telemetry_kept w (snd (run_state (api_handler st amb call) w))"
  by (auto simp: api_handler_def api_defs telemetry_kept_def split: api_call.split sum.split
      prod.split)

lemma combined_error:
  "and_then (parse_repository_id raw_id)
     (\<lambda>ident. and_then (update_mutation payload) (\<lambda>mutation. Ok (ident, mutation))) = Err e \<Longrightarrow>
   e = app_error.InvalidRequest"
  by (cases "parse_repository_id raw_id"; cases "update_mutation payload")
    (auto dest!: request_errors)

lemma api_handler_error:
  "run_state (api_handler st amb call) w = (Err e, w') \<Longrightarrow>
     correlated e \<and> w_database w' = w_database w \<and> w_metrics w' = w_metrics w"
  by (auto simp: api_handler_def api_defs dest!: request_errors combined_error
      dest: create_repository_Err update_repository_Err delete_repository_cases
      split: api_call.splits sum.splits prod.splits)

text \<open>The changes of an administration request: none, or one accepted store operation.\<close>

inductive api_change :: "world \<Rightarrow> world \<Rightarrow> bool" where
  unchanged: "w_database w' = w_database w \<Longrightarrow> w_metrics w' = w_metrics w \<Longrightarrow> api_change w w'"
| created: "create_repository st f now nonce n s enabled (w_database w) = (Ok md, w_database w') \<Longrightarrow>
    w_metrics w' = increment_repository_configurations (w_metrics w) \<Longrightarrow> api_change w w'"
| updated: "update_repository st f now nonce ident m (w_database w) = (Ok md, w_database w') \<Longrightarrow>
    w_metrics w' = w_metrics w \<Longrightarrow> api_change w w'"
| deleted: "delete_repository st f ident (w_database w) = (Ok (), w_database w') \<Longrightarrow>
    w_metrics w' = decrement_repository_configurations (w_metrics w) \<Longrightarrow> api_change w w'"

lemma api_handler_change: "api_change w (snd (run_state (api_handler st amb call) w))"
proof (cases "run_state (api_handler st amb call) w")
  case (Pair r w')
  show ?thesis
  proof (cases r)
    case (Inl e)
    with api_handler_error [of st amb call w e w'] Pair show ?thesis
      by (auto intro: api_change.unchanged)
  next
    case (Inr response)
    with Pair show ?thesis
      by (auto simp: api_handler_def api_defs split: api_call.splits sum.splits prod.splits
          intro: api_change.intros)
  qed
qed

lemma api_change_invariant:
  assumes "api_change w w'" and "db_ok (w_database w)" and "gauge_accurate w"
  shows "db_ok (w_database w') \<and> gauge_accurate w'"
  using assms
proof (cases rule: api_change.cases)
  case (created st f now nonce n s enabled md)
  with assms create_repository_db_ok [of "w_database w" st f now nonce n s enabled] show ?thesis
    by (auto simp: gauge_accurate_def increment_repository_configurations_def
        dest!: create_repository_length)
next
  case (updated st f now nonce ident m md)
  with assms update_repository_db_ok [of "w_database w" st f now nonce ident m] show ?thesis
    by (auto simp: gauge_accurate_def dest!: update_repository_length)
next
  case (deleted st f ident)
  with delete_repository_cases [OF deleted(1)] assms
    delete_repository_db_ok [of "w_database w" st f ident]
    delete_repository_row_length [of "w_database w" "repository_id_get ident"]
  show ?thesis by (auto simp: gauge_accurate_def decrement_repository_configurations_def)
qed (auto simp: gauge_accurate_def)

text \<open>The metadata of a created repository does not depend on its secret.\<close>

lemma created_metadata:
  assumes "create_repository st f now nonce n s1 enabled db = (Ok md1, db1)"
    and "create_repository st f now nonce n s2 enabled db = (Ok md2, db2)"
  shows "md1 = md2"
proof -
  obtain e1 row1 where 1: "insert_repository (name_as_str n) e1 enabled now db = Ok (row1, db1)"
    "authenticate_row st row1 = Ok md1" using create_repository_Ok [OF assms(1)] by blast
  obtain e2 row2 where 2: "insert_repository (name_as_str n) e2 enabled now db = Ok (row2, db2)"
    "authenticate_row st row2 = Ok md2" using create_repository_Ok [OF assms(2)] by blast
  have "rr_id row1 = rr_id row2" "rr_full_name row1 = rr_full_name row2"
    "rr_enabled row1 = rr_enabled row2" "rr_created_at row1 = rr_created_at row2"
    "rr_updated_at row1 = rr_updated_at row2"
    using 1(1) 2(1) by (auto simp: insert_repository_def Let_def split: if_splits)
  with 1(2) 2(2) show ?thesis
    by (auto simp: authenticate_row_def decode_row_def into_metadata_def and_then_Ok_iff
        split: if_splits)
qed

subsection \<open>A served request\<close>

lemma serve_api_run:
  "\<exists>f. run_state (serve_api st amb rq call) w =
     (case run_state (api_endpoint st amb rq call) (w_repository_update (\<lambda>_. None) w) of
        (a, v) \<Rightarrow> (a, w_spans_update f v))"
proof (cases "run_state (api_endpoint st amb rq call) (w_repository_update (\<lambda>_. None) w)")
  case (Pair a v)
  then show ?thesis
  proof (cases a)
    case None
    with Pair have "run_state (serve_api st amb rq call) w = (None, w_spans_update (\<lambda>s. s) v)"
      by (simp add: serve_api_def observe_http_request_def)
    with Pair None show ?thesis by auto
  next
    case (Some response)
    with Pair show ?thesis
      by (auto simp: serve_api_def observe_http_request_def record_span_def)
  qed
qed

lemma error_status:
  "app_error_into_response u e = Some (r, l) \<Longrightarrow> 400 \<le> rsp_status r"
  by (auto simp: app_error_into_response_def error_response_def correlated_error_response_def
      internal_response_def split: app_error.splits repository_store_error.splits option.splits)

lemma admin_authorized_error:
  "admin_authorized st rq = Err e \<Longrightarrow> e = app_error.Authentication AuthenticationError"
  by (auto simp: admin_authorized_def authenticate_admin_def map_err_def
      split: sum.splits option.splits if_splits)

lemma endpoint_effect:
  assumes "run_state (api_endpoint st amb rq call) w = (a, v)"
  shows "a \<noteq> None" and "telemetry_kept w v" and "api_change w v"
proof -
  have *: "a \<noteq> None \<and> telemetry_kept w v \<and> api_change w v"
  proof (cases "admin_authorized st rq")
    case (Inl e)
    with assms admin_authorized_error [OF Inl] show ?thesis
      by (auto simp: api_endpoint_def app_error_into_response_def telemetry_kept_def
          intro: api_change.unchanged)
  next
    case (Inr u)
    obtain r x where h: "run_state (api_handler st amb call) w = (r, x)" by fastforce
    have k: "telemetry_kept w x" "api_change w x"
      using api_handler_kept [of w st amb call] api_handler_change [of w st amb call] h by auto
    show ?thesis
    proof (cases r)
      case (Inl e)
      then obtain rs l where e: "app_error_into_response (lib_uuid_text (app_libraries st)) e
          = Some (rs, l)"
        using into_response_Some api_handler_error [of st amb call w e x] h by blast
      have "w_database x = w_database w" "w_metrics x = w_metrics w"
        using api_handler_error [of st amb call w e x] h Inl by auto
      with assms Inr h Inl e k(1) show ?thesis
        by (auto simp: api_endpoint_def telemetry_kept_def intro: api_change.unchanged)
    qed (use assms Inr h k in \<open>auto simp: api_endpoint_def\<close>)
  qed
  then show "a \<noteq> None" "telemetry_kept w v" "api_change w v" by blast+
qed

lemma api_change_cong:
  "api_change u v \<Longrightarrow> w_database u' = w_database u \<Longrightarrow> w_metrics u' = w_metrics u \<Longrightarrow>
     w_database v' = w_database v \<Longrightarrow> w_metrics v' = w_metrics v \<Longrightarrow> api_change u' v'"
  by (cases rule: api_change.cases) (auto intro: api_change.intros)

lemma serve_api_effect:
  assumes "run_state (serve_api st amb rq call) w = (a, w')"
  shows "a \<noteq> None" and "telemetry_kept w w'" and "api_change w w'"
proof -
  obtain b v where e: "run_state (api_endpoint st amb rq call) (w_repository_update (\<lambda>_. None) w)
      = (b, v)" by fastforce
  with assms obtain f where f: "a = b" "w' = w_spans_update f v"
    using serve_api_run [of st amb rq call w] by auto
  show "a \<noteq> None" using endpoint_effect(1) [OF e] f by simp
  show "telemetry_kept w w'" using endpoint_effect(2) [OF e] f by (simp add: telemetry_kept_def)
  show "api_change w w'" using endpoint_effect(3) [OF e] f by (auto intro: api_change_cong)
qed

text \<open>The state an accepted creation leads to, and what an accepted creation went through.\<close>

lemma created_run:
  assumes "admin_authorized st rq = Ok ()" and "create_parameters payload = Ok (n, secret, enabled)"
    and "create_repository (app_repository_store st)
        (amb_faults amb database_operation.RepositoryCreate)
        (amb_sql_now amb database_operation.RepositoryCreate) (amb_nonce amb) n secret enabled
        (w_database w) = (Ok md, db)"
  shows "run_state (serve_api st amb rq (CreateRepository payload)) w =
    (Some (json_response 201 (repository_response md)),
     w\<lparr>w_database := db, w_metrics := increment_repository_configurations (w_metrics w),
       w_spans := w_spans w @
         [(operation_span operation.SqliteQuery, database_span database_operation.RepositoryCreate
             @ set_status operation_outcome.Success),
          (operation_span operation.RepositoryWrite, set_config_operation config_operation.Create
             @ set_repository_name n @ set_status operation_outcome.Success
             @ set_repository_id (md_id md)),
          (operation_span operation.HttpRequest, set_http_method (rq_method rq)
             @ set_http_route (rq_matched_path rq) @ set_http_response 201)],
       w_repository := None\<rparr>)"
  using assms
  by (cases w) (simp add: serve_api_def observe_http_request_def api_endpoint_def api_handler_def
      api_create_def api_defs set_result_status_def json_response_def)

lemma created_request:
  assumes "run_state (serve_api st amb rq (CreateRepository payload)) w = (Some r, w')"
    and "rsp_status r = 201"
  obtains n secret enabled md where "admin_authorized st rq = Ok ()"
    and "create_parameters payload = Ok (n, secret, enabled)"
    and "create_repository (app_repository_store st)
        (amb_faults amb database_operation.RepositoryCreate)
        (amb_sql_now amb database_operation.RepositoryCreate) (amb_nonce amb) n secret enabled
        (w_database w) = (Ok md, w_database w')"
    and "r = json_response 201 (repository_response md)"
proof -
  let ?w = "w_repository_update (\<lambda>_. None) w"
  obtain b v where e: "run_state (api_endpoint st amb rq (CreateRepository payload)) ?w = (b, v)"
    by fastforce
  with assms(1) have f: "b = Some r"
    using serve_api_run [of st amb rq "CreateRepository payload" w] by auto
  have a: "admin_authorized st rq = Ok ()"
    using e f assms(2) error_status
    by (cases "admin_authorized st rq")
      (fastforce simp: api_endpoint_def split: option.splits prod.splits)+
  obtain res x where h: "run_state (api_create st amb payload) ?w = (res, x)" by fastforce
  obtain response where ok: "res = Ok response"
    using e f assms(2) a h error_status
    by (cases res) (fastforce simp: api_endpoint_def api_handler_def split: option.splits prod.splits)+
  then obtain n secret enabled where p: "create_parameters payload = Ok (n, secret, enabled)"
    using h by (auto simp: api_create_def split: sum.splits)
  obtain md db where c: "create_repository (app_repository_store st)
      (amb_faults amb database_operation.RepositoryCreate)
      (amb_sql_now amb database_operation.RepositoryCreate) (amb_nonce amb) n secret enabled
      (w_database w) = (Ok md, db)"
    using h ok p by (auto simp: api_create_def api_defs split: sum.splits prod.splits)
  from created_run [OF a p c] assms(1)
  have "r = json_response 201 (repository_response md)" "w_database w' = db" by auto
  with that [OF a p] c show thesis by simp
qed

subsection \<open>A concrete service\<close>

definition sample_admin_app :: "nat app_state" where
  "sample_admin_app =
     (sample_app (sample_body []))\<lparr>app_admin_authenticator := AdminAuthenticator (replicate 32 0)\<rparr>"

definition sample_admin_request :: http_request where
  "sample_admin_request =
     \<lparr>rq_method = lit ''POST'', rq_matched_path = None,
      rq_headers = [(lit ''authorization'', as_bytes (lit ''Bearer t''))], rq_body = Ok []\<rparr>"

definition sample_payload :: "string \<Rightarrow> json option" where
  "sample_payload s = Some (JObject [(lit ''full_name'', JString (lit ''o/r'')),
     (lit ''webhook_secret'', JString (lit s))])"

definition sample_empty_world :: world where
  "sample_empty_world = sample_world\<lparr>w_database := empty_database\<rparr>"

lemma sample_admin_ok: "admin_authorized sample_admin_app sample_admin_request = Ok ()"
proof -
  have "map unat (as_bytes (lit ''Bearer t'')) = lit ''Bearer t''"
    by (rule ascii_to_str) (simp add: lit_def)
  then have "Option.bind (map_of (rq_headers sample_admin_request) (lit ''authorization''))
      (lib_to_str (app_libraries sample_admin_app)) = Some (lit ''Bearer t'')"
    by (simp add: sample_admin_app_def sample_admin_request_def sample_app_def sample_libraries_def
        with_workflow_trace_emitter_def app_state_new_def)
  then show ?thesis
    by (simp add: admin_authorized_def authenticate_admin_def AUTHORIZATION_SCHEME_def
        strip_prefix_def lit_def token_digest_def sample_admin_app_def sample_app_def
        with_workflow_trace_emitter_def app_state_new_def sample_store_def sample_crypto_def)
qed

definition one_byte_secret :: "string \<Rightarrow> repository_secret" where
  "one_byte_secret s = RepositorySecret (as_bytes (lit s))"

lemma one_byte_secret_ok:
  assumes "s \<in> {''k'', ''q''}"
  shows "repository_secret_new (lit s) = Ok (one_byte_secret s)"
    and "from_decrypted_bytes (secret_bytes (one_byte_secret s)) = Ok (one_byte_secret s)"
proof -
  show *: "repository_secret_new (lit s) = Ok (one_byte_secret s)"
    using assms by (auto simp: repository_secret_new_def valid_repository_secret_bytes_def lit_def
        as_bytes_def utf8_numbers_def utf8_char_def vocab one_byte_secret_def)
  have "\<forall>c \<in> set (lit s). scalar_value c"
    using assms by (auto simp: lit_def scalar_value_def)
  with * show "from_decrypted_bytes (secret_bytes (one_byte_secret s)) = Ok (one_byte_secret s)"
    by (rule from_decrypted_bytes_new)
qed

lemma sample_parameters:
  "s \<in> {''k'', ''q''} \<Longrightarrow>
     create_parameters (sample_payload s) = Ok (sample_name, one_byte_secret s, True)"
  using one_byte_secret_ok(1) [of s]
  by (auto simp: create_parameters_def sample_payload_def read_create_request_def Let_def
      reader_defs no_unknown_members_def lit_eq_iff sample_name_new enabled_by_default_def)

lemma sample_created:
  assumes "s \<in> {''k'', ''q''}"
  shows "\<exists>md w'. run_state (serve_api sample_admin_app sample_ambient sample_admin_request
      (CreateRepository (sample_payload s))) sample_empty_world
    = (Some (json_response 201 (repository_response md)), w') \<and> md_id md = RepositoryId 1"
proof -
  obtain md db where c: "create_repository sample_store no_faults [] (replicate 12 0) sample_name
      (one_byte_secret s) True empty_database = (Ok md, db)" and id: "md_id md = RepositoryId 1"
    using sample_create_with [OF one_byte_secret_ok(2) [OF assms]] by blast
  have "create_repository (app_repository_store sample_admin_app)
      (amb_faults sample_ambient database_operation.RepositoryCreate)
      (amb_sql_now sample_ambient database_operation.RepositoryCreate) (amb_nonce sample_ambient)
      sample_name (one_byte_secret s) True (w_database sample_empty_world) = (Ok md, db)"
    using c by (simp add: sample_admin_app_def sample_app_def with_workflow_trace_emitter_def
        app_state_new_def sample_ambient_def sample_empty_world_def)
  from created_run [OF sample_admin_ok sample_parameters [OF assms] this] id show ?thesis by blast
qed

subsection \<open>Properties\<close>

text \<open>
  C24: Without the administration token every request gets the same 401 and changes neither the
  configuration nor a metric; and an answer below 400 proves that the request carried a bearer token
  whose SHA-256 digest is the configured one.
\<close>

theorem admin_request_guarded:
  assumes "run_state (serve_api st amb rq call) w = (Some r, w')"
  shows "(admin_authorized st rq \<noteq> Ok () \<longrightarrow>
       r = (error_response 401 (lit ''unauthorized'') (lit ''authentication required''))
             \<lparr>rsp_headers := [(lit ''www-authenticate'', lit ''Bearer'')]\<rparr>
       \<and> w_database w' = w_database w \<and> w_metrics w' = w_metrics w)
    \<and> (rsp_status r < 400 \<longrightarrow>
       (\<exists>token. Option.bind (map_of (rq_headers rq) (lit ''authorization''))
             (lib_to_str (app_libraries st)) = Some (lit ''Bearer '' @ token)
          \<and> token \<noteq> []
          \<and> sha256 (store_crypto (app_repository_store st)) (as_bytes token)
              = expected_digest (app_admin_authenticator st)))"
proof (cases "admin_authorized st rq")
  case (Inl e)
  then have e: "e = app_error.Authentication AuthenticationError" by (rule admin_authorized_error)
  obtain f where "run_state (serve_api st amb rq call) w =
      (case run_state (api_endpoint st amb rq call) (w_repository_update (\<lambda>_. None) w) of
         (a, v) \<Rightarrow> (a, w_spans_update f v))"
    using serve_api_run by blast
  with assms Inl e show ?thesis
    by (auto simp: api_endpoint_def app_error_into_response_def error_response_def)
next
  case (Inr u)
  then obtain v token where "Option.bind (map_of (rq_headers rq) (lit ''authorization''))
      (lib_to_str (app_libraries st)) = Some v" and "strip_prefix (lit ''Bearer '') v = Some token"
    and "token \<noteq> []" "expected_digest (app_admin_authenticator st)
      = sha256 (store_crypto (app_repository_store st)) (as_bytes token)"
    by (auto simp: admin_authorized_def authenticate_admin_def token_digest_def map_err_def
        AUTHORIZATION_SCHEME_def bind_eq_Some_conv split: sum.splits option.splits if_splits)
  with Inr show ?thesis by (auto simp: strip_prefix_Some_iff)
qed

lemma admin_request_guarded_witness:
  "\<exists>token. Option.bind (map_of (rq_headers sample_admin_request) (lit ''authorization''))
       (lib_to_str (app_libraries sample_admin_app)) = Some (lit ''Bearer '' @ token) \<and> token \<noteq> []"
proof -
  obtain md w' where r: "run_state (serve_api sample_admin_app sample_ambient sample_admin_request
      (CreateRepository (sample_payload ''k''))) sample_empty_world
      = (Some (json_response 201 (repository_response md)), w')"
    using sample_created [of "''k''"] by auto
  have "rsp_status (json_response 201 (repository_response md)) < 400"
    by (simp add: json_response_def)
  with admin_request_guarded [OF r] show ?thesis by blast
qed

text \<open>
  C27: The secret of a repository leaves no trace outside the database: of two creations that differ
  in the secret only and are both accepted from the same state, the responses are the same and so is
  everything else the service holds, its metrics, spans and log among it.
\<close>

theorem created_response_secret_free:
  assumes "run_state (serve_api st amb rq (CreateRepository p1)) w = (Some r1, w1)"
    and "run_state (serve_api st amb rq (CreateRepository p2)) w = (Some r2, w2)"
    and "rsp_status r1 = 201" and "rsp_status r2 = 201"
    and "create_parameters p1 = Ok (n, s1, enabled)"
    and "create_parameters p2 = Ok (n, s2, enabled)"
  shows "r1 = r2 \<and> w1\<lparr>w_database := db\<rparr> = w2\<lparr>w_database := db\<rparr>"
proof -
  let ?create = "\<lambda>s. create_repository (app_repository_store st)
      (amb_faults amb database_operation.RepositoryCreate)
      (amb_sql_now amb database_operation.RepositoryCreate) (amb_nonce amb) n s enabled (w_database w)"
  obtain md1 where a: "admin_authorized st rq = Ok ()" and 1: "?create s1 = (Ok md1, w_database w1)"
    using created_request [OF assms(1,3)] assms(5) by (metis Pair_inject sum.inject(2))
  obtain md2 where 2: "?create s2 = (Ok md2, w_database w2)"
    using created_request [OF assms(2,4)] assms(6) by (metis Pair_inject sum.inject(2))
  have m: "md1 = md2" using created_metadata [OF 1 2] .
  let ?W = "\<lambda>d. w\<lparr>w_database := d,
      w_metrics := increment_repository_configurations (w_metrics w), w_spans := w_spans w @
         [(operation_span operation.SqliteQuery, database_span database_operation.RepositoryCreate
             @ set_status operation_outcome.Success),
          (operation_span operation.RepositoryWrite, set_config_operation config_operation.Create
             @ set_repository_name n @ set_status operation_outcome.Success
             @ set_repository_id (md_id md1)),
          (operation_span operation.HttpRequest, set_http_method (rq_method rq)
             @ set_http_route (rq_matched_path rq) @ set_http_response 201)],
      w_repository := None\<rparr>"
  from m created_run [OF a assms(5) 1] created_run [OF a assms(6) 2] assms(1,2)
  have e: "w1 = ?W (w_database w1)" "w2 = ?W (w_database w2)" "r1 = r2" by auto
  have "w1\<lparr>w_database := db\<rparr> = w2\<lparr>w_database := db\<rparr>"
    by (subst e(1), subst e(2)) simp
  with e(3) show ?thesis by blast
qed

lemma created_response_secret_free_witness:
  "\<exists>r1 r2 w1 w2. run_state (serve_api sample_admin_app sample_ambient sample_admin_request
       (CreateRepository (sample_payload ''k''))) sample_empty_world = (Some r1, w1)
     \<and> run_state (serve_api sample_admin_app sample_ambient sample_admin_request
       (CreateRepository (sample_payload ''q''))) sample_empty_world = (Some r2, w2)
     \<and> one_byte_secret ''k'' \<noteq> one_byte_secret ''q'' \<and> r1 = r2"
proof -
  obtain md1 w1 where 1: "run_state (serve_api sample_admin_app sample_ambient sample_admin_request
      (CreateRepository (sample_payload ''k''))) sample_empty_world
      = (Some (json_response 201 (repository_response md1)), w1)"
    using sample_created [of "''k''"] by auto
  obtain md2 w2 where 2: "run_state (serve_api sample_admin_app sample_ambient sample_admin_request
      (CreateRepository (sample_payload ''q''))) sample_empty_world
      = (Some (json_response 201 (repository_response md2)), w2)"
    using sample_created [of "''q''"] by auto
  have "one_byte_secret ''k'' \<noteq> one_byte_secret ''q''"
    by (simp add: one_byte_secret_def lit_def as_bytes_def utf8_numbers_def utf8_char_def)
  with created_response_secret_free [OF 1 2 _ _ sample_parameters sample_parameters] 1 2
  show ?thesis by (auto simp: json_response_def)
qed

text \<open>
  C23: A repository created through the API as enabled authenticates from then on every webhook
  request that names it and is signed with the secret of the creation, and no other; created as
  disabled it authenticates none.
\<close>

theorem created_repository_accepts_webhooks:
  assumes "run_state (serve_api st amb rq (CreateRepository payload)) w = (Some r, w')"
    and "rsp_status r = 201"
    and "create_parameters payload = Ok (n, secret, enabled)"
    and "aead_correct (store_crypto (app_repository_store st))" and "length (amb_nonce amb) = 12"
    and "from_decrypted_bytes (secret_bytes secret) = Ok secret"
    and "webhook_request_from_request st hook = Ok request" and "wq_repository_name request = n"
    and "amb_faults later database_operation.RepositoryAuthenticate 0 = None"
  shows "authenticated_repository st later hook (w_database w') =
    (if enabled \<and> hmac_sha256 (store_crypto (app_repository_store st)) (secret_bytes secret)
          (wq_body request) = Some (signature_digest (wq_signature request))
     then Some n else None)"
proof -
  obtain md where "create_repository (app_repository_store st)
      (amb_faults amb database_operation.RepositoryCreate)
      (amb_sql_now amb database_operation.RepositoryCreate) (amb_nonce amb) n secret enabled
      (w_database w) = (Ok md, w_database w')"
    using created_request [OF assms(1,2)] assms(3) by (metis Pair_inject sum.inject(2))
  moreover have "secret_material_ok (app_repository_store st) (amb_nonce amb) secret"
    using assms(4-6) by (simp add: secret_material_ok_def NONCE_LENGTH_def)
  ultimately have "authentication_material (app_repository_store st) no_faults n (w_database w') =
      (if enabled then Ok (md_id md, secret) else Err repository_store_error.AuthenticationFailed)"
    by (intro created_then_authenticated)
  moreover have "authentication_material (app_repository_store st)
      (amb_faults later database_operation.RepositoryAuthenticate) n (w_database w')
      = authentication_material (app_repository_store st) no_faults n (w_database w')"
    using assms(9) by (simp add: authentication_material_def no_faults_def)
  ultimately show ?thesis
    using assms(7,8)
    by (auto simp: authenticated_repository_def authentication_answer_def verify_signature_def
        split: option.splits)
qed

lemma created_repository_accepts_webhooks_witness:
  "\<exists>r w'. run_state (serve_api sample_admin_app sample_ambient sample_admin_request
       (CreateRepository (sample_payload ''k''))) sample_empty_world = (Some r, w')
     \<and> authenticated_repository sample_admin_app sample_ambient (sample_http_request ''push'')
         (w_database w') = Some sample_name"
proof -
  obtain md w' where r: "run_state (serve_api sample_admin_app sample_ambient sample_admin_request
      (CreateRepository (sample_payload ''k''))) sample_empty_world
      = (Some (json_response 201 (repository_response md)), w')"
    using sample_created [of "''k''"] by auto
  have x: "webhook_request_from_request sample_admin_app (sample_http_request ''push'')
      = Ok (sample_webhook_request ''push'')"
    using sample_extraction [of "[]" "''push''"]
    by (simp add: sample_admin_app_def webhook_request_from_request_def)
  have store: "app_repository_store sample_admin_app = sample_store"
    by (simp add: sample_admin_app_def sample_app_def with_workflow_trace_emitter_def
        app_state_new_def)
  have "authenticated_repository sample_admin_app sample_ambient (sample_http_request ''push'')
      (w_database w') = Some sample_name"
    using created_repository_accepts_webhooks [OF r _ sample_parameters _ _ one_byte_secret_ok(2) x,
        of sample_ambient] store sample_aead
    by (simp add: json_response_def sample_store_def sample_ambient_def no_faults_def
        sample_webhook_request_def sample_crypto_def)
  with r show ?thesis by blast
qed

text \<open>Reading and deleting the repository just created.\<close>

lemma db_ok_owners:
  assumes "db_ok db"
  shows "r1 \<in> set (attempts db) \<Longrightarrow> at_repository_id r1 \<in> rr_id ` set (repositories db)"
    and "r2 \<in> set (run_contexts db) \<Longrightarrow> wr_repository_id r2 \<in> rr_id ` set (repositories db)"
    and "r3 \<in> set (job_links db) \<Longrightarrow> jl_repository_id r3 \<in> rr_id ` set (repositories db)"
    and "r4 \<in> set (check_contexts db) \<Longrightarrow> rc_repository_id r4 \<in> rr_id ` set (repositories db)"
  using assms by (auto simp: db_ok_def attempts_ok_def keyed_table_ok_def repository_ids_def)

lemma delete_created_row:
  assumes "db_ok db" and "insert_repository n enc enabled now db = Ok (row, db')"
  shows "delete_repository_row (rr_id row) db' = db"
proof -
  note i = insert_repository_Ok [OF assms(2)]
  have "rr_id row \<notin> rr_id ` set (repositories db)"
    using next_rowid_not_in [of "map rr_id (repositories db)"] i(2) by simp
  then have "\<And>r. r \<in> set (repositories db) \<Longrightarrow> rr_id r \<noteq> rr_id row"
    "\<And>r. r \<in> set (attempts db) \<Longrightarrow> at_repository_id r \<noteq> rr_id row"
    "\<And>r. r \<in> set (run_contexts db) \<Longrightarrow> wr_repository_id r \<noteq> rr_id row"
    "\<And>r. r \<in> set (job_links db) \<Longrightarrow> jl_repository_id r \<noteq> rr_id row"
    "\<And>r. r \<in> set (check_contexts db) \<Longrightarrow> rc_repository_id r \<noteq> rr_id row"
    using db_ok_owners [OF assms(1)] by (metis imageI)+
  then show ?thesis by (simp add: i(1) delete_repository_row_def filter_True)
qed

lemma created_row_read:
  assumes "insert_repository n enc enabled now db = Ok (row, db')"
    and "authenticate_row st row = Ok md" and "faults 0 = None"
  shows "get_repository st faults (md_id md) db' = Ok md"
    and "repository_id_get (md_id md) = rr_id row"
proof -
  note i = insert_repository_Ok [OF assms(1)]
  have "rr_id row \<notin> rr_id ` set (repositories db)"
    using next_rowid_not_in [of "map rr_id (repositories db)"] i(2) by simp
  then have l: "lookup_row rr_id (rr_id row) (repositories db') = Some row"
    using lookup_row_None_iff [of rr_id "rr_id row" "repositories db"]
    by (simp add: i(1) lookup_row_def find_append)
  show id: "repository_id_get (md_id md) = rr_id row"
    using authenticate_row_id [OF assms(2)]
    by (auto simp: repository_id_from_database_def repository_id_new_def split: if_splits)
      (metis repository_id.sel)+
  show "get_repository st faults (md_id md) db' = Ok md"
    using assms(2,3) l id by (simp add: get_repository_def)
qed

lemma get_run:
  assumes "admin_authorized st rq = Ok ()" and "parse_repository_id raw_id = Ok ident"
    and "get_repository (app_repository_store st) (amb_faults amb database_operation.RepositoryGet)
      ident (w_database w) = res"
  shows "fst (run_state (serve_api st amb rq (GetRepository raw_id)) w) =
    (case res of
       Inr md \<Rightarrow> Some (json_response 200 (repository_response md))
     | Inl e \<Rightarrow> map_option fst (app_error_into_response (lib_uuid_text (app_libraries st))
         (app_error_repository_store (ErrorCorrelationId (w_correlations w)) e)))"
proof -
  obtain f where "run_state (serve_api st amb rq (GetRepository raw_id)) w =
      (case run_state (api_endpoint st amb rq (GetRepository raw_id))
          (w_repository_update (\<lambda>_. None) w) of (a, v) \<Rightarrow> (a, w_spans_update f v))"
    using serve_api_run by blast
  with assms show ?thesis
    by (auto simp: api_endpoint_def api_handler_def api_defs json_response_def panicking_def
        split: sum.split option.split)
qed

lemma delete_run:
  assumes "admin_authorized st rq = Ok ()" and "parse_repository_id raw_id = Ok ident"
    and "delete_repository (app_repository_store st)
      (amb_faults amb database_operation.RepositoryDelete) ident (w_database w) = (Ok (), db)"
  shows "\<exists>w'. run_state (serve_api st amb rq (DeleteRepository raw_id)) w =
      (Some \<lparr>rsp_status = 204, rsp_headers = [], rsp_body = None\<rparr>, w')
    \<and> w_database w' = db \<and> w_metrics w' = decrement_repository_configurations (w_metrics w)"
proof -
  obtain f where "run_state (serve_api st amb rq (DeleteRepository raw_id)) w =
      (case run_state (api_endpoint st amb rq (DeleteRepository raw_id))
          (w_repository_update (\<lambda>_. None) w) of (a, v) \<Rightarrow> (a, w_spans_update f v))"
    using serve_api_run by blast
  with assms show ?thesis by (simp add: api_endpoint_def api_handler_def api_defs)
qed

text \<open>
  C26: A created repository is read back as the body of the creation's response, and deleting it
  restores the database exactly as it was before, so that reading it then answers 404.
\<close>

theorem created_repository_lifecycle:
  assumes "run_state (serve_api st amb rq (CreateRepository payload)) w = (Some r, w1)"
    and "rsp_status r = 201" and "rsp_body r = Some (JObject ((lit ''id'', JInt ident) # ms))"
    and "parse_repository_id raw_id = Ok (RepositoryId ident)" and "db_ok (w_database w)"
    and "\<forall>k. amb_faults calm database_operation.RepositoryGet k = None
       \<and> amb_faults calm database_operation.RepositoryDelete k = None"
  shows "fst (run_state (serve_api st calm rq (GetRepository raw_id)) w1)
      = Some (r\<lparr>rsp_status := 200\<rparr>)
    \<and> (\<exists>r2 w2. run_state (serve_api st calm rq (DeleteRepository raw_id)) w1 = (Some r2, w2)
         \<and> rsp_status r2 = 204 \<and> w_database w2 = w_database w
         \<and> fst (run_state (serve_api st calm rq (GetRepository raw_id)) w2)
            = Some (error_response 404 (lit ''not_found'') (lit ''repository not found'')))"
proof -
  obtain n secret enabled md where a: "admin_authorized st rq = Ok ()"
    and c: "create_repository (app_repository_store st)
        (amb_faults amb database_operation.RepositoryCreate)
        (amb_sql_now amb database_operation.RepositoryCreate) (amb_nonce amb) n secret enabled
        (w_database w) = (Ok md, w_database w1)"
    and r: "r = json_response 201 (repository_response md)"
    using created_request [OF assms(1,2)] by metis
  from r assms(3) have "repository_id_get (md_id md) = ident"
    by (simp add: json_response_def repository_response_def)
  then have id: "RepositoryId ident = md_id md" by (cases "md_id md") simp
  obtain enc row where i: "insert_repository (name_as_str n) enc enabled
      (amb_sql_now amb database_operation.RepositoryCreate) (w_database w) = Ok (row, w_database w1)"
    and row: "authenticate_row (app_repository_store st) row = Ok md"
    using create_repository_Ok [OF c] by blast
  let ?get = "amb_faults calm database_operation.RepositoryGet"
  note g = created_row_read [OF i row, of ?get]
  have g1: "get_repository (app_repository_store st) ?get (RepositoryId ident) (w_database w1) = Ok md"
    using g(1) assms(6) id by simp
  have "fst (run_state (serve_api st calm rq (GetRepository raw_id)) w1)
      = Some (r\<lparr>rsp_status := 200\<rparr>)"
    using get_run [OF a assms(4) g1] by (simp add: r json_response_def)
  moreover have "delete_repository (app_repository_store st)
      (amb_faults calm database_operation.RepositoryDelete) (RepositoryId ident) (w_database w1)
      = (Ok (), w_database w)"
    using g1 assms(6) delete_created_row [OF assms(5) i] g(2) id
    by (auto simp: delete_repository_def get_repository_def)
  from delete_run [OF a assms(4) this] obtain r2 w2 where
    "run_state (serve_api st calm rq (DeleteRepository raw_id)) w1 = (Some r2, w2)"
    "rsp_status r2 = 204" "w_database w2 = w_database w" by fastforce
  moreover have "get_repository (app_repository_store st) ?get (RepositoryId ident) (w_database w)
      = Err repository_store_error.NotFound"
  proof -
    have "rr_id row \<notin> rr_id ` set (repositories (w_database w))"
      using next_rowid_not_in [of "map rr_id (repositories (w_database w))"]
        insert_repository_Ok(2) [OF i] by simp
    then show ?thesis
      using g(2) id assms(6) lookup_row_None_iff [of rr_id "rr_id row" "repositories (w_database w)"]
      by (simp add: get_repository_def)
  qed
  moreover from this have "fst (run_state (serve_api st calm rq (GetRepository raw_id)) w2)
      = Some (error_response 404 (lit ''not_found'') (lit ''repository not found''))"
    if "w_database w2 = w_database w" for w2
    using get_run [OF a assms(4), of calm w2 "Err repository_store_error.NotFound"] that
    by (simp add: app_error_repository_store_def app_error_into_response_def)
  ultimately show ?thesis by blast
qed

lemma created_repository_lifecycle_witness:
  "\<exists>r w1. run_state (serve_api sample_admin_app sample_ambient sample_admin_request
       (CreateRepository (sample_payload ''k''))) sample_empty_world = (Some r, w1)
     \<and> fst (run_state (serve_api sample_admin_app sample_ambient sample_admin_request
         (GetRepository (lit ''1''))) w1) = Some (r\<lparr>rsp_status := 200\<rparr>)"
proof -
  obtain md w1 where r: "run_state (serve_api sample_admin_app sample_ambient sample_admin_request
      (CreateRepository (sample_payload ''k''))) sample_empty_world
      = (Some (json_response 201 (repository_response md)), w1)" and id: "md_id md = RepositoryId 1"
    using sample_created [of "''k''"] by auto
  have body: "\<exists>ms. rsp_body (json_response 201 (repository_response md))
      = Some (JObject ((lit ''id'', JInt 1) # ms))"
    using id by (simp add: json_response_def repository_response_def)
  have p: "parse_repository_id (lit ''1'') = Ok (RepositoryId 1)"
    by (simp add: parse_repository_id_def parse_i64_def parse_signed_def lit_def strip_plus_def
        parse_digits_def digits_value_def is_digit_def i64_max_def repository_id_new_def)
  have ok: "db_ok (w_database sample_empty_world)"
    by (simp add: sample_empty_world_def db_ok_empty)
  have f: "\<forall>k. amb_faults sample_ambient database_operation.RepositoryGet k = None
      \<and> amb_faults sample_ambient database_operation.RepositoryDelete k = None"
    by (simp add: sample_ambient_def no_faults_def)
  from body obtain ms where "rsp_body (json_response 201 (repository_response md))
      = Some (JObject ((lit ''id'', JInt 1) # ms))" by blast
  from created_repository_lifecycle [OF r _ this p ok f] r show ?thesis
    by (auto simp: json_response_def)
qed

end
