(* ===== verification/Retention.thy ===== *)
theory Retention
  imports Delivery_Store Merge_Queue_Store Workflow_Run_Store Workflow_Job_Link_Store
    Required_Check_Store
begin

section \<open>Retention: bounded pruning of the five stores\<close>

text \<open>
  \<open>src/retention.rs\<close>. The trait \<open>PrunableStore\<close> is the record \<open>prunable_store\<close>, and the locale
  \<open>prunable_table\<close> states what a pass relies on; it is interpreted on each of the five stores.
  The shutdown flag is read at successive observations, \<open>shutdown i\<close> being the \<open>i\<close>-th, and
  \<open>faults i\<close> are the failures of the batch started after it. The batch loop may not end for an
  arbitrary store, so it is a partial function; it is shown to end for every store of the program.
  Here no other task writes between two batches; theory Service_Threads lets others run between any
  two. Logging is omitted.
\<close>

subsection \<open>Configuration\<close>

definition FULL_PRUNE_BATCH_SIZE :: nat where "FULL_PRUNE_BATCH_SIZE = 1000"

datatype retention_error = InvalidInterval | InvalidRetention

record retention_config =
  rc_interval :: nat
  rc_delivery_retention :: nat
  rc_merge_queue_retention :: nat

text \<open>Durations are nanoseconds; \<open>time::Duration\<close> holds at most \<open>i64::MAX\<close> seconds.\<close>

definition validate_retention :: "nat \<Rightarrow> (retention_error, nat) result" where
  "validate_retention retention =
     (if retention = 0 then Err InvalidRetention
      else if retention div 1000000000 > i64_max then Err InvalidRetention
      else Ok retention)"

definition retention_config_new ::
  "nat \<Rightarrow> nat \<Rightarrow> nat \<Rightarrow> (retention_error, retention_config) result" where
  "retention_config_new interval delivery_retention merge_queue_retention =
     (if interval = 0 then Err InvalidInterval
      else and_then (validate_retention delivery_retention)
        (\<lambda>d. and_then (validate_retention merge_queue_retention)
          (\<lambda>m. Ok \<lparr>rc_interval = interval, rc_delivery_retention = d,
                   rc_merge_queue_retention = m\<rparr>)))"

subsection \<open>Outcomes\<close>

datatype store_prune_outcome = Completed | Cancelled | Failed

datatype retention_pass_outcome = Success | Cancelled | Failure

definition combine ::
  "retention_pass_outcome \<Rightarrow> store_prune_outcome \<Rightarrow> retention_pass_outcome" where
  "combine oc s = (case (oc, s) of
     (retention_pass_outcome.Failure, _) \<Rightarrow> retention_pass_outcome.Failure
   | (_, store_prune_outcome.Failed) \<Rightarrow> retention_pass_outcome.Failure
   | (retention_pass_outcome.Cancelled, _) \<Rightarrow> retention_pass_outcome.Cancelled
   | (retention_pass_outcome.Success, store_prune_outcome.Cancelled) \<Rightarrow>
       retention_pass_outcome.Cancelled
   | (retention_pass_outcome.Success, store_prune_outcome.Completed) \<Rightarrow>
       retention_pass_outcome.Success)"

lemma combine_simps [simp]:
  "combine retention_pass_outcome.Failure s = retention_pass_outcome.Failure"
  "combine oc store_prune_outcome.Failed = retention_pass_outcome.Failure"
  "combine oc store_prune_outcome.Completed = oc"
  "combine retention_pass_outcome.Success store_prune_outcome.Cancelled =
     retention_pass_outcome.Cancelled"
  "combine retention_pass_outcome.Cancelled store_prune_outcome.Cancelled =
     retention_pass_outcome.Cancelled"
  by (cases oc; simp add: combine_def split: store_prune_outcome.splits)+

definition pass_operation_outcome :: "retention_pass_outcome \<Rightarrow> operation_outcome" where
  "pass_operation_outcome oc = (case oc of
     retention_pass_outcome.Success \<Rightarrow> operation_outcome.Success
   | retention_pass_outcome.Cancelled \<Rightarrow> operation_outcome.Cancelled
   | retention_pass_outcome.Failure \<Rightarrow> operation_outcome.Failure)"

subsection \<open>Stores that can be pruned\<close>

datatype store_prune_failure = StorePruneFailure

type_synonym prune_batch =
  "faults \<Rightarrow> instant \<Rightarrow> database \<Rightarrow> (store_prune_failure, nat) result \<times> database"

record prunable_store =
  workload :: rstring
  prune_batch_erased :: prune_batch

definition erase ::
  "('e, nat) result \<times> database \<Rightarrow> (store_prune_failure, nat) result \<times> database" where
  "erase p = (map_err (\<lambda>_. StorePruneFailure) (fst p), snd p)"

definition delivery_prunable :: "time_lib \<Rightarrow> prunable_store" where
  "delivery_prunable clk =
     \<lparr>workload = lit ''delivery'',
      prune_batch_erased = (\<lambda>f c db. erase (prune_deliveries clk f c db))\<rparr>"

definition merge_queue_prunable :: "time_lib \<Rightarrow> prunable_store" where
  "merge_queue_prunable clk =
     \<lparr>workload = lit ''merge_queue'',
      prune_batch_erased = (\<lambda>f c db. erase (prune_completed clk f c db))\<rparr>"

definition workflow_run_prunable :: "time_lib \<Rightarrow> prunable_store" where
  "workflow_run_prunable clk =
     \<lparr>workload = lit ''workflow_run'',
      prune_batch_erased = (\<lambda>f c db. erase (prune_runs clk f c db))\<rparr>"

definition required_check_prunable :: "time_lib \<Rightarrow> prunable_store" where
  "required_check_prunable clk =
     \<lparr>workload = lit ''required_check'',
      prune_batch_erased = (\<lambda>f c db. erase (prune_checks clk f c db))\<rparr>"

definition workflow_job_link_prunable :: "time_lib \<Rightarrow> prunable_store" where
  "workflow_job_link_prunable clk =
     \<lparr>workload = lit ''workflow_job_link'',
      prune_batch_erased = (\<lambda>f c db. erase (prune_links clk f c db))\<rparr>"

subsection \<open>The batch loop\<close>

partial_function (option) prune_loop ::
  "prune_batch \<Rightarrow> (nat \<Rightarrow> bool) \<Rightarrow> (nat \<Rightarrow> faults) \<Rightarrow> instant \<Rightarrow> nat \<Rightarrow> database
   \<Rightarrow> (store_prune_outcome \<times> nat \<times> database) option" where
  "prune_loop prune shutdown faults cutoff i db =
     (if shutdown i then Some (store_prune_outcome.Cancelled, i + 1, db)
      else case prune (faults i) cutoff db of
        (r, db') \<Rightarrow>
          (case r of
             Inl e \<Rightarrow> Some (store_prune_outcome.Failed, i + 1, db')
           | Inr batch_deleted \<Rightarrow>
               if batch_deleted < FULL_PRUNE_BATCH_SIZE
               then Some (store_prune_outcome.Completed, i + 1, db')
               else prune_loop prune shutdown faults cutoff (i + 1) db'))"

definition prune_store ::
  "prunable_store \<Rightarrow> instant option \<Rightarrow> (nat \<Rightarrow> bool) \<Rightarrow> (nat \<Rightarrow> faults) \<Rightarrow> nat \<Rightarrow> database
   \<Rightarrow> (store_prune_outcome \<times> nat \<times> database) option" where
  "prune_store store cutoff shutdown faults i db = (case cutoff of
     None \<Rightarrow> Some (store_prune_outcome.Failed, i, db)
   | Some c \<Rightarrow> prune_loop (prune_batch_erased store) shutdown faults c i db)"

fun prune_retention_workloads ::
  "(prunable_store \<times> instant option) list \<Rightarrow> (nat \<Rightarrow> bool) \<Rightarrow> (nat \<Rightarrow> faults)
   \<Rightarrow> retention_pass_outcome \<Rightarrow> nat \<Rightarrow> database
   \<Rightarrow> (retention_pass_outcome \<times> nat \<times> database) option" where
  "prune_retention_workloads [] shutdown faults oc i db = Some (oc, i, db)"
| "prune_retention_workloads ((store, cutoff) # remaining) shutdown faults oc i db =
     (case prune_store store cutoff shutdown faults i db of
        None \<Rightarrow> None
      | Some (store_outcome, j, db') \<Rightarrow>
          (let oc' = combine oc store_outcome
           in if (shutdown j \<or> store_outcome = store_prune_outcome.Cancelled) \<and> remaining \<noteq> []
              then Some (combine oc' store_prune_outcome.Cancelled, j + 1, db')
              else prune_retention_workloads remaining shutdown faults oc' (j + 1) db'))"

definition retention_workloads ::
  "time_lib \<Rightarrow> retention_config \<Rightarrow> instant \<Rightarrow> (prunable_store \<times> instant option) list" where
  "retention_workloads clk config pass_started_at =
     (let delivery_cutoff =
            datetime_checked_sub clk pass_started_at (int (rc_delivery_retention config));
          merge_queue_cutoff =
            datetime_checked_sub clk pass_started_at (int (rc_merge_queue_retention config))
      in [(delivery_prunable clk, delivery_cutoff),
          (merge_queue_prunable clk, merge_queue_cutoff),
          (workflow_run_prunable clk, delivery_cutoff),
          (workflow_job_link_prunable clk, delivery_cutoff),
          (required_check_prunable clk, delivery_cutoff)])"

definition prune_retention_pass ::
  "time_lib \<Rightarrow> retention_config \<Rightarrow> instant \<Rightarrow> (nat \<Rightarrow> bool) \<Rightarrow> (nat \<Rightarrow> faults) \<Rightarrow> database
   \<Rightarrow> (retention_pass_outcome \<times> nat \<times> database) option" where
  "prune_retention_pass clk config pass_started_at shutdown faults db =
     prune_retention_workloads (retention_workloads clk config pass_started_at) shutdown faults
       retention_pass_outcome.Success 0 db"

subsection \<open>The contract of a store, and the loop under it\<close>

locale prunable_table =
  fixes prune :: prune_batch
    and rows :: "database \<Rightarrow> 'r list"
    and put :: "'r list \<Rightarrow> database \<Rightarrow> database"
    and expired :: "instant \<Rightarrow> 'r \<Rightarrow> bool"
    and formattable :: "instant \<Rightarrow> bool"
  assumes rows_put: "rows (put xs db) = xs"
    and put_rows: "put (rows db) db = db"
    and put_put: "put xs (put ys db) = put xs db"
    and put_repositories: "repositories (put xs db) = repositories db"
    and batch_err: "prune f c db = (Err e, db') \<Longrightarrow> db' = db"
    and batch_ok: "db_ok db \<Longrightarrow> prune f c db = (Ok n, db') \<Longrightarrow>
       db_ok db' \<and> db' = put (rows db') db \<and> (\<exists>P. rows db' = filter P (rows db))
       \<and> length (rows db') + n = length (rows db)
       \<and> (\<forall>r \<in> set (rows db). \<not> expired c r \<longrightarrow> r \<in> set (rows db'))
       \<and> (n < FULL_PRUNE_BATCH_SIZE \<longrightarrow> (\<forall>r \<in> set (rows db'). \<not> expired c r))"
    and batch_total: "f 0 = None \<Longrightarrow> formattable c \<Longrightarrow> \<exists>n db'. prune f c db = (Ok n, db')"
begin

text \<open>The loop ends, deletes only expired rows of its table, and keeps the constraints.\<close>

lemma loop_total:
  assumes "db_ok db"
  shows "\<exists>oc j db'. prune_loop prune shutdown faults c i db = Some (oc, j, db')
     \<and> db_ok db' \<and> db' = put (rows db') db \<and> (\<exists>P. rows db' = filter P (rows db))
     \<and> (\<forall>r \<in> set (rows db). \<not> expired c r \<longrightarrow> r \<in> set (rows db'))
     \<and> (oc = store_prune_outcome.Completed \<longrightarrow> (\<forall>r \<in> set (rows db'). \<not> expired c r))
     \<and> (oc = store_prune_outcome.Cancelled \<longrightarrow> (\<exists>k. shutdown k))
     \<and> (oc = store_prune_outcome.Failed \<longrightarrow> \<not> formattable c \<or> (\<exists>k. faults k 0 \<noteq> None))"
  using assms
proof (induction "length (rows db)" arbitrary: db i rule: less_induct)
  case less
  have same: "\<exists>P. rows db = filter P (rows db)" by (rule exI [of _ "\<lambda>_. True"]) simp
  show ?case
  proof (cases "shutdown i")
    case True
    with less.prems same show ?thesis
      by (subst prune_loop.simps) (auto simp: put_rows)
  next
    case running: False
    obtain r db1 where p: "prune (faults i) c db = (r, db1)" by fastforce
    show ?thesis
    proof (cases r)
      case (Inl e)
      then have "db1 = db" using p batch_err by blast
      moreover have "\<not> formattable c \<or> faults i 0 \<noteq> None"
        using batch_total [of "faults i" c db] p Inl by auto
      ultimately show ?thesis
        using running p Inl less.prems same
        by (subst prune_loop.simps) (auto simp: put_rows)
    next
      case (Inr n)
      note b = batch_ok [OF less.prems p [unfolded Inr]]
      show ?thesis
      proof (cases "n < FULL_PRUNE_BATCH_SIZE")
        case True
        with running p Inr b show ?thesis by (subst prune_loop.simps) auto
      next
        case False
        with b have "length (rows db1) < length (rows db)"
          by (auto simp: FULL_PRUNE_BATCH_SIZE_def)
        from less.hyps [OF this, of "i + 1"] b obtain oc j db' where l:
          "prune_loop prune shutdown faults c (i + 1) db1 = Some (oc, j, db')"
          "db_ok db'" "db' = put (rows db') db1" "\<exists>P. rows db' = filter P (rows db1)"
          "\<forall>r \<in> set (rows db1). \<not> expired c r \<longrightarrow> r \<in> set (rows db')"
          "oc = store_prune_outcome.Completed \<longrightarrow> (\<forall>r \<in> set (rows db'). \<not> expired c r)"
          "oc = store_prune_outcome.Cancelled \<longrightarrow> (\<exists>k. shutdown k)"
          "oc = store_prune_outcome.Failed \<longrightarrow> \<not> formattable c \<or> (\<exists>k. faults k 0 \<noteq> None)"
          by blast
        have "db' = put (rows db') db" using l(3) b put_put by metis
        moreover have "\<exists>P. rows db' = filter P (rows db)"
        proof -
          obtain P Q where "rows db' = filter P (rows db1)" "rows db1 = filter Q (rows db)"
            using l(4) b by blast
          then have "rows db' = filter (\<lambda>x. Q x \<and> P x) (rows db)" by (simp add: conj_commute)
          then show ?thesis by blast
        qed
        moreover have "prune_loop prune shutdown faults c i db = Some (oc, j, db')"
          using running p Inr False l(1) by (subst prune_loop.simps) simp
        ultimately show ?thesis using l b by blast
      qed
    qed
  qed
qed

lemma loop_sound:
  "db_ok db \<Longrightarrow> \<exists>oc j db'. prune_loop prune shutdown faults c i db = Some (oc, j, db') \<and> db_ok db'
     \<and> repositories db' = repositories db"
  using loop_total [of db shutdown faults c i] put_repositories by metis

lemma loop_completes:
  assumes "db_ok db" and "\<forall>k. \<not> shutdown k" and "\<forall>k. faults k 0 = None" and "formattable c"
  shows "\<exists>j. prune_loop prune shutdown faults c i db =
     Some (store_prune_outcome.Completed, j, put (filter (\<lambda>r. \<not> expired c r) (rows db)) db)"
proof -
  from loop_total [OF assms(1), of shutdown faults c i] obtain oc j db' where l:
    "prune_loop prune shutdown faults c i db = Some (oc, j, db')"
    "db' = put (rows db') db" "\<exists>P. rows db' = filter P (rows db)"
    "\<forall>r \<in> set (rows db). \<not> expired c r \<longrightarrow> r \<in> set (rows db')"
    "oc = store_prune_outcome.Completed \<longrightarrow> (\<forall>r \<in> set (rows db'). \<not> expired c r)"
    "oc = store_prune_outcome.Cancelled \<longrightarrow> (\<exists>k. shutdown k)"
    "oc = store_prune_outcome.Failed \<longrightarrow> \<not> formattable c \<or> (\<exists>k. faults k 0 \<noteq> None)"
    by blast
  then have oc: "oc = store_prune_outcome.Completed" using assms(2-4) by (cases oc) auto
  obtain P where P: "rows db' = filter P (rows db)" using l(3) by blast
  have "rows db' = filter (\<lambda>r. \<not> expired c r) (rows db)"
    unfolding P using l(4,5) oc P by (intro filter_cong) auto
  with l(1,2) oc show ?thesis by metis
qed

end

subsection \<open>The five stores provide it\<close>

definition expired_at ::
  "time_lib \<Rightarrow> ('r \<Rightarrow> rstring option) \<Rightarrow> instant \<Rightarrow> 'r \<Rightarrow> bool" where
  "expired_at clk ts cutoff r =
     (case format_millis clk cutoff of None \<Rightarrow> False | Some t \<Rightarrow> expired_row ts t r)"

definition formattable_at :: "time_lib \<Rightarrow> instant \<Rightarrow> bool" where
  "formattable_at clk cutoff \<longleftrightarrow> format_millis clk cutoff \<noteq> None"

text \<open>What \<open>prune_rows\<close> gives each of them.\<close>

lemma prune_rows_law:
  assumes "distinct (map rid tbl)" and "prune_rows ts rid t FULL_PRUNE_BATCH_SIZE tbl = (xs, n)"
    and "format_millis clk c = Some t"
  shows "(\<exists>P. xs = filter P tbl) \<and> length xs + n = length tbl
    \<and> (\<forall>r \<in> set tbl. \<not> expired_at clk ts c r \<longrightarrow> r \<in> set xs)
    \<and> (n < FULL_PRUNE_BATCH_SIZE \<longrightarrow> (\<forall>r \<in> set xs. \<not> expired_at clk ts c r))"
proof -
  note b = prune_rows_batch [OF assms(1,2)]
  have "xs = filter (\<lambda>r. r \<notin> set (oldest_expired ts rid t FULL_PRUNE_BATCH_SIZE tbl)) tbl"
    using prune_rows_eq [OF assms(1)] assms(2) by auto
  then have "\<exists>P. xs = filter P tbl" by blast
  with b assms(3) show ?thesis by (auto simp: expired_at_def)
qed

lemma erase_Ok: "erase p = (Ok n, db') \<longleftrightarrow> p = (Ok n, db')"
  by (cases p) (auto simp: erase_def)

lemma erase_Err: "erase p = (Err e, db') \<longleftrightarrow> (\<exists>e'. p = (Err e', db'))"
  by (cases p; cases "fst p"; cases e) (auto simp: erase_def)

lemma prune_deliveries_Ok:
  assumes "prune_deliveries clk f c db = (Ok n, db')"
  shows "\<exists>t xs. format_millis clk c = Some t
     \<and> prune_rows (\<lambda>r. Some (dr_received_at r)) dr_delivery_id t FULL_PRUNE_BATCH_SIZE
         (deliveries db) = (xs, n)
     \<and> db' = db\<lparr>deliveries := xs\<rparr>"
  using assms
  by (auto simp: prune_deliveries_def DELIVERY_PRUNE_BATCH_SIZE_def FULL_PRUNE_BATCH_SIZE_def
      split: option.splits prod.splits)

interpretation delivery: prunable_table "prune_batch_erased (delivery_prunable clk)" deliveries
  "\<lambda>xs db. db\<lparr>deliveries := xs\<rparr>" "expired_at clk (\<lambda>r. Some (dr_received_at r))"
  "formattable_at clk" for clk
proof unfold_locales
  fix f c db n db'
  assume ok: "db_ok db" and p: "prune_batch_erased (delivery_prunable clk) f c db = (Ok n, db')"
  from p have q: "prune_deliveries clk f c db = (Ok n, db')"
    by (simp add: delivery_prunable_def erase_Ok)
  have d: "distinct (map dr_delivery_id (deliveries db))" using ok by (simp add: db_ok_def)
  have "db_ok db'" using prune_deliveries_db_ok [OF ok, of clk f c] q by simp
  with prune_deliveries_Ok [OF q] prune_rows_law [OF d] show "db_ok db'
     \<and> db' = db\<lparr>deliveries := deliveries db'\<rparr> \<and> (\<exists>P. deliveries db' = filter P (deliveries db))
     \<and> length (deliveries db') + n = length (deliveries db)
     \<and> (\<forall>r \<in> set (deliveries db). \<not> expired_at clk (\<lambda>r. Some (dr_received_at r)) c r
          \<longrightarrow> r \<in> set (deliveries db'))
     \<and> (n < FULL_PRUNE_BATCH_SIZE \<longrightarrow>
          (\<forall>r \<in> set (deliveries db'). \<not> expired_at clk (\<lambda>r. Some (dr_received_at r)) c r))"
    by fastforce
qed (auto simp: delivery_prunable_def erase_Ok erase_Err formattable_at_def prune_deliveries_def
    split: option.splits prod.splits)

lemma prune_completed_Ok:
  assumes "prune_completed clk f c db = (Ok n, db')"
  shows "\<exists>t xs. format_millis clk c = Some t
     \<and> prune_rows at_completed_at at_id t FULL_PRUNE_BATCH_SIZE (attempts db) = (xs, n)
     \<and> db' = db\<lparr>attempts := xs\<rparr>"
  using assms
  by (auto simp: prune_completed_def queue_timestamp_from_datetime_def ATTEMPT_PRUNE_BATCH_SIZE_def
      FULL_PRUNE_BATCH_SIZE_def split: option.splits prod.splits)

interpretation merge_queue: prunable_table "prune_batch_erased (merge_queue_prunable clk)" attempts
  "\<lambda>xs db. db\<lparr>attempts := xs\<rparr>" "expired_at clk at_completed_at" "formattable_at clk" for clk
proof unfold_locales
  fix f c db n db'
  assume ok: "db_ok db" and p: "prune_batch_erased (merge_queue_prunable clk) f c db = (Ok n, db')"
  from p have q: "prune_completed clk f c db = (Ok n, db')"
    by (simp add: merge_queue_prunable_def erase_Ok)
  have d: "distinct (map at_id (attempts db))" using ok by (simp add: db_ok_def attempts_ok_def)
  have "db_ok db'" using prune_completed_db_ok [OF ok, of clk f c] q by simp
  with prune_completed_Ok [OF q] prune_rows_law [OF d] show "db_ok db'
     \<and> db' = db\<lparr>attempts := attempts db'\<rparr> \<and> (\<exists>P. attempts db' = filter P (attempts db))
     \<and> length (attempts db') + n = length (attempts db)
     \<and> (\<forall>r \<in> set (attempts db). \<not> expired_at clk at_completed_at c r \<longrightarrow> r \<in> set (attempts db'))
     \<and> (n < FULL_PRUNE_BATCH_SIZE \<longrightarrow>
          (\<forall>r \<in> set (attempts db'). \<not> expired_at clk at_completed_at c r))"
    by fastforce
qed (auto simp: merge_queue_prunable_def erase_Ok erase_Err formattable_at_def prune_completed_def
    queue_timestamp_from_datetime_def split: option.splits prod.splits sum.splits)

lemma prune_runs_Ok:
  assumes "prune_runs clk f c db = (Ok n, db')"
  shows "\<exists>t xs. format_millis clk c = Some t
     \<and> prune_rows (\<lambda>r. Some (wr_updated_at r)) wr_rowid t FULL_PRUNE_BATCH_SIZE
         (run_contexts db) = (xs, n)
     \<and> db' = db\<lparr>run_contexts := xs\<rparr>"
  using assms
  by (auto simp: prune_runs_def WORKFLOW_RUN_PRUNE_BATCH_SIZE_def FULL_PRUNE_BATCH_SIZE_def
      split: option.splits prod.splits)

interpretation workflow_run: prunable_table "prune_batch_erased (workflow_run_prunable clk)"
  run_contexts "\<lambda>xs db. db\<lparr>run_contexts := xs\<rparr>" "expired_at clk (\<lambda>r. Some (wr_updated_at r))"
  "formattable_at clk" for clk
proof unfold_locales
  fix f c db n db'
  assume ok: "db_ok db" and p: "prune_batch_erased (workflow_run_prunable clk) f c db = (Ok n, db')"
  from p have q: "prune_runs clk f c db = (Ok n, db')"
    by (simp add: workflow_run_prunable_def erase_Ok)
  have d: "distinct (map wr_rowid (run_contexts db))"
    using ok by (simp add: db_ok_def keyed_table_ok_def)
  have "db_ok db'" using prune_runs_db_ok [OF ok, of clk f c] q by simp
  with prune_runs_Ok [OF q] prune_rows_law [OF d] show "db_ok db'
     \<and> db' = db\<lparr>run_contexts := run_contexts db'\<rparr>
     \<and> (\<exists>P. run_contexts db' = filter P (run_contexts db))
     \<and> length (run_contexts db') + n = length (run_contexts db)
     \<and> (\<forall>r \<in> set (run_contexts db). \<not> expired_at clk (\<lambda>r. Some (wr_updated_at r)) c r
          \<longrightarrow> r \<in> set (run_contexts db'))
     \<and> (n < FULL_PRUNE_BATCH_SIZE \<longrightarrow>
          (\<forall>r \<in> set (run_contexts db'). \<not> expired_at clk (\<lambda>r. Some (wr_updated_at r)) c r))"
    by fastforce
qed (auto simp: workflow_run_prunable_def erase_Ok erase_Err formattable_at_def prune_runs_def
    split: option.splits prod.splits)

lemma prune_links_Ok:
  assumes "prune_links clk f c db = (Ok n, db')"
  shows "\<exists>t xs. format_millis clk c = Some t
     \<and> prune_rows (\<lambda>r. Some (jl_updated_at r)) jl_rowid t FULL_PRUNE_BATCH_SIZE
         (job_links db) = (xs, n)
     \<and> db' = db\<lparr>job_links := xs\<rparr>"
  using assms
  by (auto simp: prune_links_def WORKFLOW_JOB_LINK_PRUNE_BATCH_SIZE_def FULL_PRUNE_BATCH_SIZE_def
      split: option.splits prod.splits)

interpretation job_link: prunable_table "prune_batch_erased (workflow_job_link_prunable clk)"
  job_links "\<lambda>xs db. db\<lparr>job_links := xs\<rparr>" "expired_at clk (\<lambda>r. Some (jl_updated_at r))"
  "formattable_at clk" for clk
proof unfold_locales
  fix f c db n db'
  assume ok: "db_ok db"
    and p: "prune_batch_erased (workflow_job_link_prunable clk) f c db = (Ok n, db')"
  from p have q: "prune_links clk f c db = (Ok n, db')"
    by (simp add: workflow_job_link_prunable_def erase_Ok)
  have d: "distinct (map jl_rowid (job_links db))"
    using ok by (simp add: db_ok_def keyed_table_ok_def)
  have "db_ok db'" using prune_links_db_ok [OF ok, of clk f c] q by simp
  with prune_links_Ok [OF q] prune_rows_law [OF d] show "db_ok db'
     \<and> db' = db\<lparr>job_links := job_links db'\<rparr> \<and> (\<exists>P. job_links db' = filter P (job_links db))
     \<and> length (job_links db') + n = length (job_links db)
     \<and> (\<forall>r \<in> set (job_links db). \<not> expired_at clk (\<lambda>r. Some (jl_updated_at r)) c r
          \<longrightarrow> r \<in> set (job_links db'))
     \<and> (n < FULL_PRUNE_BATCH_SIZE \<longrightarrow>
          (\<forall>r \<in> set (job_links db'). \<not> expired_at clk (\<lambda>r. Some (jl_updated_at r)) c r))"
    by fastforce
qed (auto simp: workflow_job_link_prunable_def erase_Ok erase_Err formattable_at_def prune_links_def
    split: option.splits prod.splits)

lemma prune_checks_Ok:
  assumes "prune_checks clk f c db = (Ok n, db')"
  shows "\<exists>t xs. format_millis clk c = Some t
     \<and> prune_rows (\<lambda>r. Some (rc_updated_at r)) rc_rowid t FULL_PRUNE_BATCH_SIZE
         (check_contexts db) = (xs, n)
     \<and> db' = db\<lparr>check_contexts := xs\<rparr>"
  using assms
  by (auto simp: prune_checks_def format_timestamp_def REQUIRED_CHECK_PRUNE_BATCH_SIZE_def
      FULL_PRUNE_BATCH_SIZE_def split: option.splits prod.splits sum.splits)

interpretation required_check: prunable_table "prune_batch_erased (required_check_prunable clk)"
  check_contexts "\<lambda>xs db. db\<lparr>check_contexts := xs\<rparr>" "expired_at clk (\<lambda>r. Some (rc_updated_at r))"
  "formattable_at clk" for clk
proof unfold_locales
  fix f c db n db'
  assume ok: "db_ok db"
    and p: "prune_batch_erased (required_check_prunable clk) f c db = (Ok n, db')"
  from p have q: "prune_checks clk f c db = (Ok n, db')"
    by (simp add: required_check_prunable_def erase_Ok)
  have d: "distinct (map rc_rowid (check_contexts db))"
    using ok by (simp add: db_ok_def keyed_table_ok_def)
  have "db_ok db'" using prune_checks_db_ok [OF ok, of clk f c] q by simp
  with prune_checks_Ok [OF q] prune_rows_law [OF d] show "db_ok db'
     \<and> db' = db\<lparr>check_contexts := check_contexts db'\<rparr>
     \<and> (\<exists>P. check_contexts db' = filter P (check_contexts db))
     \<and> length (check_contexts db') + n = length (check_contexts db)
     \<and> (\<forall>r \<in> set (check_contexts db). \<not> expired_at clk (\<lambda>r. Some (rc_updated_at r)) c r
          \<longrightarrow> r \<in> set (check_contexts db'))
     \<and> (n < FULL_PRUNE_BATCH_SIZE \<longrightarrow>
          (\<forall>r \<in> set (check_contexts db'). \<not> expired_at clk (\<lambda>r. Some (rc_updated_at r)) c r))"
    by fastforce
qed (auto simp: required_check_prunable_def erase_Ok erase_Err formattable_at_def prune_checks_def
    format_timestamp_def split: option.splits prod.splits sum.splits)

subsection \<open>A whole pass\<close>

text \<open>What a pass leaves when nothing fails: exactly the rows that have not expired.\<close>

definition without_expired :: "time_lib \<Rightarrow> instant \<Rightarrow> instant \<Rightarrow> database \<Rightarrow> database" where
  "without_expired clk delivery_cutoff queue_cutoff db =
     db\<lparr>deliveries := filter (\<lambda>r. \<not> expired_at clk (\<lambda>r. Some (dr_received_at r)) delivery_cutoff r)
                      (deliveries db),
        attempts := filter (\<lambda>r. \<not> expired_at clk at_completed_at queue_cutoff r) (attempts db),
        run_contexts := filter (\<lambda>r. \<not> expired_at clk (\<lambda>r. Some (wr_updated_at r)) delivery_cutoff r)
                          (run_contexts db),
        job_links := filter (\<lambda>r. \<not> expired_at clk (\<lambda>r. Some (jl_updated_at r)) delivery_cutoff r)
                       (job_links db),
        check_contexts := filter
          (\<lambda>r. \<not> expired_at clk (\<lambda>r. Some (rc_updated_at r)) delivery_cutoff r)
          (check_contexts db)\<rparr>"

text \<open>Every store's loop ends and keeps the constraints.\<close>

definition sound_prunable :: "prunable_store \<Rightarrow> bool" where
  "sound_prunable st \<longleftrightarrow>
     (\<forall>cutoff shutdown faults i db. db_ok db \<longrightarrow>
        (\<exists>oc j db'. prune_store st cutoff shutdown faults i db = Some (oc, j, db') \<and> db_ok db'
           \<and> repositories db' = repositories db))"

lemma sound_prunableI:
  assumes "\<And>c shutdown faults i db. db_ok db \<Longrightarrow>
     \<exists>oc j db'. prune_loop (prune_batch_erased st) shutdown faults c i db = Some (oc, j, db')
       \<and> db_ok db' \<and> repositories db' = repositories db"
  shows "sound_prunable st"
  unfolding sound_prunable_def
proof (intro allI impI)
  fix cutoff shutdown faults i db
  assume "db_ok db"
  then show "\<exists>oc j db'. prune_store st cutoff shutdown faults i db = Some (oc, j, db') \<and> db_ok db'
     \<and> repositories db' = repositories db"
    using assms by (cases cutoff) (simp_all add: prune_store_def)
qed

lemma sound_prunableD:
  "sound_prunable st \<Longrightarrow> db_ok db \<Longrightarrow>
     \<exists>oc j db'. prune_store st cutoff shutdown faults i db = Some (oc, j, db') \<and> db_ok db'
       \<and> repositories db' = repositories db"
  by (simp add: sound_prunable_def)

lemma sound_prunables:
  "sound_prunable (delivery_prunable clk)" "sound_prunable (merge_queue_prunable clk)"
  "sound_prunable (workflow_run_prunable clk)" "sound_prunable (workflow_job_link_prunable clk)"
  "sound_prunable (required_check_prunable clk)"
  by (rule sound_prunableI, rule delivery.loop_sound merge_queue.loop_sound
      workflow_run.loop_sound job_link.loop_sound required_check.loop_sound, assumption)+

lemma workloads_total:
  assumes "\<forall>w \<in> set ws. sound_prunable (fst w)" and "db_ok db"
  shows "\<exists>oc' j db'. prune_retention_workloads ws shutdown faults oc i db = Some (oc', j, db')
     \<and> db_ok db' \<and> repositories db' = repositories db"
  using assms
proof (induction ws arbitrary: oc i db)
  case Nil
  then show ?case by simp
next
  case (Cons w rest)
  obtain st cutoff where w: "w = (st, cutoff)" by fastforce
  have "sound_prunable st" using Cons.prems(1) w by simp
  from sound_prunableD [OF this Cons.prems(2), of cutoff shutdown faults i]
  obtain so j db1 where s: "prune_store st cutoff shutdown faults i db = Some (so, j, db1)" "db_ok db1"
    "repositories db1 = repositories db" by blast
  show ?case
  proof (cases "(shutdown j \<or> so = store_prune_outcome.Cancelled) \<and> rest \<noteq> []")
    case True
    with s w show ?thesis by (simp add: Let_def)
  next
    case False
    have "\<forall>w \<in> set rest. sound_prunable (fst w)" using Cons.prems(1) by simp
    from Cons.IH [OF this s(2), of "combine oc so" "j + 1"] s(1,3) w False show ?thesis
      by (auto simp: Let_def)
  qed
qed

lemma workloads_completed_step:
  assumes "prune_store st cutoff shutdown faults i db
      = Some (store_prune_outcome.Completed, j, db')" and "\<not> shutdown j"
  shows "prune_retention_workloads ((st, cutoff) # ws) shutdown faults oc i db =
     prune_retention_workloads ws shutdown faults oc (j + 1) db'"
  using assms by simp

lemma pass_total:
  assumes "db_ok db"
  shows "\<exists>oc j db'. prune_retention_pass clk config now shutdown faults db = Some (oc, j, db')
     \<and> db_ok db' \<and> repositories db' = repositories db"
proof -
  have "\<forall>w \<in> set (retention_workloads clk config now). sound_prunable (fst w)"
    by (simp add: retention_workloads_def Let_def sound_prunables)
  from workloads_total [OF this assms] show ?thesis
    unfolding prune_retention_pass_def by blast
qed

text \<open>A store that is pruned to the end hands its table to the next one.\<close>

lemma completed_workload:
  assumes "\<exists>j. prune_loop (prune_batch_erased st) shutdown faults c i db
      = Some (store_prune_outcome.Completed, j, db')"
    and "sound_prunable st" and "db_ok db" and "\<forall>k. \<not> shutdown k"
  shows "db_ok db' \<and> (\<exists>j. \<forall>oc ws. prune_retention_workloads ((st, Some c) # ws) shutdown faults oc i db
     = prune_retention_workloads ws shutdown faults oc j db')"
proof -
  obtain j where s: "prune_store st (Some c) shutdown faults i db
      = Some (store_prune_outcome.Completed, j, db')"
    using assms(1) by (auto simp: prune_store_def)
  with sound_prunableD [OF assms(2,3), of "Some c" shutdown faults i] have "db_ok db'" by simp
  moreover have "prune_retention_workloads ((st, Some c) # ws) shutdown faults oc i db
      = prune_retention_workloads ws shutdown faults oc (j + 1) db'" for oc ws
    using workloads_completed_step [OF s] assms(4) by blast
  ultimately show ?thesis by blast
qed

lemma calm_pass:
  assumes "db_ok db" and "\<forall>k. \<not> shutdown k" and "\<forall>k. faults k 0 = None"
    and "formattable_at clk dc" and "formattable_at clk qc"
  shows "\<exists>j. prune_retention_workloads [(delivery_prunable clk, Some dc),
       (merge_queue_prunable clk, Some qc), (workflow_run_prunable clk, Some dc),
       (workflow_job_link_prunable clk, Some dc), (required_check_prunable clk, Some dc)]
     shutdown faults oc i db = Some (oc, j, without_expired clk dc qc db)"
proof -
  define db1 where "db1 = db\<lparr>deliveries := filter
      (\<lambda>r. \<not> expired_at clk (\<lambda>r. Some (dr_received_at r)) dc r) (deliveries db)\<rparr>"
  define db2 where "db2 = db1\<lparr>attempts := filter
      (\<lambda>r. \<not> expired_at clk at_completed_at qc r) (attempts db1)\<rparr>"
  define db3 where "db3 = db2\<lparr>run_contexts := filter
      (\<lambda>r. \<not> expired_at clk (\<lambda>r. Some (wr_updated_at r)) dc r) (run_contexts db2)\<rparr>"
  define db4 where "db4 = db3\<lparr>job_links := filter
      (\<lambda>r. \<not> expired_at clk (\<lambda>r. Some (jl_updated_at r)) dc r) (job_links db3)\<rparr>"
  note calm = assms(2,3)
  note s1 = completed_workload [OF delivery.loop_completes [where shutdown = shutdown and faults = faults, OF assms(1) calm assms(4)]
      sound_prunables(1) assms(1,2), folded db1_def]
  note s2 = completed_workload [OF merge_queue.loop_completes [where shutdown = shutdown and faults = faults, OF s1 [THEN conjunct1] calm assms(5)]
      sound_prunables(2) s1 [THEN conjunct1] assms(2), folded db2_def]
  note s3 = completed_workload [OF workflow_run.loop_completes [where shutdown = shutdown and faults = faults, OF s2 [THEN conjunct1] calm assms(4)]
      sound_prunables(3) s2 [THEN conjunct1] assms(2), folded db3_def]
  note s4 = completed_workload [OF job_link.loop_completes [where shutdown = shutdown and faults = faults, OF s3 [THEN conjunct1] calm assms(4)]
      sound_prunables(4) s3 [THEN conjunct1] assms(2), folded db4_def]
  note s5 = completed_workload [OF required_check.loop_completes [where shutdown = shutdown and faults = faults, OF s4 [THEN conjunct1] calm assms(4)]
      sound_prunables(5) s4 [THEN conjunct1] assms(2)]
  have "without_expired clk dc qc db = db4\<lparr>check_contexts := filter
      (\<lambda>r. \<not> expired_at clk (\<lambda>r. Some (rc_updated_at r)) dc r) (check_contexts db4)\<rparr>"
    by (simp add: without_expired_def db4_def db3_def db2_def db1_def)
  with s1 s2 s3 s4 s5 show ?thesis by (metis prune_retention_workloads.simps(1))
qed

text \<open>
  C37: A retention pass always ends, whatever fails and whenever shutdown is requested, and leaves
  the database within its constraints. Without failures and shutdown, and with cutoffs that can be
  written as text, it succeeds and leaves in each of the five tables exactly the rows that had not
  expired, in their order, however many batches that takes; repositories are untouched.
\<close>

theorem retention_pass_prunes_exactly_expired:
  assumes "db_ok db"
  shows "(\<exists>oc j db'. prune_retention_pass clk config now shutdown faults db = Some (oc, j, db')
       \<and> db_ok db' \<and> repositories db' = repositories db)
    \<and> ((\<forall>k. \<not> shutdown k) \<and> (\<forall>k. faults k 0 = None)
       \<and> datetime_checked_sub clk now (int (rc_delivery_retention config)) = Some dc
       \<and> datetime_checked_sub clk now (int (rc_merge_queue_retention config)) = Some qc
       \<and> format_millis clk dc \<noteq> None \<and> format_millis clk qc \<noteq> None \<longrightarrow>
       (\<exists>j. prune_retention_pass clk config now shutdown faults db =
          Some (retention_pass_outcome.Success, j, without_expired clk dc qc db)))"
proof (intro conjI impI)
  show "\<exists>oc j db'. prune_retention_pass clk config now shutdown faults db = Some (oc, j, db')
       \<and> db_ok db' \<and> repositories db' = repositories db"
    using assms by (rule pass_total)
next
  assume calm: "(\<forall>k. \<not> shutdown k) \<and> (\<forall>k. faults k 0 = None)
       \<and> datetime_checked_sub clk now (int (rc_delivery_retention config)) = Some dc
       \<and> datetime_checked_sub clk now (int (rc_merge_queue_retention config)) = Some qc
       \<and> format_millis clk dc \<noteq> None \<and> format_millis clk qc \<noteq> None"
  then have sh: "\<forall>k. \<not> shutdown k" and fl: "\<forall>k. faults k 0 = None"
    and fd: "formattable_at clk dc" and fq: "formattable_at clk qc"
    by (auto simp: formattable_at_def)
  from calm_pass [where shutdown = shutdown and faults = faults and oc = retention_pass_outcome.Success
      and i = 0, OF assms sh fl fd fq] calm
  show "\<exists>j. prune_retention_pass clk config now shutdown faults db =
          Some (retention_pass_outcome.Success, j, without_expired clk dc qc db)"
    by (simp add: prune_retention_pass_def retention_workloads_def Let_def
        del: prune_retention_workloads.simps(2))
qed

lemma retention_pass_prunes_exactly_expired_witness:
  "\<exists>j. prune_retention_pass sample_clock
       \<lparr>rc_interval = 1, rc_delivery_retention = 4, rc_merge_queue_retention = 5\<rparr> 10
       (\<lambda>_. False) (\<lambda>_. no_faults)
       (empty_database\<lparr>deliveries := [\<lparr>dr_delivery_id = [1], dr_received_at = [3]\<rparr>,
          \<lparr>dr_delivery_id = [2], dr_received_at = [8]\<rparr>]\<rparr>)
     = Some (retention_pass_outcome.Success, j,
         empty_database\<lparr>deliveries := [\<lparr>dr_delivery_id = [2], dr_received_at = [8]\<rparr>]\<rparr>)"
proof -
  let ?db = "empty_database\<lparr>deliveries := [\<lparr>dr_delivery_id = [1], dr_received_at = [3]\<rparr>,
          \<lparr>dr_delivery_id = [2], dr_received_at = [8]\<rparr>]\<rparr>"
  have ok: "db_ok ?db"
    by (simp add: db_ok_def empty_database_def repositories_ok_def attempts_ok_def
        keyed_table_ok_def)
  have "without_expired sample_clock 6 5 ?db =
      empty_database\<lparr>deliveries := [\<lparr>dr_delivery_id = [2], dr_received_at = [8]\<rparr>]\<rparr>"
    by (simp add: without_expired_def expired_at_def sample_clock_def expired_row_def
        empty_database_def)
  with retention_pass_prunes_exactly_expired [OF ok, of sample_clock
      "\<lparr>rc_interval = 1, rc_delivery_retention = 4, rc_merge_queue_retention = 5\<rparr>" 10
      "\<lambda>_. False" "\<lambda>_. no_faults" 6 5]
  show ?thesis by (simp add: sample_clock_def no_faults_def)
qed

end
