(* ===== verification/Service_Invariant.thy ===== *)
theory Service_Invariant
  imports Repositories_Properties Retention
begin

section \<open>The running service\<close>

text \<open>
  The reachable states of the service: it starts by counting its repositories, and then its four
  activities take turns in any order, each with any clock and any failing statements: a webhook
  request, an administration request, a retention pass and a turn of the required-check refresher.
\<close>

inductive service_started :: "'u app_state \<Rightarrow> world \<Rightarrow> bool" for st where
  started: "db_ok (w_database w) \<Longrightarrow> w_refreshes w = [] \<Longrightarrow> \<not> w_panicked w \<Longrightarrow>
    run_state (initialize_repository_metrics amb) w = (Ok (), w') \<Longrightarrow> service_started st w'"

inductive service_step ::
  "'u app_state \<Rightarrow> 'e required_check_source \<Rightarrow> retention_config \<Rightarrow> world \<Rightarrow> world \<Rightarrow> bool"
  for st source config where
  webhook: "run_state (serve_webhook st amb rq) w = (a, w') \<Longrightarrow> service_step st source config w w'"
| administration: "run_state (serve_api st amb rq call) w = (a, w') \<Longrightarrow>
    service_step st source config w w'"
| retention: "prune_retention_pass (lib_clock (app_libraries st)) config now shutdown faults
      (w_database w) = Some (oc, j, db) \<Longrightarrow> service_step st source config w (w\<lparr>w_database := db\<rparr>)"
| refresher: "run_state (run_turn st source amb cancelled) w = (b, w') \<Longrightarrow>
    service_step st source config w w'"

inductive service_reachable ::
  "'u app_state \<Rightarrow> 'e required_check_source \<Rightarrow> retention_config \<Rightarrow> world \<Rightarrow> bool"
  for st source config where
  start: "service_started st w \<Longrightarrow> service_reachable st source config w"
| step: "service_reachable st source config w \<Longrightarrow> service_step st source config w w' \<Longrightarrow>
    service_reachable st source config w'"

inductive_cases service_startedE: "service_started st w"

text \<open>What holds in every state of the service.\<close>

definition service_ok :: "world \<Rightarrow> bool" where
  "service_ok w \<longleftrightarrow> db_ok (w_database w) \<and> gauge_accurate w \<and> \<not> w_panicked w
     \<and> length (w_refreshes w) \<le> REFRESH_QUEUE_CAPACITY"

lemma service_started_ok: "service_started st w \<Longrightarrow> service_ok w"
  by (erule service_startedE)
    (auto simp: initialize_repository_metrics_def instrument_database_operation_def reading_def
      record_metric_def record_span_def service_ok_def gauge_accurate_def count_repositories_def
      set_repository_configurations_def REFRESH_QUEUE_CAPACITY_def split: sum.splits option.splits)

text \<open>The refresher writes the cache of required checks only.\<close>

lemma refresh_ok:
  assumes "service_ok w"
  shows "service_ok (snd (run_state (refresh st source amb rq) w))"
proof -
  have "db_ok (snd (upsert_checks f now rid b checks db))" if "db_ok db" for f now rid b checks db
    using upsert_checks_db_ok that by blast
  moreover have "repositories (snd (upsert_checks f now rid b checks db)) = repositories db"
    for f now rid b checks db
    by (auto simp: upsert_checks_def split: sum.split)
  ultimately show ?thesis
    using assms
    by (auto simp: refresh_def instrument_database_operation_def reading_def record_span_def
        refresh_log_def write_log_def service_ok_def gauge_accurate_def case_prod_beta
        split: sum.split option.split)
qed

lemma service_step_ok:
  assumes "service_step st source config w w'" and "service_ok w"
  shows "service_ok w'"
  using assms
proof (cases rule: service_step.cases)
  case (webhook amb rq a)
  then have w': "w' = snd (run_state (serve_webhook st amb rq) w)" by simp
  have "repositories (w_database w') = repositories (w_database w)"
    using growing.rel_serve_webhook [of st amb rq w] by (simp add: w' db_extends_def)
  with assms(2) show ?thesis
    using constraints.rel_serve_webhook [of st amb rq w] calm.rel_serve_webhook [of st amb rq w]
      queued.rel_serve_webhook [of st amb rq w] gauged.rel_serve_webhook [of st amb rq w]
    by (simp add: w' service_ok_def gauge_accurate_def)
next
  case (administration amb rq call a)
  from serve_api_effect [OF this] api_change_invariant assms(2) show ?thesis
    by (auto simp: service_ok_def telemetry_kept_def)
next
  case (retention now shutdown faults oc j db)
  have "db_ok db \<and> repositories db = repositories (w_database w)"
    using pass_total [of "w_database w" "lib_clock (app_libraries st)" config now shutdown faults]
      retention(2) assms(2) by (auto simp: service_ok_def)
  with retention(1) assms(2) show ?thesis by (simp add: service_ok_def gauge_accurate_def)
next
  case (refresher amb cancelled b)
  then have w': "w' = snd (run_state (run_turn st source amb cancelled) w)" by simp
  show ?thesis
  proof (cases "\<not> cancelled \<and> w_refreshes w \<noteq> []")
    case True
    then obtain rq rest where q: "w_refreshes w = rq # rest" by (meson neq_Nil_conv)
    with assms(2) have "service_ok (w\<lparr>w_refreshes := rest\<rparr>)"
      by (simp add: service_ok_def gauge_accurate_def)
    from refresh_ok [OF this, of st source amb rq] True q show ?thesis
      by (simp add: w' run_turn_def case_prod_beta)
  next
    case False
    with assms(2) show ?thesis
      by (cases "w_refreshes w") (auto simp: w' run_turn_def service_ok_def gauge_accurate_def)
  qed
qed

lemma service_reachable_ok: "service_reachable st source config w \<Longrightarrow> service_ok w"
  by (induction rule: service_reachable.induct) (auto intro: service_started_ok service_step_ok)

subsection \<open>A running service\<close>

definition sample_config :: retention_config where
  "sample_config = \<lparr>rc_interval = 1, rc_delivery_retention = 1, rc_merge_queue_retention = 1\<rparr>"

lemma sample_reachable:
  "\<exists>w. service_reachable (sample_app (sample_body [])) (\<lambda>n b t. Err ()) sample_config w
     \<and> repositories (w_database w) = [sample_row]"
proof -
  let ?st = "sample_app (sample_body [])" and ?src = "\<lambda>n b t. Err ()"
  obtain w1 where "run_state (initialize_repository_metrics sample_ambient) sample_world = (Ok (), w1)"
    and r: "repositories (w_database w1) = [sample_row]"
    by (simp add: initialize_repository_metrics_def instrument_database_operation_def reading_def
        record_metric_def record_span_def count_repositories_def sample_ambient_def no_faults_def
        sample_world_def)
  then have "service_started ?st w1"
    by (intro service_started.started [of sample_world sample_ambient])
      (simp_all add: sample_world_ok, simp_all add: sample_world_def)
  then have s: "service_reachable ?st ?src sample_config w1" by (rule service_reachable.start)
  obtain a w2 where w2: "run_state (serve_webhook ?st sample_ambient (sample_http_request ''push''))
      w1 = (a, w2)" by fastforce
  then have "service_reachable ?st ?src sample_config w2"
    using s by (blast intro: service_reachable.step service_step.webhook)
  moreover have "repositories (w_database w2) = [sample_row]"
    using growing.rel_serve_webhook [of ?st sample_ambient "sample_http_request ''push''" w1] w2 r
    by (simp add: db_extends_def)
  ultimately show ?thesis by blast
qed

subsection \<open>Properties\<close>

text \<open>
  In every reachable state of the service, whatever requests, retention passes and refreshes
  were interleaved and whatever failed, the constraints of the database hold, the gauge of
  repository configurations is the number of configured repositories, the refresh queue is within
  its capacity and nothing has panicked; every further request gets an answer.
\<close>

theorem service_invariant:
  assumes "service_reachable st source config w"
  shows "db_ok (w_database w)
    \<and> gauge_value (w_metrics w) = of_nat (length (repositories (w_database w)))
    \<and> length (w_refreshes w) \<le> 64 \<and> \<not> w_panicked w
    \<and> fst (run_state (serve_webhook st amb rq) w) \<noteq> None
    \<and> fst (run_state (serve_api st amb rq call) w) \<noteq> None"
proof -
  have "fst (run_state (serve_webhook st amb rq) w) \<noteq> None"
    using serve_webhook_answer [of st amb rq w] by auto
  moreover have "fst (run_state (serve_api st amb rq call) w) \<noteq> None"
    using serve_api_effect(1) [of st amb rq call w] by (metis prod.collapse)
  ultimately show ?thesis
    using service_reachable_ok [OF assms]
    by (simp add: service_ok_def gauge_accurate_def REFRESH_QUEUE_CAPACITY_def)
qed

lemma service_invariant_witness:
  "\<exists>w. service_reachable (sample_app (sample_body [])) (\<lambda>n b t. Err ()) sample_config w
     \<and> repositories (w_database w) = [sample_row] \<and> gauge_value (w_metrics w) = 1"
proof -
  obtain w where w: "service_reachable (sample_app (sample_body [])) (\<lambda>n b t. Err ()) sample_config w"
    and r: "repositories (w_database w) = [sample_row]"
    using sample_reachable by blast
  from service_invariant [OF w, of sample_ambient "sample_http_request ''push''" ListRepositories]
    w r show ?thesis by auto
qed

subsection \<open>The refresher\<close>

fun run_turns ::
  "'u app_state \<Rightarrow> 'e required_check_source \<Rightarrow> ambient list \<Rightarrow> world \<Rightarrow> world" where
  "run_turns st source [] w = w"
| "run_turns st source (amb # ambs) w =
     run_turns st source ambs (snd (run_state (run_turn st source amb False) w))"

lemma refresh_keeps_queue: "w_refreshes (snd (run_state (refresh st source amb rq) w)) = w_refreshes w"
  by (auto simp: refresh_def instrument_database_operation_def reading_def record_span_def
      refresh_log_def write_log_def case_prod_beta split: sum.split option.split)

lemma run_turn_tail:
  "w_refreshes (snd (run_state (run_turn st source amb False) w)) = tl (w_refreshes w)"
  by (auto simp: run_turn_def case_prod_beta refresh_keeps_queue split: list.split)

lemma run_turns_drop: "w_refreshes (run_turns st source ambs w) = drop (length ambs) (w_refreshes w)"
  by (induction st source ambs w rule: run_turns.induct) (simp_all add: run_turn_tail drop_Suc)

text \<open>
  The refresher serves its queue in order and empties it in as many turns as there are requests,
  whatever GitHub and the database answer: at most 64 turns from any reachable state.
\<close>

theorem refresher_drains:
  assumes "service_reachable st source config w" and "64 \<le> length ambs"
  shows "w_refreshes (run_turns st source ambs w) = []
    \<and> (k \<le> length (w_refreshes w) \<longrightarrow>
        w_refreshes (run_turns st source (take k ambs) w) = drop k (w_refreshes w))"
proof -
  have "length (w_refreshes w) \<le> 64"
    using service_reachable_ok [OF assms(1)] by (simp add: service_ok_def REFRESH_QUEUE_CAPACITY_def)
  with assms(2) show ?thesis by (auto simp: run_turns_drop)
qed

lemma refresher_drains_witness:
  "\<exists>w. service_reachable (sample_app (sample_body [])) (\<lambda>n b t. Err ()) sample_config w
     \<and> w_refreshes (run_turns (sample_app (sample_body [])) (\<lambda>n b t. Err ())
         (replicate 64 sample_ambient) w) = []"
proof -
  obtain w where w: "service_reachable (sample_app (sample_body [])) (\<lambda>n b t. Err ()) sample_config w"
    using sample_reachable by blast
  from refresher_drains [OF w, of "replicate 64 sample_ambient"] w show ?thesis by auto
qed

text \<open>
  After a turn of the refresher whose fetch succeeds, the next job that targets the refreshed
  branch is judged by the fetched checks, until they expire.
\<close>

theorem refreshed_branch_resolves:
  assumes "db_ok (w_database w)" and "w_refreshes w = rq # rest"
    and "get_fresh (lib_clock (app_libraries st)) (app_required_check_store st)
        (amb_faults amb database_operation.RequiredCheckGet) (rr_repository_id rq) (rr_branch rq)
        (amb_checks_at amb) (w_database w) = Ok None"
    and "source (rr_repository_name rq) (rr_branch rq) (amb_checks_at amb)
        = Ok (required_checks_new names)"
    and "\<forall>d \<in> set names. sanitized_name d" and "sanitized_branch (rr_branch rq)"
    and "repository_id_get (rr_repository_id rq) \<in> repository_ids (w_database w)"
    and "amb_faults amb database_operation.RequiredCheckUpsert 0 = None"
    and "amb_faults later database_operation.RequiredCheckGet 0 = None"
    and "freshness_cutoff (lib_clock (app_libraries st)) (app_required_check_store st)
        (amb_checks_at later) = Ok cutoff"
    and "cutoff \<le> amb_sql_now amb database_operation.RequiredCheckUpsert"
    and "ctx_target_branch c = Some (rr_branch rq)"
  shows "fst (run_state (resolve_required_checks st later (rr_repository_id rq) n (Some c))
      (snd (run_state (run_turn st source amb False) w))) = Some (required_checks_new names)"
proof -
  let ?cs = "required_checks_new names" and ?now = "amb_sql_now amb database_operation.RequiredCheckUpsert"
  have "set (check_names ?cs) \<subseteq> set names"
    unfolding required_checks_new_set using set_take_subset [of 100 "first_distinct names"] by simp
  then have v: "valid_checks ?cs"
    using assms(5) required_checks_new_name_set by (auto simp: valid_checks_def)
  obtain db where u: "upsert_checks (amb_faults amb database_operation.RequiredCheckUpsert) ?now
      (rr_repository_id rq) (rr_branch rq) ?cs (w_database w) = (Ok (), db)"
    using upsert_checks_accepted [where f = "amb_faults amb database_operation.RequiredCheckUpsert",
        OF v assms(6,8,7)] by blast
  then have db: "w_database (snd (run_state (run_turn st source amb False) w)) = db"
    using assms(2-4)
    by (simp add: run_turn_def refresh_def instrument_database_operation_def reading_def
        record_span_def refresh_log_def write_log_def case_prod_beta)
  have "get_fresh (lib_clock (app_libraries st)) (app_required_check_store st) no_faults
      (rr_repository_id rq) (rr_branch rq) (amb_checks_at later) db = Ok (Some ?cs)"
    using stored_checks_found [OF assms(1) v u assms(10)] assms(11) by simp
  then have "get_fresh (lib_clock (app_libraries st)) (app_required_check_store st)
      (amb_faults later database_operation.RequiredCheckGet) (rr_repository_id rq) (rr_branch rq)
      (amb_checks_at later) db = Ok (Some ?cs)"
    using assms(9) by (simp add: get_fresh_def no_faults_def)
  with db assms(12) show ?thesis
    by (simp add: resolve_required_checks_def instrument_database_operation_def reading_def
        record_span_def)
qed

lemma refreshed_branch_resolves_witness:
  "fst (run_state (resolve_required_checks (with_required_check_ttl 3 (sample_app JNull))
       (sample_ambient\<lparr>amb_checks_at := 10\<rparr>) (RepositoryId 1) sample_name
       (Some (sample_context\<lparr>ctx_target_branch := Some (WorkflowBranch (lit ''m''))\<rparr>)))
     (snd (run_state (run_turn (with_required_check_ttl 3 (sample_app JNull))
         (\<lambda>n b t. Ok (required_checks_new [DisplayName (lit ''a'')]) :: (unit, _) result)
         (sample_ambient\<lparr>amb_checks_at := 10, amb_sql_now := (\<lambda>_. [9])\<rparr>) False)
       (sample_world\<lparr>w_database := one_repository, w_refreshes :=
         [\<lparr>rr_repository_id = RepositoryId 1, rr_repository_name = sample_name,
           rr_branch = WorkflowBranch (lit ''m'')\<rparr>]\<rparr>))))
   = Some (required_checks_new [DisplayName (lit ''a'')])"
proof -
  have d: "\<forall>d \<in> set [DisplayName (lit ''a'')]. sanitized_name d"
    by (simp add: sanitized_name_def lit_def is_control_def)
  have b: "sanitized_branch (WorkflowBranch (lit ''m''))"
    by (simp add: sanitized_branch_def lit_def is_control_def unsafe_segment_def)
  note app = with_required_check_ttl_def sample_app_def with_workflow_trace_emitter_def
    app_state_new_def sample_libraries_def
  have c: "freshness_cutoff sample_clock (RequiredCheckStore 3) 10 = Ok [7]"
    by (simp add: freshness_cutoff_def sample_clock_def format_timestamp_def i64_max_def)
  let ?rq = "\<lparr>rr_repository_id = RepositoryId 1, rr_repository_name = sample_name,
           rr_branch = WorkflowBranch (lit ''m'')\<rparr>"
  let ?st = "with_required_check_ttl 3 (sample_app JNull)"
    and ?src = "\<lambda>n b t. Ok (required_checks_new [DisplayName (lit ''a'')]) :: (unit, _) result"
    and ?amb = "sample_ambient\<lparr>amb_checks_at := 10, amb_sql_now := (\<lambda>_. [9])\<rparr>"
    and ?w = "sample_world\<lparr>w_database := one_repository, w_refreshes := [?rq]\<rparr>"
    and ?c = "sample_context\<lparr>ctx_target_branch := Some (WorkflowBranch (lit ''m''))\<rparr>"
  have "fst (run_state (resolve_required_checks ?st (sample_ambient\<lparr>amb_checks_at := 10\<rparr>)
      (rr_repository_id ?rq) sample_name (Some ?c)) (snd (run_state (run_turn ?st ?src ?amb False) ?w)))
    = Some (required_checks_new [DisplayName (lit ''a'')])"
    by (rule refreshed_branch_resolves [where cutoff = "[7]" and rest = "[]"])
      (use d b c in \<open>simp_all add: one_repository_ok one_repository_ids app sample_ambient_def
        no_faults_def get_fresh_def\<close>, simp add: one_repository_def empty_database_def)
  then show ?thesis by simp
qed

end
