(* ===== verification/Server_Lifecycle.thy ===== *)
theory Server_Lifecycle
  imports Service_Invariant
begin

section \<open>Serving and stopping\<close>

text \<open>
  \<open>src/lifecycle.rs\<close>, the server loop of \<open>src/app.rs\<close>, the retention worker of \<open>src/retention.rs\<close>
  and the health routes of \<open>src/health.rs\<close>. axum, tokio and the operating system are not part of the
  repository; what they bring to the program is a list of events: the server future or the
  background task finishes, the shutdown signal arrives, the drain timeout elapses, a value changes
  on the cancellation channel, the retention timer ticks.
\<close>

datatype io_error = IoError rstring

subsection \<open>Signals and cancellation\<close>

datatype shutdown_signal = Interrupt | Terminate

datatype signal_event =
    Interrupt_Ready "(io_error, unit) result"
  | Terminate_Ready "(io_error, unit) result"

definition select_shutdown_signal :: "signal_event \<Rightarrow> (io_error, shutdown_signal) result" where
  "select_shutdown_signal first = (case first of
     Interrupt_Ready r \<Rightarrow> and_then r (\<lambda>_. Ok Interrupt)
   | Terminate_Ready r \<Rightarrow> and_then r (\<lambda>_. Ok Terminate))"

text \<open>
  \<open>lifecycle::shutdown_signal\<close> (called \<open>await_shutdown_signal\<close> here), on Unix: the handler of \<open>SIGTERM\<close>
  is installed first, and a failure of that is the answer.
\<close>

definition await_shutdown_signal ::
  "(io_error, unit) result \<Rightarrow> signal_event \<Rightarrow> (io_error, shutdown_signal) result" where
  "await_shutdown_signal installed first = and_then installed (\<lambda>_. select_shutdown_signal first)"

text \<open>The answer is whether the future has returned after the given changes.\<close>

datatype watch_change = Changed bool | Senders_Dropped

fun wait_for_cancellation :: "bool \<Rightarrow> watch_change list \<Rightarrow> bool" where
  "wait_for_cancellation True changes = True"
| "wait_for_cancellation False [] = False"
| "wait_for_cancellation False (Changed v # changes) = wait_for_cancellation v changes"
| "wait_for_cancellation False (Senders_Dropped # changes) = True"

lemma wait_for_cancellation_iff:
  "wait_for_cancellation v changes
     \<longleftrightarrow> v \<or> (\<exists>c \<in> set changes. c = Changed True \<or> c = Senders_Dropped)"
  by (induction v changes rule: wait_for_cancellation.induct) auto

subsection \<open>The retention worker\<close>

text \<open>
  A turn of the loop: the biased select looks at the cancellation first, else it waits for the tick
  and runs one pass, whose outcome is the status of its span. The answer holds whether the worker
  has returned, the outcomes of its passes, and the database.
\<close>

record retention_turn =
  turn_cancelled :: bool
  turn_now :: instant
  turn_shutdown :: "nat \<Rightarrow> bool"
  turn_faults :: "nat \<Rightarrow> faults"

definition run_traced_retention_pass ::
  "time_lib \<Rightarrow> retention_config \<Rightarrow> retention_turn \<Rightarrow> database \<Rightarrow> (operation_outcome \<times> database) option" where
  "run_traced_retention_pass clk config turn db =
     map_option (\<lambda>(oc, _, db'). (pass_operation_outcome oc, db'))
       (prune_retention_pass clk config (turn_now turn) (turn_shutdown turn) (turn_faults turn) db)"

fun run_retention ::
  "time_lib \<Rightarrow> retention_config \<Rightarrow> retention_turn list \<Rightarrow> database
   \<Rightarrow> (bool \<times> operation_outcome list \<times> database) option" where
  "run_retention clk config [] db = Some (False, [], db)"
| "run_retention clk config (turn # turns) db =
     (if turn_cancelled turn then Some (True, [], db)
      else case run_traced_retention_pass clk config turn db of
        None \<Rightarrow> None
      | Some (oc, db') \<Rightarrow>
          map_option (\<lambda>(returned, ocs, db''). (returned, oc # ocs, db''))
            (run_retention clk config turns db'))"

lemma run_traced_retention_pass_total:
  assumes "db_ok db"
  shows "\<exists>oc db'. run_traced_retention_pass clk config turn db = Some (oc, db') \<and> db_ok db'
    \<and> repositories db' = repositories db"
  using pass_total [OF assms, of clk config "turn_now turn" "turn_shutdown turn" "turn_faults turn"]
  by (auto simp: run_traced_retention_pass_def)

subsection \<open>The server loop\<close>

datatype shutdown_outcome = Completed | TimedOut

record server_state =
  sv_cancelled :: bool
  sv_draining :: bool
  sv_server :: "(io_error, unit) result option"
  sv_background :: "(io_error, unit) result option"
  sv_aborted :: bool
  sv_result :: "(io_error, shutdown_outcome) result option"

definition server_started :: server_state where
  "server_started = \<lparr>sv_cancelled = False, sv_draining = False, sv_server = None,
     sv_background = None, sv_aborted = False, sv_result = None\<rparr>"

text \<open>\<open>Background_Returned False\<close> is a background task that panicked.\<close>

datatype server_event =
    Server_Returned "(io_error, unit) result"
  | Shutdown_Signalled
  | Background_Returned bool
  | Drain_Elapsed

definition prioritize_server_result ::
  "(io_error, unit) result \<Rightarrow> (io_error, unit) result \<Rightarrow> (io_error, unit) result" where
  "prioritize_server_result server_result background_result =
     and_then server_result (\<lambda>_. background_result)"

text \<open>Both futures have been awaited.\<close>

definition joined :: "server_state \<Rightarrow> server_state" where
  "joined s = (case (sv_server s, sv_background s) of
     (Some server_result, Some background_result) \<Rightarrow>
       s\<lparr>sv_result := Some (and_then (prioritize_server_result server_result background_result)
         (\<lambda>_. Ok Completed))\<rparr>
   | _ \<Rightarrow> s)"

fun serve_event :: "server_state \<Rightarrow> server_event \<Rightarrow> server_state" where
  "serve_event s (Server_Returned r) =
     (if sv_result s \<noteq> None \<or> sv_server s \<noteq> None then s
      else joined (s\<lparr>sv_server := Some r, sv_cancelled := True\<rparr>))"
| "serve_event s Shutdown_Signalled =
     (if sv_result s \<noteq> None \<or> sv_server s \<noteq> None \<or> sv_draining s then s
      else s\<lparr>sv_cancelled := True, sv_draining := True\<rparr>)"
| "serve_event s (Background_Returned completed) =
     (if sv_result s \<noteq> None \<or> sv_background s \<noteq> None then s
      else joined (s\<lparr>sv_background :=
        Some (if completed then Ok ()
              else Err (IoError (lit ''background lifecycle task failed'')))\<rparr>))"
| "serve_event s Drain_Elapsed =
     (if sv_result s \<noteq> None \<or> \<not> sv_draining s then s
      else s\<lparr>sv_aborted := True, sv_result := Some (Ok TimedOut)\<rparr>)"

definition serve_router_with_background_shutdown :: "server_event list \<Rightarrow> server_state" where
  "serve_router_with_background_shutdown events = foldl serve_event server_started events"

definition server_inv :: "server_state \<Rightarrow> bool" where
  "server_inv s \<longleftrightarrow>
     (sv_cancelled s \<longleftrightarrow> sv_draining s \<or> sv_server s \<noteq> None)
     \<and> (sv_aborted s \<longleftrightarrow> sv_result s = Some (Ok TimedOut))
     \<and> (sv_aborted s \<longrightarrow> sv_draining s)
     \<and> (sv_result s = None \<longrightarrow> sv_server s = None \<or> sv_background s = None)
     \<and> (\<forall>r. sv_result s = Some r \<and> \<not> sv_aborted s \<longrightarrow>
          (\<exists>server background. sv_server s = Some server \<and> sv_background s = Some background
            \<and> r = and_then (prioritize_server_result server background) (\<lambda>_. Ok Completed)))"

lemma joined_result_cases:
  "and_then (prioritize_server_result a b) (\<lambda>_. Ok Completed) \<noteq> Ok TimedOut"
  by (cases a; cases b) (simp_all add: prioritize_server_result_def)

lemma joined_result:
  "and_then (prioritize_server_result a b) (\<lambda>_. Ok Completed)
     = (case (a, b) of (Inl e, _) \<Rightarrow> Err e | (_, Inl e) \<Rightarrow> Err e | _ \<Rightarrow> Ok Completed)"
  by (cases a; cases b) (simp_all add: prioritize_server_result_def)

lemma serve_event_inv: "server_inv s \<Longrightarrow> server_inv (serve_event s e)"
  by (cases e; cases "sv_server s"; cases "sv_background s")
    (auto simp: server_inv_def joined_def joined_result_cases split: option.splits)

lemma server_inv: "server_inv (serve_router_with_background_shutdown events)"
proof -
  have "server_inv s \<Longrightarrow> server_inv (foldl serve_event s events)" for s
    by (induction events arbitrary: s) (simp_all add: serve_event_inv)
  moreover have "server_inv server_started"
    by (simp add: server_inv_def server_started_def)
  ultimately show ?thesis
    by (simp add: serve_router_with_background_shutdown_def)
qed

lemma served_append:
  "serve_router_with_background_shutdown (xs @ ys)
     = foldl serve_event (serve_router_with_background_shutdown xs) ys"
  by (simp add: serve_router_with_background_shutdown_def)

lemma result_stays: "sv_result s = Some r \<Longrightarrow> sv_result (foldl serve_event s events) = Some r"
proof (induction events arbitrary: s)
  case (Cons e events)
  then show ?case by (cases e) simp_all
qed simp

lemma draining_stays:
  "sv_draining s \<or> sv_result s \<noteq> None
   \<Longrightarrow> sv_draining (foldl serve_event s events) \<or> sv_result (foldl serve_event s events) \<noteq> None"
proof (induction events arbitrary: s)
  case (Cons e events)
  have "sv_draining (serve_event s e) \<or> sv_result (serve_event s e) \<noteq> None"
    using Cons.prems by (cases e) (auto simp: joined_def split: option.splits)
  then show ?case
    using Cons.IH by simp
qed simp

lemma drain_elapsed_answers:
  "sv_draining s \<or> sv_result s \<noteq> None \<Longrightarrow> \<exists>r. sv_result (serve_event s Drain_Elapsed) = Some r"
  by (cases "sv_result s") auto

lemma signalled_server_answers:
  assumes "sv_server (serve_router_with_background_shutdown xs) = None"
  shows "\<exists>r. \<forall>zs. sv_result (serve_router_with_background_shutdown
            (xs @ Shutdown_Signalled # ys @ Drain_Elapsed # zs)) = Some r"
proof -
  let ?d = "foldl serve_event (serve_event (serve_router_with_background_shutdown xs)
    Shutdown_Signalled) ys"
  have "sv_draining ?d \<or> sv_result ?d \<noteq> None"
    by (rule draining_stays) (use assms in auto)
  then obtain r where r: "sv_result (serve_event ?d Drain_Elapsed) = Some r"
    using drain_elapsed_answers by blast
  have "sv_result (foldl serve_event (serve_event ?d Drain_Elapsed) zs) = Some r" for zs
    using r by (rule result_stays)
  then show ?thesis
    by (auto simp: served_append)
qed

text \<open>
  C19: Whatever the order of events, serving ends with an answer only after the cancellation was
  sent to the background workloads, and then either both the server and the background task have
  returned, and the answer is the server's error, else the background's, else \<open>Completed\<close>, or the
  drain timeout struck first and the background task was aborted. A shutdown that is signalled
  while the server runs is answered at the latest when the drain timeout elapses, and the answer
  never changes afterwards.
\<close>

theorem shutdown_bounded_and_explained:
  shows "(case sv_result (serve_router_with_background_shutdown events) of
       None \<Rightarrow> True
     | Some r \<Rightarrow> sv_cancelled (serve_router_with_background_shutdown events)
         \<and> (if r = Ok TimedOut then sv_aborted (serve_router_with_background_shutdown events)
            else \<exists>server background.
              sv_server (serve_router_with_background_shutdown events) = Some server
              \<and> sv_background (serve_router_with_background_shutdown events) = Some background
              \<and> r = (case (server, background) of
                       (Inl e, _) \<Rightarrow> Err e | (_, Inl e) \<Rightarrow> Err e | _ \<Rightarrow> Ok Completed)))
    \<and> (sv_server (serve_router_with_background_shutdown xs) = None \<longrightarrow>
        (\<exists>r. \<forall>zs. sv_result (serve_router_with_background_shutdown
            (xs @ Shutdown_Signalled # ys @ Drain_Elapsed # zs)) = Some r))"
proof -
  let ?s = "serve_router_with_background_shutdown events"
  have answered: "case sv_result ?s of
       None \<Rightarrow> True
     | Some r \<Rightarrow> sv_cancelled ?s
         \<and> (if r = Ok TimedOut then sv_aborted ?s
            else \<exists>server background. sv_server ?s = Some server \<and> sv_background ?s = Some background
              \<and> r = (case (server, background) of
                       (Inl e, _) \<Rightarrow> Err e | (_, Inl e) \<Rightarrow> Err e | _ \<Rightarrow> Ok Completed))"
  proof (cases "sv_result ?s")
    case (Some r)
    note inv = server_inv [of events, unfolded server_inv_def joined_result]
    show ?thesis
    proof (cases "sv_aborted ?s")
      case True
      with Some inv show ?thesis by simp
    next
      case False
      with Some inv obtain server background where
        "sv_server ?s = Some server" "sv_background ?s = Some background"
        "r = (case (server, background) of
           (Inl e, _) \<Rightarrow> Err e | (_, Inl e) \<Rightarrow> Err e | _ \<Rightarrow> Ok Completed)"
        by blast
      with Some inv False show ?thesis by simp
    qed
  qed simp
  with signalled_server_answers show ?thesis
    by blast
qed

lemma shutdown_bounded_and_explained_witness:
  "sv_server (serve_router_with_background_shutdown [Background_Returned False]) = None
   \<and> (\<exists>r. \<forall>zs. sv_result (serve_router_with_background_shutdown
        ([Background_Returned False] @ Shutdown_Signalled # [] @ Drain_Elapsed # zs)) = Some r)"
proof -
  have "sv_server (serve_router_with_background_shutdown [Background_Returned False]) = None"
    by (simp add: serve_router_with_background_shutdown_def server_started_def joined_def)
  with shutdown_bounded_and_explained [of "[]" "[Background_Returned False]" "[]"]
  show ?thesis
    by blast
qed

subsection \<open>Health\<close>

definition health_live :: "nat handler" where
  "health_live = State_Monad.return 200"

datatype storage_error = FilePreparation | Open | Migration | Unavailable | Internal sqlx_error

definition storage_error_from_query :: "sqlx_error \<Rightarrow> storage_error" where
  "storage_error_from_query e =
     (if sqlite_is_busy_or_locked e then storage_error.Unavailable else storage_error.Internal e)"

definition probe_database :: "faults \<Rightarrow> (storage_error, unit) result" where
  "probe_database f =
     (case f 0 of None \<Rightarrow> Ok () | Some e \<Rightarrow> Err (storage_error_from_query e))"

definition storage_error_text :: "storage_error \<Rightarrow> rstring" where
  "storage_error_text e = (case e of
     storage_error.FilePreparation \<Rightarrow> lit ''failed to prepare SQLite database file''
   | storage_error.Open \<Rightarrow> lit ''failed to open SQLite database''
   | storage_error.Migration \<Rightarrow> lit ''failed to migrate SQLite database''
   | storage_error.Unavailable \<Rightarrow> lit ''SQLite database is temporarily unavailable''
   | storage_error.Internal _ \<Rightarrow> lit ''internal SQLite persistence failure'')"

definition health_ready :: "'u app_state \<Rightarrow> faults \<Rightarrow> nat handler" where
  "health_ready st f = (case probe_database f of
     Inr _ \<Rightarrow> State_Monad.return 200
   | Inl e \<Rightarrow> do {
       correlation \<leftarrow> new_correlation_id;
       write_log \<lparr>log_level = LevelWarn, log_local = False,
         log_message = lit ''SQLite readiness probe failed'',
         log_fields = [(lit ''outcome'', StringValue (lit ''not_ready'')),
           (lit ''error'', StringValue (storage_error_text e)),
           (lit ''error_correlation_id'', StringValue (case correlation of
              ErrorCorrelationId n \<Rightarrow> lib_uuid_text (app_libraries st) n))]\<rparr>;
       State_Monad.return 503 })"

lemma health_ready_status:
  "fst (run_state (health_ready st f) w) = (if f 0 = None then 200 else 503)"
  "w_database (snd (run_state (health_ready st f) w)) = w_database w"
  by (auto simp: health_ready_def probe_database_def new_correlation_id_def write_log_def
      split: option.splits)

subsection \<open>A retention that no cutoff exists for\<close>

text \<open>
  \<open>RetentionConfig::new\<close> accepts every duration that \<open>time::Duration\<close> can hold; when the cutoff
  lies before the earliest instant of the clock, every pass fails without touching the database.
\<close>

lemma prune_without_cutoff:
  "list_all (\<lambda>p. snd p = None) workloads \<Longrightarrow> \<forall>i. \<not> shutdown i
   \<Longrightarrow> \<exists>j. prune_retention_workloads workloads shutdown faults oc i db
     = Some (if workloads = [] then oc else retention_pass_outcome.Failure, j, db)"
proof (induction workloads arbitrary: oc i)
  case (Cons p workloads)
  obtain store where p: "p = (store, None)"
    using Cons.prems(1) by (cases p) simp
  have none: "list_all (\<lambda>p. snd p = None) workloads"
    using Cons.prems(1) by simp
  from Cons.IH [OF this Cons.prems(2), of retention_pass_outcome.Failure "i + 1"]
  obtain j where "prune_retention_workloads workloads shutdown faults
      retention_pass_outcome.Failure (i + 1) db = Some (retention_pass_outcome.Failure, j, db)"
    by (auto split: if_splits)
  moreover have "\<not> shutdown i"
    using Cons.prems(2) by blast
  ultimately show ?case
    by (simp add: p prune_store_def Let_def)
qed simp

lemma accepted_retention_never_prunes:
  assumes "datetime_checked_sub clk now (int d) = None" and "0 < d" "d div 1000000000 \<le> i64_max"
    and "0 < interval" and "\<forall>i. \<not> shutdown i"
  shows "\<exists>config j. retention_config_new interval d d = Ok config
    \<and> prune_retention_pass clk config now shutdown faults db
      = Some (retention_pass_outcome.Failure, j, db)"
proof -
  let ?config = "\<lparr>rc_interval = interval, rc_delivery_retention = d, rc_merge_queue_retention = d\<rparr>"
  have "retention_config_new interval d d = Ok ?config"
    using assms(2-4) by (simp add: retention_config_new_def validate_retention_def)
  moreover have "list_all (\<lambda>p. snd p = None) (retention_workloads clk ?config now)"
    "retention_workloads clk ?config now \<noteq> []"
    using assms(1) by (simp_all add: retention_workloads_def Let_def)
  ultimately show ?thesis
    using prune_without_cutoff [where workloads = "retention_workloads clk ?config now"] assms(5)
    by (fastforce simp: prune_retention_pass_def)
qed

end
