(* ===== verification/Http_Router.thy ===== *)
theory Http_Router
  imports Server_Lifecycle
begin

section \<open>The router\<close>

text \<open>
  \<open>build_router\<close> of \<open>src/app.rs\<close> with the routers it merges: \<open>src/health.rs\<close>, \<open>src/api/mod.rs\<close>,
  \<open>src/api/repositories.rs\<close>, \<open>src/api/webhook.rs\<close>, and the exposition route of \<open>src/metrics.rs\<close>.
  Matching a path against the patterns is axum's: \<open>rq_matched_path\<close> is the pattern it found,
  \<open>raw_id\<close> the segment it captured, \<open>payload\<close> what its \<open>Json\<close> extractor read. Its own answers to an
  unknown path and to an unsupported method are the fields of \<open>router_lib\<close>. As axum documents, a
  \<open>GET\<close> route serves \<open>HEAD\<close> too, and a layer added with \<open>layer\<close> sees also the requests its router
  has no method or route for. The encoder of the metrics registry is a parameter.
\<close>

record router_lib =
  not_found :: response
  method_not_allowed :: "string list \<Rightarrow> response"
  encode_metrics :: "metrics \<Rightarrow> rstring option"

definition OPEN_METRICS_CONTENT_TYPE :: rstring where
  "OPEN_METRICS_CONTENT_TYPE = lit ''application/openmetrics-text; version=1.0.0; charset=utf-8''"

datatype endpoint =
    Health_Live
  | Health_Ready
  | Github_Webhook
  | Webhook_Refused "string list"
  | Administration api_call
  | Metrics_Exposition
  | Refused "string list"
  | Unrouted

definition get_only :: "rstring \<Rightarrow> endpoint \<Rightarrow> endpoint" where
  "get_only verb e =
     (if verb = lit ''GET'' \<or> verb = lit ''HEAD'' then e else Refused [''GET'', ''HEAD''])"

definition repositories_router :: "rstring \<Rightarrow> json option \<Rightarrow> endpoint" where
  "repositories_router verb payload =
     (if verb = lit ''POST'' then Administration (CreateRepository payload)
      else if verb = lit ''GET'' \<or> verb = lit ''HEAD'' then Administration ListRepositories
      else Refused [''GET'', ''HEAD'', ''POST''])"

definition repository_router :: "rstring \<Rightarrow> rstring \<Rightarrow> json option \<Rightarrow> endpoint" where
  "repository_router verb raw_id payload =
     (if verb = lit ''GET'' \<or> verb = lit ''HEAD'' then Administration (GetRepository raw_id)
      else if verb = lit ''PATCH'' then Administration (UpdateRepository raw_id payload)
      else if verb = lit ''DELETE'' then Administration (DeleteRepository raw_id)
      else Refused [''DELETE'', ''GET'', ''HEAD'', ''PATCH''])"

definition webhook_router :: "rstring \<Rightarrow> endpoint" where
  "webhook_router verb =
     (if verb = lit ''POST'' then Github_Webhook else Webhook_Refused [''POST''])"

definition build_router :: "http_request \<Rightarrow> rstring \<Rightarrow> json option \<Rightarrow> endpoint" where
  "build_router rq raw_id payload = (case rq_matched_path rq of
     None \<Rightarrow> Unrouted
   | Some path \<Rightarrow>
       if path = lit ''/health/live'' then get_only (rq_method rq) Health_Live
       else if path = lit ''/health/ready'' then get_only (rq_method rq) Health_Ready
       else if path = lit ''/api/v1/repositories'' then repositories_router (rq_method rq) payload
       else if path = lit ''/api/v1/repositories/{id}''
       then repository_router (rq_method rq) raw_id payload
       else if path = lit ''/webhooks/github'' then webhook_router (rq_method rq)
       else if path = lit ''/metrics'' then get_only (rq_method rq) Metrics_Exposition
       else Unrouted)"

subsection \<open>The endpoints\<close>

definition status_response :: "nat \<Rightarrow> response" where
  "status_response status = \<lparr>rsp_status = status, rsp_headers = [], rsp_body = None\<rparr>"

text \<open>The exposition, \<open>rsp_body\<close> aside: the text is the encoding of the metrics as they are.\<close>

definition metrics_handler ::
  "router_lib \<Rightarrow> 'u app_state \<Rightarrow> (app_error, response \<times> rstring) result handler" where
  "metrics_handler lib st = do {
     w \<leftarrow> State_Monad.get;
     case encode_metrics lib (w_metrics w) of
       None \<Rightarrow> do {
         correlation \<leftarrow> new_correlation_id;
         State_Monad.return
           (Err (app_error.Internal
             (lit ''an error occurred when formatting an argument'') correlation)) }
     | Some exposition \<Rightarrow> State_Monad.return
         (Ok ((status_response 200)
                \<lparr>rsp_headers := [(lit ''content-type'', OPEN_METRICS_CONTENT_TYPE)]\<rparr>, exposition)) }"

definition metrics_endpoint :: "router_lib \<Rightarrow> 'u app_state \<Rightarrow> response option handler" where
  "metrics_endpoint lib st = do {
     r \<leftarrow> metrics_handler lib st;
     case r of
       Inr (response, exposition) \<Rightarrow> State_Monad.return (Some response)
     | Inl e \<Rightarrow>
         (case app_error_into_response (lib_uuid_text (app_libraries st)) e of
            None \<Rightarrow> do { panicking; State_Monad.return None }
          | Some (response, logs) \<Rightarrow> do {
              State_Monad.update (w_logs_update (\<lambda>l. l @ logs));
              State_Monad.return (Some response) }) }"

definition serve_endpoint ::
  "router_lib \<Rightarrow> 'u app_state \<Rightarrow> faults \<Rightarrow> ambient \<Rightarrow> http_request \<Rightarrow> endpoint
   \<Rightarrow> response option handler" where
  "serve_endpoint lib st probe amb rq e = (case e of
     Health_Live \<Rightarrow> do { s \<leftarrow> health_live; State_Monad.return (Some (status_response s)) }
   | Health_Ready \<Rightarrow> do { s \<leftarrow> health_ready st probe; State_Monad.return (Some (status_response s)) }
   | Github_Webhook \<Rightarrow> observe_webhook_request amb (webhook_endpoint st amb rq)
   | Webhook_Refused verbs \<Rightarrow>
       observe_webhook_request amb (State_Monad.return (Some (method_not_allowed lib verbs)))
   | Administration call \<Rightarrow> api_endpoint st amb rq call
   | Metrics_Exposition \<Rightarrow> metrics_endpoint lib st
   | Refused verbs \<Rightarrow> State_Monad.return (Some (method_not_allowed lib verbs))
   | Unrouted \<Rightarrow> State_Monad.return (Some (not_found lib)))"

definition serve_request ::
  "router_lib \<Rightarrow> 'u app_state \<Rightarrow> faults \<Rightarrow> ambient \<Rightarrow> http_request \<Rightarrow> rstring \<Rightarrow> json option
   \<Rightarrow> response option handler" where
  "serve_request lib st probe amb rq raw_id payload =
     observe_http_request rq (serve_endpoint lib st probe amb rq (build_router rq raw_id payload))"

lemma serve_request_routed:
  "build_router rq raw_id payload = Github_Webhook
   \<Longrightarrow> serve_request lib st probe amb rq raw_id payload = serve_webhook st amb rq"
  "build_router rq raw_id payload = Administration call
   \<Longrightarrow> serve_request lib st probe amb rq raw_id payload = serve_api st amb rq call"
  by (simp_all add: serve_request_def serve_endpoint_def serve_webhook_def serve_api_def)

subsection \<open>Every request\<close>

text \<open>What the middleware around every route does.\<close>

definition request_span :: "http_request \<Rightarrow> response \<Rightarrow> world \<Rightarrow> rstring \<times> span_calls" where
  "request_span rq response w = (operation_span operation.HttpRequest,
     set_http_method (rq_method rq) @ set_http_route (rq_matched_path rq)
     @ (case w_repository w of None \<Rightarrow> [] | Some n \<Rightarrow> set_repository_name n)
     @ set_http_response (rsp_status response))"

lemma observe_http_run:
  "run_state (observe_http_request rq inner) w =
     (case run_state inner (w_repository_update (\<lambda>_. None) w) of
        (None, v) \<Rightarrow> (None, v)
      | (Some response, v) \<Rightarrow>
          (Some response, w_spans_update (\<lambda>s. s @ [request_span rq response v]) v))"
  by (auto simp: observe_http_request_def record_span_def request_span_def split: prod.split option.split)

lemma observe_http_unaffected:
  "unaffected w (snd (run_state (observe_http_request rq inner) w))
     \<longleftrightarrow> unaffected w (snd (run_state inner (w_repository_update (\<lambda>_. None) w)))"
  by (auto simp: observe_http_run unaffected_def split: prod.split option.split)

text \<open>The endpoints that need no credential.\<close>

lemma metrics_endpoint_run:
  "\<exists>r f g. run_state (metrics_endpoint lib st) w
     = (Some r, w_logs_update f (w_correlations_update g w))
     \<and> rsp_status r = (if encode_metrics lib (w_metrics w) = None then 500 else 200)"
proof (cases "encode_metrics lib (w_metrics w)")
  case None
  then show ?thesis
    by (auto simp: metrics_endpoint_def metrics_handler_def new_correlation_id_def
        app_error_into_response_def internal_response_def correlated_error_response_def)
next
  case (Some exposition)
  then show ?thesis
    by (intro exI [of _ "(status_response 200)
          \<lparr>rsp_headers := [(lit ''content-type'', OPEN_METRICS_CONTENT_TYPE)]\<rparr>"]
        exI [of _ "\<lambda>l. l"] exI [of _ "\<lambda>c. c"])
      (simp add: metrics_endpoint_def metrics_handler_def status_response_def)
qed

lemma observe_request_gauge: "gauge_value (observe_request r result d m) = gauge_value m"
  using perform_gauge [of "ObserveRequest r result d" m] by simp

lemma open_endpoint_effect:
  assumes "e \<notin> {Github_Webhook} \<union> range Administration"
  shows "\<exists>r. fst (run_state (serve_endpoint lib st probe amb rq e) w) = Some r"
    "unaffected w (snd (run_state (serve_endpoint lib st probe amb rq e) w))"
    "w_repository (snd (run_state (serve_endpoint lib st probe amb rq e) w)) = w_repository w"
    "w_panicked (snd (run_state (serve_endpoint lib st probe amb rq e) w)) = w_panicked w"
    "gauge_value (w_metrics (snd (run_state (serve_endpoint lib st probe amb rq e) w)))
      = gauge_value (w_metrics w)"
proof -
  let ?run = "run_state (serve_endpoint lib st probe amb rq e) w"
  have "(\<exists>r. fst ?run = Some r) \<and> unaffected w (snd ?run)
      \<and> w_repository (snd ?run) = w_repository w \<and> w_panicked (snd ?run) = w_panicked w
      \<and> gauge_value (w_metrics (snd ?run)) = gauge_value (w_metrics w)"
  proof (cases e)
    case Health_Ready
    then show ?thesis
      by (auto simp: serve_endpoint_def health_ready_def new_correlation_id_def write_log_def
          unaffected_def split: sum.split)
  next
    case (Webhook_Refused verbs)
    then show ?thesis
      by (auto simp: serve_endpoint_def observe_webhook_request_def record_metric_def write_log_def
          unaffected_def observe_request_gauge split: prod.split)
  next
    case Metrics_Exposition
    with metrics_endpoint_run [of lib st w] show ?thesis
      by (auto simp: serve_endpoint_def unaffected_def)
  qed (use assms in \<open>auto simp: serve_endpoint_def health_live_def unaffected_def\<close>)
  then show "\<exists>r. fst ?run = Some r" "unaffected w (snd ?run)"
    "w_repository (snd ?run) = w_repository w" "w_panicked (snd ?run) = w_panicked w"
    "gauge_value (w_metrics (snd ?run)) = gauge_value (w_metrics w)"
    by blast+
qed

lemma router_credentials:
  "build_router rq raw_id payload = Github_Webhook
   \<Longrightarrow> rq_method rq = lit ''POST'' \<and> rq_matched_path rq = Some (lit ''/webhooks/github'')"
  "build_router rq raw_id payload = Administration call
   \<Longrightarrow> rq_matched_path rq \<in> {Some (lit ''/api/v1/repositories''), Some (lit ''/api/v1/repositories/{id}'')}"
  by (auto simp: build_router_def get_only_def repositories_router_def repository_router_def
      webhook_router_def split: option.splits if_splits)

lemma unauthorized_administration:
  assumes "admin_authorized st rq \<noteq> Ok ()"
  shows "unaffected w (snd (run_state (serve_api st amb rq call) w))"
proof -
  obtain e where "admin_authorized st rq = Err e"
    using assms by (cases "admin_authorized st rq") auto
  moreover from admin_authorized_error [OF this] have "e = app_error.Authentication AuthenticationError" .
  ultimately show ?thesis
    using serve_api_run [of st amb rq call w]
    by (auto simp: api_endpoint_def app_error_into_response_def unaffected_def)
qed


definition sample_router_lib :: router_lib where
  "sample_router_lib = \<lparr>not_found = status_response 404,
     method_not_allowed = (\<lambda>_. status_response 405), encode_metrics = (\<lambda>_. Some [])\<rparr>"

definition sample_routed_request :: http_request where
  "sample_routed_request =
     sample_admin_request\<lparr>rq_matched_path := Some (lit ''/api/v1/repositories'')\<rparr>"

lemma sample_routed:
  "build_router sample_routed_request [] payload = Administration (CreateRepository payload)"
  by (simp add: build_router_def sample_routed_request_def sample_admin_request_def
      repositories_router_def lit_def)


text \<open>
  Every request is answered, whatever its method and path, its credentials, and the statements
  that fail; and the last span it leaves is its own, with its method, its route, the repository it
  authenticated as, if any, and the status of the answer.
\<close>

theorem every_request_answered_and_traced:
  "\<exists>r w'. run_state (serve_request lib st probe amb rq raw_id payload) w = (Some r, w')
     \<and> w_spans w' \<noteq> []
     \<and> last (w_spans w') = (operation_span operation.HttpRequest,
         set_http_method (rq_method rq) @ set_http_route (rq_matched_path rq)
         @ (case w_repository w' of None \<Rightarrow> [] | Some n \<Rightarrow> set_repository_name n)
         @ set_http_response (rsp_status r))"
proof -
  let ?e = "build_router rq raw_id payload" and ?w1 = "w_repository_update (\<lambda>_. None) w"
  let ?run = "run_state (serve_request lib st probe amb rq raw_id payload) w"
  have "\<exists>r. fst ?run = Some r"
  proof -
    consider "?e = Github_Webhook" | call where "?e = Administration call"
      | "?e \<notin> {Github_Webhook} \<union> range Administration"
      by blast
    then show ?thesis
    proof cases
      case 1
      with serve_webhook_answer [of st amb rq w] show ?thesis
        by (auto simp: serve_request_routed(1))
    next
      case 2
      with serve_api_effect(1) [OF prod.collapse [symmetric], of st amb rq call w] show ?thesis
        by (auto simp: serve_request_routed(2))
    next
      case 3
      from open_endpoint_effect(1) [OF 3, of lib st probe amb rq ?w1] show ?thesis
        by (auto simp: serve_request_def observe_http_run split: prod.split)
    qed
  qed
  then show ?thesis
    by (auto simp: serve_request_def observe_http_run request_span_def
        split: prod.splits option.splits)
qed

text \<open>
  A \<open>GET\<close> of the webhook route passes the observing layer: it is counted as
  \<open>Unavailable\<close> and logged as an error of the service.
\<close>

lemma wrong_method_counted_unavailable:
  assumes "rq_matched_path rq = Some (lit ''/webhooks/github'')" and "rq_method rq = lit ''GET''"
    and "rsp_status (method_not_allowed lib [''POST'']) = 405"
  shows "\<exists>w'. run_state (serve_request lib st probe amb rq raw_id payload) w
      = (Some (method_not_allowed lib [''POST'']), w')
    \<and> w_metrics w' = observe_request None webhook_result.Unavailable (amb_elapsed amb) (w_metrics w)
    \<and> (\<exists>line \<in> set (w_logs w'). log_level line = LevelError)"
proof -
  have "build_router rq raw_id payload = Webhook_Refused [''POST'']"
    using assms(1,2) by (simp add: build_router_def webhook_router_def lit_def)
  with assms(3) show ?thesis
    by (auto simp: serve_request_def observe_http_run serve_endpoint_def observe_webhook_request_def
        result_for_status_def record_metric_def write_log_def)
qed

end
