(* ===== verification/Interleaving.thy ===== *)
theory Interleaving
  imports Main "HOL-Library.Multiset"
begin

section \<open>Threads over shared atomics\<close>

text \<open>
  The telemetry pipeline shares counters between application threads, the worker thread of the SDK
  and the thread that shuts the process down. A routine on such a counter is a step function
  \<open>oracle \<Rightarrow> thread \<Rightarrow> shared \<Rightarrow> (thread \<times> shared) option\<close>: the thread is its program counter with
  its local variables, one step is one atomic access of the source, \<open>None\<close> is a thread that has
  returned or waits, and the oracle decides what the source leaves open (a spurious failure of
  \<open>compare_exchange_weak\<close>). Accesses interleave in any order and are sequentially consistent.

  \<open>pool_reachable\<close> is the set of states of any number of such threads; \<open>solo\<close> runs one thread
  without interference. The locale \<open>pool_law\<close> is the contract of an inductive invariant over the
  threads and the shared state, \<open>pool_sequential\<close> that of a routine that computes, when it is not
  disturbed, what a sequential definition says.
\<close>

type_synonym ('o, 't, 's) pool_routine = "'o \<Rightarrow> 't \<Rightarrow> 's \<Rightarrow> ('t \<times> 's) option"

inductive pool_reachable ::
  "('o, 't, 's) pool_routine \<Rightarrow> ('t \<Rightarrow> bool) \<Rightarrow> 's \<Rightarrow> 't multiset \<Rightarrow> 's \<Rightarrow> bool"
  for step starts s0 where
  pool_initial: "pool_reachable step starts s0 {#} s0"
| pool_call:
    "pool_reachable step starts s0 T s \<Longrightarrow> starts t
     \<Longrightarrow> pool_reachable step starts s0 (add_mset t T) s"
| pool_advance:
    "pool_reachable step starts s0 (add_mset t T) s \<Longrightarrow> step w t s = Some (t', s')
     \<Longrightarrow> pool_reachable step starts s0 (add_mset t' T) s'"

fun solo :: "('o, 't, 's) pool_routine \<Rightarrow> 'o list \<Rightarrow> 't \<Rightarrow> 's \<Rightarrow> 't \<times> 's" where
  "solo step [] t s = (t, s)"
| "solo step (w # ws) t s =
     (case step w t s of None \<Rightarrow> (t, s) | Some (t', s') \<Rightarrow> solo step ws t' s')"

lemma pool_solo:
  "pool_reachable step starts s0 (add_mset t T) s \<Longrightarrow> solo step ws t s = (t', s')
   \<Longrightarrow> pool_reachable step starts s0 (add_mset t' T) s'"
  by (induction ws arbitrary: t s) (auto split: option.splits intro: pool_advance)

lemma pool_fewer_starts:
  "pool_reachable step few s0 T s \<Longrightarrow> (\<And>t. few t \<Longrightarrow> many t) \<Longrightarrow> pool_reachable step many s0 T s"
  by (induction rule: pool_reachable.induct) (auto intro: pool_reachable.intros)

subsection \<open>Inductive invariants\<close>

locale pool_law =
  fixes step :: "('o, 't, 's) pool_routine"
    and starts :: "'t \<Rightarrow> bool"
    and s0 :: 's
    and inv :: "'t multiset \<Rightarrow> 's \<Rightarrow> bool"
  assumes initial_law: "inv {#} s0"
    and call_law: "\<lbrakk>inv T s; starts t\<rbrakk> \<Longrightarrow> inv (add_mset t T) s"
    and advance_law:
      "\<lbrakk>pool_reachable step starts s0 (add_mset t T) s; inv (add_mset t T) s;
        step w t s = Some (t', s')\<rbrakk> \<Longrightarrow> inv (add_mset t' T) s'"
begin

lemma reachable_inv: "pool_reachable step starts s0 T s \<Longrightarrow> inv T s"
  by (induction rule: pool_reachable.induct)
    (auto intro: initial_law call_law advance_law)

end

subsection \<open>Undisturbed runs\<close>

locale pool_sequential =
  fixes step :: "('o, 't, 's) pool_routine"
    and meaning :: "'t \<Rightarrow> 's \<Rightarrow> 'r \<times> 's"
    and returned :: "'r \<Rightarrow> 't"
  assumes step_meaning: "step w t s = Some (t', s') \<Longrightarrow> meaning t' s' = meaning t s"
    and returned_meaning: "meaning (returned r) s = (r, s)"
begin

lemma solo_meaning: "solo step ws t s = (t', s') \<Longrightarrow> meaning t' s' = meaning t s"
proof (induction ws arbitrary: t s)
  case (Cons w ws)
  then show ?case
    by (cases "step w t s") (auto dest: step_meaning)
qed simp

lemma solo_returned: "solo step ws t s = (returned r, s') \<Longrightarrow> meaning t s = (r, s')"
  by (metis solo_meaning returned_meaning)

end

end
