(* ===== verification/Diagnostics.thy ===== *)
theory Diagnostics
  imports Metrics Interleaving
begin

section \<open>Export diagnostics\<close>

text \<open>
  \<open>src/telemetry/diagnostics.rs\<close>: failures of the export pipeline are counted and written as single
  lines to standard error; the lines about dropped records are limited to one per minute and
  category. The observer's state is the metrics, the lines written so far (an error of the sink
  is ignored) and the four limiters; the monotonic clock's reading is an argument.

  \<open>claim_report\<close> is a call of the limiter by itself; \<open>limiter_step\<close> is the same routine one
  atomic access at a time, with the reports and the suppressed claims recorded in auxiliary fields
  (\<open>claims_at\<close>, \<open>reported\<close>, \<open>ignored\<close>), and the last part proves what holds however the threads that
  drop records interleave.
\<close>

subsection \<open>The limiter of one category\<close>

definition REPORT_INTERVAL_MILLIS :: "64 word" where
  "REPORT_INTERVAL_MILLIS = 60000"

definition DROP_CATEGORY_COUNT :: nat where
  "DROP_CATEGORY_COUNT = 4"

definition saturating_add_u64 :: "64 word \<Rightarrow> 64 word \<Rightarrow> 64 word" where
  "saturating_add_u64 a b = (if unat a + unat b < 2 ^ 64 then a + b else - 1)"

record category_limiter =
  next_report_millis :: "64 word"
  suppressed :: "64 word"

definition category_limiter_new :: category_limiter where
  "category_limiter_new = \<lparr>next_report_millis = 0, suppressed = 0\<rparr>"

definition claim_report :: "64 word \<Rightarrow> category_limiter \<Rightarrow> 64 word option \<times> category_limiter" where
  "claim_report now_millis l =
     (if now_millis < next_report_millis l
      then (None, l\<lparr>suppressed := suppressed l + 1\<rparr>)
      else (Some (suppressed l),
            l\<lparr>next_report_millis := saturating_add_u64 now_millis REPORT_INTERVAL_MILLIS,
              suppressed := 0\<rparr>))"

subsection \<open>The observer\<close>

record diagnostics_observer =
  observer_metrics :: metrics
  sink_lines :: "rstring list"
  drop_limiters :: "category_limiter list"

definition diagnostics_observer_new :: "metrics \<Rightarrow> diagnostics_observer" where
  "diagnostics_observer_new m =
     \<lparr>observer_metrics = m, sink_lines = [],
      drop_limiters = replicate DROP_CATEGORY_COUNT category_limiter_new\<rparr>"

datatype export_failure_detail = Connect | RequestBuilder | Redirect | Request

definition export_failure_detail_as_str :: "export_failure_detail \<Rightarrow> rstring" where
  "export_failure_detail_as_str d = (case d of
     export_failure_detail.Connect \<Rightarrow> lit ''connect''
   | export_failure_detail.RequestBuilder \<Rightarrow> lit ''request_builder''
   | export_failure_detail.Redirect \<Rightarrow> lit ''redirect''
   | export_failure_detail.Request \<Rightarrow> lit ''request'')"

datatype sentry_shutdown_failure_reason = Shutdown | Timeout

definition sentry_shutdown_failure_reason_as_str ::
  "sentry_shutdown_failure_reason \<Rightarrow> rstring" where
  "sentry_shutdown_failure_reason_as_str r = (case r of
     sentry_shutdown_failure_reason.Shutdown \<Rightarrow> lit ''shutdown''
   | sentry_shutdown_failure_reason.Timeout \<Rightarrow> lit ''timeout'')"

record export_failure_context =
  failure_status :: "16 word option"
  failure_detail :: "export_failure_detail option"

definition export_failure_context_default :: export_failure_context where
  "export_failure_context_default = \<lparr>failure_status = None, failure_detail = None\<rparr>"

definition context_with_status :: "16 word \<Rightarrow> export_failure_context" where
  "context_with_status s = \<lparr>failure_status = Some s, failure_detail = None\<rparr>"

definition context_with_detail :: "export_failure_detail \<Rightarrow> export_failure_context" where
  "context_with_detail d = \<lparr>failure_status = None, failure_detail = Some d\<rparr>"

definition failure_line :: "rstring \<Rightarrow> rstring \<Rightarrow> export_failure_context \<Rightarrow> rstring" where
  "failure_line signal reason c =
     lit ''telemetry pipeline diagnostic kind=failure signal='' @ signal
     @ lit '' reason='' @ reason
     @ (case failure_status c of None \<Rightarrow> [] | Some s \<Rightarrow> lit '' status='' @ decimal (unat s))
     @ (case failure_detail c of None \<Rightarrow> []
        | Some d \<Rightarrow> lit '' detail='' @ export_failure_detail_as_str d)
     @ [10]"

definition write_failure ::
  "rstring \<Rightarrow> rstring \<Rightarrow> export_failure_context \<Rightarrow> diagnostics_observer \<Rightarrow> diagnostics_observer" where
  "write_failure signal reason c ob =
     ob\<lparr>sink_lines := sink_lines ob @ [failure_line signal reason c]\<rparr>"

definition export_failure_with_context ::
  "telemetry_signal \<Rightarrow> telemetry_export_failure_reason \<Rightarrow> export_failure_context
   \<Rightarrow> diagnostics_observer \<Rightarrow> diagnostics_observer" where
  "export_failure_with_context signal reason c ob =
     write_failure (telemetry_signal_as_str signal) (telemetry_export_failure_reason_as_str reason) c
       (ob\<lparr>observer_metrics :=
          record_telemetry_export_failure signal reason (observer_metrics ob)\<rparr>)"

definition export_failure ::
  "telemetry_signal \<Rightarrow> telemetry_export_failure_reason \<Rightarrow> diagnostics_observer
   \<Rightarrow> diagnostics_observer" where
  "export_failure signal reason ob =
     export_failure_with_context signal reason export_failure_context_default ob"

definition sentry_shutdown_failure ::
  "sentry_shutdown_failure_reason \<Rightarrow> diagnostics_observer \<Rightarrow> diagnostics_observer" where
  "sentry_shutdown_failure reason ob =
     write_failure (lit ''sentry'') (sentry_shutdown_failure_reason_as_str reason)
       export_failure_context_default ob"

subsection \<open>Dropped records\<close>

definition signal_index :: "telemetry_signal \<Rightarrow> nat" where
  "signal_index signal = (case signal of
     telemetry_signal.Trace \<Rightarrow> 0
   | telemetry_signal.Log \<Rightarrow> 1)"

definition drop_index :: "telemetry_signal \<Rightarrow> telemetry_drop_reason \<Rightarrow> nat" where
  "drop_index signal reason =
     signal_index signal * length [telemetry_drop_reason.QueueFull, telemetry_drop_reason.PipelineClosed]
     + (case reason of
          telemetry_drop_reason.QueueFull \<Rightarrow> 0
        | telemetry_drop_reason.PipelineClosed \<Rightarrow> 1)"

definition drop_line :: "rstring \<Rightarrow> rstring \<Rightarrow> 64 word \<Rightarrow> rstring" where
  "drop_line signal reason n =
     lit ''telemetry pipeline diagnostic kind=drop signal='' @ signal
     @ lit '' reason='' @ reason @ lit '' suppressed='' @ decimal (unat n) @ [10]"

definition report_drop ::
  "64 word \<Rightarrow> telemetry_signal \<Rightarrow> telemetry_drop_reason \<Rightarrow> diagnostics_observer
   \<Rightarrow> diagnostics_observer" where
  "report_drop now_millis signal reason ob =
     (let i = drop_index signal reason;
          (claim, limiter) = claim_report now_millis (drop_limiters ob ! i);
          ob' = ob\<lparr>drop_limiters := (drop_limiters ob)[i := limiter]\<rparr>
      in case claim of
           None \<Rightarrow> ob'
         | Some n \<Rightarrow>
             ob'\<lparr>sink_lines := sink_lines ob' @
               [drop_line (telemetry_signal_as_str signal) (telemetry_drop_reason_as_str reason) n]\<rparr>)"

definition drop_records ::
  "64 word \<Rightarrow> telemetry_signal \<Rightarrow> telemetry_drop_reason \<Rightarrow> 64 word \<Rightarrow> diagnostics_observer
   \<Rightarrow> diagnostics_observer" where
  "drop_records now_millis signal reason n ob =
     (if n = 0 then ob
      else report_drop now_millis signal reason
        (ob\<lparr>observer_metrics :=
           record_telemetry_drops signal reason (unat n) (observer_metrics ob)\<rparr>))"

definition drop_record ::
  "64 word \<Rightarrow> telemetry_signal \<Rightarrow> telemetry_drop_reason \<Rightarrow> diagnostics_observer
   \<Rightarrow> diagnostics_observer" where
  "drop_record now_millis signal reason ob = drop_records now_millis signal reason 1 ob"

lemma drop_index_inj:
  "drop_index s r < DROP_CATEGORY_COUNT"
  "drop_index s r = drop_index s' r' \<longleftrightarrow> s = s' \<and> r = r'"
  by (cases s; cases r; simp add: drop_index_def signal_index_def DROP_CATEGORY_COUNT_def)
    (cases s; cases r; cases s'; cases r'; simp add: drop_index_def signal_index_def)

subsection \<open>The limiter under interleaving\<close>

record limiter_history = category_limiter +
  claims_at :: "64 word list"
  reported :: nat
  ignored :: nat

definition limiter_history_new :: limiter_history where
  "limiter_history_new =
     \<lparr>next_report_millis = 0, suppressed = 0, claims_at = [], reported = 0, ignored = 0\<rparr>"

datatype limiter_thread =
    Claim_Load "64 word"
  | Claim_Exchange "64 word" "64 word"
  | Claim_Suppress
  | Claim_Swap
  | Claimed "64 word option"

fun limiter_step :: "(bool, limiter_thread, limiter_history) pool_routine" where
  "limiter_step spurious (Claim_Load now_millis) h =
     Some (Claim_Exchange now_millis (next_report_millis h), h)"
| "limiter_step spurious (Claim_Exchange now_millis observed) h =
     (if now_millis < observed then Some (Claim_Suppress, h)
      else if spurious \<or> next_report_millis h \<noteq> observed
      then Some (Claim_Exchange now_millis (next_report_millis h), h)
      else Some (Claim_Swap,
             h\<lparr>next_report_millis := saturating_add_u64 now_millis REPORT_INTERVAL_MILLIS,
               claims_at := now_millis # claims_at h\<rparr>))"
| "limiter_step spurious Claim_Suppress h =
     Some (Claimed None, h\<lparr>suppressed := suppressed h + 1, ignored := ignored h + 1\<rparr>)"
| "limiter_step spurious Claim_Swap h =
     Some (Claimed (Some (suppressed h)),
       h\<lparr>suppressed := 0, reported := reported h + unat (suppressed h)\<rparr>)"
| "limiter_step spurious (Claimed r) h = None"

fun limiter_call :: "limiter_thread \<Rightarrow> bool" where
  "limiter_call (Claim_Load _) = True"
| "limiter_call _ = False"

text \<open>What a thread returns, and leaves behind, when no other thread runs.\<close>

definition ignore_claim :: "limiter_history \<Rightarrow> 64 word option \<times> limiter_history" where
  "ignore_claim h = (None, h\<lparr>suppressed := suppressed h + 1, ignored := ignored h + 1\<rparr>)"

definition swap_claim :: "limiter_history \<Rightarrow> 64 word option \<times> limiter_history" where
  "swap_claim h =
     (Some (suppressed h), h\<lparr>suppressed := 0, reported := reported h + unat (suppressed h)\<rparr>)"

fun limiter_meaning :: "limiter_thread \<Rightarrow> limiter_history \<Rightarrow> 64 word option \<times> limiter_history" where
  "limiter_meaning (Claim_Load now_millis) h =
     (if now_millis < next_report_millis h then ignore_claim h
      else swap_claim
        (h\<lparr>next_report_millis := saturating_add_u64 now_millis REPORT_INTERVAL_MILLIS,
           claims_at := now_millis # claims_at h\<rparr>))"
| "limiter_meaning (Claim_Exchange now_millis observed) h =
     (if now_millis < observed \<or> now_millis < next_report_millis h then ignore_claim h
      else swap_claim
        (h\<lparr>next_report_millis := saturating_add_u64 now_millis REPORT_INTERVAL_MILLIS,
           claims_at := now_millis # claims_at h\<rparr>))"
| "limiter_meaning Claim_Suppress h = ignore_claim h"
| "limiter_meaning Claim_Swap h = swap_claim h"
| "limiter_meaning (Claimed r) h = (r, h)"

interpretation limiter_alone: pool_sequential limiter_step limiter_meaning Claimed
proof
  fix w t s t' s'
  assume "limiter_step w t s = Some (t', s')"
  then show "limiter_meaning t' s' = limiter_meaning t s"
    by (cases t) (auto simp: ignore_claim_def swap_claim_def split: if_splits)
qed simp

lemma limiter_meaning_claim_report:
  "fst (limiter_meaning (Claim_Load now_millis) h)
     = fst (claim_report now_millis (category_limiter.truncate h))"
  "category_limiter.truncate (snd (limiter_meaning (Claim_Load now_millis) h))
     = snd (claim_report now_millis (category_limiter.truncate h))"
  by (simp_all add: claim_report_def ignore_claim_def swap_claim_def category_limiter.truncate_def)

text \<open>
  The invariant: successive reports respect the deadline the earlier one set; the threads in
  between are exactly the difference of the auxiliary counts.
\<close>

definition report_deadline :: "64 word \<Rightarrow> 64 word" where
  "report_deadline now_millis = saturating_add_u64 now_millis REPORT_INTERVAL_MILLIS"

definition limiter_inv :: "limiter_thread multiset \<Rightarrow> limiter_history \<Rightarrow> bool" where
  "limiter_inv T h \<longleftrightarrow>
     successively (\<lambda>later earlier. report_deadline earlier \<le> later) (claims_at h)
     \<and> next_report_millis h = (case claims_at h of [] \<Rightarrow> 0 | latest # _ \<Rightarrow> report_deadline latest)
     \<and> length (claims_at h)
         = size (filter_mset (\<lambda>t. t = Claim_Swap \<or> (\<exists>n. t = Claimed (Some n))) T)
     \<and> ignored h = size (filter_mset (\<lambda>t. t = Claimed None) T)
     \<and> (ignored h < 2 ^ 64 \<longrightarrow> ignored h = reported h + unat (suppressed h))"

lemma unat_plus_one: "unat (x :: 64 word) + 1 < 2 ^ 64 \<Longrightarrow> unat (x + 1) = unat x + 1"
  by (simp add: unat_word_ariths)

interpretation limiter: pool_law limiter_step limiter_call limiter_history_new limiter_inv
proof
  show "limiter_inv {#} limiter_history_new"
    by (simp add: limiter_inv_def limiter_history_new_def)
next
  fix T s t
  assume "limiter_inv T s" "limiter_call t"
  then show "limiter_inv (add_mset t T) s"
    by (cases t) (auto simp: limiter_inv_def)
next
  fix w t T s t' s'
  assume *: "limiter_inv (add_mset t T) s" "limiter_step w t s = Some (t', s')"
  then show "limiter_inv (add_mset t' T) s'"
  proof (cases t)
    case Claim_Suppress
    with * show ?thesis
      by (auto simp: limiter_inv_def unat_plus_one)
  qed (auto simp: limiter_inv_def report_deadline_def split: if_splits list.splits)
qed

lemma report_deadline_spacing:
  assumes "report_deadline a \<le> b" "unat a + 60000 < 2 ^ 64"
  shows "unat a + 60000 \<le> unat b"
proof -
  have "report_deadline a = a + 60000"
    using assms(2) by (simp add: report_deadline_def saturating_add_u64_def REPORT_INTERVAL_MILLIS_def)
  moreover have "unat (a + 60000) = unat a + 60000"
    using assms(2) by (simp add: unat_word_ariths)
  ultimately show ?thesis
    using assms(1) by (simp add: word_le_nat_alt)
qed

text \<open>
  C28: However the threads that report drops of one category interleave, and however often their
  exchanges fail spuriously: two successive reports are at least 60 seconds of the monotonic clock
  apart (while the clock is below its saturation), every finished claim was either reported or
  counted as suppressed, and no suppressed claim is lost: the counts written in the reports
  together with the counter still open add up to the claims that were suppressed.
\<close>

theorem drop_reports_limited:
  assumes "pool_reachable limiter_step limiter_call limiter_history_new T h"
  shows "successively (\<lambda>later earlier. unat earlier + 60000 < 2 ^ 64
             \<longrightarrow> unat earlier + 60000 \<le> unat later) (claims_at h)
    \<and> length (claims_at h)
        = size (filter_mset (\<lambda>t. t = Claim_Swap \<or> (\<exists>n. t = Claimed (Some n))) T)
    \<and> ignored h = size (filter_mset (\<lambda>t. t = Claimed None) T)
    \<and> (ignored h < 2 ^ 64 \<longrightarrow> ignored h = reported h + unat (suppressed h))"
proof -
  have inv: "limiter_inv T h"
    using assms by (rule limiter.reachable_inv)
  then have "successively (\<lambda>later earlier. unat earlier + 60000 < 2 ^ 64
      \<longrightarrow> unat earlier + 60000 \<le> unat later) (claims_at h)"
    unfolding limiter_inv_def
    by (blast intro: successively_mono report_deadline_spacing)
  with inv show ?thesis
    by (simp add: limiter_inv_def)
qed

text \<open>Three threads at the clock readings 5, 7 and 60005 of which the second is suppressed.\<close>

lemma sample_limiter_run:
  "solo limiter_step (replicate 3 False) (Claim_Load 5) limiter_history_new
     = (Claimed (Some 0), \<lparr>next_report_millis = 60005, suppressed = 0, claims_at = [5],
          reported = 0, ignored = 0\<rparr>)"
  "solo limiter_step (replicate 3 False) (Claim_Load 7)
       \<lparr>next_report_millis = 60005, suppressed = 0, claims_at = [5], reported = 0, ignored = 0\<rparr>
     = (Claimed None, \<lparr>next_report_millis = 60005, suppressed = 1, claims_at = [5],
          reported = 0, ignored = 1\<rparr>)"
  "solo limiter_step (True # replicate 3 False) (Claim_Load 60005)
       \<lparr>next_report_millis = 60005, suppressed = 1, claims_at = [5], reported = 0, ignored = 1\<rparr>
     = (Claimed (Some 1), \<lparr>next_report_millis = 120005, suppressed = 0, claims_at = [60005, 5],
          reported = 1, ignored = 1\<rparr>)"
  by (simp_all add: limiter_history_new_def saturating_add_u64_def REPORT_INTERVAL_MILLIS_def
      numeral_3_eq_3)

lemma drop_reports_limited_witness:
  "pool_reachable limiter_step limiter_call limiter_history_new
     {#Claimed (Some 1), Claimed None, Claimed (Some 0)#}
     \<lparr>next_report_millis = 120005, suppressed = 0, claims_at = [60005, 5],
      reported = 1, ignored = 1\<rparr>
   \<and> ignored \<lparr>next_report_millis = 120005, suppressed = 0, claims_at = [60005, 5],
      reported = 1, ignored = 1\<rparr> = (1 :: nat)"
proof -
  have claims: "limiter_call (Claim_Load n)" for n
    by simp
  have "pool_reachable limiter_step limiter_call limiter_history_new
     {#Claimed (Some 1), Claimed None, Claimed (Some 0)#}
     \<lparr>next_report_millis = 120005, suppressed = 0, claims_at = [60005, 5],
      reported = 1, ignored = 1\<rparr>"
    by (intro pool_solo [OF pool_call sample_limiter_run(3)]
        pool_solo [OF pool_call sample_limiter_run(2)]
        pool_solo [OF pool_call sample_limiter_run(1)] pool_initial claims)
  from this drop_reports_limited [OF this] show ?thesis
    by simp
qed

end
