(* ===== verification/Admission_Boundary.thy ===== *)
theory Admission_Boundary
  imports Diagnostics
begin

section \<open>The admission boundary of a telemetry queue\<close>

text \<open>
  \<open>src/telemetry/queue.rs\<close>: a counter in front of the SDK's bounded queue. \<open>try_admit\<close> takes a
  place before the record is handed to the SDK, the exporter gives the places of a batch back in
  \<open>begin_export\<close>, and \<open>drop_pending\<close> counts what is left when the process shuts down.

  The first part holds the operations of one caller. In the second part the same operations are
  threads of atomic accesses (theory Interleaving), with the SDK's queue: a record that was
  admitted enters it (\<open>Admit_Send\<close>), the worker removes a batch (\<open>Export_Take\<close>) and calls the
  exporter. The SDK is not part of the repository; the model uses what the comments of
  \<open>span_processor\<close> state of it: it never holds more than \<open>capacity\<close> records, it drops a record that
  finds it full (\<open>overflowed\<close>), and it calls the exporter with a batch it has removed. The auxiliary
  fields \<open>sweeps\<close>, \<open>refused\<close>, \<open>swept\<close>, \<open>exported\<close> and \<open>discarded\<close> count what happened.

  The last part proves the occupancy invariant the comments claim, the accounting of the drop
  counter, and that the boundary refines a gate with atomic operations.
\<close>

subsection \<open>The operations of one caller\<close>

datatype admission_outcome = Admitted | QueueFull | PipelineClosed

text \<open>
  \<open>observed\<close> lists the calls of the diagnostics observer, each with its reason and count; theory
  Diagnostics says what a call does. \<open>pending\<close> is a \<open>usize\<close>; no operation moves it above the
  capacity, so it is kept as a natural number.
\<close>

record boundary =
  capacity :: nat
  pending :: nat
  dropped :: "64 word"
  failed_exports :: "64 word"
  closed :: bool
  finalized :: bool
  observed :: "(telemetry_drop_reason \<times> 64 word) list"

definition boundary_new :: "nat \<Rightarrow> boundary" where
  "boundary_new c = \<lparr>capacity = c, pending = 0, dropped = 0, failed_exports = 0,
     closed = False, finalized = False, observed = []\<rparr>"

definition record_drop ::
  "telemetry_drop_reason \<Rightarrow> 'a boundary_scheme \<Rightarrow> 'a boundary_scheme" where
  "record_drop reason b = b\<lparr>dropped := dropped b + 1, observed := observed b @ [(reason, 1)]\<rparr>"

definition release :: "nat \<Rightarrow> 'a boundary_scheme \<Rightarrow> 'a boundary_scheme" where
  "release n b = b\<lparr>pending := pending b - n\<rparr>"

definition try_admit :: "'a boundary_scheme \<Rightarrow> admission_outcome \<times> 'a boundary_scheme" where
  "try_admit b =
     (if closed b then (PipelineClosed, record_drop telemetry_drop_reason.PipelineClosed b)
      else if capacity b \<le> pending b
      then (QueueFull, record_drop telemetry_drop_reason.QueueFull b)
      else (Admitted, b\<lparr>pending := pending b + 1\<rparr>))"

definition close_boundary :: "'a boundary_scheme \<Rightarrow> 'a boundary_scheme" where
  "close_boundary b = b\<lparr>closed := True\<rparr>"

definition begin_export :: "nat \<Rightarrow> 'a boundary_scheme \<Rightarrow> bool \<times> 'a boundary_scheme" where
  "begin_export n b = (if finalized b then (False, b) else (True, release n b))"

definition drop_pending :: "'a boundary_scheme \<Rightarrow> 'a boundary_scheme" where
  "drop_pending b =
     (let n = pending b; b' = b\<lparr>finalized := True, pending := 0\<rparr>
      in if n = 0 then b'
         else b'\<lparr>dropped := dropped b' + word_of_nat (min n (2 ^ 64 - 1)),
               observed := observed b'
                 @ [(telemetry_drop_reason.PipelineClosed, word_of_nat (min n (2 ^ 64 - 1)))]\<rparr>)"

subsection \<open>Exports and their failures\<close>

text \<open>
  An export through the HTTP client: \<open>classified_before\<close> and \<open>classified_after\<close> are the readings of
  the shared failure counter around the SDK's export; a failure the HTTP layer has classified
  already is not reported a second time.
\<close>

datatype otel_sdk_error = AlreadyShutdown | Timeout | InternalFailure rstring

definition sdk_failure_reason :: "otel_sdk_error \<Rightarrow> telemetry_export_failure_reason" where
  "sdk_failure_reason e = (case e of
     otel_sdk_error.AlreadyShutdown \<Rightarrow> telemetry_export_failure_reason.Shutdown
   | otel_sdk_error.Timeout \<Rightarrow> telemetry_export_failure_reason.Timeout
   | otel_sdk_error.InternalFailure _ \<Rightarrow> telemetry_export_failure_reason.Internal)"

definition record_sdk_failure ::
  "telemetry_signal \<Rightarrow> otel_sdk_error \<Rightarrow> diagnostics_observer \<Rightarrow> diagnostics_observer" where
  "record_sdk_failure signal e ob = export_failure signal (sdk_failure_reason e) ob"

definition observe_export ::
  "telemetry_signal \<Rightarrow> 64 word \<Rightarrow> 64 word \<Rightarrow> (otel_sdk_error, unit) result
   \<Rightarrow> boundary \<times> diagnostics_observer \<Rightarrow> boundary \<times> diagnostics_observer" where
  "observe_export signal classified_before classified_after r s =
     (case r of
        Inr _ \<Rightarrow> s
      | Inl e \<Rightarrow>
          ((fst s)\<lparr>failed_exports := failed_exports (fst s) + 1\<rparr>,
           if classified_after = classified_before then record_sdk_failure signal e (snd s)
           else snd s))"

text \<open>
  \<open>BoundarySpanExporter::export\<close> and \<open>BoundaryLogExporter::export\<close>: a batch refused by the
  boundary is answered \<open>Ok\<close> without an export. The export itself, what it answers and what the
  HTTP layer does meanwhile, is the parameter \<open>send\<close>.
\<close>

definition export_batch ::
  "telemetry_signal
   \<Rightarrow> (nat \<Rightarrow> 64 word \<times> diagnostics_observer
        \<Rightarrow> (otel_sdk_error, unit) result \<times> 64 word \<times> diagnostics_observer)
   \<Rightarrow> nat \<Rightarrow> boundary \<times> 64 word \<times> diagnostics_observer
   \<Rightarrow> (otel_sdk_error, unit) result \<times> boundary \<times> 64 word \<times> diagnostics_observer" where
  "export_batch signal send n s =
     (case s of (b, classified, ob) \<Rightarrow>
      case begin_export n b of
        (False, b') \<Rightarrow> (Ok (), b', classified, ob)
      | (True, b') \<Rightarrow>
          (case send n (classified, ob) of (r, classified', ob') \<Rightarrow>
           case observe_export signal classified classified' r (b', ob') of (b'', ob'') \<Rightarrow>
             (r, b'', classified', ob'')))"

text \<open>
  \<open>force_flush\<close> of the span exporter, the only one of the two that has its own: a failure is
  reported, and unlike an export it is not counted in \<open>failed_exports\<close>.
\<close>

definition exporter_force_flush ::
  "telemetry_signal \<Rightarrow> (otel_sdk_error, unit) result \<Rightarrow> diagnostics_observer
   \<Rightarrow> (otel_sdk_error, unit) result \<times> diagnostics_observer" where
  "exporter_force_flush signal r ob =
     (r, case r of Inr _ \<Rightarrow> ob | Inl e \<Rightarrow> record_sdk_failure signal e ob)"

text \<open>
  \<open>BoundarySpanProcessor::on_end\<close> and \<open>BoundaryLogProcessor::emit\<close>: only an admitted record
  reaches the SDK's processor.
\<close>

definition offer_record ::
  "('p \<Rightarrow> 'p) \<Rightarrow> boundary \<times> 'p \<Rightarrow> boundary \<times> 'p" where
  "offer_record forward s =
     (case try_admit (fst s) of
        (Admitted, b) \<Rightarrow> (b, forward (snd s))
      | (_, b) \<Rightarrow> (b, snd s))"

definition processor_shutdown ::
  "('p \<Rightarrow> 'r \<times> 'p) \<Rightarrow> boundary \<times> 'p \<Rightarrow> 'r \<times> boundary \<times> 'p" where
  "processor_shutdown shutdown s =
     (case shutdown (snd s) of (r, p) \<Rightarrow> (r, close_boundary (fst s), p))"

subsection \<open>The operations as threads\<close>

record boundary_pool = boundary +
  locked :: bool
  sdk_queue :: nat
  overflowed :: nat
  sweeps :: nat
  refused :: nat
  swept :: nat
  exported :: nat
  discarded :: nat

definition boundary_pool_new :: "nat \<Rightarrow> boundary_pool" where
  "boundary_pool_new c = \<lparr>capacity = c, pending = 0, dropped = 0, failed_exports = 0,
     closed = False, finalized = False, observed = [], locked = False, sdk_queue = 0,
     overflowed = 0, sweeps = 0, refused = 0, swept = 0, exported = 0, discarded = 0\<rparr>"

datatype release_caller = After_Admission | After_Removal

lemma not_release_caller [simp]:
  "c \<noteq> After_Removal \<longleftrightarrow> c = After_Admission"
  "c \<noteq> After_Admission \<longleftrightarrow> c = After_Removal"
  by (cases c; simp)+

datatype boundary_result =
    Admission admission_outcome
  | Exporting bool
  | Swept

datatype boundary_thread =
    Admit_Closed
  | Admit_Load
  | Admit_Exchange nat
  | Admit_Recheck
  | Admit_Send
  | Drop_Count telemetry_drop_reason
  | Drop_Observe telemetry_drop_reason
  | Release_Load release_caller nat
  | Release_Exchange release_caller nat nat
  | Export_Take nat
  | Export_Lock nat
  | Export_Check nat
  | Export_Unlock bool
  | Shutdown_Close
  | Sweep_Lock
  | Sweep_Finalize
  | Sweep_Swap
  | Sweep_Unlock nat
  | Sweep_Count nat
  | Sweep_Observe nat
  | Returned boundary_result

definition refusal :: "telemetry_drop_reason \<Rightarrow> admission_outcome" where
  "refusal reason = (case reason of
     telemetry_drop_reason.QueueFull \<Rightarrow> QueueFull
   | telemetry_drop_reason.PipelineClosed \<Rightarrow> PipelineClosed)"

text \<open>
  One access of the thread; the oracle is a spurious failure of the exchange. \<open>Export_Lock\<close> and
  \<open>Sweep_Lock\<close> wait while the mutex is held; \<open>Export_Take\<close> waits until the SDK's queue holds the
  batch it removes.
\<close>

fun boundary_step :: "(bool, boundary_thread, boundary_pool) pool_routine" where
  "boundary_step spurious Admit_Closed b =
     Some (if closed b then Drop_Count telemetry_drop_reason.PipelineClosed else Admit_Load, b)"
| "boundary_step spurious Admit_Load b = Some (Admit_Exchange (pending b), b)"
| "boundary_step spurious (Admit_Exchange n) b =
     (if capacity b \<le> n then Some (Drop_Count telemetry_drop_reason.QueueFull, b)
      else if spurious \<or> pending b \<noteq> n then Some (Admit_Exchange (pending b), b)
      else Some (Admit_Recheck, b\<lparr>pending := n + 1\<rparr>))"
| "boundary_step spurious Admit_Recheck b =
     Some (if closed b then Release_Load After_Admission 1 else Admit_Send, b)"
| "boundary_step spurious Admit_Send b =
     (if sdk_queue b < capacity b
      then Some (Returned (Admission Admitted), b\<lparr>sdk_queue := sdk_queue b + 1\<rparr>)
      else Some (Returned (Admission Admitted), b\<lparr>overflowed := overflowed b + 1\<rparr>))"
| "boundary_step spurious (Drop_Count reason) b =
     Some (Drop_Observe reason, b\<lparr>dropped := dropped b + 1, refused := refused b + 1\<rparr>)"
| "boundary_step spurious (Drop_Observe reason) b =
     Some (Returned (Admission (refusal reason)),
       b\<lparr>observed := observed b @ [(reason, 1)]\<rparr>)"
| "boundary_step spurious (Release_Load caller n) b =
     Some (Release_Exchange caller n (pending b), b)"
| "boundary_step spurious (Release_Exchange caller n seen) b =
     (if spurious \<or> pending b \<noteq> seen then Some (Release_Exchange caller n (pending b), b)
      else if caller = After_Admission
      then Some (Drop_Count telemetry_drop_reason.PipelineClosed, b\<lparr>pending := seen - n\<rparr>)
      else Some (Export_Unlock True, b\<lparr>pending := seen - n, exported := exported b + n\<rparr>))"
| "boundary_step spurious (Export_Take n) b =
     (if 0 < n \<and> n \<le> sdk_queue b then Some (Export_Lock n, b\<lparr>sdk_queue := sdk_queue b - n\<rparr>)
      else None)"
| "boundary_step spurious (Export_Lock n) b =
     (if locked b then None else Some (Export_Check n, b\<lparr>locked := True\<rparr>))"
| "boundary_step spurious (Export_Check n) b =
     (if finalized b then Some (Export_Unlock False, b\<lparr>discarded := discarded b + n\<rparr>)
      else Some (Release_Load After_Removal n, b))"
| "boundary_step spurious (Export_Unlock result) b =
     Some (Returned (Exporting result), b\<lparr>locked := False\<rparr>)"
| "boundary_step spurious Shutdown_Close b = Some (Sweep_Lock, b\<lparr>closed := True\<rparr>)"
| "boundary_step spurious Sweep_Lock b =
     (if locked b then None else Some (Sweep_Finalize, b\<lparr>locked := True\<rparr>))"
| "boundary_step spurious Sweep_Finalize b = Some (Sweep_Swap, b\<lparr>finalized := True\<rparr>)"
| "boundary_step spurious Sweep_Swap b =
     Some (Sweep_Unlock (pending b), b\<lparr>pending := 0, sweeps := sweeps b + 1, swept := swept b + pending b\<rparr>)"
| "boundary_step spurious (Sweep_Unlock n) b =
     Some (if n = 0 then Returned Swept else Sweep_Count n, b\<lparr>locked := False\<rparr>)"
| "boundary_step spurious (Sweep_Count n) b =
     Some (Sweep_Observe n, b\<lparr>dropped := dropped b + word_of_nat (min n (2 ^ 64 - 1))\<rparr>)"
| "boundary_step spurious (Sweep_Observe n) b =
     Some (Returned Swept, b\<lparr>observed := observed b
       @ [(telemetry_drop_reason.PipelineClosed, word_of_nat (min n (2 ^ 64 - 1)))]\<rparr>)"
| "boundary_step spurious (Returned r) b = None"

text \<open>
  The calls: a record is offered, the worker removes a batch, or \<open>TelemetryRuntime::shutdown\<close>
  closes the boundary and, after the providers, drops what is pending.
\<close>

fun boundary_call :: "boundary_thread \<Rightarrow> bool" where
  "boundary_call Admit_Closed = True"
| "boundary_call (Export_Take n) = True"
| "boundary_call Shutdown_Close = True"
| "boundary_call _ = False"

subsection \<open>What the threads hold\<close>

definition tally :: "('t \<Rightarrow> nat) \<Rightarrow> 't multiset \<Rightarrow> nat" where
  "tally f T = sum_mset (image_mset f T)"

lemma tally_simps [simp]:
  "tally f {#} = 0"
  "tally f (add_mset t T) = f t + tally f T"
  by (simp_all add: tally_def)

text \<open>
  \<open>sending\<close>: admitted and not yet in the SDK's queue; \<open>removed\<close>: removed by the worker, its place
  not yet given back; \<open>provisional\<close>: a place taken by a caller that has not been admitted (yet);
  \<open>uncounted\<close> and \<open>unobserved\<close>: drops on their way to the counter and to the observer.
\<close>

fun sending :: "boundary_thread \<Rightarrow> nat" where
  "sending Admit_Send = 1"
| "sending _ = 0"

fun removed :: "boundary_thread \<Rightarrow> nat" where
  "removed (Export_Lock n) = n"
| "removed (Export_Check n) = n"
| "removed (Release_Load caller n) = (if caller = After_Removal then n else 0)"
| "removed (Release_Exchange caller n _) = (if caller = After_Removal then n else 0)"
| "removed _ = 0"

fun provisional :: "boundary_thread \<Rightarrow> nat" where
  "provisional Admit_Recheck = 1"
| "provisional (Release_Load caller n) = (if caller = After_Admission then n else 0)"
| "provisional (Release_Exchange caller n _) = (if caller = After_Admission then n else 0)"
| "provisional _ = 0"

fun uncounted :: "boundary_thread \<Rightarrow> nat" where
  "uncounted (Sweep_Unlock n) = n"
| "uncounted (Sweep_Count n) = n"
| "uncounted _ = 0"

fun unobserved :: "boundary_thread \<Rightarrow> nat" where
  "unobserved (Drop_Observe _) = 1"
| "unobserved (Sweep_Observe n) = n"
| "unobserved _ = 0"

fun holds_lock :: "boundary_thread \<Rightarrow> nat" where
  "holds_lock (Export_Check _) = 1"
| "holds_lock (Release_Load caller _) = (if caller = After_Removal then 1 else 0)"
| "holds_lock (Release_Exchange caller _ _) = (if caller = After_Removal then 1 else 0)"
| "holds_lock (Export_Unlock _) = 1"
| "holds_lock Sweep_Finalize = 1"
| "holds_lock Sweep_Swap = 1"
| "holds_lock (Sweep_Unlock _) = 1"
| "holds_lock _ = 0"

fun sweeping :: "boundary_thread \<Rightarrow> nat" where
  "sweeping Sweep_Lock = 1"
| "sweeping Sweep_Finalize = 1"
| "sweeping Sweep_Swap = 1"
| "sweeping _ = 0"

fun swapping :: "boundary_thread \<Rightarrow> nat" where
  "swapping Sweep_Swap = 1"
| "swapping _ = 0"

abbreviation boundary_reachable ::
  "nat \<Rightarrow> boundary_thread multiset \<Rightarrow> boundary_pool \<Rightarrow> bool" where
  "boundary_reachable c \<equiv> pool_reachable boundary_step boundary_call (boundary_pool_new c)"

lemma swapping_holds_lock: "swapping t \<le> holds_lock t"
  by (cases t rule: swapping.cases) simp_all

lemma tally_mono: "(\<And>t. f t \<le> g t) \<Longrightarrow> tally f T \<le> tally g T"
  by (induction T) (auto intro: add_mono)

subsection \<open>Invariants\<close>

text \<open>The mutex admits one thread, and the phases follow each other.\<close>

definition phase_inv :: "boundary_thread multiset \<Rightarrow> boundary_pool \<Rightarrow> bool" where
  "phase_inv T b \<longleftrightarrow>
     tally holds_lock T = (if locked b then 1 else 0)
     \<and> (\<not> closed b \<longrightarrow> tally sweeping T = 0 \<and> \<not> finalized b)
     \<and> (\<not> finalized b \<longrightarrow> sweeps b = 0 \<and> tally swapping T = 0)
     \<and> (finalized b \<and> sweeps b = 0 \<longrightarrow> tally swapping T > 0)"

interpretation phase:
  pool_law boundary_step boundary_call "boundary_pool_new c" phase_inv for c
proof
  show "phase_inv {#} (boundary_pool_new c)"
    by (simp add: phase_inv_def boundary_pool_new_def)
next
  fix T b t
  assume "phase_inv T b" "boundary_call t"
  then show "phase_inv (add_mset t T) b"
    by (cases t) (auto simp: phase_inv_def)
next
  fix w t T b t' b'
  assume *: "phase_inv (add_mset t T) b" "boundary_step w t b = Some (t', b')"
  then show "phase_inv (add_mset t' T) b'"
    by (cases t; simp add: phase_inv_def split: if_splits; clarify?; simp?; blast?)
qed

text \<open>
  Occupancy: until the sweep the counter is what the queue and the threads hold, the queue and the
  records on their way to it fit into the capacity, and so no record finds the queue full.
\<close>

definition occupancy_inv :: "nat \<Rightarrow> boundary_thread multiset \<Rightarrow> boundary_pool \<Rightarrow> bool" where
  "occupancy_inv c T b \<longleftrightarrow>
     capacity b = c \<and> pending b \<le> c \<and> overflowed b = 0
     \<and> sdk_queue b + tally sending T \<le> c
     \<and> (sweeps b = 0 \<longrightarrow>
          pending b = sdk_queue b + tally sending T + tally removed T + tally provisional T
          \<and> swept b = 0 \<and> discarded b = 0)"

interpretation occupancy:
  pool_law boundary_step boundary_call "boundary_pool_new c" "occupancy_inv c" for c
proof
  show "occupancy_inv c {#} (boundary_pool_new c)"
    by (simp add: occupancy_inv_def boundary_pool_new_def)
next
  fix T b t
  assume "occupancy_inv c T b" "boundary_call t"
  then show "occupancy_inv c (add_mset t T) b"
    by (cases t) (auto simp: occupancy_inv_def)
next
  fix w t T b t' b'
  assume "boundary_reachable c (add_mset t T) b"
  then have phase: "phase_inv (add_mset t T) b"
    by (rule phase.reachable_inv)
  have swap: "tally swapping T \<le> tally holds_lock T"
    by (intro tally_mono swapping_holds_lock)
  assume *: "occupancy_inv c (add_mset t T) b" "boundary_step w t b = Some (t', b')"
  show "occupancy_inv c (add_mset t' T) b'"
  proof (cases t)
    case Admit_Recheck
    with * phase show ?thesis
      by (simp add: occupancy_inv_def phase_inv_def split: if_splits; clarify?; simp?)
  next
    case Export_Check
    with * phase swap show ?thesis
      by (simp add: occupancy_inv_def phase_inv_def split: if_splits; clarify?; simp?)
  next
    case Sweep_Swap
    with * phase swap show ?thesis
      by (simp add: occupancy_inv_def phase_inv_def split: if_splits; clarify?; simp?)
  qed (use * in \<open>simp add: occupancy_inv_def split: if_splits; clarify?; simp?\<close>)+
qed

text \<open>
  Accounting: the drop counter and the observer's calls agree with the records refused and swept,
  up to the drops still on their way; every record that was admitted is in exactly one place; and
  once the counter was swept, the records not exported are among the swept ones.
\<close>

definition place_of :: "admission_outcome \<Rightarrow> boundary_thread \<Rightarrow> nat" where
  "place_of r t = (if t = Returned (Admission r) then 1 else 0)"

fun dropping :: "boundary_thread \<Rightarrow> nat" where
  "dropping (Drop_Observe _) = 1"
| "dropping _ = 0"

definition observed_total :: "(telemetry_drop_reason \<times> 64 word) list \<Rightarrow> 64 word" where
  "observed_total cs = sum_list (map snd cs)"

definition ledger_inv :: "boundary_thread multiset \<Rightarrow> boundary_pool \<Rightarrow> bool" where
  "ledger_inv T b \<longleftrightarrow>
     refused b = tally dropping T + tally (place_of QueueFull) T + tally (place_of PipelineClosed) T
     \<and> tally (place_of Admitted) T = sdk_queue b + tally removed T + exported b + discarded b
     \<and> (sweeps b > 0 \<longrightarrow> sdk_queue b + tally sending T + tally removed T + discarded b \<le> swept b)"

interpretation ledger:
  pool_law boundary_step boundary_call "boundary_pool_new c" ledger_inv for c
proof
  show "ledger_inv {#} (boundary_pool_new c)"
    by (simp add: ledger_inv_def boundary_pool_new_def)
next
  fix T b t
  assume "ledger_inv T b" "boundary_call t"
  then show "ledger_inv (add_mset t T) b"
    by (cases t) (auto simp: ledger_inv_def place_of_def)
next
  fix w t T b t' b'
  assume reach: "boundary_reachable c (add_mset t T) b"
  have phase: "phase_inv (add_mset t T) b" and occ: "occupancy_inv c (add_mset t T) b"
    using reach by (rule phase.reachable_inv, rule occupancy.reachable_inv)
  assume *: "ledger_inv (add_mset t T) b" "boundary_step w t b = Some (t', b')"
  show "ledger_inv (add_mset t' T) b'"
  proof (cases t)
    case Admit_Recheck
    with * phase show ?thesis
      by (simp add: ledger_inv_def phase_inv_def place_of_def split: if_splits; clarify?; simp?)
  next
    case Admit_Send
    with * occ show ?thesis
      by (simp add: ledger_inv_def occupancy_inv_def place_of_def split: if_splits; clarify?; simp?)
  next
    case (Drop_Observe reason)
    with * show ?thesis
      by (cases reason) (simp add: ledger_inv_def place_of_def refusal_def; clarify?; simp?)+
  next
    case Sweep_Swap
    with * occ show ?thesis
      by (cases "sweeps b = 0")
        (simp add: ledger_inv_def occupancy_inv_def place_of_def; clarify?; simp?)+
  qed (use * in \<open>simp add: ledger_inv_def place_of_def split: if_splits; clarify?; simp?\<close>)+
qed

text \<open>A count swept on its way to the counter is at most the capacity: it is not cut to 64 bits.\<close>

fun sweep_fits :: "nat \<Rightarrow> boundary_thread \<Rightarrow> bool" where
  "sweep_fits c (Sweep_Unlock n) = (n \<le> c)"
| "sweep_fits c (Sweep_Count n) = (n \<le> c)"
| "sweep_fits c (Sweep_Observe n) = (n \<le> c)"
| "sweep_fits c _ = True"

interpretation sweeps_fit:
  pool_law boundary_step boundary_call "boundary_pool_new c" "\<lambda>T b. \<forall>t \<in># T. sweep_fits c t" for c
proof
  fix T t and b :: boundary_pool
  assume "\<forall>t \<in># T. sweep_fits c t" "boundary_call t"
  then show "\<forall>t \<in># add_mset t T. sweep_fits c t"
    by (cases t) auto
next
  fix w t T b t' b'
  assume "boundary_reachable c (add_mset t T) b"
  then have occ: "occupancy_inv c (add_mset t T) b"
    by (rule occupancy.reachable_inv)
  assume *: "\<forall>t \<in># add_mset t T. sweep_fits c t" "boundary_step w t b = Some (t', b')"
  then have "sweep_fits c t'"
    using occ by (cases t) (auto simp: occupancy_inv_def split: if_splits)
  with * show "\<forall>t \<in># add_mset t' T. sweep_fits c t"
    by simp
qed simp

definition drops_inv :: "nat \<Rightarrow> boundary_thread multiset \<Rightarrow> boundary_pool \<Rightarrow> bool" where
  "drops_inv c T b \<longleftrightarrow> (c < 2 ^ 64 \<longrightarrow>
     dropped b + word_of_nat (tally uncounted T) = word_of_nat (refused b + swept b)
     \<and> observed_total (observed b) + word_of_nat (tally unobserved T) = dropped b)"

interpretation drops:
  pool_law boundary_step boundary_call "boundary_pool_new c" "drops_inv c" for c
proof
  show "drops_inv c {#} (boundary_pool_new c)"
    by (simp add: drops_inv_def boundary_pool_new_def observed_total_def)
next
  fix T b t
  assume "drops_inv c T b" "boundary_call t"
  then show "drops_inv c (add_mset t T) b"
    by (cases t) (auto simp: drops_inv_def)
next
  fix w t T b t' b'
  assume "boundary_reachable c (add_mset t T) b"
  then have "sweep_fits c t"
    by (auto dest: sweeps_fit.reachable_inv)
  then have fits: "c < 2 ^ 64 \<Longrightarrow> t = Sweep_Count n \<or> t = Sweep_Observe n \<Longrightarrow> min n (2 ^ 64 - 1) = n" for n
    by auto
  assume *: "drops_inv c (add_mset t T) b" "boundary_step w t b = Some (t', b')"
  show "drops_inv c (add_mset t' T) b'"
  proof (cases t)
    case (Sweep_Count n)
    with * fits [of n] show ?thesis
      by (simp add: drops_inv_def; clarify?; simp add: algebra_simps)
  next
    case (Sweep_Observe n)
    with * fits [of n] show ?thesis
      by (simp add: drops_inv_def observed_total_def; clarify?; simp add: algebra_simps)
  qed (use * in \<open>simp add: drops_inv_def observed_total_def split: if_splits; clarify?;
         simp add: algebra_simps\<close>)+
qed

subsection \<open>Undisturbed calls\<close>

definition refuse ::
  "telemetry_drop_reason \<Rightarrow> boundary_pool \<Rightarrow> boundary_result \<times> boundary_pool" where
  "refuse reason b =
     (Admission (refusal reason), (record_drop reason b)\<lparr>refused := refused b + 1\<rparr>)"

definition send_admitted :: "boundary_pool \<Rightarrow> boundary_result \<times> boundary_pool" where
  "send_admitted b =
     (Admission Admitted,
      if sdk_queue b < capacity b then b\<lparr>sdk_queue := sdk_queue b + 1\<rparr>
      else b\<lparr>overflowed := overflowed b + 1\<rparr>)"

definition recheck :: "boundary_pool \<Rightarrow> boundary_result \<times> boundary_pool" where
  "recheck b =
     (if closed b then refuse telemetry_drop_reason.PipelineClosed (release 1 b)
      else send_admitted b)"

definition take_place :: "boundary_pool \<Rightarrow> boundary_result \<times> boundary_pool" where
  "take_place b =
     (if capacity b \<le> pending b then refuse telemetry_drop_reason.QueueFull b
      else recheck (b\<lparr>pending := pending b + 1\<rparr>))"

definition released_batch :: "nat \<Rightarrow> boundary_pool \<Rightarrow> boundary_result \<times> boundary_pool" where
  "released_batch n b =
     (Exporting True, (release n b)\<lparr>exported := exported b + n, locked := False\<rparr>)"

definition checked_batch :: "nat \<Rightarrow> boundary_pool \<Rightarrow> boundary_result \<times> boundary_pool" where
  "checked_batch n b =
     (if finalized b
      then (Exporting False, b\<lparr>discarded := discarded b + n, locked := False\<rparr>)
      else released_batch n b)"

definition swept_count :: "nat \<Rightarrow> boundary_pool \<Rightarrow> boundary_result \<times> boundary_pool" where
  "swept_count n b =
     (Swept, b\<lparr>dropped := dropped b + word_of_nat (min n (2 ^ 64 - 1)),
       observed := observed b
         @ [(telemetry_drop_reason.PipelineClosed, word_of_nat (min n (2 ^ 64 - 1)))]\<rparr>)"

definition swept_unlocked :: "nat \<Rightarrow> boundary_pool \<Rightarrow> boundary_result \<times> boundary_pool" where
  "swept_unlocked n b =
     (if n = 0 then (Swept, b\<lparr>locked := False\<rparr>) else swept_count n (b\<lparr>locked := False\<rparr>))"

definition swap_pending :: "boundary_pool \<Rightarrow> boundary_result \<times> boundary_pool" where
  "swap_pending b =
     swept_unlocked (pending b)
       (b\<lparr>pending := 0, sweeps := sweeps b + 1, swept := swept b + pending b\<rparr>)"

fun boundary_meaning ::
  "boundary_thread \<Rightarrow> boundary_pool \<Rightarrow> boundary_result \<times> boundary_pool" where
  "boundary_meaning Admit_Closed b =
     (if closed b then refuse telemetry_drop_reason.PipelineClosed b else take_place b)"
| "boundary_meaning Admit_Load b = take_place b"
| "boundary_meaning (Admit_Exchange n) b =
     (if capacity b \<le> n then refuse telemetry_drop_reason.QueueFull b else take_place b)"
| "boundary_meaning Admit_Recheck b = recheck b"
| "boundary_meaning Admit_Send b = send_admitted b"
| "boundary_meaning (Drop_Count reason) b = refuse reason b"
| "boundary_meaning (Drop_Observe reason) b =
     (Admission (refusal reason), b\<lparr>observed := observed b @ [(reason, 1)]\<rparr>)"
| "boundary_meaning (Release_Load caller n) b =
     (if caller = After_Admission
      then refuse telemetry_drop_reason.PipelineClosed (release n b) else released_batch n b)"
| "boundary_meaning (Release_Exchange caller n seen) b =
     (if caller = After_Admission
      then refuse telemetry_drop_reason.PipelineClosed (release n b) else released_batch n b)"
| "boundary_meaning (Export_Take n) b = checked_batch n (b\<lparr>sdk_queue := sdk_queue b - n\<rparr>)"
| "boundary_meaning (Export_Lock n) b = checked_batch n b"
| "boundary_meaning (Export_Check n) b = checked_batch n b"
| "boundary_meaning (Export_Unlock r) b = (Exporting r, b\<lparr>locked := False\<rparr>)"
| "boundary_meaning Shutdown_Close b = swap_pending (b\<lparr>closed := True, finalized := True\<rparr>)"
| "boundary_meaning Sweep_Lock b = swap_pending (b\<lparr>finalized := True\<rparr>)"
| "boundary_meaning Sweep_Finalize b = swap_pending (b\<lparr>finalized := True\<rparr>)"
| "boundary_meaning Sweep_Swap b = swap_pending b"
| "boundary_meaning (Sweep_Unlock n) b = swept_unlocked n b"
| "boundary_meaning (Sweep_Count n) b = swept_count n b"
| "boundary_meaning (Sweep_Observe n) b =
     (Swept, b\<lparr>observed := observed b
       @ [(telemetry_drop_reason.PipelineClosed, word_of_nat (min n (2 ^ 64 - 1)))]\<rparr>)"
| "boundary_meaning (Returned r) b = (r, b)"

lemmas boundary_meaning_parts =
  refuse_def send_admitted_def recheck_def take_place_def released_batch_def checked_batch_def
  swept_count_def swept_unlocked_def swap_pending_def record_drop_def release_def

interpretation boundary_alone: pool_sequential boundary_step boundary_meaning Returned
proof
  fix w t b t' b'
  assume "boundary_step w t b = Some (t', b')"
  then show "boundary_meaning t' b' = boundary_meaning t b"
    by (cases t; simp split: if_splits; clarify?; simp add: boundary_meaning_parts)
qed simp

lemma calls_of_one_caller:
  "boundary_meaning Admit_Closed b = (Admission r, b')
   \<Longrightarrow> try_admit (boundary.truncate b) = (r, boundary.truncate b')"
  "boundary_meaning (Export_Lock n) b = (Exporting sent, b')
   \<Longrightarrow> begin_export n (boundary.truncate b) = (sent, boundary.truncate b')"
  "boundary_meaning Sweep_Lock b = (Swept, b')
   \<Longrightarrow> drop_pending (boundary.truncate b) = boundary.truncate b'"
  by (auto simp: boundary_meaning_parts try_admit_def begin_export_def drop_pending_def Let_def
      boundary.truncate_def refusal_def split: if_splits)

text \<open>
  The loops of atomic accesses compute the operations of one caller: when no other thread runs
  in between, however often the exchange fails spuriously, a call of \<open>try_admit\<close>,
  \<open>begin_export\<close> or \<open>drop_pending\<close> returns the result and the boundary of its sequential
  definition; and when the mutex is free and no exchange fails spuriously, it does return, within
  six accesses.
\<close>

theorem undisturbed_calls_sequential:
  "(solo boundary_step ws Admit_Closed b = (Returned (Admission r), b')
      \<longrightarrow> try_admit (boundary.truncate b) = (r, boundary.truncate b'))
   \<and> (solo boundary_step ws (Export_Lock n) b = (Returned (Exporting sent), b')
      \<longrightarrow> begin_export n (boundary.truncate b) = (sent, boundary.truncate b'))
   \<and> (solo boundary_step ws Sweep_Lock b = (Returned Swept, b')
      \<longrightarrow> drop_pending (boundary.truncate b) = boundary.truncate b')
   \<and> (\<exists>r b'. solo boundary_step (replicate 6 False) Admit_Closed b = (Returned (Admission r), b'))
   \<and> (\<not> locked b \<longrightarrow>
        (\<exists>sent b'. solo boundary_step (replicate 6 False) (Export_Lock n) b
                     = (Returned (Exporting sent), b'))
        \<and> (\<exists>b'. solo boundary_step (replicate 6 False) Sweep_Lock b = (Returned Swept, b')))"
proof -
  have six: "replicate 6 False = [False, False, False, False, False, False]"
    by (simp add: numeral_eq_Suc)
  have "\<exists>r b'. solo boundary_step (replicate 6 False) Admit_Closed b = (Returned (Admission r), b')"
    by (simp add: six)
  moreover have "\<exists>sent b'. solo boundary_step (replicate 6 False) (Export_Lock n) b
      = (Returned (Exporting sent), b')" if "\<not> locked b"
    using that by (cases "finalized b") (auto simp: six)
  moreover have "\<exists>b'. solo boundary_step (replicate 6 False) Sweep_Lock b = (Returned Swept, b')"
    if "\<not> locked b"
    using that by (simp add: six)
  ultimately show ?thesis
    by (blast intro: calls_of_one_caller dest: boundary_alone.solo_returned)
qed

lemma undisturbed_calls_sequential_witness:
  "try_admit (boundary_new 1) = (Admitted, (boundary_new 1)\<lparr>pending := 1\<rparr>)
   \<and> \<not> locked (boundary_pool_new 1)
   \<and> (\<exists>b'. solo boundary_step [False, False, False, False, False, False] Sweep_Lock (boundary_pool_new 1)
            = (Returned Swept, b'))"
proof -
  have "solo boundary_step [False, False, True, False, False, False] Admit_Closed
      (boundary_pool_new 1)
    = (Returned (Admission Admitted), (boundary_pool_new 1)\<lparr>pending := 1, sdk_queue := 1\<rparr>)"
    by (simp add: boundary_pool_new_def)
  from undisturbed_calls_sequential [of "[False, False, True, False, False, False]"
      "boundary_pool_new 1" Admitted "(boundary_pool_new 1)\<lparr>pending := 1, sdk_queue := 1\<rparr>"]
    this
  show ?thesis
    by (simp add: boundary_pool_new_def boundary_new_def boundary.truncate_def)
qed

subsection \<open>What the boundary guarantees\<close>

text \<open>
  C12: However callers, the worker and the shutdown interleave: at most \<open>capacity\<close> places are ever
  taken, the SDK's queue never holds more than \<open>capacity\<close> records and no admitted record finds it
  full, so the SDK drops none; and until the counter is swept at shutdown it is exactly the
  records in the queue, on their way to it or on their way out of it, and the places of callers
  that are still being decided.
\<close>

theorem sdk_queue_never_overflows:
  assumes "pool_reachable boundary_step boundary_call (boundary_pool_new c) T b"
  shows "pending b \<le> c \<and> sdk_queue b \<le> c \<and> overflowed b = 0
    \<and> (Admit_Send \<in># T \<longrightarrow> sdk_queue b < capacity b)
    \<and> (\<not> finalized b \<longrightarrow>
         pending b = sdk_queue b + tally sending T + tally removed T + tally provisional T)"
proof -
  have occ: "occupancy_inv c T b" and phase: "phase_inv T b"
    using assms by (rule occupancy.reachable_inv, rule phase.reachable_inv)
  have "Admit_Send \<in># T \<Longrightarrow> 0 < tally sending T"
    by (auto dest!: multi_member_split)
  with occ phase show ?thesis
    by (auto simp: occupancy_inv_def phase_inv_def)
qed

text \<open>
  C14: The drop counter is exact until shutdown and never too small afterwards: it is the number of
  refused records and of the records found pending by the sweep, up to the drops whose count is
  under way; the observer was told the same number; each admitted record is in the queue, in the
  worker's hands, exported or discarded; and after the sweep all that were admitted and not
  exported are among the swept ones.
\<close>

theorem drops_accounted:
  assumes "pool_reachable boundary_step boundary_call (boundary_pool_new c) T b" "c < 2 ^ 64"
  shows "dropped b + word_of_nat (tally uncounted T) = word_of_nat (refused b + swept b)
    \<and> observed_total (observed b) + word_of_nat (tally unobserved T) = dropped b
    \<and> refused b = tally dropping T + tally (place_of QueueFull) T + tally (place_of PipelineClosed) T
    \<and> (\<not> finalized b \<longrightarrow> swept b = 0)
    \<and> tally (place_of Admitted) T = sdk_queue b + tally removed T + exported b + discarded b
    \<and> (0 < sweeps b \<longrightarrow> tally (place_of Admitted) T + tally sending T - exported b \<le> swept b)"
proof -
  have drops: "drops_inv c T b" and ledger: "ledger_inv T b"
    and occ: "occupancy_inv c T b" and phase: "phase_inv T b"
    using assms(1)
    by (rule drops.reachable_inv, rule ledger.reachable_inv, rule occupancy.reachable_inv,
        rule phase.reachable_inv)
  have "\<not> finalized b \<longrightarrow> swept b = 0"
    using occ phase by (simp add: occupancy_inv_def phase_inv_def)
  moreover have "0 < sweeps b \<longrightarrow> tally (place_of Admitted) T + tally sending T - exported b \<le> swept b"
    using ledger by (auto simp: ledger_inv_def)
  ultimately show ?thesis
    using drops ledger assms(2) unfolding drops_inv_def ledger_inv_def by blast
qed

lemma first_place:
  "pool_reachable boundary_step boundary_call (boundary_pool_new 1) {#Admit_Recheck#}
     ((boundary_pool_new 1)\<lparr>pending := 1\<rparr>)"
proof -
  have "solo boundary_step [False, False, False] Admit_Closed (boundary_pool_new 1)
      = (Admit_Recheck, (boundary_pool_new 1)\<lparr>pending := 1\<rparr>)"
    by (simp add: boundary_pool_new_def)
  from pool_solo [OF pool_call [OF pool_initial] this] show ?thesis
    by simp
qed

text \<open>
  The number of dropped records can be too large by the callers that are between taking a place
  and looking at the flag again when the counter is swept: with one record offered and refused,
  and none admitted, the run below ends with two dropped records.
\<close>

lemma swept_place_counted_twice:
  "\<exists>b. pool_reachable boundary_step boundary_call (boundary_pool_new 1)
         {#Returned (Admission PipelineClosed), Returned Swept#} b
     \<and> dropped b = 2 \<and> refused b = 1 \<and> swept b = 1"
proof -
  let ?held = "(boundary_pool_new 1)\<lparr>pending := 1\<rparr>"
  let ?swept = "?held\<lparr>closed := True, finalized := True, pending := 0, sweeps := 1, swept := 1,
    dropped := 1, observed := [(telemetry_drop_reason.PipelineClosed, 1)]\<rparr>"
  let ?done = "?swept\<lparr>dropped := 2, refused := 1, observed :=
    [(telemetry_drop_reason.PipelineClosed, 1), (telemetry_drop_reason.PipelineClosed, 1)]\<rparr>"
  have 2: "solo boundary_step [False, False, False, False, False, False, False] Shutdown_Close ?held = (Returned Swept, ?swept)"
    by (simp add: boundary_pool_new_def)
  have 3: "solo boundary_step [False, False, False, False, False] Admit_Recheck ?swept
      = (Returned (Admission PipelineClosed), ?done)"
    by (simp add: boundary_pool_new_def refusal_def)
  from first_place have "pool_reachable boundary_step boundary_call (boundary_pool_new 1)
      {#Returned Swept, Admit_Recheck#} ?swept"
    by (rule pool_solo [OF pool_call 2]) simp
  then have "pool_reachable boundary_step boundary_call (boundary_pool_new 1)
      (add_mset Admit_Recheck {#Returned Swept#}) ?swept"
    by (simp add: add_mset_commute)
  from pool_solo [OF this 3] show ?thesis
    by (intro exI [of _ ?done]) (simp add: boundary_pool_new_def)
qed

text \<open>A run with one admitted and one refused record, for the witnesses.\<close>

definition sample_boundary :: boundary_pool where
  "sample_boundary =
     \<lparr>capacity = 1, pending = 1, dropped = 1, failed_exports = 0, closed = False,
      finalized = False, observed = [(telemetry_drop_reason.QueueFull, 1)], locked = False,
      sdk_queue = 1, overflowed = 0, sweeps = 0, refused = 1, swept = 0, exported = 0,
      discarded = 0\<rparr>"

lemma sample_boundary_run:
  "pool_reachable boundary_step boundary_call (boundary_pool_new 1)
     {#Returned (Admission QueueFull), Returned (Admission Admitted)#} sample_boundary"
proof -
  let ?one = "(boundary_pool_new 1)\<lparr>pending := 1, sdk_queue := 1\<rparr>"
  have 1: "solo boundary_step [False, False, False, False, False] Admit_Closed (boundary_pool_new 1)
      = (Returned (Admission Admitted), ?one)"
    by (simp add: boundary_pool_new_def)
  have 2: "solo boundary_step [False, False, False, False, False] Admit_Closed ?one
      = (Returned (Admission QueueFull), sample_boundary)"
    by (simp add: boundary_pool_new_def sample_boundary_def refusal_def)
  have "pool_reachable boundary_step boundary_call (boundary_pool_new 1)
      {#Returned (Admission Admitted)#} ?one"
    by (rule pool_solo [OF pool_call 1]) (simp_all add: pool_initial)
  from pool_solo [OF pool_call [OF this] 2] show ?thesis
    by simp
qed

lemma sdk_queue_never_overflows_witness:
  "\<not> finalized sample_boundary \<and> pending sample_boundary = 1 \<and> sdk_queue sample_boundary \<le> 1"
  using sdk_queue_never_overflows [OF sample_boundary_run] by (simp add: sample_boundary_def)

lemma drops_accounted_witness:
  "refused sample_boundary = 1 \<and> dropped sample_boundary = 1
   \<and> observed_total (observed sample_boundary) = 1"
  using drops_accounted [OF sample_boundary_run]
  by (simp add: sample_boundary_def place_of_def)

subsection \<open>Refinement of a gate\<close>

text \<open>
  What the boundary promises, without threads: records enter while the gate is open and fewer than
  \<open>capacity\<close> are inside, are turned away, leave in batches, or are given up after the gate closed.
\<close>

record gate =
  gate_open :: bool
  inside :: nat
  turned_away :: nat
  left_by_export :: nat
  given_up :: nat

inductive gate_step :: "nat \<Rightarrow> gate \<Rightarrow> gate \<Rightarrow> bool" for c where
  gate_enter: "\<lbrakk>gate_open g; inside g < c\<rbrakk> \<Longrightarrow> gate_step c g (g\<lparr>inside := inside g + 1\<rparr>)"
| gate_refuse: "gate_step c g (g\<lparr>turned_away := turned_away g + 1\<rparr>)"
| gate_leave:
    "n \<le> inside g
     \<Longrightarrow> gate_step c g (g\<lparr>inside := inside g - n, left_by_export := left_by_export g + n\<rparr>)"
| gate_give_up:
    "\<lbrakk>\<not> gate_open g; n \<le> inside g\<rbrakk>
     \<Longrightarrow> gate_step c g (g\<lparr>inside := inside g - n, given_up := given_up g + n\<rparr>)"
| gate_close: "gate_step c g (g\<lparr>gate_open := False\<rparr>)"

definition gate_of :: "boundary_thread multiset \<Rightarrow> boundary_pool \<Rightarrow> gate" where
  "gate_of T b =
     \<lparr>gate_open = (\<not> closed b),
      inside = sdk_queue b + tally sending T + tally removed T,
      turned_away = refused b, left_by_export = exported b, given_up = discarded b\<rparr>"

text \<open>
  C13: The threads implement the gate: in every reachable state, a step of any thread is a step of
  the gate or invisible to it, and so is a new call. In particular a record is admitted only while
  the boundary is open and holds fewer than \<open>capacity\<close> records, at the moment of the second look
  at the flag, and nothing leaves but in the batches of the worker.
\<close>

theorem boundary_refines_gate:
  assumes "pool_reachable boundary_step boundary_call (boundary_pool_new c) (add_mset t T) b"
    and "boundary_step w t b = Some (t', b')"
  shows "gate_step c (gate_of (add_mset t T) b) (gate_of (add_mset t' T) b')
    \<or> gate_of (add_mset t' T) b' = gate_of (add_mset t T) b"
proof -
  have occ: "occupancy_inv c (add_mset t T) b" and phase: "phase_inv (add_mset t T) b"
    using assms(1) by (rule occupancy.reachable_inv, rule phase.reachable_inv)
  note step = assms(2)
  show ?thesis
  proof (cases t)
    case Admit_Recheck
    show ?thesis
    proof (cases "closed b")
      case False
      then have "inside (gate_of (add_mset t T) b) < c"
        using Admit_Recheck occ phase by (simp add: gate_of_def occupancy_inv_def phase_inv_def)
      with gate_enter [of "gate_of (add_mset t T) b" c] False Admit_Recheck step show ?thesis
        by (simp add: gate_of_def; clarify?; simp?)
    qed (use Admit_Recheck step in \<open>simp add: gate_of_def; clarify?; simp?\<close>)
  next
    case Admit_Send
    with step occ show ?thesis
      by (simp add: gate_of_def occupancy_inv_def; clarify?; simp?)
  next
    case (Drop_Count reason)
    with step gate_refuse [of c "gate_of (add_mset t T) b"] show ?thesis
      by (simp add: gate_of_def; clarify?; simp?)
  next
    case (Release_Exchange caller n seen)
    with step gate_leave [of n "gate_of (add_mset t T) b" c] show ?thesis
      by (simp add: gate_of_def split: if_splits; clarify?; simp add: ac_simps)
  next
    case (Export_Check n)
    with step gate_give_up [of "gate_of (add_mset t T) b" n c] phase show ?thesis
      by (simp add: gate_of_def phase_inv_def split: if_splits; clarify?; simp add: ac_simps)
  next
    case Shutdown_Close
    with step gate_close [of c "gate_of (add_mset t T) b"] show ?thesis
      by (simp add: gate_of_def; clarify?; simp?)
  qed (use step in \<open>simp add: gate_of_def split: if_splits; clarify?; simp?\<close>)+
qed

lemma boundary_refines_gate_witness:
  "gate_step 1 \<lparr>gate_open = True, inside = 0, turned_away = 0, left_by_export = 0, given_up = 0\<rparr>
     \<lparr>gate_open = True, inside = 1, turned_away = 0, left_by_export = 0, given_up = 0\<rparr>"
  using boundary_refines_gate [OF first_place, of False Admit_Send]
  by (simp add: gate_of_def boundary_pool_new_def)

end
