(* ===== verification/Otlp_Client.thy ===== *)
theory Otlp_Client
  imports Admission_Boundary
begin

section \<open>The OTLP HTTP client\<close>

text \<open>
  \<open>src/telemetry/http_client.rs\<close>: the HTTP client given to the OTLP exporters wraps another one and
  classifies what goes wrong. The wrapped client's answer and the protobuf decoders of the two
  response messages are parameters; a \<open>reqwest::Error\<close> is known by the questions the code asks it.
  The state is the shared counter of classified failures and the diagnostics observer.

  The last part follows a failed export from the HTTP client through \<open>observe_export\<close> of
  \<open>src/telemetry/queue.rs\<close>: it is reported once per classified attempt, and once when the HTTP
  client classified none.
\<close>

subsection \<open>Classification\<close>

record reqwest_error =
  is_timeout :: bool
  error_status :: "16 word option"
  is_connect :: bool
  is_builder :: bool
  is_redirect :: bool

text \<open>A boxed error of the wrapped client, which may be one of reqwest's.\<close>

datatype http_error = Reqwest reqwest_error | Foreign_Error | InvalidOtlpResponse

record classified_http_failure =
  http_reason :: telemetry_export_failure_reason
  http_context :: export_failure_context

definition http_failure_new :: "telemetry_export_failure_reason \<Rightarrow> classified_http_failure" where
  "http_failure_new reason =
     \<lparr>http_reason = reason, http_context = export_failure_context_default\<rparr>"

definition http_failure_with_status ::
  "telemetry_export_failure_reason \<Rightarrow> 16 word \<Rightarrow> classified_http_failure" where
  "http_failure_with_status reason s =
     \<lparr>http_reason = reason, http_context = context_with_status s\<rparr>"

definition http_failure_with_detail ::
  "telemetry_export_failure_reason \<Rightarrow> export_failure_detail \<Rightarrow> classified_http_failure" where
  "http_failure_with_detail reason d =
     \<lparr>http_reason = reason, http_context = context_with_detail d\<rparr>"

definition classify_reqwest_error :: "reqwest_error \<Rightarrow> classified_http_failure" where
  "classify_reqwest_error e =
     (if is_timeout e then http_failure_new telemetry_export_failure_reason.Timeout
      else case error_status e of
        Some s \<Rightarrow> http_failure_with_status telemetry_export_failure_reason.HttpResponse s
      | None \<Rightarrow>
          http_failure_with_detail telemetry_export_failure_reason.Transport
            (if is_connect e then export_failure_detail.Connect
             else if is_builder e then export_failure_detail.RequestBuilder
             else if is_redirect e then export_failure_detail.Redirect
             else export_failure_detail.Request))"

subsection \<open>Sending\<close>

type_synonym observing_state = "64 word \<times> diagnostics_observer"

definition record_http_failure ::
  "telemetry_signal \<Rightarrow> classified_http_failure \<Rightarrow> observing_state \<Rightarrow> observing_state" where
  "record_http_failure signal failure s =
     (fst s + 1,
      export_failure_with_context signal (http_reason failure) (http_context failure) (snd s))"

text \<open>The failure a request is classified as, if it is one.\<close>

definition classify_answer ::
  "(byte list \<Rightarrow> bool) \<Rightarrow> (http_error, byte list) result \<Rightarrow> classified_http_failure option" where
  "classify_answer decodes answer = (case answer of
     Inl (Reqwest e) \<Rightarrow> Some (classify_reqwest_error e)
   | Inl _ \<Rightarrow> Some (http_failure_new telemetry_export_failure_reason.Transport)
   | Inr body \<Rightarrow>
       if decodes body then None
       else Some (http_failure_new telemetry_export_failure_reason.Encoding))"

definition send_bytes ::
  "(telemetry_signal \<Rightarrow> byte list \<Rightarrow> bool) \<Rightarrow> telemetry_signal \<Rightarrow> (http_error, byte list) result
   \<Rightarrow> observing_state \<Rightarrow> (http_error, byte list) result \<times> observing_state" where
  "send_bytes decodes signal answer s = (case answer of
     Inl e \<Rightarrow>
       (Err e, record_http_failure signal
          (case e of Reqwest r \<Rightarrow> classify_reqwest_error r
           | _ \<Rightarrow> http_failure_new telemetry_export_failure_reason.Transport) s)
   | Inr body \<Rightarrow>
       if decodes signal body then (Ok body, s)
       else (Err InvalidOtlpResponse,
             record_http_failure signal
               (http_failure_new telemetry_export_failure_reason.Encoding) s))"

text \<open>An exporter's attempts, one after the other.\<close>

fun send_all ::
  "(telemetry_signal \<Rightarrow> byte list \<Rightarrow> bool) \<Rightarrow> telemetry_signal \<Rightarrow> (http_error, byte list) result list
   \<Rightarrow> observing_state \<Rightarrow> observing_state" where
  "send_all decodes signal [] s = s"
| "send_all decodes signal (a # as) s =
     send_all decodes signal as (snd (send_bytes decodes signal a s))"

subsection \<open>Properties\<close>

lemma send_bytes_classified:
  "snd (send_bytes decodes signal answer s) =
     (case classify_answer (decodes signal) answer of None \<Rightarrow> s
      | Some f \<Rightarrow> record_http_failure signal f s)"
  by (auto simp: send_bytes_def classify_answer_def split: sum.splits http_error.splits)

definition failure_calls ::
  "telemetry_signal \<Rightarrow> classified_http_failure list \<Rightarrow> metrics" where
  "failure_calls signal fs = map (\<lambda>f. Inc (TelemetryExportFailures signal (http_reason f))) fs"

lemma send_all_effect:
  "fst (send_all decodes signal as s)
     = fst s + word_of_nat (length (List.map_filter (classify_answer (decodes signal)) as))"
  "observer_metrics (snd (send_all decodes signal as s))
     = observer_metrics (snd s)
       @ failure_calls signal (List.map_filter (classify_answer (decodes signal)) as)"
  by (induction as arbitrary: s)
    (simp_all add: send_bytes_classified record_http_failure_def failure_calls_def
      export_failure_with_context_def write_failure_def record_telemetry_export_failure_def
      List.map_filter_simps add.assoc split: option.splits)

text \<open>
  C29: A batch that the boundary lets through is exported in any number of HTTP attempts: if the
  export fails, \<open>failed_exports\<close> grows by one and the failures reported to the metrics are exactly
  the classified attempts, in order, or the one reason of the SDK's error when no attempt was
  classified; if it succeeds, the classified attempts alone are reported and \<open>failed_exports\<close>
  stays. Either way the places of the batch are given back before it is sent.
\<close>

theorem failed_export_reported_once:
  assumes send: "\<And>s. send n s = (r, send_all decodes signal attempts s)"
    and "\<not> finalized b" "length attempts < 2 ^ 64"
    and run: "export_batch signal send n (b, classified, ob) = (r', b', classified', ob')"
  shows "r' = r \<and> pending b' = pending b - n
    \<and> failed_exports b' = failed_exports b + (case r of Inl _ \<Rightarrow> 1 | Inr _ \<Rightarrow> 0)
    \<and> observer_metrics ob' = observer_metrics ob @
        (let fs = List.map_filter (classify_answer (decodes signal)) attempts
         in case r of
              Inl e \<Rightarrow>
                if fs = [] then [Inc (TelemetryExportFailures signal (sdk_failure_reason e))]
                else failure_calls signal fs
            | Inr _ \<Rightarrow> failure_calls signal fs)"
proof -
  let ?fs = "List.map_filter (classify_answer (decodes signal)) attempts"
  have len: "length ?fs \<le> length attempts"
    by (induction attempts) (auto simp: List.map_filter_simps split: option.splits)
  have none: "(word_of_nat (length ?fs) :: 64 word) = 0 \<longleftrightarrow> ?fs = []"
    using len assms(3) dvd_imp_le [of "2 ^ 64" "length ?fs"]
    by (auto simp: word_of_nat_eq_0_iff)
  obtain c2 o2 where sent: "send_all decodes signal attempts (classified, ob) = (c2, o2)"
    by (cases "send_all decodes signal attempts (classified, ob)")
  with send_all_effect [of decodes signal attempts "(classified, ob)"]
  have c2: "c2 = classified + word_of_nat (length ?fs)"
    and o2: "observer_metrics o2 = observer_metrics ob @ failure_calls signal ?fs"
    by simp_all
  show ?thesis
  proof (cases r)
    case (Inl e)
    with run assms(2) sent o2 show ?thesis
      by (cases "?fs = []")
        (auto simp: export_batch_def begin_export_def release_def send observe_export_def c2 none
          record_sdk_failure_def export_failure_def export_failure_with_context_def
          write_failure_def record_telemetry_export_failure_def failure_calls_def Let_def)
  next
    case (Inr u)
    with run assms(2) sent o2 show ?thesis
      by (auto simp: export_batch_def begin_export_def release_def send observe_export_def Let_def)
  qed
qed

lemma failed_export_reported_once_witness:
  "observer_metrics
     (snd (snd (snd (export_batch telemetry_signal.Trace
        (\<lambda>n s. (Err (InternalFailure []),
           send_all (\<lambda>_ body. body = []) telemetry_signal.Trace
             [Err (Reqwest \<lparr>is_timeout = False, error_status = Some 503, is_connect = False,
                is_builder = False, is_redirect = False\<rparr>), Ok []] s))
        2 ((boundary_new 3)\<lparr>pending := 2\<rparr>, 0, diagnostics_observer_new []))))) =
   [Inc (TelemetryExportFailures telemetry_signal.Trace
      telemetry_export_failure_reason.HttpResponse)]"
proof -
  define attempts :: "(http_error, byte list) result list" where "attempts =
    [Err (Reqwest \<lparr>is_timeout = False, error_status = Some 503, is_connect = False,
       is_builder = False, is_redirect = False\<rparr>), Ok []]"
  define b where "b = (boundary_new 3)\<lparr>pending := 2\<rparr>"
  obtain r' b' c' ob' where run: "export_batch telemetry_signal.Trace
      (\<lambda>n s. (Err (InternalFailure []),
         send_all (\<lambda>_ body. body = []) telemetry_signal.Trace attempts s))
      2 (b, 0, diagnostics_observer_new []) = (r', b', c', ob')"
    by (metis prod_cases4)
  have "\<not> finalized b" "length attempts < 2 ^ 64"
    by (simp_all add: b_def boundary_new_def attempts_def)
  from failed_export_reported_once [OF refl this run]
  show ?thesis
    using run by (simp add: attempts_def b_def List.map_filter_simps classify_answer_def
        classify_reqwest_error_def http_failure_with_status_def failure_calls_def
        diagnostics_observer_new_def)
qed

end
