(* ===== verification/Telemetry_Runtime.thy ===== *)
theory Telemetry_Runtime
  imports Otlp_Client Config Workflow_Emit
begin

section \<open>The telemetry runtime\<close>

text \<open>
  \<open>src/telemetry.rs\<close>: which pipelines are built from the configuration, what is exported remotely,
  and the one bounded shutdown of all of them. The builders of the OpenTelemetry and Sentry crates
  and the environment filter are parameters (\<open>telemetry_lib\<close>); a provider is known by whether the
  runtime still owns it.

  The shutdown waits on a channel: \<open>shutdown_event\<close> is what one turn of the waiting loop finds.
  What the providers do to the queues meanwhile is the parameter \<open>drain\<close>.
\<close>

subsection \<open>What is exported\<close>

definition INSTRUMENTATION_SCOPE :: string where
  "INSTRUMENTATION_SCOPE = ''github_webhook_exporter''"

definition LOCAL_ONLY_LOG_TARGET :: string where
  "LOCAL_ONLY_LOG_TARGET = ''github_webhook_exporter::local_only''"

definition is_application_target :: "rstring \<Rightarrow> bool" where
  "is_application_target target \<longleftrightarrow>
     target = lit INSTRUMENTATION_SCOPE
     \<or> (case strip_prefix (lit INSTRUMENTATION_SCOPE) target of
          None \<Rightarrow> False
        | Some suffix \<Rightarrow> strip_prefix (lit ''::'') suffix \<noteq> None)"

definition is_remote_log_target :: "rstring \<Rightarrow> bool" where
  "is_remote_log_target target \<longleftrightarrow>
     target \<noteq> lit LOCAL_ONLY_LOG_TARGET \<and> is_application_target target"

record event_metadata =
  metadata_target :: rstring
  metadata_is_span :: bool

definition application_log_metadata :: "event_metadata \<Rightarrow> bool" where
  "application_log_metadata m \<longleftrightarrow> is_remote_log_target (metadata_target m)"

definition application_trace_metadata :: "event_metadata \<Rightarrow> bool" where
  "application_trace_metadata m \<longleftrightarrow> metadata_is_span m \<and> is_application_target (metadata_target m)"

subsection \<open>The runtime\<close>

datatype telemetry_state = Disabled | Enabled

datatype telemetry_shutdown_outcome = Completed | Failed | TimedOut

datatype telemetry_error =
    InvalidFilter | TraceExporter | LogExporter | SentryClient | AlreadyInitialized | Flush

record telemetry_runtime =
  tr_state :: telemetry_state
  tr_tracer_provider :: bool
  tr_logger_provider :: bool
  tr_sentry_client :: bool
  tr_workflow_trace_emitter :: workflow_trace_emitter
  tr_trace_queue :: "boundary option"
  tr_log_queue :: "boundary option"
  tr_diagnostics :: diagnostics_observer
  tr_shutdown_outcome :: "telemetry_shutdown_outcome option"

definition map_or :: "'b \<Rightarrow> ('a \<Rightarrow> 'b) \<Rightarrow> 'a option \<Rightarrow> 'b" where
  "map_or d f x = (case x of None \<Rightarrow> d | Some v \<Rightarrow> f v)"

definition dropped_trace_records :: "telemetry_runtime \<Rightarrow> 64 word" where
  "dropped_trace_records r = map_or 0 dropped (tr_trace_queue r)"

definition dropped_log_records :: "telemetry_runtime \<Rightarrow> 64 word" where
  "dropped_log_records r = map_or 0 dropped (tr_log_queue r)"

definition failed_trace_exports :: "telemetry_runtime \<Rightarrow> 64 word" where
  "failed_trace_exports r = map_or 0 failed_exports (tr_trace_queue r)"

definition failed_log_exports :: "telemetry_runtime \<Rightarrow> 64 word" where
  "failed_log_exports r = map_or 0 failed_exports (tr_log_queue r)"

definition pending_trace_records :: "telemetry_runtime \<Rightarrow> nat" where
  "pending_trace_records r = map_or 0 pending (tr_trace_queue r)"

definition pending_log_records :: "telemetry_runtime \<Rightarrow> nat" where
  "pending_log_records r = map_or 0 pending (tr_log_queue r)"

text \<open>
  \<open>force_flush\<close>: each provider's answer, asked only where the runtime owns it; all three are asked
  before the answers are looked at.
\<close>

definition force_flush ::
  "(otel_sdk_error, unit) result \<Rightarrow> (otel_sdk_error, unit) result \<Rightarrow> bool \<Rightarrow> telemetry_runtime
   \<Rightarrow> (telemetry_error, unit) result" where
  "force_flush trace_answer log_answer sentry_answer r =
     (let trace_failed = tr_tracer_provider r \<and> isl trace_answer;
          log_failed = tr_logger_provider r \<and> isl log_answer;
          sentry_flushed = (\<not> tr_sentry_client r \<or> sentry_answer)
      in if trace_failed \<or> log_failed \<or> \<not> sentry_flushed then Err Flush else Ok ())"

subsection \<open>Building the pipelines\<close>

record telemetry_lib =
  env_filter_ok :: "rstring \<Rightarrow> bool"
  http_client_builds :: "nat \<Rightarrow> bool"
  sentry_http_client_builds :: "nat \<Rightarrow> bool"
  sentry_dsn_parses :: "rstring \<Rightarrow> bool"
  sentry_client_enabled :: "rstring \<Rightarrow> rstring \<Rightarrow> bool"
  span_exporter_builds :: "exporter_settings \<Rightarrow> bool"
  log_exporter_builds :: "exporter_settings \<Rightarrow> bool"
  provider_tracer :: "(rstring \<times> rstring) list \<Rightarrow> rstring \<Rightarrow> tracer"

definition telemetry_resource :: "rstring \<Rightarrow> telemetry_config \<Rightarrow> (rstring \<times> rstring) list" where
  "telemetry_resource version config =
     (lit ''service.name'', tc_service_name config)
     # (lit ''service.version'', version) # tc_resource_attributes config"

definition build_trace_provider ::
  "telemetry_lib \<Rightarrow> exporter_settings \<Rightarrow> telemetry_config \<Rightarrow> (rstring \<times> rstring) list
   \<Rightarrow> (telemetry_error, tracer \<times> boundary) result" where
  "build_trace_provider lib settings config resource =
     (if \<not> http_client_builds lib (es_timeout settings) then Err TraceExporter
      else if \<not> span_exporter_builds lib settings then Err TraceExporter
      else Ok (provider_tracer lib resource (lit INSTRUMENTATION_SCOPE),
               boundary_new (tc_queue_capacity config)))"

definition build_log_provider ::
  "telemetry_lib \<Rightarrow> exporter_settings \<Rightarrow> telemetry_config \<Rightarrow> (telemetry_error, boundary) result" where
  "build_log_provider lib settings config =
     (if \<not> http_client_builds lib (es_timeout settings) then Err LogExporter
      else if \<not> log_exporter_builds lib settings then Err LogExporter
      else Ok (boundary_new (tc_queue_capacity config)))"

definition build_sentry_client_with_transport ::
  "telemetry_lib \<Rightarrow> rstring \<Rightarrow> rstring \<Rightarrow> (telemetry_error, unit) result" where
  "build_sentry_client_with_transport lib dsn service_name =
     (if \<not> sentry_dsn_parses lib dsn then Err SentryClient
      else if \<not> sentry_client_enabled lib dsn service_name then Err SentryClient
      else Ok ())"

definition build_sentry_client ::
  "telemetry_lib \<Rightarrow> rstring \<Rightarrow> rstring \<Rightarrow> nat \<Rightarrow> (telemetry_error, unit) result" where
  "build_sentry_client lib dsn service_name request_timeout =
     (if \<not> sentry_http_client_builds lib request_timeout then Err SentryClient
      else build_sentry_client_with_transport lib dsn service_name)"

definition sentry_client_of ::
  "telemetry_lib \<Rightarrow> telemetry_config \<Rightarrow> (telemetry_error, unit option) result" where
  "sentry_client_of lib config = (case tc_sentry_dsn config of
     None \<Rightarrow> Ok None
   | Some dsn \<Rightarrow>
       and_then (ok_or SentryClient (tc_trace_exporter config)) (\<lambda>settings.
       and_then (build_sentry_client lib dsn (tc_service_name config) (es_timeout settings)) (\<lambda>client.
       Ok (Some client))))"

definition build_runtime ::
  "telemetry_lib \<Rightarrow> rstring \<Rightarrow> rstring \<Rightarrow> telemetry_config \<Rightarrow> metrics
   \<Rightarrow> (telemetry_error, telemetry_runtime) result" where
  "build_runtime lib version rust_log config m =
     (if \<not> env_filter_ok lib rust_log then Err InvalidFilter
      else
        let resource = telemetry_resource version config in
        and_then (sentry_client_of lib config) (\<lambda>sentry.
        and_then (map_transpose (\<lambda>settings. build_trace_provider lib settings config resource)
            (tc_trace_exporter config)) (\<lambda>trace.
        and_then (map_transpose (\<lambda>settings. build_log_provider lib settings config)
            (tc_log_exporter config)) (\<lambda>log_queue.
        Ok \<lparr>tr_state = (if telemetry_is_enabled config then Enabled else Disabled),
            tr_tracer_provider = (trace \<noteq> None), tr_logger_provider = (log_queue \<noteq> None),
            tr_sentry_client = (sentry \<noteq> None),
            tr_workflow_trace_emitter =
              map_or emitter_disabled (\<lambda>(tracer, _).
                if sentry = None then emitter_new tracer
                else emitter_new_with_error_reporter tracer) trace,
            tr_trace_queue = map_option snd trace, tr_log_queue = log_queue,
            tr_diagnostics = diagnostics_observer_new m, tr_shutdown_outcome = None\<rparr>))))"

definition telemetry_init ::
  "telemetry_lib \<Rightarrow> bool \<Rightarrow> rstring \<Rightarrow> rstring \<Rightarrow> telemetry_config \<Rightarrow> metrics
   \<Rightarrow> (telemetry_error, telemetry_runtime) result" where
  "telemetry_init lib already_installed version rust_log config m =
     and_then (build_runtime lib version rust_log config m) (\<lambda>r.
     if already_installed then Err AlreadyInitialized else Ok r)"

subsection \<open>The shutdown tasks\<close>

datatype shutdown_task_kind = Trace | Log | Sentry

definition slot :: "shutdown_task_kind \<Rightarrow> nat" where
  "slot k = (case k of
     shutdown_task_kind.Trace \<Rightarrow> 0
   | shutdown_task_kind.Log \<Rightarrow> 1
   | shutdown_task_kind.Sentry \<Rightarrow> 2)"

definition report_shutdown_issue ::
  "shutdown_task_kind \<Rightarrow> sentry_shutdown_failure_reason \<Rightarrow> diagnostics_observer
   \<Rightarrow> diagnostics_observer" where
  "report_shutdown_issue kind reason ob =
     (let metric_reason = (case reason of
            sentry_shutdown_failure_reason.Shutdown \<Rightarrow> telemetry_export_failure_reason.Shutdown
          | sentry_shutdown_failure_reason.Timeout \<Rightarrow> telemetry_export_failure_reason.Timeout)
      in case kind of
           shutdown_task_kind.Trace \<Rightarrow> export_failure telemetry_signal.Trace metric_reason ob
         | shutdown_task_kind.Log \<Rightarrow> export_failure telemetry_signal.Log metric_reason ob
         | shutdown_task_kind.Sentry \<Rightarrow> sentry_shutdown_failure reason ob)"

record shutdown_wait =
  sw_pending :: "bool list"
  sw_remaining_tasks :: nat
  sw_failed :: bool
  sw_diagnostics :: diagnostics_observer

definition shutdown_wait_new :: "diagnostics_observer \<Rightarrow> shutdown_wait" where
  "shutdown_wait_new ob = \<lparr>sw_pending = replicate 3 False, sw_remaining_tasks = 0,
     sw_failed = False, sw_diagnostics = ob\<rparr>"

text \<open>Each task with whether its thread could be spawned.\<close>

fun spawn_tasks :: "(shutdown_task_kind \<times> bool) list \<Rightarrow> shutdown_wait \<Rightarrow> shutdown_wait" where
  "spawn_tasks [] w = w"
| "spawn_tasks ((kind, spawned) # tasks) w =
     spawn_tasks tasks
       (if spawned
        then w\<lparr>sw_pending := (sw_pending w)[slot kind := True],
               sw_remaining_tasks := sw_remaining_tasks w + 1\<rparr>
        else w\<lparr>sw_failed := True,
               sw_diagnostics := report_shutdown_issue kind
                 sentry_shutdown_failure_reason.Shutdown (sw_diagnostics w)\<rparr>)"

datatype shutdown_event =
    Deadline_Passed
  | Message shutdown_task_kind bool
  | Receive_Timeout
  | Disconnected

definition receive_message :: "shutdown_task_kind \<Rightarrow> bool \<Rightarrow> shutdown_wait \<Rightarrow> shutdown_wait" where
  "receive_message kind succeeded w =
     (let w = (if sw_pending w ! slot kind
               then w\<lparr>sw_pending := (sw_pending w)[slot kind := False],
                      sw_remaining_tasks := sw_remaining_tasks w - 1\<rparr>
               else w)
      in if succeeded then w
         else w\<lparr>sw_failed := True,
                sw_diagnostics := report_shutdown_issue kind
                  sentry_shutdown_failure_reason.Shutdown (sw_diagnostics w)\<rparr>)"

text \<open>The loop; \<open>None\<close> is a loop that still waits when the given events are used up.\<close>

fun await_shutdown :: "shutdown_event list \<Rightarrow> shutdown_wait \<Rightarrow> shutdown_wait option" where
  "await_shutdown [] w = (if sw_remaining_tasks w = 0 then Some w else None)"
| "await_shutdown (e # es) w =
     (if sw_remaining_tasks w = 0 then Some w
      else case e of
        Message kind succeeded \<Rightarrow> await_shutdown es (receive_message kind succeeded w)
      | _ \<Rightarrow> Some w)"

definition report_unfinished ::
  "bool list \<Rightarrow> diagnostics_observer \<Rightarrow> bool \<times> diagnostics_observer" where
  "report_unfinished ps ob =
     foldl (\<lambda>(timed_out, ob) (kind, unfinished).
         if unfinished
         then (True, report_shutdown_issue kind sentry_shutdown_failure_reason.Timeout ob)
         else (timed_out, ob))
       (False, ob)
       (zip [shutdown_task_kind.Trace, shutdown_task_kind.Log, shutdown_task_kind.Sentry] ps)"

definition run_shutdown_tasks ::
  "(shutdown_task_kind \<times> bool) list \<Rightarrow> shutdown_event list \<Rightarrow> diagnostics_observer
   \<Rightarrow> (telemetry_shutdown_outcome \<times> diagnostics_observer) option" where
  "run_shutdown_tasks tasks events ob =
     (case await_shutdown events (spawn_tasks tasks (shutdown_wait_new ob)) of
        None \<Rightarrow> None
      | Some w \<Rightarrow>
          (case report_unfinished (sw_pending w) (sw_diagnostics w) of (timed_out, ob') \<Rightarrow>
             Some (if timed_out then TimedOut else if sw_failed w then Failed else Completed, ob')))"

definition telemetry_shutdown ::
  "(shutdown_task_kind \<Rightarrow> bool) \<Rightarrow> shutdown_event list \<Rightarrow> (boundary \<Rightarrow> boundary)
   \<Rightarrow> telemetry_runtime \<Rightarrow> (telemetry_shutdown_outcome \<times> telemetry_runtime) option" where
  "telemetry_shutdown spawns events drain r =
     (case tr_shutdown_outcome r of
        Some result \<Rightarrow> Some (result, r)
      | None \<Rightarrow>
          let trace_queue = map_option (drain \<circ> close_boundary) (tr_trace_queue r);
              log_queue = map_option (drain \<circ> close_boundary) (tr_log_queue r);
              tasks =
                (if tr_tracer_provider r then [shutdown_task_kind.Trace] else [])
                @ (if tr_logger_provider r then [shutdown_task_kind.Log] else [])
                @ (if tr_sentry_client r then [shutdown_task_kind.Sentry] else [])
          in case run_shutdown_tasks (map (\<lambda>k. (k, spawns k)) tasks) events (tr_diagnostics r) of
               None \<Rightarrow> None
             | Some (result, ob) \<Rightarrow>
                 Some (result, r\<lparr>tr_tracer_provider := False, tr_logger_provider := False,
                   tr_sentry_client := False,
                   tr_trace_queue := map_option drop_pending trace_queue,
                   tr_log_queue := map_option drop_pending log_queue,
                   tr_diagnostics := ob, tr_shutdown_outcome := Some result\<rparr>))"

end
