(* ===== verification/Config_Properties.thy ===== *)
theory Config_Properties
  imports Config
begin

section \<open>Properties of the configuration\<close>

text \<open>
  The bounds every accepted configuration satisfies, the variables it may depend on, and the values
  that hold when only the three required variables are set.
\<close>

lemma and_then_Err_iff:
  "and_then r f = Err e \<longleftrightarrow> r = Err e \<or> (\<exists>x. r = Ok x \<and> f x = Err e)"
  by (cases r) simp_all

lemma bounded_Ok_iff [simp]: "bounded v m n = Ok k \<longleftrightarrow> n \<le> m \<and> k = n"
  by (auto simp: bounded_def)

lemma parse_u64_bound: "parse_u64 s = Some n \<Longrightarrow> n \<le> u64_max"
  by (simp add: parse_u64_def split: option.splits if_splits)

lemma optional_positive_Ok:
  "optional_positive_u64 l v d = Ok n \<Longrightarrow> d \<le> u64_max \<Longrightarrow> 0 < n \<and> n \<le> u64_max"
  "optional_positive_usize l v d = Ok n \<Longrightarrow> d \<le> u64_max \<Longrightarrow> 0 < n \<and> n \<le> u64_max"
  by (auto simp: optional_positive_u64_def optional_positive_usize_def and_then_Ok_iff
      dest: parse_u64_bound split: option.splits if_splits)

lemma telemetry_queue_Ok:
  assumes "telemetry_queue l = Ok (queue, batch, timeout)"
  shows "0 < batch \<and> batch \<le> queue \<and> queue \<le> u64_max \<and> 0 < timeout"
  using assms optional_positive_Ok
  by (fastforce simp: telemetry_queue_def and_then_Ok_iff config_constants u64_max_def from_secs_def
      split: if_splits)

lemma telemetry_sentry_dsn_Ok: "telemetry_sentry_dsn lib l enabled = Ok (Some d) \<Longrightarrow> enabled"
  by (auto simp: telemetry_sentry_dsn_def and_then_Ok_iff split: if_splits)

lemma telemetry_Ok:
  assumes "telemetry_from_lookup lib l = Ok c"
  shows "0 < tc_batch_size c \<and> tc_batch_size c \<le> tc_queue_capacity c
    \<and> 0 < tc_shutdown_timeout c \<and> tc_service_name c \<noteq> []
    \<and> (tc_sentry_dsn c \<noteq> None \<longrightarrow> tc_trace_exporter c \<noteq> None)"
  using assms telemetry_sentry_dsn_Ok
  by (fastforce simp: telemetry_from_lookup_def telemetry_service_name_def Let_def and_then_Ok_iff
      dest!: telemetry_queue_Ok split: if_splits)

lemma credentials_Ok:
  assumes "credentials lib l = Ok (key, token)"
  shows "\<exists>bytes. key = MasterKey bytes \<and> length bytes = 32" and "32 \<le> byte_len (admin_token_expose token)"
    and "required_string l ''GHE_MASTER_KEY'' \<noteq> Ok (admin_token_expose token)"
  using assms
  by (auto simp: credentials_def and_then_Ok_iff master_key_from_slice_def admin_token_new_def
      config_constants vocab split: if_splits)

lemma retention_Ok:
  assumes "retention_from_lookup l = Ok (d, m, i)"
  shows "0 < d \<and> d \<le> u64_max \<and> 0 < m \<and> m \<le> u64_max \<and> 0 < i \<and> i \<le> u64_max"
  using assms
  by (auto simp: retention_from_lookup_def and_then_Ok_iff days_in_seconds_def config_constants
      u64_max_def dest!: optional_positive_Ok split: if_splits)

lemma webhook_limits_Ok:
  assumes "webhook_limits l = Ok (body, steps)"
  shows "0 < body \<and> body \<le> 2097152 \<and> 0 < steps \<and> steps \<le> 1024"
  using assms
  by (auto simp: webhook_limits_def and_then_Ok_iff config_constants u64_max_def
      dest!: optional_positive_Ok)

lemma required_check_ttl_Ok:
  assumes "required_check_ttl_from_lookup l = Ok n"
  shows "0 < n \<and> n \<le> 86400"
  using assms
  by (auto simp: required_check_ttl_from_lookup_def and_then_Ok_iff config_constants u64_max_def
      dest!: optional_positive_Ok)

lemma shutdown_timeout_Ok: "shutdown_timeout_from_lookup l = Ok n \<Longrightarrow> 0 < n"
  by (auto simp: shutdown_timeout_from_lookup_def and_then_Ok_iff split: if_splits)

lemma github_app_Ok:
  assumes "github_app_from_lookup lib l = Ok (Some app)"
  shows "0 < ga_app_id app \<and> 0 < ga_installation_id app \<and> ga_private_key_pem app \<noteq> []"
proof -
  have p: "optional_positive_u64_variable l v = Ok (Some n) \<Longrightarrow> 0 < n" for v n
    by (auto simp: optional_positive_u64_variable_def parse_positive_def map_transpose_def
        and_then_Ok_iff split: option.splits if_splits)
  have k: "optional_private_key lib l = Ok (Some k) \<Longrightarrow> k \<noteq> []" for k
    by (auto simp: optional_private_key_def Let_def and_then_Ok_iff split: option.splits if_splits)
  obtain x y z where r: "optional_positive_u64_variable l ''GHE_GITHUB_APP_ID'' = Ok x"
    "optional_positive_u64_variable l ''GHE_GITHUB_APP_INSTALLATION_ID'' = Ok y"
    "optional_private_key lib l = Ok z"
    using assms unfolding github_app_from_lookup_def and_then_Ok_iff by blast
  with assms p k show ?thesis
    by (cases x; cases y; cases z) (auto simp: github_app_from_lookup_def and_then_Ok_iff)
qed

subsection \<open>The variables\<close>

definition config_variables :: "string list" where
  "config_variables =
    [''GHE_DATABASE_PATH'', ''GHE_MASTER_KEY'', ''GHE_ADMIN_TOKEN'', ''GHE_BIND_ADDRESS'',
     ''GHE_SHUTDOWN_TIMEOUT_SECONDS'', ''GHE_WEBHOOK_BODY_LIMIT_BYTES'',
     ''GHE_WORKFLOW_JOB_MAX_STEPS'', ''GHE_DELIVERY_RETENTION_DAYS'',
     ''GHE_MERGE_QUEUE_RETENTION_DAYS'', ''GHE_DELIVERY_PRUNE_INTERVAL_SECONDS'',
     ''GHE_REQUIRED_CHECK_TTL_SECONDS'', ''GHE_GITHUB_APP_ID'',
     ''GHE_GITHUB_APP_INSTALLATION_ID'', ''GHE_GITHUB_APP_PRIVATE_KEY_PATH'',
     ''GHE_GITHUB_APP_PRIVATE_KEY'', ''GHE_GITHUB_API_BASE_URL'', ''RUST_LOG'',
     ''GHE_OTEL_QUEUE_CAPACITY'', ''GHE_OTEL_BATCH_SIZE'', ''GHE_OTEL_SHUTDOWN_TIMEOUT_SECONDS'',
     ''OTEL_EXPORTER_OTLP_ENDPOINT'', ''OTEL_EXPORTER_OTLP_TRACES_ENDPOINT'',
     ''OTEL_EXPORTER_OTLP_LOGS_ENDPOINT'', ''OTEL_EXPORTER_OTLP_HEADERS'',
     ''OTEL_EXPORTER_OTLP_TRACES_HEADERS'', ''OTEL_EXPORTER_OTLP_LOGS_HEADERS'',
     ''OTEL_EXPORTER_OTLP_TIMEOUT'', ''OTEL_EXPORTER_OTLP_TRACES_TIMEOUT'',
     ''OTEL_EXPORTER_OTLP_LOGS_TIMEOUT'', ''OTEL_SERVICE_NAME'', ''SENTRY_DSN'',
     ''OTEL_RESOURCE_ATTRIBUTES'']"

lemma config_variables_mem:
  "''GHE_DATABASE_PATH'' \<in> set config_variables"
  "''GHE_MASTER_KEY'' \<in> set config_variables"
  "''GHE_ADMIN_TOKEN'' \<in> set config_variables"
  "''GHE_BIND_ADDRESS'' \<in> set config_variables"
  "''GHE_SHUTDOWN_TIMEOUT_SECONDS'' \<in> set config_variables"
  "''GHE_WEBHOOK_BODY_LIMIT_BYTES'' \<in> set config_variables"
  "''GHE_WORKFLOW_JOB_MAX_STEPS'' \<in> set config_variables"
  "''GHE_DELIVERY_RETENTION_DAYS'' \<in> set config_variables"
  "''GHE_MERGE_QUEUE_RETENTION_DAYS'' \<in> set config_variables"
  "''GHE_DELIVERY_PRUNE_INTERVAL_SECONDS'' \<in> set config_variables"
  "''GHE_REQUIRED_CHECK_TTL_SECONDS'' \<in> set config_variables"
  "''GHE_GITHUB_APP_ID'' \<in> set config_variables"
  "''GHE_GITHUB_APP_INSTALLATION_ID'' \<in> set config_variables"
  "''GHE_GITHUB_APP_PRIVATE_KEY_PATH'' \<in> set config_variables"
  "''GHE_GITHUB_APP_PRIVATE_KEY'' \<in> set config_variables"
  "''GHE_GITHUB_API_BASE_URL'' \<in> set config_variables"
  "''RUST_LOG'' \<in> set config_variables"
  "''GHE_OTEL_QUEUE_CAPACITY'' \<in> set config_variables"
  "''GHE_OTEL_BATCH_SIZE'' \<in> set config_variables"
  "''GHE_OTEL_SHUTDOWN_TIMEOUT_SECONDS'' \<in> set config_variables"
  "''OTEL_EXPORTER_OTLP_ENDPOINT'' \<in> set config_variables"
  "''OTEL_EXPORTER_OTLP_TRACES_ENDPOINT'' \<in> set config_variables"
  "''OTEL_EXPORTER_OTLP_LOGS_ENDPOINT'' \<in> set config_variables"
  "''OTEL_EXPORTER_OTLP_HEADERS'' \<in> set config_variables"
  "''OTEL_EXPORTER_OTLP_TRACES_HEADERS'' \<in> set config_variables"
  "''OTEL_EXPORTER_OTLP_LOGS_HEADERS'' \<in> set config_variables"
  "''OTEL_EXPORTER_OTLP_TIMEOUT'' \<in> set config_variables"
  "''OTEL_EXPORTER_OTLP_TRACES_TIMEOUT'' \<in> set config_variables"
  "''OTEL_EXPORTER_OTLP_LOGS_TIMEOUT'' \<in> set config_variables"
  "''OTEL_SERVICE_NAME'' \<in> set config_variables"
  "''SENTRY_DSN'' \<in> set config_variables"
  "''OTEL_RESOURCE_ATTRIBUTES'' \<in> set config_variables"
  by (simp_all add: config_variables_def)

fun config_error_variable :: "config_error \<Rightarrow> string" where
  "config_error_variable (Missing v) = v"
| "config_error_variable (Invalid v) = v"

text \<open>A result whose error, if any, names one of them.\<close>

definition names_variable :: "(config_error, 'a) result \<Rightarrow> bool" where
  "names_variable r \<longleftrightarrow> (\<forall>e. r = Err e \<longrightarrow> config_error_variable e \<in> set config_variables)"

named_theorems names_variable

lemma names_variable_structure [names_variable]:
  "names_variable (Ok x)"
  "v \<in> set config_variables \<Longrightarrow> names_variable (Err (Invalid v))"
  "v \<in> set config_variables \<Longrightarrow> names_variable (Err (Missing v))"
  "v \<in> set config_variables \<Longrightarrow> names_variable (ok_or (Invalid v) y)"
  "v \<in> set config_variables \<Longrightarrow> names_variable (ok_or (Missing v) y)"
  "v \<in> set config_variables \<Longrightarrow> names_variable (map_err (\<lambda>_. Invalid v) z)"
  by (auto simp: names_variable_def ok_or_def map_err_def split: option.splits sum.splits)

lemma names_variable_and_then [names_variable]:
  "names_variable r \<Longrightarrow> (\<And>x. r = Ok x \<Longrightarrow> names_variable (f x)) \<Longrightarrow> names_variable (and_then r f)"
  by (cases r) (simp_all add: names_variable_def)

lemma names_variable_cases [names_variable]:
  "(x = None \<Longrightarrow> names_variable a) \<Longrightarrow> (\<And>y. x = Some y \<Longrightarrow> names_variable (b y)) \<Longrightarrow>
     names_variable (case x of None \<Rightarrow> a | Some y \<Rightarrow> b y)"
  "(c \<Longrightarrow> names_variable u) \<Longrightarrow> (\<not> c \<Longrightarrow> names_variable v) \<Longrightarrow> names_variable (if c then u else v)"
  "(\<And>y z. p = (y, z) \<Longrightarrow> names_variable (g y z)) \<Longrightarrow> names_variable (case p of (y, z) \<Rightarrow> g y z)"
  by (cases x; simp; fail | cases c; simp; fail | cases p; simp)+

lemma names_variable_map_transpose [names_variable]:
  "(\<And>x. names_variable (f x)) \<Longrightarrow> names_variable (map_transpose f v)"
  by (auto simp: map_transpose_def intro!: names_variable)

lemma names_variable_collect [names_variable]:
  "(\<And>r. r \<in> set rs \<Longrightarrow> names_variable r) \<Longrightarrow> names_variable (collect_results rs)"
  by (induction rs) (auto simp: names_variable_def and_then_Err_iff split: sum.splits)

lemma names_variable_readers [names_variable]:
  assumes "v \<in> set config_variables"
  shows "names_variable (required_os_string l v)" "names_variable (required_string l v)"
    "names_variable (optional_string l v)" "names_variable (optional_positive_u64 l v d)"
    "names_variable (optional_positive_usize l v d)"
    "names_variable (optional_positive_u64_variable l v)" "names_variable (bounded v m n)"
    "names_variable (days_in_seconds v n)" "names_variable (validated_endpoint lib l v)"
    "names_variable (validated_headers lib l v)"
proof -
  have into: "names_variable (into_string v s)" for s
    using assms by (auto simp: into_string_def names_variable_def split: os_string.splits)
  show req: "names_variable (required_os_string l v)" "names_variable (required_string l v)"
    "names_variable (optional_string l v)"
    using assms into unfolding required_os_string_def required_string_def optional_string_def
    by (auto intro!: names_variable)
  have "names_variable (parse_positive v s)" for s
    using assms unfolding parse_positive_def by (auto intro!: names_variable)
  with req assms show "names_variable (optional_positive_u64 l v d)"
    "names_variable (optional_positive_usize l v d)"
    "names_variable (optional_positive_u64_variable l v)" "names_variable (bounded v m n)"
    "names_variable (days_in_seconds v n)" "names_variable (validated_endpoint lib l v)"
    unfolding optional_positive_u64_def optional_positive_usize_def days_in_seconds_def
      optional_positive_u64_variable_def bounded_def validated_endpoint_def
    by (auto intro!: names_variable)
  have "names_variable (validated_header lib v h)" for h
    using assms unfolding validated_header_def by (auto intro!: names_variable)
  with req assms show "names_variable (validated_headers lib l v)"
    unfolding validated_headers_def by (auto intro!: names_variable)
qed

lemma runtime_names_variable: "names_variable (runtime_from_lookup lib l)"
proof -
  have key: "names_variable (optional_private_key lib l)"
    unfolding optional_private_key_def Let_def
    by (auto intro!: names_variable simp: config_variables_mem)
  have att: "names_variable r" if "resource_attribute_of lib a = Some r" for a r
    using that by (auto simp: resource_attribute_of_def names_variable_def config_variables_mem
        Let_def split: option.splits prod.splits if_splits)
  then have res: "names_variable (validated_resource_attributes lib l)"
    unfolding validated_resource_attributes_def
    by (auto intro!: names_variable simp: config_variables_mem List.map_filter_def)
  have "names_variable (github_app_from_lookup lib l)"
    unfolding github_app_from_lookup_def
    by (intro names_variable_and_then; (auto intro!: names_variable key simp: config_variables_mem
          split: option.split)?)
  moreover have "names_variable (telemetry_from_lookup lib l)"
    unfolding telemetry_from_lookup_def telemetry_queue_def telemetry_exporters_def Let_def
      telemetry_service_name_def telemetry_sentry_dsn_def
    by (auto intro!: names_variable res simp: config_variables_mem)
  moreover have "names_variable (credentials lib l)" "names_variable (bind_address_from_lookup lib l)"
    "names_variable (shutdown_timeout_from_lookup l)" "names_variable (webhook_limits l)"
    unfolding credentials_def bind_address_from_lookup_def shutdown_timeout_from_lookup_def
      webhook_limits_def
    by (auto intro!: names_variable simp: config_variables_mem)
  moreover have "names_variable (retention_from_lookup l)"
    "names_variable (required_check_ttl_from_lookup l)" "names_variable (rust_log_from_lookup lib l)"
    "names_variable (database_path_from_lookup l)"
    unfolding retention_from_lookup_def required_check_ttl_from_lookup_def rust_log_from_lookup_def
      database_path_from_lookup_def Let_def
    by (auto intro!: names_variable simp: config_variables_mem)
  ultimately show ?thesis
    unfolding runtime_from_lookup_def by (auto intro!: names_variable)
qed

text \<open>Nothing else of the environment is looked at.\<close>

lemma reader_cong:
  assumes "l v = l' v"
  shows "required_os_string l v = required_os_string l' v" "required_string l v = required_string l' v"
    "optional_string l v = optional_string l' v"
    "optional_positive_u64 l v d = optional_positive_u64 l' v d"
    "optional_positive_usize l v d = optional_positive_usize l' v d"
    "optional_positive_u64_variable l v = optional_positive_u64_variable l' v"
    "validated_endpoint lib l v = validated_endpoint lib l' v"
    "validated_headers lib l v = validated_headers lib l' v"
  using assms
  by (simp_all add: required_os_string_def required_string_def optional_string_def
      optional_positive_u64_def optional_positive_usize_def optional_positive_u64_variable_def
      validated_endpoint_def validated_headers_def)

lemma runtime_cong:
  assumes "\<forall>v \<in> set config_variables. l v = l' v"
  shows "runtime_from_lookup lib l = runtime_from_lookup lib l'"
proof -
  note v = assms [unfolded config_variables_def list.set ball_simps]
  note r = reader_cong [of l _ l']
  have "database_path_from_lookup l = database_path_from_lookup l'"
    using v by (simp add: database_path_from_lookup_def r cong: if_cong option.case_cong)
  moreover have "credentials lib l = credentials lib l'" using v by (simp add: credentials_def r cong: if_cong option.case_cong)
  moreover have "bind_address_from_lookup lib l = bind_address_from_lookup lib l'"
    using v by (simp add: bind_address_from_lookup_def r cong: if_cong option.case_cong)
  moreover have "shutdown_timeout_from_lookup l = shutdown_timeout_from_lookup l'"
    using v by (simp add: shutdown_timeout_from_lookup_def r cong: if_cong option.case_cong)
  moreover have "webhook_limits l = webhook_limits l'" using v by (simp add: webhook_limits_def r cong: if_cong option.case_cong)
  moreover have "retention_from_lookup l = retention_from_lookup l'"
    using v by (simp add: retention_from_lookup_def r cong: if_cong option.case_cong)
  moreover have "required_check_ttl_from_lookup l = required_check_ttl_from_lookup l'"
    using v by (simp add: required_check_ttl_from_lookup_def r cong: if_cong option.case_cong)
  moreover have "optional_private_key lib l = optional_private_key lib l'"
    using v by (simp add: optional_private_key_def r cong: if_cong option.case_cong)
  then have "github_app_from_lookup lib l = github_app_from_lookup lib l'"
    using v by (simp add: github_app_from_lookup_def r cong: if_cong option.case_cong)
  moreover have "rust_log_from_lookup lib l = rust_log_from_lookup lib l'"
    using v by (simp add: rust_log_from_lookup_def r cong: if_cong option.case_cong)
  moreover have "telemetry_queue l = telemetry_queue l'"
    "telemetry_exporters lib l = telemetry_exporters lib l'"
    "telemetry_service_name l = telemetry_service_name l'"
    "telemetry_sentry_dsn lib l enabled = telemetry_sentry_dsn lib l' enabled"
    "validated_resource_attributes lib l = validated_resource_attributes lib l'" for enabled
    using v by (simp_all add: telemetry_queue_def telemetry_exporters_def
        telemetry_service_name_def telemetry_sentry_dsn_def validated_resource_attributes_def r cong: if_cong option.case_cong)
  then have "telemetry_from_lookup lib l = telemetry_from_lookup lib l'"
    by (simp add: telemetry_from_lookup_def)
  ultimately show ?thesis by (simp add: runtime_from_lookup_def)
qed

text \<open>What is read where a variable is set.\<close>

lemma set_endpoint:
  "validated_endpoint lib l v = Ok x \<Longrightarrow> l v = Some (Unicode s) \<Longrightarrow> x = Some s"
  by (auto simp: validated_endpoint_def optional_string_def into_string_def map_transpose_def
      and_then_Ok_iff split: if_splits)

lemma empty_headers: "l v = Some (Unicode []) \<Longrightarrow> validated_headers lib l v = Ok (Some [])"
  by (simp add: validated_headers_def optional_string_def into_string_def map_transpose_def)

subsection \<open>A concrete environment\<close>

definition sample_config_lib :: "nat config_lib" where
  "sample_config_lib =
     \<lparr>base64_decode = (\<lambda>b. Some (replicate 32 0)), parse_socket_address = (\<lambda>s. Some (length s)),
      url_scheme = (\<lambda>s. Some (lit ''http'')), percent_decode_utf8 = Some,
      header_name_accepted = (\<lambda>_. True), header_value_accepted = (\<lambda>_. True),
      env_filter_accepted = (\<lambda>_. True), sentry_dsn_accepted = (\<lambda>_. True),
      read_file = (\<lambda>_. Some [1])\<rparr>"

text \<open>The three required variables and no other.\<close>

definition minimal_environment :: "rstring \<Rightarrow> rstring \<Rightarrow> rstring \<Rightarrow> environment" where
  "minimal_environment path key token =
     [''GHE_DATABASE_PATH'' \<mapsto> Unicode path, ''GHE_MASTER_KEY'' \<mapsto> Unicode key,
      ''GHE_ADMIN_TOKEN'' \<mapsto> Unicode token]"

lemma minimal_absent:
  "v \<notin> {''GHE_DATABASE_PATH'', ''GHE_MASTER_KEY'', ''GHE_ADMIN_TOKEN''} \<Longrightarrow>
     minimal_environment path key token v = None"
  by (simp add: minimal_environment_def)

lemma absent_readers:
  assumes "l v = None"
  shows "optional_string l v = Ok None" "0 < d \<Longrightarrow> optional_positive_u64 l v d = Ok d"
    "0 < d \<Longrightarrow> optional_positive_usize l v d = Ok d"
    "optional_positive_u64_variable l v = Ok None"
    "validated_endpoint lib l v = Ok None" "validated_headers lib l v = Ok None"
  using assms
  by (simp_all add: optional_string_def optional_positive_u64_def optional_positive_usize_def
      optional_positive_u64_variable_def validated_endpoint_def validated_headers_def
      map_transpose_def)

lemma minimal_telemetry:
  "telemetry_from_lookup lib (minimal_environment path key token) =
     Ok \<lparr>tc_trace_exporter = None, tc_log_exporter = None, tc_queue_capacity = 2048,
       tc_batch_size = 512, tc_shutdown_timeout = from_secs 5,
       tc_service_name = DEFAULT_OTEL_SERVICE_NAME, tc_sentry_dsn = None,
       tc_resource_attributes = []\<rparr>"
  by (simp add: telemetry_from_lookup_def telemetry_queue_def telemetry_exporters_def
      telemetry_service_name_def telemetry_sentry_dsn_def validated_resource_attributes_def
      absent_readers minimal_absent config_constants map_transpose_def append_signal_path_def
      DEFAULT_OTEL_SERVICE_NAME_def lit_def)

lemma minimal_runtime:
  assumes "path \<noteq> []" and "base64_decode lib (as_bytes key) = Some bytes" and "length bytes = 32"
    and "32 \<le> byte_len token" and "token \<noteq> key"
    and "parse_socket_address lib (lit ''[::]:8080'') = Some addr"
    and "env_filter_accepted lib (lit ''info'')"
  shows "runtime_from_lookup lib (minimal_environment path key token) =
    Ok \<lparr>cfg_database_path = Unicode path, cfg_master_key = MasterKey bytes,
      cfg_admin_token = AdminToken token, cfg_bind_address = addr,
      cfg_shutdown_timeout = from_secs 30, cfg_webhook_body_limit_bytes = 2097152,
      cfg_workflow_job_max_steps = 256, cfg_delivery_retention = from_secs (7 * 86400),
      cfg_merge_queue_retention = from_secs (90 * 86400),
      cfg_delivery_prune_interval = from_secs 3600, cfg_required_check_ttl = from_secs 300,
      cfg_github_app = None, cfg_rust_log = lit ''info'',
      cfg_telemetry = \<lparr>tc_trace_exporter = None, tc_log_exporter = None,
        tc_queue_capacity = 2048, tc_batch_size = 512, tc_shutdown_timeout = from_secs 5,
        tc_service_name = DEFAULT_OTEL_SERVICE_NAME, tc_sentry_dsn = None,
        tc_resource_attributes = []\<rparr>\<rparr>"
proof -
  let ?l = "minimal_environment path key token"
  have "database_path_from_lookup ?l = Ok (Unicode path)"
    using assms(1) by (simp add: database_path_from_lookup_def required_os_string_def
        minimal_environment_def)
  moreover have "credentials lib ?l = Ok (MasterKey bytes, AdminToken token)"
    using assms(2-5) by (simp add: credentials_def required_string_def required_os_string_def
        minimal_environment_def into_string_def config_constants master_key_from_slice_def
        admin_token_new_def vocab)
  moreover have "bind_address_from_lookup lib ?l = Ok addr"
    using assms(6) by (simp add: bind_address_from_lookup_def absent_readers minimal_absent
        DEFAULT_BIND_ADDRESS_def)
  moreover have "shutdown_timeout_from_lookup ?l = Ok 30" "webhook_limits ?l = Ok (2097152, 256)"
    "retention_from_lookup ?l = Ok (7 * 86400, 90 * 86400, 3600)"
    "required_check_ttl_from_lookup ?l = Ok 300"
    by (simp_all add: shutdown_timeout_from_lookup_def webhook_limits_def retention_from_lookup_def
        required_check_ttl_from_lookup_def absent_readers minimal_absent config_constants
        bounded_def days_in_seconds_def u64_max_def)
  moreover have "github_app_from_lookup lib ?l = Ok None"
    by (simp add: github_app_from_lookup_def optional_private_key_def absent_readers minimal_absent)
  moreover have "rust_log_from_lookup lib ?l = Ok (lit ''info'')"
    using assms(7) by (simp add: rust_log_from_lookup_def absent_readers minimal_absent
        DEFAULT_RUST_LOG_def)
  ultimately show ?thesis by (simp add: runtime_from_lookup_def minimal_telemetry)
qed

definition sample_environment :: environment where
  "sample_environment = minimal_environment [47] [50] (replicate 32 97)"

lemma sample_config_facts:
  "[47] \<noteq> ([] :: rstring)"
  "base64_decode sample_config_lib (as_bytes [50]) = Some (replicate 32 0)"
  "length (replicate 32 (0 :: byte)) = 32"
  "32 \<le> byte_len (replicate 32 97)" "replicate 32 97 \<noteq> ([50] :: rstring)"
  "parse_socket_address sample_config_lib (lit ''[::]:8080'') = Some 9"
  "env_filter_accepted sample_config_lib (lit ''info'')"
proof -
  have "utf8_numbers (replicate n 97) = replicate n 97" for n
    by (induction n) (simp_all add: utf8_numbers_def utf8_char_def)
  then have "byte_len (replicate 32 97) = 32" unfolding byte_len_def as_bytes_def length_map by simp
  then show "32 \<le> byte_len (replicate 32 97)" by simp
  show "replicate 32 97 \<noteq> ([50] :: rstring)" by (simp add: numeral_eq_Suc)
qed (simp_all add: sample_config_lib_def length_lit)

lemma sample_runtime: "\<exists>c. runtime_from_lookup sample_config_lib sample_environment = Ok c"
  unfolding sample_environment_def minimal_runtime [OF sample_config_facts] by blast

subsection \<open>Properties\<close>

text \<open>
  C33: Every configuration the process starts with satisfies its bounds: a database path; a 32-byte
  master key and an administration token of at least 32 bytes that is not the key's text; positive
  limits within their maxima; positive durations; a batch no larger than the queue; a Sentry DSN
  only beside a trace exporter; GitHub credentials only complete.
\<close>

theorem config_validated:
  assumes "runtime_from_lookup lib l = Ok c"
  shows "cfg_database_path c \<noteq> Unicode []
    \<and> (\<exists>bytes. cfg_master_key c = MasterKey bytes \<and> length bytes = 32)
    \<and> 32 \<le> byte_len (admin_token_expose (cfg_admin_token c))
    \<and> required_string l ''GHE_MASTER_KEY'' \<noteq> Ok (admin_token_expose (cfg_admin_token c))
    \<and> 0 < cfg_webhook_body_limit_bytes c \<and> cfg_webhook_body_limit_bytes c \<le> 2097152
    \<and> 0 < cfg_workflow_job_max_steps c \<and> cfg_workflow_job_max_steps c \<le> 1024
    \<and> 0 < cfg_shutdown_timeout c \<and> 0 < cfg_delivery_retention c
    \<and> 0 < cfg_merge_queue_retention c \<and> 0 < cfg_delivery_prune_interval c
    \<and> 0 < cfg_required_check_ttl c \<and> cfg_required_check_ttl c \<le> from_secs 86400
    \<and> 0 < tc_batch_size (cfg_telemetry c)
    \<and> tc_batch_size (cfg_telemetry c) \<le> tc_queue_capacity (cfg_telemetry c)
    \<and> (tc_sentry_dsn (cfg_telemetry c) \<noteq> None \<longrightarrow> tc_trace_exporter (cfg_telemetry c) \<noteq> None)
    \<and> (\<forall>app. cfg_github_app c = Some app \<longrightarrow> 0 < ga_app_id app \<and> 0 < ga_installation_id app
          \<and> ga_private_key_pem app \<noteq> [])"
proof -
  obtain path key token addr timeout body steps d m i ttl app log tel where r:
    "database_path_from_lookup l = Ok path" "credentials lib l = Ok (key, token)"
    "shutdown_timeout_from_lookup l = Ok timeout" "webhook_limits l = Ok (body, steps)"
    "retention_from_lookup l = Ok (d, m, i)" "required_check_ttl_from_lookup l = Ok ttl"
    "github_app_from_lookup lib l = Ok app" "telemetry_from_lookup lib l = Ok tel"
    and c: "c = \<lparr>cfg_database_path = path, cfg_master_key = key, cfg_admin_token = token,
      cfg_bind_address = addr, cfg_shutdown_timeout = from_secs timeout,
      cfg_webhook_body_limit_bytes = body, cfg_workflow_job_max_steps = steps,
      cfg_delivery_retention = from_secs d, cfg_merge_queue_retention = from_secs m,
      cfg_delivery_prune_interval = from_secs i, cfg_required_check_ttl = from_secs ttl,
      cfg_github_app = app, cfg_rust_log = log, cfg_telemetry = tel\<rparr>"
    using assms by (auto simp: runtime_from_lookup_def and_then_Ok_iff)
  have "path \<noteq> Unicode []"
    using r(1) by (auto simp: database_path_from_lookup_def and_then_Ok_iff split: if_splits)
  with credentials_Ok [OF r(2)] shutdown_timeout_Ok [OF r(3)] webhook_limits_Ok [OF r(4)]
    retention_Ok [OF r(5)] required_check_ttl_Ok [OF r(6)] telemetry_Ok [OF r(8)]
    github_app_Ok [of lib l] r(7)
  show ?thesis unfolding c by (auto simp: from_secs_def)
qed

lemma config_validated_witness:
  "\<exists>c. runtime_from_lookup sample_config_lib sample_environment = Ok c
     \<and> cfg_webhook_body_limit_bytes c \<le> 2097152"
proof -
  obtain c where "runtime_from_lookup sample_config_lib sample_environment = Ok c"
    using sample_runtime by blast
  with config_validated [OF this] show ?thesis by blast
qed

text \<open>
  The configuration depends on the documented variables only, and when it is refused the error
  names one of them, never a value.
\<close>

theorem config_reads_documented_variables:
  "(runtime_from_lookup lib l = Err e \<longrightarrow> config_error_variable e \<in> set config_variables)
    \<and> ((\<forall>v \<in> set config_variables. l v = l' v) \<longrightarrow>
        runtime_from_lookup lib l = runtime_from_lookup lib l')"
  using runtime_names_variable [of lib l] runtime_cong [of l l' lib]
  by (auto simp: names_variable_def)

lemma config_reads_documented_variables_witness:
  "runtime_from_lookup sample_config_lib (\<lambda>v. if v = ''HOME'' then Some NotUnicode else None)
     = runtime_from_lookup sample_config_lib (\<lambda>v. None)"
  using config_reads_documented_variables [of sample_config_lib
      "\<lambda>v. if v = ''HOME'' then Some NotUnicode else None" _ "\<lambda>v. None"]
  by (simp add: config_variables_def)

text \<open>
  With the three required variables alone the process runs on its documented defaults: 2 MiB
  bodies, 256 steps, a week of deliveries and 90 days of merge-queue history, five minutes of cached
  required checks, no GitHub App and no remote telemetry.
\<close>

theorem config_defaults:
  assumes "path \<noteq> []" and "base64_decode lib (as_bytes key) = Some bytes" and "length bytes = 32"
    and "32 \<le> byte_len token" and "token \<noteq> key"
    and "parse_socket_address lib (lit ''[::]:8080'') = Some addr"
    and "env_filter_accepted lib (lit ''info'')"
  shows "\<exists>c. runtime_from_lookup lib (minimal_environment path key token) = Ok c
    \<and> cfg_database_path c = Unicode path \<and> cfg_bind_address c = addr
    \<and> cfg_webhook_body_limit_bytes c = 2 * 1024 * 1024 \<and> cfg_workflow_job_max_steps c = 256
    \<and> cfg_delivery_retention c = from_secs (7 * 24 * 3600)
    \<and> cfg_merge_queue_retention c = from_secs (90 * 24 * 3600)
    \<and> cfg_required_check_ttl c = from_secs (5 * 60) \<and> cfg_github_app c = None
    \<and> \<not> telemetry_is_enabled (cfg_telemetry c)"
  using minimal_runtime [OF assms] by (simp add: telemetry_is_enabled_def)

lemma config_defaults_witness:
  "\<exists>c. runtime_from_lookup sample_config_lib sample_environment = Ok c
     \<and> cfg_workflow_job_max_steps c = 256"
  using config_defaults [OF sample_config_facts] unfolding sample_environment_def by blast

text \<open>
  An endpoint, a header list or a timeout of one signal overrides the generic one for that signal
  only; a header list that is set and empty clears the generic headers instead of inheriting them.
\<close>

theorem telemetry_signal_precedence:
  assumes "telemetry_exporters lib l = Ok (Some traces, Some logs)"
    and "l ''OTEL_EXPORTER_OTLP_TRACES_ENDPOINT'' = Some (Unicode own)"
    and "l ''OTEL_EXPORTER_OTLP_LOGS_ENDPOINT'' = None"
    and "l ''OTEL_EXPORTER_OTLP_ENDPOINT'' = Some (Unicode base)"
    and "l ''OTEL_EXPORTER_OTLP_TRACES_HEADERS'' = Some (Unicode [])"
    and "l ''OTEL_EXPORTER_OTLP_LOGS_HEADERS'' = None"
    and "validated_headers lib l ''OTEL_EXPORTER_OTLP_HEADERS'' = Ok (Some headers)"
  shows "es_endpoint traces = own \<and> es_headers traces = []
    \<and> es_endpoint logs = trim_end_slashes base @ lit ''/v1/logs'' \<and> es_headers logs = headers"
proof -
  obtain g t lg gh th lh tt lt where e:
    "validated_endpoint lib l ''OTEL_EXPORTER_OTLP_ENDPOINT'' = Ok g"
    "validated_endpoint lib l ''OTEL_EXPORTER_OTLP_TRACES_ENDPOINT'' = Ok t"
    "validated_endpoint lib l ''OTEL_EXPORTER_OTLP_LOGS_ENDPOINT'' = Ok lg"
    and h: "validated_headers lib l ''OTEL_EXPORTER_OTLP_HEADERS'' = Ok gh"
    "validated_headers lib l ''OTEL_EXPORTER_OTLP_TRACES_HEADERS'' = Ok th"
    "validated_headers lib l ''OTEL_EXPORTER_OTLP_LOGS_HEADERS'' = Ok lh"
    and r: "(let or_else = (\<lambda>own fallback. case own of None \<Rightarrow> fallback | Some x \<Rightarrow> Some x);
          settings = (\<lambda>headers timeout endpoint. \<lparr>es_endpoint = endpoint,
             es_headers = (case headers of None \<Rightarrow> clone_headers gh | Some hs \<Rightarrow> hs),
             es_timeout = from_millis timeout\<rparr>)
       in (map_option (settings th tt) (or_else t (append_signal_path g (lit ''v1/traces''))),
           map_option (settings lh lt) (or_else lg (append_signal_path g (lit ''v1/logs'')))))
      = (Some traces, Some logs)"
    using assms(1) unfolding telemetry_exporters_def Let_def and_then_Ok_iff sum.inject by blast
  have "g = Some base" "t = Some own" "lg = None"
    using e assms(2-4) by (auto dest: set_endpoint simp: absent_readers)
  moreover have "gh = Some headers" "th = Some []" "lh = None"
    using h assms(5-7) by (auto simp: absent_readers empty_headers)
  moreover have "lit ''/'' @ lit ''v1/logs'' = lit ''/v1/logs''" by (simp add: lit_def)
  ultimately show ?thesis
    using r by (auto simp: append_signal_path_def clone_headers_def)
qed

lemma telemetry_signal_precedence_witness:
  "\<exists>traces logs. telemetry_exporters sample_config_lib
       [''OTEL_EXPORTER_OTLP_TRACES_ENDPOINT'' \<mapsto> Unicode [116],
        ''OTEL_EXPORTER_OTLP_ENDPOINT'' \<mapsto> Unicode [103, 47],
        ''OTEL_EXPORTER_OTLP_TRACES_HEADERS'' \<mapsto> Unicode [],
        ''OTEL_EXPORTER_OTLP_HEADERS'' \<mapsto> Unicode [97, 61, 98]] = Ok (Some traces, Some logs)
     \<and> es_headers traces = [] \<and> es_endpoint logs = lit ''g/v1/logs''
     \<and> es_headers logs = [([97], [98])]"
proof -
  let ?l = "[''OTEL_EXPORTER_OTLP_TRACES_ENDPOINT'' \<mapsto> Unicode [116],
      ''OTEL_EXPORTER_OTLP_ENDPOINT'' \<mapsto> Unicode [103, 47],
      ''OTEL_EXPORTER_OTLP_TRACES_HEADERS'' \<mapsto> Unicode [],
      ''OTEL_EXPORTER_OTLP_HEADERS'' \<mapsto> Unicode [97, 61, 98]]"
  have h: "validated_headers sample_config_lib ?l ''OTEL_EXPORTER_OTLP_HEADERS''
      = Ok (Some [([97], [98])])"
    by (simp add: validated_headers_def optional_string_def into_string_def map_transpose_def
        validated_header_def split_once_equals_def sample_config_lib_def trim_def is_whitespace_def)
  have e: "validated_endpoint sample_config_lib ?l ''OTEL_EXPORTER_OTLP_ENDPOINT''
        = Ok (Some [103, 47])"
    "validated_endpoint sample_config_lib ?l ''OTEL_EXPORTER_OTLP_TRACES_ENDPOINT'' = Ok (Some [116])"
    by (simp_all add: validated_endpoint_def optional_string_def into_string_def map_transpose_def
        sample_config_lib_def)
  have "\<exists>traces logs. telemetry_exporters sample_config_lib ?l = Ok (Some traces, Some logs)"
    by (simp add: telemetry_exporters_def e h empty_headers absent_readers config_constants
        append_signal_path_def)
  then obtain traces logs where x: "telemetry_exporters sample_config_lib ?l
      = Ok (Some traces, Some logs)" by blast
  have "es_endpoint traces = [116] \<and> es_headers traces = []
      \<and> es_endpoint logs = trim_end_slashes [103, 47] @ lit ''/v1/logs''
      \<and> es_headers logs = [([97], [98])]"
    by (rule telemetry_signal_precedence [OF x _ _ _ _ _ h]) simp_all
  with x show ?thesis by (auto simp: trim_end_slashes_def lit_def)
qed

end
