(* ===== verification/Telemetry_Properties.thy ===== *)
theory Telemetry_Properties
  imports Telemetry_Runtime Config_Properties
begin

section \<open>Properties of the telemetry runtime\<close>

text \<open>
  What the configuration builds, how the shutdown ends and what it leaves behind. The waiting loop is
  described by the set of tasks it still waits for (\<open>wait_for\<close>), which the array of slots represents.
\<close>

subsection \<open>The waiting loop\<close>

abbreviation all_kinds :: "shutdown_task_kind list" where
  "all_kinds \<equiv> [shutdown_task_kind.Trace, shutdown_task_kind.Log, shutdown_task_kind.Sentry]"

definition wait_for ::
  "shutdown_task_kind set \<Rightarrow> bool \<Rightarrow> diagnostics_observer \<Rightarrow> shutdown_wait" where
  "wait_for ks f ob = \<lparr>sw_pending = map (\<lambda>k. k \<in> ks) all_kinds, sw_remaining_tasks = card ks,
     sw_failed = f, sw_diagnostics = ob\<rparr>"

type_synonym shutdown_issue = "shutdown_task_kind \<times> sentry_shutdown_failure_reason"

definition report_all :: "shutdown_issue list \<Rightarrow> diagnostics_observer \<Rightarrow> diagnostics_observer" where
  "report_all issues ob = foldl (\<lambda>ob (k, reason). report_shutdown_issue k reason ob) ob issues"

lemma report_all_simps [simp]:
  "report_all [] ob = ob"
  "report_all ((k, reason) # issues) ob = report_all issues (report_shutdown_issue k reason ob)"
  "report_all (xs @ ys) ob = report_all ys (report_all xs ob)"
  by (simp_all add: report_all_def)

lemma kind_cases: "k \<in> {shutdown_task_kind.Trace, shutdown_task_kind.Log, shutdown_task_kind.Sentry}"
  by (cases k) simp_all

lemma finite_kinds [simp]: "finite (ks :: shutdown_task_kind set)"
  by (rule finite_subset [of _ "set all_kinds"]) (use kind_cases in auto)

lemma filter_kinds: "filter P all_kinds = [] \<longleftrightarrow> (\<forall>k. \<not> P k)"
proof -
  have "k \<in> set all_kinds" for k
    using kind_cases by auto
  then show ?thesis
    unfolding filter_empty_conv by blast
qed

lemma pending_slot [simp]: "map (\<lambda>k. k \<in> ks) all_kinds ! slot k \<longleftrightarrow> k \<in> ks"
  by (cases k) (simp_all add: slot_def)

lemma pending_update [simp]:
  "(map (\<lambda>k. k \<in> ks) all_kinds)[slot k := True] = map (\<lambda>k'. k' \<in> insert k ks) all_kinds"
  "(map (\<lambda>k. k \<in> ks) all_kinds)[slot k := False] = map (\<lambda>k'. k' \<in> ks - {k}) all_kinds"
  by (cases k; simp add: slot_def)+

lemma wait_for_new: "shutdown_wait_new ob = wait_for {} False ob"
  by (simp add: shutdown_wait_new_def wait_for_def numeral_3_eq_3)

lemma spawn_tasks_wait_for:
  "\<lbrakk>distinct (map fst tasks); ks \<inter> set (map fst tasks) = {}\<rbrakk>
   \<Longrightarrow> spawn_tasks tasks (wait_for ks f ob)
     = wait_for (ks \<union> {k. (k, True) \<in> set tasks}) (f \<or> False \<in> snd ` set tasks)
         (report_all (map (\<lambda>(k, _). (k, sentry_shutdown_failure_reason.Shutdown))
            (filter (\<lambda>(_, spawned). \<not> spawned) tasks)) ob)"
proof (induction tasks arbitrary: ks f ob)
  case (Cons task tasks)
  obtain k spawned where task: "task = (k, spawned)"
    by (cases task)
  have fresh: "k \<notin> ks" "k \<notin> set (map fst tasks)"
    using Cons.prems by (auto simp: task)
  show ?case
  proof (cases spawned)
    case True
    have step: "spawn_tasks (task # tasks) (wait_for ks f ob) = spawn_tasks tasks (wait_for (insert k ks) f ob)"
      using fresh by (simp add: task True wait_for_def del: list.map)
    have "insert k ks \<union> {k. (k, True) \<in> set tasks} = ks \<union> {k'. (k', True) \<in> set (task # tasks)}"
      by (auto simp: task True)
    then show ?thesis
      using Cons.prems fresh unfolding step by (subst Cons.IH) (auto simp: task True)
  next
    case False
    have step: "spawn_tasks (task # tasks) (wait_for ks f ob) = spawn_tasks tasks
        (wait_for ks True (report_shutdown_issue k sentry_shutdown_failure_reason.Shutdown ob))"
      by (simp add: task False wait_for_def)
    have "{k'. (k', True) \<in> set (task # tasks)} = {k. (k, True) \<in> set tasks}"
      by (auto simp: task False)
    then show ?thesis
      using Cons.prems unfolding step by (subst Cons.IH) (auto simp: task False)
  qed
qed (simp add: wait_for_def)

definition messages :: "(shutdown_task_kind \<times> bool) list \<Rightarrow> shutdown_event list" where
  "messages ms = map (\<lambda>(k, succeeded). Message k succeeded) ms"

lemma receive_wait_for:
  "k \<in> ks \<Longrightarrow> receive_message k succeeded (wait_for ks f ob)
     = wait_for (ks - {k}) (f \<or> \<not> succeeded)
         (if succeeded then ob
          else report_shutdown_issue k sentry_shutdown_failure_reason.Shutdown ob)"
  by (simp add: receive_message_def wait_for_def card_Diff_singleton del: list.map)

lemma await_shutdown_messages:
  "\<lbrakk>distinct (map fst ms); set (map fst ms) \<subseteq> ks;
    ks = set (map fst ms) \<or> (\<exists>e es. rest = e # es \<and> (\<forall>k s. e \<noteq> Message k s))\<rbrakk>
   \<Longrightarrow> await_shutdown (messages ms @ rest) (wait_for ks f ob)
     = Some (wait_for (ks - set (map fst ms)) (f \<or> False \<in> snd ` set ms)
         (report_all (map (\<lambda>(k, _). (k, sentry_shutdown_failure_reason.Shutdown))
            (filter (\<lambda>(_, succeeded). \<not> succeeded) ms)) ob))"
proof (induction ms arbitrary: ks f ob)
  case Nil
  have "sw_remaining_tasks (wait_for ks f ob) = card ks"
    by (simp add: wait_for_def)
  with Nil show ?case
    by (cases rest) (auto simp: messages_def split: shutdown_event.splits)
next
  case (Cons m ms)
  obtain k succeeded where m: "m = (k, succeeded)"
    by (cases m)
  have k: "k \<in> ks" "card ks \<noteq> 0"
    using Cons.prems by (auto simp: m card_eq_0_iff)
  have "sw_remaining_tasks (wait_for ks f ob) = card ks"
    by (simp add: wait_for_def)
  with k have step: "await_shutdown (messages (m # ms) @ rest) (wait_for ks f ob)
      = await_shutdown (messages ms @ rest) (receive_message k succeeded (wait_for ks f ob))"
    by (simp add: messages_def m)
  have left: "ks - {k} - set (map fst ms) = ks - set (map fst (m # ms))"
    by (auto simp: m)
  have prems: "distinct (map fst ms)" "set (map fst ms) \<subseteq> ks - {k}"
    "ks - {k} = set (map fst ms) \<or> (\<exists>e es. rest = e # es \<and> (\<forall>k s. e \<noteq> Message k s))"
    using Cons.prems by (auto simp: m)
  show ?case
    unfolding step receive_wait_for [OF k(1)] Cons.IH [OF prems] left
    by (auto simp: m)
qed

lemma report_unfinished_wait_for:
  "report_unfinished (map (\<lambda>k. k \<in> ks) all_kinds) ob
     = (ks \<noteq> {}, report_all (map (\<lambda>k. (k, sentry_shutdown_failure_reason.Timeout))
          (filter (\<lambda>k. k \<in> ks) all_kinds)) ob)"
proof -
  have "ks \<subseteq> set all_kinds"
    using kind_cases by auto
  then have "ks \<noteq> {} \<longleftrightarrow> shutdown_task_kind.Trace \<in> ks \<or> shutdown_task_kind.Log \<in> ks
      \<or> shutdown_task_kind.Sentry \<in> ks"
    by auto
  moreover have "report_unfinished [t, l, s] ob = (t \<or> l \<or> s,
      report_all (map (\<lambda>k. (k, sentry_shutdown_failure_reason.Timeout))
        ((if t then [shutdown_task_kind.Trace] else []) @ (if l then [shutdown_task_kind.Log] else [])
         @ (if s then [shutdown_task_kind.Sentry] else []))) ob)" for t l s
    by (cases t; cases l; cases s) (simp_all add: report_unfinished_def)
  ultimately show ?thesis
    by simp
qed

subsection \<open>The shutdown\<close>

definition shutdown_kinds :: "telemetry_runtime \<Rightarrow> shutdown_task_kind list" where
  "shutdown_kinds r =
     (if tr_tracer_provider r then [shutdown_task_kind.Trace] else [])
     @ (if tr_logger_provider r then [shutdown_task_kind.Log] else [])
     @ (if tr_sentry_client r then [shutdown_task_kind.Sentry] else [])"

lemma distinct_shutdown_kinds: "distinct (shutdown_kinds r)"
  by (simp add: shutdown_kinds_def)

definition failed_spawns ::
  "(shutdown_task_kind \<Rightarrow> bool) \<Rightarrow> shutdown_task_kind list \<Rightarrow> shutdown_issue list" where
  "failed_spawns spawns ks =
     map (\<lambda>k. (k, sentry_shutdown_failure_reason.Shutdown)) (filter (\<lambda>k. \<not> spawns k) ks)"

definition failed_messages :: "(shutdown_task_kind \<times> bool) list \<Rightarrow> shutdown_issue list" where
  "failed_messages ms =
     map (\<lambda>(k, _). (k, sentry_shutdown_failure_reason.Shutdown))
       (filter (\<lambda>(_, succeeded). \<not> succeeded) ms)"

definition unfinished_tasks ::
  "(shutdown_task_kind \<Rightarrow> bool) \<Rightarrow> shutdown_task_kind list \<Rightarrow> (shutdown_task_kind \<times> bool) list
   \<Rightarrow> shutdown_issue list" where
  "unfinished_tasks spawns ks ms =
     map (\<lambda>k. (k, sentry_shutdown_failure_reason.Timeout))
       (filter (\<lambda>k. k \<in> set ks \<and> spawns k \<and> k \<notin> fst ` set ms) all_kinds)"

text \<open>
  What the channel and the clock can bring: each spawned task sends at most one message, and the
  waiting ends because all have sent theirs or because a turn finds the deadline passed, the
  receiver timed out, or the channel disconnected.
\<close>

definition shutdown_ends ::
  "(shutdown_task_kind \<Rightarrow> bool) \<Rightarrow> shutdown_task_kind list \<Rightarrow> (shutdown_task_kind \<times> bool) list
   \<Rightarrow> shutdown_event list \<Rightarrow> bool" where
  "shutdown_ends spawns ks ms rest \<longleftrightarrow>
     distinct (map fst ms) \<and> set (map fst ms) \<subseteq> {k \<in> set ks. spawns k}
     \<and> ({k \<in> set ks. spawns k} = set (map fst ms)
         \<or> (\<exists>e es. rest = e # es \<and> (\<forall>k s. e \<noteq> Message k s)))"

lemma run_shutdown_tasks_result:
  assumes "distinct ks" and ends: "shutdown_ends spawns ks ms rest"
  shows "run_shutdown_tasks (map (\<lambda>k. (k, spawns k)) ks) (messages ms @ rest) ob
    = Some (if unfinished_tasks spawns ks ms \<noteq> [] then TimedOut
        else if failed_spawns spawns ks @ failed_messages ms \<noteq> [] then Failed else Completed,
      report_all (failed_spawns spawns ks @ failed_messages ms @ unfinished_tasks spawns ks ms) ob)"
proof -
  let ?tasks = "map (\<lambda>k. (k, spawns k)) ks"
  let ?open = "{k \<in> set ks. spawns k}"
  let ?ob = "report_all (failed_spawns spawns ks) ob"
  have "map (\<lambda>(k, _). (k, sentry_shutdown_failure_reason.Shutdown))
      (filter (\<lambda>(_, spawned). \<not> spawned) ?tasks) = failed_spawns spawns ks"
    by (induction ks) (simp_all add: failed_spawns_def)
  moreover have "{k. (k, True) \<in> set ?tasks} = ?open" "map fst ?tasks = ks"
    by (auto simp: o_def)
  moreover have "False \<in> snd ` set ?tasks \<longleftrightarrow> failed_spawns spawns ks \<noteq> []"
    by (auto simp: failed_spawns_def filter_empty_conv image_iff)
  ultimately have spawned: "spawn_tasks ?tasks (shutdown_wait_new ob)
      = wait_for ?open (failed_spawns spawns ks \<noteq> []) ?ob"
    using spawn_tasks_wait_for [of ?tasks "{}" False ob] assms(1) by (simp add: wait_for_new)
  have failing: "False \<in> snd ` set ms \<longleftrightarrow> failed_messages ms \<noteq> []"
    by (force simp: failed_messages_def filter_empty_conv)
  have "await_shutdown (messages ms @ rest) (wait_for ?open (failed_spawns spawns ks \<noteq> []) ?ob)
      = Some (wait_for (?open - set (map fst ms))
          (failed_spawns spawns ks \<noteq> [] \<or> failed_messages ms \<noteq> [])
          (report_all (failed_messages ms) ?ob))"
    using ends await_shutdown_messages [of ms ?open rest "failed_spawns spawns ks \<noteq> []" ?ob]
    by (simp add: shutdown_ends_def failing failed_messages_def)
  moreover have "unfinished_tasks spawns ks ms = map (\<lambda>k. (k, sentry_shutdown_failure_reason.Timeout))
      (filter (\<lambda>k. k \<in> ?open - set (map fst ms)) all_kinds)"
    by (simp add: unfinished_tasks_def)
  moreover have "?open - set (map fst ms) \<noteq> {}
      \<longleftrightarrow> filter (\<lambda>k. k \<in> ?open - set (map fst ms)) all_kinds \<noteq> []"
    unfolding filter_kinds by blast
  ultimately show ?thesis
    using report_unfinished_wait_for [of "?open - set (map fst ms)"
        "report_all (failed_messages ms) ?ob"]
    by (simp add: run_shutdown_tasks_def spawned wait_for_def)
qed

text \<open>
  C18: The shutdown returns: for every answer of the spawned threads and every turn on which the
  deadline strikes, its outcome is \<open>TimedOut\<close> exactly when some task that was started has not
  answered, else \<open>Failed\<close> exactly when a task could not be started or answered with a failure,
  else \<open>Completed\<close>; each such task is reported once, in the order it was found, and nothing else
  is.
\<close>

theorem shutdown_outcome_explained:
  assumes "tr_shutdown_outcome r = None"
    and "shutdown_ends spawns (shutdown_kinds r) ms rest"
  shows "\<exists>r'. telemetry_shutdown spawns (messages ms @ rest) drain r
      = Some (if unfinished_tasks spawns (shutdown_kinds r) ms \<noteq> [] then TimedOut
          else if failed_spawns spawns (shutdown_kinds r) \<noteq> [] \<or> failed_messages ms \<noteq> []
          then Failed else Completed, r')
    \<and> tr_diagnostics r' = report_all (failed_spawns spawns (shutdown_kinds r)
        @ failed_messages ms @ unfinished_tasks spawns (shutdown_kinds r) ms) (tr_diagnostics r)
    \<and> tr_shutdown_outcome r' \<noteq> None"
  using assms run_shutdown_tasks_result [OF distinct_shutdown_kinds assms(2), of "tr_diagnostics r"]
  by (simp add: telemetry_shutdown_def Let_def flip: shutdown_kinds_def)

definition sample_runtime_state :: telemetry_runtime where
  "sample_runtime_state =
     \<lparr>tr_state = Enabled, tr_tracer_provider = True, tr_logger_provider = False,
      tr_sentry_client = True, tr_workflow_trace_emitter = emitter_disabled,
      tr_trace_queue = Some ((boundary_new 4)\<lparr>pending := 3\<rparr>), tr_log_queue = None,
      tr_diagnostics = diagnostics_observer_new [], tr_shutdown_outcome = None\<rparr>"

lemma shutdown_outcome_explained_witness:
  "\<exists>r'. telemetry_shutdown (\<lambda>_. True)
      (messages [(shutdown_task_kind.Sentry, False)] @ [Deadline_Passed]) id sample_runtime_state
    = Some (TimedOut, r')
    \<and> observer_metrics (tr_diagnostics r')
      = [Inc (TelemetryExportFailures telemetry_signal.Trace telemetry_export_failure_reason.Timeout)]"
proof -
  let ?ms = "[(shutdown_task_kind.Sentry, False)]"
  have ends: "shutdown_ends (\<lambda>_. True) (shutdown_kinds sample_runtime_state) ?ms [Deadline_Passed]"
    by (simp add: shutdown_ends_def shutdown_kinds_def sample_runtime_state_def)
  have "unfinished_tasks (\<lambda>_. True) (shutdown_kinds sample_runtime_state) ?ms
      = [(shutdown_task_kind.Trace, sentry_shutdown_failure_reason.Timeout)]"
    by (simp add: unfinished_tasks_def shutdown_kinds_def sample_runtime_state_def)
  moreover have "tr_shutdown_outcome sample_runtime_state = None"
    by (simp add: sample_runtime_state_def)
  ultimately show ?thesis
    using shutdown_outcome_explained [OF _ ends, of id]
    by (auto simp: failed_spawns_def failed_messages_def shutdown_kinds_def sample_runtime_state_def
        report_shutdown_issue_def sentry_shutdown_failure_def export_failure_def
        export_failure_with_context_def write_failure_def record_telemetry_export_failure_def
        diagnostics_observer_new_def)
qed

lemma shutdown_result:
  assumes "telemetry_shutdown spawns events drain r = Some (result, r')"
    and "tr_shutdown_outcome r = None"
  shows "tr_shutdown_outcome r' = Some result" "\<not> tr_tracer_provider r'" "\<not> tr_logger_provider r'"
    "\<not> tr_sentry_client r'"
    "tr_trace_queue r' = map_option (\<lambda>q. drop_pending (drain (close_boundary q))) (tr_trace_queue r)"
    "tr_log_queue r' = map_option (\<lambda>q. drop_pending (drain (close_boundary q))) (tr_log_queue r)"
  using assms by (auto simp: telemetry_shutdown_def Let_def map_option.compositionality o_def
      split: option.splits)

lemma sealed_boundary:
  assumes "closed b"
  shows "fst (try_admit (drop_pending b)) = PipelineClosed"
    "begin_export n (drop_pending b) = (False, drop_pending b)"
    "pending (drop_pending b) = 0" "closed (drop_pending b)"
  using assms by (simp_all add: drop_pending_def try_admit_def begin_export_def Let_def)

text \<open>
  C17: The shutdown happens once: every later call, whatever it would find, returns the stored
  outcome and changes nothing; no provider is left, so a flush succeeds trivially; and both queues
  are sealed: nothing is pending, every offered record is refused as \<open>PipelineClosed\<close>, and no
  batch still in the worker's hands is exported.
\<close>

theorem shutdown_once_and_sealed:
  assumes "telemetry_shutdown spawns events drain r = Some (result, r')"
    and "tr_shutdown_outcome r = None" and "\<And>b. closed b \<Longrightarrow> closed (drain b)"
  shows "telemetry_shutdown spawns' events' drain' r' = Some (result, r')
    \<and> force_flush trace_answer log_answer sentry_answer r' = Ok ()
    \<and> pending_trace_records r' = 0 \<and> pending_log_records r' = 0
    \<and> (\<forall>b n. tr_trace_queue r' = Some b \<or> tr_log_queue r' = Some b \<longrightarrow>
         fst (try_admit b) = PipelineClosed \<and> begin_export n b = (False, b))"
proof -
  note parts = shutdown_result [OF assms(1,2)]
  have "closed (drain (close_boundary q))" for q
    by (rule assms(3)) (simp add: close_boundary_def)
  note sealed = sealed_boundary [OF this]
  have "\<forall>b n. tr_trace_queue r' = Some b \<or> tr_log_queue r' = Some b \<longrightarrow>
         fst (try_admit b) = PipelineClosed \<and> begin_export n b = (False, b)"
    using sealed by (auto simp: parts)
  moreover have "pending_trace_records r' = 0 \<and> pending_log_records r' = 0"
    using sealed by (auto simp: parts pending_trace_records_def pending_log_records_def map_or_def
        split: option.splits)
  ultimately show ?thesis
    using parts(1-4) by (simp add: telemetry_shutdown_def force_flush_def)
qed

lemma shutdown_once_and_sealed_witness:
  "\<exists>r'. telemetry_shutdown (\<lambda>_. True) [Deadline_Passed] id sample_runtime_state = Some (TimedOut, r')
    \<and> telemetry_shutdown (\<lambda>_. False) [] drop_pending r' = Some (TimedOut, r')
    \<and> (\<exists>b. tr_trace_queue r' = Some b \<and> fst (try_admit b) = PipelineClosed)"
proof -
  obtain result r' where run: "telemetry_shutdown (\<lambda>_. True) [Deadline_Passed] id
      sample_runtime_state = Some (result, r')" and result: "result = TimedOut"
    and queue: "tr_trace_queue r' \<noteq> None"
    by (simp add: telemetry_shutdown_def sample_runtime_state_def run_shutdown_tasks_def
        shutdown_wait_new_def slot_def report_unfinished_def numeral_3_eq_3)
  have "tr_shutdown_outcome sample_runtime_state = None"
    by (simp add: sample_runtime_state_def)
  from shutdown_once_and_sealed [OF run this, of "\<lambda>_. False" "[]" drop_pending] run result queue
  show ?thesis by auto
qed

subsection \<open>The configured pipelines\<close>

text \<open>The builders of the other crates succeed where the configuration was accepted.\<close>

definition builders_accept :: "'a config_lib \<Rightarrow> telemetry_lib \<Rightarrow> bool" where
  "builders_accept cl tlib \<longleftrightarrow>
     (\<forall>d. env_filter_accepted cl d \<longrightarrow> env_filter_ok tlib d)
     \<and> (\<forall>d s. sentry_dsn_accepted cl d \<longrightarrow> sentry_dsn_parses tlib d \<and> sentry_client_enabled tlib d s)
     \<and> (\<forall>t. http_client_builds tlib t \<and> sentry_http_client_builds tlib t)
     \<and> (\<forall>s. span_exporter_builds tlib s \<and> log_exporter_builds tlib s)"

lemma accepted_directive:
  assumes "runtime_from_lookup lib l = Ok c"
  shows "env_filter_accepted lib (cfg_rust_log c)" "telemetry_from_lookup lib l = Ok (cfg_telemetry c)"
  using assms by (auto simp: runtime_from_lookup_def and_then_Ok_iff rust_log_from_lookup_def Let_def
      split: if_splits)

lemma accepted_dsn:
  assumes "telemetry_from_lookup lib l = Ok c" "tc_sentry_dsn c = Some d"
  shows "sentry_dsn_accepted lib d"
  using assms by (auto simp: telemetry_from_lookup_def telemetry_sentry_dsn_def map_transpose_def
      and_then_Ok_iff Let_def split: if_splits option.splits)

text \<open>
  A configuration that \<open>RuntimeConfig\<close> accepts builds its pipelines, as far as the other crates
  accept its parts: each signal has a provider and a queue exactly when an exporter is configured,
  with a positive capacity that is at least the batch size; the state is \<open>Enabled\<close> exactly when
  there is one; workflow traces are emitted exactly when traces are exported; and workflow errors
  are reported exactly when a Sentry address is configured, which needs a trace exporter.
\<close>

theorem configured_pipelines_built:
  assumes "runtime_from_lookup lib l = Ok c" and "builders_accept lib tlib"
  shows "\<exists>r. build_runtime tlib version (cfg_rust_log c) (cfg_telemetry c) m = Ok r
    \<and> tr_trace_queue r = map_option (\<lambda>_. boundary_new (tc_queue_capacity (cfg_telemetry c)))
        (tc_trace_exporter (cfg_telemetry c))
    \<and> tr_log_queue r = map_option (\<lambda>_. boundary_new (tc_queue_capacity (cfg_telemetry c)))
        (tc_log_exporter (cfg_telemetry c))
    \<and> 0 < tc_batch_size (cfg_telemetry c)
    \<and> tc_batch_size (cfg_telemetry c) \<le> tc_queue_capacity (cfg_telemetry c)
    \<and> (tr_state r = Enabled \<longleftrightarrow> shutdown_kinds r \<noteq> [])
    \<and> (tr_tracer_provider r \<longleftrightarrow> tr_trace_queue r \<noteq> None)
    \<and> (tr_logger_provider r \<longleftrightarrow> tr_log_queue r \<noteq> None)
    \<and> (emitter_is_enabled (tr_workflow_trace_emitter r) \<longleftrightarrow> tr_tracer_provider r)
    \<and> (emitter_reports (tr_workflow_trace_emitter r)
         \<longleftrightarrow> tc_sentry_dsn (cfg_telemetry c) \<noteq> None)"
proof -
  let ?t = "cfg_telemetry c"
  note tel = telemetry_Ok [OF accepted_directive(2) [OF assms(1)]]
  have filter: "env_filter_ok tlib (cfg_rust_log c)"
    using assms accepted_directive(1) by (auto simp: builders_accept_def)
  have sentry: "sentry_client_of tlib ?t = Ok (map_option (\<lambda>_. ()) (tc_sentry_dsn ?t))"
  proof (cases "tc_sentry_dsn ?t")
    case (Some d)
    with tel obtain settings where "tc_trace_exporter ?t = Some settings"
      by auto
    with Some assms(2) accepted_dsn [OF accepted_directive(2) [OF assms(1)] Some] show ?thesis
      by (simp add: sentry_client_of_def build_sentry_client_def
          build_sentry_client_with_transport_def builders_accept_def)
  qed (simp add: sentry_client_of_def)
  have trace: "map_transpose (\<lambda>s. build_trace_provider tlib s ?t resource) (tc_trace_exporter ?t)
      = Ok (map_option (\<lambda>_. (provider_tracer tlib resource (lit INSTRUMENTATION_SCOPE),
          boundary_new (tc_queue_capacity ?t))) (tc_trace_exporter ?t))" for resource
    using assms(2) by (cases "tc_trace_exporter ?t")
      (simp_all add: map_transpose_def build_trace_provider_def builders_accept_def)
  have log: "map_transpose (\<lambda>s. build_log_provider tlib s ?t) (tc_log_exporter ?t)
      = Ok (map_option (\<lambda>_. boundary_new (tc_queue_capacity ?t)) (tc_log_exporter ?t))"
    using assms(2) by (cases "tc_log_exporter ?t")
      (simp_all add: map_transpose_def build_log_provider_def builders_accept_def)
  let ?trace = "map_option (\<lambda>_. (provider_tracer tlib (telemetry_resource version ?t)
      (lit INSTRUMENTATION_SCOPE), boundary_new (tc_queue_capacity ?t))) (tc_trace_exporter ?t)"
  let ?sentry = "map_option (\<lambda>_. ()) (tc_sentry_dsn ?t)"
  let ?log = "map_option (\<lambda>_. boundary_new (tc_queue_capacity ?t)) (tc_log_exporter ?t)"
  let ?r = "\<lparr>tr_state = (if telemetry_is_enabled ?t then Enabled else Disabled),
      tr_tracer_provider = (?trace \<noteq> None), tr_logger_provider = (?log \<noteq> None),
      tr_sentry_client = (?sentry \<noteq> None),
      tr_workflow_trace_emitter = map_or emitter_disabled (\<lambda>(tracer, _).
        if ?sentry = None then emitter_new tracer
        else emitter_new_with_error_reporter tracer) ?trace,
      tr_trace_queue = map_option snd ?trace, tr_log_queue = ?log,
      tr_diagnostics = diagnostics_observer_new m, tr_shutdown_outcome = None\<rparr>"
  have run: "build_runtime tlib version (cfg_rust_log c) ?t m = Ok ?r"
    unfolding build_runtime_def Let_def sentry trace log and_then_simps using filter by simp
  show ?thesis
    using tel by (intro exI [of _ ?r] conjI run)
      (auto simp: map_or_def shutdown_kinds_def telemetry_is_enabled_def emitter_is_enabled_def
        emitter_disabled_def emitter_new_def emitter_new_with_error_reporter_def
        map_option.compositionality o_def split: option.splits)
qed

definition sample_telemetry_lib :: telemetry_lib where
  "sample_telemetry_lib =
     \<lparr>env_filter_ok = (\<lambda>_. True), http_client_builds = (\<lambda>_. True),
      sentry_http_client_builds = (\<lambda>_. True), sentry_dsn_parses = (\<lambda>_. True),
      sentry_client_enabled = (\<lambda>_ _. True), span_exporter_builds = (\<lambda>_. True),
      log_exporter_builds = (\<lambda>_. True), provider_tracer = (\<lambda>_ _. sample_tracer)\<rparr>"

lemma configured_pipelines_built_witness:
  "\<exists>c r. runtime_from_lookup sample_config_lib sample_environment = Ok c
    \<and> build_runtime sample_telemetry_lib (lit ''0.1.12'') (cfg_rust_log c) (cfg_telemetry c) [] = Ok r
    \<and> (tr_state r = Enabled \<longleftrightarrow> shutdown_kinds r \<noteq> [])"
proof -
  obtain c where c: "runtime_from_lookup sample_config_lib sample_environment = Ok c"
    using sample_runtime by blast
  have "builders_accept sample_config_lib sample_telemetry_lib"
    by (simp add: builders_accept_def sample_telemetry_lib_def)
  from configured_pipelines_built [OF c this, of "lit ''0.1.12''" "[]"] c show ?thesis
    by blast
qed

end
