(* ===== verification/Github_Client.thy ===== *)
theory Github_Client
  imports Config Required_Check_Store Json
begin

section \<open>The GitHub App client\<close>

text \<open>
  \<open>src/github/client.rs\<close>: the outbound reads of branch protection. Signing, percent-encoding, JSON
  text, time stamps and the parsing of an address into the target of a request belong to other crates
  and are parameters (\<open>github_lib\<close>), and so is what GitHub answers: \<open>respond\<close> maps the requests sent so
  far and the new one to a response, or to \<open>None\<close> where the request never completed. The state is the
  client with its cached token, and the requests it has handed to the HTTP client, which refuses one
  whose address it cannot parse. Instants are nanoseconds, as in theory Domain.
\<close>

definition MAX_RESPONSE_BYTES :: nat where "MAX_RESPONSE_BYTES = 262144"
definition APP_JWT_LIFETIME_SECONDS :: int where "APP_JWT_LIFETIME_SECONDS = 540"
definition APP_JWT_BACKDATE_SECONDS :: int where "APP_JWT_BACKDATE_SECONDS = 60"
definition INSTALLATION_TOKEN_RENEWAL_SKEW :: int where
  "INSTALLATION_TOKEN_RENEWAL_SKEW = 60 * 1000000000"
definition GITHUB_API_VERSION :: string where "GITHUB_API_VERSION = ''2022-11-28''"
definition GITHUB_ACCEPT :: string where "GITHUB_ACCEPT = ''application/vnd.github+json''"

text \<open>\<open>CONTROLS\<close> of the percent-encoding crate, with the characters the source adds.\<close>

definition BRANCH_SEGMENT_ENCODE_SET :: "nat \<Rightarrow> bool" where
  "BRANCH_SEGMENT_ENCODE_SET c \<longleftrightarrow>
     c < 32 \<or> c = 127
     \<or> c \<in> set (lit '' '') \<or> c \<in> set (lit [CHR 0x22]) \<or> c \<in> set (lit ''#%<>?`{}'')"

lemmas github_constants =
  MAX_RESPONSE_BYTES_def APP_JWT_LIFETIME_SECONDS_def APP_JWT_BACKDATE_SECONDS_def
  INSTALLATION_TOKEN_RENEWAL_SKEW_def

subsection \<open>Requests, responses, errors\<close>

datatype request_method = Get | Post

text \<open>
  The target of a request, as \<open>reqwest\<close> parses it from the formatted address: the scheme and
  authority, the segments of the path after normalization, and the query.
\<close>

record request_url =
  ru_origin :: rstring
  ru_path :: "rstring list"
  ru_query :: "rstring option"

record github_request =
  gr_method :: request_method
  gr_url :: "request_url option"
  gr_headers :: "(rstring \<times> rstring) list"
  gr_bearer :: rstring

record github_response =
  gp_status :: nat
  gp_body :: "byte list option"

datatype github_client_error =
    PrivateKey | Jwt | Transport | Unauthorized | Forbidden | RateLimited | UnexpectedStatus | Decode

definition from_status :: "nat \<Rightarrow> github_client_error" where
  "from_status s =
     (if s = 401 then Unauthorized
      else if s = 429 then RateLimited
      else if s = 403 then Forbidden
      else UnexpectedStatus)"

record app_jwt_claims =
  issued_at :: int
  expires_at :: int
  issuer :: rstring

record github_lib =
  rsa_pem_usable :: "byte list \<Rightarrow> bool"
  github_http_builds :: bool
  sign_rs256 :: "app_jwt_claims \<Rightarrow> byte list \<Rightarrow> rstring option"
  utf8_percent_encode :: "rstring \<Rightarrow> (nat \<Rightarrow> bool) \<Rightarrow> rstring"
  into_url :: "rstring \<Rightarrow> request_url option"
  github_json :: "byte list \<Rightarrow> json option"
  github_time :: time_lib

type_synonym github_answers =
  "github_request list \<Rightarrow> github_request \<Rightarrow> github_response option"

subsection \<open>The client\<close>

record cached_installation_token =
  token_text :: rstring
  token_expires_at :: instant

definition is_usable_at :: "cached_installation_token \<Rightarrow> instant \<Rightarrow> bool" where
  "is_usable_at cached now \<longleftrightarrow> now + INSTALLATION_TOKEN_RENEWAL_SKEW < token_expires_at cached"

record github_app_client =
  gc_encoding_key :: "byte list"
  gc_app_id :: nat
  gc_installation_id :: nat
  gc_api_base_url :: rstring
  gc_installation_token :: "cached_installation_token option"

definition github_client_new ::
  "github_lib \<Rightarrow> github_app_config \<Rightarrow> (github_client_error, github_app_client) result" where
  "github_client_new lib config =
     (if \<not> rsa_pem_usable lib (ga_private_key_pem config) then Err PrivateKey
      else if \<not> github_http_builds lib then Err Transport
      else Ok \<lparr>gc_encoding_key = ga_private_key_pem config, gc_app_id = ga_app_id config,
        gc_installation_id = ga_installation_id config,
        gc_api_base_url = trim_end_slashes (ga_api_base_url config),
        gc_installation_token = None\<rparr>)"

text \<open>\<open>OffsetDateTime::unix_timestamp\<close> is the second an instant lies in.\<close>

definition app_jwt ::
  "github_lib \<Rightarrow> github_app_client \<Rightarrow> instant \<Rightarrow> (github_client_error, rstring) result" where
  "app_jwt lib client now =
     (let issued = now div 1000000000 - APP_JWT_BACKDATE_SECONDS
      in ok_or Jwt (sign_rs256 lib
           \<lparr>issued_at = issued, expires_at = issued + APP_JWT_LIFETIME_SECONDS,
            issuer = decimal (gc_app_id client)\<rparr>
           (gc_encoding_key client)))"

definition read_bounded_body ::
  "github_response \<Rightarrow> (github_client_error, byte list) result" where
  "read_bounded_body response =
     (if \<not> (200 \<le> gp_status response \<and> gp_status response < 300)
      then Err (from_status (gp_status response))
      else and_then (ok_or Transport (gp_body response)) (\<lambda>body.
        if MAX_RESPONSE_BYTES < length body then Err Decode else Ok body))"

subsection \<open>Response bodies\<close>

definition read_installation_token :: "(rstring \<times> rstring) reader" where
  "read_installation_token v =
     (case struct_members [(lit ''token'', False), (lit ''expires_at'', False)] v of
        Some [t, e] \<Rightarrow>
          (case (required read_string t, required read_string e) of
             (Some t', Some e') \<Rightarrow> Some (t', e')
           | _ \<Rightarrow> None)
      | _ \<Rightarrow> None)"

definition into_cached_token ::
  "github_lib \<Rightarrow> rstring \<times> rstring \<Rightarrow> (github_client_error, cached_installation_token) result" where
  "into_cached_token lib p =
     and_then (ok_or Decode (parse_rfc3339 (github_time lib) (snd p))) (\<lambda>expires.
     if fst p = [] then Err Decode
     else Ok \<lparr>token_text = fst p, token_expires_at = expires\<rparr>)"

definition read_required_status_check :: "rstring reader" where
  "read_required_status_check v =
     (case struct_members [(lit ''context'', False)] v of
        Some [c] \<Rightarrow> required read_string c
      | _ \<Rightarrow> None)"

record required_status_checks_projection =
  rp_contexts :: "rstring list"
  rp_checks :: "rstring list"

definition read_required_status_checks :: "required_status_checks_projection reader" where
  "read_required_status_checks v =
     (case struct_members [(lit ''contexts'', True), (lit ''checks'', True)] v of
        Some [c, k] \<Rightarrow>
          (case (defaulted [] (read_vec read_string) c,
                 defaulted [] (read_vec read_required_status_check) k) of
             (Some cs, Some ks) \<Rightarrow> Some \<lparr>rp_contexts = cs, rp_checks = ks\<rparr>
           | _ \<Rightarrow> None)
      | _ \<Rightarrow> None)"

definition into_required_checks :: "required_status_checks_projection \<Rightarrow> required_checks" where
  "into_required_checks p =
     (if rp_checks p = []
      then required_checks_new (take MAX_REQUIRED_CHECK_COUNT
             (List.map_filter display_name_sanitize (rp_contexts p)))
      else required_checks_new (take MAX_REQUIRED_CHECK_COUNT
             (List.map_filter display_name_sanitize (rp_checks p))))"

subsection \<open>Requests in turn\<close>

text \<open>The state of a call: the client and the requests sent so far.\<close>

type_synonym github_state = "github_app_client \<times> github_request list"

definition send_request ::
  "github_answers \<Rightarrow> github_request \<Rightarrow> github_request list
   \<Rightarrow> (github_client_error, github_response) result \<times> github_request list" where
  "send_request respond rq sent =
     (case gr_url rq of
        None \<Rightarrow> Err Transport
      | Some _ \<Rightarrow> ok_or Transport (respond sent rq),
      sent @ [rq])"

definition token_request :: "github_lib \<Rightarrow> github_app_client \<Rightarrow> rstring \<Rightarrow> github_request" where
  "token_request lib client jwt =
     \<lparr>gr_method = Post,
      gr_url = into_url lib (gc_api_base_url client @ lit ''/app/installations/''
        @ decimal (gc_installation_id client) @ lit ''/access_tokens''),
      gr_headers = [(lit ''accept'', lit GITHUB_ACCEPT),
        (lit ''x-github-api-version'', lit GITHUB_API_VERSION), (lit ''content-length'', lit ''0'')],
      gr_bearer = jwt\<rparr>"

definition mint_installation_token ::
  "github_lib \<Rightarrow> github_answers \<Rightarrow> instant \<Rightarrow> github_state
   \<Rightarrow> (github_client_error, cached_installation_token) result \<times> github_state" where
  "mint_installation_token lib respond now s =
     (case s of (client, sent) \<Rightarrow>
      case app_jwt lib client now of
        Inl e \<Rightarrow> (Err e, client, sent)
      | Inr jwt \<Rightarrow>
          (case send_request respond (token_request lib client jwt) sent of (response, sent') \<Rightarrow>
            (and_then response (\<lambda>r.
             and_then (read_bounded_body r) (\<lambda>body.
             and_then (ok_or Decode (Option.bind (github_json lib body) read_installation_token))
               (into_cached_token lib))),
             client, sent')))"

definition installation_token ::
  "github_lib \<Rightarrow> github_answers \<Rightarrow> instant \<Rightarrow> github_state
   \<Rightarrow> (github_client_error, rstring) result \<times> github_state" where
  "installation_token lib respond now s =
     (let mint =
        (case mint_installation_token lib respond now s of
           (Inl e, s') \<Rightarrow> (Err e, s')
         | (Inr minted, client, sent) \<Rightarrow>
             (Ok (token_text minted), client\<lparr>gc_installation_token := Some minted\<rparr>, sent))
      in case gc_installation_token (fst s) of
           Some cached \<Rightarrow> if is_usable_at cached now then (Ok (token_text cached), s) else mint
         | None \<Rightarrow> mint)"

definition protection_request ::
  "github_lib \<Rightarrow> github_app_client \<Rightarrow> canonical_repository_name \<Rightarrow> workflow_branch \<Rightarrow> rstring
   \<Rightarrow> github_request" where
  "protection_request lib client repository branch token =
     \<lparr>gr_method = Get,
      gr_url = into_url lib (gc_api_base_url client @ lit ''/repos/'' @ name_as_str repository
        @ lit ''/branches/''
        @ utf8_percent_encode lib (branch_as_str branch) BRANCH_SEGMENT_ENCODE_SET
        @ lit ''/protection/required_status_checks''),
      gr_headers = [(lit ''accept'', lit GITHUB_ACCEPT),
        (lit ''x-github-api-version'', lit GITHUB_API_VERSION)],
      gr_bearer = token\<rparr>"

definition protection_answer ::
  "github_lib \<Rightarrow> github_response \<Rightarrow> (github_client_error, required_checks) result" where
  "protection_answer lib response =
     (if gp_status response = 404 then Ok (RequiredChecks [])
      else and_then (read_bounded_body response) (\<lambda>body.
        and_then (ok_or Decode (Option.bind (github_json lib body) read_required_status_checks))
          (\<lambda>p. Ok (into_required_checks p))))"

definition github_required_checks ::
  "github_lib \<Rightarrow> github_answers \<Rightarrow> canonical_repository_name \<Rightarrow> workflow_branch \<Rightarrow> instant
   \<Rightarrow> github_state \<Rightarrow> (github_client_error, required_checks) result \<times> github_state" where
  "github_required_checks lib respond repository branch now s =
     (case installation_token lib respond now s of
        (Inl e, s') \<Rightarrow> (Err e, s')
      | (Inr token, client, sent) \<Rightarrow>
          (case send_request respond (protection_request lib client repository branch token) sent of
             (response, sent') \<Rightarrow>
               (and_then response (protection_answer lib), client, sent')))"

end
