(* ===== verification/Request_Target.thy ===== *)
theory Request_Target
  imports Github_Client
begin

section \<open>Request targets\<close>

text \<open>
  What request target a webhook's branch can lead to. Two hypotheses state documented behaviour of the
  libraries between the formatted address and the request: \<open>percent_encoding\<close> that of the
  percent-encoding crate, \<open>follows_url_standard\<close> that of the URL parser. The branch stays inside its
  place when it has no backslash; one with backslashes can climb out of it.
\<close>

subsection \<open>Percent-encoding\<close>

text \<open>
  A character is kept when it is ASCII and outside the set, else each byte of its UTF-8 form is
  written as \<open>%\<close> and two upper-case hexadecimal digits.
\<close>

definition hex_digit :: "nat \<Rightarrow> nat" where
  "hex_digit d = (if d < 10 then 48 + d else 55 + d)"

definition percent_byte :: "nat \<Rightarrow> rstring" where
  "percent_byte b = [37, hex_digit (b div 16), hex_digit (b mod 16)]"

definition percent_char :: "(nat \<Rightarrow> bool) \<Rightarrow> nat \<Rightarrow> rstring" where
  "percent_char encoded c =
     (if c < 128 \<and> \<not> encoded c then [c] else concat (map percent_byte (utf8_char c)))"

definition percent_text :: "(nat \<Rightarrow> bool) \<Rightarrow> rstring \<Rightarrow> rstring" where
  "percent_text encoded s = concat (map (percent_char encoded) s)"

definition percent_encoding :: "github_lib \<Rightarrow> bool" where
  "percent_encoding lib \<longleftrightarrow> (\<forall>s encoded. utf8_percent_encode lib s encoded = percent_text encoded s)"

lemma percent_text_simps [simp]:
  "percent_text encoded [] = []"
  "percent_text encoded (c # s) = percent_char encoded c @ percent_text encoded s"
  by (simp_all add: percent_text_def)

lemma hex_digit_inj: "a < 16 \<Longrightarrow> b < 16 \<Longrightarrow> hex_digit a = hex_digit b \<longleftrightarrow> a = b"
  by (auto simp: hex_digit_def)

lemma hex_digit_range: "d < 16 \<Longrightarrow> hex_digit d \<in> {48..57} \<union> {65..70}"
  by (auto simp: hex_digit_def)

lemma percent_byte_cancel:
  assumes "b < 256" "b' < 256"
  shows "percent_byte b @ x = percent_byte b' @ y \<longleftrightarrow> b = b' \<and> x = y"
proof -
  have "b = b' \<longleftrightarrow> b div 16 = b' div 16 \<and> b mod 16 = b' mod 16"
    by (metis div_mult_mod_eq)
  moreover have "b div 16 < 16" "b' div 16 < 16"
    using assms by auto
  ultimately show ?thesis
    by (auto simp: percent_byte_def hex_digit_inj)
qed

lemma percent_char_kept_or_escaped:
  assumes "scalar_value c" and "d \<in> set (percent_char encoded c)"
  shows "d = c \<and> c < 128 \<and> \<not> encoded c \<or> d = 37 \<or> d \<in> {48..57} \<union> {65..70}"
proof (cases "c < 128 \<and> \<not> encoded c")
  case False
  then obtain b where b: "b \<in> set (utf8_char c)" "d \<in> set (percent_byte b)"
    using assms(2) by (auto simp: percent_char_def)
  then have "b < 256"
    using assms(1) utf8_char_lt_256 by blast
  then have "hex_digit (b div 16) \<in> {48..57} \<union> {65..70}" "hex_digit (b mod 16) \<in> {48..57} \<union> {65..70}"
    using hex_digit_range [of "b div 16"] hex_digit_range [of "b mod 16"] by simp_all
  with b(2) show ?thesis
    unfolding percent_byte_def by fastforce
qed (use assms(2) in \<open>simp add: percent_char_def\<close>)

lemma percent_char_escape:
  "\<not> (c < 128 \<and> \<not> encoded c) \<Longrightarrow> \<exists>ds. percent_char encoded c = 37 # ds"
  by (simp add: percent_char_def utf8_char_def percent_byte_def)

lemma percent_char_not_Nil [simp]: "percent_char encoded c \<noteq> []"
  by (simp add: percent_char_def utf8_char_def percent_byte_def)

lemma percent_text_unescaped: "37 \<notin> set (percent_text encoded s) \<Longrightarrow> percent_text encoded s = s"
proof (induction s)
  case (Cons c s)
  have "c < 128 \<and> \<not> encoded c"
  proof (rule ccontr)
    assume "\<not> (c < 128 \<and> \<not> encoded c)"
    with percent_char_escape [of c encoded] Cons.prems show False by auto
  qed
  with Cons show ?case
    by (simp add: percent_char_def)
qed simp

lemma split_on_append:
  "d \<notin> set xs \<Longrightarrow> split_on d (xs @ ys)
     = (case split_on d ys of [] \<Rightarrow> [xs] | s # ss \<Rightarrow> (xs @ s) # ss)"
  by (induction xs) (auto split: list.splits)

lemma percent_text_segments:
  assumes "\<forall>c \<in> set s. scalar_value c" and "\<not> encoded 47"
  shows "split_on 47 (percent_text encoded s) = map (percent_text encoded) (split_on 47 s)"
  using assms(1)
proof (induction s)
  case (Cons c s)
  show ?case
  proof (cases "c = 47")
    case True
    with Cons assms(2) show ?thesis
      by (simp add: percent_char_def)
  next
    case False
    have "47 \<notin> set (percent_char encoded c)"
      using percent_char_kept_or_escaped [of c 47 encoded] Cons.prems False by auto
    with Cons False split_on_not_Nil [of 47 s] show ?thesis
      by (auto simp: split_on_append split: list.splits)
  qed
qed simp

text \<open>Different text has different encodings: UTF-8 and the escapes can be read back.\<close>

lemma percent_bytes_cancel:
  assumes "\<forall>b \<in> set bs \<union> set bs'. b < 256" and "length bs = length bs'"
    and "concat (map percent_byte bs) @ x = concat (map percent_byte bs') @ y"
  shows "bs = bs' \<and> x = y"
  using assms(2,1,3) by (induction bs bs' rule: list_induct2) (auto simp: percent_byte_cancel)

lemma utf8_char_lead:
  assumes "scalar_value c" "scalar_value d" "hd (utf8_char c) = hd (utf8_char d)"
  shows "length (utf8_char c) = length (utf8_char d)"
  using assms by (auto simp: utf8_char_def scalar_value_def split: if_splits)

lemma utf8_char_inj:
  assumes "utf8_char c = utf8_char d"
  shows "c = d"
proof -
  have digits: "m = n" if "m div 64 = n div 64" "m mod 64 = n mod 64" for m n :: nat
    using that by (metis div_mult_mod_eq)
  have deep: "n div 4096 = n div 64 div 64" "n div 262144 = n div 64 div 64 div 64" for n :: nat
    by (simp_all add: div_mult2_eq [symmetric])
  show ?thesis
    using assms unfolding utf8_char_def deep by (auto intro!: digits split: if_splits)
qed

lemma utf8_char_cancel:
  assumes "scalar_value c" "scalar_value d"
    and "concat (map percent_byte (utf8_char c)) @ x = concat (map percent_byte (utf8_char d)) @ y"
  shows "c = d \<and> x = y"
proof -
  have lt: "\<forall>b \<in> set (utf8_char c) \<union> set (utf8_char d). b < 256"
    using assms(1,2) utf8_char_lt_256 by blast
  obtain b bs b' bs' where u: "utf8_char c = b # bs" "utf8_char d = b' # bs'"
    by (metis list.exhaust utf8_char_def list.distinct(1))
  with assms(3) lt have "b = b'"
    using percent_byte_cancel [of b b'] by simp
  then have "length (utf8_char c) = length (utf8_char d)"
    using utf8_char_lead [OF assms(1,2)] u by simp
  with percent_bytes_cancel [OF lt _ assms(3)] utf8_char_inj show ?thesis
    by blast
qed

lemma percent_char_cancel:
  assumes "scalar_value c" "scalar_value d" "encoded 37"
    and "percent_char encoded c @ x = percent_char encoded d @ y"
  shows "c = d \<and> x = y"
proof -
  let ?kept = "\<lambda>c. c < 128 \<and> \<not> encoded c"
  consider "?kept c" "?kept d" | "\<not> ?kept c" "\<not> ?kept d" | "?kept c" "\<not> ?kept d" | "\<not> ?kept c" "?kept d"
    by blast
  then show ?thesis
  proof cases
    case 2
    then have "percent_char encoded c = concat (map percent_byte (utf8_char c))"
      "percent_char encoded d = concat (map percent_byte (utf8_char d))"
      unfolding percent_char_def by (meson if_not_P)+
    with assms show ?thesis
      using utf8_char_cancel [of c d x y] by metis
  next
    case 3
    then obtain ds where "percent_char encoded d = 37 # ds"
      using percent_char_escape by blast
    moreover have "percent_char encoded c = [c]"
      using 3 by (simp add: percent_char_def)
    ultimately show ?thesis
      using 3 assms(3,4) by auto
  next
    case 4
    then obtain ds where "percent_char encoded c = 37 # ds"
      using percent_char_escape by blast
    moreover have "percent_char encoded d = [d]"
      using 4 by (simp add: percent_char_def)
    ultimately show ?thesis
      using 4 assms(3,4) by auto
  next
    case 1
    then have "percent_char encoded c = [c]" "percent_char encoded d = [d]"
      by (simp_all add: percent_char_def)
    with assms(4) show ?thesis
      by simp
  qed
qed

lemma percent_text_inj:
  assumes "\<forall>c \<in> set s. scalar_value c" "\<forall>c \<in> set t. scalar_value c" "encoded 37"
    and "percent_text encoded s = percent_text encoded t"
  shows "s = t"
  using assms
proof (induction s arbitrary: t)
  case Nil
  then show ?case
    by (cases t) auto
next
  case (Cons c s)
  from Cons.prems obtain d t' where t: "t = d # t'"
    by (cases t) auto
  have "c = d \<and> percent_text encoded s = percent_text encoded t'"
    using Cons.prems unfolding t by (intro percent_char_cancel [where encoded = encoded]) simp_all
  with Cons.IH [of t'] Cons.prems show ?case
    unfolding t by simp
qed

subsection \<open>The encoded branch\<close>

lemma encode_set_members:
  "BRANCH_SEGMENT_ENCODE_SET 37" "\<not> BRANCH_SEGMENT_ENCODE_SET 47" "BRANCH_SEGMENT_ENCODE_SET 35"
  "BRANCH_SEGMENT_ENCODE_SET 63" "BRANCH_SEGMENT_ENCODE_SET 32" "\<not> BRANCH_SEGMENT_ENCODE_SET 92"
  by (simp_all add: BRANCH_SEGMENT_ENCODE_SET_def lit_def)

lemma encode_set_controls: "c < 33 \<or> c = 127 \<Longrightarrow> BRANCH_SEGMENT_ENCODE_SET c"
  by (auto simp: BRANCH_SEGMENT_ENCODE_SET_def lit_def)

lemma encoded_character:
  assumes "\<forall>c \<in> set s. scalar_value c" and "d \<in> set (percent_text BRANCH_SEGMENT_ENCODE_SET s)"
  shows "33 \<le> d \<and> d < 127 \<and> d \<noteq> 35 \<and> d \<noteq> 63"
proof -
  obtain c where "c \<in> set s" "d \<in> set (percent_char BRANCH_SEGMENT_ENCODE_SET c)"
    using assms(2) by (auto simp: percent_text_def)
  with assms(1) percent_char_kept_or_escaped [of c d BRANCH_SEGMENT_ENCODE_SET]
  have "d < 128 \<and> \<not> BRANCH_SEGMENT_ENCODE_SET d \<or> d = 37 \<or> d \<in> {48..57} \<union> {65..70}"
    by auto
  then show ?thesis
    using encode_set_controls [of d] encode_set_members by (cases "d < 33 \<or> d = 127") auto
qed

subsection \<open>The path of an address\<close>

text \<open>
  The path state of the URL standard, which the \<open>url\<close> crate implements, for an \<open>http\<close> or \<open>https\<close>
  address: a backslash separates segments as a slash does; a segment \<open>.\<close> is dropped and a segment
  \<open>..\<close> removes the one before it, also where the dots are percent-encoded; every other segment is
  appended with the characters of the path set encoded. Editions of the standard differ in whether
  that set has the circumflex (\<open>caret\<close>).
\<close>

definition PATH_ENCODE_SET :: "bool \<Rightarrow> nat \<Rightarrow> bool" where
  "PATH_ENCODE_SET caret c \<longleftrightarrow>
     c < 32 \<or> c = 127 \<or> c \<in> set (lit '' '') \<or> c \<in> set (lit [CHR 0x22]) \<or> c \<in> set (lit ''#<>?`{}'')
     \<or> caret \<and> c = 94"

definition path_segments :: "rstring \<Rightarrow> rstring list" where
  "path_segments path = split_on 47 (map (\<lambda>c. if c = 92 then 47 else c) path)"

definition single_dot :: "rstring \<Rightarrow> bool" where
  "single_dot s \<longleftrightarrow> to_ascii_lowercase s \<in> {lit ''.'', lit ''%2e''}"

definition double_dot :: "rstring \<Rightarrow> bool" where
  "double_dot s \<longleftrightarrow> to_ascii_lowercase s \<in> {lit ''..'', lit ''.%2e'', lit ''%2e.'', lit ''%2e%2e''}"

definition push_segment :: "bool \<Rightarrow> rstring list \<Rightarrow> rstring \<Rightarrow> rstring list" where
  "push_segment caret path s =
     (if double_dot s then butlast path
      else if single_dot s then path
      else path @ [percent_text (PATH_ENCODE_SET caret) s])"

definition normalized_path :: "bool \<Rightarrow> rstring list \<Rightarrow> rstring list" where
  "normalized_path caret segments =
     foldl (push_segment caret) [] segments
     @ (if double_dot (last segments) \<or> single_dot (last segments) then [[]] else [])"

text \<open>
  An address is a scheme, an authority and a path, neither of them with the marks that end it. When
  the address without its path is accepted, so is the address with it, and only the path differs.
\<close>

definition site_text :: "rstring \<Rightarrow> rstring \<Rightarrow> rstring" where
  "site_text scheme authority = scheme @ lit ''://'' @ authority"

definition web_site :: "rstring \<Rightarrow> rstring \<Rightarrow> bool" where
  "web_site scheme authority \<longleftrightarrow>
     scheme \<in> {lit ''http'', lit ''https''}
     \<and> (\<forall>c \<in> set authority. 33 \<le> c \<and> c \<notin> set (lit ''/?#'') \<and> c \<noteq> 92)"

definition path_text :: "rstring \<Rightarrow> bool" where
  "path_text path \<longleftrightarrow> (\<forall>c \<in> set path. 33 \<le> c \<and> c < 127 \<and> c \<noteq> 35 \<and> c \<noteq> 63)"

definition follows_url_standard :: "bool \<Rightarrow> github_lib \<Rightarrow> bool" where
  "follows_url_standard caret lib \<longleftrightarrow>
     (\<forall>scheme authority site path.
        web_site scheme authority \<and> path_text path
        \<and> into_url lib (site_text scheme authority) = Some site \<longrightarrow>
        into_url lib (site_text scheme authority @ 47 # path)
          = Some (site\<lparr>ru_path := normalized_path caret (path_segments path), ru_query := None\<rparr>))"

text \<open>The path of a base address: what is before the first segment the client adds.\<close>

definition base_segments :: "bool \<Rightarrow> rstring \<Rightarrow> rstring list" where
  "base_segments caret prefix =
     (case prefix of [] \<Rightarrow> [] | _ # path \<Rightarrow> foldl (push_segment caret) [] (path_segments path))"

definition base_address :: "rstring \<Rightarrow> rstring \<Rightarrow> rstring \<Rightarrow> rstring \<Rightarrow> bool" where
  "base_address base scheme authority prefix \<longleftrightarrow>
     web_site scheme authority \<and> base = site_text scheme authority @ prefix
     \<and> path_text prefix \<and> (case prefix of [] \<Rightarrow> True | c # _ \<Rightarrow> c = 47)"

lemma split_on_separated: "split_on d (xs @ d # ys) = split_on d xs @ split_on d ys"
proof (induction xs)
  case (Cons x xs)
  then show ?case
    using split_on_not_Nil [of d xs] by (auto split: list.splits)
qed simp

lemma path_segments_append:
  "path_segments (p @ 47 # q) = path_segments p @ path_segments q"
  by (simp add: path_segments_def split_on_separated)

lemma path_segments_no_backslash: "92 \<notin> set p \<Longrightarrow> path_segments p = split_on 47 p"
proof -
  assume "92 \<notin> set p"
  then have "map (\<lambda>c. if c = 92 then 47 else c) p = p"
    by (intro map_idI) auto
  then show ?thesis
    by (simp add: path_segments_def)
qed

lemma path_segments_not_Nil [simp]: "path_segments p \<noteq> []"
  by (simp add: path_segments_def split_on_not_Nil)

text \<open>The target of any address below a base address.\<close>

lemma target_below_base:
  assumes "follows_url_standard caret lib" and "base_address base scheme authority prefix"
    and "into_url lib (site_text scheme authority) = Some site" and "path_text rest"
    and "\<not> single_dot (last (path_segments rest))" "\<not> double_dot (last (path_segments rest))"
  shows "into_url lib (base @ 47 # rest)
    = Some (site\<lparr>ru_path := foldl (push_segment caret) (base_segments caret prefix)
        (path_segments rest), ru_query := None\<rparr>)"
proof -
  have site: "into_url lib (site_text scheme authority @ 47 # path)
      = Some (site\<lparr>ru_path := normalized_path caret (path_segments path), ru_query := None\<rparr>)"
    if "path_text path" for path
    using assms(1-3) that unfolding follows_url_standard_def base_address_def by blast
  show ?thesis
  proof (cases prefix)
    case Nil
    then show ?thesis
      using site [OF assms(4)] assms(2,5,6)
      by (simp add: base_address_def base_segments_def normalized_path_def)
  next
    case (Cons c path)
    then have "path_text (path @ 47 # rest)" "base @ 47 # rest
        = site_text scheme authority @ 47 # (path @ 47 # rest)"
      using assms(2,4) by (auto simp: base_address_def path_text_def)
    with site [OF this(1)] Cons assms(5,6) show ?thesis
      by (simp add: base_segments_def normalized_path_def path_segments_append)
  qed
qed

subsection \<open>Requests for the protection of a branch\<close>

text \<open>What the path encoding leaves of an encoded branch: at most a circumflex is encoded in addition.\<close>

definition target_encoded :: "bool \<Rightarrow> nat \<Rightarrow> bool" where
  "target_encoded caret c \<longleftrightarrow> BRANCH_SEGMENT_ENCODE_SET c \<or> caret \<and> c = 94"

lemma target_encoded_slash: "\<not> target_encoded caret 47"
  by (simp add: target_encoded_def encode_set_members)

lemma path_set_within:
  "33 \<le> d \<and> d < 127 \<and> \<not> BRANCH_SEGMENT_ENCODE_SET d \<or> d = 37 \<or> d \<in> {48..57} \<union> {65..70}
   \<Longrightarrow> PATH_ENCODE_SET caret d \<longleftrightarrow> caret \<and> d = 94"
  by (auto simp: PATH_ENCODE_SET_def BRANCH_SEGMENT_ENCODE_SET_def lit_def)

lemma percent_text_kept: "\<forall>c \<in> set s. c < 128 \<and> \<not> encoded c \<Longrightarrow> percent_text encoded s = s"
  by (induction s) (simp_all add: percent_char_def)

lemma percent_text_append [simp]:
  "percent_text encoded (s @ t) = percent_text encoded s @ percent_text encoded t"
  by (simp add: percent_text_def)

lemma percent_char_twice:
  assumes "scalar_value c"
  shows "percent_text (PATH_ENCODE_SET caret) (percent_char BRANCH_SEGMENT_ENCODE_SET c)
    = percent_char (target_encoded caret) c"
proof (cases "c < 128 \<and> \<not> BRANCH_SEGMENT_ENCODE_SET c")
  case True
  then have "33 \<le> c \<and> c < 127"
    using encode_set_controls [of c] by (cases "c < 33 \<or> c = 127") auto
  with True path_set_within [of c caret] show ?thesis
    by (auto simp: percent_char_def target_encoded_def)
next
  case False
  then have "d = 37 \<or> d \<in> {48..57} \<union> {65..70}"
    if "d \<in> set (percent_char BRANCH_SEGMENT_ENCODE_SET c)" for d
    using percent_char_kept_or_escaped [OF assms that] by auto
  then have "percent_text (PATH_ENCODE_SET caret) (percent_char BRANCH_SEGMENT_ENCODE_SET c)
      = percent_char BRANCH_SEGMENT_ENCODE_SET c"
    using path_set_within by (intro percent_text_kept) fastforce
  with False show ?thesis
    by (auto simp: percent_char_def target_encoded_def)
qed

lemma percent_text_twice:
  "\<forall>c \<in> set s. scalar_value c \<Longrightarrow>
     percent_text (PATH_ENCODE_SET caret) (percent_text BRANCH_SEGMENT_ENCODE_SET s)
       = percent_text (target_encoded caret) s"
  by (induction s) (simp_all add: percent_char_twice)

text \<open>No escape is that of a dot, so an encoded segment is a dot segment only if the branch's is.\<close>

lemma percent_char_no_dot:
  assumes "scalar_value c" "\<not> encoded 46" "encoded 37"
    and "percent_char encoded c = 37 # ds"
  shows "\<exists>a b es. ds = a # b # es \<and> \<not> (a = 50 \<and> b \<in> {69, 101})"
proof -
  have "\<not> (c < 128 \<and> \<not> encoded c)"
    using assms by (auto simp: percent_char_def split: if_splits)
  moreover obtain b bs where "utf8_char c = b # bs"
    by (metis list.exhaust utf8_char_def list.distinct(1))
  ultimately have u: "utf8_char c = b # bs"
      "percent_char encoded c = percent_byte b @ concat (map percent_byte bs)"
    by (auto simp: percent_char_def)
  have "b = c \<and> c < 128 \<and> encoded c \<or> 128 \<le> b"
    using u(1) \<open>\<not> (c < 128 \<and> \<not> encoded c)\<close> by (auto simp: utf8_char_def split: if_splits)
  then have "b \<noteq> 46"
    using assms(2) by auto
  moreover have "b < 256"
    using u(1) assms(1) utf8_char_lt_256 [of c b] by simp
  moreover have "b div 16 = 2 \<and> b mod 16 = 14 \<longrightarrow> b = 46"
    by presburger
  ultimately show ?thesis
    using assms(4) u(2) unfolding percent_byte_def hex_digit_def by (auto split: if_splits)
qed

lemma percent_text_Nil_iff [simp]:
  "percent_text encoded s = [] \<longleftrightarrow> s = []" "[] = percent_text encoded s \<longleftrightarrow> s = []"
  by (cases s; simp)+

lemma percent_text_peel:
  assumes "\<forall>c \<in> set s. scalar_value c" "\<not> encoded 46" "encoded 37"
    and "percent_text encoded s = d # ds"
  shows "d \<noteq> 37 \<and> (\<exists>s'. s = d # s' \<and> ds = percent_text encoded s')
    \<or> d = 37 \<and> (\<exists>a b es. ds = a # b # es \<and> \<not> (a = 50 \<and> b \<in> {69, 101}))"
proof -
  obtain c s' where s: "s = c # s'"
    using assms(4) by (cases s) auto
  show ?thesis
  proof (cases "c < 128 \<and> \<not> encoded c")
    case True
    then show ?thesis
      using assms(3,4) s by (auto simp: percent_char_def)
  next
    case False
    then obtain es where e: "percent_char encoded c = 37 # es"
      using percent_char_escape by blast
    from percent_char_no_dot [OF _ assms(2,3) e] assms(1,4) s e show ?thesis
      by auto
  qed
qed

lemma lowercase_marks:
  "ascii_lowercase_char c = 46 \<longleftrightarrow> c = 46" "ascii_lowercase_char c = 37 \<longleftrightarrow> c = 37"
  "ascii_lowercase_char c = 50 \<longleftrightarrow> c = 50" "ascii_lowercase_char c = 101 \<longleftrightarrow> c \<in> {69, 101}"
  by (auto simp: ascii_lowercase_char_def)

lemma encoded_dots:
  assumes "\<forall>c \<in> set s. scalar_value c" "\<not> encoded 46" "encoded 37"
  shows "single_dot (percent_text encoded s) \<Longrightarrow> s = lit ''.''"
    and "double_dot (percent_text encoded s) \<Longrightarrow> s = lit ''..''"
proof -
  have dot: "\<exists>s'. s = 46 # s' \<and> ds = percent_text encoded s'"
    if "percent_text encoded s = 46 # ds" "\<forall>c \<in> set s. scalar_value c" for s ds
    using percent_text_peel [OF that(2) assms(2,3) that(1)] by simp
  have escape: False
    if "percent_text encoded s = 37 # 50 # b # ds" "b = 69 \<or> b = 101" "\<forall>c \<in> set s. scalar_value c"
    for s b ds
    using percent_text_peel [OF that(3) assms(2,3) that(1)] that(2) by auto
  show "s = lit ''.''" if "single_dot (percent_text encoded s)"
    using that assms(1) dot [of s] escape [of s]
    by (auto simp: single_dot_def to_ascii_lowercase_def lit_def map_eq_Cons_conv lowercase_marks)
  show "s = lit ''..''" if "double_dot (percent_text encoded s)"
    using that assms(1)
    by (auto simp: double_dot_def to_ascii_lowercase_def lit_def map_eq_Cons_conv lowercase_marks
        dest!: dot dot [OF sym] dest: escape escape [OF sym])
qed

text \<open>The address of a request, and the segments of its path.\<close>

definition protection_path :: "rstring \<Rightarrow> rstring \<Rightarrow> rstring" where
  "protection_path name encoded =
     lit ''repos'' @ 47 # name @ 47 # lit ''branches'' @ 47 # encoded @ 47 # lit ''protection''
       @ 47 # lit ''required_status_checks''"

lemma protection_address:
  assumes "percent_encoding lib"
  shows "gr_url (protection_request lib client repository branch token)
    = into_url lib (gc_api_base_url client @ 47 # protection_path (name_as_str repository)
        (percent_text BRANCH_SEGMENT_ENCODE_SET (branch_as_str branch)))"
  using assms
  by (simp add: protection_request_def percent_encoding_def protection_path_def lit_def)

lemma lit_segments [simp]:
  "path_segments (lit ''repos'') = [lit ''repos'']"
  "path_segments (lit ''branches'') = [lit ''branches'']"
  "path_segments (lit ''protection'') = [lit ''protection'']"
  "path_segments (lit ''required_status_checks'') = [lit ''required_status_checks'']"
  by (simp_all add: path_segments_def lit_def)

lemma protection_path_segments:
  "path_segments (protection_path name encoded)
     = lit ''repos'' # path_segments name @ lit ''branches'' # path_segments encoded
       @ [lit ''protection'', lit ''required_status_checks'']"
  by (simp add: protection_path_def path_segments_append)

definition plain_segment :: "rstring \<Rightarrow> bool" where
  "plain_segment s \<longleftrightarrow> \<not> single_dot s \<and> \<not> double_dot s \<and> s \<noteq> []
     \<and> (\<forall>c \<in> set s. 33 \<le> c \<and> c < 127 \<and> c \<notin> set (lit ''/?#'') \<and> c \<noteq> 92)"

lemma push_plain:
  "\<not> single_dot s \<Longrightarrow> \<not> double_dot s \<Longrightarrow>
     push_segment caret path s = path @ [percent_text (PATH_ENCODE_SET caret) s]"
  by (simp add: push_segment_def)

lemma push_all_plain:
  "\<forall>s \<in> set ss. \<not> single_dot s \<and> \<not> double_dot s \<Longrightarrow>
     foldl (push_segment caret) path ss = path @ map (percent_text (PATH_ENCODE_SET caret)) ss"
  by (induction ss arbitrary: path) (simp_all add: push_plain)

lemma push_dots: "push_segment caret path (lit ''..'') = butlast path"
  by (simp add: push_segment_def double_dot_def to_ascii_lowercase_def lit_def ascii_lowercase_char_def)

lemma fixed_segments:
  assumes "s \<in> {lit ''repos'', lit ''branches'', lit ''protection'', lit ''required_status_checks'',
    lit ''x'', lit ''user''}"
  shows "\<not> single_dot s \<and> \<not> double_dot s \<and> percent_text (PATH_ENCODE_SET caret) s = s"
  using assms
  by (auto simp: single_dot_def double_dot_def to_ascii_lowercase_def lit_def
      ascii_lowercase_char_def percent_char_def PATH_ENCODE_SET_def)

lemma name_segments:
  assumes "well_formed_name repository" and "split_on 47 (name_as_str repository) = [owner, project]"
    and "{owner, project} \<inter> {lit ''.'', lit ''..''} = {}"
  shows "path_segments (name_as_str repository) = [owner, project]"
    and "path_text (name_as_str repository)"
    and "\<forall>s \<in> {owner, project}. \<not> single_dot s \<and> \<not> double_dot s
      \<and> percent_text (PATH_ENCODE_SET caret) s = s"
proof -
  have chars: "\<forall>c \<in> set owner \<union> set project. name_char c"
    using assms(1,2) by (auto simp: well_formed_name_def valid_repository_segment_iff list_all_iff)
  then have name: "name_as_str repository = owner @ 47 # project"
    using assms(2) join_with_split_on [of 47 "name_as_str repository"] by simp
  have range: "33 \<le> c \<and> c < 127 \<and> c \<noteq> 35 \<and> c \<noteq> 63 \<and> c \<noteq> 92 \<and> c \<noteq> 37 \<and> \<not> PATH_ENCODE_SET caret c"
    if "name_char c" for c caret
    using that
    by (auto simp: name_char_def is_ascii_alphanumeric_def PATH_ENCODE_SET_def lit_def)
  have "92 \<notin> set (name_as_str repository)"
    using chars range unfolding name by auto
  with assms(2) show "path_segments (name_as_str repository) = [owner, project]"
    by (simp add: path_segments_no_backslash)
  show "path_text (name_as_str repository)"
    using chars range unfolding path_text_def name by auto
  have "percent_text (PATH_ENCODE_SET caret) s = s" if "s \<in> {owner, project}" for s
    using that chars range by (intro percent_text_kept) fastforce
  moreover have "\<not> single_dot s \<and> \<not> double_dot s" if "s \<in> {owner, project}" for s
  proof -
    have "37 \<notin> set s"
      using that chars range by auto
    moreover have "s \<noteq> lit ''.''" "s \<noteq> lit ''..''"
      using that assms(3) by auto
    ultimately show ?thesis
      by (auto simp: single_dot_def double_dot_def to_ascii_lowercase_def lit_def map_eq_Cons_conv
          lowercase_marks)
  qed
  ultimately show "\<forall>s \<in> {owner, project}. \<not> single_dot s \<and> \<not> double_dot s
      \<and> percent_text (PATH_ENCODE_SET caret) s = s"
    by blast
qed

lemma split_on_members: "\<forall>s \<in> set (split_on d xs). \<forall>c \<in> set s. c \<in> set xs \<and> c \<noteq> d"
  by (induction xs) (auto split: list.splits)

lemma branch_segments:
  assumes "workflow_branch_sanitize v = Some branch" and "\<forall>c \<in> set v. scalar_value c \<and> c \<noteq> 92"
  shows "\<forall>c \<in> set (branch_as_str branch). scalar_value c" and "92 \<notin> set (branch_as_str branch)"
    and "path_segments (percent_text BRANCH_SEGMENT_ENCODE_SET (branch_as_str branch))
      = map (percent_text BRANCH_SEGMENT_ENCODE_SET) (split_on 47 (branch_as_str branch))"
    and "s \<in> set (split_on 47 (branch_as_str branch))
      \<Longrightarrow> \<forall>c \<in> set s. scalar_value c \<and> c \<noteq> 47 \<and> c \<noteq> 92"
proof -
  have "set (branch_as_str branch) \<subseteq> set v"
    using assms(1) by (auto simp: workflow_branch_sanitize_def Let_def split: if_splits
        dest!: in_set_takeD)
  with assms(2) have b: "\<forall>c \<in> set (branch_as_str branch). scalar_value c \<and> c \<noteq> 92"
    by blast
  then show "\<forall>c \<in> set (branch_as_str branch). scalar_value c" "92 \<notin> set (branch_as_str branch)"
    by auto
  have "92 \<notin> set (percent_text BRANCH_SEGMENT_ENCODE_SET (branch_as_str branch))"
  proof
    assume "92 \<in> set (percent_text BRANCH_SEGMENT_ENCODE_SET (branch_as_str branch))"
    then obtain c where "c \<in> set (branch_as_str branch)"
        "92 \<in> set (percent_char BRANCH_SEGMENT_ENCODE_SET c)"
      by (auto simp: percent_text_def)
    with b percent_char_kept_or_escaped [of c 92 BRANCH_SEGMENT_ENCODE_SET] show False
      by auto
  qed
  then show "path_segments (percent_text BRANCH_SEGMENT_ENCODE_SET (branch_as_str branch))
      = map (percent_text BRANCH_SEGMENT_ENCODE_SET) (split_on 47 (branch_as_str branch))"
    using b by (simp add: path_segments_no_backslash percent_text_segments encode_set_members)
  show "\<forall>c \<in> set s. scalar_value c \<and> c \<noteq> 47 \<and> c \<noteq> 92"
    if "s \<in> set (split_on 47 (branch_as_str branch))"
    using bspec [OF split_on_members that] b by blast
qed

lemma encoded_segment_plain:
  assumes "\<forall>c \<in> set s. scalar_value c \<and> c \<noteq> 47 \<and> c \<noteq> 92" and "\<not> unsafe_segment s"
    and "encoded = BRANCH_SEGMENT_ENCODE_SET \<or> encoded = target_encoded caret"
  shows "plain_segment (percent_text encoded s)"
proof -
  have sets: "\<not> encoded 46" "encoded 37" "encoded 35" "encoded 63"
    using assms(3) by (auto simp: target_encoded_def BRANCH_SEGMENT_ENCODE_SET_def lit_def)
  have controls: "encoded d" if "d < 33 \<or> d = 127" for d
    using assms(3) encode_set_controls [OF that] by (auto simp: target_encoded_def)
  have "33 \<le> d \<and> d < 127 \<and> d \<notin> {47, 63, 35} \<and> d \<noteq> 92" if d: "d \<in> set (percent_text encoded s)" for d
  proof -
    obtain c where "c \<in> set s" "d \<in> set (percent_char encoded c)"
      using d by (auto simp: percent_text_def)
    with assms(1) percent_char_kept_or_escaped [of c d encoded]
    have "d < 128 \<and> \<not> encoded d \<and> d \<noteq> 47 \<and> d \<noteq> 92 \<or> d = 37 \<or> d \<in> {48..57} \<union> {65..70}"
      by auto
    then show ?thesis
      using sets controls [of d] by (cases "d < 33 \<or> d = 127") auto
  qed
  then show ?thesis
    using encoded_dots [of s encoded] assms(1,2) sets
    by (auto simp: plain_segment_def unsafe_segment_def lit_def)
qed

text \<open>The target that a request for a branch of a repository has.\<close>

definition branch_target ::
  "bool \<Rightarrow> request_url \<Rightarrow> rstring \<Rightarrow> rstring \<Rightarrow> rstring \<Rightarrow> rstring list \<Rightarrow> request_url" where
  "branch_target caret site prefix owner project segments =
     site\<lparr>ru_path := base_segments caret prefix @ [lit ''repos'', owner, project, lit ''branches'']
        @ segments @ [lit ''protection'', lit ''required_status_checks''], ru_query := None\<rparr>"

lemma branch_target_inj:
  "branch_target caret site prefix owner project s = branch_target caret site prefix owner project t
     \<longleftrightarrow> s = t"
  by (auto simp: branch_target_def dest: arg_cong [where f = ru_path])

lemma protection_target:
  assumes "percent_encoding lib" and "follows_url_standard caret lib"
    and "base_address (gc_api_base_url client) scheme authority prefix"
    and "into_url lib (site_text scheme authority) = Some site"
    and "well_formed_name repository" and "split_on 47 (name_as_str repository) = [owner, project]"
    and "{owner, project} \<inter> {lit ''.'', lit ''..''} = {}"
    and "workflow_branch_sanitize v = Some branch" and "\<forall>c \<in> set v. scalar_value c \<and> c \<noteq> 92"
  shows "gr_url (protection_request lib client repository branch token)
    = Some (branch_target caret site prefix owner project
        (map (percent_text (target_encoded caret)) (split_on 47 (branch_as_str branch))))"
proof -
  let ?enc = "percent_text BRANCH_SEGMENT_ENCODE_SET"
  let ?b = "branch_as_str branch"
  let ?rest = "protection_path (name_as_str repository) (?enc ?b)"
  note name = name_segments(1,2) [OF assms(5-7)] name_segments(3) [OF assms(5-7), of caret]
  note branch = branch_segments [OF assms(8,9)]
  have segments: "path_segments ?rest = lit ''repos'' # [owner, project] @ lit ''branches''
      # map ?enc (split_on 47 ?b) @ [lit ''protection'', lit ''required_status_checks'']"
    by (simp add: protection_path_segments name(1) branch(3))
  have plain: "plain_segment (?enc s)" if "s \<in> set (split_on 47 ?b)" for s
    using that branch(4) workflow_branch_sanitize_sanitized [OF assms(8)]
    by (intro encoded_segment_plain) (auto simp: sanitized_branch_def)
  have "path_text (?enc ?b)"
    using encoded_character [OF branch(1)] by (auto simp: path_text_def)
  then have "path_text ?rest"
    using name(2) by (auto simp: path_text_def protection_path_def lit_def)
  then have "gr_url (protection_request lib client repository branch token)
      = Some (site\<lparr>ru_path := foldl (push_segment caret) (base_segments caret prefix)
          (path_segments ?rest), ru_query := None\<rparr>)"
    unfolding protection_address [OF assms(1)]
    using fixed_segments [of "lit ''required_status_checks''"]
    by (intro target_below_base [OF assms(2-4)]) (simp_all add: segments)
  moreover have "foldl (push_segment caret) (base_segments caret prefix) (path_segments ?rest)
      = base_segments caret prefix
        @ map (percent_text (PATH_ENCODE_SET caret)) (path_segments ?rest)"
    using name(3) plain fixed_segments unfolding segments
    by (intro push_all_plain) (auto simp: plain_segment_def)
  moreover have "map (percent_text (PATH_ENCODE_SET caret)) (map ?enc (split_on 47 ?b))
      = map (percent_text (target_encoded caret)) (split_on 47 ?b)"
    using branch(4) by (simp add: percent_text_twice)
  ultimately show ?thesis
    using name(3) fixed_segments by (simp add: segments branch_target_def)
qed

text \<open>
  C30: A branch without a backslash stays inside its place of the request target. With the URL parser
  following the standard, the target of a request keeps the site of the base address and has no
  query; its path is that of the base address, the repository and \<open>branches\<close>, then one segment for each
  segment of the branch, then the two fixed ones. Each segment of the branch is neither empty nor a dot
  segment and has no separator, query or fragment mark; and two branches never share a target.
\<close>

theorem request_target_confined:
  assumes "percent_encoding lib" and "follows_url_standard caret lib"
    and "base_address (gc_api_base_url client) scheme authority prefix"
    and "into_url lib (site_text scheme authority) = Some site"
    and "canonical_repository_name_new full_name = Ok repository"
    and "split_on 47 (name_as_str repository) = [owner, project]"
    and "{owner, project} \<inter> {lit ''.'', lit ''..''} = {}"
    and "workflow_branch_sanitize v = Some branch" and "workflow_branch_sanitize v' = Some branch'"
    and "\<forall>c \<in> set v \<union> set v'. scalar_value c \<and> c \<noteq> 92"
  shows "(\<exists>segments. gr_url (protection_request lib client repository branch token)
        = Some (site\<lparr>ru_path := base_segments caret prefix
            @ [lit ''repos'', owner, project, lit ''branches''] @ segments
            @ [lit ''protection'', lit ''required_status_checks''], ru_query := None\<rparr>)
      \<and> segments = map (percent_text (target_encoded caret)) (split_on 47 (branch_as_str branch))
      \<and> list_all plain_segment segments)
    \<and> (gr_url (protection_request lib client repository branch token)
        = gr_url (protection_request lib client repository branch' token)
      \<longleftrightarrow> branch = branch')"
proof -
  let ?enc = "percent_text (target_encoded caret)"
  have v: "\<forall>c \<in> set v. scalar_value c \<and> c \<noteq> 92" "\<forall>c \<in> set v'. scalar_value c \<and> c \<noteq> 92"
    using assms(10) by auto
  note name = name_new_well_formed(1) [OF assms(5)] assms(6,7)
  note url = protection_target [OF assms(1-4) name assms(8) v(1)]
    protection_target [OF assms(1-4) name assms(9) v(2)]
  have plain: "list_all plain_segment (map ?enc (split_on 47 (branch_as_str branch)))"
    using branch_segments(4) [OF assms(8) v(1)] workflow_branch_sanitize_sanitized [OF assms(8)]
    by (auto simp: list_all_iff sanitized_branch_def intro!: encoded_segment_plain)
  have "branch = branch'"
    if "map ?enc (split_on 47 (branch_as_str branch)) = map ?enc (split_on 47 (branch_as_str branch'))"
  proof -
    have "?enc (branch_as_str branch) = ?enc (branch_as_str branch')"
      using that branch_segments(1) [OF assms(8) v(1)] branch_segments(1) [OF assms(9) v(2)]
      by (metis join_with_split_on percent_text_segments target_encoded_slash)
    then show ?thesis
      using percent_text_inj branch_segments(1) [OF assms(8) v(1)] branch_segments(1) [OF assms(9) v(2)]
      by (metis encode_set_members(1) target_encoded_def workflow_branch.expand)
  qed
  then have "gr_url (protection_request lib client repository branch token)
        = gr_url (protection_request lib client repository branch' token)
      \<longleftrightarrow> branch = branch'"
    unfolding url option.inject branch_target_inj by blast
  then show ?thesis
    using plain url(1) by (auto simp: branch_target_def)
qed

text \<open>
  What keeps it inside: the sanitizer refuses dot segments between slashes, but a backslash is neither
  refused nor encoded, and the URL parser reads it as a separator. A branch with enough \<open>..\<close> between
  backslashes leaves the repository's part of the path. A repository name may be dots as well.
\<close>

definition climbing_branch :: rstring where
  "climbing_branch = lit (concat [''x'', [CHR 0x5C], ''..'', [CHR 0x5C], ''..'', [CHR 0x5C], ''..'',
     [CHR 0x5C], ''..'', [CHR 0x5C], ''..'', [CHR 0x5C], ''user''])"

lemma climbing_segments:
  "path_segments climbing_branch = [lit ''x'', lit ''..'', lit ''..'', lit ''..'', lit ''..'',
     lit ''..'', lit ''user'']"
  by (simp add: path_segments_def climbing_branch_def lit_def)

lemma backslash_branch_climbs:
  assumes "percent_encoding lib" and "follows_url_standard caret lib"
    and "base_address (gc_api_base_url client) scheme authority prefix"
    and "into_url lib (site_text scheme authority) = Some site"
    and "canonical_repository_name_new full_name = Ok repository"
    and "split_on 47 (name_as_str repository) = [owner, project]"
    and "{owner, project} \<inter> {lit ''.'', lit ''..''} = {}"
  shows "workflow_branch_sanitize climbing_branch = Some (WorkflowBranch climbing_branch)
    \<and> gr_url (protection_request lib client repository (WorkflowBranch climbing_branch) token)
      = Some (site\<lparr>ru_path := base_segments caret prefix
          @ [lit ''user'', lit ''protection'', lit ''required_status_checks''], ru_query := None\<rparr>)
    \<and> canonical_repository_name_new (lit ''../..'') = Ok (CanonicalRepositoryName (lit ''../..''))"
proof -
  note name = name_segments(1,2) [OF name_new_well_formed(1) [OF assms(5)] assms(6,7)]
    name_segments(3) [OF name_new_well_formed(1) [OF assms(5)] assms(6,7), of caret]
  let ?rest = "protection_path (name_as_str repository) climbing_branch"
  have kept: "percent_text BRANCH_SEGMENT_ENCODE_SET climbing_branch = climbing_branch"
    by (intro percent_text_kept)
      (simp add: climbing_branch_def lit_def BRANCH_SEGMENT_ENCODE_SET_def)
  have segments: "path_segments ?rest = [lit ''repos'', owner, project, lit ''branches'', lit ''x'',
      lit ''..'', lit ''..'', lit ''..'', lit ''..'', lit ''..'', lit ''user'', lit ''protection'',
      lit ''required_status_checks'']"
    by (simp add: protection_path_segments name(1) climbing_segments)
  have "path_text ?rest"
    using name(2) by (auto simp: path_text_def protection_path_def climbing_branch_def lit_def)
  then have "into_url lib (gc_api_base_url client @ 47 # ?rest)
      = Some (site\<lparr>ru_path := foldl (push_segment caret) (base_segments caret prefix)
          (path_segments ?rest), ru_query := None\<rparr>)"
    using fixed_segments [of "lit ''required_status_checks''"]
    by (intro target_below_base [OF assms(2-4)]) (simp_all add: segments)
  moreover have "foldl (push_segment caret) (base_segments caret prefix) (path_segments ?rest)
      = base_segments caret prefix
        @ [lit ''user'', lit ''protection'', lit ''required_status_checks'']"
  proof -
    have push: "push_segment caret path s = path @ [s]"
      if "s \<in> {lit ''repos'', lit ''branches'', lit ''protection'', lit ''required_status_checks'',
        lit ''x'', lit ''user'', owner, project}" for path s
      using that name(3) fixed_segments [of s caret] by (auto simp: push_plain)
    show ?thesis
      unfolding segments by (simp add: push push_dots butlast_append)
  qed
  moreover have "workflow_branch_sanitize climbing_branch = Some (WorkflowBranch climbing_branch)"
    by (simp add: workflow_branch_sanitize_def MAX_BRANCH_NAME_LENGTH_def is_control_def
        unsafe_segment_def climbing_branch_def lit_def)
  moreover have "canonical_repository_name_new (lit ''../..'')
      = Ok (CanonicalRepositoryName (lit ''../..''))"
    by (simp add: lit_def canonical_repository_name_new_def trim_def to_ascii_lowercase_def
        ascii_lowercase_char_def is_ascii_alphanumeric_def valid_repository_segment_iff name_char_def
        is_whitespace_def Let_def)
  ultimately show ?thesis
    by (simp add: protection_address [OF assms(1)] kept)
qed

subsection \<open>Sample libraries\<close>

definition sample_into_url :: "rstring \<Rightarrow> request_url option" where
  "sample_into_url address =
     (case split_on 47 address of
        scheme # _ # authority # path \<Rightarrow>
          Some \<lparr>ru_origin = scheme @ lit ''//'' @ authority,
            ru_path = (if path = [] then [[]]
              else normalized_path True (path_segments (join_with 47 path))),
            ru_query = None\<rparr>
      | _ \<Rightarrow> None)"

definition sample_github_lib :: github_lib where
  "sample_github_lib =
     \<lparr>rsa_pem_usable = (\<lambda>_. True), github_http_builds = True, sign_rs256 = (\<lambda>c k. Some (issuer c)),
      utf8_percent_encode = (\<lambda>s encoded. percent_text encoded s),
      into_url = sample_into_url,
      github_json = (\<lambda>body. Some (if body = [] then
        JObject [(lit ''token'', JString (lit ''t'')), (lit ''expires_at'', JString [65])]
        else JObject [(lit ''contexts'', JArray [JString (lit ''ci'')])])),
      github_time = sample_clock\<rparr>"

definition sample_github_client :: github_app_client where
  "sample_github_client =
     \<lparr>gc_encoding_key = [1], gc_app_id = 7, gc_installation_id = 9,
      gc_api_base_url = lit ''https://api.github.com'', gc_installation_token = None\<rparr>"

lemma sample_site:
  assumes "web_site scheme authority"
  shows "split_on 47 (site_text scheme authority @ rest)
    = [scheme @ [58], []] @ split_on 47 (authority @ rest)"
    and "split_on 47 authority = [authority]"
proof -
  have "scheme \<in> {lit ''http'', lit ''https''}" "47 \<notin> set authority"
    using assms by (auto simp: web_site_def lit_def)
  then show "split_on 47 (site_text scheme authority @ rest)
      = [scheme @ [58], []] @ split_on 47 (authority @ rest)"
    and "split_on 47 authority = [authority]"
    using split_on_not_Nil [of 47 "authority @ rest"]
    by (auto simp: site_text_def lit_def split_on_no_sep split: list.splits)
qed

lemma sample_follows_url_standard: "follows_url_standard True sample_github_lib"
proof -
  have "sample_into_url (site_text scheme authority @ 47 # path)
      = Some (site\<lparr>ru_path := normalized_path True (path_segments path), ru_query := None\<rparr>)"
    if "web_site scheme authority" "sample_into_url (site_text scheme authority) = Some site"
    for scheme authority path site
    using that(2) sample_site [OF that(1)] sample_site(1) [OF that(1), of "[]"]
    by (auto simp: sample_into_url_def split_on_separated join_with_split_on split_on_not_Nil)
  then show ?thesis
    by (simp add: follows_url_standard_def sample_github_lib_def)
qed

lemma sample_base:
  "base_address (gc_api_base_url sample_github_client) (lit ''https'') (lit ''api.github.com'') []"
  by (simp add: base_address_def web_site_def site_text_def path_text_def sample_github_client_def
      lit_def)

lemma sample_percent_encoding: "percent_encoding sample_github_lib"
  by (simp add: percent_encoding_def sample_github_lib_def)

lemma sample_addressed:
  "\<exists>u. gr_url (protection_request sample_github_lib
     (sample_github_client\<lparr>gc_installation_token := cached\<rparr>) repository branch token) = Some u"
proof -
  have site: "web_site (lit ''https'') (lit ''api.github.com'')"
    using sample_base by (simp add: base_address_def)
  have base: "gc_api_base_url sample_github_client
      = site_text (lit ''https'') (lit ''api.github.com'')"
    using sample_base by (simp add: base_address_def)
  have "into_url sample_github_lib = sample_into_url"
    by (simp add: sample_github_lib_def)
  then show ?thesis
    using sample_site(1) [OF site, of "[]"] sample_site(2) [OF site]
    by (simp add: protection_address [OF sample_percent_encoding] base sample_into_url_def
        split_on_separated)
qed

lemma sample_repository_name:
  "canonical_repository_name_new (lit ''o/r'') = Ok (CanonicalRepositoryName (lit ''o/r''))"
  by (simp add: lit_def canonical_repository_name_new_def trim_def to_ascii_lowercase_def
      ascii_lowercase_char_def is_ascii_alphanumeric_def valid_repository_segment_iff name_char_def
      is_whitespace_def Let_def)

lemma request_target_confined_witness:
  "map_option ru_path (gr_url (protection_request sample_github_lib sample_github_client
       (CanonicalRepositoryName (lit ''o/r'')) (WorkflowBranch (lit ''a#b/c'')) (lit ''t'')))
     = Some [lit ''repos'', lit ''o'', lit ''r'', lit ''branches'', lit ''a%23b'', lit ''c'',
         lit ''protection'', lit ''required_status_checks'']"
proof -
  obtain site where site:
    "into_url sample_github_lib (site_text (lit ''https'') (lit ''api.github.com'')) = Some site"
    by (simp add: sample_github_lib_def sample_into_url_def site_text_def lit_def)
  have branch: "workflow_branch_sanitize (lit ''a#b/c'') = Some (WorkflowBranch (lit ''a#b/c''))"
    by (simp add: workflow_branch_sanitize_def lit_def is_control_def MAX_BRANCH_NAME_LENGTH_def
        unsafe_segment_def)
  have scalar: "\<forall>c \<in> set (lit ''a#b/c'') \<union> set (lit ''a#b/c''). scalar_value c \<and> c \<noteq> 92"
    by (simp add: lit_def scalar_value_def)
  have name: "split_on 47 (name_as_str (CanonicalRepositoryName (lit ''o/r''))) = [lit ''o'', lit ''r'']"
    "{lit ''o'', lit ''r''} \<inter> {lit ''.'', lit ''..''} = {}"
    by (simp_all add: lit_def)
  from request_target_confined [OF sample_percent_encoding sample_follows_url_standard sample_base
      site sample_repository_name name branch branch scalar, of "lit ''t''"]
  show ?thesis
    by (auto simp: base_segments_def lit_def percent_char_def target_encoded_def
        BRANCH_SEGMENT_ENCODE_SET_def utf8_char_def percent_byte_def hex_digit_def)
qed

end
