(* ===== verification/Github_Properties.thy ===== *)
theory Github_Properties
  imports Request_Target
begin

section \<open>Properties of the GitHub App client\<close>

text \<open>
  When a token is minted and when it is reused, and what the cache receives of GitHub's answers.
\<close>

subsection \<open>Installation tokens\<close>

type_synonym protection_call = "canonical_repository_name \<times> workflow_branch \<times> instant"

fun required_checks_each ::
  "github_lib \<Rightarrow> github_answers \<Rightarrow> protection_call list \<Rightarrow> github_state
   \<Rightarrow> (github_client_error, required_checks) result list \<times> github_state" where
  "required_checks_each lib respond [] s = ([], s)"
| "required_checks_each lib respond ((repository, branch, now) # calls) s =
     (case github_required_checks lib respond repository branch now s of (r, s') \<Rightarrow>
      case required_checks_each lib respond calls s' of (rs, s'') \<Rightarrow> (r # rs, s''))"

lemma usable_token_call:
  assumes "gc_installation_token client = Some cached" "is_usable_at cached now"
  shows "github_required_checks lib respond repository branch now (client, sent) =
    (and_then (fst (send_request respond
       (protection_request lib client repository branch (token_text cached)) sent))
       (protection_answer lib),
     client, sent @ [protection_request lib client repository branch (token_text cached)])"
  using assms by (simp add: github_required_checks_def installation_token_def Let_def send_request_def)

lemma usable_token_calls:
  assumes "gc_installation_token client = Some cached"
    and "\<And>repository branch now. (repository, branch, now) \<in> set calls \<Longrightarrow> is_usable_at cached now"
  shows "snd (required_checks_each lib respond calls (client, sent))
    = (client, sent @ map (\<lambda>(repository, branch, _).
        protection_request lib client repository branch (token_text cached)) calls)"
  using assms(2)
proof (induction calls arbitrary: sent)
  case (Cons call calls)
  obtain r b now where call: "call = (r, b, now)"
    by (cases call)
  let ?rq = "protection_request lib client r b (token_text cached)"
  have "snd (required_checks_each lib respond calls (client, sent @ [?rq]))
      = (client, (sent @ [?rq]) @ map (\<lambda>(repository, branch, _).
          protection_request lib client repository branch (token_text cached)) calls)"
    using Cons.prems by (intro Cons.IH) (meson list.set_intros(2))
  moreover have "is_usable_at cached now"
    using Cons.prems [of r b now] by (simp add: call)
  ultimately show ?case
    by (cases "required_checks_each lib respond calls (client, sent @ [?rq])")
      (simp add: call usable_token_call [OF assms(1)])
qed simp

lemma minting_call:
  assumes "\<forall>cached. gc_installation_token client = Some cached \<longrightarrow> \<not> is_usable_at cached now"
    and "github_required_checks lib respond repository branch now (client, sent) = (r, client', sent')"
  shows "client' = client \<and> sent' = sent \<and> r = Err Jwt
    \<or> (\<exists>jwt e. client' = client \<and> sent' = sent @ [token_request lib client jwt] \<and> r = Err e)
    \<or> (\<exists>jwt minted. client' = client\<lparr>gc_installation_token := Some minted\<rparr>
         \<and> sent' = sent @ [token_request lib client jwt,
             protection_request lib client' repository branch (token_text minted)])"
proof -
  have mint: "installation_token lib respond now (client, sent) =
      (case mint_installation_token lib respond now (client, sent) of
           (Inl e, s') \<Rightarrow> (Err e, s')
         | (Inr minted, client, sent) \<Rightarrow>
             (Ok (token_text minted), client\<lparr>gc_installation_token := Some minted\<rparr>, sent))"
    using assms(1) by (auto simp: installation_token_def Let_def split: option.splits)
  show ?thesis
  proof (cases "app_jwt lib client now")
    case (Inl e)
    then have "e = Jwt"
      by (auto simp: app_jwt_def Let_def ok_or_def split: option.splits)
    with Inl assms(2) show ?thesis
      by (simp add: github_required_checks_def mint mint_installation_token_def)
  next
    case (Inr jwt)
    obtain m where m: "mint_installation_token lib respond now (client, sent)
        = (m, client, sent @ [token_request lib client jwt])"
      using Inr by (simp add: mint_installation_token_def send_request_def)
    with assms(2) show ?thesis
      by (cases m) (auto simp: github_required_checks_def mint send_request_def)
  qed
qed

text \<open>
  C31: One installation token serves a burst of lookups: while the cached token is valid for more
  than a minute at the clock reading of each call, no call mints a token, each sends its one
  protection request under the cached token, and the client is unchanged. A call that finds no such
  token sends at most one token request, and its protection request only under the token just
  minted, which is then cached.
\<close>

theorem installation_token_reused:
  shows "(gc_installation_token client = Some cached
      \<and> (\<forall>(_, _, now) \<in> set calls. now + 60 * 1000000000 < token_expires_at cached)
      \<longrightarrow> snd (required_checks_each lib respond calls (client, sent))
        = (client, sent @ map (\<lambda>(repository, branch, _).
            protection_request lib client repository branch (token_text cached)) calls))
    \<and> ((\<forall>cached. gc_installation_token client = Some cached
            \<longrightarrow> token_expires_at cached \<le> now + 60 * 1000000000)
        \<and> github_required_checks lib respond repository branch now (client, sent)
            = (r, client', sent')
      \<longrightarrow> sent' = sent \<and> r = Err Jwt
        \<or> (\<exists>jwt e. sent' = sent @ [token_request lib client jwt] \<and> r = Err e)
        \<or> (\<exists>jwt minted. gc_installation_token client' = Some minted
             \<and> sent' = sent @ [token_request lib client jwt,
                 protection_request lib client' repository branch (token_text minted)]))"
proof -
  have "snd (required_checks_each lib respond calls (client, sent))
        = (client, sent @ map (\<lambda>(repository, branch, _).
            protection_request lib client repository branch (token_text cached)) calls)"
    if "gc_installation_token client = Some cached"
      "\<forall>(_, _, now) \<in> set calls. now + 60 * 1000000000 < token_expires_at cached"
    using that by (intro usable_token_calls)
      (auto simp: is_usable_at_def INSTALLATION_TOKEN_RENEWAL_SKEW_def)
  moreover have "sent' = sent \<and> r = Err Jwt
        \<or> (\<exists>jwt e. sent' = sent @ [token_request lib client jwt] \<and> r = Err e)
        \<or> (\<exists>jwt minted. gc_installation_token client' = Some minted
             \<and> sent' = sent @ [token_request lib client jwt,
                 protection_request lib client' repository branch (token_text minted)])"
    if "\<forall>cached. gc_installation_token client = Some cached
          \<longrightarrow> token_expires_at cached \<le> now + 60 * 1000000000"
      and "github_required_checks lib respond repository branch now (client, sent)
        = (r, client', sent')"
  proof -
    have "\<forall>cached. gc_installation_token client = Some cached \<longrightarrow> \<not> is_usable_at cached now"
      using that(1) by (auto simp: is_usable_at_def INSTALLATION_TOKEN_RENEWAL_SKEW_def)
    from minting_call [OF this that(2)] show ?thesis
      by (elim disjE exE conjE) auto
  qed
  ultimately show ?thesis
    by simp
qed

lemma installation_token_reused_witness:
  "snd (required_checks_each sample_github_lib (\<lambda>_ _. None)
      [(CanonicalRepositoryName (lit ''o/r''), WorkflowBranch (lit ''m''), 0)]
      (sample_github_client\<lparr>gc_installation_token :=
         Some \<lparr>token_text = lit ''t'', token_expires_at = 70000000000\<rparr>\<rparr>, []))
   = (sample_github_client\<lparr>gc_installation_token :=
         Some \<lparr>token_text = lit ''t'', token_expires_at = 70000000000\<rparr>\<rparr>,
      [protection_request sample_github_lib (sample_github_client\<lparr>gc_installation_token :=
         Some \<lparr>token_text = lit ''t'', token_expires_at = 70000000000\<rparr>\<rparr>)
         (CanonicalRepositoryName (lit ''o/r'')) (WorkflowBranch (lit ''m'')) (lit ''t'')])"
  using installation_token_reused [of "sample_github_client\<lparr>gc_installation_token :=
         Some \<lparr>token_text = lit ''t'', token_expires_at = 70000000000\<rparr>\<rparr>"
      "\<lparr>token_text = lit ''t'', token_expires_at = 70000000000\<rparr>"
      "[(CanonicalRepositoryName (lit ''o/r''), WorkflowBranch (lit ''m''), 0)]"
      sample_github_lib "\<lambda>_ _. None" "[]"]
  by simp

subsection \<open>From GitHub's answer to the cache\<close>

lemma map_filter_sanitize_sanitized:
  "d \<in> set (List.map_filter display_name_sanitize ns) \<Longrightarrow> sanitized_name d"
  by (auto simp: List.map_filter_def display_name_sanitize_sanitized)

lemma fetched_checks_valid:
  assumes "github_required_checks lib respond repository branch now s = (Ok checks, s')"
  shows "valid_checks checks"
proof -
  have built: "valid_checks (required_checks_new (take MAX_REQUIRED_CHECK_COUNT
      (List.map_filter display_name_sanitize ns)))" for ns
  proof -
    let ?ds = "take MAX_REQUIRED_CHECK_COUNT (List.map_filter display_name_sanitize ns)"
    have "set (check_names (required_checks_new ?ds)) \<subseteq> set ?ds"
      unfolding required_checks_new_set using set_take_subset [of 100 "first_distinct ?ds"] by simp
    then show ?thesis
      using required_checks_new_name_set map_filter_sanitize_sanitized
      by (auto simp: valid_checks_def dest!: in_set_takeD)
  qed
  have "valid_checks (into_required_checks p)" for p
    using built by (simp add: into_required_checks_def)
  moreover have "valid_checks (RequiredChecks [])"
    by (simp add: valid_checks_def name_set_def)
  ultimately have "protection_answer lib response = Ok checks \<Longrightarrow> valid_checks checks" for response
    by (auto simp: protection_answer_def and_then_Ok_iff split: if_splits)
  with assms show ?thesis
    by (auto simp: github_required_checks_def send_request_def and_then_Ok_iff
        split: prod.splits sum.splits)
qed

text \<open>
  C32: Whatever GitHub answers, the set of names the client makes of it is one the cache accepts
  and gives back: at most a hundred sanitized names, stored without loss and returned unchanged
  while the entry is fresh. A missing branch protection (404) is the empty set, every other status
  outside 2xx an error that nothing is stored for.
\<close>

theorem fetched_checks_cached:
  assumes "github_required_checks lib respond repository branch now s = (Ok checks, s')"
    and "db_ok db" and "sanitized_branch branch" and "repository_id_get rid \<in> repository_ids db"
    and "f 0 = None" and "freshness_cutoff clk st t = Ok cutoff" and "cutoff \<le> stored_at"
  shows "(\<exists>db'. upsert_checks f stored_at rid branch checks db = (Ok (), db')
      \<and> get_fresh clk st no_faults rid branch t db' = Ok (Some checks))
    \<and> required_checks_len checks \<le> 100
    \<and> (protection_answer lib \<lparr>gp_status = 404, gp_body = body\<rparr> = Ok (RequiredChecks []))
    \<and> (protection_answer lib \<lparr>gp_status = code, gp_body = body\<rparr> = Ok other
        \<longrightarrow> code = 404 \<or> 200 \<le> code \<and> code < 300)"
proof -
  have v: "valid_checks checks"
    using assms(1) by (rule fetched_checks_valid)
  obtain db' where u: "upsert_checks f stored_at rid branch checks db = (Ok (), db')"
    using upsert_checks_accepted [where f = f, OF v assms(3,5,4)] by blast
  have "required_checks_len checks \<le> 100"
    using v by (simp add: valid_checks_def name_set_def required_checks_len_def
        MAX_REQUIRED_CHECK_COUNT_def)
  then show ?thesis
    using u stored_checks_found [OF assms(2) v u assms(6)] assms(7)
    by (auto simp: protection_answer_def read_bounded_body_def split: if_splits)
qed

lemma fetched_checks_cached_witness:
  "\<exists>db'. upsert_checks no_faults [9] (RepositoryId 1) (WorkflowBranch (lit ''m''))
       (required_checks_new [DisplayName (lit ''ci'')]) one_repository = (Ok (), db')
     \<and> get_fresh sample_clock (RequiredCheckStore 3) no_faults (RepositoryId 1)
         (WorkflowBranch (lit ''m'')) 10 db'
       = Ok (Some (required_checks_new [DisplayName (lit ''ci'')]))"
proof -
  let ?client = "sample_github_client\<lparr>gc_installation_token :=
    Some \<lparr>token_text = lit ''t'', token_expires_at = 70000000000\<rparr>\<rparr>"
  have "protection_answer sample_github_lib \<lparr>gp_status = 200, gp_body = Some [1]\<rparr>
      = Ok (required_checks_new [DisplayName (lit ''ci'')])"
    by (simp add: github_constants protection_answer_def read_bounded_body_def
        sample_github_lib_def read_required_status_checks_def reader_defs into_required_checks_def
        MAX_REQUIRED_CHECK_COUNT_def List.map_filter_simps display_name_sanitize_eq lit_def
        is_control_def)
  then have "\<exists>s'. github_required_checks sample_github_lib
      (\<lambda>_ _. Some \<lparr>gp_status = 200, gp_body = Some [1]\<rparr>)
      (CanonicalRepositoryName (lit ''o/r'')) (WorkflowBranch (lit ''m'')) 0 (?client, [])
    = (Ok (required_checks_new [DisplayName (lit ''ci'')]), s')"
    using sample_addressed [of "Some \<lparr>token_text = lit ''t'', token_expires_at = 70000000000\<rparr>"
        "CanonicalRepositoryName (lit ''o/r'')" "WorkflowBranch (lit ''m'')" "lit ''t''"]
    by (auto simp: usable_token_call [where cached = "\<lparr>token_text = lit ''t'',
          token_expires_at = 70000000000\<rparr>"] is_usable_at_def github_constants
        send_request_def)
  then obtain s' where answer: "github_required_checks sample_github_lib
      (\<lambda>_ _. Some \<lparr>gp_status = 200, gp_body = Some [1]\<rparr>)
      (CanonicalRepositoryName (lit ''o/r'')) (WorkflowBranch (lit ''m'')) 0 (?client, [])
    = (Ok (required_checks_new [DisplayName (lit ''ci'')]), s')"
    by blast
  have b: "sanitized_branch (WorkflowBranch (lit ''m''))"
    by (simp add: sanitized_branch_def lit_def is_control_def unsafe_segment_def)
  have r: "repository_id_get (RepositoryId 1) \<in> repository_ids one_repository"
    by (simp add: one_repository_ids)
  have f: "no_faults 0 = None" by (simp add: no_faults_def)
  have c: "freshness_cutoff sample_clock (RequiredCheckStore 3) 10 = Ok [7]"
    by (simp add: freshness_cutoff_def sample_clock_def format_timestamp_def i64_max_def)
  have "[7] \<le> ([9] :: rstring)" by simp
  from fetched_checks_cached [where f = no_faults, OF answer one_repository_ok b r f c this] show ?thesis
    by blast
qed

end
