(* ===== verification/Main_Program.thy ===== *)
theory Main_Program
  imports Http_Router Telemetry_Properties Github_Properties Config_Properties
begin

section \<open>The process\<close>

text \<open>
  \<open>src/main.rs\<close>, with \<open>open_database\<close> of \<open>src/storage/mod.rs\<close> and the construction of the state and
  \<open>serve_with_shutdown\<close> of \<open>src/app.rs\<close>. The record \<open>platform\<close> holds what the process finds
  outside: the environment, the libraries, the file system, SQLite's answer to the connection and to
  the migrations, the listener, and the answers to the count of the repositories. While it serves,
  the world brings a list of actions: requests, turns of the two background workers, and the events
  of the server loop.
\<close>

subsection \<open>Opening the database\<close>

datatype open_error = AlreadyExists | OtherKind

definition create_database_file_if_absent ::
  "(open_error, unit) result \<Rightarrow> (open_error, unit) result" where
  "create_database_file_if_absent opened = (case opened of
     Inr _ \<Rightarrow> Ok ()
   | Inl open_error.AlreadyExists \<Rightarrow> Ok ()
   | Inl e \<Rightarrow> Err e)"

definition open_database ::
  "(open_error, unit) result \<Rightarrow> bool \<Rightarrow> bool \<Rightarrow> (storage_error, unit) result" where
  "open_database opened connects migrates =
     and_then (map_err (\<lambda>_. storage_error.FilePreparation) (create_database_file_if_absent opened))
       (\<lambda>_. if \<not> connects then Err storage_error.Open
             else if \<not> migrates then Err storage_error.Migration
             else Ok ())"

subsection \<open>Building the service\<close>

datatype application_error =
    LoadConfiguration config_error
  | InitializeTelemetry telemetry_error
  | InitializeStorage storage_error
  | InitializeEncryption security_error
  | InitializeGithubClient github_client_error
  | InitializeMetrics repository_store_error
  | InitializeRetention retention_error
  | BindListener io_error
  | ReadListenerAddress io_error
  | ServeHttp io_error

record ('a, 'u) platform =
  pf_environment :: environment
  pf_config_lib :: "'a config_lib"
  pf_telemetry_lib :: telemetry_lib
  pf_subscriber_installed :: bool
  pf_version :: rstring
  pf_libraries :: "'u libraries"
  pf_crypto :: crypto_lib
  pf_github :: github_lib
  pf_router :: router_lib
  pf_open_file :: "os_string \<Rightarrow> (open_error, unit) result"
  pf_connects :: "os_string \<Rightarrow> bool"
  pf_migrates :: "os_string \<Rightarrow> bool"
  pf_count :: ambient
  pf_bind :: "'a \<Rightarrow> (io_error, unit) result"
  pf_local_addr :: "(io_error, 'a) result"
  pf_address_text :: "'a \<Rightarrow> rstring"

definition enable_required_check_refresh ::
  "github_lib \<Rightarrow> github_app_config \<Rightarrow> 'u app_state
   \<Rightarrow> (github_client_error, github_app_client \<times> 'u app_state) result" where
  "enable_required_check_refresh lib github_app st =
     and_then (github_client_new lib github_app) (\<lambda>client.
       Ok (client, st\<lparr>app_required_check_refresher := True\<rparr>))"

definition info :: "string \<Rightarrow> key_value list \<Rightarrow> unit handler" where
  "info message extra = write_log \<lparr>log_level = LevelInfo, log_local = False,
     log_message = lit message, log_fields = extra\<rparr>"

text \<open>\<open>Duration::as_secs\<close>; durations are nanoseconds.\<close>

definition as_secs :: "nat \<Rightarrow> nat" where
  "as_secs d = d div 1000000000"

definition configured_state ::
  "('a, 'u) platform \<Rightarrow> 'a runtime_config \<Rightarrow> workflow_trace_emitter \<Rightarrow> repository_secret_cipher
   \<Rightarrow> 'u app_state" where
  "configured_state pf config em cipher =
     with_required_check_ttl (cfg_required_check_ttl config)
       (with_workflow_trace_emitter em
         (app_state_new (pf_libraries pf) \<lparr>store_crypto = pf_crypto pf, store_cipher = cipher\<rparr>
           (admin_authenticator_new (pf_crypto pf) (cfg_admin_token config))
           (cfg_webhook_body_limit_bytes config) (cfg_workflow_job_max_steps config)))"

definition with_refresher ::
  "github_lib \<Rightarrow> 'a runtime_config \<Rightarrow> 'u app_state
   \<Rightarrow> (application_error, github_app_client option \<times> 'u app_state) result handler" where
  "with_refresher lib config st = (case cfg_github_app config of
     None \<Rightarrow> do {
       info ''branch-protection required-check lookups disabled; no GitHub App configured'' [];
       State_Monad.return (Ok (None, st)) }
   | Some github_app \<Rightarrow>
       (case enable_required_check_refresh lib github_app st of
          Inl e \<Rightarrow> State_Monad.return (Err (InitializeGithubClient e))
        | Inr (client, st') \<Rightarrow> do {
            info ''branch-protection required-check lookups enabled''
              [(lit ''required_check_ttl_seconds'',
                I64Value (int (as_secs (cfg_required_check_ttl config))))];
            State_Monad.return (Ok (Some client, st')) }))"

definition listening ::
  "('a, 'u) platform \<Rightarrow> 'a runtime_config \<Rightarrow> (application_error, retention_config \<times> 'a) result" where
  "listening pf config =
     and_then (map_err InitializeRetention (retention_config_new (cfg_delivery_prune_interval config)
         (cfg_delivery_retention config) (cfg_merge_queue_retention config))) (\<lambda>retention.
     and_then (map_err BindListener (pf_bind pf (cfg_bind_address config))) (\<lambda>_.
     and_then (map_err ReadListenerAddress (pf_local_addr pf)) (\<lambda>address.
       Ok (retention, address))))"

record ('a, 'u) service =
  sv_state :: "'u app_state"
  sv_client :: "github_app_client option"
  sv_retention :: retention_config
  sv_address :: 'a

text \<open>\<open>run_service\<close> up to the bound listener.\<close>

definition start_service ::
  "('a, 'u) platform \<Rightarrow> 'a runtime_config \<Rightarrow> workflow_trace_emitter
   \<Rightarrow> (application_error, ('a, 'u) service) result handler" where
  "start_service pf config em =
     (case open_database (pf_open_file pf (cfg_database_path config))
         (pf_connects pf (cfg_database_path config)) (pf_migrates pf (cfg_database_path config)) of
        Inl e \<Rightarrow> State_Monad.return (Err (InitializeStorage e))
      | Inr _ \<Rightarrow>
     (case cipher_new (pf_crypto pf) (cfg_master_key config) of
        Inl e \<Rightarrow> State_Monad.return (Err (InitializeEncryption e))
      | Inr cipher \<Rightarrow> do {
          built \<leftarrow> with_refresher (pf_github pf) config (configured_state pf config em cipher);
          case built of
            Inl e \<Rightarrow> State_Monad.return (Err e)
          | Inr (client, st) \<Rightarrow> do {
              counted \<leftarrow> initialize_repository_metrics (pf_count pf);
              case counted of
                Inl e \<Rightarrow> State_Monad.return (Err (InitializeMetrics e))
              | Inr _ \<Rightarrow>
                  (case listening pf config of
                     Inl e \<Rightarrow> State_Monad.return (Err e)
                   | Inr (retention, address) \<Rightarrow> do {
                       info ''HTTP server listening''
                         [(lit ''bind_address'', StringValue (pf_address_text pf address))];
                       State_Monad.return (Ok \<lparr>sv_state = st, sv_client = client,
                         sv_retention = retention, sv_address = address\<rparr>) }) } }))"

subsection \<open>Serving\<close>

text \<open>
  A request is served while the server future runs, a turn of a background worker while the
  background task does and its turn finds what it finds on the cancellation channel. The source of
  the refresher is the GitHub client, whose token outlives the turn.
\<close>

datatype action =
    Http_Request faults ambient http_request rstring "json option"
  | Retention_Turn retention_turn
  | Refresher_Turn ambient github_answers
  | Loop_Event server_event

record serving =
  sg_world :: world
  sg_server :: server_state
  sg_client :: "github_state option"

definition client_source ::
  "github_lib \<Rightarrow> github_answers \<Rightarrow> github_state \<Rightarrow> github_client_error required_check_source" where
  "client_source lib respond gs =
     (\<lambda>repository branch now. fst (github_required_checks lib respond repository branch now gs))"

text \<open>What a turn of the refresher leaves of the client: it is asked when the cache has no answer.\<close>

definition client_after ::
  "github_lib \<Rightarrow> github_answers \<Rightarrow> 'u app_state \<Rightarrow> ambient \<Rightarrow> bool \<Rightarrow> world \<Rightarrow> github_state
   \<Rightarrow> github_state" where
  "client_after lib respond st amb cancelled w gs =
     (if cancelled then gs
      else case w_refreshes w of
        [] \<Rightarrow> gs
      | rq # _ \<Rightarrow>
          (case get_fresh (lib_clock (app_libraries st)) (app_required_check_store st)
              (amb_faults amb database_operation.RequiredCheckGet) (rr_repository_id rq)
              (rr_branch rq) (amb_checks_at amb) (w_database w) of
             Inr None \<Rightarrow> snd (github_required_checks lib respond (rr_repository_name rq)
               (rr_branch rq) (amb_checks_at amb) gs)
           | _ \<Rightarrow> gs))"

definition serving_requests :: "server_state \<Rightarrow> bool" where
  "serving_requests s \<longleftrightarrow> sv_result s = None \<and> sv_server s = None"

definition working :: "server_state \<Rightarrow> bool" where
  "working s \<longleftrightarrow> sv_result s = None \<and> sv_background s = None"

fun serve_action ::
  "github_lib \<Rightarrow> router_lib \<Rightarrow> ('a, 'u) service \<Rightarrow> serving \<Rightarrow> action \<Rightarrow> serving" where
  "serve_action lib router sv g (Http_Request probe amb rq raw_id payload) =
     (if serving_requests (sg_server g)
      then g\<lparr>sg_world := snd (run_state
        (serve_request router (sv_state sv) probe amb rq raw_id payload) (sg_world g))\<rparr>
      else g)"
| "serve_action lib router sv g (Retention_Turn turn) =
     (if working (sg_server g) \<and> \<not> sv_cancelled (sg_server g)
      then case run_traced_retention_pass (lib_clock (app_libraries (sv_state sv)))
             (sv_retention sv) turn (w_database (sg_world g)) of
          None \<Rightarrow> g
        | Some (oc, db) \<Rightarrow> g\<lparr>sg_world := (sg_world g)\<lparr>w_database := db\<rparr>\<rparr>
      else g)"
| "serve_action lib router sv g (Refresher_Turn amb respond) =
     (if working (sg_server g)
      then case sg_client g of
          None \<Rightarrow> g
        | Some gs \<Rightarrow>
            g\<lparr>sg_world := snd (run_state (run_turn (sv_state sv) (client_source lib respond gs) amb
                 (sv_cancelled (sg_server g))) (sg_world g)),
              sg_client := Some (client_after lib respond (sv_state sv) amb
                 (sv_cancelled (sg_server g)) (sg_world g) gs)\<rparr>
      else g)"
| "serve_action lib router sv g (Loop_Event e) = g\<lparr>sg_server := serve_event (sg_server g) e\<rparr>"

definition serve_with_shutdown ::
  "github_lib \<Rightarrow> router_lib \<Rightarrow> ('a, 'u) service \<Rightarrow> action list \<Rightarrow> world \<Rightarrow> serving" where
  "serve_with_shutdown lib router sv actions w =
     foldl (serve_action lib router sv)
       \<lparr>sg_world = w, sg_server = server_started,
        sg_client = map_option (\<lambda>client. (client, [])) (sv_client sv)\<rparr> actions"

subsection \<open>Running\<close>

text \<open>\<open>None\<close> is a process that still serves after the given actions.\<close>

definition run_service ::
  "('a, 'u) platform \<Rightarrow> 'a runtime_config \<Rightarrow> workflow_trace_emitter \<Rightarrow> action list \<Rightarrow> world
   \<Rightarrow> (application_error, unit) result option \<times> world" where
  "run_service pf config em actions w =
     (case run_state (start_service pf config em) w of
        (Inl e, w') \<Rightarrow> (Some (Err e), w')
      | (Inr sv, w') \<Rightarrow>
          let g = serve_with_shutdown (pf_github pf) (pf_router pf) sv actions w' in
          (case sv_result (sg_server g) of
             None \<Rightarrow> (None, sg_world g)
           | Some (Inl e) \<Rightarrow> (Some (Err (ServeHttp e)), sg_world g)
           | Some (Inr shutdown_outcome.Completed) \<Rightarrow>
               (Some (Ok ()), snd (run_state (info ''HTTP server stopped'' []) (sg_world g)))
           | Some (Inr shutdown_outcome.TimedOut) \<Rightarrow>
               (Some (Ok ()), snd (run_state (write_log \<lparr>log_level = LevelWarn, log_local = False,
                  log_message = lit ''HTTP server shutdown timed out'',
                  log_fields = [(lit ''shutdown_timeout_seconds'',
                    I64Value (int (as_secs (cfg_shutdown_timeout config))))]\<rparr>) (sg_world g)))))"

text \<open>
  \<open>run\<close>. While the service runs the telemetry queues take what is emitted and exports are reported
  (\<open>te_used\<close>, \<open>te_reported\<close>); the shutdown
  sees the given answers of its tasks. The answer holds the result, the final world and what has
  become of the telemetry, if it was initialised.
\<close>

record telemetry_end =
  te_spawns :: "shutdown_task_kind \<Rightarrow> bool"
  te_events :: "shutdown_event list"
  te_used :: "boundary \<Rightarrow> boundary"
  te_reported :: "diagnostics_observer \<Rightarrow> diagnostics_observer"
  te_drain :: "boundary \<Rightarrow> boundary"

definition used_runtime :: "telemetry_end \<Rightarrow> telemetry_runtime \<Rightarrow> telemetry_runtime" where
  "used_runtime te r =
     r\<lparr>tr_trace_queue := map_option (te_used te) (tr_trace_queue r),
       tr_log_queue := map_option (te_used te) (tr_log_queue r),
       tr_diagnostics := te_reported te (tr_diagnostics r)\<rparr>"

record program_run =
  run_result :: "(application_error, unit) result"
  run_world :: world
  run_telemetry :: "(telemetry_shutdown_outcome \<times> telemetry_runtime) option"

definition run_program ::
  "('a, 'u) platform \<Rightarrow> telemetry_end \<Rightarrow> action list \<Rightarrow> world \<Rightarrow> program_run option" where
  "run_program pf te actions w =
     (case runtime_from_lookup (pf_config_lib pf) (pf_environment pf) of
        Inl e \<Rightarrow> Some \<lparr>run_result = Err (LoadConfiguration e), run_world = w, run_telemetry = None\<rparr>
      | Inr config \<Rightarrow>
     (case telemetry_init (pf_telemetry_lib pf) (pf_subscriber_installed pf) (pf_version pf)
         (cfg_rust_log config) (cfg_telemetry config) (w_metrics w) of
        Inl e \<Rightarrow> Some \<lparr>run_result = Err (InitializeTelemetry e), run_world = w, run_telemetry = None\<rparr>
      | Inr tr \<Rightarrow>
     (case run_service pf config (tr_workflow_trace_emitter tr) actions w of
        (None, _) \<Rightarrow> None
      | (Some service_result, w') \<Rightarrow>
     (case telemetry_shutdown (te_spawns te) (te_events te) (te_drain te) (used_runtime te tr) of
        None \<Rightarrow> None
      | Some (oc, tr') \<Rightarrow>
          Some \<lparr>run_result = service_result,
            run_world = snd (run_state (info ''telemetry provider shutdown starting''
              [(lit ''telemetry_shutdown_timeout_seconds'',
                I64Value (int (as_secs (tc_shutdown_timeout (cfg_telemetry config)))))]) w'),
            run_telemetry = Some (oc, tr')\<rparr>))))"

definition main_exit :: "('a, 'u) platform \<Rightarrow> telemetry_end \<Rightarrow> action list \<Rightarrow> world \<Rightarrow> nat option" where
  "main_exit pf te actions w =
     map_option (\<lambda>r. case run_result r of Inr _ \<Rightarrow> 0 | Inl _ \<Rightarrow> 1) (run_program pf te actions w)"

end
