(* ===== verification/Program_Properties.thy ===== *)
theory Program_Properties
  imports Main_Program
begin

section \<open>What the process guarantees\<close>

text \<open>
  The composition of the parts: a service that has started satisfies the service invariant through
  every action, the exit code tells whether it started and served without an error, the telemetry is
  shut down whenever it was initialised, and a process that is signalled exits.
\<close>

subsection \<open>Starting\<close>

lemma info_run [simp]:
  "run_state (info message extra) w = ((), w\<lparr>w_logs := w_logs w @ [\<lparr>log_level = LevelInfo,
     log_local = False, log_message = lit message, log_fields = extra\<rparr>]\<rparr>)"
  by (simp add: info_def write_log_def)

lemma service_ok_logs [simp]: "service_ok (w\<lparr>w_logs := l\<rparr>) = service_ok w"
  by (simp add: service_ok_def gauge_accurate_def)

lemma with_refresher_Ok:
  "run_state (with_refresher lib config st) w = (Ok (client, st'), w')
     \<longleftrightarrow> (\<exists>l. w' = w\<lparr>w_logs := l\<rparr> \<and> w' = snd (run_state (with_refresher lib config st) w))
       \<and> (case cfg_github_app config of
            None \<Rightarrow> client = None \<and> st' = st
          | Some app \<Rightarrow> (\<exists>c. github_client_new lib app = Ok c \<and> client = Some c)
              \<and> st' = st\<lparr>app_required_check_refresher := True\<rparr>)"
  by (auto simp: with_refresher_def enable_required_check_refresh_def and_then_def
      split: option.split sum.split)

lemma with_refresher_world:
  "\<exists>l. snd (run_state (with_refresher lib config st) w) = w\<lparr>w_logs := l\<rparr>"
proof -
  have "\<exists>l. w = w\<lparr>w_logs := l\<rparr>"
    by (rule exI [of _ "w_logs w"]) simp
  then show ?thesis
    by (auto simp: with_refresher_def enable_required_check_refresh_def and_then_def
        split: option.split sum.split)
qed

text \<open>What a started service is made of.\<close>

definition service_built ::
  "('a, 'u) platform \<Rightarrow> 'a runtime_config \<Rightarrow> workflow_trace_emitter \<Rightarrow> ('a, 'u) service \<Rightarrow> bool" where
  "service_built pf config em sv \<longleftrightarrow>
     open_database (pf_open_file pf (cfg_database_path config))
       (pf_connects pf (cfg_database_path config)) (pf_migrates pf (cfg_database_path config)) = Ok ()
     \<and> (\<exists>cipher st. cipher_new (pf_crypto pf) (cfg_master_key config) = Ok cipher
         \<and> st = configured_state pf config em cipher
         \<and> (case cfg_github_app config of
              None \<Rightarrow> sv_client sv = None \<and> sv_state sv = st
            | Some app \<Rightarrow> (\<exists>c. github_client_new (pf_github pf) app = Ok c \<and> sv_client sv = Some c)
                \<and> sv_state sv = st\<lparr>app_required_check_refresher := True\<rparr>))
     \<and> listening pf config = Ok (sv_retention sv, sv_address sv)"

lemma start_service_Ok:
  assumes "run_state (start_service pf config em) w = (Ok sv, w')"
  shows "service_built pf config em sv"
    "\<exists>l w0 w1 l'. w0 = w\<lparr>w_logs := l\<rparr> \<and> w' = w1\<lparr>w_logs := l'\<rparr>
      \<and> run_state (initialize_repository_metrics (pf_count pf)) w0 = (Ok (), w1)"
proof -
  obtain cipher where o: "open_database (pf_open_file pf (cfg_database_path config))
       (pf_connects pf (cfg_database_path config)) (pf_migrates pf (cfg_database_path config)) = Ok ()"
    and c: "cipher_new (pf_crypto pf) (cfg_master_key config) = Ok cipher"
    using assms by (auto simp: start_service_def split: sum.splits)
  let ?build = "run_state (with_refresher (pf_github pf) config (configured_state pf config em cipher)) w"
  obtain client st w0 where b: "?build = (Ok (client, st), w0)"
    using assms o c by (cases ?build) (auto simp: start_service_def split: sum.splits)
  let ?count = "run_state (initialize_repository_metrics (pf_count pf)) w0"
  obtain w1 where n: "?count = (Ok (), w1)"
    using assms o c b by (cases ?count) (auto simp: start_service_def split: sum.splits)
  obtain retention address where l: "listening pf config = Ok (retention, address)"
    using assms o c b n by (auto simp: start_service_def split: sum.splits)
  from assms o c b n l have sv: "sv = \<lparr>sv_state = st, sv_client = client,
      sv_retention = retention, sv_address = address\<rparr>"
    and w': "\<exists>l'. w' = w1\<lparr>w_logs := l'\<rparr>"
    by (auto simp: start_service_def)
  show "service_built pf config em sv"
    using o c l b by (auto simp: service_built_def sv with_refresher_Ok split: option.splits)
  show "\<exists>l w0 w1 l'. w0 = w\<lparr>w_logs := l\<rparr> \<and> w' = w1\<lparr>w_logs := l'\<rparr>
      \<and> run_state (initialize_repository_metrics (pf_count pf)) w0 = (Ok (), w1)"
    using with_refresher_world [of "pf_github pf" config "configured_state pf config em cipher" w]
      w' n b by auto
qed

lemma preparing_keeps_database:
  "run_state (initialize_repository_metrics amb) w = (counted, w') \<Longrightarrow> w_database w' = w_database w"
  "run_state (with_refresher lib config st) w = (built, w'') \<Longrightarrow> w_database w'' = w_database w"
  using with_refresher_world [of lib config st w]
  by (auto simp: initialize_repository_metrics_def instrument_database_operation_def reading_def
      record_metric_def record_span_def split: sum.splits)

lemma start_service_database:
  "w_database (snd (run_state (start_service pf config em) w)) = w_database w"
  by (auto simp: start_service_def dest!: preparing_keeps_database split: sum.split prod.split)

definition fresh_world :: "world \<Rightarrow> bool" where
  "fresh_world w \<longleftrightarrow> db_ok (w_database w) \<and> w_refreshes w = [] \<and> \<not> w_panicked w"

lemma start_service_ok:
  assumes "run_state (start_service pf config em) w = (Ok sv, w')" and "fresh_world w"
  shows "service_ok w'"
proof -
  obtain l w0 w1 l' where "w0 = w\<lparr>w_logs := l\<rparr>" and w': "w' = w1\<lparr>w_logs := l'\<rparr>"
    and run: "run_state (initialize_repository_metrics (pf_count pf)) w0 = (Ok (), w1)"
    using start_service_Ok(2) [OF assms(1)] by blast
  with assms(2) have "service_started (sv_state sv) w1"
    by (intro service_started.started [OF _ _ _ run]) (simp_all add: fresh_world_def)
  then show ?thesis
    by (simp add: w' service_started_ok)
qed

subsection \<open>Serving\<close>

lemma serve_request_ok:
  assumes "service_ok w"
  shows "service_ok (snd (run_state (serve_request lib st probe amb rq raw_id payload) w))"
proof -
  let ?e = "build_router rq raw_id payload" and ?w1 = "w_repository_update (\<lambda>_. None) w"
  consider "?e = Github_Webhook" | call where "?e = Administration call"
    | "?e \<notin> {Github_Webhook} \<union> range Administration"
    by blast
  then show ?thesis
  proof cases
    case 1
    have "service_step st (\<lambda>_ _ _. Err ()) sample_config w (snd (run_state (serve_webhook st amb rq) w))"
      by (rule service_step.webhook) (rule prod.collapse [symmetric])
    from service_step_ok [OF this assms] show ?thesis
      by (simp add: serve_request_routed(1) [OF 1])
  next
    case 2
    have "service_step st (\<lambda>_ _ _. Err ()) sample_config w
        (snd (run_state (serve_api st amb rq call) w))"
      by (rule service_step.administration) (rule prod.collapse [symmetric])
    from service_step_ok [OF this assms] show ?thesis
      by (simp add: serve_request_routed(2) [OF 2])
  next
    case 3
    obtain r v where v: "run_state (serve_endpoint lib st probe amb rq ?e) ?w1 = (r, v)"
      by fastforce
    with open_endpoint_effect(2) [OF 3, of ?w1 lib st probe amb rq]
      open_endpoint_effect(4) [OF 3, of lib st probe amb rq ?w1]
      open_endpoint_effect(5) [OF 3, of lib st probe amb rq ?w1] assms
    have "service_ok v"
      by (simp add: unaffected_def service_ok_def gauge_accurate_def)
    with v show ?thesis
      by (auto simp: serve_request_def observe_http_run service_ok_def gauge_accurate_def
          split: option.split)
  qed
qed

lemma serve_action_ok:
  assumes "service_ok (sg_world g)"
  shows "service_ok (sg_world (serve_action lib router sv g a))"
proof (cases a)
  case (Http_Request probe amb rq raw_id payload)
  with assms show ?thesis
    by (simp add: serve_request_ok)
next
  case (Retention_Turn turn)
  have "service_ok ((sg_world g)\<lparr>w_database := db\<rparr>)"
    if "run_traced_retention_pass clk config turn (w_database (sg_world g)) = Some (oc, db)"
    for clk config oc db
    using run_traced_retention_pass_total [of "w_database (sg_world g)" clk config turn] that assms
    by (auto simp: service_ok_def gauge_accurate_def)
  with assms show ?thesis
    by (auto simp: Retention_Turn split: option.split)
next
  case (Refresher_Turn amb respond)
  have "service_ok (snd (run_state (run_turn (sv_state sv) source amb cancelled) (sg_world g)))"
    for source :: "github_client_error required_check_source" and cancelled
  proof -
    have "service_step (sv_state sv) source (sv_retention sv) (sg_world g)
        (snd (run_state (run_turn (sv_state sv) source amb cancelled) (sg_world g)))"
      by (rule service_step.refresher) (rule prod.collapse [symmetric])
    from service_step_ok [OF this assms] show ?thesis .
  qed
  with assms show ?thesis
    by (simp add: Refresher_Turn split: option.split)
next
  case (Loop_Event e)
  with assms show ?thesis
    by simp
qed

definition loop_event :: "action \<Rightarrow> server_event option" where
  "loop_event a = (case a of Loop_Event e \<Rightarrow> Some e | _ \<Rightarrow> None)"

lemma serve_action_server:
  "sg_server (serve_action lib router sv g a)
     = (case loop_event a of None \<Rightarrow> sg_server g | Some e \<Rightarrow> serve_event (sg_server g) e)"
  by (cases a) (auto simp: loop_event_def split: option.split)

lemma serve_actions_ok:
  "service_ok (sg_world g) \<Longrightarrow> service_ok (sg_world (foldl (serve_action lib router sv) g actions))"
  by (induction actions arbitrary: g) (simp_all add: serve_action_ok)

lemma serve_actions_server:
  "sg_server (foldl (serve_action lib router sv) g actions)
     = foldl serve_event (sg_server g) (List.map_filter loop_event actions)"
  by (induction actions arbitrary: g)
    (simp_all add: serve_action_server List.map_filter_simps split: option.split)

lemma serving_server:
  "sg_server (serve_with_shutdown lib router sv actions w)
     = serve_router_with_background_shutdown (List.map_filter loop_event actions)"
  by (simp add: serve_with_shutdown_def serve_actions_server serve_router_with_background_shutdown_def)

lemma serving_ok:
  "service_ok w \<Longrightarrow> service_ok (sg_world (serve_with_shutdown lib router sv actions w))"
  by (simp add: serve_with_shutdown_def serve_actions_ok)

lemma server_running:
  "\<forall>r. Server_Returned r \<notin> set events
   \<Longrightarrow> sv_server (serve_router_with_background_shutdown events) = None"
proof -
  have "sv_server s = None \<Longrightarrow> \<forall>r. Server_Returned r \<notin> set events
      \<Longrightarrow> sv_server (foldl serve_event s events) = None" for s
  proof (induction events arbitrary: s)
    case (Cons e events)
    have "sv_server (serve_event s e) = None"
      using Cons.prems by (cases e) (auto simp: joined_def split: option.split)
    with Cons show ?case by simp
  qed simp
  then show "\<forall>r. Server_Returned r \<notin> set events
      \<Longrightarrow> sv_server (serve_router_with_background_shutdown events) = None"
    by (simp add: serve_router_with_background_shutdown_def server_started_def)
qed

text \<open>
  C1: A service is started only when every step before the listener has succeeded: the database file
  opened and migrated, the cipher built, the GitHub client built exactly when an App is configured,
  the repositories counted, the retention accepted and the address bound; its limits and credentials
  are the configuration's, and starting leaves the database as it found it. Through every list of
  requests, background turns and events of the server loop after that, the constraints of the
  database hold, the gauge is the number of repositories, the refresh queue stays within its
  capacity and nothing panics.
\<close>

theorem started_service_keeps_invariant:
  assumes "run_state (start_service pf config em) w = (Ok sv, w')" and "fresh_world w"
    and "v = sg_world (serve_with_shutdown lib router sv actions w')"
  shows "service_built pf config em sv \<and> w_database w' = w_database w
    \<and> app_webhook_body_limit_bytes (sv_state sv) = cfg_webhook_body_limit_bytes config
    \<and> app_workflow_job_max_steps (sv_state sv) = cfg_workflow_job_max_steps config
    \<and> app_required_check_store (sv_state sv) = RequiredCheckStore (cfg_required_check_ttl config)
    \<and> (app_required_check_refresher (sv_state sv) \<longleftrightarrow> cfg_github_app config \<noteq> None)
    \<and> (sv_client sv \<noteq> None \<longleftrightarrow> cfg_github_app config \<noteq> None)
    \<and> db_ok (w_database v)
    \<and> gauge_value (w_metrics v) = of_nat (length (repositories (w_database v)))
    \<and> length (w_refreshes v) \<le> 64 \<and> \<not> w_panicked v"
proof -
  note built = start_service_Ok(1) [OF assms(1)]
  have "w_database w' = w_database w"
    using start_service_database [of pf config em w] assms(1) by simp
  moreover have "service_ok v"
    unfolding assms(3) by (rule serving_ok [OF start_service_ok [OF assms(1,2)]])
  moreover from built have
    "app_webhook_body_limit_bytes (sv_state sv) = cfg_webhook_body_limit_bytes config"
    "app_workflow_job_max_steps (sv_state sv) = cfg_workflow_job_max_steps config"
    "app_required_check_store (sv_state sv) = RequiredCheckStore (cfg_required_check_ttl config)"
    "app_required_check_refresher (sv_state sv) \<longleftrightarrow> cfg_github_app config \<noteq> None"
    "sv_client sv \<noteq> None \<longleftrightarrow> cfg_github_app config \<noteq> None"
    by (auto simp: service_built_def configured_state_def with_required_check_ttl_def
        with_workflow_trace_emitter_def app_state_new_def split: option.splits)
  ultimately show ?thesis
    using built by (simp add: service_ok_def gauge_accurate_def REFRESH_QUEUE_CAPACITY_def)
qed

definition sample_platform :: "(nat, nat) platform" where
  "sample_platform =
     \<lparr>pf_environment = sample_environment, pf_config_lib = sample_config_lib,
      pf_telemetry_lib = sample_telemetry_lib, pf_subscriber_installed = False,
      pf_version = lit ''0.1.12'', pf_libraries = sample_libraries JNull, pf_crypto = sample_crypto,
      pf_github = sample_github_lib, pf_router = sample_router_lib, pf_open_file = (\<lambda>_. Err open_error.AlreadyExists),
      pf_connects = (\<lambda>_. True), pf_migrates = (\<lambda>_. True), pf_count = sample_ambient,
      pf_bind = (\<lambda>_. Ok ()), pf_local_addr = Ok 9, pf_address_text = decimal\<rparr>"

definition sample_runtime_config :: "nat runtime_config" where
  "sample_runtime_config =
     \<lparr>cfg_database_path = Unicode [47], cfg_master_key = MasterKey (replicate 32 0),
      cfg_admin_token = AdminToken (replicate 32 97), cfg_bind_address = 9,
      cfg_shutdown_timeout = from_secs 30, cfg_webhook_body_limit_bytes = 2097152,
      cfg_workflow_job_max_steps = 256, cfg_delivery_retention = from_secs (7 * 86400),
      cfg_merge_queue_retention = from_secs (90 * 86400),
      cfg_delivery_prune_interval = from_secs 3600, cfg_required_check_ttl = from_secs 300,
      cfg_github_app = None, cfg_rust_log = lit ''info'',
      cfg_telemetry = \<lparr>tc_trace_exporter = None, tc_log_exporter = None,
        tc_queue_capacity = 2048, tc_batch_size = 512, tc_shutdown_timeout = from_secs 5,
        tc_service_name = DEFAULT_OTEL_SERVICE_NAME, tc_sentry_dsn = None,
        tc_resource_attributes = []\<rparr>\<rparr>"

lemma sample_runtime_config:
  "runtime_from_lookup sample_config_lib sample_environment = Ok sample_runtime_config"
  unfolding sample_environment_def sample_runtime_config_def
  by (rule minimal_runtime [OF sample_config_facts])

lemma sample_started_token:
  "\<exists>sv w'. run_state (start_service sample_platform
     (sample_runtime_config\<lparr>cfg_admin_token := token\<rparr>) em) sample_world = (Ok sv, w')"
proof -
  let ?config = "sample_runtime_config\<lparr>cfg_admin_token := token\<rparr>"
  have "open_database (pf_open_file sample_platform p) (pf_connects sample_platform p)
      (pf_migrates sample_platform p) = Ok ()" for p
    by (simp add: sample_platform_def open_database_def create_database_file_if_absent_def map_err_def)
  moreover obtain cipher where "cipher_new (pf_crypto sample_platform)
      (cfg_master_key ?config) = Ok cipher"
    by (simp add: cipher_new_def derive_key_def sample_runtime_config_def sample_platform_def
        sample_crypto_def)
  moreover obtain r a where "listening sample_platform ?config = Ok (r, a)"
    by (simp add: listening_def sample_platform_def sample_runtime_config_def retention_config_new_def
        validate_retention_def from_secs_def i64_max_def map_err_def)
  moreover have "fst (run_state (initialize_repository_metrics (pf_count sample_platform)) w) = Ok ()"
    for w
    by (simp add: initialize_repository_metrics_def instrument_database_operation_def reading_def
        record_metric_def record_span_def count_repositories_def sample_platform_def
        sample_ambient_def no_faults_def)
  moreover have "cfg_github_app ?config = None"
    by (simp add: sample_runtime_config_def)
  ultimately show ?thesis
    by (simp add: start_service_def with_refresher_def case_prod_beta split: sum.split)
qed

lemma sample_started:
  "\<exists>sv w'. run_state (start_service sample_platform sample_runtime_config em) sample_world = (Ok sv, w')"
  using sample_started_token [of "cfg_admin_token sample_runtime_config"] by simp

lemma sample_world_fresh: "fresh_world sample_world"
  unfolding fresh_world_def by (simp add: sample_world_ok, simp add: sample_world_def)

lemma started_service_keeps_invariant_witness:
  "\<exists>sv w'. run_state (start_service sample_platform sample_runtime_config emitter_disabled)
      sample_world = (Ok sv, w')
    \<and> app_webhook_body_limit_bytes (sv_state sv) = 2097152
    \<and> \<not> w_panicked (sg_world (serve_with_shutdown sample_github_lib sample_router_lib sv
        [Http_Request no_faults sample_ambient (sample_http_request ''push'') [] None] w'))"
proof -
  obtain sv w' where s: "run_state (start_service sample_platform sample_runtime_config emitter_disabled)
      sample_world = (Ok sv, w')"
    using sample_started by blast
  from started_service_keeps_invariant [OF s sample_world_fresh refl, of sample_github_lib sample_router_lib
      "[Http_Request no_faults sample_ambient (sample_http_request ''push'') [] None]"] s
  show ?thesis
    by (auto simp: sample_runtime_config_def)
qed

subsection \<open>Stopping\<close>

lemma await_shutdown_ends:
  assumes "e \<in> set es" and "e \<in> {Deadline_Passed, Receive_Timeout, Disconnected}"
  shows "await_shutdown es w \<noteq> None"
  using assms
  by (induction es w rule: await_shutdown.induct) (auto split: shutdown_event.split)

lemma telemetry_shutdown_ends:
  assumes "e \<in> set es" and "e \<in> {Deadline_Passed, Receive_Timeout, Disconnected}"
  shows "telemetry_shutdown spawns es drain r \<noteq> None"
proof -
  have "run_shutdown_tasks tasks es ob \<noteq> None" for tasks ob
    using await_shutdown_ends [OF assms]
    by (auto simp: run_shutdown_tasks_def split: option.split prod.split)
  then show ?thesis
    by (simp add: telemetry_shutdown_def Let_def del: not_None_eq split: option.split)
qed

lemma telemetry_init_fresh:
  "telemetry_init lib installed version rust_log config m = Ok r \<Longrightarrow> tr_shutdown_outcome r = None"
  by (auto simp: telemetry_init_def build_runtime_def Let_def and_then_Ok_iff split: if_splits)

definition service_answer ::
  "(io_error, shutdown_outcome) result \<Rightarrow> (application_error, unit) result" where
  "service_answer r = (case r of Inl e \<Rightarrow> Err (ServeHttp e) | Inr _ \<Rightarrow> Ok ())"

lemma service_answer_simps [simp]:
  "service_answer (Err e) = Err (ServeHttp e)" "service_answer (Ok ended) = Ok ()"
  by (simp_all add: service_answer_def)

lemma run_service_failed:
  "run_state (start_service pf config em) w = (Err e, w')
   \<Longrightarrow> run_service pf config em actions w = (Some (Err e), w')"
  by (simp add: run_service_def)

lemma run_service_started:
  "run_state (start_service pf config em) w = (Ok sv, w')
   \<Longrightarrow> fst (run_service pf config em actions w) = map_option service_answer
     (sv_result (serve_router_with_background_shutdown (List.map_filter loop_event actions)))"
  by (simp add: run_service_def Let_def serving_server
      split: option.split sum.split shutdown_outcome.split)

lemma run_service_answered:
  assumes "sv_result (serve_router_with_background_shutdown (List.map_filter loop_event actions)) \<noteq> None"
  shows "fst (run_service pf config em actions w) \<noteq> None"
proof (cases "run_state (start_service pf config em) w")
  case (Pair r w')
  with assms show ?thesis
    by (cases r) (auto simp: run_service_failed run_service_started)
qed

lemma run_program_ends:
  assumes "\<And>config em. fst (run_service pf config em actions w) \<noteq> None"
    and "e \<in> set (te_events te)" and "e \<in> {Deadline_Passed, Receive_Timeout, Disconnected}"
  shows "\<exists>r. run_program pf te actions w = Some r"
proof -
  have service: "\<exists>r w'. run_service pf config em actions w = (Some r, w')" for config em
    using assms(1) [of config em] by (cases "run_service pf config em actions w") auto
  have stop: "\<exists>oc tr. telemetry_shutdown (te_spawns te) (te_events te) (te_drain te) r = Some (oc, tr)" for r
    using telemetry_shutdown_ends [OF assms(2,3), of "te_spawns te" "te_drain te" r] by auto
  show ?thesis
  proof (cases "runtime_from_lookup (pf_config_lib pf) (pf_environment pf)")
    case (Inr config)
    show ?thesis
    proof (cases "telemetry_init (pf_telemetry_lib pf) (pf_subscriber_installed pf) (pf_version pf)
         (cfg_rust_log config) (cfg_telemetry config) (w_metrics w)")
      case init: (Inr tr)
      from service [of config "tr_workflow_trace_emitter tr"] stop [of "used_runtime te tr"]
      show ?thesis
        by (auto simp: run_program_def Inr init)
    qed (simp add: run_program_def Inr)
  qed (simp add: run_program_def)
qed

text \<open>What the result of \<open>run_service\<close> tells about its start and its server.\<close>

lemma run_service_explained:
  assumes "run_service pf config em actions w = (Some result, w')"
  shows "((\<exists>u. result = Ok u) \<longleftrightarrow> (\<exists>sv w'' ended.
          run_state (start_service pf config em) w = (Ok sv, w'')
          \<and> sv_result (serve_router_with_background_shutdown (List.map_filter loop_event actions))
              = Some (Ok ended)))
    \<and> (\<forall>e. result = Err e \<and> (\<forall>io. e \<noteq> ServeHttp io) \<longrightarrow> w_database w' = w_database w)"
proof (cases "run_state (start_service pf config em) w")
  case (Pair started w'')
  show ?thesis
  proof (cases started)
    case (Inl e)
    with Pair assms start_service_database [of pf config em w] show ?thesis
      by (auto simp: run_service_failed)
  next
    case (Inr sv)
    with Pair assms run_service_started [of pf config em w sv w'' actions]
    have "map_option service_answer (sv_result (serve_router_with_background_shutdown
        (List.map_filter loop_event actions))) = Some result"
      by simp
    then obtain ended where "sv_result (serve_router_with_background_shutdown
        (List.map_filter loop_event actions)) = Some ended" "result = service_answer ended"
      by (auto simp: map_option_eq_Some)
    with Pair Inr show ?thesis by (cases ended) auto
  qed
qed

text \<open>
  C16: What the exit code and the telemetry say of a process that has ended. Telemetry is shut down
  exactly when it was initialised, whatever became of the service: its outcome is recorded, no
  provider is left and nothing is pending. The exit code is 0 exactly when the configuration was
  read, the telemetry initialised, the service started, and its server loop ended without an error,
  be it by a drain that timed out; a service that did not start has not changed the database.
\<close>

theorem exit_code_explained:
  assumes "run_program pf te actions w = Some r"
  shows "(run_telemetry r \<noteq> None \<longleftrightarrow>
        (\<exists>config tr. runtime_from_lookup (pf_config_lib pf) (pf_environment pf) = Ok config
          \<and> telemetry_init (pf_telemetry_lib pf) (pf_subscriber_installed pf) (pf_version pf)
              (cfg_rust_log config) (cfg_telemetry config) (w_metrics w) = Ok tr))
    \<and> (\<forall>oc tr. run_telemetry r = Some (oc, tr) \<longrightarrow>
        tr_shutdown_outcome tr = Some oc \<and> \<not> tr_tracer_provider tr \<and> \<not> tr_logger_provider tr
        \<and> \<not> tr_sentry_client tr \<and> pending_trace_records tr = 0 \<and> pending_log_records tr = 0)
    \<and> (main_exit pf te actions w = Some 0 \<longleftrightarrow>
        (\<exists>config tr sv w' ended. runtime_from_lookup (pf_config_lib pf) (pf_environment pf) = Ok config
          \<and> telemetry_init (pf_telemetry_lib pf) (pf_subscriber_installed pf) (pf_version pf)
              (cfg_rust_log config) (cfg_telemetry config) (w_metrics w) = Ok tr
          \<and> run_state (start_service pf config (tr_workflow_trace_emitter tr)) w = (Ok sv, w')
          \<and> sv_result (serve_router_with_background_shutdown (List.map_filter loop_event actions))
              = Some (Ok ended)))
    \<and> (\<forall>e. run_result r = Err e \<and> (\<forall>io. e \<noteq> ServeHttp io) \<longrightarrow>
        w_database (run_world r) = w_database w)"
proof (cases "runtime_from_lookup (pf_config_lib pf) (pf_environment pf)")
  case (Inl e)
  with assms show ?thesis
    by (auto simp: run_program_def main_exit_def)
next
  case config: (Inr config)
  let ?init = "telemetry_init (pf_telemetry_lib pf) (pf_subscriber_installed pf) (pf_version pf)
              (cfg_rust_log config) (cfg_telemetry config) (w_metrics w)"
  show ?thesis
  proof (cases ?init)
    case (Inl e)
    with assms config show ?thesis
      by (auto simp: run_program_def main_exit_def)
  next
    case init: (Inr tr)
    let ?em = "tr_workflow_trace_emitter tr"
    obtain result w' where service: "run_service pf config ?em actions w = (Some result, w')"
      using assms config init
      by (cases "run_service pf config ?em actions w") (auto simp: run_program_def split: option.splits)
    obtain oc tr' where stop: "telemetry_shutdown (te_spawns te) (te_events te) (te_drain te)
        (used_runtime te tr) = Some (oc, tr')"
      using assms config init service by (auto simp: run_program_def split: option.splits)
    have r: "run_result r = result" "run_telemetry r = Some (oc, tr')"
      "w_database (run_world r) = w_database w'"
      using assms config init service stop by (auto simp: run_program_def)
    have "tr_shutdown_outcome (used_runtime te tr) = None"
      using telemetry_init_fresh [OF init] by (simp add: used_runtime_def)
    note stopped = shutdown_result [OF stop this]
    have pending: "pending_trace_records tr' = 0" "pending_log_records tr' = 0"
      by (simp_all add: stopped(5,6) pending_trace_records_def pending_log_records_def map_or_def
          drop_pending_def Let_def split: option.split)
    have exit: "main_exit pf te actions w = Some 0 \<longleftrightarrow> (\<exists>u. result = Ok u)"
      using assms r by (auto simp: main_exit_def split: sum.split)
    note result = run_service_explained [OF service]
    from result show ?thesis
      unfolding exit using r config init stopped(1-4) pending by auto
  qed
qed

text \<open>The process of the samples, serving until it is asked to stop.\<close>

definition sample_end :: telemetry_end where
  "sample_end = \<lparr>te_spawns = (\<lambda>_. True), te_events = [Deadline_Passed], te_used = id,
     te_reported = id, te_drain = id\<rparr>"

lemma sample_telemetry:
  "\<exists>tr. telemetry_init (pf_telemetry_lib sample_platform) (pf_subscriber_installed sample_platform)
     (pf_version sample_platform) (cfg_rust_log sample_runtime_config)
     (cfg_telemetry sample_runtime_config) m = Ok tr"
  by (simp add: telemetry_init_def build_runtime_def sample_platform_def sample_telemetry_lib_def
      sample_runtime_config_def sentry_client_of_def map_transpose_def)

text \<open>
  C15: A process that is asked to stop exits: if the shutdown signal comes while the server runs and
  the drain timeout strikes at some later time, if ever it did start serving, and if the wait for the
  telemetry sees its deadline, the timeout of its receiver or a closed channel among its events, then
  \<open>main\<close> returns an exit code, whatever requests, background turns and failures come in between.
\<close>

theorem signalled_process_exits:
  assumes "\<forall>r. Loop_Event (Server_Returned r) \<notin> set xs"
    and "e \<in> set (te_events te)" and "e \<in> {Deadline_Passed, Receive_Timeout, Disconnected}"
  shows "main_exit pf te
      (xs @ Loop_Event Shutdown_Signalled # ys @ Loop_Event Drain_Elapsed # zs) w \<in> {Some 0, Some 1}"
proof -
  let ?actions = "xs @ Loop_Event Shutdown_Signalled # ys @ Loop_Event Drain_Elapsed # zs"
  let ?xs = "List.map_filter loop_event xs" and ?ys = "List.map_filter loop_event ys"
  have "\<forall>r. Server_Returned r \<notin> set ?xs"
    using assms(1) by (auto simp: List.map_filter_def loop_event_def split: action.splits)
  then have "sv_server (serve_router_with_background_shutdown ?xs) = None"
    by (rule server_running)
  moreover have "List.map_filter loop_event ?actions
      = ?xs @ Shutdown_Signalled # ?ys @ Drain_Elapsed # List.map_filter loop_event zs"
    by (simp add: List.map_filter_def loop_event_def)
  ultimately have "sv_result (serve_router_with_background_shutdown
      (List.map_filter loop_event ?actions)) \<noteq> None"
    using signalled_server_answers [of ?xs ?ys] by auto
  from run_program_ends [OF run_service_answered [OF this] assms(2,3)]
  obtain r where "run_program pf te ?actions w = Some r"
    by blast
  then show ?thesis
    by (auto simp: main_exit_def split: sum.split)
qed

lemma signalled_process_exits_witness:
  "main_exit sample_platform sample_end
      ([Http_Request no_faults sample_ambient (sample_http_request ''push'') [] None]
       @ Loop_Event Shutdown_Signalled # [] @ Loop_Event Drain_Elapsed # []) sample_world
     \<in> {Some 0, Some 1}"
  by (rule signalled_process_exits [where e = Deadline_Passed]) (simp_all add: sample_end_def)

lemma exit_code_explained_witness:
  "\<exists>r oc tr. run_program sample_platform sample_end
      [Loop_Event Shutdown_Signalled, Loop_Event Drain_Elapsed] sample_world = Some r
    \<and> run_telemetry r = Some (oc, tr) \<and> tr_shutdown_outcome tr = Some oc"
proof -
  let ?actions = "[Loop_Event Shutdown_Signalled, Loop_Event Drain_Elapsed]"
  have "sv_result (serve_router_with_background_shutdown (List.map_filter loop_event ?actions)) \<noteq> None"
    by (simp add: serve_router_with_background_shutdown_def server_started_def List.map_filter_def
        loop_event_def)
  from run_program_ends [OF run_service_answered [OF this], of Deadline_Passed sample_end]
  obtain r where r: "run_program sample_platform sample_end ?actions sample_world = Some r"
    by (auto simp: sample_end_def)
  have "\<exists>config tr. runtime_from_lookup (pf_config_lib sample_platform) (pf_environment sample_platform)
        = Ok config
      \<and> telemetry_init (pf_telemetry_lib sample_platform) (pf_subscriber_installed sample_platform)
          (pf_version sample_platform) (cfg_rust_log config) (cfg_telemetry config)
          (w_metrics sample_world) = Ok tr"
    using sample_runtime_config sample_telemetry [of "w_metrics sample_world"]
    by (simp add: sample_platform_def)
  with exit_code_explained [OF r] have "run_telemetry r \<noteq> None"
    by blast
  with exit_code_explained [OF r] r show ?thesis
    by auto
qed

end
