(* ===== verification/Histogram_Buckets.thy ===== *)
theory Histogram_Buckets
  imports Webhook_Handler Complex_Main
begin

section \<open>Histogram buckets\<close>

text \<open>
  The bucket bounds of \<open>src/metrics.rs\<close> and the histogram each family constructs, in the base units
  of the exposition: seconds, bytes, steps. A bound is kept as the rational its decimal literal
  denotes. An observation belongs to the first bucket whose upper bound it does not exceed; beyond
  the last one it is counted in the unbounded bucket only.
\<close>

definition REQUEST_DURATION_BUCKETS :: "rat list" where
  "REQUEST_DURATION_BUCKETS =
     [5 / 1000, 1 / 100, 25 / 1000, 5 / 100, 1 / 10, 25 / 100, 5 / 10, 1, 25 / 10, 5, 10]"

definition REQUEST_BODY_SIZE_BUCKETS :: "rat list" where
  "REQUEST_BODY_SIZE_BUCKETS =
     [128, 512, 1024, 4096, 16384, 65536, 262144, 524288, 1048576, 2097152]"

definition MERGE_QUEUE_ATTEMPT_DURATION_BUCKETS :: "rat list" where
  "MERGE_QUEUE_ATTEMPT_DURATION_BUCKETS =
     [1, 10, 60, 300, 900, 3600, 10800, 21600, 43200, 86400, 259200, 604800, 2592000, 7776000,
      31536000]"

definition WORKFLOW_JOB_STEP_BUCKETS :: "rat list" where
  "WORKFLOW_JOB_STEP_BUCKETS = [0, 5, 10, 20, 40, 64, 128, 256, 512, 1024]"

text \<open>The histogram constructor of each family; the other families are counters and a gauge.\<close>

definition family_buckets :: "series \<Rightarrow> rat list option" where
  "family_buckets s = (case s of
     ProcessingDuration _ _ \<Rightarrow> Some REQUEST_DURATION_BUCKETS
   | RequestBodyBytes _ \<Rightarrow> Some REQUEST_BODY_SIZE_BUCKETS
   | MergeQueueAttemptDuration _ _ \<Rightarrow> Some MERGE_QUEUE_ATTEMPT_DURATION_BUCKETS
   | WorkflowJobSteps _ \<Rightarrow> Some WORKFLOW_JOB_STEP_BUCKETS
   | _ \<Rightarrow> None)"

text \<open>\<open>as_secs_f64\<close>, \<open>as_seconds_f64\<close> and the conversion of a count, before their rounding.\<close>

definition observation_value :: "observation \<Rightarrow> rat" where
  "observation_value v = (case v of
     Nanoseconds n \<Rightarrow> of_int n / 1000000000
   | Count n \<Rightarrow> of_nat n)"

definition bucket_of :: "rat list \<Rightarrow> rat \<Rightarrow> nat" where
  "bucket_of bounds v = length (takeWhile (\<lambda>b. b < v) bounds)"

lemmas bucket_defs = REQUEST_DURATION_BUCKETS_def REQUEST_BODY_SIZE_BUCKETS_def
  MERGE_QUEUE_ATTEMPT_DURATION_BUCKETS_def WORKFLOW_JOB_STEP_BUCKETS_def

lemma buckets_increasing: "family_buckets s = Some bounds \<Longrightarrow> sorted_wrt (<) bounds \<and> bounds \<noteq> []"
  by (auto simp: family_buckets_def bucket_defs split: series.splits)

lemma bucket_of_bounded: "v \<le> last bounds \<Longrightarrow> bounds \<noteq> [] \<Longrightarrow> bucket_of bounds v < length bounds"
proof -
  assume v: "v \<le> last bounds" "bounds \<noteq> []"
  have "takeWhile (\<lambda>b. b < v) bounds \<noteq> bounds"
  proof
    assume "takeWhile (\<lambda>b. b < v) bounds = bounds"
    then have "\<forall>b \<in> set bounds. b < v"
      by (metis set_takeWhileD)
    with v last_in_set [OF v(2)] show False
      by fastforce
  qed
  then show ?thesis
    unfolding bucket_of_def
    by (metis length_takeWhile_le nat_less_le takeWhile_eq_take take_all_iff le_refl)
qed

text \<open>The last bound of a family is the limit its observations are checked against.\<close>

lemma limits_are_bounds:
  "last MERGE_QUEUE_ATTEMPT_DURATION_BUCKETS
     = observation_value (Nanoseconds MAX_MERGE_QUEUE_ATTEMPT_DURATION)"
  "last REQUEST_BODY_SIZE_BUCKETS = of_nat MAX_WEBHOOK_BODY_LIMIT_BYTES"
  "last WORKFLOW_JOB_STEP_BUCKETS = of_nat MAX_WORKFLOW_JOB_MAX_STEPS"
  by (simp_all add: bucket_defs observation_value_def MAX_MERGE_QUEUE_ATTEMPT_DURATION_def
      MAX_WEBHOOK_BODY_LIMIT_BYTES_def MAX_WORKFLOW_JOB_MAX_STEPS_def)

text \<open>
  Every merge-queue duration that is recorded falls into a bounded bucket, and every body within
  the largest limit the configuration accepts; steps beyond the limit land in the unbounded one.
\<close>

lemma recorded_durations_bucketed:
  assumes "Observe (MergeQueueAttemptDuration l final) v
      \<in> set (record_merge_queue_completion repository completion duration []) "
  shows "bucket_of MERGE_QUEUE_ATTEMPT_DURATION_BUCKETS (observation_value v)
    < length MERGE_QUEUE_ATTEMPT_DURATION_BUCKETS"
proof -
  have v: "v = Nanoseconds duration" "duration \<le> MAX_MERGE_QUEUE_ATTEMPT_DURATION"
    using assms by (auto simp: record_merge_queue_completion_def
        record_merge_queue_transition_failure_def split: if_splits prod.splits)
  have "observation_value v \<le> last MERGE_QUEUE_ATTEMPT_DURATION_BUCKETS"
    unfolding limits_are_bounds v(1) using v(2) by (simp add: observation_value_def divide_right_mono)
  then show ?thesis
    by (rule bucket_of_bounded) (simp add: bucket_defs)
qed

lemma accepted_bodies_bucketed:
  "n \<le> MAX_WEBHOOK_BODY_LIMIT_BYTES
   \<Longrightarrow> bucket_of REQUEST_BODY_SIZE_BUCKETS (observation_value (Count n))
     < length REQUEST_BODY_SIZE_BUCKETS"
  by (rule bucket_of_bounded)
    (simp_all only: limits_are_bounds observation_value_def observation.case of_nat_le_iff,
     simp add: bucket_defs)

end
