(* ===== verification/Metric_Accounting.thy ===== *)
theory Metric_Accounting
  imports Metric_Cardinality
begin

section \<open>What the registry shows of the requests it recorded\<close>

text \<open>
  The registry after any list of recording requests, read series by series: each counter and each
  histogram is compared with the requests themselves, selected by their arguments, so that a value
  recorded under another series, a lost guard or a family that is missing at the start shows.
\<close>

subsection \<open>Observations\<close>

fun observations :: "metrics \<Rightarrow> series \<Rightarrow> observation list" where
  "observations [] s = []"
| "observations (Observe t v # m) s = (if t = s then v # observations m s else observations m s)"
| "observations (_ # m) s = observations m s"

lemma observations_append [simp]: "observations (m @ m') s = observations m s @ observations m' s"
  by (induction m s rule: observations.induct) auto

lemma observations_created:
  "\<forall>c \<in> set m. \<exists>t. c = GetOrCreate t \<Longrightarrow> observations m s = [] \<and> counter_total m s = 0"
  by (induction m) auto

lemma metrics_new_created: "\<forall>c \<in> set metrics_new. \<exists>t. c = GetOrCreate t"
  by (auto simp: metrics_new_def)

lemma metrics_new_zero [simp]: "observations metrics_new s = []" "counter_total metrics_new s = 0"
  using observations_created [OF metrics_new_created] by simp_all

text \<open>The calls of one request, whatever was recorded before.\<close>

lemma perform_append: "perform q m = m @ perform q []"
  by (cases q) (simp_all add: metric_operation_defs split: merge_queue_completion.splits)

lemma run_requests_append: "run_requests qs m = m @ concat (map (\<lambda>q. perform q []) qs)"
proof (induction qs arbitrary: m)
  case (Cons q qs)
  have "run_requests (q # qs) m = run_requests qs (m @ perform q [])"
    by (simp add: run_requests_def flip: perform_append)
  with Cons show ?case by simp
qed (simp add: run_requests_def)

lemma counter_total_concat: "counter_total (concat ms) s = (\<Sum>m \<leftarrow> ms. counter_total m s)"
  by (induction ms) simp_all

lemma observations_concat: "observations (concat ms) s = concat (map (\<lambda>m. observations m s) ms)"
  by (induction ms) simp_all

lemma recorded_counter:
  "counter_total (run_requests qs metrics_new) s = (\<Sum>q \<leftarrow> qs. counter_total (perform q []) s)"
  by (simp add: run_requests_append counter_total_concat comp_def)

lemma recorded_observations:
  "observations (run_requests qs metrics_new) s = concat (map (\<lambda>q. observations (perform q []) s) qs)"
  by (simp add: run_requests_append observations_concat comp_def)

lemmas recorded = recorded_counter recorded_observations

subsection \<open>One request, one series\<close>

text \<open>
  The durations of the completed attempts of a repository that are counted as an outcome, and how
  many were rejected for their duration.
\<close>

fun outcome_of :: "merge_queue_completion \<Rightarrow> merge_queue_outcome \<times> merge_queue_reason" where
  "outcome_of merge_queue_completion.PullRequestMerged =
     (merge_queue_outcome.Succeeded, merge_queue_reason.PullRequestMerged)"
| "outcome_of merge_queue_completion.UnclassifiedDequeue =
     (merge_queue_outcome.Unknown, merge_queue_reason.UnclassifiedDequeue)"

definition sane_duration :: "int \<Rightarrow> bool" where
  "sane_duration d \<longleftrightarrow> 0 \<le> d \<and> d \<le> 365 * 86400 * 1000000000"

lemma sum_list_filtered:
  "(\<Sum>q \<leftarrow> qs. if P q then (1 :: nat) else 0) = length (filter P qs)"
  by (induction qs) simp_all

fun is_request :: "repository_label \<Rightarrow> webhook_result \<Rightarrow> metric_request \<Rightarrow> bool" where
  "is_request l res (ObserveRequest r res' _) \<longleftrightarrow>
     res' = res \<and> l = (case r of None \<Rightarrow> repository_label.Unknown | Some n \<Rightarrow> Authenticated n)"
| "is_request l res _ \<longleftrightarrow> False"

fun is_event :: "canonical_repository_name \<Rightarrow> event_type \<Rightarrow> action \<Rightarrow> metric_request \<Rightarrow> bool" where
  "is_event n e a (ObserveEvent n' e' a' _) \<longleftrightarrow> n' = n \<and> e' = e \<and> a' = a"
| "is_event n e a _ \<longleftrightarrow> False"

fun is_completion ::
  "canonical_repository_name \<Rightarrow> merge_queue_outcome \<Rightarrow> merge_queue_reason \<Rightarrow> metric_request \<Rightarrow> bool"
where
  "is_completion n oc reason (RecordMergeQueueCompletion n' c d) \<longleftrightarrow>
     n' = n \<and> outcome_of c = (oc, reason) \<and> sane_duration d"
| "is_completion n oc reason _ \<longleftrightarrow> False"

fun is_transition_failure ::
  "canonical_repository_name \<Rightarrow> queue_transition_failure_reason \<Rightarrow> metric_request \<Rightarrow> bool" where
  "is_transition_failure n x (RecordMergeQueueTransitionFailure n' x') \<longleftrightarrow> n' = n \<and> x' = x"
| "is_transition_failure n x (RecordMergeQueueCompletion n' _ d) \<longleftrightarrow>
     n' = n \<and> x = queue_transition_failure_reason.InvalidDuration \<and> \<not> sane_duration d"
| "is_transition_failure n x _ \<longleftrightarrow> False"

fun is_merge_group ::
  "canonical_repository_name \<Rightarrow> merge_group_action \<Rightarrow> merge_group_reason \<Rightarrow> metric_request \<Rightarrow> bool"
where
  "is_merge_group n merge_group_action.Destroyed x (RecordMergeGroupEvent n' a x') \<longleftrightarrow>
     n' = n \<and> a = merge_group_action.Destroyed \<and> x' = x"
| "is_merge_group n merge_group_action.ChecksRequested x (RecordMergeGroupEvent n' a x') \<longleftrightarrow>
     n' = n \<and> a = merge_group_action.ChecksRequested \<and> x = merge_group_reason.None'"
| "is_merge_group n a x _ \<longleftrightarrow> False"

text \<open>
  The series that are shown before the first request: of every labelled family those of the unknown
  repository whose labels can occur, and of the telemetry families all. The gauge has no labels and is
  always shown.
\<close>

fun initially_shown :: "series \<Rightarrow> bool" where
  "initially_shown (WebhookRequests l _) \<longleftrightarrow> l = repository_label.Unknown"
| "initially_shown (WebhookEvents l e a) \<longleftrightarrow>
     l = repository_label.Unknown \<and> e = event_type.Other \<and> a = action.Other"
| "initially_shown (ProcessingDuration l _) \<longleftrightarrow> l = repository_label.Unknown"
| "initially_shown (RequestBodyBytes l) \<longleftrightarrow> l = repository_label.Unknown"
| "initially_shown (Duplicates l) \<longleftrightarrow> l = repository_label.Unknown"
| "initially_shown (ProcessingFailures l _) \<longleftrightarrow> l = repository_label.Unknown"
| "initially_shown RepositoryConfigurations \<longleftrightarrow> False"
| "initially_shown (MergeGroupEvents l a x) \<longleftrightarrow> l = repository_label.Unknown
     \<and> (a = merge_group_action.ChecksRequested \<longleftrightarrow> x = merge_group_reason.None')"
| "initially_shown (MergeQueuePrOutcomes l oc x) \<longleftrightarrow> l = repository_label.Unknown
     \<and> (oc, x) \<in> {outcome_of merge_queue_completion.PullRequestMerged,
          outcome_of merge_queue_completion.UnclassifiedDequeue}"
| "initially_shown (MergeQueueAttemptDuration l oc) \<longleftrightarrow> l = repository_label.Unknown
     \<and> oc \<in> {merge_queue_outcome.Succeeded, merge_queue_outcome.Unknown}"
| "initially_shown (MergeQueueTransitionFailures l _) \<longleftrightarrow> l = repository_label.Unknown"
| "initially_shown (WorkflowJobSteps l) \<longleftrightarrow> l = repository_label.Unknown"
| "initially_shown (WorkflowTraceRejections l _) \<longleftrightarrow> l = repository_label.Unknown"
| "initially_shown (TelemetryExportFailures _ _) \<longleftrightarrow> True"
| "initially_shown (TelemetryDroppedRecords _ _) \<longleftrightarrow> True"

lemma exposed_map: "exposed_series m = set (map call_series m)"
  by (simp add: exposed_series_def)

lemma shown_at_start: "s \<in> exposed_series metrics_new \<longleftrightarrow> initially_shown s"
proof (cases s)
  case (WebhookRequests l res)
  then show ?thesis unfolding exposed_map metrics_new_def by (cases res) auto
next
  case (ProcessingDuration l res)
  then show ?thesis unfolding exposed_map metrics_new_def by (cases res) auto
next
  case (ProcessingFailures l stage)
  then show ?thesis unfolding exposed_map metrics_new_def by (cases stage) auto
next
  case (MergeGroupEvents l a x)
  then show ?thesis unfolding exposed_map metrics_new_def by (cases a; cases x) auto
next
  case (MergeQueueTransitionFailures l x)
  then show ?thesis unfolding exposed_map metrics_new_def by (cases x) auto
next
  case (WorkflowTraceRejections l x)
  then show ?thesis unfolding exposed_map metrics_new_def by (cases x) auto
next
  case (TelemetryExportFailures g x)
  then show ?thesis unfolding exposed_map metrics_new_def by (cases g; cases x) auto
next
  case (TelemetryDroppedRecords g x)
  then show ?thesis unfolding exposed_map metrics_new_def by (cases g; cases x) auto
qed (unfold exposed_map metrics_new_def, auto)

text \<open>A request adds series of its own repository's label, and at least one.\<close>

definition labels_of :: "series set \<Rightarrow> repository_label set" where
  "labels_of S = {l. \<exists>s \<in> S. series_label s = Some l}"

lemma labels_of_Un: "labels_of (A \<union> B) = labels_of A \<union> labels_of B"
  by (auto simp: labels_of_def)

lemma labels_at_start: "labels_of (exposed_series metrics_new) = {repository_label.Unknown}"
proof -
  have "l = repository_label.Unknown" if "initially_shown s" "series_label s = Some l" for s l
    using that by (cases s) auto
  moreover have "initially_shown (Duplicates repository_label.Unknown)"
    by simp
  ultimately show ?thesis
    unfolding labels_of_def Bex_def shown_at_start by fastforce
qed

lemma labels_performed:
  "labels_of (exposed_series (perform q [])) - {repository_label.Unknown}
     = Authenticated ` request_repositories q"
  by (cases q) (auto simp: labels_of_def exposed_series_def metric_operation_defs
      split: option.splits merge_queue_completion.splits if_splits)

lemma labels_recorded:
  "labels_of (exposed_series (run_requests qs metrics_new))
     = insert repository_label.Unknown (Authenticated ` (\<Union>q \<in> set qs. request_repositories q))"
proof -
  have "labels_of (exposed_series (run_requests qs metrics_new))
      = insert repository_label.Unknown
          (\<Union>q \<in> set qs. labels_of (exposed_series (perform q [])) - {repository_label.Unknown})"
    unfolding run_requests_append exposed_series_def set_append image_Un labels_of_Un
    using labels_at_start by (auto simp: labels_of_def exposed_series_def)
  then show ?thesis
    by (simp add: labels_performed image_UN)
qed

lemma finite_request_repositories: "finite (request_repositories q)"
  by (cases q) simp_all

subsection \<open>The account\<close>

text \<open>What one request adds to the counters and histograms the account compares.\<close>

lemmas perform_defs = metric_operation_defs sane_duration_def MAX_MERGE_QUEUE_ATTEMPT_DURATION_def

lemma counted_once:
  "counter_total (perform q []) (WebhookRequests l res) = (if is_request l res q then 1 else 0)"
  "counter_total (perform q []) (WebhookEvents (Authenticated n) e a)
     = (if is_event n e a q then 1 else 0)"
  "counter_total (perform q []) (MergeGroupEvents (Authenticated n) ga x)
     = (if is_merge_group n ga x q then 1 else 0)"
  "counter_total (perform q []) (MergeQueuePrOutcomes (Authenticated n) oc reason)
     = (if is_completion n oc reason q then 1 else 0)"
  "counter_total (perform q []) (MergeQueueTransitionFailures (Authenticated n) y)
     = (if is_transition_failure n y q then 1 else 0)"
  subgoal by (cases q) (auto simp: perform_defs split: option.splits merge_queue_completion.splits)
  subgoal by (cases q) (auto simp: perform_defs split: option.splits merge_queue_completion.splits)
  subgoal by (cases q; cases ga)
      (auto simp: perform_defs split: option.splits merge_queue_completion.splits merge_group_action.splits)
  subgoal by (cases q) (auto simp: perform_defs split: option.splits merge_queue_completion.splits)
  subgoal by (cases q) (auto simp: perform_defs split: option.splits merge_queue_completion.splits)
  done

fun request_duration :: "repository_label \<Rightarrow> webhook_result \<Rightarrow> metric_request \<Rightarrow> observation list" where
  "request_duration l res (ObserveRequest r res' d) =
     (if is_request l res (ObserveRequest r res' d) then [Nanoseconds d] else [])"
| "request_duration l res _ = []"

fun event_body :: "canonical_repository_name \<Rightarrow> metric_request \<Rightarrow> observation list" where
  "event_body n (ObserveEvent n' _ _ b) = (if n' = n then [Count b] else [])"
| "event_body n _ = []"

fun attempt_duration ::
  "canonical_repository_name \<Rightarrow> merge_queue_outcome \<Rightarrow> metric_request \<Rightarrow> observation list" where
  "attempt_duration n oc (RecordMergeQueueCompletion n' c d) =
     (if n' = n \<and> fst (outcome_of c) = oc \<and> sane_duration d then [Nanoseconds d] else [])"
| "attempt_duration n oc _ = []"

fun dropped_batch :: "telemetry_signal \<Rightarrow> telemetry_drop_reason \<Rightarrow> metric_request \<Rightarrow> nat" where
  "dropped_batch g x (RecordTelemetryDrops g' x' k) = (if g' = g \<and> x' = x then k else 0)"
| "dropped_batch g x _ = 0"

lemma observed_once:
  "observations (perform q []) (ProcessingDuration l res) = request_duration l res q"
  "observations (perform q []) (RequestBodyBytes (Authenticated n)) = event_body n q"
  "observations (perform q []) (MergeQueueAttemptDuration (Authenticated n) oc)
     = attempt_duration n oc q"
  "counter_total (perform q []) (TelemetryDroppedRecords g x) = dropped_batch g x q"
  by (cases q; auto simp: perform_defs split: option.splits merge_queue_completion.splits)+

lemma exposed_card:
  "card (exposed_series (run_requests qs metrics_new))
     \<le> 663 * (card (\<Union>q \<in> set qs. request_repositories q) + 1) + 19"
  using exposed_series_bounded [of "\<Union>q \<in> set qs. request_repositories q" qs]
  by (simp add: finite_request_repositories UN_upper)



end
