(* ===== verification/Request_Tasks.thy ===== *)
theory Request_Tasks
  imports Service_Invariant Interleaving
begin

section \<open>Requests as asynchronous tasks\<close>

text \<open>
  A handler of the source is an asynchronous function: the server's threads run many of them at
  once, and one gives way to the others wherever it uses what they share. A \<open>task\<close> is a handler cut
  into such steps: \<open>Awaiting h\<close> continues with the step \<open>h\<close>, at most one operation of a store, one
  metric request, or the export of one trace, with the spans and log lines recorded around it.
  \<open>performing h k\<close> is the handler \<open>h\<close> in one step, then \<open>k\<close>.

  The tasks below follow the handlers of \<open>src/api/webhook.rs\<close>, \<open>src/api/pull_request.rs\<close>,
  \<open>src/api/repositories.rs\<close> and \<open>src/github/refresh.rs\<close> statement by statement, each with the
  continuation \<open>k\<close> of its caller. What a task does when no other runs between its steps
  (\<open>run_task\<close>) is what the handler of theories Webhook_Handler and Repositories_Api does.
\<close>

datatype 'a task = Finished 'a | Awaiting "world \<Rightarrow> 'a task \<times> world"

primrec run_task :: "'a task \<Rightarrow> world \<Rightarrow> 'a \<times> world" where
  "run_task (Finished a) = (\<lambda>w. (a, w))"
| "run_task (Awaiting h) = (\<lambda>w. case map_prod run_task (\<lambda>w. w) (h w) of (f, w') \<Rightarrow> f w')"

definition performing :: "'b handler \<Rightarrow> ('b \<Rightarrow> 'a task) \<Rightarrow> 'a task" where
  "performing h k = Awaiting (\<lambda>w. case run_state h w of (x, w') \<Rightarrow> (k x, w'))"

lemma run_performing [simp]:
  "run_task (performing h k) w = (case run_state h w of (x, w') \<Rightarrow> run_task (k x) w')"
  by (simp add: performing_def case_prod_beta)

subsection \<open>Workflow runs and jobs\<close>

definition emit_pipeline_trace_task ::
  "'u app_state \<Rightarrow> ambient \<Rightarrow> repository_id \<Rightarrow> 'u webhook_request \<Rightarrow> workflow_run_context
   \<Rightarrow> (unit \<Rightarrow> 'a task) \<Rightarrow> 'a task" where
  "emit_pipeline_trace_task st amb repository_id request context k =
     (if \<not> emitter_is_enabled (app_workflow_trace_emitter st) then k ()
      else performing (instrument_database_operation database_operation.WorkflowJobLinkList
          (reading (list_links (lib_otel (app_libraries st))
            (amb_faults amb database_operation.WorkflowJobLinkList) repository_id
            (ctx_run_id context) (ctx_run_attempt context) (MAX_PIPELINE_JOB_SPANS + 1))))
        (\<lambda>listed. case listed of
            Inl _ \<Rightarrow> performing (record_workflow_link_failure st (wq_repository_name request)) k
          | Inr jobs \<Rightarrow>
              if jobs = [] then k ()
              else if MAX_PIPELINE_JOB_SPANS < length jobs
              then performing (record_pipeline_trace_rejection st request context (length jobs)) k
              else (case project_run_summary (lib_from_slice (app_libraries st)) (wq_body request) of
                  None \<Rightarrow> k ()
                | Some summary \<Rightarrow>
                    (case pipeline_run_trace_new
                        \<lparr>prp_repository_name = wq_repository_name request,
                         prp_delivery_id = wq_delivery_id request,
                         prp_workflow_name = rs_workflow_name summary,
                         prp_head_sha = rs_head_sha summary,
                         prp_pull_requests = rs_pull_requests summary,
                         prp_run_context = context, prp_jobs = jobs\<rparr> of
                       None \<Rightarrow> k ()
                     | Some pipeline \<Rightarrow> performing (do {
                         w \<leftarrow> State_Monad.get;
                         exporting (emit_pipeline (store_crypto (app_repository_store st))
                           (lib_hyphenated (app_libraries st)) (app_workflow_trace_emitter st)
                           (length (w_exported w)) pipeline) }) k))))"

definition process_workflow_run_task ::
  "'u app_state \<Rightarrow> ambient \<Rightarrow> repository_id \<Rightarrow> 'u webhook_request \<Rightarrow> event_type \<Rightarrow> action
   \<Rightarrow> ((app_error, unit) result \<Rightarrow> 'a task) \<Rightarrow> 'a task" where
  "process_workflow_run_task st amb repository_id request event_type act k =
     (if event_type \<noteq> event_type.WorkflowRun then k (Ok ())
      else case project_context (lib_from_slice (app_libraries st)) (wq_body request) of
        None \<Rightarrow> k (Ok ())
      | Some context \<Rightarrow>
          performing (instrument_database_operation database_operation.WorkflowRunUpsert
            (upsert_run (amb_faults amb database_operation.WorkflowRunUpsert)
              (amb_sql_now amb database_operation.WorkflowRunUpsert) repository_id context))
          (\<lambda>r. case r of
            Inl _ \<Rightarrow>
              performing (unavailable_error st (Some (wq_repository_name request))
                failure_stage.Database) (\<lambda>e. k (Err e))
          | Inr _ \<Rightarrow>
              if act = action.Completed
              then emit_pipeline_trace_task st amb repository_id request context (\<lambda>_. k (Ok ()))
              else k (Ok ())))"

definition resolve_required_checks_task ::
  "'u app_state \<Rightarrow> ambient \<Rightarrow> repository_id \<Rightarrow> canonical_repository_name
   \<Rightarrow> workflow_run_context option \<Rightarrow> (required_checks option \<Rightarrow> 'a task) \<Rightarrow> 'a task" where
  "resolve_required_checks_task st amb repository_id repository_name context k =
     (case Option.bind context ctx_target_branch of
        None \<Rightarrow> k None
      | Some branch \<Rightarrow>
          performing (instrument_database_operation database_operation.RequiredCheckGet
            (reading (get_fresh (lib_clock (app_libraries st)) (app_required_check_store st)
              (amb_faults amb database_operation.RequiredCheckGet) repository_id branch
              (amb_checks_at amb))))
          (\<lambda>r. case r of
            Inr (Some checks) \<Rightarrow> k (Some checks)
          | Inl _ \<Rightarrow>
              performing (write_log \<lparr>log_level = LevelDebug, log_local = True,
                log_message = lit ''workflow job required status is unknown'',
                log_fields = [(lit ''outcome'',
                  StringValue (lit ''required_check_cache_unavailable''))]\<rparr>) (\<lambda>_. k None)
          | Inr None \<Rightarrow>
              if app_required_check_refresher st
              then performing (request_refresh \<lparr>rr_repository_id = repository_id,
                     rr_repository_name = repository_name, rr_branch = branch\<rparr>) (\<lambda>_. k None)
              else k None))"

definition emit_and_link_task ::
  "'u app_state \<Rightarrow> ambient \<Rightarrow> repository_id \<Rightarrow> canonical_repository_name \<Rightarrow> 'u workflow_job_trace
   \<Rightarrow> (unit \<Rightarrow> 'a task) \<Rightarrow> 'a task" where
  "emit_and_link_task st amb repository_id repository_name job k =
     performing (do {
         w \<leftarrow> State_Monad.get;
         let out = emit (lib_hyphenated (app_libraries st)) (app_workflow_trace_emitter st)
               (length (w_exported w)) job
         in do {
           exporting (map_option (\<lambda>x. (em_spans x, em_reports x)) out);
           State_Monad.return (Option.bind out em_identity) } })
       (\<lambda>emitted. case emitted of
         None \<Rightarrow> k ()
       | Some identity \<Rightarrow>
           performing (instrument_database_operation database_operation.WorkflowJobLinkRecord
             (record_link (lib_otel (app_libraries st))
               (amb_faults amb database_operation.WorkflowJobLinkRecord)
               (amb_sql_now amb database_operation.WorkflowJobLinkRecord) repository_id job identity))
           (\<lambda>r. case r of
             Inl _ \<Rightarrow> performing (record_workflow_link_failure st repository_name) k
           | Inr _ \<Rightarrow> k ()))"

definition process_workflow_job_task ::
  "'u app_state \<Rightarrow> ambient \<Rightarrow> repository_id \<Rightarrow> 'u webhook_request \<Rightarrow> event_type \<Rightarrow> action
   \<Rightarrow> ((app_error, unit) result \<Rightarrow> 'a task) \<Rightarrow> 'a task" where
  "process_workflow_job_task st amb repository_id request event_type act k =
     (if \<not> (event_type = event_type.WorkflowJob \<and> act = action.Completed) then k (Ok ())
      else case inspect_completed_job (lib_from_slice (app_libraries st)) (wq_body request) of
        None \<Rightarrow> k (Ok ())
      | Some admission \<Rightarrow>
          performing (record_metric (observe_workflow_job_steps (wq_repository_name request)
            (adm_step_count admission)))
          (\<lambda>_. if app_workflow_job_max_steps st < adm_step_count admission
            then performing (record_step_rejection st (wq_repository_name request)
              (wq_delivery_id request) admission (app_workflow_job_max_steps st)) (\<lambda>_. k (Ok ()))
            else performing (instrument_database_operation database_operation.WorkflowRunGet
                (reading (get_run (amb_faults amb database_operation.WorkflowRunGet) repository_id
                  (adm_run_id admission) (adm_run_attempt admission))))
              (\<lambda>r. case r of
                Inl _ \<Rightarrow>
                  performing (unavailable_error st (Some (wq_repository_name request))
                    failure_stage.Database) (\<lambda>e. k (Err e))
              | Inr context \<Rightarrow>
                  resolve_required_checks_task st amb repository_id (wq_repository_name request)
                    context
                  (\<lambda>checks. case project_completed_job (lib_clock (app_libraries st))
                      (lib_from_slice (app_libraries st)) (wq_body request)
                      (wq_repository_name request) (wq_delivery_id request) (amb_received_at amb)
                      context checks of
                    None \<Rightarrow> k (Ok ())
                  | Some job \<Rightarrow>
                      emit_and_link_task st amb repository_id (wq_repository_name request) job
                        (\<lambda>_. k (Ok ()))))))"

subsection \<open>Merge groups and pull requests\<close>

definition process_merge_group_task ::
  "'u app_state \<Rightarrow> repository_id \<Rightarrow> 'u webhook_request \<Rightarrow> event_projection \<Rightarrow> event_type \<Rightarrow> action
   \<Rightarrow> (unit \<Rightarrow> 'a task) \<Rightarrow> 'a task" where
  "process_merge_group_task st repository_id request projection event_type act k =
     (case merge_group_transition_of projection event_type act of
        None \<Rightarrow> k ()
      | Some _ \<Rightarrow> performing (process_merge_group st repository_id request projection event_type act) k)"

definition complete_attempt_task ::
  "'u app_state \<Rightarrow> ambient \<Rightarrow> 'u queue_processor \<Rightarrow> pull_request_number \<Rightarrow> queue_completion
   \<Rightarrow> merge_queue_completion \<Rightarrow> ((merge_queue_store_error, operation_outcome) result \<Rightarrow> 'a task)
   \<Rightarrow> 'a task" where
  "complete_attempt_task st amb q number completion metric_completion k =
     performing (instrument_database_operation database_operation.MergeQueueComplete
         (complete (lib_clock (app_libraries st))
            (amb_faults amb database_operation.MergeQueueComplete)
            (qp_repository_id q) number completion))
       (\<lambda>r. case r of
         Inl e \<Rightarrow> k (Err e)
       | Inr (completion_transition.Completed enqueued_at) \<Rightarrow>
           performing (record_metric (record_merge_queue_completion (qp_repository_name q)
               metric_completion (duration_since (completed_at completion) enqueued_at)))
             (\<lambda>_. k (Ok operation_outcome.Success))
       | Inr completion_transition.AlreadyCompleted \<Rightarrow> k (Ok operation_outcome.NoOp)
       | Inr completion_transition.MissingActiveAttempt \<Rightarrow>
           performing (record_metric (record_merge_queue_transition_failure (qp_repository_name q)
               queue_transition_failure_reason.MissingActiveAttempt))
             (\<lambda>_. k (Ok operation_outcome.NoOp)))"

definition apply_transition_task ::
  "'u app_state \<Rightarrow> ambient \<Rightarrow> 'u queue_processor \<Rightarrow> pull_request_transition \<Rightarrow> pull_request_number
   \<Rightarrow> queue_timestamp \<Rightarrow> ((merge_queue_store_error, operation_outcome) result \<Rightarrow> 'a task)
   \<Rightarrow> 'a task" where
  "apply_transition_task st amb q tr number event_timestamp k = (case tr of
     Enqueue \<Rightarrow>
       performing (instrument_database_operation database_operation.MergeQueueEnqueue
           (enqueue (amb_faults amb database_operation.MergeQueueEnqueue)
              (qp_repository_id q) number event_timestamp))
         (\<lambda>r. k (case r of
            Inl e \<Rightarrow> Err e
          | Inr enqueue_transition.Created \<Rightarrow> Ok operation_outcome.Success
          | Inr enqueue_transition.AlreadyActive \<Rightarrow> Ok operation_outcome.NoOp))
   | Complete completion \<Rightarrow>
       complete_attempt_task st amb q number
         (case completion of
            merge_queue_completion.PullRequestMerged \<Rightarrow>
              completion_pull_request_merged event_timestamp
          | merge_queue_completion.UnclassifiedDequeue \<Rightarrow>
              completion_unclassified_dequeue event_timestamp)
         completion k)"

definition process_task ::
  "'u app_state \<Rightarrow> ambient \<Rightarrow> 'u queue_processor \<Rightarrow> queue_pull_request
   \<Rightarrow> ((merge_queue_store_error, unit) result \<Rightarrow> 'a task) \<Rightarrow> 'a task" where
  "process_task st amb q projection k =
     (if qp_event_type q \<noteq> event_type.PullRequest then k (Ok ())
      else case pull_request_number_new (pr_number projection) of
        Inl _ \<Rightarrow> k (Ok ())
      | Inr number \<Rightarrow>
     (case transition q projection of
        None \<Rightarrow> k (Ok ())
      | Some tr \<Rightarrow>
     (case event_timestamp_of (lib_clock (app_libraries st)) (qp_received_at q) projection of
        None \<Rightarrow> k (Ok ())
      | Some event_timestamp \<Rightarrow>
          apply_transition_task st amb q tr number event_timestamp
          (\<lambda>result. case result of
            Inr oc \<Rightarrow>
              performing (record_span operation.MergeQueueUpdate
                (update_span_calls st q projection number tr @ set_status oc)) (\<lambda>_. k (Ok ()))
          | Inl e \<Rightarrow>
              performing (record_span operation.MergeQueueUpdate
                (update_span_calls st q projection number tr
                 @ add_failure_event operation_failure_reason.QueueState
                 @ set_status operation_outcome.Failure)) (\<lambda>_. k (Err e))))))"

definition process_pull_request_task ::
  "'u app_state \<Rightarrow> ambient \<Rightarrow> repository_id \<Rightarrow> 'u webhook_request \<Rightarrow> event_projection \<Rightarrow> event_type
   \<Rightarrow> action \<Rightarrow> (unit \<Rightarrow> 'a task) \<Rightarrow> 'a task" where
  "process_pull_request_task st amb repository_id request projection event_type act k =
     (case ep_pull_request projection of
        None \<Rightarrow> k ()
      | Some pull_request \<Rightarrow>
          process_task st amb
            \<lparr>qp_repository_id = repository_id, qp_repository_name = wq_repository_name request,
             qp_delivery_id = wq_delivery_id request, qp_event_type = event_type,
             qp_action = act, qp_received_at = amb_received_at amb\<rparr> pull_request
          (\<lambda>r. case r of
            Inl _ \<Rightarrow> performing (record_queue_state_failure st (wq_repository_name request)) k
          | Inr _ \<Rightarrow> k ()))"

subsection \<open>One delivery\<close>

definition process_new_delivery_task ::
  "'u app_state \<Rightarrow> ambient \<Rightarrow> repository_id \<Rightarrow> 'u webhook_request \<Rightarrow> event_projection \<Rightarrow> event_type
   \<Rightarrow> action \<Rightarrow> ((app_error, operation_outcome) result \<Rightarrow> 'a task) \<Rightarrow> 'a task" where
  "process_new_delivery_task st amb repository_id request projection event_type act k =
     performing (record_metric (observe_event (wq_repository_name request) event_type act
         (length (wq_body request))))
     (\<lambda>_. process_workflow_run_task st amb repository_id request event_type act
     (\<lambda>r. case r of
       Inl e \<Rightarrow> k (Err e)
     | Inr _ \<Rightarrow> process_workflow_job_task st amb repository_id request event_type act
     (\<lambda>r. case r of
       Inl e \<Rightarrow> k (Err e)
     | Inr _ \<Rightarrow> process_merge_group_task st repository_id request projection event_type act
     (\<lambda>_. process_pull_request_task st amb repository_id request projection event_type act
     (\<lambda>_. k (Ok operation_outcome.Success))))))"

definition process_delivery_task ::
  "'u app_state \<Rightarrow> ambient \<Rightarrow> repository_id \<Rightarrow> 'u webhook_request
   \<Rightarrow> (span_calls \<times> (app_error, operation_outcome) result \<Rightarrow> 'a task) \<Rightarrow> 'a task" where
  "process_delivery_task st amb repository_id request k =
     (case Option.bind (lib_from_slice (app_libraries st) (wq_body request)) read_event_projection of
        None \<Rightarrow> k ([], Err InvalidWebhook)
      | Some projection \<Rightarrow>
          (let event_type = normalize_event_type (wq_event_type request);
               act = normalize_action (ep_action projection);
               done = (\<lambda>r. k (set_webhook_event event_type act, r))
           in performing (instrument_database_operation database_operation.DeliveryClaim
               (claim_delivery (lib_hyphenated (app_libraries st))
                 (amb_faults amb database_operation.DeliveryClaim)
                 (amb_sql_now amb database_operation.DeliveryClaim) (wq_delivery_id request)))
             (\<lambda>claim. case claim of
               Inr delivery_claim.Duplicate \<Rightarrow>
                 performing (record_metric (record_duplicate (wq_repository_name request)))
                   (\<lambda>_. done (Ok operation_outcome.Duplicate))
             | Inr delivery_claim.New \<Rightarrow>
                 process_new_delivery_task st amb repository_id request projection event_type act done
             | Inl _ \<Rightarrow>
                 performing (unavailable_error st (Some (wq_repository_name request))
                   failure_stage.DeliveryClaim) (\<lambda>e. done (Err e)))))"

definition webhook_handler_task ::
  "'u app_state \<Rightarrow> ambient \<Rightarrow> 'u webhook_request \<Rightarrow> ((app_error, nat) result \<Rightarrow> 'a task) \<Rightarrow> 'a task"
where
  "webhook_handler_task st amb request k =
     (let hyphenated = lib_hyphenated (app_libraries st);
          authenticating = set_repository_name (wq_repository_name request)
            @ set_delivery_id hyphenated (wq_delivery_id request)
      in performing (authenticate_webhook st amb (wq_repository_name request)
          (wq_signature request) (wq_body request))
        (\<lambda>authentication. case authentication of
          Inl webhook_authentication_error.Unauthorized \<Rightarrow>
            performing (record_span operation.WebhookAuthenticate
              (authenticating @ set_status operation_outcome.Failure))
            (\<lambda>_. k (Err UnauthorizedWebhook))
        | Inl webhook_authentication_error.Unavailable \<Rightarrow>
            performing (unavailable_error st None failure_stage.Authentication)
            (\<lambda>e. performing (record_span operation.WebhookAuthenticate
              (authenticating @ set_status operation_outcome.Failure))
            (\<lambda>_. k (Err e)))
        | Inr repository_id \<Rightarrow>
            performing (do {
              context_authenticate (wq_repository_name request);
              record_span operation.WebhookAuthenticate
                (authenticating @ set_repository_id repository_id
                 @ set_status operation_outcome.Success) })
            (\<lambda>_. process_delivery_task st amb repository_id request
            (\<lambda>processed. case processed of (calls, processing) \<Rightarrow>
              performing (record_span operation.WebhookProcess
                (set_repository_name (wq_repository_name request)
                 @ set_repository_id repository_id
                 @ set_delivery_id hyphenated (wq_delivery_id request)
                 @ calls
                 @ set_status (case processing of Inr oc \<Rightarrow> oc
                               | Inl _ \<Rightarrow> operation_outcome.Failure)))
              (\<lambda>_. k (and_then processing (\<lambda>_. Ok 204)))))))"

subsection \<open>The request pipeline\<close>

definition answering_task ::
  "'u app_state \<Rightarrow> (app_error, response) result \<Rightarrow> (response option \<Rightarrow> 'a task) \<Rightarrow> 'a task" where
  "answering_task st r k = (case r of
     Inr response \<Rightarrow> k (Some response)
   | Inl e \<Rightarrow>
       (case app_error_into_response (lib_uuid_text (app_libraries st)) e of
          None \<Rightarrow> performing panicking (\<lambda>_. k None)
        | Some (response, logs) \<Rightarrow>
            performing (State_Monad.update (w_logs_update (\<lambda>l. l @ logs)))
              (\<lambda>_. k (Some response))))"

definition webhook_endpoint_task ::
  "'u app_state \<Rightarrow> ambient \<Rightarrow> http_request \<Rightarrow> (response option \<Rightarrow> 'a task) \<Rightarrow> 'a task" where
  "webhook_endpoint_task st amb rq k =
     (case webhook_request_from_request st rq of
        Inl e \<Rightarrow> answering_task st (Err e) k
      | Inr request \<Rightarrow> webhook_handler_task st amb request
          (\<lambda>r. answering_task st
            (and_then r (\<lambda>status. Ok \<lparr>rsp_status = status, rsp_headers = [], rsp_body = None\<rparr>)) k))"

definition observe_webhook_request_task ::
  "ambient \<Rightarrow> ((response option \<Rightarrow> 'a task) \<Rightarrow> 'a task) \<Rightarrow> (response option \<Rightarrow> 'a task) \<Rightarrow> 'a task"
where
  "observe_webhook_request_task amb inner k = inner (\<lambda>answer. case answer of
     None \<Rightarrow> k None
   | Some response \<Rightarrow>
       (case result_for_status (rsp_status response) of (result, logs) \<Rightarrow>
          performing (State_Monad.update (w_logs_update (\<lambda>l. l @ logs)))
          (\<lambda>_. performing (do {
             w \<leftarrow> State_Monad.get;
             record_metric (observe_request (w_repository w) result (amb_elapsed amb)) })
          (\<lambda>_. performing (write_log \<lparr>log_level = LevelDebug, log_local = True,
             log_message = lit ''GitHub webhook request processed'',
             log_fields = [(lit ''result'', StringValue (webhook_result_as_str result))]\<rparr>)
          (\<lambda>_. k (Some response))))))"

definition observe_http_request_task ::
  "http_request \<Rightarrow> ((response option \<Rightarrow> response option task) \<Rightarrow> response option task)
   \<Rightarrow> response option task" where
  "observe_http_request_task rq inner =
     performing (State_Monad.update (w_repository_update (\<lambda>_. None)))
     (\<lambda>_. inner (\<lambda>answer. case answer of
       None \<Rightarrow> Finished None
     | Some response \<Rightarrow>
         performing (do {
           w \<leftarrow> State_Monad.get;
           record_span operation.HttpRequest
             (set_http_method (rq_method rq) @ set_http_route (rq_matched_path rq)
              @ (case w_repository w of None \<Rightarrow> [] | Some n \<Rightarrow> set_repository_name n)
              @ set_http_response (rsp_status response)) })
         (\<lambda>_. Finished (Some response))))"

definition serve_webhook_task ::
  "'u app_state \<Rightarrow> ambient \<Rightarrow> http_request \<Rightarrow> response option task" where
  "serve_webhook_task st amb rq =
     observe_http_request_task rq (observe_webhook_request_task amb (webhook_endpoint_task st amb rq))"

subsection \<open>The administration API\<close>

definition api_create_task ::
  "'u app_state \<Rightarrow> ambient \<Rightarrow> json option \<Rightarrow> ((app_error, response) result \<Rightarrow> 'a task) \<Rightarrow> 'a task" where
  "api_create_task st amb payload k =
     (case create_parameters payload of
        Inl e \<Rightarrow> k (Err e)
      | Inr (full_name, webhook_secret, enabled) \<Rightarrow>
          (let calls = set_config_operation config_operation.Create @ set_repository_name full_name
           in performing (instrument_database_operation database_operation.RepositoryCreate
              (create_repository (app_repository_store st)
                (amb_faults amb database_operation.RepositoryCreate)
                (amb_sql_now amb database_operation.RepositoryCreate) (amb_nonce amb)
                full_name webhook_secret enabled))
            (\<lambda>result. case result of
              Inl e \<Rightarrow>
                performing (do {
                  err \<leftarrow> store_failure e;
                  record_span operation.RepositoryWrite (calls @ set_result_status result);
                  State_Monad.return err })
                (\<lambda>err. k (Err err))
            | Inr metadata \<Rightarrow>
                performing (record_metric increment_repository_configurations)
                (\<lambda>_. performing (record_span operation.RepositoryWrite
                  (calls @ set_result_status result @ set_repository_id (md_id metadata)))
                (\<lambda>_. k (Ok (json_response 201 (repository_response metadata))))))))"

definition api_delete_task ::
  "'u app_state \<Rightarrow> ambient \<Rightarrow> rstring \<Rightarrow> ((app_error, response) result \<Rightarrow> 'a task) \<Rightarrow> 'a task" where
  "api_delete_task st amb raw_id k =
     (case parse_repository_id raw_id of
        Inl e \<Rightarrow> k (Err e)
      | Inr ident \<Rightarrow>
          (let calls = set_config_operation config_operation.Delete @ set_repository_id ident
           in performing (instrument_database_operation database_operation.RepositoryDelete
              (delete_repository (app_repository_store st)
                (amb_faults amb database_operation.RepositoryDelete) ident))
            (\<lambda>result. case result of
              Inl e \<Rightarrow>
                performing (do {
                  err \<leftarrow> store_failure e;
                  record_span operation.RepositoryWrite (calls @ set_result_status result);
                  State_Monad.return err })
                (\<lambda>err. k (Err err))
            | Inr _ \<Rightarrow>
                performing (record_metric decrement_repository_configurations)
                (\<lambda>_. performing (record_span operation.RepositoryWrite
                  (calls @ set_result_status result))
                (\<lambda>_. k (Ok \<lparr>rsp_status = 204, rsp_headers = [], rsp_body = None\<rparr>))))))"

text \<open>The other handlers use shared state once: they are a single step.\<close>

definition api_handler_task ::
  "'u app_state \<Rightarrow> ambient \<Rightarrow> api_call \<Rightarrow> ((app_error, response) result \<Rightarrow> 'a task) \<Rightarrow> 'a task" where
  "api_handler_task st amb call k = (case call of
     CreateRepository payload \<Rightarrow> api_create_task st amb payload k
   | ListRepositories \<Rightarrow> performing (api_list st amb) k
   | GetRepository raw_id \<Rightarrow> performing (api_get st amb raw_id) k
   | UpdateRepository raw_id payload \<Rightarrow> performing (api_update st amb raw_id payload) k
   | DeleteRepository raw_id \<Rightarrow> api_delete_task st amb raw_id k)"

definition api_endpoint_task ::
  "'u app_state \<Rightarrow> ambient \<Rightarrow> http_request \<Rightarrow> api_call \<Rightarrow> (response option \<Rightarrow> 'a task) \<Rightarrow> 'a task" where
  "api_endpoint_task st amb rq call k = (case admin_authorized st rq of
     Inl e \<Rightarrow> answering_task st (Err e) k
   | Inr _ \<Rightarrow> api_handler_task st amb call (\<lambda>r. answering_task st r k))"

definition serve_api_task ::
  "'u app_state \<Rightarrow> ambient \<Rightarrow> http_request \<Rightarrow> api_call \<Rightarrow> response option task" where
  "serve_api_task st amb rq call = observe_http_request_task rq (api_endpoint_task st amb rq call)"

subsection \<open>The refresher\<close>

definition refresh_task ::
  "'u app_state \<Rightarrow> 'e required_check_source \<Rightarrow> ambient \<Rightarrow> refresh_request \<Rightarrow> (unit \<Rightarrow> 'a task) \<Rightarrow> 'a task"
where
  "refresh_task st source amb rq k =
     performing (instrument_database_operation database_operation.RequiredCheckGet
       (reading (get_fresh (lib_clock (app_libraries st)) (app_required_check_store st)
         (amb_faults amb database_operation.RequiredCheckGet) (rr_repository_id rq) (rr_branch rq)
         (amb_checks_at amb))))
     (\<lambda>cached. case cached of
       Inr (Some _) \<Rightarrow> k ()
     | Inl _ \<Rightarrow>
         performing (refresh_log LevelWarn ''cache_read_failed'' ''required-check refresh skipped'' []) k
     | Inr None \<Rightarrow>
         (case source (rr_repository_name rq) (rr_branch rq) (amb_checks_at amb) of
            Inl _ \<Rightarrow>
              performing (refresh_log LevelWarn ''fetch_failed'' ''required-check refresh failed'' []) k
          | Inr checks \<Rightarrow>
              performing (instrument_database_operation database_operation.RequiredCheckUpsert
                (upsert_checks (amb_faults amb database_operation.RequiredCheckUpsert)
                  (amb_sql_now amb database_operation.RequiredCheckUpsert)
                  (rr_repository_id rq) (rr_branch rq) checks))
              (\<lambda>r. case r of
                Inl _ \<Rightarrow> performing
                  (refresh_log LevelWarn ''cache_write_failed'' ''required-check refresh failed'' []) k
              | Inr _ \<Rightarrow> performing
                  (refresh_log LevelDebug ''refreshed'' ''required-check cache updated''
                    [(lit ''check_count'', I64Value (int (required_checks_len checks)))]) k)))"

definition run_turn_task ::
  "'u app_state \<Rightarrow> 'e required_check_source \<Rightarrow> ambient \<Rightarrow> bool \<Rightarrow> bool task" where
  "run_turn_task st source amb cancelled =
     (if cancelled
      then performing (State_Monad.update (w_refresher_stopped_update (\<lambda>_. True))) (\<lambda>_. Finished False)
      else performing (do {
          w \<leftarrow> State_Monad.get;
          case w_refreshes w of
            [] \<Rightarrow> State_Monad.return None
          | rq # rest \<Rightarrow> do {
              State_Monad.update (w_refreshes_update (\<lambda>_. rest));
              State_Monad.return (Some rq) } })
        (\<lambda>received. case received of
           None \<Rightarrow> Finished True
         | Some rq \<Rightarrow> refresh_task st source amb rq (\<lambda>_. Finished True)))"

subsection \<open>Undisturbed tasks\<close>

text \<open>A task whose continuation runs after the handler of the same name.\<close>

definition undisturbed :: "(('b \<Rightarrow> 'a task) \<Rightarrow> 'a task) \<Rightarrow> 'b handler \<Rightarrow> bool" where
  "undisturbed t h \<longleftrightarrow>
     (\<forall>k w. run_task (t k) w = (case run_state h w of (x, w') \<Rightarrow> run_task (k x) w'))"

named_theorems undisturbed

lemma undisturbedD:
  "undisturbed t h \<Longrightarrow> run_task (t k) w = (case run_state h w of (x, w') \<Rightarrow> run_task (k x) w')"
  by (simp add: undisturbed_def)

lemma undisturbed_workflow_run [undisturbed]:
  "undisturbed (emit_pipeline_trace_task st amb rid request ctx)
     (emit_pipeline_trace st amb rid request ctx)"
  unfolding undisturbed_def emit_pipeline_trace_task_def emit_pipeline_trace_def
  by (auto split: prod.split sum.split option.split)

lemma undisturbed_process_workflow_run [undisturbed]:
  "undisturbed (process_workflow_run_task st amb rid request et act)
     (process_workflow_run st amb rid request et act)"
  unfolding undisturbed_def process_workflow_run_task_def process_workflow_run_def
  by (auto simp: undisturbed [THEN undisturbedD] split: prod.split sum.split option.split)

lemma undisturbed_workflow_job [undisturbed]:
  "undisturbed (resolve_required_checks_task st amb rid n ctx)
     (resolve_required_checks st amb rid n ctx)"
  "undisturbed (emit_and_link_task st amb rid n job) (emit_and_link st amb rid n job)"
  unfolding undisturbed_def resolve_required_checks_task_def resolve_required_checks_def
    emit_and_link_task_def emit_and_link_def Let_def
  by (auto split: prod.split sum.split option.split)

lemma undisturbed_process_workflow_job [undisturbed]:
  "undisturbed (process_workflow_job_task st amb rid request et act)
     (process_workflow_job st amb rid request et act)"
  unfolding undisturbed_def process_workflow_job_task_def process_workflow_job_def
  by (auto simp: undisturbed [THEN undisturbedD] split: prod.split sum.split option.split)

lemma undisturbed_queue [undisturbed]:
  "undisturbed (complete_attempt_task st amb q number completion mc)
     (complete_attempt st amb q number completion mc)"
  unfolding undisturbed_def complete_attempt_task_def complete_attempt_def
  by (auto split: prod.split sum.split completion_transition.split)

lemma undisturbed_transition [undisturbed]:
  "undisturbed (apply_transition_task st amb q tr number t) (apply_transition st amb q tr number t)"
  unfolding undisturbed_def apply_transition_task_def apply_transition_def
  by (auto simp: undisturbed [THEN undisturbedD] split: prod.split pull_request_transition.split)

lemma undisturbed_process [undisturbed]:
  "undisturbed (process_task st amb q projection) (process st amb q projection)"
  unfolding undisturbed_def process_task_def process_def
  by (auto simp: undisturbed [THEN undisturbedD] split: prod.split sum.split option.split)

lemma undisturbed_merge_group [undisturbed]:
  "undisturbed (process_merge_group_task st rid request projection et act)
     (process_merge_group st rid request projection et act)"
  "undisturbed (process_pull_request_task st amb rid request projection et act)
     (process_pull_request st amb rid request projection et act)"
  unfolding undisturbed_def process_merge_group_task_def process_pull_request_task_def
    process_merge_group_def process_pull_request_def
  by (auto simp: undisturbed [THEN undisturbedD] split: prod.split sum.split option.split)

lemma undisturbed_new_delivery [undisturbed]:
  "undisturbed (process_new_delivery_task st amb rid request projection et act)
     (process_new_delivery st amb rid request projection et act)"
  unfolding undisturbed_def process_new_delivery_task_def process_new_delivery_def
  by (auto simp: undisturbed [THEN undisturbedD] split: prod.split sum.split option.split)

lemma undisturbed_delivery [undisturbed]:
  "undisturbed (process_delivery_task st amb rid request) (process_delivery st amb rid request)"
  unfolding undisturbed_def process_delivery_task_def process_delivery_def Let_def
  by (auto simp: undisturbed [THEN undisturbedD]
      split: prod.split sum.split option.split delivery_claim.split)

lemma undisturbed_handler [undisturbed]:
  "undisturbed (webhook_handler_task st amb request) (webhook_handler st amb request)"
  unfolding undisturbed_def webhook_handler_task_def webhook_handler_def Let_def
  by (auto simp: undisturbed [THEN undisturbedD]
      split: prod.split sum.split option.split webhook_authentication_error.split)

lemma run_answering_task:
  "run_task (answering_task st r k) w =
     (case run_state (case r of
         Inr response \<Rightarrow> State_Monad.return (Some response)
       | Inl e \<Rightarrow>
           (case app_error_into_response (lib_uuid_text (app_libraries st)) e of
              None \<Rightarrow> do { panicking; State_Monad.return None }
            | Some (response, logs) \<Rightarrow> do {
                State_Monad.update (w_logs_update (\<lambda>l. l @ logs));
                State_Monad.return (Some response) })) w of (x, w') \<Rightarrow> run_task (k x) w')"
  by (auto simp: answering_task_def panicking_def split: sum.split option.split)

lemma undisturbed_endpoint [undisturbed]:
  "undisturbed (webhook_endpoint_task st amb rq) (webhook_endpoint st amb rq)"
  unfolding undisturbed_def webhook_endpoint_task_def webhook_endpoint_def
  by (auto simp: undisturbed [THEN undisturbedD] run_answering_task and_then_def
      split: prod.split sum.split option.split)

lemma undisturbed_observed [undisturbed]:
  assumes "undisturbed t h"
  shows "undisturbed (observe_webhook_request_task amb t) (observe_webhook_request amb h)"
  unfolding undisturbed_def observe_webhook_request_task_def observe_webhook_request_def
  by (auto simp: undisturbedD [OF assms] split: prod.split option.split)

lemma undisturbed_http_request:
  assumes "undisturbed t h"
  shows "run_task (observe_http_request_task rq t) w = run_state (observe_http_request rq h) w"
  unfolding observe_http_request_task_def observe_http_request_def
  by (auto simp: undisturbedD [OF assms] split: prod.split option.split)

lemma undisturbed_api [undisturbed]:
  "undisturbed (api_create_task st amb payload) (api_create st amb payload)"
  "undisturbed (api_delete_task st amb raw_id) (api_delete st amb raw_id)"
  unfolding undisturbed_def api_create_task_def api_create_def api_delete_task_def api_delete_def
    Let_def
  by (auto split: prod.split sum.split)

lemma undisturbed_api_endpoint [undisturbed]:
  "undisturbed (api_endpoint_task st amb rq call) (api_endpoint st amb rq call)"
  unfolding undisturbed_def api_endpoint_task_def api_endpoint_def api_handler_task_def api_handler_def
  by (auto simp: undisturbed [THEN undisturbedD] run_answering_task
      split: prod.split sum.split option.split api_call.split)

lemma undisturbed_refresh [undisturbed]:
  "undisturbed (refresh_task st source amb rq) (refresh st source amb rq)"
  unfolding undisturbed_def refresh_task_def refresh_def
  by (auto split: prod.split sum.split option.split)

lemma run_turn_undisturbed:
  "run_task (run_turn_task st source amb cancelled) w = run_state (run_turn st source amb cancelled) w"
  by (auto simp: run_turn_task_def run_turn_def undisturbed [THEN undisturbedD]
      split: prod.split list.split)

end
