(* ===== verification/Service_Threads.thy ===== *)
theory Service_Threads
  imports Request_Tasks
begin

section \<open>Requests, refreshes and retention passes at the same time\<close>

text \<open>
  The running service as a pool of threads over the shared \<open>world\<close>: any number of requests, turns
  of the required-check refresher and retention passes advance step by step in any order. A request
  carries its own repository context and, as a ghost, the repositories it has added or removed that
  the gauge of repository configurations does not show yet. A thread may also be abandoned between
  two of its steps: the server drops the future of a handler whose client has gone, and the drain
  timeout aborts the background workloads.
\<close>

subsection \<open>Retention passes in steps\<close>

text \<open>A pass between two batches: the workloads left, the outcome so far, the next observation.\<close>

datatype prune_progress =
    PruningAt "(prunable_store \<times> instant option) list" retention_pass_outcome nat
  | PruneDone retention_pass_outcome nat

definition store_pruned ::
  "(prunable_store \<times> instant option) list \<Rightarrow> (nat \<Rightarrow> bool) \<Rightarrow> retention_pass_outcome
   \<Rightarrow> store_prune_outcome \<Rightarrow> nat \<Rightarrow> prune_progress" where
  "store_pruned remaining shutdown oc store_outcome j =
     (let oc' = combine oc store_outcome
      in if (shutdown j \<or> store_outcome = store_prune_outcome.Cancelled) \<and> remaining \<noteq> []
         then PruneDone (combine oc' store_prune_outcome.Cancelled) (j + 1)
         else PruningAt remaining oc' (j + 1))"

fun prune_advance ::
  "(nat \<Rightarrow> bool) \<Rightarrow> (nat \<Rightarrow> faults) \<Rightarrow> prune_progress \<Rightarrow> database
   \<Rightarrow> (prune_progress \<times> database) option" where
  "prune_advance shutdown faults (PruneDone oc i) db = None"
| "prune_advance shutdown faults (PruningAt [] oc i) db = Some (PruneDone oc i, db)"
| "prune_advance shutdown faults (PruningAt ((store, None) # remaining) oc i) db =
     Some (store_pruned remaining shutdown oc store_prune_outcome.Failed i, db)"
| "prune_advance shutdown faults (PruningAt ((store, Some cutoff) # remaining) oc i) db =
     (if shutdown i
      then Some (store_pruned remaining shutdown oc store_prune_outcome.Cancelled (i + 1), db)
      else case prune_batch_erased store (faults i) cutoff db of
        (Inl e, db') \<Rightarrow>
          Some (store_pruned remaining shutdown oc store_prune_outcome.Failed (i + 1), db')
      | (Inr batch_deleted, db') \<Rightarrow>
          if batch_deleted < FULL_PRUNE_BATCH_SIZE
          then Some (store_pruned remaining shutdown oc store_prune_outcome.Completed (i + 1), db')
          else Some (PruningAt ((store, Some cutoff) # remaining) oc (i + 1), db'))"

text \<open>Its steps, undisturbed, are the pass of theory Retention.\<close>

fun prune_meaning ::
  "(nat \<Rightarrow> bool) \<Rightarrow> (nat \<Rightarrow> faults) \<Rightarrow> prune_progress \<Rightarrow> database
   \<Rightarrow> (retention_pass_outcome \<times> nat \<times> database) option" where
  "prune_meaning shutdown faults (PruneDone oc i) db = Some (oc, i, db)"
| "prune_meaning shutdown faults (PruningAt workloads oc i) db =
     prune_retention_workloads workloads shutdown faults oc i db"

lemma store_pruned_meaning:
  "prune_meaning shutdown faults (store_pruned remaining shutdown oc s j) db =
     (let oc' = combine oc s
      in if (shutdown j \<or> s = store_prune_outcome.Cancelled) \<and> remaining \<noteq> []
         then Some (combine oc' store_prune_outcome.Cancelled, j + 1, db)
         else prune_retention_workloads remaining shutdown faults oc' (j + 1) db)"
  by (simp add: store_pruned_def Let_def)

lemma prune_advance_meaning:
  "prune_advance shutdown faults p db = Some (p', db') \<Longrightarrow>
     prune_meaning shutdown faults p' db' = prune_meaning shutdown faults p db"
proof (induction shutdown faults p db rule: prune_advance.induct)
  case (4 shutdown faults store cutoff remaining oc i db)
  then show ?case
    by (subst prune_meaning.simps(2), subst prune_retention_workloads.simps(2), unfold prune_store_def,
        simp only: option.case, subst prune_loop.simps)
      (auto simp: store_pruned_meaning prune_store_def Let_def split: if_splits sum.splits prod.splits)
qed (auto simp: store_pruned_meaning prune_store_def Let_def)

lemma pass_meaning:
  "prune_meaning shutdown faults
     (PruningAt (retention_workloads clk config now) retention_pass_outcome.Success 0) db
   = prune_retention_pass clk config now shutdown faults db"
  by (simp add: prune_retention_pass_def)

text \<open>The workloads of a pass under way are those of its configuration.\<close>

definition clock_prunables :: "time_lib \<Rightarrow> prunable_store set" where
  "clock_prunables clk = {delivery_prunable clk, merge_queue_prunable clk, workflow_run_prunable clk,
     workflow_job_link_prunable clk, required_check_prunable clk}"

fun pruning_among :: "prunable_store set \<Rightarrow> prune_progress \<Rightarrow> bool" where
  "pruning_among S (PruningAt workloads oc i) = (fst ` set workloads \<subseteq> S)"
| "pruning_among S (PruneDone oc i) = True"

context prunable_table
begin

lemma batch_keeps:
  assumes "db_ok db" and "prune f c db = (r, db')"
  shows "db_ok db' \<and> repositories db' = repositories db"
proof (cases r)
  case (Inl e)
  with assms batch_err show ?thesis by blast
next
  case (Inr n)
  with assms have "db_ok db'" "db' = put (rows db') db" using batch_ok by blast+
  then show ?thesis using put_repositories by metis
qed

end

lemma batch_sound:
  assumes "store \<in> clock_prunables clk" and "db_ok db"
    and "prune_batch_erased store f c db = (r, db')"
  shows "db_ok db' \<and> repositories db' = repositories db"
  using assms(1) unfolding clock_prunables_def
  by (elim insertE emptyE; use assms(2,3) in hypsubst)
    (erule (1) delivery.batch_keeps merge_queue.batch_keeps workflow_run.batch_keeps
      job_link.batch_keeps required_check.batch_keeps)+

lemma store_pruned_among [simp]:
  "pruning_among S (store_pruned remaining shutdown oc so j) \<longleftrightarrow>
     fst ` set remaining \<subseteq> S \<or> (shutdown j \<or> so = store_prune_outcome.Cancelled) \<and> remaining \<noteq> []"
  by (simp add: store_pruned_def Let_def)

lemma prune_advance_sound:
  assumes "prune_advance shutdown faults p db = Some (p', db')" and "db_ok db"
    and "pruning_among (clock_prunables clk) p"
  shows "db_ok db' \<and> repositories db' = repositories db \<and> pruning_among (clock_prunables clk) p'"
  using assms
proof (induction shutdown faults p db rule: prune_advance.induct)
  case (4 shutdown faults store cutoff remaining oc i db)
  obtain r db1 where b: "prune_batch_erased store (faults i) cutoff db = (r, db1)" by fastforce
  have "db_ok db1 \<and> repositories db1 = repositories db"
    using batch_sound [of store clk, OF _ 4(2) b] 4(3) by simp
  with 4 b show ?case by (cases r) (auto split: if_splits)
qed auto

subsection \<open>Threads of the service\<close>

definition unreported :: "world \<Rightarrow> world \<Rightarrow> 64 word" where
  "unreported w w' =
     (of_nat (length (repositories (w_database w'))) - of_nat (length (repositories (w_database w))))
     - (gauge_value (w_metrics w') - gauge_value (w_metrics w))"

datatype service_thread =
    Serving "canonical_repository_name option" "64 word" "response option task"
  | Refreshing "64 word" "bool task"
  | Pruning "nat \<Rightarrow> bool" "nat \<Rightarrow> faults" prune_progress
  | Abandoned "64 word"

datatype schedule = Proceed | Drop

fun service_thread_step ::
  "schedule \<Rightarrow> service_thread \<Rightarrow> world \<Rightarrow> (service_thread \<times> world) option" where
  "service_thread_step Proceed (Serving r d (Awaiting h)) w =
     (case h (w\<lparr>w_repository := r\<rparr>) of (t, w') \<Rightarrow>
        Some (Serving (w_repository w') (d + unreported w w') t,
          w'\<lparr>w_repository := w_repository w\<rparr>))"
| "service_thread_step Proceed (Refreshing d (Awaiting h)) w =
     (case h w of (t, w') \<Rightarrow> Some (Refreshing (d + unreported w w') t, w'))"
| "service_thread_step Proceed (Pruning shutdown faults p) w =
     map_option (\<lambda>(p', db). (Pruning shutdown faults p', w\<lparr>w_database := db\<rparr>))
       (prune_advance shutdown faults p (w_database w))"
| "service_thread_step Drop (Serving r d (Awaiting h)) w = Some (Abandoned d, w)"
| "service_thread_step Drop (Refreshing d (Awaiting h)) w = Some (Abandoned d, w)"
| "service_thread_step Drop (Pruning shutdown faults p) w = Some (Abandoned 0, w)"
| "service_thread_step _ _ w = None"

lemma step_performing [simp]:
  "service_thread_step Proceed (Serving r d (performing h k)) w =
     (case run_state h (w\<lparr>w_repository := r\<rparr>) of (x, w') \<Rightarrow>
        Some (Serving (w_repository w') (d + unreported w w') (k x),
          w'\<lparr>w_repository := w_repository w\<rparr>))"
  by (simp add: performing_def case_prod_beta)

inductive service_thread_start ::
  "'u app_state \<Rightarrow> 'e required_check_source \<Rightarrow> retention_config \<Rightarrow> service_thread \<Rightarrow> bool"
  for st source config where
  webhook: "service_thread_start st source config (Serving None 0 (serve_webhook_task st amb rq))"
| administration:
    "service_thread_start st source config (Serving None 0 (serve_api_task st amb rq call))"
| refresher:
    "service_thread_start st source config (Refreshing 0 (run_turn_task st source amb cancelled))"
| retention:
    "service_thread_start st source config (Pruning shutdown faults
       (PruningAt (retention_workloads (lib_clock (app_libraries st)) config now)
         retention_pass_outcome.Success 0))"

fun unreported_by :: "service_thread \<Rightarrow> 64 word" where
  "unreported_by (Serving r d t) = d"
| "unreported_by (Refreshing d t) = d"
| "unreported_by (Pruning shutdown faults p) = 0"
| "unreported_by (Abandoned d) = d"

subsection \<open>Orderly tasks\<close>

text \<open>
  \<open>orderly Q t d\<close>: wherever the others leave the world between two steps of \<open>t\<close>, as long as they
  keep it safe, \<open>t\<close> keeps it safe, and it ends with an answer in \<open>Q\<close> having reported to the gauge
  what it has changed, \<open>d\<close> included.
\<close>

definition service_safe :: "world \<Rightarrow> bool" where
  "service_safe w \<longleftrightarrow> db_ok (w_database w) \<and> \<not> w_panicked w
     \<and> length (w_refreshes w) \<le> REFRESH_QUEUE_CAPACITY"

primrec orderly :: "('a \<Rightarrow> bool) \<Rightarrow> 'a task \<Rightarrow> 64 word \<Rightarrow> bool" where
  "orderly Q (Finished a) = (\<lambda>d. d = 0 \<and> Q a)"
| "orderly Q (Awaiting h) = (\<lambda>d. \<forall>w. service_safe w \<longrightarrow>
     (case map_prod (orderly Q) (\<lambda>w. w) (h w) of (f, w') \<Rightarrow>
        service_safe w' \<and> f (d + unreported w w')))"

lemma orderly_Awaiting:
  "orderly Q (Awaiting h) d \<longleftrightarrow> (\<forall>w. service_safe w \<longrightarrow>
     service_safe (snd (h w)) \<and> orderly Q (fst (h w)) (d + unreported w (snd (h w))))"
  by (simp add: case_prod_beta)

declare orderly.simps(2) [simp del]

lemma orderly_performing:
  assumes "\<And>w. service_safe w \<Longrightarrow> service_safe (snd (run_state h w))
    \<and> orderly Q (k (fst (run_state h w))) (d + unreported w (snd (run_state h w)))"
  shows "orderly Q (performing h k) d"
  using assms by (simp add: orderly_Awaiting performing_def case_prod_beta)

text \<open>Steps that keep the world safe and touch neither the repositories nor their gauge.\<close>

definition steady :: "world \<Rightarrow> world \<Rightarrow> bool" where
  "steady w w' \<longleftrightarrow> (service_safe w \<longrightarrow> service_safe w')
     \<and> length (repositories (w_database w')) = length (repositories (w_database w))
     \<and> gauge_value (w_metrics w') = gauge_value (w_metrics w)"

lemma steady_unreported: "steady w w' \<Longrightarrow> unreported w w' = 0"
  by (simp add: steady_def unreported_def)

lemma orderly_steady:
  assumes "state_io_rel steady h" and "\<And>w. orderly Q (k (fst (run_state h w))) d"
  shows "orderly Q (performing h k) d"
proof (rule orderly_performing)
  fix w assume "service_safe w"
  moreover have "steady w (snd (run_state h w))" using assms(1) by (simp add: state_io_rel_def)
  ultimately show "service_safe (snd (run_state h w))
      \<and> orderly Q (k (fst (run_state h w))) (d + unreported w (snd (run_state h w)))"
    using assms(2) [of w] by (simp add: steady_unreported steady_def)
qed

interpretation steady: endpoint_relation steady UNIV
  by unfold_locales
    (auto simp: steady_def service_safe_def perform_gauge claim_delivery_db_ok upsert_run_db_ok
      record_link_db_ok enqueue_db_ok complete_db_ok db_extends_operations [unfolded db_extends_def])

text \<open>The tasks of a webhook request are orderly when their continuations are.\<close>

named_theorems orderly_intros

lemma orderly_cases [orderly_intros]:
  "(x = None \<Longrightarrow> orderly Q a d) \<Longrightarrow> (\<And>y. x = Some y \<Longrightarrow> orderly Q (b y) d) \<Longrightarrow>
     orderly Q (case x of None \<Rightarrow> a | Some y \<Rightarrow> b y) d"
  "(\<And>e. s = Inl e \<Longrightarrow> orderly Q (f e) d) \<Longrightarrow> (\<And>y. s = Inr y \<Longrightarrow> orderly Q (b y) d) \<Longrightarrow>
     orderly Q (case s of Inl e \<Rightarrow> f e | Inr y \<Rightarrow> b y) d"
  "(\<And>y z. p = (y, z) \<Longrightarrow> orderly Q (g y z) d) \<Longrightarrow> orderly Q (case p of (y, z) \<Rightarrow> g y z) d"
  "(c \<Longrightarrow> orderly Q a d) \<Longrightarrow> (\<not> c \<Longrightarrow> orderly Q a' d) \<Longrightarrow> orderly Q (if c then a else a') d"
  by (auto split: option.split sum.split prod.split)

lemmas orderly_steps [orderly_intros] =
  orderly_steady [OF steady.rel_reading] orderly_steady [OF steady.rel_operations(1)]
  orderly_steady [OF steady.rel_operations(2)] orderly_steady [OF steady.rel_operations(3)]
  orderly_steady [OF steady.rel_operations(4)] orderly_steady [OF steady.rel_operations(5)]
  orderly_steady [OF steady.rel_effects(1)] orderly_steady [OF steady.rel_effects(2)]
  orderly_steady [OF steady.rel_request_refresh] orderly_steady [OF steady.rel_authenticate]

lemma orderly_webhook_effects [orderly_intros]:
  "(\<And>u. orderly Q (k u) d) \<Longrightarrow> orderly Q (performing (record_workflow_link_failure st n) k) d"
  "(\<And>u. orderly Q (k u) d) \<Longrightarrow> orderly Q (performing (record_queue_state_failure st n) k) d"
  "(\<And>u. orderly Q (k u) d) \<Longrightarrow>
     orderly Q (performing (record_pipeline_trace_rejection st request ctx jobs) k) d"
  "(\<And>u. orderly Q (k u) d) \<Longrightarrow>
     orderly Q (performing (record_step_rejection st n delivery admission limit) k) d"
  "(\<And>u. orderly Q (k u) d) \<Longrightarrow>
     orderly Q (performing (process_merge_group st rid request projection et act) k) d"
  "(\<And>u. orderly Q (k u) d) \<Longrightarrow>
     orderly Q (performing (State_Monad.update (w_logs_update f)) k) d"
  "(\<And>u. orderly Q (k u) d) \<Longrightarrow>
     orderly Q (performing (State_Monad.update (w_repository_update g)) k) d"
  by (rule orderly_steady, auto intro!: handler_rel steady.R_log steady.R_context)+

lemma orderly_metrics [orderly_intros]:
  "(\<And>u. orderly Q (k u) d) \<Longrightarrow>
     orderly Q (performing (record_metric (observe_event n et act size_of)) k) d"
  "(\<And>u. orderly Q (k u) d) \<Longrightarrow> orderly Q (performing (record_metric (record_duplicate n)) k) d"
  "(\<And>u. orderly Q (k u) d) \<Longrightarrow>
     orderly Q (performing (record_metric (record_merge_queue_completion n mc t)) k) d"
  "(\<And>u. orderly Q (k u) d) \<Longrightarrow>
     orderly Q (performing (record_metric (record_merge_queue_transition_failure n fr)) k) d"
  "(\<And>u. orderly Q (k u) d) \<Longrightarrow>
     orderly Q (performing (record_metric (observe_workflow_job_steps n steps)) k) d"
  by (rule orderly_steady, auto intro!: handler_rel)+

lemma unavailable_error_answer:
  "\<exists>c. fst (run_state (unavailable_error st n stage) w) = WebhookUnavailable c"
  by (simp add: unavailable_error_def record_failure_logged_def new_correlation_id_def
      record_metric_def write_log_def)

lemma orderly_unavailable [orderly_intros]:
  assumes "\<And>c. orderly Q (k (WebhookUnavailable c)) d"
  shows "orderly Q (performing (unavailable_error st n stage) k) d"
proof (rule orderly_steady)
  show "state_io_rel steady (unavailable_error st n stage)" by (auto intro!: handler_rel)
  show "orderly Q (k (fst (run_state (unavailable_error st n stage) w))) d" for w
    using unavailable_error_answer [of st n stage w] assms by auto
qed

lemma orderly_emit_pipeline_trace [orderly_intros]:
  "(\<And>u. orderly Q (k u) d) \<Longrightarrow> orderly Q (emit_pipeline_trace_task st amb rid request ctx k) d"
  unfolding emit_pipeline_trace_task_def
  by (intro orderly_intros; (rule orderly_steady)?)
    (auto intro!: handler_rel simp: emit_pipeline_total)

lemma orderly_workflow_run [orderly_intros]:
  "(\<And>r. unavailable_or_ok r \<Longrightarrow> orderly Q (k r) d) \<Longrightarrow>
     orderly Q (process_workflow_run_task st amb rid request et act k) d"
  unfolding process_workflow_run_task_def by (intro orderly_intros) simp_all

lemma orderly_emit_and_link [orderly_intros]:
  assumes "\<And>u. orderly Q (k u) d"
  shows "orderly Q (emit_and_link_task st amb rid n job k) d"
  unfolding emit_and_link_task_def Let_def
proof (rule orderly_steady)
  show "state_io_rel steady (do {
      w \<leftarrow> State_Monad.get;
      exporting (map_option (\<lambda>x. (em_spans x, em_reports x)) (emit (lib_hyphenated (app_libraries st))
        (app_workflow_trace_emitter st) (length (w_exported w)) job));
      State_Monad.return (Option.bind (emit (lib_hyphenated (app_libraries st))
        (app_workflow_trace_emitter st) (length (w_exported w)) job) em_identity) })"
    by (intro handler_rel) (metis emit_total option.map_disc_iff option.distinct(1))
qed (intro orderly_intros assms)

lemma orderly_workflow_job [orderly_intros]:
  "(\<And>c. orderly Q (k c) d) \<Longrightarrow> orderly Q (resolve_required_checks_task st amb rid n ctx k) d"
  "(\<And>r. unavailable_or_ok r \<Longrightarrow> orderly Q (k' r) d) \<Longrightarrow>
     orderly Q (process_workflow_job_task st amb rid request et act k') d"
proof -
  show r: "(\<And>c. orderly Q (k c) d) \<Longrightarrow> orderly Q (resolve_required_checks_task st amb rid n ctx k) d"
    for k n ctx unfolding resolve_required_checks_task_def by (intro orderly_intros)
  show "(\<And>r. unavailable_or_ok r \<Longrightarrow> orderly Q (k' r) d) \<Longrightarrow>
     orderly Q (process_workflow_job_task st amb rid request et act k') d"
    unfolding process_workflow_job_task_def by (intro orderly_intros r) simp_all
qed

lemma orderly_queue [orderly_intros]:
  assumes "\<And>r. orderly Q (k r) d"
  shows "orderly Q (process_task st amb q projection k) d"
proof -
  have c: "orderly Q (complete_attempt_task st amb q number completion mc k') d"
    if "\<And>r. orderly Q (k' r) d" for number completion mc k'
    unfolding complete_attempt_task_def
    by (intro orderly_intros that) (auto split: completion_transition.split intro!: orderly_intros that)
  have a: "orderly Q (apply_transition_task st amb q tr number t k') d"
    if "\<And>r. orderly Q (k' r) d" for tr number t k'
    unfolding apply_transition_task_def
    by (auto split: pull_request_transition.split intro!: orderly_intros c that)
  show ?thesis unfolding process_task_def by (intro orderly_intros a assms)
qed

lemma orderly_events [orderly_intros]:
  "(\<And>u. orderly Q (k u) d) \<Longrightarrow>
     orderly Q (process_merge_group_task st rid request projection et act k) d"
  "(\<And>u. orderly Q (k u) d) \<Longrightarrow>
     orderly Q (process_pull_request_task st amb rid request projection et act k) d"
  unfolding process_merge_group_task_def process_pull_request_task_def
  by (auto intro!: orderly_intros)

lemma orderly_new_delivery [orderly_intros]:
  "(\<And>r. unavailable_or_ok r \<Longrightarrow> orderly Q (k r) d) \<Longrightarrow>
     orderly Q (process_new_delivery_task st amb rid request projection et act k) d"
  unfolding process_new_delivery_task_def
  by (intro orderly_intros) (auto simp: unavailable_or_ok_def)

end
