(* ===== verification/Concurrent_Service.thy ===== *)
theory Concurrent_Service
  imports Service_Threads
begin

section \<open>The invariant of the concurrent service\<close>

text \<open>
  Every request, refresher turn and retention pass is orderly, so the pool of theory Service_Threads
  keeps its invariant. The interpretation of \<open>pool_law\<close> gives it for every reachable pool.
\<close>

subsection \<open>Webhook requests\<close>

lemma webhook_error_simps [simp]:
  "errors_in P (Ok x)" "errors_in P (Err e) \<longleftrightarrow> P e" "webhook_error (WebhookUnavailable c)"
  "webhook_error InvalidWebhook" "webhook_error UnauthorizedWebhook"
  by (simp_all add: errors_in_def webhook_error_def)

lemma unavailable_webhook_error: "unavailable_or_ok r \<Longrightarrow> errors_in webhook_error r"
  by (auto simp: errors_in_def unavailable_or_ok_def)

lemma orderly_delivery [orderly_intros]:
  "(\<And>calls r. errors_in webhook_error r \<Longrightarrow> orderly Q (k (calls, r)) d) \<Longrightarrow>
     orderly Q (process_delivery_task st amb rid request k) d"
  unfolding process_delivery_task_def Let_def
  by (intro orderly_intros)
    (auto split: delivery_claim.split intro!: orderly_intros dest: unavailable_webhook_error)

lemma orderly_webhook_handler [orderly_intros]:
  assumes "\<And>r. errors_in webhook_error r \<Longrightarrow> (\<And>n. r = Ok n \<Longrightarrow> n = 204) \<Longrightarrow> orderly Q (k r) d"
  shows "orderly Q (webhook_handler_task st amb request k) d"
proof -
  have c: "state_io_rel steady (do { context_authenticate n; record_span op calls })" for n op calls
    by (intro handler_rel steady.rel_context)
  show ?thesis
    unfolding webhook_handler_task_def Let_def
    by (intro orderly_intros; (rule orderly_steady [OF c])?)
      (auto split: webhook_authentication_error.split intro!: orderly_intros assms
        simp: errors_in_def webhook_error_def and_then_def split: sum.splits)
qed

lemma orderly_answering:
  assumes "\<And>e. r = Err e \<Longrightarrow> \<exists>response logs.
      app_error_into_response (lib_uuid_text (app_libraries st)) e = Some (response, logs)
      \<and> orderly Q (k (Some response)) d"
    and "\<And>response. r = Ok response \<Longrightarrow> orderly Q (k (Some response)) d"
  shows "orderly Q (answering_task st r k) d"
  using assms unfolding answering_task_def
  by (cases r) (fastforce intro!: orderly_intros)+

lemma orderly_webhook_endpoint:
  assumes "\<And>response. rsp_status response \<in> webhook_statuses \<Longrightarrow> orderly Q (k (Some response)) d"
  shows "orderly Q (webhook_endpoint_task st amb rq k) d"
proof -
  have e: "orderly Q (answering_task st (Err e) k) d" if "webhook_error e" for e
    using webhook_error_response [OF that, of "lib_uuid_text (app_libraries st)"] assms
    by (intro orderly_answering) fastforce+
  have a: "orderly Q (answering_task st (and_then r (\<lambda>status. Ok \<lparr>rsp_status = status,
      rsp_headers = [], rsp_body = None\<rparr>)) k) d"
    if "errors_in webhook_error r" "\<And>n. r = Ok n \<Longrightarrow> n = 204" for r
    using that e assms
    by (cases r) (auto simp: answering_task_def and_then_def webhook_statuses_def)
  show ?thesis
    unfolding webhook_endpoint_task_def
    by (intro orderly_intros) (auto intro!: orderly_intros a e dest: extraction_error)
qed

lemma orderly_observed:
  assumes "\<And>k'. (\<And>response. P response \<Longrightarrow> orderly Q (k' (Some response)) d) \<Longrightarrow> orderly Q (t k') d"
    and "\<And>response. P response \<Longrightarrow> orderly Q (k (Some response)) d"
  shows "orderly Q (observe_webhook_request_task amb t k) d"
proof -
  have m: "state_io_rel steady (do { w \<leftarrow> State_Monad.get;
      record_metric (observe_request (w_repository w) result t') })" for result t'
    by (auto intro!: handler_rel)
  show ?thesis
    unfolding observe_webhook_request_task_def
    by (rule assms(1)) (auto intro!: orderly_intros orderly_steady [OF m] assms(2) split: prod.split)
qed

lemma orderly_http_request:
  assumes "\<And>k'. (\<And>response. P response \<Longrightarrow> orderly Q (k' (Some response)) d) \<Longrightarrow> orderly Q (t k') d"
    and "\<And>response. P response \<Longrightarrow> Q (Some response)" and "d = 0"
  shows "orderly Q (observe_http_request_task rq t) d"
proof -
  have s: "state_io_rel steady (do { w \<leftarrow> State_Monad.get; record_span op (calls w) })" for op calls
    by (auto intro!: handler_rel)
  show ?thesis
    unfolding observe_http_request_task_def
    by (intro orderly_intros assms(1)) (auto intro!: orderly_steady [OF s] assms(2) simp: assms(3))
qed

lemma orderly_serve_webhook:
  "orderly (\<lambda>a. \<exists>response. a = Some response \<and> rsp_status response \<in> webhook_statuses)
     (serve_webhook_task st amb rq) 0"
  unfolding serve_webhook_task_def
  by (rule orderly_http_request [where P = "\<lambda>response. rsp_status response \<in> webhook_statuses"],
      rule orderly_observed [where P = "\<lambda>response. rsp_status response \<in> webhook_statuses"],
      rule orderly_webhook_endpoint) auto

subsection \<open>Administration requests\<close>

lemma orderly_counting [orderly_intros]:
  "(\<And>u. orderly Q (k u) (d - 1)) \<Longrightarrow>
     orderly Q (performing (record_metric increment_repository_configurations) k) d"
  "(\<And>u. orderly Q (k u) (d + 1)) \<Longrightarrow>
     orderly Q (performing (record_metric decrement_repository_configurations) k) d"
  by (rule orderly_performing, simp add: record_metric_def unreported_def service_safe_def
      increment_repository_configurations_def decrement_repository_configurations_def)+

lemma orderly_database:
  assumes "\<And>db r db'. db_ok db \<Longrightarrow> f db = (r, db') \<Longrightarrow>
      db_ok db' \<and> of_nat (length (repositories db')) = of_nat (length (repositories db)) + c r
      \<and> orderly Q (k r) (d + c r)"
  shows "orderly Q (performing (instrument_database_operation op f) k) d"
proof (rule orderly_performing)
  fix w assume "service_safe w"
  then have ok: "db_ok (w_database w)" by (simp add: service_safe_def)
  obtain r db' where f: "f (w_database w) = (r, db')" by fastforce
  from assms [OF ok f] \<open>service_safe w\<close> f
  show "service_safe (snd (run_state (instrument_database_operation op f) w))
      \<and> orderly Q (k (fst (run_state (instrument_database_operation op f) w)))
        (d + unreported w (snd (run_state (instrument_database_operation op f) w)))"
    by (simp add: instrument_database_operation_def record_span_def service_safe_def unreported_def)
qed

lemma orderly_create_step [orderly_intros]:
  assumes "\<And>e. orderly Q (k (Err e)) d" and "\<And>md. orderly Q (k (Ok md)) (d + 1)"
  shows "orderly Q (performing (instrument_database_operation op
    (create_repository st f now nonce n s enabled)) k) d"
proof (rule orderly_database [where c = "\<lambda>r. case r of Inl e \<Rightarrow> 0 | Inr md \<Rightarrow> 1"])
  fix db r db'
  assume ok: "db_ok db" and p: "create_repository st f now nonce n s enabled db = (r, db')"
  have "db_ok db'" using create_repository_db_ok [OF ok, of st f now nonce n s enabled] p by simp
  with p assms show "db_ok db' \<and> of_nat (length (repositories db')) =
      of_nat (length (repositories db)) + (case r of Inl e \<Rightarrow> 0 | Inr md \<Rightarrow> (1 :: 64 word))
      \<and> orderly Q (k r) (d + (case r of Inl e \<Rightarrow> 0 | Inr md \<Rightarrow> 1))"
    by (cases r) (auto dest!: create_repository_Err create_repository_length simp: add.commute)
qed

lemma orderly_delete_step [orderly_intros]:
  assumes "\<And>e. orderly Q (k (Err e)) d" and "orderly Q (k (Ok ())) (d - 1)"
  shows "orderly Q (performing (instrument_database_operation op
    (delete_repository st f ident)) k) d"
proof (rule orderly_database [where c = "\<lambda>r. case r of Inl e \<Rightarrow> 0 | Inr u \<Rightarrow> - 1"])
  fix db r db'
  assume ok: "db_ok db" and p: "delete_repository st f ident db = (r, db')"
  have "db_ok db'" using delete_repository_db_ok [OF ok, of st f ident] p by simp
  have "of_nat (length (repositories (delete_repository_row (repository_id_get ident) db)))
      = of_nat (length (repositories db)) + (- 1 :: 64 word)"
    if "lookup_row rr_id (repository_id_get ident) (repositories db) \<noteq> None"
    using delete_repository_row_length [OF ok that] by (simp add: algebra_simps)
  with delete_repository_cases [OF p] assms \<open>db_ok db'\<close>
  show "db_ok db' \<and> of_nat (length (repositories db')) =
      of_nat (length (repositories db)) + (case r of Inl e \<Rightarrow> 0 | Inr u \<Rightarrow> (- 1 :: 64 word))
      \<and> orderly Q (k r) (d + (case r of Inl e \<Rightarrow> 0 | Inr u \<Rightarrow> - 1))"
    by (cases r) auto
qed

lemma orderly_store_failure [orderly_intros]:
  assumes "\<And>err. correlated err \<Longrightarrow> orderly Q (k err) d"
  shows "orderly Q (performing (do {
     err \<leftarrow> store_failure e; record_span op calls; State_Monad.return err }) k) d"
  by (rule orderly_steady)
    (auto simp: state_io_rel_def record_span_def steady_def service_safe_def
      intro!: assms)

text \<open>The handlers of one step.\<close>

lemma steady_api_reading:
  "state_io_rel steady (api_list st amb)" "state_io_rel steady (api_get st amb raw_id)"
  by (auto simp: state_io_rel_def api_defs steady_def service_safe_def split: sum.splits)

lemma steady_api_update: "state_io_rel steady (api_update st amb raw_id payload)"
proof (rule state_io_relI)
  fix r w w' assume run: "run_state (api_update st amb raw_id payload) w = (r, w')"
  show "steady w w'"
  proof (cases "and_then (parse_repository_id raw_id)
      (\<lambda>ident. and_then (update_mutation payload) (\<lambda>mutation. Ok (ident, mutation)))")
    case (Inl e)
    with run show ?thesis by (simp add: api_update_def steady_def)
  next
    case (Inr p)
    obtain ident mutation where p: "p = (ident, mutation)" by fastforce
    let ?u = "update_repository (app_repository_store st)
      (amb_faults amb database_operation.RepositoryUpdate)
      (amb_sql_now amb database_operation.RepositoryUpdate) (amb_nonce amb) ident mutation"
    obtain a db' where u: "?u (w_database w) = (a, db')" by fastforce
    have "db_ok (w_database w) \<Longrightarrow> db_ok db'"
      using update_repository_db_ok [of "w_database w"] u by (metis snd_conv)
    moreover have "length (repositories db') = length (repositories (w_database w))"
      using u by (cases a) (auto dest: update_repository_Err update_repository_length)
    ultimately show ?thesis
      using run Inr u p
      by (cases a) (auto simp: api_defs steady_def service_safe_def)
  qed
qed

lemma orderly_api_handler:
  assumes "\<And>r. (\<And>e. r = Err e \<Longrightarrow> correlated e) \<Longrightarrow> orderly Q (k r) d"
  shows "orderly Q (api_handler_task st amb call k) d"
proof -
  have s: "orderly Q (performing (api_handler st amb call) k) d"
    if "state_io_rel steady (api_handler st amb call)"
    by (rule orderly_steady [OF that], rule assms)
      (metis api_handler_error prod.collapse)
  show ?thesis
  proof (cases call)
    case (CreateRepository payload)
    then show ?thesis
      by (auto simp: api_handler_task_def api_create_task_def Let_def dest: request_errors
          intro!: orderly_intros assms)
  next
    case (DeleteRepository raw_id)
    then show ?thesis
      by (auto simp: api_handler_task_def api_delete_task_def Let_def dest: request_errors
          intro!: orderly_intros assms)
  qed (use s in \<open>simp_all add: api_handler_task_def api_handler_def steady_api_reading
      steady_api_update\<close>)
qed

lemma orderly_serve_api:
  "orderly (\<lambda>a. \<exists>response. a = Some response) (serve_api_task st amb rq call) 0"
proof -
  have e: "orderly Q (api_endpoint_task st amb rq call k) 0"
    if "\<And>response. orderly Q (k (Some response)) 0"
    for Q :: "'r \<Rightarrow> bool" and k
    unfolding api_endpoint_task_def
    by (intro orderly_intros orderly_api_handler orderly_answering)
      (use that into_response_Some admin_authorized_error in
        \<open>fastforce simp: correlated_def\<close>)+
  show ?thesis
    unfolding serve_api_task_def
    by (rule orderly_http_request [where P = "\<lambda>_. True"]) (auto intro: e)
qed

subsection \<open>The refresher\<close>

lemma orderly_run_turn: "orderly (\<lambda>_. True) (run_turn_task st source amb cancelled) 0"
proof -
  have l: "(\<And>u. orderly Q (k u) d) \<Longrightarrow> orderly Q (performing (refresh_log level oc message extra) k) d"
    for Q :: "bool \<Rightarrow> bool" and k d level oc message extra
    unfolding refresh_log_def by (intro orderly_intros)
  have u: "(\<And>r. orderly Q (k r) d) \<Longrightarrow> orderly Q (performing (instrument_database_operation op
      (upsert_checks f now rid b checks)) k) d"
    for Q :: "bool \<Rightarrow> bool" and k d op f now rid b checks
  proof (rule orderly_database [where c = "\<lambda>_. 0"], intro conjI)
    fix db r db' assume "db_ok db" and p: "upsert_checks f now rid b checks db = (r, db')"
    then show "db_ok db'" using upsert_checks_db_ok by (metis snd_conv)
    show "of_nat (length (repositories db')) = of_nat (length (repositories db)) + (0 :: 64 word)"
      using p by (auto simp: upsert_checks_def split: sum.splits)
  qed simp
  have r: "state_io_rel steady (do {
          w \<leftarrow> State_Monad.get;
          case w_refreshes w of
            [] \<Rightarrow> State_Monad.return None
          | rq # rest \<Rightarrow> do {
              State_Monad.update (w_refreshes_update (\<lambda>_. rest));
              State_Monad.return (Some rq) } })"
    and s: "state_io_rel steady (State_Monad.update (w_refresher_stopped_update (\<lambda>_. True)))"
    by (auto simp: state_io_rel_def steady_def service_safe_def split: list.splits)
  show ?thesis
    unfolding run_turn_task_def refresh_task_def
    by (intro orderly_intros orderly_steady [OF r] orderly_steady [OF s] l u) simp_all
qed

subsection \<open>The pool\<close>

lemma orderly_mono: "orderly Q t d \<Longrightarrow> (\<And>a. Q a \<Longrightarrow> P a) \<Longrightarrow> orderly P t d"
proof (induction t arbitrary: d)
  case (Awaiting h)
  then show ?case by (auto simp: orderly_Awaiting) (metis fsts.intros prod.collapse rangeI)
qed simp

fun thread_ok :: "time_lib \<Rightarrow> service_thread \<Rightarrow> bool" where
  "thread_ok clk (Serving r d t) = orderly (\<lambda>a. \<exists>response. a = Some response) t d"
| "thread_ok clk (Refreshing d t) = orderly (\<lambda>_. True) t d"
| "thread_ok clk (Pruning shutdown faults p) = pruning_among (clock_prunables clk) p"
| "thread_ok clk (Abandoned d) = True"

definition pool_inv :: "time_lib \<Rightarrow> service_thread multiset \<Rightarrow> world \<Rightarrow> bool" where
  "pool_inv clk T w \<longleftrightarrow> service_safe w \<and> (\<forall>t \<in># T. thread_ok clk t)
     \<and> gauge_value (w_metrics w) + (\<Sum>t\<in>#T. unreported_by t)
        = of_nat (length (repositories (w_database w)))"

lemma started_thread_ok:
  assumes "service_thread_start st source config t"
  shows "thread_ok (lib_clock (app_libraries st)) t \<and> unreported_by t = 0"
  using assms
proof cases
  case webhook
  then show ?thesis by (auto intro: orderly_mono [OF orderly_serve_webhook])
next
  case (retention shutdown faults now)
  then show ?thesis by (simp add: retention_workloads_def clock_prunables_def Let_def)
qed (simp_all add: orderly_serve_api orderly_run_turn)

lemma thread_step_ok:
  assumes "service_thread_step sch t w = Some (t', w')" and "thread_ok clk t" and "service_safe w"
  shows "thread_ok clk t' \<and> service_safe w'
    \<and> gauge_value (w_metrics w') + unreported_by t' + of_nat (length (repositories (w_database w)))
      = gauge_value (w_metrics w) + unreported_by t + of_nat (length (repositories (w_database w')))"
  using assms
proof (induction sch t w rule: service_thread_step.induct)
  case (1 r d h w)
  let ?w = "w\<lparr>w_repository := r\<rparr>"
  obtain t1 w1 where h: "h ?w = (t1, w1)" by fastforce
  have "service_safe ?w" using 1(3) by (simp add: service_safe_def)
  with 1(2) h have "service_safe w1" "orderly (\<lambda>a. \<exists>response. a = Some response) t1
      (d + unreported ?w w1)" by (auto simp: orderly_Awaiting)
  with 1(1) h show ?case by (auto simp: unreported_def service_safe_def)
next
  case (2 d h w)
  obtain t1 w1 where h: "h w = (t1, w1)" by fastforce
  with 2 show ?case by (auto simp: orderly_Awaiting unreported_def)
next
  case (3 shutdown faults p w)
  then obtain p' db where p: "prune_advance shutdown faults p (w_database w) = Some (p', db)"
    "t' = Pruning shutdown faults p'" "w' = w\<lparr>w_database := db\<rparr>" by auto
  with 3 prune_advance_sound [OF p(1)] show ?case by (simp add: service_safe_def)
qed auto

lemma balance_step:
  fixes g :: "'a :: ab_group_add"
  assumes "g' + u' + r = g + u + r'" and "g + (u + S) = r"
  shows "g' + (u' + S) = r'"
proof -
  have "(g + u) + (g' + (u' + S)) = g' + u' + (g + (u + S))" by (simp only: ac_simps)
  also have "\<dots> = (g + u) + r'" using assms by (simp only: ac_simps)
  finally show ?thesis by (simp only: add_left_cancel)
qed

lemma started_safe: "service_started st w \<Longrightarrow> pool_inv clk {#} w"
  using service_started_ok [of st w]
  by (simp add: pool_inv_def service_ok_def service_safe_def gauge_accurate_def)

lemma service_pool:
  assumes "service_started st w0"
  shows "pool_law service_thread_step (service_thread_start st source config) w0
    (pool_inv (lib_clock (app_libraries st)))"
proof
  show "pool_inv (lib_clock (app_libraries st)) {#} w0" using started_safe [OF assms] .
next
  fix T w t
  assume "pool_inv (lib_clock (app_libraries st)) T w" and "service_thread_start st source config t"
  then show "pool_inv (lib_clock (app_libraries st)) (add_mset t T) w"
    using started_thread_ok [of st source config t] by (auto simp: pool_inv_def)
next
  fix t T w sch t' w'
  assume i: "pool_inv (lib_clock (app_libraries st)) (add_mset t T) w"
    and s: "service_thread_step sch t w = Some (t', w')"
  then have ok: "thread_ok (lib_clock (app_libraries st)) t" "service_safe w"
    by (simp_all add: pool_inv_def)
  note step = thread_step_ok [OF s ok]
  from i have "gauge_value (w_metrics w) + (unreported_by t + (\<Sum>t\<in>#T. unreported_by t))
      = of_nat (length (repositories (w_database w)))" by (simp add: pool_inv_def)
  with step have "gauge_value (w_metrics w') + (unreported_by t' + (\<Sum>t\<in>#T. unreported_by t))
      = of_nat (length (repositories (w_database w')))" by (blast intro: balance_step)
  with step i show "pool_inv (lib_clock (app_libraries st)) (add_mset t' T) w'"
    by (simp add: pool_inv_def)
qed

lemma service_pool_inv:
  assumes "service_started st w0"
    and "pool_reachable service_thread_step (service_thread_start st source config) w0 T w"
  shows "pool_inv (lib_clock (app_libraries st)) T w"
  by (rule pool_law.reachable_inv [OF service_pool [OF assms(1)] assms(2)])

text \<open>What a store operation leaves behind, by its result.\<close>

lemma result_snd:
  assumes "\<And>e db'. f db = (Err e, db') \<Longrightarrow> P db'" and "\<And>x db'. f db = (Ok x, db') \<Longrightarrow> P db'"
  shows "P (snd (f db))"
proof (cases "f db")
  case (Pair r db')
  then show ?thesis using assms by (cases r) auto
qed

text \<open>A claim of a delivery that is not claimed yet.\<close>

lemma claim_new:
  assumes "faults 0 = None" and "\<not> claimed h db d"
  shows "claim_delivery h faults now d db = (Ok delivery_claim.New, db\<lparr>deliveries := deliveries db
    @ [\<lparr>dr_delivery_id = delivery_id_encode_lower h d, dr_received_at = now\<rparr>]\<rparr>)"
proof -
  have "\<not> list_ex (\<lambda>r. dr_delivery_id r = delivery_id_encode_lower h d) (deliveries db)"
    using assms(2) unfolding claimed_def list_ex_iff by (metis imageI)
  with assms(1) show ?thesis by (simp add: claim_delivery_def Let_def)
qed

end
