(* ===== verification/Request_Progress.thy ===== *)
theory Request_Progress
  imports Concurrent_Service
begin

section \<open>Every request is answered, whatever runs between its steps\<close>

text \<open>
  No task has a loop: \<open>finishes_within t n\<close> bounds the steps it takes, whatever the others leave in
  the shared state between them. \<open>interfered t ws\<close> runs \<open>t\<close> with the world found at each step.
\<close>

primrec finishes_within :: "'a task \<Rightarrow> nat \<Rightarrow> bool" where
  "finishes_within (Finished a) = (\<lambda>n. True)"
| "finishes_within (Awaiting h) = (\<lambda>n. \<forall>w. case n of 0 \<Rightarrow> False
     | Suc m \<Rightarrow> fst (map_prod finishes_within (\<lambda>w. w) (h w)) m)"

fun interfered :: "'a task \<Rightarrow> world list \<Rightarrow> 'a task" where
  "interfered (Awaiting h) (w # ws) = interfered (fst (h w)) ws"
| "interfered (Awaiting h) [] = Awaiting h"
| "interfered (Finished a) ws = Finished a"

lemma finishes_interfered:
  "finishes_within t n \<Longrightarrow> n \<le> length ws \<Longrightarrow> \<exists>a. interfered t ws = Finished a"
proof (induction t ws arbitrary: n rule: interfered.induct)
  case (1 h w ws)
  then show ?case by (cases n) auto
next
  case (2 h)
  then show ?case by (cases n) auto
qed auto

lemma orderly_interfered:
  "orderly Q t d \<Longrightarrow> \<forall>w \<in> set ws. service_safe w \<Longrightarrow> interfered t ws = Finished a \<Longrightarrow> Q a"
proof (induction t ws arbitrary: d rule: interfered.induct)
  case (1 h w ws)
  then show ?case by (auto simp: orderly_Awaiting)
qed auto

lemma within_performing:
  "0 < n \<Longrightarrow> (\<And>x. finishes_within (k x) (n - 1)) \<Longrightarrow> finishes_within (performing h k) n"
  by (cases n) (auto simp: performing_def case_prod_beta)

text \<open>\<open>takes c t\<close>: the task \<open>t\<close> takes at most \<open>c\<close> steps before its continuation.\<close>

definition takes :: "nat \<Rightarrow> (('b \<Rightarrow> 'a task) \<Rightarrow> 'a task) \<Rightarrow> bool" where
  "takes c t \<longleftrightarrow> (\<forall>k n. (\<forall>x m. n \<le> m \<longrightarrow> finishes_within (k x) m) \<longrightarrow>
     (\<forall>m. n + c \<le> m \<longrightarrow> finishes_within (t k) m))"

lemma takesI:
  assumes "\<And>k n m. (\<And>x m. n \<le> m \<Longrightarrow> finishes_within (k x) m) \<Longrightarrow> n + c \<le> m \<Longrightarrow>
    finishes_within (t k) m"
  shows "takes c t"
  using assms unfolding takes_def by blast

lemma takesD:
  "takes c t \<Longrightarrow> c \<le> m \<Longrightarrow> (\<And>x n. m - c \<le> n \<Longrightarrow> finishes_within (k x) n) \<Longrightarrow>
     finishes_within (t k) m"
  unfolding takes_def by (metis le_add_diff_inverse2 le_refl)

lemma within_cases:
  "(x = None \<Longrightarrow> finishes_within a n) \<Longrightarrow> (\<And>y. x = Some y \<Longrightarrow> finishes_within (b y) n) \<Longrightarrow>
     finishes_within (case x of None \<Rightarrow> a | Some y \<Rightarrow> b y) n"
  "(\<And>e. s = Inl e \<Longrightarrow> finishes_within (f e) n) \<Longrightarrow> (\<And>y. s = Inr y \<Longrightarrow> finishes_within (b' y) n) \<Longrightarrow>
     finishes_within (case s of Inl e \<Rightarrow> f e | Inr y \<Rightarrow> b' y) n"
  "(\<And>y z. p = (y, z) \<Longrightarrow> finishes_within (g y z) n) \<Longrightarrow>
     finishes_within (case p of (y, z) \<Rightarrow> g y z) n"
  "(c \<Longrightarrow> finishes_within a n) \<Longrightarrow> (\<not> c \<Longrightarrow> finishes_within a' n) \<Longrightarrow>
     finishes_within (if c then a else a') n"
  by (auto split: option.split sum.split prod.split)

lemmas within_intros = within_performing within_cases

lemma takes_workflow:
  "takes 2 (emit_pipeline_trace_task st amb rid request ctx)"
  unfolding emit_pipeline_trace_task_def
  by (rule takesI) (auto intro!: within_intros)

lemma takes_workflow_run: "takes 3 (process_workflow_run_task st amb rid request et act)"
  unfolding process_workflow_run_task_def
  by (rule takesI) (auto intro!: within_intros takesD [OF takes_workflow])

lemma takes_resolve: "takes 2 (resolve_required_checks_task st amb rid n ctx)"
  unfolding resolve_required_checks_task_def
  by (rule takesI) (auto intro!: within_intros)

lemma takes_emit_and_link: "takes 3 (emit_and_link_task st amb rid n job)"
  unfolding emit_and_link_task_def
  by (rule takesI) (auto intro!: within_intros)

lemma takes_workflow_job: "takes 7 (process_workflow_job_task st amb rid request et act)"
  unfolding process_workflow_job_task_def
  by (rule takesI)
    (auto intro!: within_intros takesD [OF takes_resolve] takesD [OF takes_emit_and_link])

lemma takes_events:
  "takes 1 (process_merge_group_task st rid request projection et act)"
  "takes 4 (process_pull_request_task st amb rid request projection et act)"
proof -
  show "takes 1 (process_merge_group_task st rid request projection et act)"
    unfolding process_merge_group_task_def by (rule takesI) (auto intro!: within_intros)
  have c: "takes 2 (complete_attempt_task st amb q number completion mc)" for q number completion mc
    unfolding complete_attempt_task_def
    by (rule takesI) (auto intro!: within_intros split: completion_transition.split)
  have a: "takes 2 (apply_transition_task st amb q tr number t)" for q tr number t
    unfolding apply_transition_task_def
    by (rule takesI)
      (auto intro!: within_intros takesD [OF c] split: pull_request_transition.split)
  have p: "takes 3 (process_task st amb q projection)" for q projection
    unfolding process_task_def
    by (rule takesI) (auto intro!: within_intros takesD [OF a])
  show "takes 4 (process_pull_request_task st amb rid request projection et act)"
    unfolding process_pull_request_task_def
    by (rule takesI) (auto intro!: within_intros takesD [OF p])
qed

lemma takes_new_delivery: "takes 16 (process_new_delivery_task st amb rid request projection et act)"
  unfolding process_new_delivery_task_def
  by (rule takesI) (auto intro!: within_intros takesD [OF takes_workflow_run]
      takesD [OF takes_workflow_job] takesD [OF takes_events(1)] takesD [OF takes_events(2)])

lemma takes_delivery: "takes 17 (process_delivery_task st amb rid request)"
  unfolding process_delivery_task_def Let_def
  by (rule takesI) (auto intro!: within_intros takesD [OF takes_new_delivery]
      split: delivery_claim.split)

lemma takes_webhook_handler: "takes 20 (webhook_handler_task st amb request)"
  unfolding webhook_handler_task_def Let_def
  by (rule takesI) (auto intro!: within_intros takesD [OF takes_delivery]
      split: webhook_authentication_error.split)

lemma takes_answering: "takes 1 (answering_task st r)"
  unfolding answering_task_def by (rule takesI) (auto intro!: within_intros)

lemma takes_webhook_endpoint: "takes 21 (webhook_endpoint_task st amb rq)"
  unfolding webhook_endpoint_task_def
  by (rule takesI) (auto intro!: within_intros takesD [OF takes_webhook_handler]
      takesD [OF takes_answering])

lemma takes_observed: "takes c t \<Longrightarrow> takes (c + 3) (observe_webhook_request_task amb t)"
  unfolding observe_webhook_request_task_def
  by (rule takesI) (auto intro!: takesD [of c t] within_intros)

lemma within_http_request:
  "takes c t \<Longrightarrow> c + 2 \<le> n \<Longrightarrow> finishes_within (observe_http_request_task rq t) n"
  unfolding observe_http_request_task_def
  by (auto intro!: within_performing takesD [of c t] within_cases)

lemma within_serve_webhook: "finishes_within (serve_webhook_task st amb rq) 26"
  unfolding serve_webhook_task_def
  by (rule within_http_request [OF takes_observed [OF takes_webhook_endpoint]]) simp

lemma takes_api: "takes 3 (api_handler_task st amb call)"
  unfolding api_handler_task_def api_create_task_def api_delete_task_def Let_def
  by (rule takesI) (auto intro!: within_intros split: api_call.split)

lemma within_serve_api: "finishes_within (serve_api_task st amb rq call) 6"
proof -
  have "takes 4 (api_endpoint_task st amb rq call)"
    unfolding api_endpoint_task_def
    by (rule takesI) (auto intro!: within_intros takesD [OF takes_api] takesD [OF takes_answering])
  then show ?thesis unfolding serve_api_task_def by (rule within_http_request) simp
qed

end
