(* ===== verification/Concurrent_Properties.thy ===== *)
theory Concurrent_Properties
  imports Request_Progress
begin

section \<open>Properties of the concurrent service\<close>

subsection \<open>Requests in flight\<close>

text \<open>A thread with nothing left to do.\<close>

fun settled :: "service_thread \<Rightarrow> bool" where
  "settled (Serving r d (Finished a)) = True"
| "settled (Refreshing d (Finished a)) = True"
| "settled (Pruning shutdown faults p) = True"
| "settled _ = False"

lemma settled_reported: "settled t \<Longrightarrow> thread_ok clk t \<Longrightarrow> unreported_by t = 0"
  by (cases t rule: settled.cases) auto

lemma pool_settled:
  assumes "pool_inv clk (S + T) w" and "\<forall>t \<in># T. settled t"
  shows "gauge_value (w_metrics w) + (\<Sum>t\<in>#S. unreported_by t)
    = of_nat (length (repositories (w_database w)))"
proof -
  have "(\<Sum>t\<in>#T. unreported_by t) = 0"
    using assms settled_reported [of _ clk] by (auto simp: pool_inv_def intro!: sum_mset.neutral)
  with assms(1) show ?thesis by (simp add: pool_inv_def)
qed

text \<open>A creation between the commit of its row and the gauge.\<close>

lemma creation_in_flight:
  assumes "admin_authorized st rq = Ok ()" and "create_parameters payload = Ok (n, secret, enabled)"
    and "create_repository (app_repository_store st)
        (amb_faults (amb :: ambient) database_operation.RepositoryCreate)
        (amb_sql_now amb database_operation.RepositoryCreate) (amb_nonce amb) n secret enabled
        (w_database w) = (Ok md, db)"
    and "pool_reachable service_thread_step (service_thread_start st source config) w0 T w"
  shows "\<exists>h w'. pool_reachable service_thread_step (service_thread_start st source config) w0
      (add_mset (Serving None 1 (Awaiting h)) T) w'
    \<and> w_database w' = db \<and> w_metrics w' = w_metrics w"
proof -
  let ?t = "Serving None 0 (serve_api_task st amb rq (CreateRepository payload))"
  have call: "pool_reachable service_thread_step (service_thread_start st source config) w0
      (add_mset ?t T) w"
    using assms(4) by (rule pool_call) (rule service_thread_start.administration)
  have "length (repositories db) = Suc (length (repositories (w_database w)))"
    using assms(3) by (rule create_repository_length)
  with assms(1-3) have "\<exists>h k w'. solo service_thread_step [Proceed, Proceed] ?t w
      = (Serving None 1 (performing (h :: unit handler) k), w')
      \<and> w_database w' = db \<and> w_metrics w' = w_metrics w"
    by (simp add: serve_api_task_def observe_http_request_task_def api_endpoint_task_def
        api_handler_task_def api_create_task_def instrument_database_operation_def
        record_span_def unreported_def Let_def) blast
  with pool_solo [OF call] show ?thesis unfolding performing_def by metis
qed

text \<open>A started service without repositories.\<close>

definition sample_started :: world where
  "sample_started = snd (run_state (initialize_repository_metrics sample_ambient) sample_empty_world)"

lemma sample_started_ok:
  "service_started (st :: 'u app_state) sample_started" "w_database sample_started = empty_database"
  "gauge_value (w_metrics sample_started) = 0"
proof -
  note defs = sample_started_def initialize_repository_metrics_def instrument_database_operation_def
    reading_def record_metric_def record_span_def count_repositories_def sample_ambient_def
    no_faults_def sample_empty_world_def sample_world_def
  have ok: "db_ok empty_database"
    by (simp add: empty_database_def db_ok_def repositories_ok_def attempts_ok_def keyed_table_ok_def)
  show d: "w_database sample_started = empty_database"
    and "gauge_value (w_metrics sample_started) = 0"
    by (simp_all add: defs empty_database_def set_repository_configurations_def)
  have "run_state (initialize_repository_metrics sample_ambient) sample_empty_world
      = (Ok (), sample_started)"
    by (simp add: defs empty_database_def)
  then show "service_started st sample_started"
    by (rule service_started.started [rotated 3])
      (simp_all add: sample_empty_world_def sample_world_def ok)
qed

lemma sample_creation:
  "\<exists>md db. create_repository (app_repository_store sample_admin_app)
      (amb_faults sample_ambient database_operation.RepositoryCreate)
      (amb_sql_now sample_ambient database_operation.RepositoryCreate) (amb_nonce sample_ambient)
      sample_name (one_byte_secret ''k'') True (w_database sample_started) = (Ok md, db)"
  using sample_create_with [OF one_byte_secret_ok(2), of "''k''"]
  by (auto simp: sample_admin_app_def sample_app_def with_workflow_trace_emitter_def
      app_state_new_def sample_ambient_def sample_started_ok)

text \<open>A webhook request between its claim and the processing of its event.\<close>

lemma delivery_in_flight:
  assumes "webhook_request_from_request st rq = Ok request"
    and a: "authentication_answer st amb request (w_database w) = Ok rid"
    and "amb_faults (amb :: ambient) database_operation.DeliveryClaim 0 = None"
    and c: "\<not> claimed (lib_hyphenated (app_libraries st)) (w_database w) (wq_delivery_id request)"
    and "Option.bind (lib_from_slice (app_libraries st) (wq_body request)) read_event_projection
      \<noteq> None"
    and "pool_reachable service_thread_step (service_thread_start st source config) w0 T w"
  shows "\<exists>r h w' row. pool_reachable service_thread_step (service_thread_start st source config) w0
      (add_mset (Serving r 0 (Awaiting h)) T) w'
    \<and> w_database w' = (w_database w)\<lparr>deliveries := deliveries (w_database w) @ [row]\<rparr>
    \<and> claimed (lib_hyphenated (app_libraries st)) (w_database w') (wq_delivery_id request)"
proof -
  let ?t = "Serving None 0 (serve_webhook_task st amb rq)"
  have call: "pool_reachable service_thread_step (service_thread_start st source config) w0
      (add_mset ?t T) w"
    using assms(6) by (rule pool_call) (rule service_thread_start.webhook)
  have a': "\<exists>f. run_state (authenticate_webhook st amb (wq_repository_name request)
      (wq_signature request) (wq_body request)) (u\<lparr>w_repository := None\<rparr>)
      = (Ok rid, w_spans_update f (u\<lparr>w_repository := None\<rparr>))" if "w_database u = w_database w" for u
    using authenticate_webhook_run [of st amb request "u\<lparr>w_repository := None\<rparr>"] that a by simp
  define v where "v = w\<lparr>w_repository := None\<rparr>"
  have "w_database v = w_database w" by (simp add: v_def)
  from a' [OF this] obtain f where f: "run_state (authenticate_webhook st amb
      (wq_repository_name request) (wq_signature request) (wq_body request)) v
      = (Ok rid, w_spans_update f v)"
    by (auto simp: v_def)
  note claim = claim_new [where faults = "amb_faults amb database_operation.DeliveryClaim", OF assms(3) c, of "amb_sql_now amb database_operation.DeliveryClaim"]
  define row where "row = \<lparr>dr_delivery_id = delivery_id_encode_lower
    (lib_hyphenated (app_libraries st)) (wq_delivery_id request),
    dr_received_at = amb_sql_now amb database_operation.DeliveryClaim\<rparr>"
  have claimed: "claimed (lib_hyphenated (app_libraries st)) ((w_database w)
      \<lparr>deliveries := deliveries (w_database w) @ [row]\<rparr>) (wq_delivery_id request)"
    by (simp add: claimed_def row_def)
  obtain projection where "Option.bind (lib_from_slice (app_libraries st) (wq_body request))
      read_event_projection = Some projection" using assms(5) by blast
  with assms(1) f claim claimed have "\<exists>r h k w'.
      solo service_thread_step [Proceed, Proceed, Proceed, Proceed] ?t w
      = (Serving r 0 (performing (h :: unit handler) k), w')
      \<and> w_database w' = (w_database w)\<lparr>deliveries := deliveries (w_database w) @ [row]\<rparr>
      \<and> claimed (lib_hyphenated (app_libraries st)) (w_database w') (wq_delivery_id request)"
    by (simp add: serve_webhook_task_def observe_http_request_task_def
        observe_webhook_request_task_def webhook_endpoint_task_def webhook_handler_task_def
        process_delivery_task_def process_new_delivery_task_def instrument_database_operation_def
        context_authenticate_def record_span_def unreported_def Let_def v_def row_def) blast
  with pool_solo [OF call] show ?thesis unfolding performing_def by metis
qed

subsection \<open>Properties\<close>

text \<open>
  C2: However the steps of any number of webhook requests, administration requests, refresher turns
  and retention passes interleave, and whichever of them are abandoned on the way, the constraints of
  the database hold, nothing has panicked, the refresh queue is within its capacity, and the gauge of
  repository configurations is short of the configured repositories by exactly what the creations
  and deletions in flight or abandoned have not reported; so it is exact whenever none is.
\<close>

theorem concurrent_service_invariant:
  assumes "service_started st w0"
    and "pool_reachable service_thread_step (service_thread_start st source config) w0 T w"
  shows "db_ok (w_database w) \<and> \<not> w_panicked w \<and> length (w_refreshes w) \<le> 64
    \<and> gauge_value (w_metrics w) + (\<Sum>t\<in>#T. unreported_by t)
        = of_nat (length (repositories (w_database w)))
    \<and> ((\<forall>t \<in># T. settled t) \<longrightarrow>
        gauge_value (w_metrics w) = of_nat (length (repositories (w_database w))))"
proof -
  have i: "pool_inv (lib_clock (app_libraries st)) T w" using service_pool_inv [OF assms] .
  then have "pool_inv (lib_clock (app_libraries st)) ({#} + T) w" by simp
  from pool_settled [OF this] i show ?thesis
    by (auto simp: pool_inv_def service_safe_def REFRESH_QUEUE_CAPACITY_def)
qed

lemma concurrent_service_invariant_witness:
  "\<exists>h w. pool_reachable service_thread_step (service_thread_start sample_admin_app
        (\<lambda>n b t. Err () :: (unit, required_checks) result) sample_config) sample_started
        {#Serving None 1 (Awaiting h)#} w
     \<and> length (repositories (w_database w)) = 1 \<and> gauge_value (w_metrics w) = 0
   \<and> gauge_value (w_metrics sample_started) = of_nat (length (repositories (w_database sample_started)))"
proof -
  let ?src = "\<lambda>n b t. Err () :: (unit, required_checks) result"
  obtain md db where c: "create_repository (app_repository_store sample_admin_app)
      (amb_faults sample_ambient database_operation.RepositoryCreate)
      (amb_sql_now sample_ambient database_operation.RepositoryCreate) (amb_nonce sample_ambient)
      sample_name (one_byte_secret ''k'') True (w_database sample_started) = (Ok md, db)"
    using sample_creation by blast
  obtain h w where r: "pool_reachable service_thread_step (service_thread_start sample_admin_app ?src
        sample_config) sample_started {#Serving None 1 (Awaiting h)#} w"
    and w: "w_database w = db" "w_metrics w = w_metrics sample_started"
    using creation_in_flight [OF sample_admin_ok sample_parameters c, of ?src sample_config] pool_initial
    by (metis insertI1)
  have "length (repositories db) = 1"
    using create_repository_length [OF c] by (simp add: sample_started_ok empty_database_def)
  with concurrent_service_invariant [OF sample_started_ok(1) r] w
  have "length (repositories (w_database w)) = 1 \<and> gauge_value (w_metrics w) = 0"
    by (simp add: sample_started_ok)
  moreover have "gauge_value (w_metrics sample_started)
      = of_nat (length (repositories (w_database sample_started)))"
    using concurrent_service_invariant [OF sample_started_ok(1) pool_initial] by simp
  ultimately show ?thesis using r by blast
qed

text \<open>
  C10: A request handler runs to its answer in a bounded number of its own steps, at most 26 for a
  webhook request and at most 6 for an administration request, whatever the others do to the shared
  state between two of them; a webhook request is then answered with one of its six statuses.
\<close>

theorem request_answered_despite_interference:
  assumes "\<forall>w \<in> set ws. service_safe w"
  shows "(26 \<le> length ws \<longrightarrow> (\<exists>response.
        interfered (serve_webhook_task st amb rq) ws = Finished (Some response)
        \<and> rsp_status response \<in> {204, 400, 401, 413, 415, 503}))
    \<and> (6 \<le> length ws \<longrightarrow> (\<exists>response.
        interfered (serve_api_task st amb rq call) ws = Finished (Some response)))"
proof (intro conjI impI)
  assume n: "26 \<le> length ws"
  obtain a where a: "interfered (serve_webhook_task st amb rq) ws = Finished a"
    using finishes_interfered [OF within_serve_webhook n] by blast
  with orderly_interfered [OF orderly_serve_webhook assms a]
  show "\<exists>response. interfered (serve_webhook_task st amb rq) ws = Finished (Some response)
      \<and> rsp_status response \<in> {204, 400, 401, 413, 415, 503}"
    by (auto simp: webhook_statuses_def)
next
  assume n: "6 \<le> length ws"
  obtain a where a: "interfered (serve_api_task st amb rq call) ws = Finished a"
    using finishes_interfered [OF within_serve_api n] by blast
  with orderly_interfered [OF orderly_serve_api assms a]
  show "\<exists>response. interfered (serve_api_task st amb rq call) ws = Finished (Some response)"
    by auto
qed

lemma sample_started_safe: "service_safe sample_started"
  using started_safe [OF sample_started_ok(1)] by (simp add: pool_inv_def)

lemma request_answered_despite_interference_witness:
  "\<exists>response. interfered (serve_webhook_task (sample_app (sample_body [])) sample_ambient
      (sample_http_request ''push'')) (replicate 26 sample_started) = Finished (Some response)
    \<and> rsp_status response \<in> {204, 400, 401, 413, 415, 503}"
  using request_answered_despite_interference [of "replicate 26 sample_started"
      "sample_app (sample_body [])" sample_ambient "sample_http_request ''push''" ListRepositories]
    sample_started_safe by simp

text \<open>
  Cut into steps, the handlers are the handlers: a request that no other runs beside answers and
  changes exactly what its sequential definition says, and so does a turn of the refresher; and each
  step of a retention pass is a step of the sequential pass.
\<close>

theorem undisturbed_tasks_as_handlers:
  "run_task (serve_webhook_task st amb rq) w = run_state (serve_webhook st amb rq) w
   \<and> run_task (serve_api_task st amb rq call) w = run_state (serve_api st amb rq call) w
   \<and> run_task (run_turn_task st source amb cancelled) w
      = run_state (run_turn st source amb cancelled) w
   \<and> prune_meaning shutdown faults
        (PruningAt (retention_workloads clk config now) retention_pass_outcome.Success 0) db
      = prune_retention_pass clk config now shutdown faults db
   \<and> pred_option (\<lambda>(p', db'). prune_meaning shutdown faults p' db' = prune_meaning shutdown faults p db)
        (prune_advance shutdown faults p db)"
proof -
  have "run_task (serve_webhook_task st amb rq) w = run_state (serve_webhook st amb rq) w"
    unfolding serve_webhook_task_def serve_webhook_def
    by (intro undisturbed_http_request undisturbed_observed undisturbed)
  moreover have "run_task (serve_api_task st amb rq call) w = run_state (serve_api st amb rq call) w"
    unfolding serve_api_task_def serve_api_def
    by (intro undisturbed_http_request undisturbed)
  moreover have "pred_option (\<lambda>(p', db'). prune_meaning shutdown faults p' db'
      = prune_meaning shutdown faults p db) (prune_advance shutdown faults p db)"
    using prune_advance_meaning [of shutdown faults p db]
    by (cases "prune_advance shutdown faults p db") auto
  ultimately show ?thesis by (intro conjI run_turn_undisturbed pass_meaning)
qed

text \<open>
  C21: A creation whose handler is dropped after its row was committed leaves the gauge one short
  for as long as the process runs: whatever runs later, whenever nothing is in flight the gauge shows
  one repository less than are configured.
\<close>

theorem abandoned_creation_miscounted:
  assumes "service_started st w0" and "admin_authorized st rq = Ok ()"
    and "create_parameters payload = Ok (n, secret, enabled)"
    and "create_repository (app_repository_store st)
        (amb_faults (amb :: ambient) database_operation.RepositoryCreate)
        (amb_sql_now amb database_operation.RepositoryCreate) (amb_nonce amb) n secret enabled
        (w_database w0) = (Ok md, db)"
  shows "(\<exists>w. pool_reachable service_thread_step (service_thread_start st source config) w0
        {#Abandoned 1#} w \<and> w_database w = db)
    \<and> (\<forall>T w. pool_reachable service_thread_step (service_thread_start st source config) w0
          (add_mset (Abandoned 1) T) w \<and> (\<forall>t \<in># T. settled t) \<longrightarrow>
        gauge_value (w_metrics w) + 1 = of_nat (length (repositories (w_database w))))"
proof (intro conjI allI impI)
  obtain h w where r: "pool_reachable service_thread_step (service_thread_start st source config) w0
      {#Serving None 1 (Awaiting h)#} w" and w: "w_database w = db"
    using creation_in_flight [OF assms(2-4) pool_initial, of source config] by blast
  from pool_advance [OF r, of Drop "Abandoned 1" w] w
  show "\<exists>w. pool_reachable service_thread_step (service_thread_start st source config) w0
      {#Abandoned 1#} w \<and> w_database w = db" by auto
next
  fix T w
  assume "pool_reachable service_thread_step (service_thread_start st source config) w0
      (add_mset (Abandoned 1) T) w \<and> (\<forall>t \<in># T. settled t)"
  then have "pool_inv (lib_clock (app_libraries st)) ({#Abandoned 1#} + T) w"
    and "\<forall>t \<in># T. settled t"
    using service_pool_inv [OF assms(1)] by auto
  from pool_settled [OF this] show "gauge_value (w_metrics w) + 1
      = of_nat (length (repositories (w_database w)))" by simp
qed

lemma abandoned_creation_miscounted_witness:
  "\<exists>w. pool_reachable service_thread_step (service_thread_start sample_admin_app
        (\<lambda>n b t. Err () :: (unit, required_checks) result) sample_config) sample_started
        {#Abandoned 1#} w
     \<and> gauge_value (w_metrics w) + 1 = of_nat (length (repositories (w_database w)))"
proof -
  obtain md db where c: "create_repository (app_repository_store sample_admin_app)
      (amb_faults sample_ambient database_operation.RepositoryCreate)
      (amb_sql_now sample_ambient database_operation.RepositoryCreate) (amb_nonce sample_ambient)
      sample_name (one_byte_secret ''k'') True (w_database sample_started) = (Ok md, db)"
    using sample_creation by blast
  have "''k'' \<in> {''k'', ''q''}" by simp
  note x = abandoned_creation_miscounted [OF sample_started_ok(1) sample_admin_ok
      sample_parameters [OF this] c, of "\<lambda>n b t. Err () :: (unit, required_checks) result" sample_config]
  from x obtain w where r: "pool_reachable service_thread_step (service_thread_start sample_admin_app
        (\<lambda>n b t. Err () :: (unit, required_checks) result) sample_config) sample_started
        {#Abandoned 1#} w" by blast
  with x [THEN conjunct2, rule_format, of "{#}" w] show ?thesis by auto
qed

text \<open>
  C22: A webhook request that is dropped after its delivery was claimed is lost: nothing but the claim
  is stored, and the delivery GitHub sends again is acknowledged as a duplicate and not processed.
\<close>

theorem abandoned_delivery_not_retried:
  assumes "webhook_request_from_request st rq = Ok request"
    and a: "authentication_answer st amb request (w_database w0) = Ok rid"
    and "amb_faults (amb :: ambient) database_operation.DeliveryClaim 0 = None"
    and "\<not> claimed (lib_hyphenated (app_libraries st)) (w_database w0) (wq_delivery_id request)"
    and p: "Option.bind (lib_from_slice (app_libraries st) (wq_body request)) read_event_projection
      \<noteq> None"
    and "amb_faults again database_operation.RepositoryAuthenticate 0 = None"
    and n: "amb_faults again database_operation.DeliveryClaim 0 = None"
  shows "\<exists>w row. pool_reachable service_thread_step (service_thread_start st source config) w0
      {#Abandoned 0#} w
    \<and> w_database w = (w_database w0)\<lparr>deliveries := deliveries (w_database w0) @ [row]\<rparr>
    \<and> (\<exists>r w'. run_state (serve_webhook st again rq) w = (Some r, w') \<and> rsp_status r = 204
         \<and> unaffected w w')"
proof -
  obtain r h w row where f: "pool_reachable service_thread_step
      (service_thread_start st source config) w0 {#Serving r 0 (Awaiting h)#} w"
    and w: "w_database w = (w_database w0)\<lparr>deliveries := deliveries (w_database w0) @ [row]\<rparr>"
    and c: "claimed (lib_hyphenated (app_libraries st)) (w_database w) (wq_delivery_id request)"
    using delivery_in_flight [OF assms(1-5) pool_initial, of source config] by blast
  have "authentication_answer st again request (w_database w) = Ok rid"
    using authentication_answer_repositories [OF a _ assms(6)] w by simp
  note served = claimed_served [OF assms(1) this c n p]
  from pool_advance [OF f, of Drop "Abandoned 0" w] w served show ?thesis
    by auto (metis prod.collapse)
qed

lemma abandoned_delivery_not_retried_witness:
  "\<exists>w r w'. pool_reachable service_thread_step (service_thread_start
        (sample_app (sample_body sample_run_members))
        (\<lambda>n b t. Err () :: (unit, required_checks) result) sample_config) sample_world
        {#Abandoned 0#} w
     \<and> run_state (serve_webhook (sample_app (sample_body sample_run_members)) sample_ambient
         (sample_http_request ''workflow_run'')) w = (Some r, w')
     \<and> rsp_status r = 204 \<and> run_contexts (w_database w') = []"
proof -
  let ?app = "sample_app (sample_body sample_run_members)"
    and ?rq = "sample_http_request ''workflow_run''"
  have x: "webhook_request_from_request ?app ?rq = Ok (sample_webhook_request ''workflow_run'')"
    by (rule sample_extraction) (simp_all add: sample_run_members_def lit_def)
  have good: "amb_faults sample_ambient op 0 = None" for op
    by (simp add: sample_ambient_def no_faults_def)
  have new: "\<not> claimed (lib_hyphenated (app_libraries ?app)) (w_database sample_world)
      (wq_delivery_id (sample_webhook_request ''workflow_run''))"
    by (simp add: claimed_def sample_world_def empty_database_def)
  have readable: "Option.bind (lib_from_slice (app_libraries ?app)
      (wq_body (sample_webhook_request ''workflow_run''))) read_event_projection \<noteq> None"
    by (simp add: sample_app_def sample_libraries_def app_state_new_def
        with_workflow_trace_emitter_def read_event_projection_def sample_body_def
        sample_run_members_def reader_defs lit_def)
  have "run_contexts (w_database sample_world) = []"
    by (simp add: sample_world_def empty_database_def)
  with abandoned_delivery_not_retried [OF x sample_answer good new readable good good,
      of "\<lambda>n b t. Err () :: (unit, required_checks) result" sample_config]
  show ?thesis unfolding unaffected_def by fastforce
qed

end
