(* ===== verification/Delivery_Accounting.thy ===== *)
theory Delivery_Accounting
  imports Concurrent_Properties
begin

section \<open>Every delivery is processed once\<close>

text \<open>
  GitHub may send one delivery several times, and the copies may be in flight together. The claim
  decides which of them is processed. Here the rows of the claims and the events the metrics count
  are kept in one ledger over all threads: a task owes an event from the claim of a new delivery
  until it has counted its event. Retention forgets claims, so the pool is that of a time in which no
  pass runs.
\<close>

subsection \<open>The ledger of a task\<close>

fun counts_event :: "metric_call \<Rightarrow> bool" where
  "counts_event (Inc (WebhookEvents r et act)) = True"
| "counts_event _ = False"

text \<open>How many deliveries have been counted as events, and how many are claimed.\<close>

definition events_counted :: "world \<Rightarrow> nat" where
  "events_counted w = length (filter counts_event (w_metrics w))"

definition claims_stored :: "world \<Rightarrow> nat" where
  "claims_stored w = length (deliveries (w_database w))"

text \<open>
  \<open>accounted t n\<close>: the task owes \<open>n\<close> events, wherever the others leave the world between two of its
  steps, and none when it has finished.
\<close>

primrec accounted :: "'a task \<Rightarrow> nat \<Rightarrow> bool" where
  "accounted (Finished a) = (\<lambda>n. n = 0)"
| "accounted (Awaiting h) = (\<lambda>n. \<forall>w. case map_prod accounted (\<lambda>w. w) (h w) of (f, w') \<Rightarrow>
     \<exists>m. m + events_counted w' + claims_stored w = n + events_counted w + claims_stored w' \<and> f m)"

lemma accounted_Awaiting:
  "accounted (Awaiting h) n \<longleftrightarrow> (\<forall>w. \<exists>m. m + events_counted (snd (h w)) + claims_stored w
     = n + events_counted w + claims_stored (snd (h w)) \<and> accounted (fst (h w)) m)"
  by (simp add: case_prod_beta)

declare accounted.simps(2) [simp del]

lemma accounted_performing:
  assumes "\<And>w. \<exists>m. m + events_counted (snd (run_state h w)) + claims_stored w
     = n + events_counted w + claims_stored (snd (run_state h w))
     \<and> accounted (k (fst (run_state h w))) m"
  shows "accounted (performing h k) n"
  using assms by (simp add: accounted_Awaiting performing_def case_prod_beta)

text \<open>Steps that neither claim nor count.\<close>

definition neutral :: "world \<Rightarrow> world \<Rightarrow> bool" where
  "neutral w w' \<longleftrightarrow> claims_stored w' = claims_stored w \<and> events_counted w' = events_counted w"

lemma accounted_neutral:
  assumes "state_io_rel neutral h" and "\<And>x. accounted (k x) n"
  shows "accounted (performing h k) n"
proof (rule accounted_performing)
  fix w
  have "neutral w (snd (run_state h w))" using assms(1) by (simp add: state_io_rel_def)
  with assms(2) show "\<exists>m. m + events_counted (snd (run_state h w)) + claims_stored w
     = n + events_counted w + claims_stored (snd (run_state h w))
     \<and> accounted (k (fst (run_state h w))) m" by (auto simp: neutral_def)
qed

named_theorems neutral_intros

lemma ledger_repository [simp]:
  "claims_stored (w\<lparr>w_repository := r\<rparr>) = claims_stored w"
  "events_counted (w\<lparr>w_repository := r\<rparr>) = events_counted w"
  by (simp_all add: claims_stored_def events_counted_def)

lemma neutral_database [neutral_intros]:
  assumes "\<And>db. length (deliveries (snd (f db))) = length (deliveries db)"
  shows "state_io_rel neutral (instrument_database_operation op f)"
proof (rule state_io_relI)
  fix r w w' assume "run_state (instrument_database_operation op f) w = (r, w')"
  with assms [of "w_database w"] show "neutral w w'"
    by (auto simp: instrument_database_operation_def record_span_def neutral_def claims_stored_def
        events_counted_def split: prod.splits)
qed

lemma deliveries_kept [simp]:
  "deliveries (snd (reading g db)) = deliveries db"
  "deliveries (snd (upsert_run f now rid c db)) = deliveries db"
  "deliveries (snd (record_link ol f now rid job i db)) = deliveries db"
  "deliveries (snd (enqueue f rid n t db)) = deliveries db"
  "deliveries (snd (complete clk f rid n qc db)) = deliveries db"
  "deliveries (snd (upsert_checks f now rid b checks db)) = deliveries db"
  by (auto simp: reading_def upsert_run_def record_link_def enqueue_def complete_def
      upsert_checks_def insert_attempt_def complete_rows_def Let_def
      split: option.splits sum.splits if_splits)

lemma neutral_refl [simp]: "neutral w w"
  by (simp add: neutral_def)

lemma neutral_bind [neutral_intros]:
  assumes "state_io_rel neutral h" and "\<And>x. state_io_rel neutral (f x)"
  shows "state_io_rel neutral (State_Monad.bind h f)"
proof (rule state_io_relI)
  fix a s s'
  assume r: "run_state (State_Monad.bind h f) s = (a, s')"
  obtain x u where u: "run_state h s = (x, u)" by (cases "run_state h s")
  with r have "run_state (f x) u = (a, s')" by simp
  then have "neutral s u" "neutral u s'" using u assms state_io_relD by metis+
  then show "neutral s s'" by (auto simp: neutral_def)
qed

lemma neutral_effects [neutral_intros]:
  "state_io_rel neutral (State_Monad.return x)" "state_io_rel neutral State_Monad.get"
  "state_io_rel neutral (record_span op calls)"
  "state_io_rel neutral (write_log line)" "state_io_rel neutral new_correlation_id"
  "state_io_rel neutral (request_refresh rq)" "state_io_rel neutral panicking"
  "state_io_rel neutral (context_authenticate n)" "state_io_rel neutral (exporting out)"
  "state_io_rel neutral (State_Monad.update (w_logs_update f1))"
  "state_io_rel neutral (State_Monad.update (w_repository_update f2))"
  "state_io_rel neutral (State_Monad.update (w_refresher_stopped_update f3))"
  "state_io_rel neutral (State_Monad.update (w_refreshes_update f4))"
  by (auto simp: state_io_rel_def neutral_def record_span_def write_log_def exporting_def
      new_correlation_id_def request_refresh_def panicking_def context_authenticate_def
      claims_stored_def events_counted_def split: if_splits option.splits prod.splits)

lemma neutral_metric:
  assumes "\<And>m. filter counts_event (g m) = filter counts_event m"
  shows "state_io_rel neutral (record_metric g)"
  using assms by (simp add: state_io_rel_def record_metric_def neutral_def claims_stored_def
      events_counted_def)

lemma neutral_metrics [neutral_intros]:
  "state_io_rel neutral (record_metric (record_failure r stage))"
  "state_io_rel neutral (record_metric (observe_request r result d))"
  "state_io_rel neutral (record_metric (record_duplicate n))"
  "state_io_rel neutral (record_metric (record_merge_group_event n mga mgr))"
  "state_io_rel neutral (record_metric (record_merge_queue_completion n mc t))"
  "state_io_rel neutral (record_metric (record_merge_queue_transition_failure n fr))"
  "state_io_rel neutral (record_metric (observe_workflow_job_steps n steps))"
  "state_io_rel neutral (record_metric (record_workflow_trace_rejection n rr))"
  "state_io_rel neutral (record_metric increment_repository_configurations)"
  "state_io_rel neutral (record_metric decrement_repository_configurations)"
  by (rule neutral_metric; simp add: metric_operation_defs
      split: option.split merge_queue_completion.split prod.split)+

lemma neutral_failures [neutral_intros]:
  "state_io_rel neutral (record_failure_logged st r stage message)"
  "state_io_rel neutral (unavailable_error st r stage)"
  "state_io_rel neutral (record_queue_state_failure st n)"
  "state_io_rel neutral (record_workflow_link_failure st n)"
  "state_io_rel neutral (record_pipeline_trace_rejection st request ctx jobs)"
  "state_io_rel neutral (record_step_rejection st n delivery admission limit)"
  unfolding record_queue_state_failure_def record_workflow_link_failure_def unavailable_error_def
    record_failure_logged_def record_pipeline_trace_rejection_def record_step_rejection_def
  by (intro neutral_intros)+

lemma neutral_blocks [neutral_intros]:
  "state_io_rel neutral (process_merge_group st rid request projection et act)"
  "state_io_rel neutral (authenticate_webhook st amb n signature body)"
  "state_io_rel neutral (store_failure e)"
  "state_io_rel neutral (refresh_log level oc message extra)"
  unfolding process_merge_group_def authenticate_webhook_def store_failure_def refresh_log_def Let_def
  by (auto intro!: neutral_intros split: option.split sum.split)
    (auto simp: state_io_rel_def neutral_def claims_stored_def events_counted_def)

lemma repository_operations_deliveries:
  "deliveries (snd (create_repository st f now nonce n s enabled db)) = deliveries db"
  "deliveries (snd (update_repository st f now nonce ident m db)) = deliveries db"
  "deliveries (snd (delete_repository st f ident db)) = deliveries db"
proof -
  show "deliveries (snd (create_repository st f now nonce n s enabled db)) = deliveries db"
    by (rule result_snd [where f = "create_repository st f now nonce n s enabled"])
      (auto dest!: create_repository_Err create_repository_Ok
        simp: insert_repository_def Let_def split: if_splits)
  show "deliveries (snd (update_repository st f now nonce ident m db)) = deliveries db"
    by (rule result_snd [where f = "update_repository st f now nonce ident m"])
      (auto dest!: update_repository_Err update_repository_Ok update_repository_row_Ok(1)
        simp: Let_def)
  show "deliveries (snd (delete_repository st f ident db)) = deliveries db"
    by (rule result_snd [where f = "delete_repository st f ident"])
      (auto dest!: delete_repository_cases simp: delete_repository_row_def)
qed

lemma neutral_api [neutral_intros]:
  "state_io_rel neutral (api_list st amb)" "state_io_rel neutral (api_get st amb raw_id)"
  "state_io_rel neutral (api_update st amb raw_id payload)"
  unfolding api_list_def api_get_def api_update_def Let_def
  by (auto intro!: neutral_intros simp: repository_operations_deliveries split: sum.split prod.split)

subsection \<open>Accounted tasks\<close>

named_theorems accounted_intros

lemma accounted_cases [accounted_intros]:
  "(x = None \<Longrightarrow> accounted a n) \<Longrightarrow> (\<And>y. x = Some y \<Longrightarrow> accounted (b y) n) \<Longrightarrow>
     accounted (case x of None \<Rightarrow> a | Some y \<Rightarrow> b y) n"
  "(\<And>e. s = Inl e \<Longrightarrow> accounted (f e) n) \<Longrightarrow> (\<And>y. s = Inr y \<Longrightarrow> accounted (b' y) n) \<Longrightarrow>
     accounted (case s of Inl e \<Rightarrow> f e | Inr y \<Rightarrow> b' y) n"
  "(\<And>y z. p = (y, z) \<Longrightarrow> accounted (g y z) n) \<Longrightarrow> accounted (case p of (y, z) \<Rightarrow> g y z) n"
  "(c \<Longrightarrow> accounted a n) \<Longrightarrow> (\<not> c \<Longrightarrow> accounted a' n) \<Longrightarrow> accounted (if c then a else a') n"
  by (auto split: option.split sum.split prod.split)

text \<open>The two steps that are not neutral.\<close>

lemma accounted_event:
  assumes "accounted (k ()) n"
  shows "accounted (performing (record_metric (observe_event r et act size_of)) k) (Suc n)"
  using assms by (intro accounted_performing)
    (simp add: record_metric_def observe_event_def events_counted_def claims_stored_def)

lemma accounted_claim:
  assumes "\<And>r. r \<noteq> Ok delivery_claim.New \<Longrightarrow> accounted (k r) n"
    and "accounted (k (Ok delivery_claim.New)) (Suc n)"
  shows "accounted (performing (instrument_database_operation op (claim_delivery h f now d)) k) n"
proof (rule accounted_performing)
  fix w :: world
  let ?d = "claim_delivery h f now d (w_database w)"
  have "length (deliveries (snd ?d)) = (if fst ?d = Ok delivery_claim.New then 1 else 0)
      + length (deliveries (w_database w))"
    by (auto simp: claim_delivery_def Let_def split: option.split)
  with assms show "\<exists>m. m + events_counted (snd (run_state
        (instrument_database_operation op (claim_delivery h f now d)) w)) + claims_stored w
      = n + events_counted w + claims_stored (snd (run_state
        (instrument_database_operation op (claim_delivery h f now d)) w))
      \<and> accounted (k (fst (run_state
        (instrument_database_operation op (claim_delivery h f now d)) w))) m"
    by (cases "fst ?d = Ok delivery_claim.New")
      (auto simp: instrument_database_operation_def record_span_def events_counted_def
        claims_stored_def case_prod_beta intro: exI [of _ n] exI [of _ "Suc n"])
qed

lemmas accounted_steps [accounted_intros] =
  accounted_neutral [OF neutral_failures(2)] accounted_neutral [OF neutral_failures(3)]
  accounted_neutral [OF neutral_failures(4)] accounted_neutral [OF neutral_failures(5)]
  accounted_neutral [OF neutral_failures(6)] accounted_neutral [OF neutral_effects(3)]
  accounted_neutral [OF neutral_effects(4)] accounted_neutral [OF neutral_effects(6)]
  accounted_neutral [OF neutral_effects(7)] accounted_neutral [OF neutral_effects(10)]
  accounted_neutral [OF neutral_effects(11)] accounted_neutral [OF neutral_effects(12)]
  accounted_neutral [OF neutral_blocks(1)] accounted_neutral [OF neutral_blocks(2)]
  accounted_neutral [OF neutral_blocks(4)] accounted_neutral [OF neutral_api(1)]
  accounted_neutral [OF neutral_api(2)] accounted_neutral [OF neutral_api(3)]
  accounted_neutral [OF neutral_metrics(3)] accounted_neutral [OF neutral_metrics(5)]
  accounted_neutral [OF neutral_metrics(6)] accounted_neutral [OF neutral_metrics(7)]
  accounted_neutral [OF neutral_metrics(9)] accounted_neutral [OF neutral_metrics(10)]

lemma accounted_database [accounted_intros]:
  "(\<And>r. accounted (k1 r) m) \<Longrightarrow> accounted (performing (instrument_database_operation op
     (upsert_run f now rid c)) k1) m"
  "(\<And>r. accounted (k2 r) m) \<Longrightarrow> accounted (performing (instrument_database_operation op
     (record_link ol f now rid job i)) k2) m"
  "(\<And>r. accounted (k3 r) m) \<Longrightarrow> accounted (performing (instrument_database_operation op
     (enqueue f rid n t)) k3) m"
  "(\<And>r. accounted (k4 r) m) \<Longrightarrow> accounted (performing (instrument_database_operation op
     (complete clk f rid n qc)) k4) m"
  "(\<And>r. accounted (k5 r) m) \<Longrightarrow> accounted (performing (instrument_database_operation op
     (upsert_checks f now rid b checks)) k5) m"
  "(\<And>r. accounted (k6 r) m) \<Longrightarrow> accounted (performing (instrument_database_operation op
     (create_repository st f now nonce name s enabled)) k6) m"
  "(\<And>r. accounted (k7 r) m) \<Longrightarrow> accounted (performing (instrument_database_operation op
     (delete_repository st f ident)) k7) m"
  "(\<And>r. accounted (k8 r) m) \<Longrightarrow> accounted (performing (instrument_database_operation op
     (reading g)) k8) m"
  by (rule accounted_neutral; (intro neutral_intros)?; simp add: repository_operations_deliveries)+

subsection \<open>Requests and turns\<close>

lemma accounted_workflow_run [accounted_intros]:
  assumes "\<And>r. accounted (k r) n"
  shows "accounted (process_workflow_run_task st amb rid request et act k) n"
proof -
  have q: "state_io_rel neutral (do { w \<leftarrow> State_Monad.get; exporting (x w) })" for x
    by (intro neutral_intros)
  show ?thesis
    unfolding process_workflow_run_task_def emit_pipeline_trace_task_def
    by (intro accounted_intros accounted_neutral [OF q] assms)
qed

lemma accounted_workflow_job [accounted_intros]:
  assumes "\<And>r. accounted (k r) n"
  shows "accounted (process_workflow_job_task st amb rid request et act k) n"
proof -
  have q: "state_io_rel neutral (do {
      w \<leftarrow> State_Monad.get; let out = x w in do { exporting (y out); State_Monad.return (z out) } })"
    for x y z unfolding Let_def by (intro neutral_intros)
  have e: "accounted (emit_and_link_task st amb rid name job (\<lambda>_. k (Ok ()))) n" for name job
    unfolding emit_and_link_task_def by (intro accounted_intros accounted_neutral [OF q] assms)
  have r: "accounted (resolve_required_checks_task st amb rid name ctx k') n"
    if "\<And>c. accounted (k' c) n" for name ctx k'
    unfolding resolve_required_checks_task_def by (intro accounted_intros that)
  show ?thesis
    unfolding process_workflow_job_task_def by (intro accounted_intros e r assms)
qed

lemma accounted_events [accounted_intros]:
  "(\<And>u. accounted (k1 u) m) \<Longrightarrow>
     accounted (process_merge_group_task st rid request projection et act k1) m"
  "(\<And>u. accounted (k2 u) m) \<Longrightarrow>
     accounted (process_pull_request_task st amb rid request projection et act k2) m"
proof -
  show "(\<And>u. accounted (k1 u) m) \<Longrightarrow>
     accounted (process_merge_group_task st rid request projection et act k1) m"
    unfolding process_merge_group_task_def by (intro accounted_intros)
  have c: "(\<And>r. accounted (k r) m) \<Longrightarrow>
      accounted (complete_attempt_task st amb q number completion mc k) m"
    for q number completion mc k
    unfolding complete_attempt_task_def
    by (auto intro!: accounted_intros split: completion_transition.split)
  have a: "(\<And>r. accounted (k r) m) \<Longrightarrow>
      accounted (apply_transition_task st amb q tr number t k) m" for q tr number t k
    unfolding apply_transition_task_def
    by (auto split: pull_request_transition.split intro!: accounted_intros c)
  have p: "(\<And>r. accounted (k r) m) \<Longrightarrow> accounted (process_task st amb q projection k) m"
    for q projection k
    unfolding process_task_def by (intro accounted_intros a)
  show "(\<And>u. accounted (k2 u) m) \<Longrightarrow>
     accounted (process_pull_request_task st amb rid request projection et act k2) m"
    unfolding process_pull_request_task_def by (intro accounted_intros p)
qed

lemma accounted_delivery [accounted_intros]:
  assumes "\<And>x. accounted (k x) n"
  shows "accounted (process_delivery_task st amb rid request k) n"
proof -
  have new: "accounted (process_new_delivery_task st amb rid request projection et act k') (Suc n)"
    if "\<And>x. accounted (k' x) n" for projection et act k'
    unfolding process_new_delivery_task_def
    by (intro accounted_event accounted_intros that)
  show ?thesis
    unfolding process_delivery_task_def Let_def
    by (intro accounted_intros accounted_claim assms)
      (auto split: delivery_claim.split sum.split intro!: accounted_intros new assms)
qed

lemma accounted_serve_webhook: "accounted (serve_webhook_task st amb rq) 0"
proof -
  have q: "state_io_rel neutral (do { w \<leftarrow> State_Monad.get; record_metric (observe_request (r w) res d) })"
    "state_io_rel neutral (do { w \<leftarrow> State_Monad.get; record_span op (calls w) })"
    "state_io_rel neutral (do { context_authenticate name; record_span op' calls' })"
    for r res d op calls name op' calls'
    by (intro neutral_intros)+
  have h: "accounted (webhook_handler_task st amb request k) n"
    if "\<And>r. accounted (k r) n" for request n and k :: "(app_error, nat) result \<Rightarrow> response option task"
    unfolding webhook_handler_task_def Let_def
    by (intro accounted_intros)
      (auto split: webhook_authentication_error.split
        intro!: accounted_intros accounted_neutral [OF q(3)] that)
  have a: "accounted (answering_task st r k) n"
    if "\<And>x. accounted (k x) n" for r n and k :: "response option \<Rightarrow> response option task"
    unfolding answering_task_def by (intro accounted_intros that)
  show ?thesis
    unfolding serve_webhook_task_def observe_http_request_task_def observe_webhook_request_task_def
      webhook_endpoint_task_def
    by (auto intro!: accounted_intros accounted_neutral [OF q(1)] accounted_neutral [OF q(2)] h a)
qed

lemma accounted_serve_api: "accounted (serve_api_task st amb rq call) 0"
proof -
  have q: "state_io_rel neutral (do { w \<leftarrow> State_Monad.get; record_span op (calls w) })"
    "state_io_rel neutral (do { err \<leftarrow> store_failure e; record_span op calls'; State_Monad.return err })"
    for op calls calls' e
    by (intro neutral_intros)+
  have a: "accounted (answering_task st r k) n"
    if "\<And>x. accounted (k x) n" for r n and k :: "response option \<Rightarrow> response option task"
    unfolding answering_task_def by (intro accounted_intros that)
  show ?thesis
    unfolding serve_api_task_def observe_http_request_task_def api_endpoint_task_def
      api_handler_task_def api_create_task_def api_delete_task_def Let_def
    by (auto intro!: accounted_intros a accounted_neutral [OF q(1)] accounted_neutral [OF q(2)]
        split: api_call.split)
qed

lemma accounted_run_turn: "accounted (run_turn_task st source amb cancelled) 0"
proof -
  have q: "state_io_rel neutral (do {
          w \<leftarrow> State_Monad.get;
          case w_refreshes w of
            [] \<Rightarrow> State_Monad.return None
          | rq # rest \<Rightarrow> do {
              State_Monad.update (w_refreshes_update (\<lambda>_. rest));
              State_Monad.return (Some rq) } })"
    by (auto simp: state_io_rel_def neutral_def claims_stored_def events_counted_def
        split: list.splits)
  show ?thesis
    unfolding run_turn_task_def refresh_task_def
    by (intro accounted_intros accounted_neutral [OF q]) simp_all
qed

subsection \<open>The ledger of the pool\<close>

fun accounted_thread :: "service_thread \<Rightarrow> nat \<Rightarrow> bool" where
  "accounted_thread (Serving r d t) n = accounted t n"
| "accounted_thread (Refreshing d t) n = accounted t n"
| "accounted_thread (Pruning shutdown faults p) n = False"
| "accounted_thread (Abandoned d) n = True"

text \<open>Each thread with what it owes.\<close>

definition ledger_pool :: "world \<Rightarrow> service_thread multiset \<Rightarrow> world \<Rightarrow> bool" where
  "ledger_pool w0 T w \<longleftrightarrow> (\<exists>M. image_mset fst M = T \<and> (\<forall>(t, n) \<in># M. accounted_thread t n)
     \<and> (\<Sum>(t, n)\<in>#M. n) + events_counted w + claims_stored w0
        = events_counted w0 + claims_stored w)"

fun retention_thread :: "service_thread \<Rightarrow> bool" where
  "retention_thread (Pruning shutdown faults p) = True"
| "retention_thread t = False"

text \<open>Everything but retention passes is started.\<close>

definition between_passes ::
  "'u app_state \<Rightarrow> 'e required_check_source \<Rightarrow> retention_config \<Rightarrow> service_thread \<Rightarrow> bool" where
  "between_passes st source config t \<longleftrightarrow>
     service_thread_start st source config t \<and> \<not> retention_thread t"

lemma accounted_step:
  assumes "service_thread_step sch t w = Some (t', w')" and "accounted_thread t n"
  shows "\<exists>m. accounted_thread t' m
    \<and> m + events_counted w' + claims_stored w = n + events_counted w + claims_stored w'"
  using assms
proof (induction sch t w rule: service_thread_step.induct)
  case (1 r d h w)
  let ?w = "w\<lparr>w_repository := r\<rparr>"
  obtain t1 w1 where h: "h ?w = (t1, w1)" by fastforce
  from 1(2) have "\<exists>m. m + events_counted (snd (h ?w)) + claims_stored ?w
      = n + events_counted ?w + claims_stored (snd (h ?w)) \<and> accounted (fst (h ?w)) m"
    unfolding accounted_thread.simps accounted_Awaiting by blast
  with 1(1) h show ?case by auto
next
  case (2 d h w)
  obtain t1 w1 where h: "h w = (t1, w1)" by fastforce
  from 2(2) have "\<exists>m. m + events_counted (snd (h w)) + claims_stored w
      = n + events_counted w + claims_stored (snd (h w)) \<and> accounted (fst (h w)) m"
    unfolding accounted_thread.simps accounted_Awaiting by blast
  with 2(1) h show ?case by auto
qed auto

lemma ledger_service_pool:
  "pool_law service_thread_step (between_passes st source config) w0 (ledger_pool w0)"
proof
  show "ledger_pool w0 {#} w0" by (auto simp: ledger_pool_def)
next
  fix T w t
  assume l: "ledger_pool w0 T w" and "between_passes st source config t"
  then have a: "accounted_thread t 0"
    unfolding between_passes_def
    by (auto elim!: service_thread_start.cases
        simp: accounted_serve_webhook accounted_serve_api accounted_run_turn)
  from l obtain M where "image_mset fst M = T" "\<forall>(t, n) \<in># M. accounted_thread t n"
    "(\<Sum>(t, n)\<in>#M. n) + events_counted w + claims_stored w0 = events_counted w0 + claims_stored w"
    by (auto simp: ledger_pool_def)
  with a show "ledger_pool w0 (add_mset t T) w"
    unfolding ledger_pool_def by (intro exI [of _ "add_mset (t, 0) M"]) auto
next
  fix t T w sch t' w'
  assume "ledger_pool w0 (add_mset t T) w" and s: "service_thread_step sch t w = Some (t', w')"
  then obtain M where M: "image_mset fst M = add_mset t T" "\<forall>(t, n) \<in># M. accounted_thread t n"
    "(\<Sum>(t, n)\<in>#M. n) + events_counted w + claims_stored w0 = events_counted w0 + claims_stored w"
    by (auto simp: ledger_pool_def)
  from M(1) obtain n N where N: "M = add_mset (t, n) N" "image_mset fst N = T"
    by (auto simp: msed_map_invR dest!: msed_map_invR)
  with M(2) have "accounted_thread t n" by auto
  from accounted_step [OF s this] obtain m where m: "accounted_thread t' m"
    "m + events_counted w' + claims_stored w = n + events_counted w + claims_stored w'" by blast
  have "m + (\<Sum>(t, n)\<in>#N. n) + events_counted w' + claims_stored w0
      = events_counted w0 + claims_stored w'"
    using m(2) M(3) N(1) by simp
  with m(1) M(2) N show "ledger_pool w0 (add_mset t' T) w'"
    unfolding ledger_pool_def by (intro exI [of _ "add_mset (t', m) N"]) auto
qed

lemma settled_accounted: "settled t \<Longrightarrow> accounted_thread t n \<Longrightarrow> n = 0"
  by (cases t rule: settled.cases) auto

subsection \<open>Property\<close>

text \<open>
  C6: Between two retention passes, no delivery is counted as an event more than once, however many
  copies of it are in flight and whichever requests are dropped: the events counted are at most the
  deliveries claimed, whose identifiers differ, and whenever every request has ended and none was
  dropped they are as many.
\<close>

theorem deliveries_processed_once:
  assumes "service_started st w0"
    and "pool_reachable service_thread_step (between_passes st source config) w0 T w"
  shows "distinct (map dr_delivery_id (deliveries (w_database w)))
    \<and> events_counted w + claims_stored w0 \<le> events_counted w0 + claims_stored w
    \<and> ((\<forall>t \<in># T. settled t) \<longrightarrow>
        events_counted w + claims_stored w0 = events_counted w0 + claims_stored w)"
proof -
  have "pool_reachable service_thread_step (service_thread_start st source config) w0 T w"
    using assms(2) by (rule pool_fewer_starts) (simp add: between_passes_def)
  from service_pool_inv [OF assms(1) this] have ok: "db_ok (w_database w)"
    by (simp add: pool_inv_def service_safe_def)
  obtain M where M: "image_mset fst M = T" "\<forall>(t, n) \<in># M. accounted_thread t n"
    and l: "(\<Sum>(t, n)\<in>#M. n) + events_counted w + claims_stored w0
      = events_counted w0 + claims_stored w"
    using pool_law.reachable_inv [OF ledger_service_pool assms(2)] by (auto simp: ledger_pool_def)
  have "(\<Sum>(t, n)\<in>#M. n) = 0" if "\<forall>t \<in># T. settled t"
    using that M settled_accounted by (fastforce intro!: sum_mset.neutral)
  with l have "(\<forall>t \<in># T. settled t) \<longrightarrow>
      events_counted w + claims_stored w0 = events_counted w0 + claims_stored w" by linarith
  moreover have "events_counted w + claims_stored w0 \<le> events_counted w0 + claims_stored w"
    using l by linarith
  ultimately show ?thesis using ok by (simp add: db_ok_def)
qed

text \<open>A service with one repository, that is sent a push.\<close>

definition push_world :: world where
  "push_world = snd (run_state (initialize_repository_metrics sample_ambient) sample_world)"

lemma push_world_ok:
  "service_started (st :: 'u app_state) push_world"
  "w_database push_world = w_database sample_world"
proof -
  note defs = initialize_repository_metrics_def instrument_database_operation_def
    reading_def record_metric_def record_span_def count_repositories_def sample_ambient_def
    no_faults_def
  show "w_database push_world = w_database sample_world"
    by (simp add: defs push_world_def)
  have "run_state (initialize_repository_metrics sample_ambient) sample_world = (Ok (), push_world)"
    by (simp add: defs push_world_def)
  then show "service_started st push_world"
    by (rule service_started.started [rotated 3])
      (use sample_world_ok in \<open>simp_all add: sample_world_def\<close>)
qed

lemma push_run:
  "\<exists>t w. pool_reachable service_thread_step (between_passes (sample_app (sample_body [])) source config)
      push_world {#t#} w \<and> settled t \<and> claims_stored w = 1"
proof -
  let ?app = "sample_app (sample_body [])"
  let ?rq = "sample_http_request ''push''" and ?q = "sample_webhook_request ''push''"
  let ?t = "Serving None 0 (serve_webhook_task ?app sample_ambient ?rq)"
  let ?v = "push_world\<lparr>w_repository := None\<rparr>"
  have call: "pool_reachable service_thread_step (between_passes ?app source config) push_world
      {#?t#} push_world"
    by (rule pool_call [OF pool_initial])
      (simp add: between_passes_def service_thread_start.webhook)
  have x: "webhook_request_from_request ?app ?rq = Ok ?q"
    by (rule sample_extraction) simp_all
  have a: "authentication_answer ?app sample_ambient ?q (w_database ?v) = Ok (RepositoryId 1)"
    using sample_answer by (simp add: push_world_ok)
  obtain f where f: "run_state (authenticate_webhook ?app sample_ambient
      (wq_repository_name ?q) (wq_signature ?q) (wq_body ?q)) ?v
      = (Ok (RepositoryId 1), w_spans_update f ?v)"
    using authenticate_webhook_run [of ?app sample_ambient ?q ?v] a by auto
  have event: "normalize_event_type (wq_event_type ?q) = event_type.Push"
    by (simp add: sample_webhook_request_def normalize_event_type_def lit_def)
  obtain pr where pr: "Option.bind (lib_from_slice (app_libraries ?app) (wq_body ?q))
      read_event_projection = Some pr" "ep_pull_request pr = None"
    by (simp add: sample_app_def sample_libraries_def app_state_new_def
        with_workflow_trace_emitter_def read_event_projection_def sample_body_def
        reader_defs lit_def)
  have mg: "merge_group_transition_of pr event_type.Push act = None" for act
    by (simp add: merge_group_transition_of_def)
  have none: "deliveries (w_database push_world) = []"
    by (simp add: push_world_ok sample_world_def empty_database_def)
  then have claim: "claim_delivery (lib_hyphenated (app_libraries ?app)) no_faults []
      (wq_delivery_id ?q) (w_database push_world) = (Ok delivery_claim.New,
        (w_database push_world)\<lparr>deliveries := [\<lparr>dr_delivery_id = delivery_id_encode_lower
          (lib_hyphenated (app_libraries ?app)) (wq_delivery_id ?q), dr_received_at = []\<rparr>]\<rparr>)"
    using claim_new [of no_faults "lib_hyphenated (app_libraries ?app)" "w_database push_world"]
    by (simp add: no_faults_def claimed_def)
  have amb: "amb_faults sample_ambient op = no_faults" "amb_sql_now sample_ambient op = []" for op
    by (simp_all add: sample_ambient_def)
  have "\<exists>r d a w. solo service_thread_step (replicate 10 Proceed) ?t push_world
      = (Serving r d (Finished a), w) \<and> claims_stored w = 1"
    using x f event pr mg claim amb none
    by (simp add: numeral_eq_Suc serve_webhook_task_def observe_http_request_task_def
        observe_webhook_request_task_def webhook_endpoint_task_def webhook_handler_task_def
        process_delivery_task_def process_new_delivery_task_def process_workflow_run_task_def
        process_workflow_job_task_def process_merge_group_task_def process_pull_request_task_def
        answering_task_def instrument_database_operation_def record_metric_def write_log_def
        context_authenticate_def record_span_def claims_stored_def Let_def
        split: prod.split)
  with pool_solo [OF call] show ?thesis by (metis settled.simps(1))
qed

lemma deliveries_processed_once_witness:
  "\<exists>t w. pool_reachable service_thread_step (between_passes (sample_app (sample_body []))
        (\<lambda>n b t. Err () :: (unit, required_checks) result) sample_config) push_world {#t#} w
     \<and> claims_stored w = 1 \<and> events_counted w = events_counted push_world + 1"
proof -
  let ?src = "\<lambda>n b t. Err () :: (unit, required_checks) result"
  obtain t w where r: "pool_reachable service_thread_step (between_passes (sample_app (sample_body []))
      ?src sample_config) push_world {#t#} w" "settled t" "claims_stored w = 1"
    using push_run [of ?src sample_config] by blast
  have "claims_stored push_world = 0"
    by (simp add: claims_stored_def push_world_ok sample_world_def empty_database_def)
  with deliveries_processed_once [OF push_world_ok(1) r(1)] r(2,3)
  have "events_counted w = events_counted push_world + 1" by auto
  with r show ?thesis by blast
qed

end
