(* ===== verification/Linked_Traces.thy ===== *)
theory Linked_Traces
  imports Concurrent_Service
begin

section \<open>The links of a run's trace\<close>

text \<open>
  \<open>telemetry/pipeline.rs\<close> promises that every job span of a run's trace links to the root span of the
  trace that was exported when the job completed. The promise spans the emitter, the link store and
  two webhook requests that may run beside any others; here it is an invariant of the pool. A thread
  remembers which spans had been exported at its last step, and since exported spans stay exported,
  what it concluded from them still holds at the next one.
\<close>

subsection \<open>Grounded links\<close>

text \<open>\<open>x\<close> is the root span of a trace, with the identifiers and the interval given.\<close>

definition job_root :: "trace_id \<Rightarrow> span_id \<Rightarrow> instant \<Rightarrow> instant \<Rightarrow> exported_span \<Rightarrow> bool" where
  "job_root tid sid s e x \<longleftrightarrow> xs_parent x = None \<and> sc_trace_id (xs_context x) = tid
     \<and> sc_span_id (xs_context x) = sid \<and> xs_start x = s \<and> xs_end x = e"

definition grounded_row :: "otel_lib \<Rightarrow> exported_span set \<Rightarrow> job_link_row \<Rightarrow> bool" where
  "grounded_row ol E row \<longleftrightarrow> (\<exists>tid sid. length tid = 16 \<and> length sid = 8
     \<and> jl_trace_id row = trace_hex ol tid \<and> jl_span_id row = span_hex ol sid
     \<and> (\<exists>x \<in> E. job_root tid sid (jl_started_at_nanos row) (jl_completed_at_nanos row) x))"

definition grounded_span :: "exported_span set \<Rightarrow> exported_span \<Rightarrow> bool" where
  "grounded_span E y \<longleftrightarrow> (\<forall>l \<in> set (xs_links y).
     \<exists>x \<in> E. job_root (sc_trace_id l) (sc_span_id l) (xs_start y) (xs_end y) x)"

definition grounded_job :: "exported_span set \<Rightarrow> pipeline_job_summary \<Rightarrow> bool" where
  "grounded_job E j \<longleftrightarrow> (\<exists>x \<in> E. job_root (id_trace_id (sum_identity j)) (id_span_id (sum_identity j))
     (timing_start (sum_timing j)) (timing_end (sum_timing j)) x)"

lemma grounded_mono:
  "grounded_row ol E row \<Longrightarrow> E \<subseteq> E' \<Longrightarrow> grounded_row ol E' row"
  "grounded_span E y \<Longrightarrow> E \<subseteq> E' \<Longrightarrow> grounded_span E' y"
  "grounded_job E j \<Longrightarrow> E \<subseteq> E' \<Longrightarrow> grounded_job E' j"
  unfolding grounded_row_def grounded_span_def grounded_job_def by blast+

lemma into_summary_grounded:
  assumes "into_summary ol row = Some j" and "grounded_row ol E row" and "otel_hex_ok ol"
  shows "grounded_job E j"
proof -
  from assms(2) obtain tid sid x where g: "length tid = 16" "length sid = 8"
    "jl_trace_id row = trace_hex ol tid" "jl_span_id row = span_hex ol sid" "x \<in> E"
    "job_root tid sid (jl_started_at_nanos row) (jl_completed_at_nanos row) x"
    by (auto simp: grounded_row_def)
  with assms(3) have "trace_from_hex ol (jl_trace_id row) = Some tid"
    "span_from_hex ol (jl_span_id row) = Some sid" by (simp_all add: otel_hex_ok_def)
  with assms(1) have "sum_identity j = \<lparr>id_trace_id = tid, id_span_id = sid\<rparr>"
    "timing_start (sum_timing j) = jl_started_at_nanos row"
    "timing_end (sum_timing j) = jl_completed_at_nanos row"
    by (auto simp: into_summary_def Let_def timing_derived_def nanos_to_system_time_def
        split: option.splits sum.splits if_splits)
  with g(5,6) show ?thesis by (auto simp: grounded_job_def)
qed

lemma list_links_grounded:
  assumes "list_links ol f rid r a limit db = Ok js" and "\<forall>row \<in> set (job_links db). grounded_row ol E row"
    and "otel_hex_ok ol" and "j \<in> set js"
  shows "grounded_job E j"
proof -
  from assms(1,4) obtain row where "row \<in> set (job_links db)" "into_summary ol row = Some j"
    by (auto simp: list_links_def List.map_filter_def split: if_splits option.splits dest!: in_set_takeD)
  with into_summary_grounded assms(2,3) show ?thesis by blast
qed

lemma recorded_link_grounded:
  assumes "record_link ol f now rid job i db = (r, db')"
    and "\<forall>row \<in> set (job_links db). grounded_row ol E row"
    and "length (id_trace_id i) = 16" and "length (id_span_id i) = 8" and "x \<in> E"
    and "job_root (id_trace_id i) (id_span_id i) (timing_start (job_timing job))
      (timing_end (job_timing job)) x"
  shows "\<forall>row \<in> set (job_links db'). grounded_row ol E row"
proof (cases r)
  case (Inl e)
  with assms(1,2) record_link_Err show ?thesis by fastforce
next
  case (Inr u)
  note o = record_link_Ok [OF assms(1) [unfolded Inr, simplified]]
  let ?row = "link_row ol rid job i (timing_start (job_timing job)) (timing_end (job_timing job)) now db"
  have g: "grounded_row ol E ?row" "grounded_row ol E (merge_link old ?row)" for old
    using assms(3-6) by (auto simp: grounded_row_def link_row_def merge_link_def)
  have "set (job_links db') \<subseteq> insert ?row (set (job_links db) \<union> (\<lambda>old. merge_link old ?row) ` set (job_links db))"
    unfolding o(4) by (auto simp: upsert_row_def)
  with assms(2) g show ?thesis by blast
qed

subsection \<open>What an emission exports\<close>

lemma emit_steps_links:
  "emit_steps em tracer job root n steps flag = Some (spans, reports, flag') \<Longrightarrow>
     x \<in> set spans \<Longrightarrow> xs_links x = []"
proof (induction em tracer job root n steps flag arbitrary: spans reports flag' rule: emit_steps.induct)
  case (2 em tracer job parent n step rest flag)
  then show ?case
    by (auto simp: Let_def step_span_def split: if_splits option.splits)
qed simp

lemma emit_grounded:
  assumes "emit h em n job = Some out"
  shows "x \<in> set (em_spans out) \<Longrightarrow> xs_links x = []"
    and "em_identity out = Some i \<Longrightarrow> \<exists>tracer x. emitter_tracer em = Some tracer
      \<and> x \<in> set (em_spans out)
      \<and> i = \<lparr>id_trace_id = sc_trace_id (tracer n None), id_span_id = sc_span_id (tracer n None)\<rparr>
      \<and> job_root (id_trace_id i) (id_span_id i) (timing_start (job_timing job))
          (timing_end (job_timing job)) x"
proof -
  assume x: "x \<in> set (em_spans out)"
  then obtain tracer where t: "emitter_tracer em = Some tracer"
    using assms by (cases "emitter_tracer em") (auto simp: emit_def)
  then obtain spans reports flag where s: "emit_steps em tracer job (tracer n None) (n + 1)
      (job_steps job) False = Some (spans, reports, flag)"
    using assms by (auto simp: emit_def Let_def split: option.splits)
  from emit_steps_links [OF s] assms t s x show "xs_links x = []"
    by (auto simp: emit_def Let_def root_span_def split: option.splits if_splits)
next
  assume i: "em_identity out = Some i"
  then obtain tracer where t: "emitter_tracer em = Some tracer"
    using assms by (cases "emitter_tracer em") (auto simp: emit_def)
  from emit_spec [OF t, of h n job] assms i obtain spans ev where
    "em_spans out = spans @ [root_span h job (tracer n None) ev]"
    and "i = \<lparr>id_trace_id = sc_trace_id (tracer n None), id_span_id = sc_span_id (tracer n None)\<rparr>"
    by auto
  with t show "\<exists>tracer x. emitter_tracer em = Some tracer \<and> x \<in> set (em_spans out)
      \<and> i = \<lparr>id_trace_id = sc_trace_id (tracer n None), id_span_id = sc_span_id (tracer n None)\<rparr>
      \<and> job_root (id_trace_id i) (id_span_id i) (timing_start (job_timing job))
          (timing_end (job_timing job)) x"
    by (intro exI [of _ tracer] exI [of _ "root_span h job (tracer n None) ev"])
      (simp add: job_root_def root_span_def)
qed

lemma emit_pipeline_grounded:
  assumes "emit_pipeline cl h em n p = Some (spans, reports)"
    and "\<forall>j \<in> set (prt_jobs p). grounded_job E j" and "x \<in> set spans"
  shows "grounded_span E x"
proof (cases "emitter_tracer em")
  case None
  with assms(1,3) show ?thesis by (simp add: emit_pipeline_def)
next
  case (Some tracer)
  let ?root = "tracer n (pipeline_root_context cl p)"
  obtain tasks reports' where t:
    "emit_tasks em tracer p ?root (n + 1) (prt_jobs p) = Some (tasks, reports')"
    "list_all2 (task_matches p ?root) (prt_jobs p) tasks"
    using emit_tasks_spec [of em tracer p ?root "n + 1" "prt_jobs p"] by blast
  have "grounded_span E y" if y: "y \<in> set tasks" for y
  proof -
    from t(2) y obtain j where "j \<in> set (prt_jobs p)" "task_matches p ?root j y"
      by (metis in_set_conv_nth list_all2_conv_all_nth)
    with assms(2) show ?thesis
      by (auto simp: task_matches_def grounded_span_def grounded_job_def link_span_context_def)
  qed
  with Some t(1) assms(1,3) show ?thesis
    by (auto simp: emit_pipeline_def Let_def grounded_span_def)
qed

subsection \<open>Tasks that keep the links grounded\<close>

text \<open>\<open>E0\<close> are the spans earlier processes have exported: the database outlives a process.\<close>

definition links_grounded :: "otel_lib \<Rightarrow> exported_span set \<Rightarrow> world \<Rightarrow> bool" where
  "links_grounded ol E0 w \<longleftrightarrow>
     (\<forall>row \<in> set (job_links (w_database w)). grounded_row ol (E0 \<union> set (w_exported w)) row)
     \<and> (\<forall>x \<in> set (w_exported w). grounded_span (E0 \<union> set (w_exported w)) x)"

primrec linking :: "otel_lib \<Rightarrow> exported_span set \<Rightarrow> 'a task \<Rightarrow> exported_span set \<Rightarrow> bool" where
  "linking ol E0 (Finished a) = (\<lambda>E. True)"
| "linking ol E0 (Awaiting h) = (\<lambda>E. \<forall>w. links_grounded ol E0 w \<and> E \<subseteq> set (w_exported w) \<longrightarrow>
     (case map_prod (linking ol E0) (\<lambda>w. w) (h w) of (f, w') \<Rightarrow>
        links_grounded ol E0 w' \<and> set (w_exported w) \<subseteq> set (w_exported w')
        \<and> f (set (w_exported w'))))"

lemma linking_Awaiting:
  "linking ol E0 (Awaiting h) E \<longleftrightarrow> (\<forall>w. links_grounded ol E0 w \<longrightarrow> E \<subseteq> set (w_exported w) \<longrightarrow>
     links_grounded ol E0 (snd (h w)) \<and> set (w_exported w) \<subseteq> set (w_exported (snd (h w)))
     \<and> linking ol E0 (fst (h w)) (set (w_exported (snd (h w)))))"
  by (auto simp: case_prod_beta)

declare linking.simps(2) [simp del]

lemma linking_mono: "linking ol E0 t E \<Longrightarrow> E \<subseteq> E' \<Longrightarrow> linking ol E0 t E'"
  by (cases t) (auto simp: linking_Awaiting)

lemma linking_performing:
  assumes "\<And>w. links_grounded ol E0 w \<Longrightarrow> E \<subseteq> set (w_exported w) \<Longrightarrow>
    links_grounded ol E0 (snd (run_state h w))
    \<and> set (w_exported w) \<subseteq> set (w_exported (snd (run_state h w)))
    \<and> linking ol E0 (k (fst (run_state h w))) (set (w_exported (snd (run_state h w))))"
  shows "linking ol E0 (performing h k) E"
  using assms by (simp add: linking_Awaiting performing_def case_prod_beta)

text \<open>Steps that export nothing and store no link.\<close>

definition quiet :: "world \<Rightarrow> world \<Rightarrow> bool" where
  "quiet w w' \<longleftrightarrow> w_exported w' = w_exported w
     \<and> set (job_links (w_database w')) \<subseteq> set (job_links (w_database w))"

lemma quiet_grounded: "quiet w w' \<Longrightarrow> links_grounded ol E0 w \<Longrightarrow> links_grounded ol E0 w'"
  by (auto simp: quiet_def links_grounded_def)

lemma linking_quiet:
  assumes "state_io_rel quiet h" and "\<And>x. linking ol E0 (k x) E"
  shows "linking ol E0 (performing h k) E"
proof (rule linking_performing)
  fix w assume w: "links_grounded ol E0 w" "E \<subseteq> set (w_exported w)"
  have q: "quiet w (snd (run_state h w))" using assms(1) by (simp add: state_io_rel_def)
  with quiet_grounded [OF q w(1)] linking_mono [OF assms(2) w(2)]
  show "links_grounded ol E0 (snd (run_state h w))
    \<and> set (w_exported w) \<subseteq> set (w_exported (snd (run_state h w)))
    \<and> linking ol E0 (k (fst (run_state h w))) (set (w_exported (snd (run_state h w))))"
    by (simp add: quiet_def)
qed

named_theorems quiet_intros

lemma quiet_database [quiet_intros]:
  "(\<And>db. set (job_links (snd (f db))) \<subseteq> set (job_links db)) \<Longrightarrow>
     state_io_rel quiet (instrument_database_operation op f)"
  by (auto simp: state_io_rel_def instrument_database_operation_def record_span_def quiet_def
      split: prod.splits) (metis snd_conv subsetD)

lemma job_links_kept [simp]:
  "job_links (snd (reading g db)) = job_links db"
  "job_links (snd (claim_delivery h f now d db)) = job_links db"
  "job_links (snd (upsert_run f now rid c db)) = job_links db"
  "job_links (snd (enqueue f rid n t db)) = job_links db"
  "job_links (snd (complete clk f rid n qc db)) = job_links db"
  "job_links (snd (upsert_checks f now rid b checks db)) = job_links db"
  by (auto simp: reading_def claim_delivery_def upsert_run_def enqueue_def complete_def
      upsert_checks_def insert_attempt_def complete_rows_def Let_def
      split: option.splits sum.splits if_splits)

lemma job_links_shrink:
  "set (job_links (snd (create_repository st f now nonce n s enabled db))) \<subseteq> set (job_links db)"
  "set (job_links (snd (update_repository st f now nonce ident m db))) \<subseteq> set (job_links db)"
  "set (job_links (snd (delete_repository st f ident db))) \<subseteq> set (job_links db)"
proof -
  show "set (job_links (snd (create_repository st f now nonce n s enabled db))) \<subseteq> set (job_links db)"
    by (rule result_snd [where f = "create_repository st f now nonce n s enabled"])
      (auto dest!: create_repository_Err create_repository_Ok
        simp: insert_repository_def Let_def split: if_splits)
  show "set (job_links (snd (update_repository st f now nonce ident m db))) \<subseteq> set (job_links db)"
    by (rule result_snd [where f = "update_repository st f now nonce ident m"])
      (auto dest!: update_repository_Err update_repository_Ok update_repository_row_Ok(1)
        simp: Let_def)
  show "set (job_links (snd (delete_repository st f ident db))) \<subseteq> set (job_links db)"
    by (rule result_snd [where f = "delete_repository st f ident"])
      (auto dest!: delete_repository_cases simp: delete_repository_row_def)
qed

lemma quiet_refl [simp]: "quiet w w"
  by (simp add: quiet_def)

lemma quiet_bind [quiet_intros]:
  assumes "state_io_rel quiet h" and "\<And>x. state_io_rel quiet (f x)"
  shows "state_io_rel quiet (State_Monad.bind h f)"
proof (rule state_io_relI)
  fix a s s'
  assume r: "run_state (State_Monad.bind h f) s = (a, s')"
  obtain x u where u: "run_state h s = (x, u)" by (cases "run_state h s")
  with r have "run_state (f x) u = (a, s')" by simp
  then have "quiet s u" "quiet u s'" using u assms state_io_relD by metis+
  then show "quiet s s'" by (auto simp: quiet_def)
qed

lemma quiet_effects [quiet_intros]:
  "state_io_rel quiet (State_Monad.return x)" "state_io_rel quiet State_Monad.get"
  "state_io_rel quiet (record_metric m)" "state_io_rel quiet (record_span op calls)"
  "state_io_rel quiet (write_log line)" "state_io_rel quiet new_correlation_id"
  "state_io_rel quiet (request_refresh rq)" "state_io_rel quiet panicking"
  "state_io_rel quiet (context_authenticate n)"
  "state_io_rel quiet (State_Monad.update (w_logs_update f1))"
  "state_io_rel quiet (State_Monad.update (w_repository_update f2))"
  "state_io_rel quiet (State_Monad.update (w_refresher_stopped_update f3))"
  "state_io_rel quiet (State_Monad.update (w_refreshes_update f4))"
  by (auto simp: state_io_rel_def quiet_def record_metric_def record_span_def write_log_def
      new_correlation_id_def request_refresh_def panicking_def context_authenticate_def
      split: if_splits)

lemma quiet_failures [quiet_intros]:
  "state_io_rel quiet (record_failure_logged st r stage message)"
  "state_io_rel quiet (unavailable_error st r stage)"
  "state_io_rel quiet (record_queue_state_failure st n)"
  "state_io_rel quiet (record_workflow_link_failure st n)"
  "state_io_rel quiet (record_pipeline_trace_rejection st request ctx jobs)"
  "state_io_rel quiet (record_step_rejection st n delivery admission limit)"
  unfolding record_queue_state_failure_def record_workflow_link_failure_def unavailable_error_def
    record_failure_logged_def record_pipeline_trace_rejection_def record_step_rejection_def
  by (intro quiet_intros)+

lemma quiet_blocks [quiet_intros]:
  "state_io_rel quiet (process_merge_group st rid request projection et act)"
  "state_io_rel quiet (authenticate_webhook st amb n signature body)"
  "state_io_rel quiet (store_failure e)"
  "state_io_rel quiet (refresh_log level oc message extra)"
  unfolding process_merge_group_def authenticate_webhook_def store_failure_def refresh_log_def Let_def
  by (auto intro!: quiet_intros split: option.split sum.split)
    (auto simp: state_io_rel_def quiet_def)

lemma quiet_api [quiet_intros]:
  "state_io_rel quiet (api_list st amb)" "state_io_rel quiet (api_get st amb raw_id)"
  "state_io_rel quiet (api_update st amb raw_id payload)"
  unfolding api_list_def api_get_def api_update_def Let_def
  by (auto intro!: quiet_intros job_links_shrink split: sum.split prod.split)

named_theorems linking_intros

lemma linking_cases [linking_intros]:
  "(x = None \<Longrightarrow> linking ol E0 a E) \<Longrightarrow> (\<And>y. x = Some y \<Longrightarrow> linking ol E0 (b y) E) \<Longrightarrow>
     linking ol E0 (case x of None \<Rightarrow> a | Some y \<Rightarrow> b y) E"
  "(\<And>e. s = Inl e \<Longrightarrow> linking ol E0 (f e) E) \<Longrightarrow> (\<And>y. s = Inr y \<Longrightarrow> linking ol E0 (b' y) E) \<Longrightarrow>
     linking ol E0 (case s of Inl e \<Rightarrow> f e | Inr y \<Rightarrow> b' y) E"
  "(\<And>y z. p = (y, z) \<Longrightarrow> linking ol E0 (g y z) E) \<Longrightarrow>
     linking ol E0 (case p of (y, z) \<Rightarrow> g y z) E"
  "(c \<Longrightarrow> linking ol E0 a E) \<Longrightarrow> (\<not> c \<Longrightarrow> linking ol E0 a' E) \<Longrightarrow>
     linking ol E0 (if c then a else a') E"
  by (auto split: option.split sum.split prod.split)

text \<open>The four steps that are not quiet: the listing, the two exports, and the recording.\<close>

lemma linking_run:
  assumes "\<And>w x w'. run_state h w = (x, w') \<Longrightarrow> links_grounded ol E0 w \<Longrightarrow> E \<subseteq> set (w_exported w) \<Longrightarrow>
    links_grounded ol E0 w' \<and> set (w_exported w) \<subseteq> set (w_exported w')
    \<and> linking ol E0 (k x) (set (w_exported w'))"
  shows "linking ol E0 (performing h k) E"
proof (rule linking_performing)
  fix w assume "links_grounded ol E0 w" "E \<subseteq> set (w_exported w)"
  from assms [OF prod.collapse [symmetric] this]
  show "links_grounded ol E0 (snd (run_state h w))
    \<and> set (w_exported w) \<subseteq> set (w_exported (snd (run_state h w)))
    \<and> linking ol E0 (k (fst (run_state h w))) (set (w_exported (snd (run_state h w))))" .
qed

lemma linking_listing:
  assumes "otel_hex_ok ol"
    and "\<And>r E'. E \<subseteq> E' \<Longrightarrow> (\<And>js j. r = Ok js \<Longrightarrow> j \<in> set js \<Longrightarrow> grounded_job (E0 \<union> E') j) \<Longrightarrow>
      linking ol E0 (k r) E'"
  shows "linking ol E0 (performing (instrument_database_operation op
    (reading (list_links ol f rid run attempt limit))) k) E"
proof (rule linking_run)
  fix w x w'
  assume w: "links_grounded ol E0 w" "E \<subseteq> set (w_exported w)" and
    "run_state (instrument_database_operation op
      (reading (list_links ol f rid run attempt limit))) w = (x, w')"
  then have x: "x = list_links ol f rid run attempt limit (w_database w)"
    "w_exported w' = w_exported w" "w_database w' = w_database w"
    by (auto simp: instrument_database_operation_def reading_def record_span_def)
  have "linking ol E0 (k x) (set (w_exported w))"
  proof (rule assms(2) [OF w(2)])
    fix js j assume "x = Ok js" "j \<in> set js"
    with w(1) assms(1) x(1) show "grounded_job (E0 \<union> set (w_exported w)) j"
      by (metis links_grounded_def list_links_grounded)
  qed
  with w x show "links_grounded ol E0 w' \<and> set (w_exported w) \<subseteq> set (w_exported w')
    \<and> linking ol E0 (k x) (set (w_exported w'))"
    by (simp add: links_grounded_def)
qed

text \<open>An export keeps the links grounded when each of its spans is.\<close>

lemma export_grounded:
  assumes g: "links_grounded ol E0 w" and w': "w_database w' = w_database w"
    "w_exported w' = w_exported w @ spans"
    and new: "\<And>x. x \<in> set spans \<Longrightarrow> grounded_span (E0 \<union> set (w_exported w')) x"
  shows "links_grounded ol E0 w'"
proof -
  have E: "E0 \<union> set (w_exported w) \<subseteq> E0 \<union> set (w_exported w')" using w'(2) by auto
  show ?thesis
    unfolding links_grounded_def
  proof (intro conjI ballI)
    fix row assume "row \<in> set (job_links (w_database w'))"
    with g w'(1) show "grounded_row ol (E0 \<union> set (w_exported w')) row"
      by (intro grounded_mono(1) [OF _ E]) (simp add: links_grounded_def)
  next
    fix x assume "x \<in> set (w_exported w')"
    then consider "x \<in> set (w_exported w)" | "x \<in> set spans" using w'(2) by auto
    then show "grounded_span (E0 \<union> set (w_exported w')) x"
    proof cases
      case 1
      with g show ?thesis by (intro grounded_mono(2) [OF _ E]) (simp add: links_grounded_def)
    qed (rule new)
  qed
qed

lemma linking_export_pipeline:
  assumes "\<And>j. j \<in> set (prt_jobs p) \<Longrightarrow> grounded_job (E0 \<union> E) j" and "\<And>u. linking ol E0 (k u) E"
  shows "linking ol E0 (performing (do {
       w \<leftarrow> State_Monad.get;
       exporting (emit_pipeline cl h em (length (w_exported w)) p) }) k) E"
proof (rule linking_run)
  fix w x w'
  assume w: "links_grounded ol E0 w" "E \<subseteq> set (w_exported w)" and
    r: "run_state (do { w \<leftarrow> State_Monad.get;
      exporting (emit_pipeline cl h em (length (w_exported w)) p) }) w = (x, w')"
  obtain spans reports where e: "emit_pipeline cl h em (length (w_exported w)) p = Some (spans, reports)"
    using emit_pipeline_total by blast
  with r have w': "w_database w' = w_database w" "w_exported w' = w_exported w @ spans"
    by (auto simp: exporting_def)
  then have E: "E0 \<union> E \<subseteq> E0 \<union> set (w_exported w')" "E \<subseteq> set (w_exported w')" using w(2) by auto
  have "links_grounded ol E0 w'"
    by (rule export_grounded [OF w(1) w'], rule emit_pipeline_grounded [OF e])
      (use assms(1) grounded_mono(3) [OF _ E(1)] in blast)+
  with linking_mono [OF assms(2) E(2)] w' show "links_grounded ol E0 w'
      \<and> set (w_exported w) \<subseteq> set (w_exported w') \<and> linking ol E0 (k x) (set (w_exported w'))"
    by simp
qed

text \<open>The SDK's identifiers have the length the store writes.\<close>

definition tracer_ok :: "workflow_trace_emitter \<Rightarrow> bool" where
  "tracer_ok em \<longleftrightarrow> (case emitter_tracer em of None \<Rightarrow> True
     | Some tracer \<Rightarrow> \<forall>n parent. length (sc_trace_id (tracer n parent)) = 16
         \<and> length (sc_span_id (tracer n parent)) = 8)"

definition emitted_root :: "exported_span set \<Rightarrow> 'u workflow_job_trace \<Rightarrow> trace_identity \<Rightarrow> bool" where
  "emitted_root E job i \<longleftrightarrow> length (id_trace_id i) = 16 \<and> length (id_span_id i) = 8
     \<and> (\<exists>x \<in> E. job_root (id_trace_id i) (id_span_id i) (timing_start (job_timing job))
          (timing_end (job_timing job)) x)"

lemma linking_export_job:
  assumes "tracer_ok em"
    and "\<And>oi E'. E \<subseteq> E' \<Longrightarrow> (\<And>i. oi = Some i \<Longrightarrow> emitted_root E' job i) \<Longrightarrow> linking ol E0 (k oi) E'"
  shows "linking ol E0 (performing (do {
         w \<leftarrow> State_Monad.get;
         let out = emit h em (length (w_exported w)) job
         in do {
           exporting (map_option (\<lambda>x. (em_spans x, em_reports x)) out);
           State_Monad.return (Option.bind out em_identity) } }) k) E"
proof (rule linking_run)
  fix w oi w'
  assume w: "links_grounded ol E0 w" "E \<subseteq> set (w_exported w)" and
    r: "run_state (do {
         w \<leftarrow> State_Monad.get;
         let out = emit h em (length (w_exported w)) job
         in do {
           exporting (map_option (\<lambda>x. (em_spans x, em_reports x)) out);
           State_Monad.return (Option.bind out em_identity) } }) w = (oi, w')"
  obtain out where e: "emit h em (length (w_exported w)) job = Some out"
    using emit_total by blast
  with r have w': "w_database w' = w_database w" "w_exported w' = w_exported w @ em_spans out"
    "oi = em_identity out" by (auto simp: exporting_def Let_def)
  have "links_grounded ol E0 w'"
    by (rule export_grounded [OF w(1) w'(1,2)]) (simp add: grounded_span_def emit_grounded(1) [OF e])
  moreover have "linking ol E0 (k oi) (set (w_exported w'))"
  proof (rule assms(2))
    show "E \<subseteq> set (w_exported w')" using w(2) w'(2) by auto
    fix i assume "oi = Some i"
    with w'(3) have i: "em_identity out = Some i" by simp
    show "emitted_root (set (w_exported w')) job i"
      using emit_grounded(2) [OF e i] assms(1) w'(2) by (auto simp: emitted_root_def tracer_ok_def)
  qed
  ultimately show "links_grounded ol E0 w' \<and> set (w_exported w) \<subseteq> set (w_exported w')
      \<and> linking ol E0 (k oi) (set (w_exported w'))" using w'(2) by simp
qed

lemma linking_record:
  assumes "emitted_root E job i" and "\<And>r. linking ol E0 (k r) E"
  shows "linking ol E0 (performing (instrument_database_operation op
    (record_link ol f now rid job i)) k) E"
proof (rule linking_run)
  fix w r w'
  assume w: "links_grounded ol E0 w" "E \<subseteq> set (w_exported w)" and
    "run_state (instrument_database_operation op (record_link ol f now rid job i)) w = (r, w')"
  then have x: "record_link ol f now rid job i (w_database w) = (r, w_database w')"
    "w_exported w' = w_exported w"
    by (auto simp: instrument_database_operation_def record_span_def split: prod.splits)
  from assms(1) obtain y where y: "length (id_trace_id i) = 16" "length (id_span_id i) = 8" "y \<in> E"
    "job_root (id_trace_id i) (id_span_id i) (timing_start (job_timing job))
      (timing_end (job_timing job)) y" by (auto simp: emitted_root_def)
  have "y \<in> E0 \<union> set (w_exported w)" using y(3) w(2) by blast
  from recorded_link_grounded [OF x(1) _ y(1,2) this y(4)] w(1)
  have "links_grounded ol E0 w'" by (simp add: links_grounded_def x(2))
  with linking_mono [OF assms(2) w(2)] show "links_grounded ol E0 w'
      \<and> set (w_exported w) \<subseteq> set (w_exported w') \<and> linking ol E0 (k r) (set (w_exported w'))"
    by (simp add: x(2))
qed

subsection \<open>Requests\<close>

lemmas linking_steps [linking_intros] =
  linking_quiet [OF quiet_failures(2)] linking_quiet [OF quiet_failures(3)]
  linking_quiet [OF quiet_failures(4)] linking_quiet [OF quiet_failures(5)]
  linking_quiet [OF quiet_failures(6)] linking_quiet [OF quiet_effects(3)]
  linking_quiet [OF quiet_effects(4)] linking_quiet [OF quiet_effects(5)]
  linking_quiet [OF quiet_effects(7)] linking_quiet [OF quiet_effects(8)]
  linking_quiet [OF quiet_effects(10)] linking_quiet [OF quiet_effects(11)]
  linking_quiet [OF quiet_effects(12)] linking_quiet [OF quiet_blocks(1)]
  linking_quiet [OF quiet_blocks(2)] linking_quiet [OF quiet_blocks(4)]
  linking_quiet [OF quiet_api(1)] linking_quiet [OF quiet_api(2)] linking_quiet [OF quiet_api(3)]

lemma linking_database [linking_intros]:
  "(\<And>r. linking ol E0 (k1 r) E) \<Longrightarrow> linking ol E0 (performing (instrument_database_operation op
     (claim_delivery h f now d)) k1) E"
  "(\<And>r. linking ol E0 (k2 r) E) \<Longrightarrow> linking ol E0 (performing (instrument_database_operation op
     (upsert_run f now rid c)) k2) E"
  "(\<And>r. linking ol E0 (k3 r) E) \<Longrightarrow> linking ol E0 (performing (instrument_database_operation op
     (enqueue f rid n t)) k3) E"
  "(\<And>r. linking ol E0 (k4 r) E) \<Longrightarrow> linking ol E0 (performing (instrument_database_operation op
     (complete clk f rid n qc)) k4) E"
  "(\<And>r. linking ol E0 (k5 r) E) \<Longrightarrow> linking ol E0 (performing (instrument_database_operation op
     (upsert_checks f now rid b checks)) k5) E"
  "(\<And>r. linking ol E0 (k6 r) E) \<Longrightarrow> linking ol E0 (performing (instrument_database_operation op
     (create_repository st f now nonce name s enabled)) k6) E"
  "(\<And>r. linking ol E0 (k7 r) E) \<Longrightarrow> linking ol E0 (performing (instrument_database_operation op
     (delete_repository st f ident)) k7) E"
  "(\<And>r. linking ol E0 (k8 r) E) \<Longrightarrow> linking ol E0 (performing (instrument_database_operation op
     (reading (get_run f rid run attempt))) k8) E"
  "(\<And>r. linking ol E0 (k9 r) E) \<Longrightarrow> linking ol E0 (performing (instrument_database_operation op
     (reading (get_fresh clk rcs f rid b now'))) k9) E"
  by (rule linking_quiet; (intro quiet_intros)?; simp add: job_links_shrink)+

text \<open>What the promise rests on outside the repository.\<close>

definition linkable :: "'u app_state \<Rightarrow> bool" where
  "linkable st \<longleftrightarrow> otel_hex_ok (lib_otel (app_libraries st))
     \<and> tracer_ok (app_workflow_trace_emitter st)"

abbreviation linking_in :: "'u app_state \<Rightarrow> exported_span set \<Rightarrow> 'a task \<Rightarrow> exported_span set \<Rightarrow> bool" where
  "linking_in st \<equiv> linking (lib_otel (app_libraries st))"

lemma linking_workflow_run [linking_intros]:
  assumes "linkable st" and "\<And>r E'. E \<subseteq> E' \<Longrightarrow> linking_in st E0 (k r) E'"
  shows "linking_in st E0 (process_workflow_run_task st amb rid request et act k) E"
proof -
  have hex: "otel_hex_ok (lib_otel (app_libraries st))" using assms(1) by (simp add: linkable_def)
  have e: "linking_in st E0
      (emit_pipeline_trace_task st amb rid request ctx (\<lambda>_. k (Ok ()))) E" for ctx
    unfolding emit_pipeline_trace_task_def
    by (intro linking_intros linking_listing [OF hex] linking_export_pipeline)
      (auto simp: assms(2) dest: pipeline_run_trace_new_SomeD(3))
  show ?thesis
    unfolding process_workflow_run_task_def
    by (intro linking_intros e assms(2)) simp_all
qed

lemma linking_workflow_job [linking_intros]:
  assumes "linkable st" and "\<And>r E'. E \<subseteq> E' \<Longrightarrow> linking_in st E0 (k r) E'"
  shows "linking_in st E0 (process_workflow_job_task st amb rid request et act k) E"
proof -
  have t: "tracer_ok (app_workflow_trace_emitter st)" using assms(1) by (simp add: linkable_def)
  have e: "linking_in st E0 (emit_and_link_task st amb rid n job (\<lambda>_. k (Ok ()))) E" for n job
    unfolding emit_and_link_task_def
    by (rule linking_export_job [OF t], intro linking_intros linking_record) (auto simp: assms(2))
  have r: "linking_in st E0 (resolve_required_checks_task st amb rid n ctx k') E"
    if "\<And>c. linking_in st E0 (k' c) E" for n ctx k'
    unfolding resolve_required_checks_task_def by (intro linking_intros that)
  show ?thesis
    unfolding process_workflow_job_task_def
    by (intro linking_intros e r assms(2)) simp_all
qed

lemma linking_events [linking_intros]:
  "(\<And>u. linking ol E0 (k1 u) E) \<Longrightarrow>
     linking ol E0 (process_merge_group_task st rid request projection et act k1) E"
  "(\<And>u. linking ol E0 (k2 u) E) \<Longrightarrow>
     linking ol E0 (process_pull_request_task st amb rid request projection et act k2) E"
proof -
  show "(\<And>u. linking ol E0 (k1 u) E) \<Longrightarrow>
     linking ol E0 (process_merge_group_task st rid request projection et act k1) E"
    unfolding process_merge_group_task_def by (intro linking_intros)
  have c: "(\<And>r. linking ol E0 (k r) E) \<Longrightarrow>
      linking ol E0 (complete_attempt_task st amb q number completion mc k) E"
    for q number completion mc k
    unfolding complete_attempt_task_def
    by (auto intro!: linking_intros split: completion_transition.split)
  have a: "(\<And>r. linking ol E0 (k r) E) \<Longrightarrow>
      linking ol E0 (apply_transition_task st amb q tr number t k) E" for q tr number t k
    unfolding apply_transition_task_def
    by (auto split: pull_request_transition.split intro!: linking_intros c)
  have p: "(\<And>r. linking ol E0 (k r) E) \<Longrightarrow> linking ol E0 (process_task st amb q projection k) E"
    for q projection k
    unfolding process_task_def by (intro linking_intros a)
  show "(\<And>u. linking ol E0 (k2 u) E) \<Longrightarrow>
     linking ol E0 (process_pull_request_task st amb rid request projection et act k2) E"
    unfolding process_pull_request_task_def by (intro linking_intros p)
qed

lemma linking_new_delivery [linking_intros]:
  assumes "linkable st" and "\<And>r E'. E \<subseteq> E' \<Longrightarrow> linking_in st E0 (k r) E'"
  shows "linking_in st E0 (process_new_delivery_task st amb rid request projection et act k) E"
  unfolding process_new_delivery_task_def
  by (intro linking_intros assms) auto

lemma linking_delivery [linking_intros]:
  assumes "linkable st" and "\<And>r E'. E \<subseteq> E' \<Longrightarrow> linking_in st E0 (k r) E'"
  shows "linking_in st E0 (process_delivery_task st amb rid request k) E"
  unfolding process_delivery_task_def Let_def
  by (intro linking_intros assms(2))
    (auto split: delivery_claim.split intro!: linking_intros assms)

lemma linking_webhook_handler [linking_intros]:
  assumes "linkable st" and "\<And>r E'. E \<subseteq> E' \<Longrightarrow> linking_in st E0 (k r) E'"
  shows "linking_in st E0 (webhook_handler_task st amb request k) E"
proof -
  have c: "state_io_rel quiet (do { context_authenticate n; record_span op calls })" for n op calls
    by (intro quiet_intros)
  show ?thesis
    unfolding webhook_handler_task_def Let_def
    by (intro linking_intros assms(1))
      (auto split: webhook_authentication_error.split
        intro!: linking_intros linking_quiet [OF c] assms)
qed

lemma linking_answering [linking_intros]:
  "(\<And>a. linking ol E0 (k a) E) \<Longrightarrow> linking ol E0 (answering_task st r k) E"
  unfolding answering_task_def by (intro linking_intros)

lemma linking_serve_webhook:
  assumes "linkable st"
  shows "linking_in st E0 (serve_webhook_task st amb rq) E"
proof -
  have q: "state_io_rel quiet (do { w \<leftarrow> State_Monad.get; record_metric (m w) })"
    "state_io_rel quiet (do { w \<leftarrow> State_Monad.get; record_span op (calls w) })" for m op calls
    by (intro quiet_intros)+
  show ?thesis
    unfolding serve_webhook_task_def observe_http_request_task_def observe_webhook_request_task_def
      webhook_endpoint_task_def
    by (auto intro!: linking_intros linking_quiet [OF q(1)] linking_quiet [OF q(2)] assms)
qed

lemma linking_serve_api: "linking ol E0 (serve_api_task st amb rq call) E"
proof -
  have q: "state_io_rel quiet (do { w \<leftarrow> State_Monad.get; record_span op (calls w) })"
    "state_io_rel quiet (do { err \<leftarrow> store_failure e; record_span op calls'; State_Monad.return err })"
    for op calls calls' e
    by (intro quiet_intros)+
  show ?thesis
    unfolding serve_api_task_def observe_http_request_task_def api_endpoint_task_def
      api_handler_task_def api_create_task_def api_delete_task_def Let_def
    by (auto intro!: linking_intros linking_quiet [OF q(1)] linking_quiet [OF q(2)]
        split: api_call.split)
qed

lemma linking_run_turn: "linking ol E0 (run_turn_task st source amb cancelled) E"
proof -
  have q: "state_io_rel quiet (do {
          w \<leftarrow> State_Monad.get;
          case w_refreshes w of
            [] \<Rightarrow> State_Monad.return None
          | rq # rest \<Rightarrow> do {
              State_Monad.update (w_refreshes_update (\<lambda>_. rest));
              State_Monad.return (Some rq) } })"
    by (auto simp: state_io_rel_def quiet_def split: list.splits)
  show ?thesis
    unfolding run_turn_task_def refresh_task_def
    by (intro linking_intros linking_quiet [OF q]) simp_all
qed

subsection \<open>The pool\<close>

lemma batch_links:
  assumes "store \<in> clock_prunables clk" and "prune_batch_erased store f c db = (r, db')"
  shows "set (job_links db') \<subseteq> set (job_links db)"
  using assms(1) unfolding clock_prunables_def
  by (elim insertE emptyE; use assms(2) in hypsubst)
    (auto simp: delivery_prunable_def merge_queue_prunable_def workflow_run_prunable_def
      workflow_job_link_prunable_def required_check_prunable_def erase_def prune_deliveries_def
      prune_completed_def prune_runs_def prune_links_def prune_checks_def prune_rows_def Let_def
      split: option.splits sum.splits prod.splits)

lemma prune_advance_links:
  assumes "prune_advance shutdown faults p db = Some (p', db')"
    and "pruning_among (clock_prunables clk) p"
  shows "set (job_links db') \<subseteq> set (job_links db) \<and> pruning_among (clock_prunables clk) p'"
  using assms
proof (induction shutdown faults p db rule: prune_advance.induct)
  case (4 shutdown faults store cutoff remaining oc i db)
  obtain r db1 where b: "prune_batch_erased store (faults i) cutoff db = (r, db1)" by fastforce
  have "set (job_links db1) \<subseteq> set (job_links db)" using batch_links [of store clk, OF _ b] 4(2) by simp
  with 4 b show ?case by (cases r) (auto split: if_splits)
qed auto

fun linked_thread ::
  "time_lib \<Rightarrow> otel_lib \<Rightarrow> exported_span set \<Rightarrow> exported_span set \<Rightarrow> service_thread \<Rightarrow> bool" where
  "linked_thread clk ol E0 E (Serving r d t) = linking ol E0 t E"
| "linked_thread clk ol E0 E (Refreshing d t) = linking ol E0 t E"
| "linked_thread clk ol E0 E (Pruning shutdown faults p) = pruning_among (clock_prunables clk) p"
| "linked_thread clk ol E0 E (Abandoned d) = True"

lemma linked_thread_mono:
  "linked_thread clk ol E0 E t \<Longrightarrow> E \<subseteq> E' \<Longrightarrow> linked_thread clk ol E0 E' t"
  by (cases t) (auto intro: linking_mono)

definition linked_pool ::
  "time_lib \<Rightarrow> otel_lib \<Rightarrow> exported_span set \<Rightarrow> service_thread multiset \<Rightarrow> world \<Rightarrow> bool" where
  "linked_pool clk ol E0 T w \<longleftrightarrow> links_grounded ol E0 w
     \<and> (\<forall>t \<in># T. linked_thread clk ol E0 (set (w_exported w)) t)"

lemma linked_start:
  assumes "linkable st" and "service_thread_start st source config t"
  shows "linked_thread (lib_clock (app_libraries st)) (lib_otel (app_libraries st)) E0 E t"
  using assms(2)
proof cases
  case (retention shutdown faults now)
  then show ?thesis by (simp add: retention_workloads_def clock_prunables_def Let_def)
qed (simp_all add: linking_serve_webhook [OF assms(1)] linking_serve_api linking_run_turn)

lemma linked_step:
  assumes "service_thread_step sch t w = Some (t', w')" and "links_grounded ol E0 w"
    and "linked_thread clk ol E0 (set (w_exported w)) t"
  shows "links_grounded ol E0 w' \<and> set (w_exported w) \<subseteq> set (w_exported w')
    \<and> linked_thread clk ol E0 (set (w_exported w')) t'"
  using assms
proof (induction sch t w rule: service_thread_step.induct)
  case (1 r d h w)
  let ?w = "w\<lparr>w_repository := r\<rparr>"
  obtain t1 w1 where h: "h ?w = (t1, w1)" by fastforce
  have "links_grounded ol E0 ?w" using 1(2) by (simp add: links_grounded_def)
  with 1(3) h have "links_grounded ol E0 w1 \<and> set (w_exported w) \<subseteq> set (w_exported w1)
      \<and> linking ol E0 t1 (set (w_exported w1))"
    using linking_Awaiting [of ol E0 h "set (w_exported w)"] by fastforce
  with 1(1) h show ?case by (auto simp: links_grounded_def)
next
  case (2 d h w)
  obtain t1 w1 where h: "h w = (t1, w1)" by fastforce
  with 2(2,3) have "links_grounded ol E0 w1 \<and> set (w_exported w) \<subseteq> set (w_exported w1)
      \<and> linking ol E0 t1 (set (w_exported w1))"
    using linking_Awaiting [of ol E0 h "set (w_exported w)"] by fastforce
  with 2(1) h show ?case by auto
next
  case (3 shutdown faults p w)
  then obtain p' db where p: "prune_advance shutdown faults p (w_database w) = Some (p', db)"
    "t' = Pruning shutdown faults p'" "w' = w\<lparr>w_database := db\<rparr>" by auto
  with 3(3) prune_advance_links [OF p(1)]
  have "set (job_links db) \<subseteq> set (job_links (w_database w)) \<and> pruning_among (clock_prunables clk) p'"
    by simp
  with 3(2) p(2,3) show ?case by (auto simp: links_grounded_def)
qed auto

lemma linked_service_pool:
  assumes "linkable st" and "links_grounded (lib_otel (app_libraries st)) E0 w0"
  shows "pool_law service_thread_step (service_thread_start st source config) w0
    (linked_pool (lib_clock (app_libraries st)) (lib_otel (app_libraries st)) E0)"
proof
  show "linked_pool (lib_clock (app_libraries st)) (lib_otel (app_libraries st)) E0 {#} w0"
    using assms(2) by (simp add: linked_pool_def)
next
  fix T w t
  assume "linked_pool (lib_clock (app_libraries st)) (lib_otel (app_libraries st)) E0 T w"
    and "service_thread_start st source config t"
  then show "linked_pool (lib_clock (app_libraries st)) (lib_otel (app_libraries st)) E0 (add_mset t T) w"
    using linked_start [OF assms(1)] by (auto simp: linked_pool_def)
next
  fix t T w sch t' w'
  assume i: "linked_pool (lib_clock (app_libraries st)) (lib_otel (app_libraries st)) E0 (add_mset t T) w"
    and s: "service_thread_step sch t w = Some (t', w')"
  then have "links_grounded (lib_otel (app_libraries st)) E0 w'
      \<and> set (w_exported w) \<subseteq> set (w_exported w')
      \<and> linked_thread (lib_clock (app_libraries st)) (lib_otel (app_libraries st)) E0
          (set (w_exported w')) t'"
    by (intro linked_step) (auto simp: linked_pool_def)
  with i show "linked_pool (lib_clock (app_libraries st)) (lib_otel (app_libraries st)) E0
      (add_mset t' T) w'"
    using linked_thread_mono by (fastforce simp: linked_pool_def)
qed

end
