(* ===== verification/Linked_Properties.thy ===== *)
theory Linked_Properties
  imports Linked_Traces
begin

section \<open>The links of a run's trace, across requests\<close>

text \<open>
  The property of \<open>Linked_Traces\<close>, and the run that shows it is not empty: a process that starts with
  the link an earlier one recorded, and is sent the delivery of the completed run.
\<close>

subsection \<open>A run with one linked job\<close>

definition long_tracer :: tracer where
  "long_tracer n parent =
     \<lparr>sc_trace_id = replicate 16 1, sc_span_id = replicate 8 (of_nat n), sc_sampled = True,
      sc_remote = False\<rparr>"

definition linked_app :: "nat app_state" where
  "linked_app = (sample_app (sample_body sample_run_members))
     \<lparr>app_workflow_trace_emitter := emitter_new long_tracer\<rparr>"

definition linked_row :: job_link_row where
  "linked_row =
     \<lparr>jl_rowid = 1, jl_repository_id = 1, jl_run_id = 5, jl_run_attempt = 1, jl_job_id = 2,
      jl_job_name = None, jl_conclusion = lit ''success'',
      jl_trace_id = trace_hex sample_otel (replicate 16 1),
      jl_span_id = span_hex sample_otel (replicate 8 9), jl_started_at_nanos = 3,
      jl_completed_at_nanos = 4, jl_timing_source = lit ''reported'', jl_updated_at = []\<rparr>"

definition linked_world :: world where
  "linked_world = sample_world
     \<lparr>w_database := (w_database sample_world)\<lparr>job_links := [linked_row]\<rparr>\<rparr>"

lemma linked_app_simps [simp]:
  "app_libraries linked_app = sample_libraries (sample_body sample_run_members)"
  "app_workflow_trace_emitter linked_app = emitter_new long_tracer"
  "app_repository_store linked_app = sample_store"
  by (simp_all add: linked_app_def sample_app_def with_workflow_trace_emitter_def app_state_new_def)

lemma linked_summary: "\<exists>j. into_summary sample_otel linked_row = Some j
   \<and> link_span_context (sum_identity j) = \<lparr>sc_trace_id = replicate 16 1, sc_span_id = replicate 8 9,
       sc_sampled = True, sc_remote = True\<rparr>"
proof -
  have "trace_from_hex sample_otel (trace_hex sample_otel (replicate 16 1)) = Some (replicate 16 1)"
    "span_from_hex sample_otel (span_hex sample_otel (replicate 8 9)) = Some (replicate 8 9)"
    using sample_otel_ok by (simp_all add: otel_hex_ok_def)
  then show ?thesis
    by (simp add: into_summary_def linked_row_def workflow_job_id_new_def Let_def
        normalize_stored_conclusion_def workflow_conclusion_normalize_as_str [of workflow_conclusion.Success,
          unfolded workflow_conclusion_as_str_def, simplified]
        identity_is_valid_def invalid_trace_id_def invalid_span_id_def nanos_to_system_time_def
        timing_derived_def link_span_context_def workflow_conclusion_as_str_def)
qed

lemma sample_context_value:
  "\<exists>c. project_context (lib_from_slice (sample_libraries (sample_body sample_run_members))) b = Some c
    \<and> ctx_run_id c = WorkflowRunId 5 \<and> ctx_run_attempt c = WorkflowRunAttempt 1"
  by (simp add: sample_libraries_def project_context_def sample_body_def sample_run_members_def
      read_workflow_run_envelope_def read_workflow_run_def workflow_run_id_new_def
      workflow_run_attempt_new_def reader_defs lit_def workflow_run_context_new_def Let_def)

lemma sample_summary_value:
  "\<exists>s. project_run_summary (lib_from_slice (sample_libraries (sample_body sample_run_members))) b = Some s"
  by (simp add: sample_libraries_def project_run_summary_def sample_body_def sample_run_members_def
      read_workflow_run_envelope_def read_workflow_run_def reader_defs lit_def)

lemma linked_projection:
  "\<exists>pr. Option.bind (lib_from_slice (sample_libraries (sample_body sample_run_members)) b)
     read_event_projection = Some pr \<and> normalize_action (ep_action pr) = action.Completed"
  by (simp add: sample_libraries_def read_event_projection_def sample_body_def sample_run_members_def
      reader_defs lit_def normalize_action_def)

lemma linked_upsert:
  assumes "repositories db = [sample_row]" and "run_contexts db = []"
    and "ctx_run_id c = WorkflowRunId 5" and "ctx_run_attempt c = WorkflowRunAttempt 1"
    and "ctx_source_branch c = None" "ctx_target_branch c = None"
  shows "\<exists>db'. upsert_run no_faults [] (RepositoryId 1) c db = (Ok (), db')
    \<and> job_links db' = job_links db"
  using assms
  by (cases "ctx_event c") (simp_all add: upsert_run_def no_faults_def upsert_statement_def
      run_check_def branch_check_def context_row_def repository_ids_def sample_row_def
      workflow_event_as_str_def)

lemma sample_context_branches:
  "project_context (lib_from_slice (sample_libraries (sample_body sample_run_members))) b = Some c \<Longrightarrow>
     ctx_run_id c = WorkflowRunId 5 \<and> ctx_run_attempt c = WorkflowRunAttempt 1
     \<and> ctx_source_branch c = None \<and> ctx_target_branch c = None"
  by (auto simp: sample_libraries_def project_context_def sample_body_def sample_run_members_def
      read_workflow_run_envelope_def read_workflow_run_def workflow_run_id_new_def
      workflow_run_attempt_new_def reader_defs lit_def workflow_run_context_new_def Let_def
      optional_str_def unique_branch_def)

lemma linked_pipeline:
  assumes "into_summary sample_otel linked_row = Some j"
  shows "\<exists>p spans reports. pipeline_run_trace_new
      \<lparr>prp_repository_name = n, prp_delivery_id = d, prp_workflow_name = wn, prp_head_sha = sha,
       prp_pull_requests = prs, prp_run_context = c, prp_jobs = [j]\<rparr> = Some p
    \<and> emit_pipeline cl h (emitter_new long_tracer) 0 p = Some (spans, reports)
    \<and> (\<exists>y \<in> set spans. xs_links y = [link_span_context (sum_identity j)])"
proof -
  obtain p where p: "pipeline_run_trace_new
      \<lparr>prp_repository_name = n, prp_delivery_id = d, prp_workflow_name = wn, prp_head_sha = sha,
       prp_pull_requests = prs, prp_run_context = c, prp_jobs = [j]\<rparr> = Some p" "prt_jobs p = [j]"
    by (simp add: pipeline_run_trace_new_def aggregate_timing_def MAX_PIPELINE_JOB_SPANS_def Let_def)
  obtain spans reports where e: "emit_tasks (emitter_new long_tracer) long_tracer p
      (long_tracer 0 (pipeline_root_context cl p)) 1 [j] = Some (spans, reports)"
    and m: "list_all2 (task_matches p (long_tracer 0 (pipeline_root_context cl p))) [j] spans"
    using emit_tasks_spec [of "emitter_new long_tracer" long_tracer p
      "long_tracer 0 (pipeline_root_context cl p)" 1 "[j]"] by blast
  then obtain y where "spans = [y]" "xs_links y = [link_span_context (sum_identity j)]"
    by (auto simp: list_all2_Cons1 task_matches_def)
  with p e show ?thesis by (auto simp: emit_pipeline_def emitter_new_def Let_def)
qed

lemma linked_listing:
  assumes "job_links db = [linked_row]" and "into_summary sample_otel linked_row = Some j"
  shows "list_links sample_otel no_faults (RepositoryId 1) (WorkflowRunId 5) (WorkflowRunAttempt 1)
    (MAX_PIPELINE_JOB_SPANS + 1) db = Ok [j]"
  using assms by (simp add: list_links_def no_faults_def MAX_PIPELINE_JOB_SPANS_def i64_max_def
      linked_row_def List.map_filter_def)

lemma linked_request:
  "webhook_request_from_request linked_app (sample_http_request ''workflow_run'')
     = Ok (sample_webhook_request ''workflow_run'')"
proof -
  have "webhook_request_from_request (sample_app (sample_body sample_run_members))
      (sample_http_request ''workflow_run'') = Ok (sample_webhook_request ''workflow_run'')"
    by (rule sample_extraction) (simp_all add: sample_run_members_def lit_def)
  then show ?thesis by (simp add: linked_app_def webhook_request_from_request_def)
qed

lemma linked_answer:
  "authentication_answer linked_app sample_ambient (sample_webhook_request ''workflow_run'')
     (w_database linked_world) = Ok (RepositoryId 1)"
proof -
  have "authentication_answer (sample_app (sample_body sample_run_members)) sample_ambient
      (sample_webhook_request ''workflow_run'') (w_database linked_world) = Ok (RepositoryId 1)"
    by (rule authentication_answer_repositories [OF sample_answer])
      (simp_all add: linked_world_def sample_ambient_def no_faults_def)
  moreover have "app_repository_store (sample_app v) = app_repository_store linked_app" for v
    by (simp add: linked_app_def sample_app_def with_workflow_trace_emitter_def app_state_new_def)
  ultimately show ?thesis unfolding authentication_answer_def by metis
qed

lemma linked_run:
  "\<exists>T w. pool_reachable service_thread_step (service_thread_start linked_app source config)
       linked_world T w
     \<and> (\<exists>y \<in> set (w_exported w). \<exists>l \<in> set (xs_links y).
          sc_trace_id l = replicate 16 1 \<and> sc_span_id l = replicate 8 9)"
proof -
  let ?rq = "sample_http_request ''workflow_run''" and ?q = "sample_webhook_request ''workflow_run''"
  let ?t = "Serving None 0 (serve_webhook_task linked_app sample_ambient ?rq)"
  let ?v = "linked_world\<lparr>w_repository := None\<rparr>"
  have call: "pool_reachable service_thread_step (service_thread_start linked_app source config)
      linked_world {#?t#} linked_world"
    by (rule pool_call [OF pool_initial]) (rule service_thread_start.webhook)
  obtain f where f: "run_state (authenticate_webhook linked_app sample_ambient
      (wq_repository_name ?q) (wq_signature ?q) (wq_body ?q)) ?v
      = (Ok (RepositoryId 1), w_spans_update f ?v)"
    using authenticate_webhook_run [of linked_app sample_ambient ?q ?v] linked_answer by auto
  have event: "normalize_event_type (wq_event_type ?q) = event_type.WorkflowRun"
    by (simp add: sample_webhook_request_def normalize_event_type_def lit_def)
  obtain pr where pr: "Option.bind (lib_from_slice (app_libraries linked_app) (wq_body ?q))
      read_event_projection = Some pr" "normalize_action (ep_action pr) = action.Completed"
    using linked_projection by auto
  define db1 where "db1 = (w_database linked_world)\<lparr>deliveries := deliveries (w_database linked_world)
    @ [\<lparr>dr_delivery_id = delivery_id_encode_lower (lib_hyphenated (app_libraries linked_app))
          (wq_delivery_id ?q), dr_received_at = []\<rparr>]\<rparr>"
  have claim: "claim_delivery (lib_hyphenated (app_libraries linked_app)) no_faults []
      (wq_delivery_id ?q) (w_database linked_world) = (Ok delivery_claim.New, db1)"
    unfolding db1_def
    by (rule claim_new) (simp_all add: no_faults_def claimed_def linked_world_def sample_world_def
        empty_database_def)
  obtain c where c: "project_context (lib_from_slice (app_libraries linked_app)) (wq_body ?q) = Some c"
    using sample_context_value by auto
  note c' = sample_context_branches [OF c [simplified]]
  have "repositories db1 = [sample_row]" "run_contexts db1 = []" "job_links db1 = [linked_row]"
    by (simp_all add: db1_def linked_world_def sample_world_def empty_database_def)
  then obtain db2 where upsert: "upsert_run no_faults [] (RepositoryId 1) c db1 = (Ok (), db2)"
    and links: "job_links db2 = [linked_row]"
    using linked_upsert [of db1 c] c' by auto
  obtain j where j: "into_summary sample_otel linked_row = Some j"
    and l: "link_span_context (sum_identity j) = \<lparr>sc_trace_id = replicate 16 1,
      sc_span_id = replicate 8 9, sc_sampled = True, sc_remote = True\<rparr>"
    using linked_summary by blast
  note listed = linked_listing [OF links j]
  obtain s where s: "project_run_summary (lib_from_slice (app_libraries linked_app)) (wq_body ?q) = Some s"
    using sample_summary_value by auto
  obtain p spans reports where p: "pipeline_run_trace_new
      \<lparr>prp_repository_name = wq_repository_name ?q, prp_delivery_id = wq_delivery_id ?q,
       prp_workflow_name = rs_workflow_name s, prp_head_sha = rs_head_sha s,
       prp_pull_requests = rs_pull_requests s, prp_run_context = c, prp_jobs = [j]\<rparr> = Some p"
    and e: "emit_pipeline (store_crypto (app_repository_store linked_app))
      (lib_hyphenated (app_libraries linked_app)) (app_workflow_trace_emitter linked_app) 0 p
      = Some (spans, reports)"
    and y: "\<exists>y \<in> set spans. xs_links y = [link_span_context (sum_identity j)]"
    using linked_pipeline [OF j, of "wq_repository_name ?q" "wq_delivery_id ?q" "rs_workflow_name s"
        "rs_head_sha s" "rs_pull_requests s" c] by (metis linked_app_simps(2))
  have amb: "amb_faults sample_ambient op = no_faults" "amb_sql_now sample_ambient op = []" for op
    by (simp_all add: sample_ambient_def)
  have otel: "lib_otel (app_libraries linked_app) = sample_otel"
    by (simp add: sample_libraries_def)
  have on: "emitter_is_enabled (app_workflow_trace_emitter linked_app)"
    by (simp add: emitter_is_enabled_def emitter_new_def)
  have "w_exported linked_world = []" by (simp add: linked_world_def sample_world_def)
  then have "\<exists>r d t w. solo service_thread_step [Proceed, Proceed, Proceed, Proceed, Proceed, Proceed,
      Proceed, Proceed] ?t linked_world = (Serving r d t, w) \<and> w_exported w = spans"
    using linked_request f event pr claim c upsert listed s p e amb otel on c'
    by (simp add: serve_webhook_task_def observe_http_request_task_def exporting_def
        observe_webhook_request_task_def webhook_endpoint_task_def webhook_handler_task_def
        process_delivery_task_def process_new_delivery_task_def process_workflow_run_task_def
        emit_pipeline_trace_task_def instrument_database_operation_def reading_def record_metric_def
        context_authenticate_def record_span_def Let_def MAX_PIPELINE_JOB_SPANS_def del: linked_app_simps)
  then obtain r d t w where "solo service_thread_step [Proceed, Proceed, Proceed, Proceed, Proceed,
      Proceed, Proceed, Proceed] ?t linked_world = (Serving r d t, w)" and w: "w_exported w = spans"
    by blast
  note reached = pool_solo [OF call this(1)]
  obtain z where z: "z \<in> set spans" "xs_links z = [link_span_context (sum_identity j)]" using y by blast
  have "\<exists>l \<in> set (xs_links z). sc_trace_id l = replicate 16 1 \<and> sc_span_id l = replicate 8 9"
    unfolding z(2) l by simp
  with z(1) have "\<exists>y \<in> set (w_exported w). \<exists>l \<in> set (xs_links y).
      sc_trace_id l = replicate 16 1 \<and> sc_span_id l = replicate 8 9" unfolding w by blast
  with reached show ?thesis by blast
qed

text \<open>The root span the link of \<open>linked_row\<close> names, as the earlier process exported it.\<close>

definition linked_root :: exported_span where
  "linked_root =
     \<lparr>xs_name = [], xs_context = \<lparr>sc_trace_id = replicate 16 1, sc_span_id = replicate 8 9,
        sc_sampled = True, sc_remote = False\<rparr>,
      xs_parent = None, xs_start = 3, xs_end = 4, xs_attributes = [], xs_links = [],
      xs_status = StatusUnset, xs_events = []\<rparr>"

lemma linked_start_ok:
  "otel_hex_ok (lib_otel (app_libraries linked_app))"
  "tracer_ok (app_workflow_trace_emitter linked_app)"
  "\<forall>row \<in> set (job_links (w_database linked_world)).
     grounded_row (lib_otel (app_libraries linked_app)) {linked_root} row"
  "w_exported linked_world = []"
proof -
  have "grounded_row sample_otel {linked_root} linked_row"
    unfolding grounded_row_def
    by (intro exI [of _ "replicate 16 1"] exI [of _ "replicate 8 9"])
      (simp add: linked_row_def linked_root_def job_root_def)
  then show "\<forall>row \<in> set (job_links (w_database linked_world)).
      grounded_row (lib_otel (app_libraries linked_app)) {linked_root} row"
    by (simp add: linked_world_def sample_libraries_def)
  show "otel_hex_ok (lib_otel (app_libraries linked_app))"
    by (simp add: sample_libraries_def sample_otel_ok)
  show "tracer_ok (app_workflow_trace_emitter linked_app)"
    by (simp add: tracer_ok_def emitter_new_def long_tracer_def)
  show "w_exported linked_world = []" by (simp add: linked_world_def sample_world_def)
qed

subsection \<open>Property\<close>

text \<open>
  C5: Every span of a run's trace links to the root span of an exported job trace, with the interval
  of that root, however the requests that export, record, list and prune are interleaved or dropped.
  \<open>E0\<close> are the spans earlier processes exported, on which the links they left in the database rest.
\<close>

theorem run_spans_link_exported_jobs:
  assumes "otel_hex_ok (lib_otel (app_libraries st))"
    and "tracer_ok (app_workflow_trace_emitter st)"
    and "\<forall>row \<in> set (job_links (w_database w0)). grounded_row (lib_otel (app_libraries st)) E0 row"
    and "w_exported w0 = []"
    and "pool_reachable service_thread_step (service_thread_start st source config) w0 T w"
  shows "\<forall>y \<in> set (w_exported w). \<forall>l \<in> set (xs_links y). \<exists>x \<in> E0 \<union> set (w_exported w).
      xs_parent x = None \<and> sc_trace_id (xs_context x) = sc_trace_id l
      \<and> sc_span_id (xs_context x) = sc_span_id l \<and> xs_start x = xs_start y \<and> xs_end x = xs_end y"
proof -
  have "linkable st" using assms(1,2) by (simp add: linkable_def)
  moreover have "links_grounded (lib_otel (app_libraries st)) E0 w0"
    using assms(3,4) by (simp add: links_grounded_def)
  ultimately have "linked_pool (lib_clock (app_libraries st)) (lib_otel (app_libraries st)) E0 T w"
    by (rule pool_law.reachable_inv [OF linked_service_pool assms(5)])
  then show ?thesis
    by (auto simp: linked_pool_def links_grounded_def grounded_span_def job_root_def)
qed

lemma run_spans_link_exported_jobs_witness:
  "\<exists>T w y l x. pool_reachable service_thread_step (service_thread_start linked_app
        (\<lambda>n b t. Err () :: (unit, required_checks) result) sample_config) linked_world T w
     \<and> y \<in> set (w_exported w) \<and> l \<in> set (xs_links y) \<and> sc_span_id l = replicate 8 9
     \<and> x \<in> {linked_root} \<union> set (w_exported w) \<and> sc_span_id (xs_context x) = sc_span_id l
     \<and> xs_start x = xs_start y \<and> xs_end x = xs_end y"
proof -
  let ?source = "\<lambda>n b t. Err () :: (unit, required_checks) result"
  obtain T w y l where r: "pool_reachable service_thread_step
      (service_thread_start linked_app ?source sample_config) linked_world T w"
    and y: "y \<in> set (w_exported w)" and l: "l \<in> set (xs_links y)" "sc_span_id l = replicate 8 9"
    using linked_run [of ?source sample_config] by blast
  from run_spans_link_exported_jobs [OF linked_start_ok r] y l(1) obtain x
    where "x \<in> {linked_root} \<union> set (w_exported w)" "sc_span_id (xs_context x) = sc_span_id l"
      "xs_start x = xs_start y" "xs_end x = xs_end y" by blast
  with r y l show ?thesis by blast
qed

end
