(* ===== verification/Formatting.thy ===== *)
theory Formatting
  imports Main_Program
begin

section \<open>What values print\<close>

text \<open>
  The \<open>Debug\<close> and \<open>Display\<close> implementations of the crate, over the part of \<open>std::fmt\<close> they use:
  \<open>debug_struct\<close>, \<open>Option\<close>, slices, pairs, integers, booleans, quoted text and durations, all in the
  one-line form of \<open>{:?}\<close>. The tables of Unicode behind the quoting of text, the quoting of paths and
  the texts of errors of other crates are the parameters \<open>display_lib\<close>. A derived \<open>Error\<close> prints its
  \<open>#[error]\<close> literal, which is the constructor's equation here.
\<close>

record 'a display_lib =
  grapheme_extended :: "nat \<Rightarrow> bool"
  printable :: "nat \<Rightarrow> bool"
  path_debug :: "os_string \<Rightarrow> rstring"
  address_debug :: "'a \<Rightarrow> rstring"
  sqlx_chain :: "sqlx_error \<Rightarrow> rstring list"
  io_chain :: "io_error \<Rightarrow> rstring list"
  open_chain :: "storage_error \<Rightarrow> rstring list"

subsection \<open>The standard library\<close>

fun hexadecimal :: "nat \<Rightarrow> rstring" where
  "hexadecimal n =
     (let digit = (\<lambda>d. if d < 10 then 48 + d else 87 + d)
      in if n < 16 then [digit n] else hexadecimal (n div 16) @ [digit (n mod 16)])"

declare hexadecimal.simps [simp del]

definition escape_debug :: "'a display_lib \<Rightarrow> nat \<Rightarrow> rstring" where
  "escape_debug lib c =
     (if c = 0 then [92, 48]
      else if c = 9 then [92, 116]
      else if c = 13 then [92, 114]
      else if c = 10 then [92, 110]
      else if c = 34 then [92, 34]
      else if c = 92 then [92, 92]
      else if grapheme_extended lib c \<or> \<not> printable lib c
        then [92, 117, 123] @ hexadecimal c @ [125]
      else [c])"

definition text_debug :: "'a display_lib \<Rightarrow> rstring \<Rightarrow> rstring" where
  "text_debug lib s = [34] @ concat (map (escape_debug lib) s) @ [34]"

fun separated :: "rstring \<Rightarrow> rstring list \<Rightarrow> rstring" where
  "separated sep [] = []"
| "separated sep [s] = s"
| "separated sep (s # t # ss) = s @ sep @ separated sep (t # ss)"

definition debug_struct :: "string \<Rightarrow> (string \<times> rstring) list \<Rightarrow> rstring" where
  "debug_struct name members =
     (if members = [] then lit name
      else lit name @ lit '' { '' @
        separated (lit '', '') (map (\<lambda>(n, v). lit n @ lit '': '' @ v) members) @ lit '' }'')"

definition debug_option :: "rstring option \<Rightarrow> rstring" where
  "debug_option x = (case x of None \<Rightarrow> lit ''None'' | Some v \<Rightarrow> lit ''Some('' @ v @ lit '')'')"

definition debug_list :: "rstring list \<Rightarrow> rstring" where
  "debug_list xs = lit ''['' @ separated (lit '', '') xs @ lit '']''"

definition debug_pair :: "rstring \<Rightarrow> rstring \<Rightarrow> rstring" where
  "debug_pair x y = lit ''('' @ x @ lit '', '' @ y @ lit '')''"

definition debug_bool :: "bool \<Rightarrow> rstring" where
  "debug_bool b = (if b then lit ''true'' else lit ''false'')"

text \<open>\<open>Duration\<close>: the decimal digits of the fraction, without trailing zeros.\<close>

function fraction_digits :: "nat \<Rightarrow> nat \<Rightarrow> rstring" where
  "fraction_digits n d =
     (if n = 0 \<or> d = 0 then [] else (48 + n div d) # fraction_digits (n mod d) (d div 10))"
  by auto

termination by (relation "measure snd") auto

declare fraction_digits.simps [simp del]

definition format_decimal :: "nat \<Rightarrow> nat \<Rightarrow> nat \<Rightarrow> rstring" where
  "format_decimal whole part divisor =
     decimal whole @ (if part = 0 then [] else 46 # fraction_digits part divisor)"

definition duration_debug :: "nat \<Rightarrow> rstring" where
  "duration_debug d =
     (if 1000000000 \<le> d
      then format_decimal (d div 1000000000) (d mod 1000000000) 100000000 @ lit ''s''
      else if 1000000 \<le> d
      then format_decimal (d div 1000000) (d mod 1000000) 100000 @ lit ''ms''
      else if 1000 \<le> d
      then format_decimal (d div 1000) (d mod 1000) 100 @ [181, 115]
      else format_decimal d 0 1 @ lit ''ns'')"

subsection \<open>Configuration\<close>

definition REDACTED :: "'a display_lib \<Rightarrow> rstring" where
  "REDACTED lib = text_debug lib (lit ''[REDACTED]'')"

definition telemetry_config_debug :: "'a display_lib \<Rightarrow> telemetry_config \<Rightarrow> rstring" where
  "telemetry_config_debug lib c = debug_struct ''TelemetryConfig''
     [(''enabled'', debug_bool (telemetry_is_enabled c)),
      (''transport'', REDACTED lib),
      (''queue_capacity'', decimal (tc_queue_capacity c)),
      (''batch_size'', decimal (tc_batch_size c)),
      (''shutdown_timeout'', duration_debug (tc_shutdown_timeout c)),
      (''service_name'', text_debug lib (tc_service_name c)),
      (''sentry_dsn'', debug_option (map_option (\<lambda>_. REDACTED lib) (tc_sentry_dsn c))),
      (''resource_attributes'', debug_list (map
         (\<lambda>(key, v). debug_pair (text_debug lib key) (text_debug lib v)) (tc_resource_attributes c)))]"

definition exporter_settings_debug :: "exporter_settings \<Rightarrow> rstring" where
  "exporter_settings_debug s = lit ''ExporterSettings([REDACTED])''"

definition github_app_config_debug :: "'a display_lib \<Rightarrow> github_app_config \<Rightarrow> rstring" where
  "github_app_config_debug lib c = debug_struct ''GitHubAppConfig''
     [(''app_id'', decimal (ga_app_id c)),
      (''installation_id'', decimal (ga_installation_id c)),
      (''private_key_pem'', REDACTED lib),
      (''api_base_url'', text_debug lib (ga_api_base_url c))]"

definition runtime_config_debug :: "'a display_lib \<Rightarrow> 'a runtime_config \<Rightarrow> rstring" where
  "runtime_config_debug lib c = debug_struct ''RuntimeConfig''
     [(''database_path'', path_debug lib (cfg_database_path c)),
      (''master_key'', REDACTED lib),
      (''admin_token'', REDACTED lib),
      (''bind_address'', address_debug lib (cfg_bind_address c)),
      (''shutdown_timeout'', duration_debug (cfg_shutdown_timeout c)),
      (''webhook_body_limit_bytes'', decimal (cfg_webhook_body_limit_bytes c)),
      (''workflow_job_max_steps'', decimal (cfg_workflow_job_max_steps c)),
      (''delivery_retention'', duration_debug (cfg_delivery_retention c)),
      (''merge_queue_retention'', duration_debug (cfg_merge_queue_retention c)),
      (''delivery_prune_interval'', duration_debug (cfg_delivery_prune_interval c)),
      (''required_check_ttl'', duration_debug (cfg_required_check_ttl c)),
      (''github_app'', debug_option (map_option (github_app_config_debug lib) (cfg_github_app c))),
      (''rust_log'', text_debug lib (cfg_rust_log c)),
      (''telemetry'', telemetry_config_debug lib (cfg_telemetry c))]"

fun config_error_display :: "config_error \<Rightarrow> rstring" where
  "config_error_display (Missing v) =
     lit ''required environment variable '' @ lit v @ lit '' is missing''"
| "config_error_display (Invalid v) =
     lit ''environment variable '' @ lit v @ lit '' has an invalid value''"

subsection \<open>Security and clients\<close>

definition master_key_debug :: "master_key \<Rightarrow> rstring" where
  "master_key_debug k = lit ''MasterKey([REDACTED])''"

definition admin_token_debug :: "admin_token \<Rightarrow> rstring" where
  "admin_token_debug t = lit ''AdminToken([REDACTED])''"

definition repository_secret_debug :: "repository_secret \<Rightarrow> rstring" where
  "repository_secret_debug s = lit ''RepositorySecret([REDACTED])''"

definition encrypted_secret_debug :: "'a display_lib \<Rightarrow> encrypted_repository_secret \<Rightarrow> rstring" where
  "encrypted_secret_debug lib e = debug_struct ''EncryptedRepositorySecret''
     [(''version'', decimal (enc_version e)), (''nonce'', REDACTED lib),
      (''ciphertext'', REDACTED lib)]"

definition cipher_debug :: "repository_secret_cipher \<Rightarrow> rstring" where
  "cipher_debug c = lit ''RepositorySecretCipher([REDACTED])''"

definition admin_authenticator_debug :: "admin_authenticator \<Rightarrow> rstring" where
  "admin_authenticator_debug a = lit ''AdminAuthenticator([REDACTED])''"

definition webhook_signature_debug :: "webhook_signature \<Rightarrow> rstring" where
  "webhook_signature_debug s = lit ''WebhookSignature([REDACTED])''"

fun security_error_display :: "security_error \<Rightarrow> rstring" where
  "security_error_display InvalidMasterKeyLength = lit ''master key must contain exactly 32 bytes''"
| "security_error_display InvalidAdminToken =
     lit ''administrator token must contain at least 32 bytes''"
| "security_error_display InvalidRepositorySecretLength =
     lit ''repository secret has an invalid length''"
| "security_error_display InvalidRepositoryName = lit ''repository name is invalid''"
| "security_error_display InvalidEncryptedSecret = lit ''encrypted repository secret is invalid''"
| "security_error_display (UnsupportedEncryptionVersion version) =
     lit ''repository secret encryption version '' @ decimal version @ lit '' is unsupported''"
| "security_error_display KeyDerivationFailed = lit ''repository secret key derivation failed''"
| "security_error_display EncryptionFailed = lit ''repository secret encryption failed''"
| "security_error_display DecryptionFailed = lit ''repository secret decryption failed''"

definition cached_token_debug ::
  "'a display_lib \<Rightarrow> (instant \<Rightarrow> rstring) \<Rightarrow> cached_installation_token \<Rightarrow> rstring" where
  "cached_token_debug lib instant_debug t = debug_struct ''CachedInstallationToken''
     [(''token'', REDACTED lib), (''expires_at'', instant_debug (token_expires_at t))]"

definition github_client_debug :: "'a display_lib \<Rightarrow> github_app_client \<Rightarrow> rstring" where
  "github_client_debug lib c = debug_struct ''GitHubAppClient''
     [(''app_id'', decimal (gc_app_id c)), (''installation_id'', decimal (gc_installation_id c)),
      (''api_base_url'', text_debug lib (gc_api_base_url c)), (''private_key'', REDACTED lib),
      (''installation_token'', REDACTED lib)]"

fun github_client_error_display :: "github_client_error \<Rightarrow> rstring" where
  "github_client_error_display github_client_error.PrivateKey =
     lit ''GitHub App private key is unusable''"
| "github_client_error_display github_client_error.Jwt = lit ''failed to sign the GitHub App JWT''"
| "github_client_error_display github_client_error.Transport = lit ''GitHub API request failed''"
| "github_client_error_display github_client_error.Unauthorized =
     lit ''GitHub API rejected the App credential''"
| "github_client_error_display github_client_error.Forbidden =
     lit ''GitHub App installation lacks branch-protection read permission''"
| "github_client_error_display github_client_error.RateLimited =
     lit ''GitHub API rate limit reached''"
| "github_client_error_display github_client_error.UnexpectedStatus =
     lit ''GitHub API returned an unexpected status''"
| "github_client_error_display github_client_error.Decode =
     lit ''GitHub API response could not be decoded''"

subsection \<open>Stores, retention, telemetry and requests\<close>

fun repository_store_error_display :: "repository_store_error \<Rightarrow> rstring" where
  "repository_store_error_display repository_store_error.AuthenticationFailed =
     lit ''webhook authentication failed''"
| "repository_store_error_display repository_store_error.NotFound =
     lit ''repository was not found''"
| "repository_store_error_display repository_store_error.Conflict =
     lit ''repository name already exists''"
| "repository_store_error_display repository_store_error.EmptyMutation =
     lit ''repository mutation must not be empty''"
| "repository_store_error_display (repository_store_error.Cryptographic e) =
     lit ''repository cryptographic operation failed''"
| "repository_store_error_display repository_store_error.Unavailable =
     lit ''repository storage is temporarily unavailable''"
| "repository_store_error_display repository_store_error.InternalData =
     lit ''internal repository persistence data failure''"
| "repository_store_error_display (repository_store_error.Internal e) =
     lit ''internal repository persistence failure''"

fun storage_error_display :: "storage_error \<Rightarrow> rstring" where
  "storage_error_display storage_error.FilePreparation =
     lit ''failed to prepare SQLite database file''"
| "storage_error_display storage_error.Open = lit ''failed to open SQLite database''"
| "storage_error_display storage_error.Migration = lit ''failed to migrate SQLite database''"
| "storage_error_display storage_error.Unavailable =
     lit ''SQLite database is temporarily unavailable''"
| "storage_error_display (storage_error.Internal e) = lit ''internal SQLite persistence failure''"

fun retention_error_display :: "retention_error \<Rightarrow> rstring" where
  "retention_error_display retention_error.InvalidInterval =
     lit ''retention prune interval must be positive''"
| "retention_error_display retention_error.InvalidRetention =
     lit ''retention duration is invalid''"

fun telemetry_error_display :: "telemetry_error \<Rightarrow> rstring" where
  "telemetry_error_display telemetry_error.InvalidFilter =
     lit ''RUST_LOG contains an invalid tracing filter''"
| "telemetry_error_display telemetry_error.TraceExporter =
     lit ''failed to construct the OTLP trace exporter''"
| "telemetry_error_display telemetry_error.LogExporter =
     lit ''failed to construct the OTLP log exporter''"
| "telemetry_error_display telemetry_error.SentryClient =
     lit ''failed to construct the Sentry error client''"
| "telemetry_error_display telemetry_error.AlreadyInitialized =
     lit ''the global tracing subscriber is already initialized''"
| "telemetry_error_display telemetry_error.Flush = lit ''failed to flush remote telemetry''"

fun app_error_debug :: "app_error \<Rightarrow> rstring" where
  "app_error_debug app_error.InvalidRequest = lit ''AppError::InvalidRequest''"
| "app_error_debug (app_error.Authentication e) = lit ''AppError::Authentication''"
| "app_error_debug (app_error.RepositoryStore e correlation_id) = lit ''AppError::RepositoryStore''"
| "app_error_debug app_error.InvalidWebhook = lit ''AppError::InvalidWebhook''"
| "app_error_debug app_error.UnauthorizedWebhook = lit ''AppError::UnauthorizedWebhook''"
| "app_error_debug app_error.WebhookPayloadTooLarge = lit ''AppError::WebhookPayloadTooLarge''"
| "app_error_debug app_error.UnsupportedWebhookMediaType =
     lit ''AppError::UnsupportedWebhookMediaType''"
| "app_error_debug (app_error.WebhookUnavailable correlation_id) =
     lit ''AppError::WebhookUnavailable''"
| "app_error_debug (app_error.Internal e correlation_id) = lit ''AppError::Internal''"

definition app_error_display :: "app_error \<Rightarrow> rstring" where
  "app_error_display e = lit ''request failed''"

subsection \<open>The report of a failed process\<close>

text \<open>
  The texts of the error \<open>main\<close> prints, outermost first: the context that \<open>run\<close> and \<open>run_service\<close>
  give it, then the error, then what that error names as its source.
\<close>

fun error_chain :: "'a display_lib \<Rightarrow> 'a \<Rightarrow> application_error \<Rightarrow> rstring list" where
  "error_chain lib address (LoadConfiguration e) =
     [lit ''failed to load runtime configuration'', config_error_display e]"
| "error_chain lib address (InitializeTelemetry e) =
     [lit ''failed to initialize telemetry'', telemetry_error_display e]"
| "error_chain lib address (InitializeStorage e) =
     [lit ''failed to initialize SQLite storage'', storage_error_display e] @
     (case e of
        storage_error.Unavailable \<Rightarrow> []
      | storage_error.Internal s \<Rightarrow> sqlx_chain lib s
      | _ \<Rightarrow> open_chain lib e)"
| "error_chain lib address (InitializeEncryption e) =
     [lit ''failed to initialize repository-secret encryption'', security_error_display e]"
| "error_chain lib address (InitializeGithubClient e) =
     [lit ''failed to initialize the GitHub App client'', github_client_error_display e]"
| "error_chain lib address (InitializeMetrics e) =
     [lit ''failed to initialize repository configuration metrics'',
      repository_store_error_display e] @
     (case e of
        repository_store_error.Cryptographic s \<Rightarrow> [security_error_display s]
      | repository_store_error.Internal s \<Rightarrow> sqlx_chain lib s
      | _ \<Rightarrow> [])"
| "error_chain lib address (InitializeRetention e) =
     [lit ''failed to initialize retention'', retention_error_display e]"
| "error_chain lib address (BindListener e) =
     [lit ''failed to bind HTTP listener at '' @ address_debug lib address] @ io_chain lib e"
| "error_chain lib address (ReadListenerAddress e) =
     [lit ''failed to read bound HTTP listener address''] @ io_chain lib e"
| "error_chain lib address (ServeHttp e) = lit ''HTTP server failed'' # io_chain lib e"

end
