(* ===== verification/Redaction.thy ===== *)
theory Redaction
  imports Formatting Program_Properties
begin

section \<open>Secrets are not printed\<close>

text \<open>
  What the process prints about its configuration does not depend on the secrets in it: the text of
  the accepted configuration, the log and the spans of the start, and the report of a refused one.
\<close>

subsection \<open>Configurations that differ in secrets\<close>

text \<open>The variables whose values are credentials, or carry them.\<close>

definition secret_variables :: "string set" where
  "secret_variables =
     {''GHE_MASTER_KEY'', ''GHE_ADMIN_TOKEN'', ''GHE_GITHUB_APP_PRIVATE_KEY_PATH'',
      ''GHE_GITHUB_APP_PRIVATE_KEY'', ''OTEL_EXPORTER_OTLP_ENDPOINT'',
      ''OTEL_EXPORTER_OTLP_TRACES_ENDPOINT'', ''OTEL_EXPORTER_OTLP_LOGS_ENDPOINT'',
      ''OTEL_EXPORTER_OTLP_HEADERS'', ''OTEL_EXPORTER_OTLP_TRACES_HEADERS'',
      ''OTEL_EXPORTER_OTLP_LOGS_HEADERS'', ''SENTRY_DSN''}"

definition same_but_secrets :: "environment \<Rightarrow> environment \<Rightarrow> bool" where
  "same_but_secrets l l' \<longleftrightarrow> (\<forall>v. v \<notin> secret_variables \<longrightarrow> l v = l' v)
     \<and> (\<forall>v. l v = None \<longleftrightarrow> l' v = None)"

text \<open>What two configurations have in common when only their secrets differ.\<close>

definition alike_github :: "github_app_config \<Rightarrow> github_app_config \<Rightarrow> bool" where
  "alike_github a a' \<longleftrightarrow> a\<lparr>ga_private_key_pem := []\<rparr> = a'\<lparr>ga_private_key_pem := []\<rparr>"

definition alike_telemetry :: "telemetry_config \<Rightarrow> telemetry_config \<Rightarrow> bool" where
  "alike_telemetry c c' \<longleftrightarrow>
     c\<lparr>tc_trace_exporter := None, tc_log_exporter := None, tc_sentry_dsn := None\<rparr>
       = c'\<lparr>tc_trace_exporter := None, tc_log_exporter := None, tc_sentry_dsn := None\<rparr>
     \<and> (tc_trace_exporter c = None \<longleftrightarrow> tc_trace_exporter c' = None)
     \<and> (tc_log_exporter c = None \<longleftrightarrow> tc_log_exporter c' = None)
     \<and> (tc_sentry_dsn c = None \<longleftrightarrow> tc_sentry_dsn c' = None)"

definition alike :: "'a runtime_config \<Rightarrow> 'a runtime_config \<Rightarrow> bool" where
  "alike c c' \<longleftrightarrow>
     c'\<lparr>cfg_master_key := cfg_master_key c, cfg_admin_token := cfg_admin_token c,
        cfg_github_app := cfg_github_app c, cfg_telemetry := cfg_telemetry c\<rparr> = c
     \<and> rel_option alike_github (cfg_github_app c) (cfg_github_app c')
     \<and> alike_telemetry (cfg_telemetry c) (cfg_telemetry c')"

lemma alike_fields:
  assumes "alike c c'"
  shows "cfg_database_path c' = cfg_database_path c" "cfg_bind_address c' = cfg_bind_address c"
    "cfg_shutdown_timeout c' = cfg_shutdown_timeout c"
    "cfg_webhook_body_limit_bytes c' = cfg_webhook_body_limit_bytes c"
    "cfg_workflow_job_max_steps c' = cfg_workflow_job_max_steps c"
    "cfg_delivery_retention c' = cfg_delivery_retention c"
    "cfg_merge_queue_retention c' = cfg_merge_queue_retention c"
    "cfg_delivery_prune_interval c' = cfg_delivery_prune_interval c"
    "cfg_required_check_ttl c' = cfg_required_check_ttl c" "cfg_rust_log c' = cfg_rust_log c"
    "rel_option alike_github (cfg_github_app c) (cfg_github_app c')"
    "alike_telemetry (cfg_telemetry c) (cfg_telemetry c')"
  using assms unfolding alike_def by (cases c; cases c'; simp)+

lemma presence_read:
  "validated_endpoint lib l v = Ok x \<Longrightarrow> x = None \<longleftrightarrow> l v = None"
  "optional_string l v = Ok y \<Longrightarrow> y = None \<longleftrightarrow> l v = None"
  by (auto simp: validated_endpoint_def optional_string_def map_transpose_def and_then_Ok_iff
      split: option.splits)

lemma alike_github_fields:
  assumes "alike_github a a'"
  shows "ga_app_id a' = ga_app_id a" "ga_installation_id a' = ga_installation_id a"
    "ga_api_base_url a' = ga_api_base_url a"
  using assms unfolding alike_github_def by (cases a; cases a'; simp)+

lemma github_alike:
  assumes "same_but_secrets l l'" and "github_app_from_lookup lib l = Ok g"
    and "github_app_from_lookup lib l' = Ok g'"
  shows "rel_option alike_github g g'"
proof -
  have v: "l' ''GHE_GITHUB_APP_ID'' = l ''GHE_GITHUB_APP_ID''"
    "l' ''GHE_GITHUB_APP_INSTALLATION_ID'' = l ''GHE_GITHUB_APP_INSTALLATION_ID''"
    "l' ''GHE_GITHUB_API_BASE_URL'' = l ''GHE_GITHUB_API_BASE_URL''"
    using assms(1) by (simp_all add: same_but_secrets_def secret_variables_def)
  note r = reader_cong(6) [of l' "''GHE_GITHUB_APP_ID''" l, OF v(1)]
    reader_cong(6) [of l' "''GHE_GITHUB_APP_INSTALLATION_ID''" l, OF v(2)]
    reader_cong(7) [of l' "''GHE_GITHUB_API_BASE_URL''" l, OF v(3)]
  obtain a i k where p: "optional_positive_u64_variable l ''GHE_GITHUB_APP_ID'' = Ok a"
    "optional_positive_u64_variable l ''GHE_GITHUB_APP_INSTALLATION_ID'' = Ok i"
    "optional_private_key lib l = Ok k"
    using assms(2) unfolding github_app_from_lookup_def and_then_Ok_iff by blast
  obtain k' where p': "optional_private_key lib l' = Ok k'"
    using assms(3) unfolding github_app_from_lookup_def and_then_Ok_iff by blast
  have "github_app_from_lookup lib l' = Ok g'" "github_app_from_lookup lib l = Ok g"
    by (rule assms)+
  then show ?thesis
    unfolding github_app_from_lookup_def r p p' and_then_simps
    by (cases a; cases i; cases k; cases k') (auto simp: and_then_Ok_iff alike_github_def)
qed

lemma none_read:
  "(case a of None \<Rightarrow> b | Some x \<Rightarrow> Some x) = None \<longleftrightarrow> a = None \<and> b = None"
  "append_signal_path e s = None \<longleftrightarrow> e = None"
  by (simp_all add: append_signal_path_def split: option.split)

lemma exporters_present:
  assumes "telemetry_exporters lib l = Ok (t, g)"
  shows "t = None \<longleftrightarrow> l ''OTEL_EXPORTER_OTLP_TRACES_ENDPOINT'' = None
      \<and> l ''OTEL_EXPORTER_OTLP_ENDPOINT'' = None"
    and "g = None \<longleftrightarrow> l ''OTEL_EXPORTER_OTLP_LOGS_ENDPOINT'' = None
      \<and> l ''OTEL_EXPORTER_OTLP_ENDPOINT'' = None"
proof -
  obtain e a b where "validated_endpoint lib l ''OTEL_EXPORTER_OTLP_ENDPOINT'' = Ok e"
    "validated_endpoint lib l ''OTEL_EXPORTER_OTLP_TRACES_ENDPOINT'' = Ok a"
    "validated_endpoint lib l ''OTEL_EXPORTER_OTLP_LOGS_ENDPOINT'' = Ok b"
    and "t = None \<longleftrightarrow> a = None \<and> e = None" "g = None \<longleftrightarrow> b = None \<and> e = None"
    using assms unfolding telemetry_exporters_def and_then_Ok_iff Let_def
    by (elim exE conjE) (auto simp: none_read)
  then show "t = None \<longleftrightarrow> l ''OTEL_EXPORTER_OTLP_TRACES_ENDPOINT'' = None
      \<and> l ''OTEL_EXPORTER_OTLP_ENDPOINT'' = None"
    "g = None \<longleftrightarrow> l ''OTEL_EXPORTER_OTLP_LOGS_ENDPOINT'' = None
      \<and> l ''OTEL_EXPORTER_OTLP_ENDPOINT'' = None"
    by (simp_all only: presence_read)
qed

lemma telemetry_alike:
  assumes "same_but_secrets l l'" and "telemetry_from_lookup lib l = Ok c"
    and "telemetry_from_lookup lib l' = Ok c'"
  shows "alike_telemetry c c'"
proof -
  have v: "l' v = l v" if "v \<notin> secret_variables" for v
    using assms(1) that by (simp add: same_but_secrets_def)
  have p: "l v = None \<longleftrightarrow> l' v = None" for v
    using assms(1) by (simp add: same_but_secrets_def)
  have q: "telemetry_queue l' = telemetry_queue l" "telemetry_service_name l' = telemetry_service_name l"
    "validated_resource_attributes lib l' = validated_resource_attributes lib l"
    using v by (simp_all add: telemetry_queue_def telemetry_service_name_def
        validated_resource_attributes_def secret_variables_def reader_cong [of l' _ l]
        cong: if_cong option.case_cong)
  obtain x y z s d r where x: "telemetry_queue l = Ok (x, y, z)" "telemetry_service_name l = Ok s"
    "validated_resource_attributes lib l = Ok r"
    using assms(2) by (auto simp: telemetry_from_lookup_def and_then_Ok_iff)
  obtain t g e where c: "telemetry_exporters lib l = Ok (t, g)"
      "telemetry_sentry_dsn lib l (t \<noteq> None) = Ok e"
      "c = \<lparr>tc_trace_exporter = t, tc_log_exporter = g, tc_queue_capacity = x, tc_batch_size = y,
         tc_shutdown_timeout = z, tc_service_name = s, tc_sentry_dsn = e, tc_resource_attributes = r\<rparr>"
    using assms(2) x by (auto simp: telemetry_from_lookup_def and_then_Ok_iff)
  obtain t' g' e' where c': "telemetry_exporters lib l' = Ok (t', g')"
      "telemetry_sentry_dsn lib l' (t' \<noteq> None) = Ok e'"
      "c' = \<lparr>tc_trace_exporter = t', tc_log_exporter = g', tc_queue_capacity = x, tc_batch_size = y,
         tc_shutdown_timeout = z, tc_service_name = s, tc_sentry_dsn = e', tc_resource_attributes = r\<rparr>"
    using assms(3) x q by (auto simp: telemetry_from_lookup_def and_then_Ok_iff)
  have dsn: "f = None \<longleftrightarrow> m ''SENTRY_DSN'' = None" if "telemetry_sentry_dsn lib m b = Ok f" for m b f
    using that presence_read(2) [of m]
    by (auto simp: telemetry_sentry_dsn_def and_then_Ok_iff map_transpose_def
        split: option.splits if_splits)
  show ?thesis
    using exporters_present [OF c(1)] exporters_present [OF c'(1)] dsn [OF c(2)] dsn [OF c'(2)] p
    unfolding alike_telemetry_def c(3) c'(3) by simp
qed

lemma runtime_alike:
  assumes "same_but_secrets l l'" and "runtime_from_lookup lib l = Ok c"
    and "runtime_from_lookup lib l' = Ok c'"
  shows "alike c c'"
proof -
  have v: "l' v = l v" if "v \<notin> secret_variables" for v
    using assms(1) that by (simp add: same_but_secrets_def)
  note r = reader_cong [of l' _ l]
  have q: "database_path_from_lookup l' = database_path_from_lookup l"
    "bind_address_from_lookup lib l' = bind_address_from_lookup lib l"
    "shutdown_timeout_from_lookup l' = shutdown_timeout_from_lookup l"
    "webhook_limits l' = webhook_limits l" "retention_from_lookup l' = retention_from_lookup l"
    "required_check_ttl_from_lookup l' = required_check_ttl_from_lookup l"
    "rust_log_from_lookup lib l' = rust_log_from_lookup lib l"
    using v by (simp_all add: database_path_from_lookup_def bind_address_from_lookup_def
        shutdown_timeout_from_lookup_def webhook_limits_def retention_from_lookup_def
        required_check_ttl_from_lookup_def rust_log_from_lookup_def secret_variables_def r
        cong: if_cong option.case_cong)
  from assms(2) obtain g t where
    "github_app_from_lookup lib l = Ok g" "telemetry_from_lookup lib l = Ok t"
    "cfg_github_app c = g" "cfg_telemetry c = t"
    by (auto simp: runtime_from_lookup_def and_then_Ok_iff)
  moreover from assms(3) obtain g' t' where
    "github_app_from_lookup lib l' = Ok g'" "telemetry_from_lookup lib l' = Ok t'"
    "cfg_github_app c' = g'" "cfg_telemetry c' = t'"
    by (auto simp: runtime_from_lookup_def and_then_Ok_iff)
  ultimately have "rel_option alike_github (cfg_github_app c) (cfg_github_app c')"
    "alike_telemetry (cfg_telemetry c) (cfg_telemetry c')"
    using github_alike telemetry_alike assms(1) by blast+
  moreover have "c'\<lparr>cfg_master_key := cfg_master_key c, cfg_admin_token := cfg_admin_token c,
        cfg_github_app := cfg_github_app c, cfg_telemetry := cfg_telemetry c\<rparr> = c"
    using assms(2,3) by (auto simp: runtime_from_lookup_def q and_then_Ok_iff)
  ultimately show ?thesis by (simp add: alike_def)
qed

subsection \<open>The text of a configuration\<close>

lemma alike_debug:
  assumes "alike c c'"
  shows "runtime_config_debug lib c = runtime_config_debug lib c'"
proof -
  note f = alike_fields [OF assms]
  have "map_option (github_app_config_debug lib) (cfg_github_app c)
      = map_option (github_app_config_debug lib) (cfg_github_app c')"
    using f(11) by (cases "cfg_github_app c"; cases "cfg_github_app c'")
      (auto simp: alike_github_fields github_app_config_debug_def)
  moreover have "telemetry_config_debug lib (cfg_telemetry c)
      = telemetry_config_debug lib (cfg_telemetry c')"
  proof -
    obtain t t' where t: "cfg_telemetry c = t" "cfg_telemetry c' = t'" by simp
    have "map_option (\<lambda>_. REDACTED lib) (tc_sentry_dsn t) = map_option (\<lambda>_. REDACTED lib) (tc_sentry_dsn t')"
      using f(12) t by (cases "tc_sentry_dsn t"; cases "tc_sentry_dsn t'") (auto simp: alike_telemetry_def)
    then show ?thesis
      using f(12) unfolding t alike_telemetry_def telemetry_config_debug_def telemetry_is_enabled_def
      by (cases t; cases t') simp
  qed
  ultimately show ?thesis unfolding runtime_config_debug_def f(1-10) by simp
qed

subsection \<open>The start\<close>

lemma start_alike:
  assumes "alike c c'" and "run_state (start_service pf c em) w = (Ok sv, w1)"
    and "run_state (start_service pf c' em') w = (Ok sv', w1')"
  shows "w1 = w1' \<and> sv_retention sv = sv_retention sv' \<and> sv_address sv = sv_address sv'"
proof -
  note f = alike_fields [OF assms(1)]
  have g: "cfg_github_app c = None \<longleftrightarrow> cfg_github_app c' = None" using f(11) by (auto elim: option.rel_cases)
  have l: "listening pf c' = listening pf c" unfolding listening_def f ..
  show ?thesis
    using assms(2,3) g unfolding start_service_def with_refresher_def f(1,9) l
    by (auto simp: case_prod_beta split: sum.splits option.splits)
qed

subsection \<open>A refused configuration\<close>

text \<open>
  A refusal is reported by two texts, of which the second is one of the two phrases about a
  documented variable: nothing the environment holds is in them.
\<close>

lemma refused_configuration_report:
  assumes "runtime_from_lookup clib l = Err e"
  shows "\<exists>v \<in> set config_variables.
     error_chain lib address (LoadConfiguration e) = [lit ''failed to load runtime configuration'',
       lit ''required environment variable '' @ lit v @ lit '' is missing'']
   \<or> error_chain lib address (LoadConfiguration e) = [lit ''failed to load runtime configuration'',
       lit ''environment variable '' @ lit v @ lit '' has an invalid value'']"
  using runtime_names_variable [of clib l] assms
  by (cases e) (auto simp: names_variable_def)

text \<open>
  The base address of GitHub's interface is not among the secrets, although the validation accepts
  an address with a user and a password in it: they are printed.
\<close>

lemma separated_mem: "v \<in> set xs \<Longrightarrow> \<exists>p q. separated sep xs = p @ v @ q"
proof (induction sep xs rule: separated.induct)
  case (2 sep s)
  then show ?case by (intro exI [of _ "[]"]) simp
next
  case (3 sep s t ss)
  show ?case
  proof (cases "v = s")
    case True
    then show ?thesis
      by (intro exI [of _ "[]"] exI [of _ "sep @ separated sep (t # ss)"]) simp
  next
    case False
    with 3 obtain p q where "separated sep (t # ss) = p @ v @ q" by auto
    then show ?thesis by (intro exI [of _ "s @ sep @ p"] exI [of _ q]) simp
  qed
qed simp

lemma debug_struct_mem:
  assumes "(n, v) \<in> set members"
  shows "\<exists>p q. debug_struct name members = p @ v @ q"
proof -
  have "lit n @ lit '': '' @ v \<in> set (map (\<lambda>(n, v). lit n @ lit '': '' @ v) members)"
    using assms by (force simp: image_iff)
  from separated_mem [OF this] obtain p q where
    "separated (lit '', '') (map (\<lambda>(n, v). lit n @ lit '': '' @ v) members)
       = p @ (lit n @ lit '': '' @ v) @ q" by blast
  moreover have "members \<noteq> []" using assms by auto
  ultimately show ?thesis
    by (intro exI [of _ "lit name @ lit '' { '' @ p @ lit n @ lit '': ''"] exI [of _ "q @ lit '' }''"])
      (simp add: debug_struct_def)
qed

lemma base_url_credentials_printed:
  assumes "cfg_github_app c = Some a"
    and "\<forall>b \<in> set (ga_api_base_url a). escape_debug lib b = [b]"
  shows "\<exists>p q. runtime_config_debug lib c = p @ ga_api_base_url a @ q"
proof -
  have plain: "\<forall>b \<in> set s. escape_debug lib b = [b] \<Longrightarrow> text_debug lib s = [34] @ s @ [34]" for s
    by (induction s) (auto simp: text_debug_def)
  have "\<exists>p q. github_app_config_debug lib a = p @ text_debug lib (ga_api_base_url a) @ q"
    unfolding github_app_config_debug_def by (rule debug_struct_mem [of "''api_base_url''"]) simp
  then obtain p q where g: "github_app_config_debug lib a
      = (p @ [34]) @ ga_api_base_url a @ ([34] @ q)"
    using plain [OF assms(2)] by auto
  have "\<exists>p q. runtime_config_debug lib c
      = p @ debug_option (map_option (github_app_config_debug lib) (cfg_github_app c)) @ q"
    unfolding runtime_config_debug_def by (rule debug_struct_mem [of "''github_app''"]) simp
  then obtain p' q' where "runtime_config_debug lib c
      = p' @ debug_option (map_option (github_app_config_debug lib) (cfg_github_app c)) @ q'" by blast
  then have "runtime_config_debug lib c = (p' @ lit ''Some('' @ p @ [34]) @ ga_api_base_url a
      @ ([34] @ q @ lit '')'' @ q')"
    using assms(1) g by (simp add: debug_option_def)
  then show ?thesis by blast
qed

subsection \<open>Property\<close>

text \<open>
  C34: Two environments that set the same variables, and differ only in the values of the master key,
  the administration token, the GitHub private key, the collectors' addresses and headers and the
  Sentry address, give configurations that print the same text, and a service that starts with
  either writes the same log, spans and metrics and schedules the same retention.
\<close>

theorem configuration_secrets_unprinted:
  assumes "same_but_secrets l l'"
    and "runtime_from_lookup clib l = Ok c" and "runtime_from_lookup clib l' = Ok c'"
    and "run_state (start_service pf c em) w = (Ok sv, w1)"
    and "run_state (start_service pf c' em') w = (Ok sv', w1')"
  shows "runtime_config_debug lib c = runtime_config_debug lib c'
    \<and> w1 = w1' \<and> sv_retention sv = sv_retention sv' \<and> sv_address sv = sv_address sv'"
proof -
  note a = runtime_alike [OF assms(1-3)]
  from alike_debug [OF a] start_alike [OF a assms(4,5)] show ?thesis by simp
qed

definition sample_display_lib :: "nat display_lib" where
  "sample_display_lib =
     \<lparr>grapheme_extended = (\<lambda>_. False), printable = (\<lambda>c. 32 \<le> c),
      path_debug = (\<lambda>p. case p of Unicode s \<Rightarrow> [34] @ s @ [34] | NotUnicode \<Rightarrow> []),
      address_debug = decimal, sqlx_chain = (\<lambda>_. []), io_chain = (\<lambda>_. []), open_chain = (\<lambda>_. [])\<rparr>"

lemma configuration_secrets_unprinted_witness:
  "\<exists>c' sv sv' w1 w1'.
     runtime_from_lookup sample_config_lib (minimal_environment [47] [50] (replicate 33 97)) = Ok c'
     \<and> cfg_admin_token c' \<noteq> cfg_admin_token sample_runtime_config
     \<and> run_state (start_service sample_platform sample_runtime_config emitter_disabled) sample_world
         = (Ok sv, w1)
     \<and> run_state (start_service sample_platform c' emitter_disabled) sample_world = (Ok sv', w1')
     \<and> w1 = w1'
     \<and> runtime_config_debug sample_display_lib sample_runtime_config
         = runtime_config_debug sample_display_lib c'"
proof -
  let ?t = "replicate 33 (97 :: nat)" and ?c = "sample_runtime_config\<lparr>cfg_admin_token := AdminToken (replicate 33 97)\<rparr>"
  have "utf8_numbers (replicate n 97) = replicate n 97" for n
    by (induction n) (simp_all add: utf8_numbers_def utf8_char_def)
  then have "byte_len ?t = 33" unfolding byte_len_def as_bytes_def length_map by simp
  then have t: "32 \<le> byte_len ?t" by simp
  have n: "?t \<noteq> [50]" by (simp add: numeral_eq_Suc)
  have c: "runtime_from_lookup sample_config_lib (minimal_environment [47] [50] ?t) = Ok ?c"
    unfolding minimal_runtime [OF sample_config_facts(1-3) t n sample_config_facts(6,7)]
    by (simp add: sample_runtime_config_def)
  have s: "same_but_secrets sample_environment (minimal_environment [47] [50] ?t)"
    by (auto simp: same_but_secrets_def sample_environment_def minimal_environment_def
        secret_variables_def)
  obtain sv w1 where a: "run_state (start_service sample_platform sample_runtime_config
      emitter_disabled) sample_world = (Ok sv, w1)" using sample_started by blast
  obtain sv' w1' where b: "run_state (start_service sample_platform ?c emitter_disabled) sample_world
      = (Ok sv', w1')" using sample_started_token by blast
  have "cfg_admin_token ?c \<noteq> cfg_admin_token sample_runtime_config"
    by (simp add: sample_runtime_config_def)
  with configuration_secrets_unprinted [OF s sample_runtime_config c a b] a b c show ?thesis by blast
qed

end
