(* ===== verification/Spec2Isabelle.thy ===== *)
theory Spec2Isabelle
  imports Program_Properties Pipeline Histogram_Buckets Metric_Accounting Delivery_Accounting Linked_Properties Redaction
begin

text \<open>
  The GitHub webhook exporter is an HTTP service that authenticates the webhook deliveries of the
  configured repositories, deduplicates them, keeps merge-queue and workflow state in SQLite,
  exposes bounded Prometheus metrics and emits OpenTelemetry traces of completed workflow jobs and
  runs. This library models the crate under \<open>src/src\<close> component by component, with the names of the
  source, and proves what each component promises and what the parts promise together.

  \<^bold>\<open>Conventions.\<close> A struct is a record, an enum a datatype, \<open>Result\<close> a sum (\<open>Err\<close>, \<open>Ok\<close>), the
  question-mark operator \<open>and_then\<close>. Text is the list of its scalar values, bytes are 8-bit words;
  counters that wrap are words, sizes and validated integers natural numbers or integers with the
  overflow checks of the source written out; an instant or a duration is a number of nanoseconds.
  Code that is not in the repository (SQLite's failures, the AEAD and HMAC primitives, JSON text,
  RFC 3339, percent encoding, URLs, the OpenTelemetry SDK, reqwest, axum, tokio) is a parameter: a field of
  a library record, a function that says which statement fails, or a list of events. What a proof
  needs of it is a named hypothesis, with a witness on a concrete instance. A handler is a
  computation of the state monad over the record \<open>world\<close>.

  \<^bold>\<open>Values.\<close> Prelude has the text, integer and \<open>Result\<close> vocabulary; Domain \<open>domain/\<close>; Security
  \<open>security/\<close>; Workflow_Values the validated values of \<open>telemetry/workflow.rs\<close>; Json the readers the
  serde derives stand for. Their lemmas give the bounds, idempotence and inverse of each sanitizer
  and parser.

  \<^bold>\<open>Storage.\<close> Table has keyed tables, their laws as a locale, and SQLite's error classes; Database
  the rows and constraints of the migrations; Delivery_Store, Merge_Queue_Store, Repository_Store,
  Workflow_Run_Store, Required_Check_Store and Workflow_Job_Link_Store the operations of
  \<open>storage/\<close>. Each operation preserves \<open>db_ok\<close>, whatever statement fails; the properties are the
  round trips, the life of an attempt, at-most-once claims and the freezing of tampered rows.
  Retention is the pass of \<open>retention.rs\<close>: it ends and deletes exactly what has expired.

  \<^bold>\<open>Webhooks.\<close> App_Error is \<open>error.rs\<close>; Service the state of
  \<open>app.rs\<close>; Webhook, Event_Projections, Workflow_Job_Projection, Queue_Processor and
  Webhook_Handler the files of \<open>api/\<close>, from the extractor to the layers around the
  endpoint. Handler_Relation states once, as a locale, what a relation between worlds must satisfy
  to hold across every handler; Webhook_Guarantees interprets it for the growth of the database,
  its constraints, the queue's bound, the gauge and the absence of panics. Repositories_Api is the
  administration API. Required_Check_Refresh is the refresher and Github_Client the client of
  \<open>github/\<close>; Request_Target, under the path rules of the URL standard, confines the
  request target of a branch without a backslash and shows how one with backslashes leaves it;
  Github_Properties bounds the tokens that are minted and connects the answers to the cache.
  Http_Router routes every request, and shows that only credentialed ones take effect.

  \<^bold>\<open>Telemetry.\<close> Metrics, Metric_Cardinality, Metric_Accounting and
  Histogram_Buckets are \<open>metrics.rs\<close>: the registry after any list of requests is
  compared with those requests series by series. Trace, Workflow_Error, Workflow_Emit and Pipeline
  are the spans and error reports of \<open>telemetry/\<close>. Interleaving defines a pool of
  threads that step through atomic accesses, in any order and with spurious failures of weak
  exchanges, and its induction principle as a locale. Diagnostics uses it for the limiter of
  \<open>telemetry/diagnostics.rs\<close> and Admission_Boundary for the queue boundary of
  \<open>telemetry/queue.rs\<close>: occupancy, accounting, and the refinement of an abstract
  gate. Otlp_Client is \<open>telemetry/http_client.rs\<close>; Telemetry_Runtime the set-up and
  shutdown of \<open>telemetry.rs\<close>.

  \<^bold>\<open>The process.\<close> Config is \<open>config.rs\<close>; Server_Lifecycle \<open>lifecycle.rs\<close>, \<open>health.rs\<close>, the server
  loop of \<open>app.rs\<close> and the worker loop of \<open>retention.rs\<close>; Main_Program \<open>main.rs\<close>. Service_Invariant
  proves the invariant of the running service for its step relation; Program_Properties carries it
  through the start and every list of actions, and explains the exit code, the telemetry shutdown
  and that a signalled process exits. Formatting has the \<open>Debug\<close> and \<open>Display\<close> texts of the
  configuration, the credentials and the errors; Redaction shows that no secret is in what the
  process prints about its configuration and its start.

  \<^bold>\<open>Concurrency.\<close> The handlers above are sequential computations; the process runs many of them at
  once. Request_Tasks cuts every handler into steps (\<open>task\<close>): one store operation, one metric request,
  one finished span or one export each, which refines what may happen at the awaits of the source;
  run without interruption a task is its handler. Service_Threads puts webhook requests,
  administration requests, turns of the refresher and retention passes into one pool, a pass one
  batch of one table at a step. A thread may also be dropped between two of its steps, as a request
  is when its client disconnects. Concurrent_Service proves by rely and guarantee that every task
  keeps what the others rely on. Concurrent_Properties states the service invariant for the pool,
  with the exact error of the gauge while creations are in flight or after one was dropped;
  Request_Progress bounds the steps to an answer under any interference. Linked_Traces and
  Linked_Properties follow the identifiers of a job's trace from its export through the link store
  into the trace of the run, across requests. Delivery_Accounting counts claims against events over
  all threads: copies of a delivery that are in flight together are processed once.

  \<^bold>\<open>Bounds.\<close> No definition uses fuel. The prune loops and the shutdown wait answer \<open>None\<close> while they
  have not ended; that they end is proved. Lists of events and of thread steps are arbitrary.

  \<^bold>\<open>Not modelled.\<close> The text encoding of the metrics registry; accessor functions
  and the \<open>Debug\<close> texts of the values beside those of Formatting; the stderr subscriber, its fallback and the log line of a failing \<open>main\<close>; the
  SDK's batch processor beyond a bounded queue, and its own drops after a shutdown; the atomics'
  memory orderings (the pool is sequentially consistent); the panic of \<open>is_usable_at\<close> at the end
  of the clock's range; a debug build's assertions; interleaving inside one
  store operation, which SQLite makes atomic; the metrics the telemetry observer records are kept
  beside those of the handlers, with which they share no instrument. Test modules, the Helm chart
  and the dashboards have no counterpart here.
\<close>

end
